(* ===== verification/Go_Prelude.thy ===== *)
theory Go_Prelude
  imports Main "HOL-Library.Sublist"
begin

text \<open>
  The prelude of the development: the parts of Go and of its standard library that several
  components use, with the lemmas they share.

  A Go \<open>string\<close> is a sequence of bytes, and so is HOL's \<^typ>\<open>string\<close> (a list of 8-bit
  characters); the functions below keep the names of the packages \<open>strings\<close>, \<open>path\<close> and
  \<open>path/filepath\<close> (with the Linux separator). \<open>strings_ToLower\<close> maps the ASCII letters and
  leaves every byte above 127 alone, which is what Go does on ASCII text; the program applies it
  to service names, header names, file extensions and driver messages.

  A Go \<open>int\<close> or \<open>int64\<close> is an \<^typ>\<open>int\<close> here; where a computation can leave the 64-bit range
  the wrap-around is written out with \<open>wrap64\<close>. A \<open>time.Time\<close> is the number of nanoseconds
  since Go's zero time (1 January of year 1, UTC), so that \<open>IsZero\<close> is equality with 0.
\<close>

named_theorems go_simps \<open>evaluation rules of the string and path functions\<close>

section \<open>Strings\<close>

type_synonym gostring = string

abbreviation slash :: char where
  "slash \<equiv> CHR ''/''"

definition strings_HasPrefix :: "string \<Rightarrow> string \<Rightarrow> bool" where
  "strings_HasPrefix s p = (take (length p) s = p)"

definition strings_HasSuffix :: "string \<Rightarrow> string \<Rightarrow> bool" where
  "strings_HasSuffix s p = (length p \<le> length s \<and> drop (length s - length p) s = p)"

fun strings_Contains :: "string \<Rightarrow> string \<Rightarrow> bool" where
  "strings_Contains [] sub = (sub = [])"
| "strings_Contains (c # cs) sub = (strings_HasPrefix (c # cs) sub \<or> strings_Contains cs sub)"

definition strings_ContainsAny :: "string \<Rightarrow> string \<Rightarrow> bool" where
  "strings_ContainsAny s chars = list_ex (\<lambda>c. c \<in> set chars) s"

text \<open>\<open>strings.Index\<close> with \<open>None\<close> for the result \<open>-1\<close>.\<close>

fun strings_Index :: "string \<Rightarrow> string \<Rightarrow> nat option" where
  "strings_Index [] sub = (if sub = [] then Some 0 else None)"
| "strings_Index (c # cs) sub =
     (if strings_HasPrefix (c # cs) sub then Some 0 else map_option Suc (strings_Index cs sub))"

fun strings_LastIndex :: "string \<Rightarrow> string \<Rightarrow> nat option" where
  "strings_LastIndex [] sub = (if sub = [] then Some 0 else None)"
| "strings_LastIndex (c # cs) sub =
     (case strings_LastIndex cs sub of
        Some i \<Rightarrow> Some (Suc i)
      | None \<Rightarrow> (if strings_HasPrefix (c # cs) sub then Some 0 else None))"

definition strings_TrimPrefix :: "string \<Rightarrow> string \<Rightarrow> string" where
  "strings_TrimPrefix s p = (if strings_HasPrefix s p then drop (length p) s else s)"

definition strings_TrimSuffix :: "string \<Rightarrow> string \<Rightarrow> string" where
  "strings_TrimSuffix s p = (if strings_HasSuffix s p then take (length s - length p) s else s)"

text \<open>\<open>strings.Trim(s, "c")\<close> and \<open>strings.TrimRight(s, "c")\<close> for a cutset of one byte.\<close>

definition strings_TrimRight :: "string \<Rightarrow> char \<Rightarrow> string" where
  "strings_TrimRight s c = rev (dropWhile (\<lambda>x. x = c) (rev s))"

definition strings_Trim :: "string \<Rightarrow> char \<Rightarrow> string" where
  "strings_Trim s c = strings_TrimRight (dropWhile (\<lambda>x. x = c) s) c"

text \<open>
  \<open>strings.TrimSpace\<close> removes the UTF-8 encodings of the code points with the Unicode property
  White\_Space: six ASCII bytes, U+0085, U+00A0, U+1680, U+2000 to U+200A, U+2028, U+2029,
  U+202F, U+205F and U+3000.
\<close>

definition utf8_spaces :: "string list" where
  "utf8_spaces =
     [[CHR 0x09], [CHR 0x0A], [CHR 0x0B], [CHR 0x0C], [CHR 0x0D], [CHR 0x20],
      [CHR 0xC2, CHR 0x85], [CHR 0xC2, CHR 0xA0], [CHR 0xE1, CHR 0x9A, CHR 0x80],
      [CHR 0xE2, CHR 0x80, CHR 0x80], [CHR 0xE2, CHR 0x80, CHR 0x81],
      [CHR 0xE2, CHR 0x80, CHR 0x82], [CHR 0xE2, CHR 0x80, CHR 0x83],
      [CHR 0xE2, CHR 0x80, CHR 0x84], [CHR 0xE2, CHR 0x80, CHR 0x85],
      [CHR 0xE2, CHR 0x80, CHR 0x86], [CHR 0xE2, CHR 0x80, CHR 0x87],
      [CHR 0xE2, CHR 0x80, CHR 0x88], [CHR 0xE2, CHR 0x80, CHR 0x89],
      [CHR 0xE2, CHR 0x80, CHR 0x8A], [CHR 0xE2, CHR 0x80, CHR 0xA8],
      [CHR 0xE2, CHR 0x80, CHR 0xA9], [CHR 0xE2, CHR 0x80, CHR 0xAF],
      [CHR 0xE2, CHR 0x81, CHR 0x9F], [CHR 0xE3, CHR 0x80, CHR 0x80]]"

text \<open>Strip members of a list of non-empty byte strings from the front, as long as one fits.\<close>

function strip_front :: "string list \<Rightarrow> string \<Rightarrow> string" where
  "strip_front ws s =
     (case find (\<lambda>w. w \<noteq> [] \<and> strings_HasPrefix s w) ws of
        None \<Rightarrow> s
      | Some w \<Rightarrow> (if s = [] then s else strip_front ws (drop (length w) s)))"
  by pat_completeness auto
termination
proof (relation "measure (\<lambda>(ws, s). length s)", goal_cases)
  case 1
  show ?case by simp
next
  case (2 ws s w)
  then show ?case by (auto simp: find_Some_iff)
qed

declare strip_front.simps [simp del]

definition strings_TrimSpace :: "string \<Rightarrow> string" where
  "strings_TrimSpace s =
     rev (strip_front (map rev utf8_spaces) (rev (strip_front utf8_spaces s)))"

text \<open>\<open>strings.Split(s, "c")\<close> for a separator of one byte: always at least one part.\<close>

fun strings_Split :: "char \<Rightarrow> string \<Rightarrow> string list" where
  "strings_Split c [] = [[]]"
| "strings_Split c (x # xs) =
     (if x = c then [] # strings_Split c xs
      else (case strings_Split c xs of
              [] \<Rightarrow> [[x]]
            | p # ps \<Rightarrow> (x # p) # ps))"

fun strings_Join :: "string list \<Rightarrow> string \<Rightarrow> string" where
  "strings_Join [] sep = []"
| "strings_Join [p] sep = p"
| "strings_Join (p # q # ps) sep = p @ sep @ strings_Join (q # ps) sep"

text \<open>\<open>strings.ReplaceAll(s, old, new)\<close> for a non-empty \<open>old\<close>: leftmost, non-overlapping.\<close>

function strings_ReplaceAll :: "string \<Rightarrow> string \<Rightarrow> string \<Rightarrow> string" where
  "strings_ReplaceAll s old new =
     (case s of
        [] \<Rightarrow> []
      | c # cs \<Rightarrow>
          (if old \<noteq> [] \<and> strings_HasPrefix s old
           then new @ strings_ReplaceAll (drop (length old) s) old new
           else c # strings_ReplaceAll cs old new))"
  by pat_completeness auto
termination
  by (relation "measure (\<lambda>(s, old, new). length s)") auto

declare strings_ReplaceAll.simps [simp del]

definition ascii_lower :: "char \<Rightarrow> char" where
  "ascii_lower c =
     (if 65 \<le> (of_char c :: nat) \<and> (of_char c :: nat) \<le> 90
      then char_of ((of_char c :: nat) + 32) else c)"

definition strings_ToLower :: "string \<Rightarrow> string" where
  "strings_ToLower s = map ascii_lower s"

definition strings_EqualFold :: "string \<Rightarrow> string \<Rightarrow> bool" where
  "strings_EqualFold a b = (strings_ToLower a = strings_ToLower b)"

definition is_lower_hex :: "char \<Rightarrow> bool" where
  "is_lower_hex c =
     ((48 \<le> (of_char c :: nat) \<and> (of_char c :: nat) \<le> 57)
      \<or> (97 \<le> (of_char c :: nat) \<and> (of_char c :: nat) \<le> 102))"

text \<open>
  \<open>range\<close> over a string, \<open>[]rune(s)\<close> and \<open>strings.Map\<close> read UTF-8: the width of the sequence at
  the front of a string is that of a well-formed sequence of two to four bytes, and 1 for an ASCII
  byte and for a byte that starts no well-formed sequence.
\<close>

definition byte_in :: "nat \<Rightarrow> nat \<Rightarrow> char \<Rightarrow> bool" where
  "byte_in lo hi c = (lo \<le> (of_char c :: nat) \<and> (of_char c :: nat) \<le> hi)"

fun utf8_width :: "string \<Rightarrow> nat" where
  "utf8_width (a # b # c # d # r) =
     (if (byte_in 0xF0 0xF0 a \<and> byte_in 0x90 0xBF b \<or> byte_in 0xF1 0xF3 a \<and> byte_in 0x80 0xBF b
          \<or> byte_in 0xF4 0xF4 a \<and> byte_in 0x80 0x8F b) \<and> byte_in 0x80 0xBF c \<and> byte_in 0x80 0xBF d
      then 4 else utf8_width [a, b, c])"
| "utf8_width [a, b, c] =
     (if (byte_in 0xE0 0xE0 a \<and> byte_in 0xA0 0xBF b \<or> byte_in 0xE1 0xEC a \<and> byte_in 0x80 0xBF b
          \<or> byte_in 0xED 0xED a \<and> byte_in 0x80 0x9F b \<or> byte_in 0xEE 0xEF a \<and> byte_in 0x80 0xBF b)
         \<and> byte_in 0x80 0xBF c
      then 3 else utf8_width [a, b])"
| "utf8_width [a, b] = (if byte_in 0xC2 0xDF a \<and> byte_in 0x80 0xBF b then 2 else 1)"
| "utf8_width _ = 1"

lemma utf8_width_pos [simp]: "0 < utf8_width s"
  by (induction s rule: utf8_width.induct) auto

text \<open>The sequences of a string, each with its bytes.\<close>

function utf8_runes :: "string \<Rightarrow> string list" where
  "utf8_runes s = (if s = [] then [] else take (utf8_width s) s # utf8_runes (drop (utf8_width s) s))"
  by pat_completeness auto
termination
  by (relation "measure length") auto

declare utf8_runes.simps [simp del]

text \<open>Decimal output of \<open>%d\<close>.\<close>

fun show_nat :: "nat \<Rightarrow> string" where
  "show_nat n =
     (if n < 10 then [char_of (48 + n)] else show_nat (n div 10) @ [char_of (48 + n mod 10)])"

declare show_nat.simps [simp del]

definition show_int :: "int \<Rightarrow> string" where
  "show_int i = (if i < 0 then CHR ''-'' # show_nat (nat (- i)) else show_nat (nat i))"

section \<open>Paths\<close>

text \<open>
  \<open>path.Clean\<close> and, on Linux, \<open>filepath.Clean\<close>: empty and \<open>.\<close> elements are dropped, an inner
  \<open>..\<close> removes the element before it, a leading \<open>..\<close> of a rooted path is dropped, and the empty
  result is \<open>.\<close>. The stack holds the kept elements in reverse.
\<close>

fun clean_segs :: "bool \<Rightarrow> string list \<Rightarrow> string list \<Rightarrow> string list" where
  "clean_segs rooted stack [] = rev stack"
| "clean_segs rooted stack (s # ss) =
     (if s = [] \<or> s = ''.'' then clean_segs rooted stack ss
      else if s = ''..'' then
        (case stack of
           [] \<Rightarrow> clean_segs rooted (if rooted then [] else [s]) ss
         | t # ts \<Rightarrow> (if t = ''..'' then clean_segs rooted (s # stack) ss
                      else clean_segs rooted ts ss))
      else clean_segs rooted (s # stack) ss)"

definition is_rooted :: "string \<Rightarrow> bool" where
  "is_rooted p = (take 1 p = ''/'')"

definition path_segs :: "string \<Rightarrow> string list" where
  "path_segs p = clean_segs (is_rooted p) [] (strings_Split slash p)"

definition render_path :: "bool \<Rightarrow> string list \<Rightarrow> string" where
  "render_path rooted segs =
     (if rooted then slash # strings_Join segs ''/''
      else if segs = [] then ''.'' else strings_Join segs ''/'')"

definition path_Clean :: "string \<Rightarrow> string" where
  "path_Clean p = render_path (is_rooted p) (path_segs p)"

definition path_Join :: "string list \<Rightarrow> string" where
  "path_Join elems =
     (let ne = filter (\<lambda>e. e \<noteq> []) elems
      in if ne = [] then [] else path_Clean (strings_Join ne ''/''))"

text \<open>\<open>path.Base\<close>: the last element, \<open>.\<close> for the empty path and \<open>/\<close> for a path of slashes.\<close>

definition path_Base :: "string \<Rightarrow> string" where
  "path_Base p =
     (if p = [] then ''.''
      else (let q = strings_TrimRight p slash
            in if q = [] then ''/'' else last (strings_Split slash q)))"

text \<open>\<open>filepath.Dir\<close>: everything up to the last slash, cleaned.\<close>

definition filepath_Dir :: "string \<Rightarrow> string" where
  "filepath_Dir p =
     path_Clean (rev (dropWhile (\<lambda>c. c \<noteq> slash) (rev p)))"

text \<open>\<open>filepath.Ext\<close>: the suffix of the last element that starts at its last dot.\<close>

definition filepath_Ext :: "string \<Rightarrow> string" where
  "filepath_Ext p =
     (let b = last (strings_Split slash p)
      in case strings_LastIndex b ''.'' of None \<Rightarrow> [] | Some i \<Rightarrow> drop i b)"

section \<open>Integers and times\<close>

definition wrap64 :: "int \<Rightarrow> int" where
  "wrap64 x = (x + 2 ^ 63) mod 2 ^ 64 - 2 ^ 63"

text \<open>Go's integer division and remainder truncate towards zero.\<close>

definition go_div :: "int \<Rightarrow> int \<Rightarrow> int" where
  "go_div a b = sgn a * sgn b * (\<bar>a\<bar> div \<bar>b\<bar>)"

type_synonym gotime = int

abbreviation zero_time :: gotime where
  "zero_time \<equiv> 0"

definition max_int64 :: int where
  "max_int64 = 2 ^ 63 - 1"

definition ns_per_sec :: int where
  "ns_per_sec = 1000000000"

definition ns_per_hour :: int where
  "ns_per_hour = 3600 * ns_per_sec"

definition ns_per_day :: int where
  "ns_per_day = 24 * ns_per_hour"

text \<open>\<open>t.Sub(u)\<close> saturates at the bounds of \<open>time.Duration\<close>.\<close>

definition time_Sub :: "gotime \<Rightarrow> gotime \<Rightarrow> int" where
  "time_Sub t u = max (- (2 ^ 63)) (min max_int64 (t - u))"

section \<open>Lemmas\<close>

lemma go_div_nonneg: "0 \<le> a \<Longrightarrow> 0 < b \<Longrightarrow> go_div a b = a div b"
  by (cases "a = 0") (auto simp: go_div_def sgn_if)

lemma show_nat_chars: "c \<in> set (show_nat n) \<Longrightarrow> 48 \<le> (of_char c :: nat) \<and> (of_char c :: nat) \<le> 57"
proof (induction n rule: show_nat.induct)
  case (1 n)
  show ?case
  proof (cases "n < 10")
    case True
    with 1(2) show ?thesis by (subst (asm) show_nat.simps) simp
  next
    case False
    have "n mod 10 < 10" by simp
    with False 1 show ?thesis by (subst (asm) (2) show_nat.simps) auto
  qed
qed

lemma show_nat_not_Nil [simp]: "show_nat n \<noteq> []"
  by (subst show_nat.simps) simp

lemma show_int_chars:
  "c \<in> set (show_int i) \<Longrightarrow> c \<noteq> CHR ''.'' \<and> c \<noteq> CHR ''/'' \<and> c \<noteq> CHR 0x00"
  using show_nat_chars by (fastforce simp: show_int_def split: if_splits)

lemma show_int_not_Nil [simp]: "show_int i \<noteq> []"
  by (simp add: show_int_def)

subsection \<open>Prefixes and substrings\<close>

lemma HasPrefix_iff: "strings_HasPrefix s p \<longleftrightarrow> (\<exists>r. s = p @ r)"
  by (auto simp: strings_HasPrefix_def) (metis append_take_drop_id)

lemma HasPrefix_refl [simp]: "strings_HasPrefix s s"
  by (simp add: strings_HasPrefix_def)

lemma HasPrefix_append [simp]: "strings_HasPrefix (p @ r) p"
  by (simp add: strings_HasPrefix_def)

lemma HasPrefix_Nil [simp]: "strings_HasPrefix s []"
  by (simp add: strings_HasPrefix_def)

lemma HasPrefix_Nil_left [simp]: "strings_HasPrefix [] p \<longleftrightarrow> p = []"
  by (auto simp: strings_HasPrefix_def)

lemma HasPrefix_Cons [simp]:
  "strings_HasPrefix (c # cs) (d # ds) \<longleftrightarrow> c = d \<and> strings_HasPrefix cs ds"
  by (auto simp: strings_HasPrefix_def)

lemma HasSuffix_iff: "strings_HasSuffix s p \<longleftrightarrow> (\<exists>r. s = r @ p)"
proof
  assume "strings_HasSuffix s p"
  then have "s = take (length s - length p) s @ p"
    by (metis append_take_drop_id strings_HasSuffix_def)
  then show "\<exists>r. s = r @ p" by blast
qed (auto simp: strings_HasSuffix_def)

lemma Contains_iff: "strings_Contains s sub \<longleftrightarrow> (\<exists>a b. s = a @ sub @ b)"
proof (induction s)
  case Nil
  then show ?case by auto
next
  case (Cons c cs)
  show ?case
  proof
    assume "strings_Contains (c # cs) sub"
    then show "\<exists>a b. c # cs = a @ sub @ b"
      using Cons.IH by (auto simp: HasPrefix_iff) (metis append_Cons append_Nil)+
  next
    assume "\<exists>a b. c # cs = a @ sub @ b"
    then obtain a b where ab: "c # cs = a @ sub @ b" by blast
    show "strings_Contains (c # cs) sub"
    proof (cases a)
      case Nil
      with ab have "strings_HasPrefix (c # cs) sub" by (simp add: HasPrefix_iff)
      then show ?thesis by simp
    next
      case (Cons x xs)
      with ab have "cs = xs @ sub @ b" by simp
      with Cons.IH show ?thesis by auto
    qed
  qed
qed

lemma Contains_append_left: "strings_Contains s sub \<Longrightarrow> strings_Contains (r @ s) sub"
  by (auto simp: Contains_iff) (metis append_assoc)

lemma Contains_append_right: "strings_Contains s sub \<Longrightarrow> strings_Contains (s @ r) sub"
  unfolding Contains_iff by (metis append_assoc)

lemma Contains_single [simp]: "strings_Contains s [c] \<longleftrightarrow> c \<in> set s"
  by (auto simp: Contains_iff in_set_conv_decomp)

lemma ContainsAny_iff: "strings_ContainsAny s chars \<longleftrightarrow> set s \<inter> set chars \<noteq> {}"
  by (auto simp: strings_ContainsAny_def list_ex_iff)

text \<open>A substring without the separator cannot straddle it.\<close>

lemma Contains_sep:
  assumes "c \<notin> set sub" "sub \<noteq> []"
  shows "strings_Contains (a @ c # b) sub \<longleftrightarrow> strings_Contains a sub \<or> strings_Contains b sub"
proof
  assume "strings_Contains (a @ c # b) sub"
  then obtain u v where uv: "a @ c # b = u @ sub @ v" by (auto simp: Contains_iff)
  show "strings_Contains a sub \<or> strings_Contains b sub"
  proof (cases "length (u @ sub) \<le> length a")
    case True
    have "take (length (u @ sub)) (a @ c # b) = u @ sub"
      using uv by simp
    with True have "take (length (u @ sub)) a = u @ sub"
      by simp
    then have "a = u @ sub @ drop (length (u @ sub)) a"
      by (metis append.assoc append_take_drop_id)
    then show ?thesis unfolding Contains_iff by blast
  next
    case False
    have "length a < length u"
    proof (rule ccontr)
      assume "\<not> length a < length u"
      moreover have "(a @ c # b) ! length a = c" by simp
      ultimately have "sub ! (length a - length u) = c" and "length a - length u < length sub"
        using uv False by (auto simp: nth_append)
      then show False using assms(1) nth_mem by blast
    qed
    then have "drop (Suc (length a)) (a @ c # b) = drop (Suc (length a)) u @ sub @ v"
      using uv by simp
    then have "b = drop (Suc (length a)) u @ sub @ v" by simp
    then show ?thesis unfolding Contains_iff by blast
  qed
next
  assume "strings_Contains a sub \<or> strings_Contains b sub"
  then show "strings_Contains (a @ c # b) sub"
    using Contains_append_right [of a sub "c # b"] Contains_append_left [of b sub "a @ [c]"]
    by auto
qed

subsection \<open>Split and join\<close>

lemma Split_not_Nil [simp]: "strings_Split c s \<noteq> []"
  by (cases s) (auto split: list.splits)

lemma Split_no_sep: "c \<notin> set s \<Longrightarrow> strings_Split c s = [s]"
  by (induction s) auto

lemma Split_append_sep: "strings_Split c (a @ c # b) = strings_Split c a @ strings_Split c b"
  by (induction a) (auto split: list.splits simp: Cons_eq_append_conv)

lemma Split_parts_no_sep: "p \<in> set (strings_Split c s) \<Longrightarrow> c \<notin> set p"
  by (induction s arbitrary: p) (force split: if_splits list.splits)+

lemma Join_single_Cons: "ps \<noteq> [] \<Longrightarrow> strings_Join (p # ps) sep = p @ sep @ strings_Join ps sep"
  by (cases ps) auto

lemma Join_append:
  assumes "qs \<noteq> []"
  shows "ps \<noteq> [] \<Longrightarrow>
    strings_Join (ps @ qs) sep = strings_Join ps sep @ sep @ strings_Join qs sep"
proof (induction ps)
  case (Cons p ps)
  with assms show ?case by (cases "ps = []") (auto simp: Join_single_Cons)
qed simp

lemma Join_Split: "strings_Join (strings_Split c s) [c] = s"
proof (induction s)
  case (Cons x xs)
  show ?case
  proof (cases "strings_Split c xs")
    case Nil
    then show ?thesis by simp
  next
    case (Cons p ps)
    with Cons.IH show ?thesis
      by (cases ps) (auto simp: Join_single_Cons)
  qed
qed simp

lemma Split_Join:
  assumes "ps \<noteq> []" "\<forall>p \<in> set ps. c \<notin> set p"
  shows "strings_Split c (strings_Join ps [c]) = ps"
  using assms
proof (induction ps)
  case (Cons p ps)
  show ?case
  proof (cases ps)
    case Nil
    with Cons.prems show ?thesis by (simp add: Split_no_sep)
  next
    case (Cons q qs)
    with Cons.IH Cons.prems have "strings_Split c (strings_Join ps [c]) = ps" by auto
    with Cons Cons.prems show ?thesis
      using Split_append_sep [of c p "strings_Join ps [c]"]
      by (auto simp: Join_single_Cons Split_no_sep)
  qed
qed simp

lemma Contains_Split:
  assumes "c \<notin> set sub" "sub \<noteq> []"
  shows "strings_Contains s sub \<longleftrightarrow> (\<exists>p \<in> set (strings_Split c s). strings_Contains p sub)"
proof (induction "strings_Split c s" arbitrary: s)
  case Nil
  then show ?case by (metis Split_not_Nil)
next
  case (Cons p ps)
  have s: "s = strings_Join (p # ps) [c]"
    using Join_Split [of c s] Cons.hyps(2) by simp
  show ?case
  proof (cases ps)
    case Nil
    with s Cons.hyps(2) show ?thesis by (metis Join_Split list.set_intros(1) set_ConsD strings_Join.simps(2) empty_iff list.set(1))
  next
    case (Cons q qs)
    have nosep: "\<forall>x \<in> set ps. c \<notin> set x"
      using Cons.hyps(2) Split_parts_no_sep by (metis list.set_intros(2))
    have ps: "strings_Split c (strings_Join ps [c]) = ps"
      by (rule Split_Join) (use Cons nosep in auto)
    have "s = p @ c # strings_Join ps [c]"
      using s Cons by (simp add: Join_single_Cons)
    then have "strings_Contains s sub \<longleftrightarrow> strings_Contains p sub \<or> strings_Contains (strings_Join ps [c]) sub"
      using Contains_sep [OF assms] by simp
    then show ?thesis
      using Cons.hyps(1) [OF ps [symmetric]] Cons.hyps(2) ps by (metis list.set_intros(1,2) set_ConsD)
  qed
qed

subsection \<open>Cleaned paths\<close>

abbreviation keep_seg :: "string \<Rightarrow> bool" where
  "keep_seg s \<equiv> s \<noteq> [] \<and> s \<noteq> ''.''"

text \<open>The strings on which \<open>Clean\<close> only drops elements: those without \<open>..\<close>.\<close>

abbreviation no_dotdot :: "string \<Rightarrow> bool" where
  "no_dotdot s \<equiv> \<not> strings_Contains s ''..''"

lemma clean_segs_no_dotdot:
  "\<forall>s \<in> set ss. s \<noteq> ''..'' \<Longrightarrow> clean_segs r st ss = rev st @ filter keep_seg ss"
  by (induction ss arbitrary: st) auto

lemma no_dotdot_Split:
  "no_dotdot p \<longleftrightarrow> (\<forall>s \<in> set (strings_Split slash p). no_dotdot s)"
  using Contains_Split [of slash "''..''" p] by auto

lemma path_segs_no_dotdot:
  assumes "no_dotdot p"
  shows "path_segs p = filter keep_seg (strings_Split slash p)"
proof -
  have "\<forall>s \<in> set (strings_Split slash p). s \<noteq> ''..''"
    using assms no_dotdot_Split by (metis Contains_iff append_Nil append_Nil2)
  then show ?thesis by (simp add: path_segs_def clean_segs_no_dotdot)
qed

lemma path_segs_props:
  assumes "no_dotdot p" "s \<in> set (path_segs p)"
  shows "keep_seg s" "slash \<notin> set s" "no_dotdot s"
  using assms no_dotdot_Split [of p] Split_parts_no_sep
  by (auto simp: path_segs_no_dotdot)

text \<open>Lists of path elements as \<open>path_segs\<close> returns them.\<close>

definition clean_list :: "string list \<Rightarrow> bool" where
  "clean_list segs = (\<forall>s \<in> set segs. keep_seg s \<and> slash \<notin> set s \<and> no_dotdot s)"

lemma clean_list_path_segs [simp]: "no_dotdot p \<Longrightarrow> clean_list (path_segs p)"
  unfolding clean_list_def using path_segs_props by blast

lemma clean_list_append [simp]: "clean_list (a @ b) \<longleftrightarrow> clean_list a \<and> clean_list b"
  by (auto simp: clean_list_def)

lemma clean_list_Cons [simp]:
  "clean_list (a # b) \<longleftrightarrow> keep_seg a \<and> slash \<notin> set a \<and> no_dotdot a \<and> clean_list b"
  by (auto simp: clean_list_def)

lemma clean_list_Nil [simp]: "clean_list []"
  by (simp add: clean_list_def)

lemma no_dotdot_Join:
  assumes "clean_list segs"
  shows "no_dotdot (strings_Join segs ''/'')"
proof (cases "segs = []")
  case False
  have "strings_Split slash (strings_Join segs [slash]) = segs"
    by (rule Split_Join) (use assms False in \<open>auto simp: clean_list_def\<close>)
  then show ?thesis using assms by (subst no_dotdot_Split) (simp add: clean_list_def)
qed simp

lemma Join_not_rooted:
  assumes "clean_list segs"
  shows "\<not> is_rooted (strings_Join segs ''/'')"
proof (cases segs)
  case (Cons a b)
  with assms obtain x xs where "a = x # xs" "x \<noteq> slash" by (cases a) auto
  with Cons show ?thesis by (cases b) (auto simp: is_rooted_def)
qed (simp add: is_rooted_def)

lemma no_dotdot_render: "clean_list segs \<Longrightarrow> no_dotdot (render_path r segs)"
  using no_dotdot_Join [of segs] Contains_sep [of slash "''..''" "[]" "strings_Join segs ''/''"]
  by (auto simp: render_path_def)

lemma filter_keep_clean: "clean_list segs \<Longrightarrow> filter keep_seg segs = segs"
  by (induction segs) auto

lemma path_segs_render:
  assumes "clean_list segs"
  shows "path_segs (render_path r segs) = segs"
proof -
  have "filter keep_seg (strings_Split slash (strings_Join segs ''/'')) = segs"
  proof (cases "segs = []")
    case False
    have "strings_Split slash (strings_Join segs [slash]) = segs"
      by (rule Split_Join) (use assms False in \<open>auto simp: clean_list_def\<close>)
    then show ?thesis using filter_keep_clean [OF assms] by simp
  qed simp
  moreover have "path_segs (render_path r segs) =
      filter keep_seg (strings_Split slash (render_path r segs))"
    by (rule path_segs_no_dotdot) (rule no_dotdot_render [OF assms])
  ultimately show ?thesis by (auto simp: render_path_def)
qed

lemma rooted_render:
  "clean_list segs \<Longrightarrow> is_rooted (render_path r segs) = r"
  using Join_not_rooted [of segs] by (auto simp: render_path_def is_rooted_def)

lemma path_Clean_render: "clean_list segs \<Longrightarrow> path_Clean (render_path r segs) = render_path r segs"
  by (simp add: path_Clean_def path_segs_render rooted_render)

lemma path_Clean_idem: "no_dotdot p \<Longrightarrow> path_Clean (path_Clean p) = path_Clean p"
  using path_Clean_render [OF clean_list_path_segs] by (simp add: path_Clean_def)

lemma render_not_Nil [simp]: "clean_list segs \<Longrightarrow> render_path r segs \<noteq> []"
  by (cases segs) (auto simp: render_path_def Join_single_Cons split: if_splits,
      metis Join_single_Cons append_is_Nil_conv not_Cons_self2 strings_Join.simps(2))

lemma path_segs_append:
  assumes "no_dotdot a" "no_dotdot b"
  shows "path_segs (a @ slash # b) = path_segs a @ path_segs b"
proof -
  have "no_dotdot (a @ slash # b)" using assms Contains_sep [of slash "''..''" a b] by simp
  then show ?thesis using assms by (simp add: path_segs_no_dotdot Split_append_sep)
qed

text \<open>Joining a root with a relative path, both without \<open>..\<close>, appends their elements.\<close>

lemma path_Join_two:
  assumes "no_dotdot a" "no_dotdot b" "a \<noteq> []" "b \<noteq> []"
  shows "path_Join [a, b] = render_path (is_rooted a) (path_segs a @ path_segs b)"
proof -
  have "path_Join [a, b] = path_Clean (a @ slash # b)"
    using assms(3,4) by (simp add: path_Join_def)
  moreover have "is_rooted (a @ slash # b) = is_rooted a"
    using assms(3) by (cases a) (auto simp: is_rooted_def)
  ultimately show ?thesis by (simp add: path_Clean_def path_segs_append assms)
qed

lemma render_append:
  assumes "a \<noteq> []" "b \<noteq> []"
  shows "render_path r (a @ b) = render_path r a @ ''/'' @ strings_Join b ''/''"
  using assms by (auto simp: render_path_def Join_append)

end
