(* ===== verification/Go_IO.thy ===== *)
theory Go_IO
  imports Go_Prelude
begin

text \<open>
  Errors and effects. A Go function that returns \<open>(T, error)\<close> and touches the database, the disk,
  the clock or the generator of identifiers is a function of the world that returns an error or a
  value, and the new world.

  Every access to the database or the disk can fail in the running program (a full disk, a lost
  connection, a cancelled context). The world carries a \<^emph>\<open>fault script\<close>: one entry per access,
  \<open>None\<close> for an access that succeeds and \<open>Some e\<close> for one that returns the error \<open>e\<close>; after the end
  of the script nothing fails. A theorem about all worlds is therefore a theorem about every
  combination of failures. An access that fails has no effect (a failed SQL statement changes no
  row).

  The identifiers of \<open>uuid.NewString\<close> come from the world too (\<open>uuid_src\<close>), as that package is not
  part of the program.
\<close>

section \<open>Errors\<close>

text \<open>
  \<open>Err m\<close> is an error with the text \<open>m\<close> (of \<open>fmt.Errorf\<close>, or of a driver), \<open>Wrap m e\<close> is
  \<open>fmt.Errorf("m: %w", e)\<close>, \<open>Panic m\<close> stands for a run-time panic, and the other constructors are the
  sentinel values the program compares with.
\<close>

datatype goerr =
    Err string
  | ErrNoRows
  | ErrNotExist
  | ErrTenantBusy
  | ErrAuth
  | ErrCanceled
  | ErrDeadline
  | Panic string
  | Wrap string goerr

fun err_text :: "goerr \<Rightarrow> string" where
  "err_text (Err m) = m"
| "err_text ErrNoRows = ''sql: no rows in result set''"
| "err_text ErrNotExist = ''file does not exist''"
| "err_text ErrTenantBusy = ''service already has an active backup job''"
| "err_text ErrAuth = ''unauthorized''"
| "err_text ErrCanceled = ''context canceled''"
| "err_text ErrDeadline = ''context deadline exceeded''"
| "err_text (Panic m) = ''panic: '' @ m"
| "err_text (Wrap m e) = m @ '': '' @ err_text e"

text \<open>\<open>errors.Is\<close> against a sentinel: through any number of wrappers.\<close>

fun errors_Is :: "goerr \<Rightarrow> goerr \<Rightarrow> bool" where
  "errors_Is (Wrap m e) t = (Wrap m e = t \<or> errors_Is e t)"
| "errors_Is e t = (e = t)"

type_synonym 'a result = "goerr + 'a"

section \<open>The world and the effect type\<close>

record io_env =
  faults :: "goerr option list"
  clock :: gotime
  uuid_src :: "nat \<Rightarrow> string"
  uuid_next :: nat

type_synonym ('w, 'a) io = "'w \<Rightarrow> 'a result \<times> 'w"

definition ret :: "'a \<Rightarrow> ('w, 'a) io" where
  "ret x w = (Inr x, w)"

definition throw :: "goerr \<Rightarrow> ('w, 'a) io" where
  "throw e w = (Inl e, w)"

text \<open>\<open>x, err := m; if err != nil { return err }; f(x)\<close>\<close>

definition bindE :: "('w, 'a) io \<Rightarrow> ('a \<Rightarrow> ('w, 'b) io) \<Rightarrow> ('w, 'b) io" where
  "bindE m f w = (case m w of (Inl e, w') \<Rightarrow> (Inl e, w') | (Inr x, w') \<Rightarrow> f x w')"

text \<open>\<open>x, err := m; f(x, err)\<close>: the caller looks at the error itself.\<close>

definition attempt :: "('w, 'a) io \<Rightarrow> ('a result \<Rightarrow> ('w, 'b) io) \<Rightarrow> ('w, 'b) io" where
  "attempt m f w = (case m w of (r, w') \<Rightarrow> f r w')"

text \<open>\<open>_ = m\<close>: the error is dropped.\<close>

definition ignore :: "('w, 'a) io \<Rightarrow> ('w, unit) io" where
  "ignore m = attempt m (\<lambda>_. ret ())"

definition from_result :: "'a result \<Rightarrow> ('w, 'a) io" where
  "from_result r w = (r, w)"

definition gets :: "('w \<Rightarrow> 'a) \<Rightarrow> ('w, 'a) io" where
  "gets f w = (Inr (f w), w)"

definition modify :: "('w \<Rightarrow> 'w) \<Rightarrow> ('w, unit) io" where
  "modify f w = (Inr (), f w)"

text \<open>One access to the outside: takes the next entry of the fault script.\<close>

definition access :: "('w io_env_scheme, unit) io" where
  "access w =
     (case faults w of
        [] \<Rightarrow> (Inr (), w)
      | None # fs \<Rightarrow> (Inr (), w\<lparr>faults := fs\<rparr>)
      | Some e # fs \<Rightarrow> (Inl e, w\<lparr>faults := fs\<rparr>))"

definition query :: "('w io_env_scheme \<Rightarrow> 'a) \<Rightarrow> ('w io_env_scheme, 'a) io" where
  "query f = bindE access (\<lambda>_. gets f)"

definition exec :: "('w io_env_scheme \<Rightarrow> 'w io_env_scheme) \<Rightarrow> ('w io_env_scheme, unit) io" where
  "exec f = bindE access (\<lambda>_. modify f)"

definition time_Now :: "('w io_env_scheme, gotime) io" where
  "time_Now = gets clock"

definition uuid_NewString :: "('w io_env_scheme, string) io" where
  "uuid_NewString w = (Inr (uuid_src w (uuid_next w)), w\<lparr>uuid_next := Suc (uuid_next w)\<rparr>)"

text \<open>\<open>for _, x := range xs { if err := f(x); err != nil { return err } }\<close>\<close>

fun for_each :: "'a list \<Rightarrow> ('a \<Rightarrow> ('w, unit) io) \<Rightarrow> ('w, unit) io" where
  "for_each [] f = ret ()"
| "for_each (x # xs) f = bindE (f x) (\<lambda>_. for_each xs f)"

section \<open>Evaluation and reasoning rules\<close>

named_theorems io_simps \<open>unfolding of the effect combinators\<close>

lemmas io_defs [io_simps] =
  ret_def throw_def bindE_def attempt_def ignore_def from_result_def gets_def modify_def
  query_def exec_def time_Now_def uuid_NewString_def

lemma same_faults: "faults w = fs \<Longrightarrow> w\<lparr>faults := fs\<rparr> = w"
  by auto

lemma access_cases:
  obtains (ok) fs where "access w = (Inr (), w\<lparr>faults := fs\<rparr>)"
  | (fault) e fs where "access w = (Inl e, w\<lparr>faults := fs\<rparr>)"
proof (cases "faults w")
  case Nil
  then show thesis using ok [of "[]"] same_faults [of w "[]"] by (simp add: access_def)
next
  case (Cons a fs)
  then show thesis using ok [of fs] fault [of _ fs] by (cases a) (auto simp: access_def)
qed

lemma access_no_faults [simp]: "faults w = [] \<Longrightarrow> access w = (Inr (), w)"
  by (simp add: access_def)

text \<open>
  \<open>keeps P m\<close>: the operation \<open>m\<close> preserves \<open>P\<close> of the world, whether it returns an error or not.
  The rules below decompose it along the program text; a component proves it for its own
  operations and adds them to the collection.
\<close>

named_theorems keeps_rules \<open>preservation of a predicate on the world\<close>

definition keeps :: "('w \<Rightarrow> bool) \<Rightarrow> ('w, 'a) io \<Rightarrow> bool" where
  "keeps P m = (\<forall>w. P w \<longrightarrow> P (snd (m w)))"

lemma keepsI: "(\<And>w. P w \<Longrightarrow> P (snd (m w))) \<Longrightarrow> keeps P m"
  by (simp add: keeps_def)

lemma keepsD: "keeps P m \<Longrightarrow> P w \<Longrightarrow> m w = (r, w') \<Longrightarrow> P w'"
  by (metis keeps_def snd_conv)

lemma keeps_ret [keeps_rules]: "keeps P (ret x)"
  and keeps_throw [keeps_rules]: "keeps P (throw e)"
  and keeps_from_result [keeps_rules]: "keeps P (from_result r)"
  and keeps_gets [keeps_rules]: "keeps P (gets f)"
  by (auto simp: keeps_def io_simps)

lemma keeps_attempt [keeps_rules]:
  assumes "keeps P m" "\<And>r. keeps P (f r)"
  shows "keeps P (attempt m f)"
proof (rule keepsI)
  fix w
  assume "P w"
  then have "P (snd (m w))" using assms(1) by (simp add: keeps_def)
  then show "P (snd (attempt m f w))"
    using assms(2) by (auto simp: keeps_def attempt_def split: prod.split)
qed

lemma bindE_attempt: "bindE m f = attempt m (\<lambda>r. case r of Inl e \<Rightarrow> throw e | Inr x \<Rightarrow> f x)"
  by (auto simp: fun_eq_iff io_simps split: prod.split sum.split)

lemma keeps_bindE [keeps_rules]:
  assumes "keeps P m" "\<And>x. keeps P (f x)"
  shows "keeps P (bindE m f)"
  unfolding bindE_attempt
  by (rule keeps_attempt) (use assms keeps_throw in \<open>auto split: sum.split\<close>)

lemma keeps_ignore [keeps_rules]: "keeps P m \<Longrightarrow> keeps P (ignore m)"
  by (simp add: ignore_def keeps_attempt keeps_ret)

lemma keeps_if [keeps_rules]: "(b \<Longrightarrow> keeps P m) \<Longrightarrow> (\<not> b \<Longrightarrow> keeps P n) \<Longrightarrow> keeps P (if b then m else n)"
  by simp

lemma keeps_option [keeps_rules]:
  "(x = None \<Longrightarrow> keeps P m) \<Longrightarrow> (\<And>y. x = Some y \<Longrightarrow> keeps P (f y)) \<Longrightarrow>
   keeps P (case x of None \<Rightarrow> m | Some y \<Rightarrow> f y)"
  by (cases x) auto

lemma keeps_sum [keeps_rules]:
  "(\<And>e. x = Inl e \<Longrightarrow> keeps P (g e)) \<Longrightarrow> (\<And>y. x = Inr y \<Longrightarrow> keeps P (f y)) \<Longrightarrow>
   keeps P (case x of Inl e \<Rightarrow> g e | Inr y \<Rightarrow> f y)"
  by (cases x) auto

lemma keeps_prod [keeps_rules]:
  "(\<And>a b. x = (a, b) \<Longrightarrow> keeps P (f a b)) \<Longrightarrow> keeps P (case x of (a, b) \<Rightarrow> f a b)"
  by (cases x) auto

lemma keeps_let [keeps_rules]: "(\<And>x. x = v \<Longrightarrow> keeps P (f x)) \<Longrightarrow> keeps P (let x = v in f x)"
  by (simp add: Let_def)

lemma keeps_modify: "(\<And>w. P w \<Longrightarrow> P (f w)) \<Longrightarrow> keeps P (modify f)"
  by (simp add: keeps_def modify_def)

lemma keeps_for_each [keeps_rules]: "(\<And>x. x \<in> set xs \<Longrightarrow> keeps P (f x)) \<Longrightarrow> keeps P (for_each xs f)"
  by (induction xs) (auto intro: keeps_rules)

text \<open>Predicates that do not look at the fault script, and so survive every access.\<close>

definition fault_free :: "('w io_env_scheme \<Rightarrow> bool) \<Rightarrow> bool" where
  "fault_free P = (\<forall>w fs. P (w\<lparr>faults := fs\<rparr>) = P w)"

lemma fault_freeI: "(\<And>w fs. P (w\<lparr>faults := fs\<rparr>) = P w) \<Longrightarrow> fault_free P"
  by (simp add: fault_free_def)

lemma keeps_access: "fault_free P \<Longrightarrow> keeps P access"
  by (auto simp: keeps_def fault_free_def access_def split: list.splits option.splits)

lemma keeps_query: "fault_free P \<Longrightarrow> keeps P (query f)"
  by (auto simp: query_def intro: keeps_rules keeps_access)

lemma keeps_exec: "fault_free P \<Longrightarrow> (\<And>w. P w \<Longrightarrow> P (f w)) \<Longrightarrow> keeps P (exec f)"
  by (auto simp: exec_def intro: keeps_rules keeps_access keeps_modify)

text \<open>
  An operation that returned a value: its steps, in order. These turn
  \<open>m w = (Inr x, w')\<close> into facts about the steps of \<open>m\<close>.
\<close>

lemma bindE_Inr:
  "bindE m f w = (Inr y, w') \<longleftrightarrow> (\<exists>x w1. m w = (Inr x, w1) \<and> f x w1 = (Inr y, w'))"
  by (auto simp: bindE_def split: prod.splits sum.splits)

lemma exec_Inr: "exec f w = (Inr y, w') \<Longrightarrow> \<exists>fs. w' = f (w\<lparr>faults := fs\<rparr>)"
  by (rule access_cases [of w]) (auto simp: exec_def io_simps)

lemma query_Inr: "query f w = (Inr y, w') \<Longrightarrow> \<exists>fs. w' = w\<lparr>faults := fs\<rparr> \<and> y = f w'"
  by (rule access_cases [of w]) (auto simp: query_def io_simps)

lemma query_Inl: "query f w = (Inl e, w') \<Longrightarrow> \<exists>fs. w' = w\<lparr>faults := fs\<rparr>"
  by (rule access_cases [of w]) (auto simp: query_def io_simps)

lemma exec_Inl: "exec f w = (Inl e, w') \<Longrightarrow> \<exists>fs. w' = w\<lparr>faults := fs\<rparr>"
  by (rule access_cases [of w]) (auto simp: exec_def io_simps)

text \<open>
  \<open>wp m Q w\<close>: running \<open>m\<close> in \<open>w\<close> ends in a result and a world that satisfy \<open>Q\<close>. The equations push
  it through the combinators; at an access both outcomes remain to be shown, with any rest of the
  fault script.
\<close>

named_theorems wp_simps \<open>weakest preconditions of the combinators\<close>
named_theorems wp_intros \<open>weakest preconditions of the operations that can fail\<close>

definition wp :: "('w, 'a) io \<Rightarrow> ('a result \<Rightarrow> 'w \<Rightarrow> bool) \<Rightarrow> 'w \<Rightarrow> bool" where
  "wp m Q w = Q (fst (m w)) (snd (m w))"

lemma wpD: "wp m Q w \<Longrightarrow> m w = (r, w') \<Longrightarrow> Q r w'"
  by (simp add: wp_def)

lemma wpI: "(\<And>r w'. m w = (r, w') \<Longrightarrow> Q r w') \<Longrightarrow> wp m Q w"
  by (metis prod.collapse wp_def)

lemma wp_mono: "wp m Q w \<Longrightarrow> (\<And>r w'. Q r w' \<Longrightarrow> R r w') \<Longrightarrow> wp m R w"
  by (simp add: wp_def)

lemma wp_ret [wp_simps]: "wp (ret x) Q w = Q (Inr x) w"
  and wp_throw [wp_simps]: "wp (throw e) Q w = Q (Inl e) w"
  and wp_from_result [wp_simps]: "wp (from_result r) Q w = Q r w"
  and wp_gets [wp_simps]: "wp (gets f) Q w = Q (Inr (f w)) w"
  by (auto simp: wp_def io_simps)

lemma wp_modify [wp_simps]: "wp (modify g) Q w = Q (Inr ()) (g w)"
  by (simp add: wp_def io_simps)

lemma wp_attempt [wp_simps]: "wp (attempt m k) Q w = wp m (\<lambda>r. wp (k r) Q) w"
  by (auto simp: wp_def io_simps split: prod.split)

lemma wp_bindE [wp_simps]:
  "wp (bindE m h) Q w = wp m (\<lambda>r. case r of Inl e \<Rightarrow> Q (Inl e) | Inr x \<Rightarrow> wp (h x) Q) w"
  by (auto simp: wp_def io_simps split: prod.split sum.split)

lemma wp_ignore [wp_simps]: "wp (ignore m) Q w = wp m (\<lambda>r. Q (Inr ())) w"
  by (auto simp: wp_def io_simps split: prod.split)

lemma wp_time_Now [wp_simps]: "wp time_Now Q w = Q (Inr (clock w)) w"
  by (simp add: wp_def io_simps)

lemma wp_uuid [wp_simps]:
  "wp uuid_NewString Q w = Q (Inr (uuid_src w (uuid_next w))) (w\<lparr>uuid_next := Suc (uuid_next w)\<rparr>)"
  by (simp add: wp_def io_simps)

lemma wp_access [wp_intros]:
  assumes "\<And>fs. Q (Inr ()) (w\<lparr>faults := fs\<rparr>)" "\<And>e fs. Q (Inl e) (w\<lparr>faults := fs\<rparr>)"
  shows "wp access Q w"
  by (rule access_cases [of w]) (use assms in \<open>auto simp: wp_def\<close>)

lemma wp_query [wp_intros]:
  assumes "\<And>fs. Q (Inr (f (w\<lparr>faults := fs\<rparr>))) (w\<lparr>faults := fs\<rparr>)" "\<And>e fs. Q (Inl e) (w\<lparr>faults := fs\<rparr>)"
  shows "wp (query f) Q w"
  using assms by (auto simp: query_def wp_simps intro!: wp_access)

lemma wp_exec [wp_intros]:
  assumes "\<And>fs. Q (Inr ()) (f (w\<lparr>faults := fs\<rparr>))" "\<And>e fs. Q (Inl e) (w\<lparr>faults := fs\<rparr>)"
  shows "wp (exec f) Q w"
  using assms by (auto simp: exec_def wp_simps intro!: wp_access)

lemma wp_for_each_inv:
  assumes "\<And>x w. x \<in> set xs \<Longrightarrow> P w \<Longrightarrow> wp (f x) (\<lambda>_. P) w" "P w"
  shows "wp (for_each xs f) (\<lambda>_. P) w"
  using assms
proof (induction xs arbitrary: w)
  case Nil
  then show ?case by (simp add: wp_simps)
next
  case (Cons x xs)
  have "wp (f x) (\<lambda>_. P) w" using Cons.prems by simp
  then show ?case
    by (auto simp: wp_simps intro!: Cons.IH Cons.prems(1) elim!: wp_mono split: sum.split)
qed

lemma keeps_conj: "keeps P m \<Longrightarrow> keeps Q m \<Longrightarrow> keeps (\<lambda>w. P w \<and> Q w) m"
  by (auto simp: keeps_def)

lemma wp_keeps: "keeps P m \<Longrightarrow> P w \<Longrightarrow> wp m (\<lambda>_. P) w"
  by (simp add: keeps_def wp_def)

lemma keeps_wp: "(\<And>w. P w \<Longrightarrow> wp m (\<lambda>_. P) w) \<Longrightarrow> keeps P m"
  by (simp add: keeps_def wp_def)

lemma wp_conj: "wp m Q w \<Longrightarrow> wp m R w \<Longrightarrow> wp m (\<lambda>r w'. Q r w' \<and> R r w') w"
  by (simp add: wp_def)

end
