(* ===== verification/Go_Json.thy ===== *)
theory Go_Json
  imports Go_Prelude
begin

text \<open>
  The part of \<open>encoding/json\<close> that the program uses: the scanner and parser with the rules of Go (no
  raw control characters, nesting of at most 10000, ill-formed UTF-8 and lone surrogates become
  U+FFFD), the encoder of strings with its HTML-safe escapes, and the way a value is stored into the
  fields of a struct: keys match exactly or else without regard to case, \<open>null\<close> changes nothing, a
  value of the wrong type is an error that leaves the field and lets the other fields be stored.

  The parser takes fuel, one unit per value, element or member. A text of \<open>n\<close> bytes has at most \<open>n\<close> of
  them, each of at least one byte, so that \<open>json_parse\<close> with \<open>2 * n + 2\<close> units never runs out.
\<close>

section \<open>Values and text\<close>

datatype json =
    JNull
  | JBool bool
  | JNum string
  | JStr string
  | JArr "json list"
  | JObj "(string \<times> json) list"

definition json_ws :: "char \<Rightarrow> bool" where
  "json_ws c = (c = CHR '' '' \<or> c = CHR 0x09 \<or> c = CHR 0x0A \<or> c = CHR 0x0D)"

definition skip_ws :: "string \<Rightarrow> string" where
  "skip_ws s = dropWhile json_ws s"

definition is_digit :: "char \<Rightarrow> bool" where
  "is_digit c = byte_in 48 57 c"

text \<open>The sequence of bytes of a code point.\<close>

definition utf8_encode :: "nat \<Rightarrow> string" where
  "utf8_encode r =
     (if r < 0x80 then [char_of r]
      else if r < 0x800 then [char_of (0xC0 + r div 64), char_of (0x80 + r mod 64)]
      else if r < 0x10000 then [char_of (0xE0 + r div 4096), char_of (0x80 + (r div 64) mod 64), char_of (0x80 + r mod 64)]
      else [char_of (0xF0 + r div 262144), char_of (0x80 + (r div 4096) mod 64), char_of (0x80 + (r div 64) mod 64), char_of (0x80 + r mod 64)])"

definition rune_error :: string where
  "rune_error = [CHR 0xEF, CHR 0xBF, CHR 0xBD]"

section \<open>Parsing\<close>

definition hex_val :: "char \<Rightarrow> nat option" where
  "hex_val c =
     (if byte_in 48 57 c then Some (of_char c - 48)
      else if byte_in 97 102 c then Some (of_char c - 87)
      else if byte_in 65 70 c then Some (of_char c - 55)
      else None)"

definition hex4 :: "string \<Rightarrow> nat option" where
  "hex4 s =
     (case map hex_val (take 4 s) of
        [Some a, Some b, Some c, Some d] \<Rightarrow> Some (((a * 16 + b) * 16 + c) * 16 + d)
      | _ \<Rightarrow> None)"

definition simple_escape :: "char \<Rightarrow> char option" where
  "simple_escape c =
     (if c = CHR 0x22 \<or> c = CHR 0x5C \<or> c = CHR ''/'' then Some c
      else if c = CHR ''b'' then Some (CHR 0x08) else if c = CHR ''f'' then Some (CHR 0x0C)
      else if c = CHR ''n'' then Some (CHR 0x0A) else if c = CHR ''r'' then Some (CHR 0x0D)
      else if c = CHR ''t'' then Some (CHR 0x09) else None)"

text \<open>
  One \<open>\u\<close> escape, after its \<open>u\<close>: its bytes and how many characters it takes; a pair of surrogates
  takes two escapes, and a surrogate without its partner is U+FFFD.
\<close>

definition unicode_escape :: "string \<Rightarrow> (string \<times> nat) option" where
  "unicode_escape s =
     (case hex4 s of
        None \<Rightarrow> None
      | Some r \<Rightarrow>
          (if 0xD800 \<le> r \<and> r < 0xE000 then
             (case (take 2 (drop 4 s), hex4 (drop 6 s)) of
                ([CHR 0x5C, CHR ''u''], Some q) \<Rightarrow>
                  (if r < 0xDC00 \<and> 0xDC00 \<le> q \<and> q < 0xE000
                   then Some (utf8_encode ((r - 0xD800) * 1024 + (q - 0xDC00) + 0x10000), 10)
                   else Some (rune_error, 4))
              | _ \<Rightarrow> Some (rune_error, 4))
           else Some (utf8_encode r, 4)))"

text \<open>The rest of a string after its opening quote: the bytes it stands for and what follows it.\<close>

function json_string :: "string \<Rightarrow> string \<Rightarrow> (string \<times> string) option" where
  "json_string acc s =
     (case s of
        [] \<Rightarrow> None
      | c # cs \<Rightarrow>
          (if c = CHR 0x22 then Some (acc, cs)
           else if c = CHR 0x5C then
             (case cs of
                [] \<Rightarrow> None
              | d # ds \<Rightarrow>
                  (if d = CHR ''u'' then
                     (case unicode_escape ds of
                        None \<Rightarrow> None
                      | Some (b, k) \<Rightarrow> json_string (acc @ b) (drop k ds))
                   else (case simple_escape d of None \<Rightarrow> None | Some b \<Rightarrow> json_string (acc @ [b]) ds)))
           else if (of_char c :: nat) < 0x20 then None
           else if (of_char c :: nat) < 0x80 then json_string (acc @ [c]) cs
           else (let k = utf8_width s in json_string (acc @ (if k = 1 then rune_error else take k s)) (drop k s))))"
  by pat_completeness auto
termination
  by (relation "measure (length \<circ> snd)") (auto simp: Let_def)

declare json_string.simps [simp del]

text \<open>A number, as its text.\<close>

definition digits_front :: "string \<Rightarrow> string \<times> string" where
  "digits_front s = (takeWhile is_digit s, dropWhile is_digit s)"

definition front_is :: "char \<Rightarrow> string \<Rightarrow> bool" where
  "front_is c s = (case s of [] \<Rightarrow> False | d # _ \<Rightarrow> d = c)"

definition json_frac :: "string \<Rightarrow> (string \<times> string) option" where
  "json_frac s =
     (if front_is (CHR ''.'') s
      then (case digits_front (tl s) of (d, r) \<Rightarrow> if d = [] then None else Some (CHR ''.'' # d, r))
      else Some ([], s))"

definition json_exp :: "string \<Rightarrow> (string \<times> string) option" where
  "json_exp s =
     (if front_is (CHR ''e'') s \<or> front_is (CHR ''E'') s
      then
        (let r = tl s;
             sg = (if front_is (CHR ''+'') r \<or> front_is (CHR ''-'') r then [hd r] else []);
             (d, r') = digits_front (drop (length sg) r)
         in if d = [] then None else Some (hd s # sg @ d, r'))
      else Some ([], s))"

definition json_whole :: "string \<Rightarrow> string \<times> string" where
  "json_whole s = (if front_is (CHR ''0'') s then (''0'', tl s) else digits_front s)"

definition json_number :: "string \<Rightarrow> (string \<times> string) option" where
  "json_number s =
     (let sign = (if front_is (CHR ''-'') s then ''-'' else []);
          s1 = drop (length sign) s;
          (ip, s2) = json_whole s1
      in if ip = [] then None
         else
           (case json_frac s2 of
              None \<Rightarrow> None
            | Some (fp, s3) \<Rightarrow>
                (case json_exp s3 of None \<Rightarrow> None | Some (ep, s4) \<Rightarrow> Some (sign @ ip @ fp @ ep, s4))))"

definition literal :: "string \<Rightarrow> json \<Rightarrow> string \<Rightarrow> (json \<times> string) option" where
  "literal name v s = (if strings_HasPrefix s name then Some (v, drop (length name) s) else None)"

fun json_value :: "nat \<Rightarrow> nat \<Rightarrow> string \<Rightarrow> (json \<times> string) option"
  and json_elems :: "nat \<Rightarrow> nat \<Rightarrow> string \<Rightarrow> (json list \<times> string) option"
  and json_members :: "nat \<Rightarrow> nat \<Rightarrow> string \<Rightarrow> ((string \<times> json) list \<times> string) option" where
  "json_value 0 d s = None"
| "json_value (Suc n) d s =
     (case skip_ws s of
        [] \<Rightarrow> None
      | c # cs \<Rightarrow>
          (if c = CHR ''{'' then
             (if d = 0 then None
              else if front_is (CHR ''}'') (skip_ws cs) then Some (JObj [], tl (skip_ws cs))
              else map_option (apfst JObj) (json_members n (d - 1) cs))
           else if c = CHR ''['' then
             (if d = 0 then None
              else if front_is (CHR '']'') (skip_ws cs) then Some (JArr [], tl (skip_ws cs))
              else map_option (apfst JArr) (json_elems n (d - 1) cs))
           else if c = CHR 0x22 then map_option (apfst JStr) (json_string [] cs)
           else if c = CHR ''t'' then literal ''true'' (JBool True) (c # cs)
           else if c = CHR ''f'' then literal ''false'' (JBool False) (c # cs)
           else if c = CHR ''n'' then literal ''null'' JNull (c # cs)
           else map_option (apfst JNum) (json_number (c # cs))))"
| "json_elems 0 d s = None"
| "json_elems (Suc n) d s =
     (case json_value n d s of
        None \<Rightarrow> None
      | Some (v, r) \<Rightarrow>
          (if front_is (CHR '']'') (skip_ws r) then Some ([v], tl (skip_ws r))
           else if front_is (CHR '','') (skip_ws r) then map_option (apfst ((#) v)) (json_elems n d (tl (skip_ws r)))
           else None))"
| "json_members 0 d s = None"
| "json_members (Suc n) d s =
     (if \<not> front_is (CHR 0x22) (skip_ws s) then None
      else (case json_string [] (tl (skip_ws s)) of
              None \<Rightarrow> None
            | Some (k, r) \<Rightarrow>
                (if \<not> front_is (CHR '':'') (skip_ws r) then None
                 else (case json_value n d (tl (skip_ws r)) of
                         None \<Rightarrow> None
                       | Some (v, r2) \<Rightarrow>
                           (if front_is (CHR ''}'') (skip_ws r2) then Some ([(k, v)], tl (skip_ws r2))
                            else if front_is (CHR '','') (skip_ws r2)
                            then map_option (apfst ((#) (k, v))) (json_members n d (tl (skip_ws r2)))
                            else None)))))"

definition json_parse :: "string \<Rightarrow> json option" where
  "json_parse s =
     (case json_value (2 * length s + 2) 10000 s of
        Some (v, r) \<Rightarrow> (if skip_ws r = [] then Some v else None)
      | None \<Rightarrow> None)"

section \<open>Printing\<close>

definition hex_escape :: "nat \<Rightarrow> string" where
  "hex_escape n =
     (let dig = (\<lambda>k. if k < 10 then char_of (48 + k) else char_of (87 + k :: nat))
      in [CHR 0x5C, CHR ''u'', dig (n div 4096), dig (n div 256 mod 16), dig (n div 16 mod 16), dig (n mod 16)])"

text \<open>A sequence of bytes as \<open>utf8_runes\<close> gives it; a single byte above ASCII is ill-formed.\<close>

definition json_escape :: "string \<Rightarrow> string" where
  "json_escape r =
     (if r = [CHR 0xE2, CHR 0x80, CHR 0xA8] then hex_escape 0x2028
      else if r = [CHR 0xE2, CHR 0x80, CHR 0xA9] then hex_escape 0x2029
      else (case r of
        [c] \<Rightarrow>
          (if c = CHR 0x22 \<or> c = CHR 0x5C then [CHR 0x5C, c]
           else if c = CHR 0x08 then [CHR 0x5C, CHR ''b''] else if c = CHR 0x0C then [CHR 0x5C, CHR ''f'']
           else if c = CHR 0x0A then [CHR 0x5C, CHR ''n''] else if c = CHR 0x0D then [CHR 0x5C, CHR ''r'']
           else if c = CHR 0x09 then [CHR 0x5C, CHR ''t'']
           else if (of_char c :: nat) < 0x20 \<or> c = CHR ''<'' \<or> c = CHR ''>'' \<or> c = CHR ''&'' then hex_escape (of_char c)
           else if (of_char c :: nat) < 0x80 then [c]
           else hex_escape 0xFFFD)
      | _ \<Rightarrow> r))"

definition json_quote :: "string \<Rightarrow> string" where
  "json_quote s = CHR 0x22 # concat (map json_escape (utf8_runes s)) @ [CHR 0x22]"

text \<open>\<open>json.Marshal\<close>: the members in the given order (that of the struct; sorted by the caller for a map).\<close>

fun json_Marshal :: "json \<Rightarrow> string" where
  "json_Marshal JNull = ''null''"
| "json_Marshal (JBool b) = (if b then ''true'' else ''false'')"
| "json_Marshal (JNum t) = t"
| "json_Marshal (JStr s) = json_quote s"
| "json_Marshal (JArr vs) = CHR ''['' # strings_Join (map json_Marshal vs) '','' @ '']''"
| "json_Marshal (JObj ms) =
     CHR ''{'' # strings_Join (map (\<lambda>(k, v). json_quote k @ '':'' @ json_Marshal v) ms) '','' @ ''}''"

section \<open>Storing into fields\<close>

text \<open>\<open>strconv.ParseInt(t, 10, 64)\<close> of the text of a number.\<close>

definition digits_val :: "string \<Rightarrow> nat" where
  "digits_val t = foldl (\<lambda>v c. 10 * v + (of_char c - 48)) 0 t"

definition json_int :: "string \<Rightarrow> int option" where
  "json_int t =
     (let neg = front_is (CHR ''-'') t;
          ds = (if neg then tl t else t);
          v = (if neg then - int (digits_val ds) else int (digits_val ds))
      in if ds \<noteq> [] \<and> list_all is_digit ds \<and> - (2 ^ 63) \<le> v \<and> v < 2 ^ 63 then Some v else None)"

text \<open>The value of a field after a member was stored into it, and whether that was an error.\<close>

definition store_int :: "json \<Rightarrow> int \<Rightarrow> int \<times> bool" where
  "store_int v old =
     (case v of
        JNull \<Rightarrow> (old, False)
      | JNum t \<Rightarrow> (case json_int t of Some i \<Rightarrow> (i, False) | None \<Rightarrow> (old, True))
      | _ \<Rightarrow> (old, True))"

definition store_bool :: "json \<Rightarrow> bool \<Rightarrow> bool \<times> bool" where
  "store_bool v old = (case v of JNull \<Rightarrow> (old, False) | JBool b \<Rightarrow> (b, False) | _ \<Rightarrow> (old, True))"

definition store_string :: "json \<Rightarrow> string \<Rightarrow> string \<times> bool" where
  "store_string v old = (case v of JNull \<Rightarrow> (old, False) | JStr s \<Rightarrow> (s, False) | _ \<Rightarrow> (old, True))"

section \<open>Lemmas\<close>

lemma of_char_char_of_small: "n < 256 \<Longrightarrow> (of_char (char_of n :: char) :: nat) = n"
  by simp

lemma show_nat_digits: "list_all is_digit (show_nat n)"
  using show_nat_chars [of _ n] by (simp add: list_all_iff is_digit_def byte_in_def)

lemma digits_val_snoc: "digits_val (t @ [c]) = 10 * digits_val t + (of_char c - 48)"
  by (simp add: digits_val_def)

lemma digits_val_show: "digits_val (show_nat n) = n"
proof (induction n rule: show_nat.induct)
  case (1 n)
  have small: "digits_val [char_of (48 + k)] = k" if "k < 10" for k
    using that by (simp add: digits_val_def)
  show ?case
  proof (cases "n < 10")
    case True
    then show ?thesis using small [OF True] by (subst show_nat.simps) simp
  next
    case False
    have "n mod 10 < 10" by simp
    then have "48 + n mod 10 < 256" by linarith
    then have "(of_char (char_of (48 + n mod 10) :: char) :: nat) = 48 + n mod 10" by (rule of_char_char_of_small)
    then show ?thesis using False 1 by (subst show_nat.simps) (simp add: digits_val_snoc)
  qed
qed

lemma show_nat_front: "0 < n \<Longrightarrow> hd (show_nat n) \<noteq> CHR ''0''"
proof (induction n rule: show_nat.induct)
  case (1 n)
  show ?case
  proof (cases "n < 10")
    case True
    then have "(of_char (char_of (48 + n) :: char) :: nat) = 48 + n" by (intro of_char_char_of_small) simp
    moreover have "(of_char (CHR ''0'') :: nat) = 48" by simp
    ultimately have "char_of (48 + n) \<noteq> CHR ''0''" using 1(2) by (metis add_eq_self_zero less_not_refl)
    then show ?thesis using True by (subst show_nat.simps) simp
  next
    case False
    then have "hd (show_nat (n div 10)) \<noteq> CHR ''0''" using 1 by simp
    then show ?thesis using False by (subst show_nat.simps) simp
  qed
qed

lemma show_nat_shape:
  obtains (zero) "n = 0" "show_nat n = ''0''" | (pos) c r where "show_nat n = c # r" "c \<noteq> CHR ''0''"
proof (cases "n = 0")
  case True
  moreover have "show_nat 0 = ''0''" by code_simp
  ultimately show thesis using zero by simp
next
  case False
  then show thesis using pos [of "hd (show_nat n)" "tl (show_nat n)"] show_nat_front [of n] by simp
qed

lemma digits_front_show:
  assumes "c # r = s" "\<not> is_digit c"
  shows "digits_front (show_nat n @ s) = (show_nat n, s)"
  using assms show_nat_digits [of n]
  by (auto simp: digits_front_def list_all_iff takeWhile_append dropWhile_append)

lemma not_digit_delim: "c = CHR '','' \<or> c = CHR ''}'' \<or> c = CHR '']'' \<Longrightarrow> \<not> is_digit c"
  by (auto simp: is_digit_def byte_in_def)

text \<open>A printed number is read back, up to the delimiter that follows it.\<close>

lemma front_show_nat [simp]: "\<not> front_is (CHR ''-'') (show_nat n)" "\<not> front_is (CHR ''-'') (show_nat n @ s)"
proof -
  have "\<not> front_is (CHR ''-'') (show_nat n @ s)" for s
    using show_nat_chars [of "hd (show_nat n)" n] by (cases "show_nat n") (auto simp: front_is_def)
  from this [of "[]"] this [of s] show "\<not> front_is (CHR ''-'') (show_nat n)" "\<not> front_is (CHR ''-'') (show_nat n @ s)" by simp_all
qed

lemma front_Cons [simp]: "front_is c (d # s) \<longleftrightarrow> d = c"
  by (simp add: front_is_def)

lemma json_number_show:
  assumes "c = CHR '','' \<or> c = CHR ''}'' \<or> c = CHR '']''"
  shows "json_number (show_int i @ c # r) = Some (show_int i, c # r)"
proof -
  have int: "json_whole (show_nat n @ c # r) = (show_nat n, c # r)" for n
  proof (cases rule: show_nat_shape [of n])
    case (pos x y)
    then have "\<not> front_is (CHR ''0'') (show_nat n @ c # r)" by simp
    then show ?thesis using digits_front_show [OF refl not_digit_delim [OF assms], of n r] by (simp add: json_whole_def)
  qed (simp add: json_whole_def)
  have "json_frac (c # r) = Some ([], c # r)" "json_exp (c # r) = Some ([], c # r)"
    using assms by (auto simp: json_frac_def json_exp_def)
  with int show ?thesis
    by (cases "i < 0") (simp_all add: json_number_def show_int_def Let_def)
qed

lemma json_int_show: "- (2 ^ 63) \<le> i \<Longrightarrow> i < 2 ^ 63 \<Longrightarrow> json_int (show_int i) = Some i"
  by (auto simp: json_int_def show_int_def Let_def show_nat_digits digits_val_show)

text \<open>Text without quotes, escapes and control characters stands for itself.\<close>

definition plain_char :: "char \<Rightarrow> bool" where
  "plain_char c = (c \<noteq> CHR 0x22 \<and> c \<noteq> CHR 0x5C \<and> byte_in 0x20 0x7F c)"

lemma json_string_plain:
  "list_all plain_char t \<Longrightarrow> json_string acc (t @ CHR 0x22 # r) = Some (acc @ t, r)"
proof (induction t arbitrary: acc)
  case Nil
  then show ?case by (subst json_string.simps) simp
next
  case (Cons c t)
  then show ?case by (subst json_string.simps) (simp add: plain_char_def byte_in_def)
qed

lemma skip_ws_Cons: "\<not> json_ws c \<Longrightarrow> skip_ws (c # s) = c # s"
  by (simp add: skip_ws_def)

text \<open>One printed member of an object with a plain key.\<close>

lemma members_int:
  assumes "list_all plain_char k" "c = CHR '','' \<or> c = CHR ''}''"
  shows "json_members (Suc (Suc n)) d (CHR 0x22 # k @ CHR 0x22 # CHR '':'' # show_int i @ c # r) =
    (if c = CHR ''}'' then Some ([(k, JNum (show_int i))], r)
     else map_option (apfst ((#) (k, JNum (show_int i)))) (json_members (Suc n) d r))"
proof -
  have digit: "\<not> json_ws x \<and> x \<noteq> CHR ''{'' \<and> x \<noteq> CHR ''['' \<and> x \<noteq> CHR 0x22 \<and> x \<noteq> CHR ''t'' \<and> x \<noteq> CHR ''f'' \<and> x \<noteq> CHR ''n''"
    if "show_int i @ c # r = x # y" for x y
  proof -
    have "x = CHR ''-'' \<or> is_digit x"
      using that show_nat_digits [of "nat i"] by (cases "show_nat (nat i)") (auto simp: show_int_def split: if_splits)
    then show ?thesis by (auto simp: json_ws_def is_digit_def byte_in_def)
  qed
  obtain x y where xy: "show_int i @ c # r = x # y" by (cases "show_int i @ c # r") auto
  have "json_value (Suc n) d (show_int i @ c # r) = Some (JNum (show_int i), c # r)"
    using digit [OF xy] json_number_show [of c i r] assms(2) xy by (auto simp: skip_ws_Cons)
  moreover have "\<not> json_ws c" "\<not> json_ws (CHR 0x22)" "\<not> json_ws (CHR '':'')" using assms(2) by (auto simp: json_ws_def)
  ultimately show ?thesis
    using assms(2) json_string_plain [OF assms(1), of "[]"] by (auto simp: skip_ws_Cons)
qed

lemma members_bool:
  assumes "list_all plain_char k"
  shows "json_members (Suc (Suc n)) d (CHR 0x22 # k @ CHR 0x22 # CHR '':'' # json_Marshal (JBool b) @ CHR '','' # r) =
    map_option (apfst ((#) (k, JBool b))) (json_members (Suc n) d r)"
proof -
  have "\<not> json_ws (CHR 0x22)" "\<not> json_ws (CHR '':'')" "\<not> json_ws (CHR '','')" "\<not> json_ws (CHR ''t'')" "\<not> json_ws (CHR ''f'')"
    by (auto simp: json_ws_def)
  then show ?thesis
    using json_string_plain [OF assms, of "[]"] by (auto simp: skip_ws_Cons literal_def strings_HasPrefix_def)
qed

lemma utf8_runes_ascii: "list_all (byte_in 0 0x7F) s \<Longrightarrow> utf8_runes s = map (\<lambda>c. [c]) s"
proof (induction s)
  case Nil
  then show ?case by (simp add: utf8_runes.simps)
next
  case (Cons c s)
  then have "utf8_width (c # s) = 1"
    by (induction "c # s" rule: utf8_width.induct) (auto simp: byte_in_def)
  with Cons show ?case by (subst utf8_runes.simps) simp
qed

lemma json_quote_plain:
  assumes "list_all (\<lambda>c. plain_char c \<and> c \<noteq> CHR ''<'' \<and> c \<noteq> CHR ''>'' \<and> c \<noteq> CHR ''&'') k"
  shows "json_quote k = CHR 0x22 # k @ [CHR 0x22]"
proof -
  have "json_escape [c] = [c]" if "plain_char c" "c \<noteq> CHR ''<''" "c \<noteq> CHR ''>''" "c \<noteq> CHR ''&''" for c
  proof -
    have "c \<noteq> CHR 0x08" "c \<noteq> CHR 0x0C" "c \<noteq> CHR 0x0A" "c \<noteq> CHR 0x0D" "c \<noteq> CHR 0x09" "c \<noteq> CHR 0x22" "c \<noteq> CHR 0x5C"
      "\<not> of_char c < (0x20 :: nat)" "of_char c < (0x80 :: nat)"
      using that(1) by (auto simp: plain_char_def byte_in_def)
    with that show ?thesis by (simp add: json_escape_def)
  qed
  then have "concat (map json_escape (map (\<lambda>c. [c]) k)) = k"
    using assms by (induction k) auto
  moreover have "utf8_runes k = map (\<lambda>c. [c]) k"
    by (rule utf8_runes_ascii) (use assms in \<open>auto simp: list_all_iff plain_char_def byte_in_def\<close>)
  ultimately show ?thesis by (simp add: json_quote_def)
qed

lemma members_string:
  assumes "list_all plain_char k" "list_all plain_char v"
  shows "json_members (Suc (Suc n)) d (CHR 0x22 # k @ CHR 0x22 # CHR '':'' # CHR 0x22 # v @ CHR 0x22 # CHR '','' # r) =
    map_option (apfst ((#) (k, JStr v))) (json_members (Suc n) d r)"
proof -
  have "\<not> json_ws (CHR 0x22)" "\<not> json_ws (CHR '':'')" "\<not> json_ws (CHR '','')" by (auto simp: json_ws_def)
  then show ?thesis
    using json_string_plain [OF assms(1), of "[]"] json_string_plain [OF assms(2), of "[]"] by (auto simp: skip_ws_Cons)
qed

end
