(* ===== verification/Net_Addr.thy ===== *)
theory Net_Addr
  imports Go_IO Go_Json
begin

text \<open>
  The parts of \<open>net/url\<close> and \<open>net\<close> that the checks of a webhook address use: \<open>url.Parse\<close> with \<open>Hostname\<close>,
  and \<open>net.ParseIP\<close>, as in Go 1.26 (an IPv6 literal only at the start of the host, a single colon before
  the port). Of a parsed URL the model keeps the scheme, the host and whether there is user information.
  An IP address is its list of sixteen bytes.
\<close>

section \<open>IP addresses\<close>

text \<open>A field of a dotted address: digits without a leading zero, at most 255.\<close>

definition ipv4_field :: "string \<Rightarrow> nat option" where
  "ipv4_field f =
     (if f \<noteq> [] \<and> list_all is_digit f \<and> (length f = 1 \<or> \<not> front_is (CHR ''0'') f) \<and> digits_val f \<le> 255
      then Some (digits_val f) else None)"

definition ipv4_fields :: "string \<Rightarrow> nat list option" where
  "ipv4_fields s =
     (case map ipv4_field (strings_Split (CHR ''.'') s) of
        [Some a, Some b, Some c, Some d] \<Rightarrow> Some [a, b, c, d]
      | _ \<Rightarrow> None)"

definition hex_front :: "string \<Rightarrow> string" where
  "hex_front s = takeWhile (\<lambda>c. hex_val c \<noteq> None) s"

definition hex_num :: "string \<Rightarrow> nat" where
  "hex_num s = foldl (\<lambda>v c. 16 * v + (case hex_val c of None \<Rightarrow> 0 | Some d \<Rightarrow> d)) 0 s"

text \<open>The groups of an IPv6 address; \<open>n\<close> more fit. The result has the bytes and the place of the \<open>::\<close>.\<close>

fun ipv6_groups :: "nat \<Rightarrow> nat list \<Rightarrow> nat option \<Rightarrow> string \<Rightarrow> (nat list \<times> nat option) option" where
  "ipv6_groups 0 ip ell s = (if s = [] then Some (ip, ell) else None)"
| "ipv6_groups (Suc n) ip ell s =
     (let h = hex_front s; r = drop (length h) s; ip' = ip @ [hex_num h div 256, hex_num h mod 256]
      in if h = [] \<or> length h > 4 then None
         else if front_is (CHR ''.'') r then
           (if ell = None \<and> length ip \<noteq> 12 \<or> length ip + 4 > 16 then None
            else (case ipv4_fields s of None \<Rightarrow> None | Some v4 \<Rightarrow> Some (ip @ v4, ell)))
         else if r = [] then Some (ip', ell)
         else if \<not> front_is (CHR '':'') r \<or> length r = 1 then None
         else if front_is (CHR '':'') (tl r) then
           (if ell \<noteq> None then None
            else if length r = 2 then Some (ip', Some (length ip'))
            else ipv6_groups n ip' (Some (length ip')) (drop 2 r))
         else ipv6_groups n ip' ell (tl r))"

definition ipv6_expand :: "nat list \<times> nat option \<Rightarrow> nat list option" where
  "ipv6_expand x =
     (let (ip, ell) = x
      in if length ip < 16 then
           (case ell of
              None \<Rightarrow> None
            | Some e \<Rightarrow> Some (take e ip @ replicate (16 - length ip) 0 @ drop e ip))
         else (if ell = None then Some ip else None))"

text \<open>\<open>netip.ParseAddr\<close>: the bytes (four or sixteen) and the zone.\<close>

definition parse_ipv6 :: "string \<Rightarrow> (nat list \<times> string) option" where
  "parse_ipv6 s =
     (let a = takeWhile (\<lambda>c. c \<noteq> CHR ''%'') s; z = drop (length a) s
      in if length z = 1 then None
         else if a = ''::'' then Some (replicate 16 0, tl z)
         else (let lead = strings_HasPrefix a ''::''
               in case ipv6_groups 8 [] (if lead then Some 0 else None) (if lead then drop 2 a else a) of
                    None \<Rightarrow> None
                  | Some x \<Rightarrow> map_option (\<lambda>ip. (ip, tl z)) (ipv6_expand x)))"

fun addr_kind :: "string \<Rightarrow> char option" where
  "addr_kind [] = None"
| "addr_kind (c # cs) = (if c = CHR ''.'' \<or> c = CHR '':'' \<or> c = CHR ''%'' then Some c else addr_kind cs)"

definition ParseAddr :: "string \<Rightarrow> (nat list \<times> string) option" where
  "ParseAddr s =
     (case addr_kind s of
        None \<Rightarrow> None
      | Some c \<Rightarrow>
          (if c = CHR ''.'' then map_option (\<lambda>ip. (ip, [])) (ipv4_fields s)
           else if c = CHR '':'' then parse_ipv6 s
           else None))"

definition v4_prefix :: "nat list" where
  "v4_prefix = replicate 10 0 @ [255, 255]"

definition net_ParseIP :: "string \<Rightarrow> nat list option" where
  "net_ParseIP s =
     (case ParseAddr s of
        None \<Rightarrow> None
      | Some (ip, zone) \<Rightarrow> (if zone \<noteq> [] then None else Some (if length ip = 4 then v4_prefix @ ip else ip)))"

definition To4 :: "nat list \<Rightarrow> nat list option" where
  "To4 ip = (if length ip = 4 then Some ip else if length ip = 16 \<and> take 12 ip = v4_prefix then Some (drop 12 ip) else None)"

section \<open>URLs\<close>

record parsed_url =
  pu_Scheme :: string
  pu_Host :: string
  pu_hasUser :: bool

datatype url_mode = MHost | MZone | MPath

definition is_letter :: "char \<Rightarrow> bool" where
  "is_letter c = (byte_in 97 122 c \<or> byte_in 65 90 c)"

definition host_char :: "char \<Rightarrow> bool" where
  "host_char c =
     (is_letter c \<or> is_digit c \<or> c \<in> set (''!$&()*+,;=:[]<>-_.~'' @ [CHR 0x27, CHR 0x22]))"

fun url_unescape :: "url_mode \<Rightarrow> string \<Rightarrow> string option" where
  "url_unescape m [] = Some []"
| "url_unescape m (c # cs) =
     (if c = CHR ''%'' then
        (case cs of
           a # b # r \<Rightarrow>
             (case (hex_val a, hex_val b) of
                (Some x, Some y) \<Rightarrow>
                  (let d = char_of (16 * x + y); pct = (x = 2 \<and> y = 5)
                   in if m = MHost \<and> x < 8 \<and> \<not> pct then None
                      else if m = MZone \<and> \<not> pct \<and> d \<noteq> CHR '' '' \<and> \<not> host_char d then None
                      else map_option ((#) d) (url_unescape m r))
              | _ \<Rightarrow> None)
         | _ \<Rightarrow> None)
      else if (m = MHost \<or> m = MZone) \<and> (of_char c :: nat) < 128 \<and> \<not> host_char c then None
      else map_option ((#) c) (url_unescape m cs))"

fun get_scheme :: "string \<Rightarrow> string \<Rightarrow> string \<Rightarrow> (string \<times> string) option" where
  "get_scheme raw acc [] = Some ([], raw)"
| "get_scheme raw acc (c # cs) =
     (if is_letter c then get_scheme raw (acc @ [c]) cs
      else if is_digit c \<or> c = CHR ''+'' \<or> c = CHR ''-'' \<or> c = CHR ''.'' then
        (if acc = [] then Some ([], raw) else get_scheme raw (acc @ [c]) cs)
      else if c = CHR '':'' then (if acc = [] then None else Some (acc, cs))
      else Some ([], raw))"

definition validOptionalPort :: "string \<Rightarrow> bool" where
  "validOptionalPort p = (p = [] \<or> (front_is (CHR '':'') p \<and> list_all is_digit (tl p)))"

definition parseHost :: "string \<Rightarrow> string option" where
  "parseHost host =
     (case strings_LastIndex host ''['' of
        Some (Suc _) \<Rightarrow> None
      | Some 0 \<Rightarrow>
          (case strings_LastIndex host '']'' of
             None \<Rightarrow> None
           | Some j \<Rightarrow>
               (let port = drop (j + 1) host; name = drop 1 (take j host)
                in if \<not> validOptionalPort port then None
                   else (case (case strings_Index name ''%25'' of
                           None \<Rightarrow> url_unescape MHost name
                         | Some z \<Rightarrow>
                             (case (url_unescape MHost (take z name), url_unescape MZone (drop z name)) of
                                (Some a, Some b) \<Rightarrow> Some (a @ b)
                              | _ \<Rightarrow> None)) of
                           None \<Rightarrow> None
                         | Some h \<Rightarrow>
                             (case ParseAddr h of
                                None \<Rightarrow> None
                              | Some (ip, _) \<Rightarrow> (if length ip = 4 then None else Some (''['' @ h @ '']'' @ port))))))
      | None \<Rightarrow>
          (case strings_Index host '':'' of
             Some i \<Rightarrow> (if validOptionalPort (drop i host) then url_unescape MHost host else None)
           | None \<Rightarrow> url_unescape MHost host))"

definition user_char :: "char \<Rightarrow> bool" where
  "user_char c = (is_letter c \<or> is_digit c \<or> c \<in> set (''-._:~!$&()*+,;=%@'' @ [CHR 0x27]))"

definition parseAuthority :: "string \<Rightarrow> (bool \<times> string) option" where
  "parseAuthority a =
     (case strings_LastIndex a ''@'' of
        None \<Rightarrow> map_option (\<lambda>h. (False, h)) (parseHost a)
      | Some i \<Rightarrow>
          (case parseHost (drop (i + 1) a) of
             None \<Rightarrow> None
           | Some h \<Rightarrow>
               (if \<not> list_all user_char (take i a) \<or> url_unescape MPath (take i a) = None then None
                else Some (True, h))))"

text \<open>\<open>strings.Cut(s, c)\<close> for one byte: what is before the first \<open>c\<close>.\<close>

definition before_byte :: "char \<Rightarrow> string \<Rightarrow> string" where
  "before_byte c s = takeWhile (\<lambda>x. x \<noteq> c) s"

definition from_byte :: "char \<Rightarrow> string \<Rightarrow> string" where
  "from_byte c s = dropWhile (\<lambda>x. x \<noteq> c) s"

definition url_ctl :: "string \<Rightarrow> bool" where
  "url_ctl s = list_ex (\<lambda>c. (of_char c :: nat) < 32 \<or> (of_char c :: nat) = 127) s"

definition url_rest :: "string \<Rightarrow> string \<Rightarrow> parsed_url option" where
  "url_rest scheme rest =
     (if \<not> front_is (CHR ''/'') rest \<and> scheme \<noteq> []
      then Some \<lparr>pu_Scheme = scheme, pu_Host = [], pu_hasUser = False\<rparr>
      else if \<not> front_is (CHR ''/'') rest \<and> CHR '':'' \<in> set (before_byte (CHR ''/'') rest) then None
      else if (scheme \<noteq> [] \<or> \<not> strings_HasPrefix rest ''///'') \<and> strings_HasPrefix rest ''//'' then
        (let au = before_byte (CHR ''/'') (drop 2 rest); path = from_byte (CHR ''/'') (drop 2 rest)
         in case parseAuthority au of
              None \<Rightarrow> None
            | Some (user, host) \<Rightarrow>
                (if url_unescape MPath path = None then None
                 else Some \<lparr>pu_Scheme = scheme, pu_Host = host, pu_hasUser = user\<rparr>))
      else if url_unescape MPath rest = None then None
      else Some \<lparr>pu_Scheme = scheme, pu_Host = [], pu_hasUser = False\<rparr>)"

definition url_Parse :: "string \<Rightarrow> parsed_url option" where
  "url_Parse raw =
     (let u = before_byte (CHR ''#'') raw; frag = tl (from_byte (CHR ''#'') raw)
      in if url_ctl u then None
         else if u = ''*'' then Some \<lparr>pu_Scheme = [], pu_Host = [], pu_hasUser = False\<rparr>
         else (case get_scheme u [] u of
                 None \<Rightarrow> None
               | Some (sch, rest) \<Rightarrow>
                   (case url_rest (strings_ToLower sch) (before_byte (CHR ''?'') rest) of
                      None \<Rightarrow> None
                    | Some p \<Rightarrow> (if url_unescape MPath frag = None then None else Some p))))"

definition url_Hostname :: "parsed_url \<Rightarrow> string" where
  "url_Hostname u =
     (let h = pu_Host u;
          h1 = (case strings_LastIndex h '':'' of
                  Some i \<Rightarrow> (if validOptionalPort (drop i h) then take i h else h)
                | None \<Rightarrow> h)
      in if strings_HasPrefix h1 ''['' \<and> strings_HasSuffix h1 '']'' then butlast (tl h1) else h1)"

end
