(* ===== verification/Go_Struct.thy ===== *)
theory Go_Struct
  imports Go_IO Go_Json
begin

text \<open>\<open>json.Unmarshal\<close> into structs and slices of strings.\<close>

text \<open>A JSON array into a slice of strings: \<open>null\<close> elements keep what was there.\<close>

definition store_strings :: "json \<Rightarrow> string list \<Rightarrow> string list \<times> bool" where
  "store_strings v old =
     (case v of
        JNull \<Rightarrow> ([], False)
      | JArr vs \<Rightarrow>
          (map (\<lambda>(i, x). case x of JStr s \<Rightarrow> s | _ \<Rightarrow> (if i < length old then old ! i else [])) (enumerate 0 vs),
           list_ex (\<lambda>x. case x of JStr _ \<Rightarrow> False | JNull \<Rightarrow> False | _ \<Rightarrow> True) vs)
      | _ \<Rightarrow> (old, True))"

text \<open>\<open>json.Unmarshal\<close> into a struct, given how a member is stored.\<close>

definition unmarshal :: "('s \<Rightarrow> string \<times> json \<Rightarrow> 's \<times> bool) \<Rightarrow> 's \<Rightarrow> string \<Rightarrow> 's result" where
  "unmarshal store zero text =
     (case json_parse text of
        None \<Rightarrow> Inl (Err ''invalid character in JSON'')
      | Some JNull \<Rightarrow> Inr zero
      | Some (JObj ms) \<Rightarrow>
          (case foldl (\<lambda>(s, bad) kv. case store s kv of (s', b) \<Rightarrow> (s', bad \<or> b)) (zero, False) ms of
             (s, bad) \<Rightarrow> (if bad then Inl (Err ''json: cannot unmarshal'') else Inr s))
      | Some _ \<Rightarrow> Inl (Err ''json: cannot unmarshal''))"

text \<open>
  \<open>json.NewDecoder(r).Decode(&s)\<close>: only the first value of the stream is read, so that text after an object is not an
  error. The struct as far as it was filled, and whether there was an error: a text with a syntax error fills nothing,
  a member of the wrong type is left out.
\<close>

definition decode_struct :: "('s \<Rightarrow> string \<times> json \<Rightarrow> 's \<times> bool) \<Rightarrow> 's \<Rightarrow> string \<Rightarrow> 's \<times> bool" where
  "decode_struct store zero text =
     (case json_value (2 * length text + 2) 10000 text of
        Some (JNull, _) \<Rightarrow> (zero, False)
      | Some (JObj ms, _) \<Rightarrow> foldl (\<lambda>(s, bad) kv. case store s kv of (s', b) \<Rightarrow> (s', bad \<or> b)) (zero, False) ms
      | _ \<Rightarrow> (zero, True))"

end
