(* ===== verification/Paths.thy ===== *)
theory Paths
  imports Go_IO
begin

text \<open>
  The path guards: \<open>GuardPath\<close> and \<open>EnsureSubpath\<close> of \<open>internal/storage/restore.go\<close>, through which
  every path the program builds from a tenant, a service, a hash, a snapshot or a user's input
  reaches the disk; the checks of snapshot identifiers (\<open>snapshotid.go\<close>); the normalisation of
  browser paths (\<open>browse.go\<close> of both packages); and the functions that turn mailbox, folder and
  file names of Microsoft 365 into path elements (\<open>sanitize\<close> of \<open>internal/backup/exchange.go\<close>,
  \<open>SanitizeExportName\<close> of \<open>exports.go\<close>).
\<close>

section \<open>Definitions\<close>

definition has_nul :: "string \<Rightarrow> bool" where
  "has_nul s = strings_Contains s [CHR 0x00]"

definition GuardPath :: "string \<Rightarrow> string result" where
  "GuardPath p =
     (if p = [] \<or> has_nul p \<or> strings_Contains p ''..''
      then Inl (Err ''invalid path'') else Inr p)"

definition EnsureSubpath :: "string \<Rightarrow> string \<Rightarrow> string result" where
  "EnsureSubpath root sub =
     (case GuardPath root of
        Inl e \<Rightarrow> Inl e
      | Inr _ \<Rightarrow>
          (if has_nul sub \<or> strings_Contains sub ''..'' then Inl (Err ''invalid subpath'')
           else (let target = path_Join [root, path_Clean sub]
                 in if \<not> strings_HasPrefix target (path_Clean root @ ''/'')
                       \<and> target \<noteq> path_Clean root
                    then Inl (Err ''invalid subpath'')
                    else GuardPath target)))"

definition BlobsDir :: "string \<Rightarrow> string" where
  "BlobsDir tenantPath = path_Join [tenantPath, ''blobs'']"

definition ManifestsDir :: "string \<Rightarrow> string" where
  "ManifestsDir tenantPath = path_Join [tenantPath, ''manifests'']"

definition PSTExportRoot :: "string \<Rightarrow> string" where
  "PSTExportRoot repoPath = path_Join [repoPath, ''exports'', ''pst'']"

text \<open>The expression \<open>^[A-Za-z0-9][A-Za-z0-9._-]{0,127}$\<close>, matched by hand.\<close>

definition is_alnum :: "char \<Rightarrow> bool" where
  "is_alnum c =
     (let n = (of_char c :: nat)
      in (48 \<le> n \<and> n \<le> 57) \<or> (65 \<le> n \<and> n \<le> 90) \<or> (97 \<le> n \<and> n \<le> 122))"

definition snapshotIDRe :: "string \<Rightarrow> bool" where
  "snapshotIDRe s =
     (case s of
        [] \<Rightarrow> False
      | c # cs \<Rightarrow> is_alnum c \<and> list_all (\<lambda>x. is_alnum x \<or> x \<in> set ''._-'') cs \<and> length cs \<le> 127)"

definition ValidateSnapshotID :: "string \<Rightarrow> unit result" where
  "ValidateSnapshotID raw =
     (let sid = strings_TrimSpace raw
      in if sid = [] then Inl (Err ''snapshot id required'')
         else if sid = ''.'' \<or> sid = ''..'' \<or> strings_Contains sid ''..'' then Inl (Err ''invalid snapshot id'')
         else if strings_ContainsAny sid [slash, CHR 0x5C] then Inl (Err ''invalid snapshot id'')
         else if \<not> snapshotIDRe sid then Inl (Err ''invalid snapshot id'')
         else Inr ())"

definition SnapshotFile :: "string \<Rightarrow> string \<Rightarrow> string \<Rightarrow> string result" where
  "SnapshotFile repoPath sid ext =
     (case ValidateSnapshotID sid of
        Inl e \<Rightarrow> Inl e
      | Inr _ \<Rightarrow>
          (let ext' = (if \<not> strings_HasPrefix ext ''.'' then ''.'' @ ext else ext);
               root = path_Join [repoPath, ''snapshots'']
           in EnsureSubpath root (sid @ ext')))"

definition normalizeBrowseRel :: "string \<Rightarrow> string" where
  "normalizeBrowseRel rel =
     (let r = strings_TrimPrefix (path_Clean (''/'' @ rel)) ''/''
      in if r = ''.'' then [] else r)"

definition safeBrowsePath :: "string \<Rightarrow> string \<Rightarrow> string result" where
  "safeBrowsePath root rel0 =
     (if root = [] \<or> has_nul root \<or> strings_Contains root ''..'' then Inl (Err ''invalid subpath'')
      else (let rel = normalizeBrowseRel rel0
            in if has_nul rel \<or> strings_Contains rel ''..'' then Inl (Err ''invalid subpath'')
               else (case EnsureSubpath root (if rel = [] then ''.'' else rel) of
                       Inl e \<Rightarrow> Inl e
                     | Inr target \<Rightarrow>
                         (if strings_Contains target ''..'' then Inl (Err ''invalid subpath'')
                          else Inr target))))"

text \<open>\<open>normalizeRel\<close> of \<open>internal/catalog/browse.go\<close>.\<close>

definition normalizeRel :: "string \<Rightarrow> string" where
  "normalizeRel rel =
     (let r = strings_Trim (strings_ReplaceAll rel [CHR 0x5C] ''/'') slash
      in if r = ''.'' then [] else r)"

definition stringsContainsDotDot :: "string \<Rightarrow> bool" where
  "stringsContainsDotDot p = (p = ''..'' \<or> strings_Contains p ''..'')"

text \<open>The replacer of \<open>sanitize\<close> maps nine single bytes to an underscore.\<close>

definition sanitize_bytes :: string where
  "sanitize_bytes = [slash, CHR 0x5C, CHR '':'', CHR ''*'', CHR ''?'', CHR 0x22, CHR ''<'', CHR ''>'', CHR ''|'']"

definition sanitize :: "string \<Rightarrow> string" where
  "sanitize raw =
     (let s = strings_TrimSpace (map (\<lambda>c. if c \<in> set sanitize_bytes then CHR ''_'' else c) raw)
      in if s = [] \<or> s = ''.'' \<or> s = ''..'' then ''_''
         else if strings_Contains s ''..'' then strings_ReplaceAll s ''..'' ''_''
         else s)"

definition underRoot :: "string \<Rightarrow> string \<Rightarrow> bool" where
  "underRoot root target =
     (let r = path_Clean root; t = path_Clean target
      in t = r \<or> strings_HasPrefix t (r @ ''/''))"

definition stringsHasPrefixPath :: "string \<Rightarrow> string \<Rightarrow> bool" where
  "stringsHasPrefixPath p pre =
     (if pre = [] then True
      else (let cleanP = path_Clean p; cleanPre = path_Clean pre
            in cleanP = cleanPre
               \<or> (length cleanP > length cleanPre \<and> take (length cleanPre) cleanP = cleanPre
                  \<and> (cleanP ! length cleanPre = slash \<or> cleanPre = ''/''))))"

text \<open>
  \<open>strings.Map\<close> works on runes: a rune outside the allowed ASCII set becomes one underscore,
  whatever the number of its bytes.
\<close>

definition export_rune :: "string \<Rightarrow> char" where
  "export_rune r =
     (case r of [c] \<Rightarrow> (if is_alnum c \<or> c \<in> set ''-_.'' then c else CHR ''_'') | _ \<Rightarrow> CHR ''_'')"

definition SanitizeExportName :: "string \<Rightarrow> string" where
  "SanitizeExportName upn =
     (let s = map export_rune (utf8_runes (strings_ReplaceAll (strings_TrimSpace upn) ''@'' ''_at_''))
      in if s = [] then ''user'' else s)"

section \<open>Lemmas\<close>

lemma GuardPath_Inr [simp]:
  "GuardPath p = Inr q \<longleftrightarrow> q = p \<and> p \<noteq> [] \<and> \<not> has_nul p \<and> no_dotdot p"
  by (auto simp: GuardPath_def)

lemma has_nul_iff: "has_nul s \<longleftrightarrow> CHR 0x00 \<in> set s"
  by (simp add: has_nul_def)

lemma Split_chars: "s \<in> set (strings_Split c p) \<Longrightarrow> set s \<subseteq> set p"
  by (induction p arbitrary: s) (force split: if_splits list.splits)+

lemma Join_chars: "set (strings_Join segs sep) \<subseteq> (\<Union>s \<in> set segs. set s) \<union> set sep"
  by (induction segs sep rule: strings_Join.induct) auto

lemma path_segs_chars: "no_dotdot p \<Longrightarrow> s \<in> set (path_segs p) \<Longrightarrow> set s \<subseteq> set p"
  using Split_chars by (auto simp: path_segs_no_dotdot)

lemma render_no_nul:
  assumes "\<And>s. s \<in> set segs \<Longrightarrow> CHR 0x00 \<notin> set s"
  shows "\<not> has_nul (render_path r segs)"
proof -
  have "CHR 0x00 \<notin> set (strings_Join segs ''/'')"
    using Join_chars [of segs "''/''"] assms by auto
  then show ?thesis by (auto simp: has_nul_iff render_path_def)
qed

text \<open>The path that \<open>EnsureSubpath\<close> builds, when both arguments pass the first checks.\<close>

lemma EnsureSubpath_target:
  assumes "no_dotdot root" "root \<noteq> []" "no_dotdot sub"
  shows "path_Join [root, path_Clean sub] = render_path (is_rooted root) (path_segs root @ path_segs sub)"
proof -
  have segs: "clean_list (path_segs sub)" using assms(3) by simp
  have "no_dotdot (path_Clean sub)" "path_Clean sub \<noteq> []"
    using no_dotdot_render [OF segs] render_not_Nil [OF segs] by (auto simp: path_Clean_def)
  moreover have "path_segs (path_Clean sub) = path_segs sub"
    using path_segs_render [OF segs] by (simp add: path_Clean_def)
  ultimately show ?thesis using assms by (simp add: path_Join_two)
qed

lemma render_not_below_empty:
  assumes "clean_list b" "b \<noteq> []"
  shows "\<not> strings_HasPrefix (render_path r b) (render_path r [] @ ''/'')"
proof
  assume pre: "strings_HasPrefix (render_path r b) (render_path r [] @ ''/'')"
  show False
  proof (cases r)
    case True
    with pre have "is_rooted (strings_Join b ''/'')"
      by (auto simp: render_path_def HasPrefix_iff is_rooted_def)
    with Join_not_rooted [OF assms(1)] show False by simp
  next
    case False
    with pre assms(2) obtain rest where "strings_Join b [slash] = ''.'' @ slash # rest"
      by (auto simp: render_path_def HasPrefix_iff)
    moreover have "strings_Split slash (strings_Join b [slash]) = b"
      by (rule Split_Join) (use assms in \<open>auto simp: clean_list_def\<close>)
    ultimately have "b = ''.'' # strings_Split slash rest"
      using Split_append_sep [of slash "''.''" rest] by simp
    with assms(1) show False by (metis clean_list_Cons)
  qed
qed

lemma subpath_test:
  assumes "clean_list a" "clean_list b"
  shows "(strings_HasPrefix (render_path r (a @ b)) (render_path r a @ ''/'')
          \<or> render_path r (a @ b) = render_path r a) \<longleftrightarrow> \<not> (a = [] \<and> b \<noteq> [])"
proof -
  consider "b = []" | "a \<noteq> []" "b \<noteq> []" | "a = []" "b \<noteq> []" by blast
  then show ?thesis
  proof cases
    case 2
    then show ?thesis using render_append [of a b r] by (simp add: HasPrefix_iff)
  next
    case 3
    have "path_segs (render_path r b) \<noteq> path_segs (render_path r [])"
      using 3 assms path_segs_render by auto
    then show ?thesis using 3 render_not_below_empty [OF assms(2)] by auto
  qed simp
qed

lemma EnsureSubpath_cases:
  "EnsureSubpath root sub =
     (if root = [] \<or> has_nul root \<or> strings_Contains root ''..'' then Inl (Err ''invalid path'')
      else if has_nul sub \<or> strings_Contains sub ''..''
              \<or> (path_segs root = [] \<and> path_segs sub \<noteq> []) then Inl (Err ''invalid subpath'')
      else Inr (render_path (is_rooted root) (path_segs root @ path_segs sub)))"
proof (cases "root = [] \<or> has_nul root \<or> strings_Contains root ''..'' \<or> has_nul sub \<or> strings_Contains sub ''..''")
  case True
  then show ?thesis by (auto simp: EnsureSubpath_def GuardPath_def)
next
  case False
  let ?t = "render_path (is_rooted root) (path_segs root @ path_segs sub)"
  have cl: "clean_list (path_segs root)" "clean_list (path_segs sub)" using False by auto
  have "GuardPath ?t = Inr ?t"
  proof -
    have "\<not> has_nul ?t"
      by (rule render_no_nul) (use False path_segs_chars in \<open>auto simp: has_nul_iff\<close>)
    moreover have "no_dotdot ?t" "?t \<noteq> []"
      using cl no_dotdot_render render_not_Nil clean_list_append by metis+
    ultimately show ?thesis by (simp only: GuardPath_Inr) simp
  qed
  moreover have "path_Join [root, path_Clean sub] = ?t"
    using False by (intro EnsureSubpath_target) auto
  moreover have "path_Clean root = render_path (is_rooted root) (path_segs root)"
    by (simp add: path_Clean_def)
  moreover have "GuardPath root = Inr root" using False by simp
  ultimately have "EnsureSubpath root sub =
      (if strings_HasPrefix ?t (render_path (is_rooted root) (path_segs root) @ ''/'')
          \<or> ?t = render_path (is_rooted root) (path_segs root)
       then Inr ?t else Inl (Err ''invalid subpath''))"
    using False by (auto simp add: EnsureSubpath_def Let_def simp del: GuardPath_Inr)
  then show ?thesis
    using False unfolding subpath_test [OF cl] by auto
qed

text \<open>
  C5: what \<open>EnsureSubpath\<close> returns on every input. It rejects exactly the inputs with an empty root,
  a NUL byte or a \<open>..\<close> on either side, and a root without elements (\<open>/\<close> or \<open>.\<close>) below which a
  path is asked for; every other input is accepted, and the result is the cleaned root followed by
  the elements of the cleaned subpath, so it never leaves the root.
\<close>

theorem EnsureSubpath_result:
  "EnsureSubpath root sub =
     (if root = [] \<or> has_nul root \<or> strings_Contains root ''..'' then Inl (Err ''invalid path'')
      else if has_nul sub \<or> strings_Contains sub ''..''
              \<or> (path_segs root = [] \<and> path_segs sub \<noteq> []) then Inl (Err ''invalid subpath'')
      else Inr (render_path (is_rooted root) (path_segs root @ path_segs sub)))"
  by (rule EnsureSubpath_cases)

lemma EnsureSubpath_accepts:
  assumes "GuardPath root = Inr root" "\<not> has_nul sub" "no_dotdot sub" "path_segs root \<noteq> []"
  shows "EnsureSubpath root sub = Inr (render_path (is_rooted root) (path_segs root @ path_segs sub))"
  using assms by (simp add: EnsureSubpath_cases)

lemma EnsureSubpath_Inr:
  assumes "EnsureSubpath root sub = Inr p"
  shows "p = render_path (is_rooted root) (path_segs root @ path_segs sub)"
    "no_dotdot root" "no_dotdot sub" "no_dotdot p" "\<not> has_nul p" "p \<noteq> []"
proof -
  have ok: "no_dotdot root" "no_dotdot sub" and p: "GuardPath p = Inr p"
    using assms by (auto simp: EnsureSubpath_def Let_def simp del: GuardPath_Inr split: sum.splits if_splits)
      (auto simp: GuardPath_def split: if_splits)
  show "no_dotdot root" "no_dotdot sub" by (rule ok)+
  show "no_dotdot p" "\<not> has_nul p" "p \<noteq> []" using p by auto
  show "p = render_path (is_rooted root) (path_segs root @ path_segs sub)"
    using assms EnsureSubpath_target [of root sub] ok
    by (auto simp: EnsureSubpath_def Let_def simp del: GuardPath_Inr split: sum.splits if_splits)
      (auto simp: GuardPath_def split: if_splits)
qed

subsection \<open>Sanitised names\<close>

lemma strip_front_chars: "set (strip_front ws s) \<subseteq> set s"
proof (induction ws s rule: strip_front.induct)
  case (1 ws s)
  show ?case
    by (subst strip_front.simps)
      (use 1 in \<open>auto split: option.splits dest: in_set_dropD\<close>)
qed

lemma TrimSpace_chars: "set (strings_TrimSpace s) \<subseteq> set s"
  unfolding strings_TrimSpace_def
  using strip_front_chars [of "map rev utf8_spaces" "rev (strip_front utf8_spaces s)"]
    strip_front_chars [of utf8_spaces s] by auto

lemma ReplaceAll_Nil [simp]: "strings_ReplaceAll [] old new = []"
  by (subst strings_ReplaceAll.simps) simp

lemma ReplaceAll_chars: "set (strings_ReplaceAll s old new) \<subseteq> set s \<union> set new"
proof (induction s old new rule: strings_ReplaceAll.induct)
  case (1 s old new)
  show ?case
  proof (cases s)
    case (Cons c cs)
    have "strings_ReplaceAll s old new =
        (if old \<noteq> [] \<and> strings_HasPrefix s old
         then new @ strings_ReplaceAll (drop (length old) s) old new
         else c # strings_ReplaceAll cs old new)"
      by (subst strings_ReplaceAll.simps) (simp add: Cons)
    then show ?thesis
      using 1 [OF Cons] Cons set_drop_subset [of "length old" s] by (auto split: if_splits)
  qed simp
qed

text \<open>Replacing every \<open>..\<close> by an underscore leaves no \<open>..\<close>, although a single dot may remain.\<close>

lemma ReplaceAll_dotdot_head:
  "strings_ReplaceAll (CHR ''.'' # CHR ''.'' # s) ''..'' ''_'' = CHR ''_'' # strings_ReplaceAll s ''..'' ''_''"
  by (subst strings_ReplaceAll.simps) simp

lemma ReplaceAll_dotdot_step:
  assumes "\<not> strings_HasPrefix (c # s) ''..''"
  shows "strings_ReplaceAll (c # s) ''..'' ''_'' = c # strings_ReplaceAll s ''..'' ''_''"
  by (subst strings_ReplaceAll.simps) (use assms in simp)

lemma ReplaceAll_no_dotdot:
  "no_dotdot (strings_ReplaceAll s ''..'' ''_'') \<and>
   (strings_ReplaceAll s ''..'' ''_'' \<noteq> [] \<and> hd (strings_ReplaceAll s ''..'' ''_'') = CHR ''.''
      \<longrightarrow> s \<noteq> [] \<and> hd s = CHR ''.'')"
proof (induction "length s" arbitrary: s rule: less_induct)
  case less
  show ?case
  proof (cases "strings_HasPrefix s ''..''")
    case True
    then obtain t where s: "s = CHR ''.'' # CHR ''.'' # t" by (auto simp: HasPrefix_iff)
    with less [of t] show ?thesis by (auto simp: ReplaceAll_dotdot_head)
  next
    case False
    show ?thesis
    proof (cases s)
      case (Cons c t)
      let ?r = "strings_ReplaceAll t ''..'' ''_''"
      have "\<not> (c = CHR ''.'' \<and> ?r \<noteq> [] \<and> hd ?r = CHR ''.'')"
        using less [of t] False Cons by (cases t) auto
      moreover have "no_dotdot ?r" using less [of t] Cons by simp
      ultimately have "no_dotdot (c # ?r)" by (cases ?r) auto
      with False Cons show ?thesis by (simp add: ReplaceAll_dotdot_step)
    qed simp
  qed
qed

lemma ReplaceAll_not_Nil: "s \<noteq> [] \<Longrightarrow> strings_ReplaceAll s ''..'' ''_'' \<noteq> []"
  by (subst strings_ReplaceAll.simps) (auto split: list.splits)

lemma ReplaceAll_not_dot:
  assumes "strings_Contains s ''..''"
  shows "strings_ReplaceAll s ''..'' ''_'' \<noteq> ''.''"
proof (cases "strings_HasPrefix s ''..''")
  case True
  then show ?thesis by (auto simp: HasPrefix_iff ReplaceAll_dotdot_head)
next
  case False
  with assms obtain c t where s: "s = c # t" and "strings_Contains t ''..''" by (cases s) auto
  then have "strings_ReplaceAll t ''..'' ''_'' \<noteq> []" by (intro ReplaceAll_not_Nil) auto
  with s False show ?thesis by (simp add: ReplaceAll_dotdot_step)
qed

lemma sanitize_props:
  "keep_seg (sanitize s)" "no_dotdot (sanitize s)" "set (sanitize s) \<inter> set sanitize_bytes = {}"
proof -
  define m where "m = map (\<lambda>c. if c \<in> set sanitize_bytes then CHR ''_'' else c) s"
  define t where "t = strings_TrimSpace m"
  have us: "CHR ''_'' \<notin> set sanitize_bytes" by (simp add: sanitize_bytes_def)
  have "set m \<inter> set sanitize_bytes = {}" using us by (auto simp: m_def)
  then have t: "set t \<inter> set sanitize_bytes = {}" using TrimSpace_chars [of m] by (auto simp: t_def)
  have san: "sanitize s = (if t = [] \<or> t = ''.'' \<or> t = ''..'' then ''_''
      else if strings_Contains t ''..'' then strings_ReplaceAll t ''..'' ''_'' else t)"
    by (simp add: sanitize_def m_def t_def Let_def)
  show "keep_seg (sanitize s)"
    using ReplaceAll_not_dot [of t] ReplaceAll_not_Nil [of t] by (auto simp: san)
  show "no_dotdot (sanitize s)"
    using ReplaceAll_no_dotdot [of t] by (auto simp: san)
  show "set (sanitize s) \<inter> set sanitize_bytes = {}"
    using t us ReplaceAll_chars [of t "''..''" "''_''"] by (auto simp: san)
qed

lemma sanitize_no_nul:
  assumes "\<not> has_nul s"
  shows "\<not> has_nul (sanitize s)"
proof -
  define m where "m = map (\<lambda>c. if c \<in> set sanitize_bytes then CHR ''_'' else c) s"
  have "CHR 0x00 \<notin> set m" using assms by (auto simp: m_def has_nul_iff)
  then have "CHR 0x00 \<notin> set (strings_TrimSpace m)" using TrimSpace_chars [of m] by auto
  then show ?thesis
    using ReplaceAll_chars [of "strings_TrimSpace m" "''..''" "''_''"]
    by (auto simp: sanitize_def m_def [symmetric] Let_def has_nul_iff)
qed

text \<open>
  Whatever the display name, user principal name or folder name, \<open>sanitize\<close> returns exactly one
  path element, and joining it below a directory that passed the guard adds that element and nothing
  else: the result is the directory's own elements followed by the sanitised name.
\<close>

theorem sanitize_stays_below:
  assumes "GuardPath dir = Inr dir" "path_segs dir \<noteq> []" "\<not> has_nul s"
  shows "EnsureSubpath dir (sanitize s) =
    Inr (render_path (is_rooted dir) (path_segs dir @ [sanitize s]))"
proof -
  have "slash \<notin> set (sanitize s)" using sanitize_props(3) [of s] by (auto simp: sanitize_bytes_def)
  then have "path_segs (sanitize s) = [sanitize s]"
    using sanitize_props [of s] by (auto simp: path_segs_no_dotdot Split_no_sep)
  moreover have "\<not> has_nul (sanitize s)" using assms(3) sanitize_no_nul by simp
  ultimately show ?thesis
    using assms sanitize_props(2) [of s] by (simp add: EnsureSubpath_accepts)
qed

theorem sanitize_stays_below_witness:
  "EnsureSubpath ''/var/store'' (sanitize ''a/../b'') =
     Inr (render_path True [''var'', ''store'', sanitize ''a/../b''])"
proof -
  have "EnsureSubpath ''/var/store'' (sanitize ''a/../b'') =
      Inr (render_path (is_rooted ''/var/store'') (path_segs ''/var/store'' @ [sanitize ''a/../b'']))"
    by (rule sanitize_stays_below) (simp_all add: has_nul_def path_segs_def is_rooted_def)
  then show ?thesis by (simp add: path_segs_def is_rooted_def)
qed

end
