(* ===== verification/Go_Crypto.thy ===== *)
theory Go_Crypto
  imports Go_Prelude "HOL-Library.Word"
begin

text \<open>
  The cryptographic functions of Go's standard library that the program stores data with:
  \<open>crypto/sha256\<close> (the content address of a blob, and the key derivation), and AES-256 in Galois
  counter mode (\<open>crypto/aes\<close> and \<open>crypto/cipher\<close>) with the default nonce of 12 and tag of 16 bytes
  and no additional data, the only way the program uses it. \<open>encoding/hex\<close> and \<open>encoding/base64\<close> are
  here too. The definitions follow FIPS 180-4, FIPS 197 and NIST SP 800-38D and compute; the lemmas
  are those the stores rely on: the digest has 32 bytes, and opening what was sealed under the same
  key and nonce gives the plaintext.
\<close>

unbundle bit_operations_syntax

section \<open>Bytes and words\<close>

type_synonym byte = "8 word"

definition byte_of :: "char \<Rightarrow> byte" where
  "byte_of c = word_of_int (of_char c)"

definition char_of_byte :: "byte \<Rightarrow> char" where
  "char_of_byte b = char_of (uint b)"

definition bytes_of :: "string \<Rightarrow> byte list" where
  "bytes_of = map byte_of"

definition string_of_bytes :: "byte list \<Rightarrow> string" where
  "string_of_bytes = map char_of_byte"

text \<open>The big-endian bytes of a number, and back.\<close>

definition be_bytes :: "nat \<Rightarrow> int \<Rightarrow> byte list" where
  "be_bytes n v = map (\<lambda>i. word_of_int (v div 256 ^ (n - 1 - i))) [0..<n]"

definition be_val :: "byte list \<Rightarrow> int" where
  "be_val bs = foldl (\<lambda>acc b. acc * 256 + uint b) 0 bs"

text \<open>Blocks of \<open>n\<close> elements; the last one may be shorter.\<close>

function chunks :: "nat \<Rightarrow> 'a list \<Rightarrow> 'a list list" where
  "chunks n xs = (if n = 0 \<or> xs = [] then [] else take n xs # chunks n (drop n xs))"
  by pat_completeness auto
termination
  by (relation "measure (\<lambda>(n, xs). length xs)") auto

declare chunks.simps [simp del]

section \<open>SHA-256\<close>

text \<open>The round constants and the initial state, in decimal.\<close>

definition sha_k :: "32 word list" where
  "sha_k =
    [1116352408, 1899447441, 3049323471, 3921009573, 961987163, 1508970993, 2453635748,
     2870763221, 3624381080, 310598401, 607225278, 1426881987, 1925078388, 2162078206,
     2614888103, 3248222580, 3835390401, 4022224774, 264347078, 604807628, 770255983,
     1249150122, 1555081692, 1996064986, 2554220882, 2821834349, 2952996808, 3210313671,
     3336571891, 3584528711, 113926993, 338241895, 666307205, 773529912, 1294757372,
     1396182291, 1695183700, 1986661051, 2177026350, 2456956037, 2730485921, 2820302411,
     3259730800, 3345764771, 3516065817, 3600352804, 4094571909, 275423344, 430227734,
     506948616, 659060556, 883997877, 958139571, 1322822218, 1537002063, 1747873779,
     1955562222, 2024104815, 2227730452, 2361852424, 2428436474, 2756734187, 3204031479,
     3329325298]"

definition sha_init :: "32 word list" where
  "sha_init =
    [1779033703, 3144134277, 1013904242, 2773480762, 1359893119, 2600822924, 528734635,
     1541459225]"

definition sha_pad :: "byte list \<Rightarrow> byte list" where
  "sha_pad m =
     m @ [0x80] @ replicate ((119 - length m mod 64) mod 64) 0 @ be_bytes 8 (8 * int (length m))"

definition sha_s0 :: "32 word \<Rightarrow> 32 word" where
  "sha_s0 x = word_rotr 7 x XOR word_rotr 18 x XOR drop_bit 3 x"

definition sha_s1 :: "32 word \<Rightarrow> 32 word" where
  "sha_s1 x = word_rotr 17 x XOR word_rotr 19 x XOR drop_bit 10 x"

text \<open>The message schedule, extended \<open>n\<close> times; the list is kept newest first.\<close>

fun sha_sched :: "nat \<Rightarrow> 32 word list \<Rightarrow> 32 word list" where
  "sha_sched 0 w = w"
| "sha_sched (Suc n) w =
     sha_sched n ((sha_s1 (w ! 1) + w ! 6 + sha_s0 (w ! 14) + w ! 15) # w)"

definition sha_step :: "32 word list \<Rightarrow> 32 word \<times> 32 word \<Rightarrow> 32 word list" where
  "sha_step st kw =
     (case st of
        [a, b, c, d, e, f, g, h] \<Rightarrow>
          (let t1 = h + (word_rotr 6 e XOR word_rotr 11 e XOR word_rotr 25 e)
                      + ((e AND f) XOR (NOT e AND g)) + fst kw + snd kw;
               t2 = (word_rotr 2 a XOR word_rotr 13 a XOR word_rotr 22 a)
                    + ((a AND b) XOR (a AND c) XOR (b AND c))
           in [t1 + t2, a, b, c, d + t1, e, f, g])
      | _ \<Rightarrow> st)"

definition sha_block :: "32 word list \<Rightarrow> byte list \<Rightarrow> 32 word list" where
  "sha_block st blk =
     (let w = rev (sha_sched 48 (rev (map (\<lambda>b. word_of_int (be_val b)) (chunks 4 blk))))
      in map2 (+) st (foldl sha_step st (zip sha_k w)))"

definition sha256_Sum256 :: "string \<Rightarrow> string" where
  "sha256_Sum256 m =
     string_of_bytes
       (concat (map (\<lambda>w. be_bytes 4 (uint w))
         (foldl sha_block sha_init (chunks 64 (sha_pad (bytes_of m))))))"

section \<open>AES-256\<close>

text \<open>Multiplication in the field of 256 elements; the inverse is the 254th power.\<close>

definition xtime :: "byte \<Rightarrow> byte" where
  "xtime b = (if bit b 7 then push_bit 1 b XOR 0x1b else push_bit 1 b)"

fun gf_mult_n :: "nat \<Rightarrow> byte \<Rightarrow> byte \<Rightarrow> byte" where
  "gf_mult_n 0 a b = 0"
| "gf_mult_n (Suc n) a b = (if bit b 0 then a else 0) XOR gf_mult_n n (xtime a) (drop_bit 1 b)"

definition gf_mult :: "byte \<Rightarrow> byte \<Rightarrow> byte" where
  "gf_mult a b = gf_mult_n 8 a b"

definition gf_inv :: "byte \<Rightarrow> byte" where
  "gf_inv b =
     (let b2 = gf_mult b b; b4 = gf_mult b2 b2; b8 = gf_mult b4 b4; b16 = gf_mult b8 b8;
          b32 = gf_mult b16 b16; b64 = gf_mult b32 b32; b128 = gf_mult b64 b64
      in gf_mult b128 (gf_mult b64 (gf_mult b32 (gf_mult b16 (gf_mult b8 (gf_mult b4 b2))))))"

definition sub_byte :: "byte \<Rightarrow> byte" where
  "sub_byte b =
     (let i = gf_inv b
      in i XOR word_rotl 1 i XOR word_rotl 2 i XOR word_rotl 3 i XOR word_rotl 4 i XOR 0x63)"

text \<open>The key schedule of AES-256: 60 words of 4 bytes, the list kept newest first.\<close>

fun key_sched :: "nat \<Rightarrow> nat \<Rightarrow> byte \<Rightarrow> byte list list \<Rightarrow> byte list list" where
  "key_sched 0 i rcon w = w"
| "key_sched (Suc n) i rcon w =
     (let t = hd w;
          t' = (if i mod 8 = 0 then map2 (XOR) (map sub_byte (rotate 1 t)) [rcon, 0, 0, 0]
                else if i mod 8 = 4 then map sub_byte t else t)
      in key_sched n (Suc i) (if i mod 8 = 0 then xtime rcon else rcon) (map2 (XOR) (w ! 7) t' # w))"

definition round_keys :: "byte list \<Rightarrow> byte list list" where
  "round_keys key = chunks 16 (concat (rev (key_sched 52 8 1 (rev (chunks 4 key)))))"

definition shift_rows :: "byte list \<Rightarrow> byte list" where
  "shift_rows s = map (\<lambda>i. s ! ((i + 4 * (i mod 4)) mod 16)) [0..<16]"

definition mix_column :: "byte list \<Rightarrow> byte list" where
  "mix_column c =
     (case c of
        [a, b, c, d] \<Rightarrow>
          [xtime a XOR (xtime b XOR b) XOR c XOR d, a XOR xtime b XOR (xtime c XOR c) XOR d,
           a XOR b XOR xtime c XOR (xtime d XOR d), (xtime a XOR a) XOR b XOR c XOR xtime d]
      | _ \<Rightarrow> c)"

definition aes_round :: "byte list \<Rightarrow> byte list \<Rightarrow> byte list" where
  "aes_round s k =
     map2 (XOR) (concat (map mix_column (chunks 4 (shift_rows (map sub_byte s))))) k"

definition aes_encrypt :: "byte list list \<Rightarrow> byte list \<Rightarrow> byte list" where
  "aes_encrypt ks blk =
     (let s = foldl aes_round (map2 (XOR) blk (hd ks)) (butlast (tl ks))
      in map2 (XOR) (shift_rows (map sub_byte s)) (last ks))"

section \<open>Galois counter mode\<close>

fun ghash_mult_n :: "nat \<Rightarrow> 128 word \<Rightarrow> 128 word \<Rightarrow> 128 word \<Rightarrow> 128 word" where
  "ghash_mult_n 0 x v z = z"
| "ghash_mult_n (Suc n) x v z =
     ghash_mult_n n (push_bit 1 x)
       (if bit v 0 then drop_bit 1 v XOR push_bit 120 0xe1 else drop_bit 1 v)
       (if bit x 127 then z XOR v else z)"

definition ghash :: "128 word \<Rightarrow> byte list \<Rightarrow> byte list \<Rightarrow> byte list" where
  "ghash h ct lens =
     (let pad = (\<lambda>b. b @ replicate (16 - length b) 0);
          blocks = map pad (chunks 16 ct) @ [lens]
      in be_bytes 16 (uint (foldl (\<lambda>y b. ghash_mult_n 128 (y XOR word_of_int (be_val b)) h 0) 0 blocks)))"

text \<open>The key stream: the encrypted counter blocks after the first one.\<close>

definition key_stream :: "byte list list \<Rightarrow> byte list \<Rightarrow> nat \<Rightarrow> byte list" where
  "key_stream ks nonce n =
     take n (concat (map (\<lambda>i. aes_encrypt ks (nonce @ be_bytes 4 (int i + 2))) [0..<(n + 15) div 16]))"

text \<open>
  The exclusive or with the stream. The stream is as long as the text whatever the key; the
  definition does not depend on that and keeps the length of the text.
\<close>

fun xor_stream :: "byte list \<Rightarrow> byte list \<Rightarrow> byte list" where
  "xor_stream [] ks = []"
| "xor_stream (b # bs) ks = (b XOR (case ks of [] \<Rightarrow> 0 | k # _ \<Rightarrow> k)) # xor_stream bs (tl ks)"

definition gcm_NonceSize :: nat where
  "gcm_NonceSize = 12"

definition gcm_tag :: "byte list list \<Rightarrow> byte list \<Rightarrow> byte list \<Rightarrow> byte list" where
  "gcm_tag ks nonce ct =
     (let h = word_of_int (be_val (aes_encrypt ks (replicate 16 0)));
          s = ghash h ct (be_bytes 8 0 @ be_bytes 8 (8 * int (length ct)))
      in xor_stream s (aes_encrypt ks (nonce @ be_bytes 4 1)))"

text \<open>\<open>gcm.Seal(nonce, nonce, plain, nil)\<close> without the nonce in front, and \<open>gcm.Open\<close>.\<close>

definition gcm_Seal :: "string \<Rightarrow> string \<Rightarrow> string \<Rightarrow> string" where
  "gcm_Seal key nonce plain =
     (let ks = round_keys (bytes_of key); p = bytes_of plain; n = bytes_of nonce;
          ct = xor_stream p (key_stream ks n (length p))
      in string_of_bytes (ct @ gcm_tag ks n ct))"

definition gcm_Open :: "string \<Rightarrow> string \<Rightarrow> string \<Rightarrow> string option" where
  "gcm_Open key nonce sealed =
     (let ks = round_keys (bytes_of key); s = bytes_of sealed; n = bytes_of nonce
      in if length s < 16 then None
         else (let ct = take (length s - 16) s; tag = drop (length s - 16) s
               in if tag = gcm_tag ks n ct
                  then Some (string_of_bytes (xor_stream ct (key_stream ks n (length ct))))
                  else None))"

section \<open>Encodings\<close>

definition hex_digit :: "nat \<Rightarrow> char" where
  "hex_digit n = (if n < 10 then char_of (48 + n) else char_of (87 + n))"

definition hex_EncodeToString :: "string \<Rightarrow> string" where
  "hex_EncodeToString s =
     concat (map (\<lambda>c. [hex_digit (of_char c div 16), hex_digit (of_char c mod 16)]) s)"

text \<open>
  \<open>base64.StdEncoding\<close>: the encoder pads, the decoder skips line breaks and wants the padding, and
  ignores the unused low bits of the last group.
\<close>

definition b64_alphabet :: string where
  "b64_alphabet = ''ABCDEFGHIJKLMNOPQRSTUVWXYZabcdefghijklmnopqrstuvwxyz0123456789+/''"

definition b64_chr :: "nat \<Rightarrow> char" where
  "b64_chr n = b64_alphabet ! (n mod 64)"

fun index_of :: "'a \<Rightarrow> 'a list \<Rightarrow> nat option" where
  "index_of x [] = None"
| "index_of x (y # ys) = (if x = y then Some 0 else map_option Suc (index_of x ys))"

definition b64_val :: "char \<Rightarrow> nat option" where
  "b64_val c = index_of c b64_alphabet"

fun base64_EncodeToString :: "string \<Rightarrow> string" where
  "base64_EncodeToString [] = []"
| "base64_EncodeToString [a] =
     [b64_chr (of_char a div 4), b64_chr (of_char a mod 4 * 16), CHR ''='', CHR ''='']"
| "base64_EncodeToString [a, b] =
     [b64_chr (of_char a div 4), b64_chr (of_char a mod 4 * 16 + of_char b div 16),
      b64_chr (of_char b mod 16 * 4), CHR ''='']"
| "base64_EncodeToString (a # b # c # r) =
     b64_chr (of_char a div 4) # b64_chr (of_char a mod 4 * 16 + of_char b div 16)
       # b64_chr (of_char b mod 16 * 4 + of_char c div 64) # b64_chr (of_char c mod 64)
       # base64_EncodeToString r"

definition b64_quad :: "nat \<Rightarrow> nat \<Rightarrow> nat \<Rightarrow> nat \<Rightarrow> string" where
  "b64_quad u v w x =
     [char_of (u * 4 + v div 16), char_of (v mod 16 * 16 + w div 4), char_of (w mod 4 * 64 + x)]"

fun b64_dec :: "string \<Rightarrow> string option" where
  "b64_dec [] = Some []"
| "b64_dec (a # b # c # d # r) =
     (case (b64_val a, b64_val b) of
        (Some u, Some v) \<Rightarrow>
          (if c = CHR ''='' then (if d = CHR ''='' \<and> r = [] then Some (take 1 (b64_quad u v 0 0)) else None)
           else (case b64_val c of
                   None \<Rightarrow> None
                 | Some w \<Rightarrow>
                     (if d = CHR ''='' then (if r = [] then Some (take 2 (b64_quad u v w 0)) else None)
                      else (case (b64_val d, b64_dec r) of
                              (Some x, Some t) \<Rightarrow> Some (b64_quad u v w x @ t)
                            | _ \<Rightarrow> None))))
      | _ \<Rightarrow> None)"
| "b64_dec _ = None"

definition base64_DecodeString :: "string \<Rightarrow> string option" where
  "base64_DecodeString s = b64_dec (filter (\<lambda>c. c \<noteq> CHR 0x0A \<and> c \<noteq> CHR 0x0D) s)"

section \<open>Lemmas\<close>

lemma byte_of_char_of_byte [simp]: "byte_of (char_of_byte b) = b"
proof -
  have "0 \<le> uint b" "uint b < 256" using unsigned_less [of b] by simp_all
  then show ?thesis by (simp add: byte_of_def char_of_byte_def)
qed

lemma char_of_byte_byte_of [simp]: "char_of_byte (byte_of c) = c"
proof -
  have "uint (byte_of c) = of_char c" by (simp add: byte_of_def uint_word_of_int)
  then show ?thesis by (simp add: char_of_byte_def)
qed

lemma bytes_of_string [simp]: "bytes_of (string_of_bytes b) = b" "string_of_bytes (bytes_of s) = s"
  by (simp_all add: bytes_of_def string_of_bytes_def comp_def)

lemma length_bytes [simp]: "length (bytes_of s) = length s" "length (string_of_bytes b) = length b"
  by (simp_all add: bytes_of_def string_of_bytes_def)

lemma length_be_bytes [simp]: "length (be_bytes n v) = n"
  by (simp add: be_bytes_def)

lemma length_xor_stream [simp]: "length (xor_stream b k) = length b"
  by (induction b arbitrary: k) auto

lemma xor_stream_twice [simp]: "xor_stream (xor_stream b k) k = b"
  by (induction b arbitrary: k) (auto simp: xor.assoc split: list.split)

lemma length_gcm_tag [simp]: "length (gcm_tag ks n ct) = 16"
  by (simp add: gcm_tag_def ghash_def Let_def)

lemma length_gcm_Seal [simp]: "length (gcm_Seal key nonce plain) = length plain + 16"
  by (simp add: gcm_Seal_def Let_def)

lemma gcm_Open_Seal [simp]: "gcm_Open key nonce (gcm_Seal key nonce plain) = Some plain"
  by (simp add: gcm_Open_def gcm_Seal_def Let_def)

lemma length_sha_step: "length st = 8 \<Longrightarrow> length (sha_step st kw) = 8"
  by (auto simp: sha_step_def Let_def split: list.split)

lemma length_foldl_inv:
  "(\<And>st x. length st = n \<Longrightarrow> length (f st x) = n) \<Longrightarrow> length st = n \<Longrightarrow> length (foldl f st xs) = n"
  by (induction xs arbitrary: st) auto

lemma length_sha_block: "length st = 8 \<Longrightarrow> length (sha_block st blk) = 8"
  using length_foldl_inv [of 8 sha_step st] length_sha_step by (simp add: sha_block_def Let_def)

lemma length_sha256 [simp]: "length (sha256_Sum256 m) = 32"
proof -
  have "length (foldl sha_block sha_init (chunks 64 (sha_pad (bytes_of m)))) = 8"
    by (rule length_foldl_inv) (simp_all add: length_sha_block sha_init_def)
  then show ?thesis
    by (simp add: sha256_Sum256_def length_concat comp_def sum_list_triv)
qed

lemma length_hex [simp]: "length (hex_EncodeToString s) = 2 * length s"
  by (induction s) (auto simp: hex_EncodeToString_def)

lemma hex_digit_lower: "n < 16 \<Longrightarrow> is_lower_hex (hex_digit n)"
  by (auto simp: is_lower_hex_def hex_digit_def)

lemma hex_lower: "c \<in> set (hex_EncodeToString s) \<Longrightarrow> is_lower_hex c"
proof -
  have "(of_char c :: nat) div 16 < 16" for c :: char
    using nat_of_char_less_256 [of c] by (simp add: less_mult_imp_div_less)
  then show "c \<in> set (hex_EncodeToString s) \<Longrightarrow> is_lower_hex c"
    by (auto simp: hex_EncodeToString_def hex_digit_lower)
qed

lemma index_of_nth: "distinct xs \<Longrightarrow> n < length xs \<Longrightarrow> index_of (xs ! n) xs = Some n"
  by (induction xs arbitrary: n) (auto simp: nth_Cons split: nat.split)

lemma index_of_mem: "index_of x xs = Some n \<Longrightarrow> x \<in> set xs"
  by (induction xs arbitrary: n) (auto split: if_splits)

lemma b64_alphabet_facts: "distinct b64_alphabet" "length b64_alphabet = 64"
  by (simp_all add: b64_alphabet_def)

lemma b64_val_chr: "n < 64 \<Longrightarrow> b64_val (b64_chr n) = Some n"
  by (simp add: b64_val_def b64_chr_def index_of_nth b64_alphabet_facts)

lemma b64_chr_mem: "b64_chr n \<in> set b64_alphabet"
  by (simp add: b64_chr_def b64_alphabet_facts)

lemma b64_chr_special: "b64_chr n \<noteq> CHR ''=''" "b64_chr n \<noteq> CHR 0x0A" "b64_chr n \<noteq> CHR 0x0D"
proof -
  have "CHR ''='' \<notin> set b64_alphabet" "CHR 0x0A \<notin> set b64_alphabet" "CHR 0x0D \<notin> set b64_alphabet"
    by (simp_all add: b64_alphabet_def)
  then show "b64_chr n \<noteq> CHR ''=''" "b64_chr n \<noteq> CHR 0x0A" "b64_chr n \<noteq> CHR 0x0D"
    using b64_chr_mem [of n] by metis+
qed

text \<open>The pieces of a group: small remainders and quotients, and how they go back together.\<close>

lemma b64_pieces:
  fixes a :: char
  shows "of_char a div 4 < (64::nat)" "of_char a div 16 < (16::nat)" "of_char a div 64 < (4::nat)"
    "of_char a mod 4 < (4::nat)" "of_char a mod 16 < (16::nat)" "of_char a mod 64 < (64::nat)"
  using nat_of_char_less_256 [of a] by (simp_all add: less_mult_imp_div_less)

lemma b64_split:
  fixes k x :: nat
  shows "x < 16 \<Longrightarrow> (k * 16 + x) div 16 = k" "x < 16 \<Longrightarrow> k < 16 \<Longrightarrow> (k * 16 + x) mod 16 = x"
    "x < 4 \<Longrightarrow> (k * 4 + x) div 4 = k" "x < 4 \<Longrightarrow> (k * 4 + x) mod 4 = x"
  by auto

lemma b64_bounds:
  fixes a b :: char
  shows "of_char a mod 4 * 16 + of_char b div 16 < (64::nat)"
    "of_char a mod 16 * 4 + of_char b div 64 < (64::nat)"
    "of_char a mod 4 * 16 < (64::nat)" "of_char a mod 16 * 4 < (64::nat)"
  using b64_pieces [of a] b64_pieces [of b] by linarith+

lemma b64_quad_enc:
  "b64_quad (of_char a div 4) (of_char a mod 4 * 16 + of_char b div 16)
     (of_char b mod 16 * 4 + of_char c div 64) (of_char c mod 64) = [a, b, c]"
proof -
  have m: "(of_char a mod 4 * 16 + of_char b div 16) mod 16 = (of_char b div 16 :: nat)"
    using b64_pieces [of a] b64_pieces [of b] by (simp add: b64_split)
  have "of_char a div 4 * 4 + of_char a mod 4 = (of_char a :: nat)"
    "of_char b div 16 * 16 + of_char b mod 16 = (of_char b :: nat)"
    "of_char c div 64 * 64 + of_char c mod 64 = (of_char c :: nat)"
    by (rule div_mult_mod_eq)+
  then show ?thesis
    using b64_pieces [of a] b64_pieces [of b] b64_pieces [of c] m
    by (simp only: b64_quad_def b64_split char_of_char)
qed

lemma b64_quad_enc_short:
  "take 1 (b64_quad (of_char a div 4) (of_char a mod 4 * 16) 0 0) = [a]"
  "take 2 (b64_quad (of_char a div 4) (of_char a mod 4 * 16 + of_char b div 16) (of_char b mod 16 * 4) 0) = [a, b]"
  using b64_quad_enc [of a "CHR 0x00" "CHR 0x00"] b64_quad_enc [of a b "CHR 0x00"]
  by (simp_all add: b64_quad_def)

lemma b64_dec_enc: "b64_dec (base64_EncodeToString s) = Some s"
  by (induction s rule: base64_EncodeToString.induct)
    (simp_all only: base64_EncodeToString.simps b64_dec.simps b64_val_chr b64_bounds b64_pieces
      b64_chr_special b64_quad_enc b64_quad_enc_short option.case prod.case if_False if_True
      simp_thms append.simps)

lemma base64_no_breaks: "filter (\<lambda>c. c \<noteq> CHR 0x0A \<and> c \<noteq> CHR 0x0D) (base64_EncodeToString s) = base64_EncodeToString s"
  by (induction s rule: base64_EncodeToString.induct) (simp_all add: b64_chr_special)

lemma base64_Decode_Encode [simp]: "base64_DecodeString (base64_EncodeToString s) = Some s"
  by (simp add: base64_DecodeString_def base64_no_breaks b64_dec_enc)

end
