(* ===== verification/Disk.thy ===== *)
theory Disk
  imports Go_IO Paths Go_Crypto "HOL-Library.AList" "HOL-Library.List_Lexorder" "HOL-Library.Char_ord"
begin

text \<open>
  The disk and the random source: the calls of package \<open>os\<close>, \<open>path/filepath\<close> and \<open>crypto/rand\<close> that
  the program makes, on a world that holds the files as an association list from path to bytes.

  Directories are not objects of the model: the program creates the directory of a file with
  \<open>os.MkdirAll\<close> before it writes it, and that call can fail but changes no file. A write that fails
  can leave the file untouched (it could not be opened: \<open>torn = None\<close>) or with a first part of the
  data (\<open>torn = Some k\<close>), which is why the program writes to a temporary name and renames.
\<close>

record fs_world = io_env +
  files :: "(string \<times> string) list"
  torn :: "nat option"
  rand_byte :: "nat \<Rightarrow> char"
  rand_pos :: nat

definition file_at :: "('w fs_world_scheme) \<Rightarrow> string \<Rightarrow> string option" where
  "file_at w p = map_of (files w) p"

definition put_file :: "string \<Rightarrow> string \<Rightarrow> 'w fs_world_scheme \<Rightarrow> 'w fs_world_scheme" where
  "put_file p d w = w\<lparr>files := AList.update p d (files w)\<rparr>"

definition del_file :: "string \<Rightarrow> 'w fs_world_scheme \<Rightarrow> 'w fs_world_scheme" where
  "del_file p w = w\<lparr>files := AList.delete p (files w)\<rparr>"

definition os_ReadFile :: "string \<Rightarrow> ('w fs_world_scheme, string) io" where
  "os_ReadFile p =
     bindE access (\<lambda>_. bindE (gets (\<lambda>w. file_at w p)) (\<lambda>f.
       case f of None \<Rightarrow> throw ErrNotExist | Some d \<Rightarrow> ret d))"

text \<open>The size of a file.\<close>

definition os_Stat :: "string \<Rightarrow> ('w fs_world_scheme, nat) io" where
  "os_Stat p = bindE (os_ReadFile p) (\<lambda>d. ret (length d))"

definition os_MkdirAll :: "string \<Rightarrow> ('w fs_world_scheme, unit) io" where
  "os_MkdirAll p = access"

definition os_WriteFile :: "string \<Rightarrow> string \<Rightarrow> ('w fs_world_scheme, unit) io" where
  "os_WriteFile p d =
     attempt access (\<lambda>r. case r of
       Inr _ \<Rightarrow> modify (put_file p d)
     | Inl e \<Rightarrow>
         bindE (gets torn) (\<lambda>t. bindE
           (case t of None \<Rightarrow> ret () | Some k \<Rightarrow> modify (put_file p (take k d)))
           (\<lambda>_. throw e)))"

definition os_Rename :: "string \<Rightarrow> string \<Rightarrow> ('w fs_world_scheme, unit) io" where
  "os_Rename a b =
     bindE (os_ReadFile a) (\<lambda>d. modify (\<lambda>w. put_file b d (del_file a w)))"

definition os_Remove :: "string \<Rightarrow> ('w fs_world_scheme, unit) io" where
  "os_Remove p = bindE (os_ReadFile p) (\<lambda>_. modify (del_file p))"

text \<open>\<open>io.ReadFull(rand.Reader, buf)\<close> for a buffer of \<open>n\<close> bytes.\<close>

definition rand_Read :: "nat \<Rightarrow> ('w fs_world_scheme, string) io" where
  "rand_Read n =
     bindE access (\<lambda>_. bindE (gets (\<lambda>w. map (\<lambda>i. rand_byte w (rand_pos w + i)) [0..<n])) (\<lambda>b.
       bindE (modify (\<lambda>w. w\<lparr>rand_pos := rand_pos w + n\<rparr>)) (\<lambda>_. ret b)))"

text \<open>
  The files below a directory in the order of \<open>filepath.WalkDir\<close>: every directory is listed in
  lexical order, so the paths come in the lexical order of their elements.
\<close>

definition files_below :: "string \<Rightarrow> 'w fs_world_scheme \<Rightarrow> (string \<times> string) list" where
  "files_below root w =
     sort_key (\<lambda>(p, d). path_segs p)
       (filter (\<lambda>(p, d). strings_HasPrefix p (path_Clean root @ ''/'')) (files w))"

section \<open>Lemmas\<close>

lemma file_at_put [simp]: "file_at (put_file p d w) q = (if q = p then Some d else file_at w q)"
  by (simp add: file_at_def put_file_def update_conv')

lemma file_at_del [simp]: "file_at (del_file p w) q = (if q = p then None else file_at w q)"
  by (simp add: file_at_def del_file_def delete_conv')

lemma file_at_env [simp]:
  "file_at (w\<lparr>faults := fs\<rparr>) = file_at w" "file_at (w\<lparr>rand_pos := n\<rparr>) = file_at w"
  "file_at (w\<lparr>uuid_next := m\<rparr>) = file_at w"
  by (simp_all add: fun_eq_iff file_at_def)

lemma wp_ReadFile [wp_intros]:
  assumes "\<And>fs d. file_at w p = Some d \<Longrightarrow> Q (Inr d) (w\<lparr>faults := fs\<rparr>)"
    "\<And>e fs. Q (Inl e) (w\<lparr>faults := fs\<rparr>)"
  shows "wp (os_ReadFile p) Q w"
  using assms by (auto simp: os_ReadFile_def wp_simps split: option.split intro!: wp_access)

lemma wp_Stat [wp_intros]:
  assumes "\<And>fs d. file_at w p = Some d \<Longrightarrow> Q (Inr (length d)) (w\<lparr>faults := fs\<rparr>)"
    "\<And>e fs. Q (Inl e) (w\<lparr>faults := fs\<rparr>)"
  shows "wp (os_Stat p) Q w"
  using assms by (auto simp: os_Stat_def wp_simps intro!: wp_ReadFile)

lemma wp_WriteFile [wp_intros]:
  assumes "\<And>fs. Q (Inr ()) (put_file p d (w\<lparr>faults := fs\<rparr>))"
    "\<And>e fs. Q (Inl e) (w\<lparr>faults := fs\<rparr>)"
    "\<And>e fs k. Q (Inl e) (put_file p (take k d) (w\<lparr>faults := fs\<rparr>))"
  shows "wp (os_WriteFile p d) Q w"
  using assms by (auto simp: os_WriteFile_def wp_simps split: option.split intro!: wp_access)

lemma wp_Rename [wp_intros]:
  assumes "\<And>fs d. file_at w a = Some d \<Longrightarrow> Q (Inr ()) (put_file b d (del_file a (w\<lparr>faults := fs\<rparr>)))"
    "\<And>e fs. Q (Inl e) (w\<lparr>faults := fs\<rparr>)"
  shows "wp (os_Rename a b) Q w"
  using assms by (auto simp: os_Rename_def wp_simps intro!: wp_ReadFile)

lemma wp_Remove [wp_intros]:
  assumes "\<And>fs. Q (Inr ()) (del_file p (w\<lparr>faults := fs\<rparr>))" "\<And>e fs. Q (Inl e) (w\<lparr>faults := fs\<rparr>)"
  shows "wp (os_Remove p) Q w"
  using assms by (auto simp: os_Remove_def wp_simps intro!: wp_ReadFile)

lemma wp_rand_Read [wp_intros]:
  assumes "\<And>fs b m. length b = n \<Longrightarrow> Q (Inr b) (w\<lparr>faults := fs, rand_pos := m\<rparr>)"
    "\<And>e fs. Q (Inl e) (w\<lparr>faults := fs\<rparr>)"
  shows "wp (rand_Read n) Q w"
  using assms by (auto simp: rand_Read_def wp_simps intro!: wp_access)

lemma wp_MkdirAll [wp_intros]:
  assumes "\<And>fs. Q (Inr ()) (w\<lparr>faults := fs\<rparr>)" "\<And>e fs. Q (Inl e) (w\<lparr>faults := fs\<rparr>)"
  shows "wp (os_MkdirAll p) Q w"
  using assms by (auto simp: os_MkdirAll_def intro!: wp_access)

text \<open>
  \<open>os.RemoveAll\<close>: the file and everything below the path. When it fails it may have removed a part,
  as many files as \<open>torn\<close> says.
\<close>

definition remove_files :: "string list \<Rightarrow> 'w fs_world_scheme \<Rightarrow> 'w fs_world_scheme" where
  "remove_files ps w = fold del_file ps w"

definition os_RemoveAll :: "string \<Rightarrow> ('w fs_world_scheme, unit) io" where
  "os_RemoveAll root =
     attempt access (\<lambda>r.
     bindE (gets (\<lambda>w. path_Clean root # map fst (files_below root w))) (\<lambda>ps.
       (case r of
          Inr _ \<Rightarrow> modify (remove_files ps)
        | Inl e \<Rightarrow>
            bindE (modify (\<lambda>w. remove_files (take (case torn w of None \<Rightarrow> 0 | Some n \<Rightarrow> n) ps) w)) (\<lambda>_. throw e))))"

text \<open>Predicates that look neither at the disk nor at the environment survive every disk operation.\<close>

definition disk_free :: "('w fs_world_scheme \<Rightarrow> bool) \<Rightarrow> bool" where
  "disk_free P =
     (\<forall>w fs f n. P (w\<lparr>faults := fs\<rparr>) = P w \<and> P (w\<lparr>files := f\<rparr>) = P w \<and> P (w\<lparr>rand_pos := n\<rparr>) = P w)"

lemma disk_free_fault: "disk_free P \<Longrightarrow> fault_free P"
  by (auto simp: disk_free_def fault_free_def)

lemma keeps_disk:
  assumes "disk_free P"
  shows "keeps P (os_ReadFile p)" "keeps P (os_Stat p)" "keeps P (os_MkdirAll p)" "keeps P (os_WriteFile p d)"
    "keeps P (os_Rename p q)" "keeps P (os_Remove p)" "keeps P (rand_Read n)" "keeps P (os_RemoveAll p)"
proof -
  note ff = disk_free_fault [OF assms]
  show read: "keeps P (os_ReadFile p)" for p
    unfolding os_ReadFile_def by (auto intro!: keeps_rules keeps_access ff split: option.split)
  show "keeps P (os_Stat p)" unfolding os_Stat_def by (auto intro!: keeps_rules read)
  show "keeps P (os_MkdirAll p)" unfolding os_MkdirAll_def by (rule keeps_access [OF ff])
  have put: "P w \<Longrightarrow> P (put_file p d w)" and del: "P w \<Longrightarrow> P (del_file p w)" for p d w
    using assms by (auto simp: put_file_def del_file_def disk_free_def)
  show "keeps P (os_WriteFile p d)"
    unfolding os_WriteFile_def
    by (auto intro!: keeps_rules keeps_access keeps_modify ff put split: option.split sum.split)
  show "keeps P (os_Rename p q)" unfolding os_Rename_def by (auto intro!: keeps_rules read keeps_modify put del)
  show "keeps P (os_Remove p)" unfolding os_Remove_def by (auto intro!: keeps_rules read keeps_modify del)
  have "P w \<Longrightarrow> P (remove_files ps w)" for ps w
    unfolding remove_files_def by (induction ps arbitrary: w) (auto intro: del)
  then show "keeps P (os_RemoveAll p)"
    unfolding os_RemoveAll_def by (auto intro!: keeps_rules keeps_access keeps_modify ff split: sum.split)
  show "keeps P (rand_Read n)"
    unfolding rand_Read_def using assms
    by (auto intro!: keeps_rules keeps_access keeps_modify ff simp: disk_free_def)
qed

end
