(* ===== verification/Database.thy ===== *)
theory Database
  imports Disk
begin

text \<open>
  The relational database (\<open>internal/db\<close>): its tables as lists of records, and the statements of
  \<open>job.go\<close>, \<open>token.go\<close>, \<open>job_log.go\<close> and \<open>tenant.go\<close> on them.

  The constraints the program relies on are part of the statements: the primary keys, the unique
  key of the delta tokens, the unique index on the active jobs of a tenant and service (migration
  008), and the cascading deletes. A nullable column holds the zero time or the empty string for
  NULL, which is what \<open>NullTime\<close>, \<open>NullString\<close> and the scan functions make of it. Foreign keys on
  insert are not checked; like every other reason for a statement to fail, a violation is a fault.
  The order of rows with equal sort keys is that of insertion.
\<close>

section \<open>Rows\<close>

record Tenant =
  t_ID :: string
  t_Name :: string
  t_AzureTenantID :: string
  t_ClientID :: string
  t_ClientSecret :: string
  t_SecretExpires :: gotime
  t_StorePassword :: string
  t_StorePath :: string
  t_Status :: string
  t_RetentionJSON :: string
  t_CreatedAt :: gotime
  t_UpdatedAt :: gotime

record Schedule =
  sc_ID :: string
  sc_TenantID :: string
  sc_Service :: string
  sc_CronExpr :: string
  sc_Enabled :: bool
  sc_LastRun :: gotime
  sc_NextRun :: gotime
  sc_CreatedAt :: gotime

record Job =
  j_ID :: string
  j_TenantID :: string
  j_ScheduleID :: string
  j_Service :: string
  j_JobType :: string
  j_Status :: string
  j_StartedAt :: gotime
  j_FinishedAt :: gotime
  j_ItemsNew :: int
  j_ItemsTotal :: int
  j_BytesTransferred :: int
  j_ErrorMessage :: string
  j_SnapshotID :: string
  j_ProgressPct :: int
  j_ProgressMessage :: string
  j_Params :: string
  j_CreatedAt :: gotime

record JobLog =
  l_ID :: string
  l_JobID :: string
  l_Level :: string
  l_Message :: string
  l_CreatedAt :: gotime

record DeltaToken =
  dt_ID :: string
  dt_TenantID :: string
  dt_Service :: string
  dt_UserID :: string
  dt_Token :: string
  dt_UpdatedAt :: gotime

text \<open>Rows of the catalog (\<open>internal/catalog/types.go\<close> and migration 009).\<close>

record Item =
  it_Service :: string
  it_GraphItemID :: string
  it_Mailbox :: string
  it_ParentPath :: string
  it_Name :: string
  it_BlobHash :: string
  it_Size :: int
  it_MTime :: gotime
  it_ContentType :: string
  it_Subject :: string
  it_FromAddr :: string
  it_Deleted :: bool

record item_row =
  ir_tenant :: string
  ir_item :: Item

record Snapshot =
  sn_ID :: string
  sn_TenantID :: string
  sn_Service :: string
  sn_Generation :: int
  sn_JobID :: string
  sn_CreatedAt :: gotime
  sn_ItemsLive :: int
  sn_BytesLive :: int
  sn_Skipped :: bool

record change_row =
  cr_tenant :: string
  cr_generation :: int
  cr_op :: string
  cr_item :: Item

record db_world = fs_world +
  tenants :: "Tenant list"
  schedules :: "Schedule list"
  jobs :: "Job list"
  job_logs :: "JobLog list"
  delta_tokens :: "DeltaToken list"
  catalog_items :: "item_row list"
  catalog_snapshots :: "Snapshot list"
  catalog_changes :: "change_row list"

section \<open>Statements\<close>

definition unique_error :: "string \<Rightarrow> goerr" where
  "unique_error what = Err (''constraint failed: UNIQUE constraint failed: '' @ what)"

text \<open>A statement guarded by a unique index: it changes nothing when the index would be violated.\<close>

definition sql_guarded ::
  "('w io_env_scheme \<Rightarrow> bool) \<Rightarrow> string \<Rightarrow> ('w io_env_scheme \<Rightarrow> 'w io_env_scheme) \<Rightarrow> ('w io_env_scheme, unit) io" where
  "sql_guarded clash what f =
     bindE access (\<lambda>_. bindE (gets clash) (\<lambda>c.
       if c then throw (unique_error what) else modify f))"

text \<open>\<open>QueryRow(...).Scan(...)\<close>: the first row, or \<open>sql.ErrNoRows\<close>.\<close>

definition query_row :: "('w io_env_scheme \<Rightarrow> 'a list) \<Rightarrow> ('w io_env_scheme, 'a) io" where
  "query_row f =
     bindE (query f) (\<lambda>rs. case rs of [] \<Rightarrow> throw ErrNoRows | r # _ \<Rightarrow> ret r)"

definition IsUniqueViolation :: "goerr \<Rightarrow> bool" where
  "IsUniqueViolation err =
     (let s = strings_ToLower (err_text err)
      in strings_Contains s ''unique constraint'' \<or> strings_Contains s ''duplicate key''
         \<or> strings_Contains s ''duplicate entry'' \<or> strings_Contains s ''1062'')"

definition isDuplicateColumnErr :: "goerr \<Rightarrow> bool" where
  "isDuplicateColumnErr err =
     (let s = strings_ToLower (err_text err)
      in strings_Contains s ''duplicate column'' \<or> strings_Contains s ''1060''
         \<or> (strings_Contains s ''already exists'' \<and> strings_Contains s ''column''))"

definition isDuplicateIndexErr :: "goerr \<Rightarrow> bool" where
  "isDuplicateIndexErr err =
     (let s = strings_ToLower (err_text err)
      in strings_Contains s ''duplicate key name'' \<or> strings_Contains s ''1061''
         \<or> (strings_Contains s ''already exists'' \<and> strings_Contains s ''index''))"

text \<open>Statements of a migration file: split at semicolons, without blank and comment lines.\<close>

definition splitSQL :: "string \<Rightarrow> string list" where
  "splitSQL s =
     filter (\<lambda>stmt. stmt \<noteq> [])
       (map (\<lambda>p.
          strings_TrimSpace (strings_Join
            (filter (\<lambda>line. let t = strings_TrimSpace line in \<not> (t = [] \<or> strings_HasPrefix t ''--''))
               (strings_Split (CHR 0x0A) p)) [CHR 0x0A]))
         (strings_Split (CHR '';'') s))"

definition truncate :: "string \<Rightarrow> nat \<Rightarrow> string" where
  "truncate s n = (if length s \<le> n then s else take n s @ ''...'')"

subsection \<open>Schedules\<close>

definition CreateSchedule :: "Schedule \<Rightarrow> ('w db_world_scheme, Schedule) io" where
  "CreateSchedule s =
     bindE (if sc_ID s = [] then uuid_NewString else ret (sc_ID s)) (\<lambda>i.
     bindE time_Now (\<lambda>now.
       (let s' = s\<lparr>sc_ID := i, sc_CreatedAt := now\<rparr>
        in bindE (sql_guarded (\<lambda>w. \<exists>r \<in> set (schedules w). sc_ID r = i) ''schedules.id''
                   (\<lambda>w. w\<lparr>schedules := schedules w @ [s']\<rparr>)) (\<lambda>_. ret s'))))"

definition ListSchedules :: "string \<Rightarrow> ('w db_world_scheme, Schedule list) io" where
  "ListSchedules tenantID =
     query (\<lambda>w. sort_key sc_Service (filter (\<lambda>s. sc_TenantID s = tenantID) (schedules w)))"

definition ListAllSchedules :: "('w db_world_scheme, Schedule list) io" where
  "ListAllSchedules = query (\<lambda>w. filter sc_Enabled (schedules w))"

definition UpdateSchedule :: "Schedule \<Rightarrow> ('w db_world_scheme, unit) io" where
  "UpdateSchedule s =
     exec (\<lambda>w. w\<lparr>schedules := map (\<lambda>r. if sc_ID r = sc_ID s
       then r\<lparr>sc_CronExpr := sc_CronExpr s, sc_Enabled := sc_Enabled s, sc_LastRun := sc_LastRun s,
              sc_NextRun := sc_NextRun s\<rparr> else r) (schedules w)\<rparr>)"

definition GetSchedule :: "string \<Rightarrow> ('w db_world_scheme, Schedule) io" where
  "GetSchedule i = query_row (\<lambda>w. filter (\<lambda>s. sc_ID s = i) (schedules w))"

subsection \<open>Jobs\<close>

definition active :: "Job \<Rightarrow> bool" where
  "active j = (j_Status j = ''queued'' \<or> j_Status j = ''running'')"

text \<open>The unique index of migration 008: one active job per tenant and service.\<close>

definition active_clash :: "Job \<Rightarrow> Job list \<Rightarrow> bool" where
  "active_clash j js =
     (active j \<and> (\<exists>k \<in> set js. j_ID k \<noteq> j_ID j \<and> active k \<and> j_TenantID k = j_TenantID j \<and> j_Service k = j_Service j))"

definition CreateJob :: "Job \<Rightarrow> ('w db_world_scheme, Job) io" where
  "CreateJob j =
     bindE (if j_ID j = [] then uuid_NewString else ret (j_ID j)) (\<lambda>i.
     bindE time_Now (\<lambda>now.
       (let j' = j\<lparr>j_ID := i, j_CreatedAt := now\<rparr>;
            row = j'\<lparr>j_ProgressPct := 0, j_ProgressMessage := []\<rparr>
        in bindE (sql_guarded
             (\<lambda>w. (\<exists>r \<in> set (jobs w). j_ID r = i) \<or> active_clash j' (jobs w)) ''jobs''
             (\<lambda>w. w\<lparr>jobs := jobs w @ [row]\<rparr>)) (\<lambda>_. ret j'))))"

text \<open>The columns that \<open>UpdateJob\<close> writes; tenant, service, schedule, params and creation stay.\<close>

definition job_update :: "Job \<Rightarrow> Job \<Rightarrow> Job" where
  "job_update j r =
     r\<lparr>j_Status := j_Status j, j_StartedAt := j_StartedAt j, j_FinishedAt := j_FinishedAt j,
       j_ItemsNew := j_ItemsNew j, j_ItemsTotal := j_ItemsTotal j, j_BytesTransferred := j_BytesTransferred j,
       j_ErrorMessage := j_ErrorMessage j, j_SnapshotID := j_SnapshotID j, j_ProgressPct := j_ProgressPct j,
       j_ProgressMessage := j_ProgressMessage j, j_JobType := j_JobType j\<rparr>"

definition UpdateJob :: "Job \<Rightarrow> ('w db_world_scheme, unit) io" where
  "UpdateJob j =
     sql_guarded
       (\<lambda>w. \<exists>r \<in> set (jobs w). j_ID r = j_ID j \<and> active_clash (job_update j r) (jobs w)) ''jobs''
       (\<lambda>w. w\<lparr>jobs := map (\<lambda>r. if j_ID r = j_ID j then job_update j r else r) (jobs w)\<rparr>)"

definition UpdateJobProgress :: "Job \<Rightarrow> ('w db_world_scheme, unit) io" where
  "UpdateJobProgress j =
     exec (\<lambda>w. w\<lparr>jobs := map (\<lambda>r. if j_ID r = j_ID j
       then r\<lparr>j_ItemsNew := j_ItemsNew j, j_ItemsTotal := j_ItemsTotal j,
              j_BytesTransferred := j_BytesTransferred j, j_ProgressPct := j_ProgressPct j,
              j_ProgressMessage := j_ProgressMessage j\<rparr> else r) (jobs w)\<rparr>)"

definition UpdateJobProgressMessage :: "string \<Rightarrow> string \<Rightarrow> ('w db_world_scheme, unit) io" where
  "UpdateJobProgressMessage jobID msg =
     exec (\<lambda>w. w\<lparr>jobs := map (\<lambda>r. if j_ID r = jobID then r\<lparr>j_ProgressMessage := msg\<rparr> else r) (jobs w)\<rparr>)"

definition CountActiveJobs :: "string \<Rightarrow> string \<Rightarrow> ('w db_world_scheme, nat) io" where
  "CountActiveJobs tenantID service =
     query (\<lambda>w. length (filter (\<lambda>j. j_TenantID j = tenantID \<and> (service = [] \<or> j_Service j = service) \<and> active j) (jobs w)))"

definition CountActiveFullJobs :: "string \<Rightarrow> ('w db_world_scheme, nat) io" where
  "CountActiveFullJobs tenantID =
     query (\<lambda>w. length (filter (\<lambda>j. j_TenantID j = tenantID \<and> j_JobType j = ''full'' \<and> active j) (jobs w)))"

definition FailOrphanedJobs :: "string \<Rightarrow> ('w db_world_scheme, nat) io" where
  "FailOrphanedJobs reason =
     bindE time_Now (\<lambda>now.
     bindE access (\<lambda>_.
     bindE (gets (\<lambda>w. length (filter active (jobs w)))) (\<lambda>n.
     bindE (modify (\<lambda>w. w\<lparr>jobs := map (\<lambda>r. if active r
         then r\<lparr>j_Status := ''error'', j_ErrorMessage := reason, j_ProgressMessage := reason,
                j_FinishedAt := now\<rparr> else r) (jobs w)\<rparr>)) (\<lambda>_. ret n))))"

definition ListActiveJobs :: "('w db_world_scheme, Job list) io" where
  "ListActiveJobs =
     query (\<lambda>w. sort_key (\<lambda>j. if j_Status j = ''running'' then 0 else 1 :: nat)
       (sort_key j_CreatedAt (filter active (jobs w))))"

definition ListRecentJobs :: "int \<Rightarrow> ('w db_world_scheme, Job list) io" where
  "ListRecentJobs limit =
     (let n = (if limit \<le> 0 then 20 else limit)
      in query (\<lambda>w. take (nat n) (sort_key (\<lambda>j. - j_CreatedAt j) (filter (\<lambda>j. \<not> active j) (jobs w)))))"

definition ListJobs :: "string \<Rightarrow> int \<Rightarrow> ('w db_world_scheme, Job list) io" where
  "ListJobs tenantID limit =
     (let n = (if limit \<le> 0 then 50 else limit)
      in query (\<lambda>w. take (nat n) (sort_key (\<lambda>j. - j_CreatedAt j) (filter (\<lambda>j. j_TenantID j = tenantID) (jobs w)))))"

definition ListRunningJobs :: "('w db_world_scheme, Job list) io" where
  "ListRunningJobs =
     query (\<lambda>w. sort_key j_StartedAt (filter (\<lambda>j. j_Status j = ''running'') (jobs w)))"

definition GetJob :: "string \<Rightarrow> ('w db_world_scheme, Job) io" where
  "GetJob i = query_row (\<lambda>w. filter (\<lambda>j. j_ID j = i) (jobs w))"

subsection \<open>Delta tokens\<close>

text \<open>Both drivers: insert, or overwrite the token of the row with the same unique key.\<close>

definition UpsertDeltaToken :: "DeltaToken \<Rightarrow> ('w db_world_scheme, unit) io" where
  "UpsertDeltaToken t =
     bindE (if dt_ID t = [] then uuid_NewString else ret (dt_ID t)) (\<lambda>i.
     bindE time_Now (\<lambda>now.
       (let t' = t\<lparr>dt_ID := i, dt_UpdatedAt := now\<rparr>;
            same = (\<lambda>r. dt_TenantID r = dt_TenantID t \<and> dt_Service r = dt_Service t \<and> dt_UserID r = dt_UserID t)
        in exec (\<lambda>w. w\<lparr>delta_tokens :=
             (if list_ex same (delta_tokens w)
              then map (\<lambda>r. if same r then r\<lparr>dt_Token := dt_Token t', dt_UpdatedAt := now\<rparr> else r) (delta_tokens w)
              else delta_tokens w @ [t'])\<rparr>))))"

definition GetDeltaToken :: "string \<Rightarrow> string \<Rightarrow> string \<Rightarrow> ('w db_world_scheme, string) io" where
  "GetDeltaToken tenantID service userID =
     query_row (\<lambda>w. map dt_Token (filter (\<lambda>r. dt_TenantID r = tenantID \<and> dt_Service r = service \<and> dt_UserID r = userID)
       (delta_tokens w)))"

definition DeleteDeltaTokens :: "string \<Rightarrow> string \<Rightarrow> ('w db_world_scheme, unit) io" where
  "DeleteDeltaTokens tenantID service =
     (if tenantID = [] \<or> service = [] then throw (Err ''tenant and service required'')
      else exec (\<lambda>w. w\<lparr>delta_tokens :=
             filter (\<lambda>r. \<not> (dt_TenantID r = tenantID \<and> dt_Service r = service)) (delta_tokens w)\<rparr>))"

subsection \<open>Job logs\<close>

definition DefaultJobLogTail :: int where
  "DefaultJobLogTail = 500"

definition InsertJobLog :: "JobLog \<Rightarrow> ('w db_world_scheme, JobLog) io" where
  "InsertJobLog l =
     bindE (if l_ID l = [] then uuid_NewString else ret (l_ID l)) (\<lambda>i.
     bindE time_Now (\<lambda>now.
       (let l' = l\<lparr>l_ID := i, l_CreatedAt := (if l_CreatedAt l = zero_time then now else l_CreatedAt l)\<rparr>
        in bindE (sql_guarded (\<lambda>w. \<exists>r \<in> set (job_logs w). l_ID r = i) ''job_logs.id''
                    (\<lambda>w. w\<lparr>job_logs := job_logs w @ [l']\<rparr>)) (\<lambda>_. ret l'))))"

definition InsertJobLogs :: "string \<Rightarrow> JobLog list \<Rightarrow> ('w db_world_scheme, unit) io" where
  "InsertJobLogs jobID logs =
     for_each logs (\<lambda>l. bindE (InsertJobLog (l\<lparr>l_JobID := jobID\<rparr>)) (\<lambda>_. ret ()))"

definition CountJobLogs :: "string \<Rightarrow> ('w db_world_scheme, nat) io" where
  "CountJobLogs jobID = query (\<lambda>w. length (filter (\<lambda>l. l_JobID l = jobID) (job_logs w)))"

text \<open>\<open>ORDER BY created_at ASC, id ASC\<close>\<close>

definition sorted_logs :: "string \<Rightarrow> JobLog list \<Rightarrow> JobLog list" where
  "sorted_logs jobID ls = sort_key l_CreatedAt (sort_key l_ID (filter (\<lambda>l. l_JobID l = jobID) ls))"

definition ListJobLogs :: "string \<Rightarrow> ('w db_world_scheme, JobLog list) io" where
  "ListJobLogs jobID = query (\<lambda>w. sorted_logs jobID (job_logs w))"

definition ListJobLogsTail :: "string \<Rightarrow> int \<Rightarrow> ('w db_world_scheme, JobLog list \<times> nat) io" where
  "ListJobLogsTail jobID limit =
     (let lim = nat (if limit \<le> 0 then DefaultJobLogTail else limit)
      in bindE (CountJobLogs jobID) (\<lambda>total.
           if total = 0 then ret ([], 0)
           else if total \<le> lim then bindE (ListJobLogs jobID) (\<lambda>ls. ret (ls, total))
           else bindE (query (\<lambda>w. take lim (rev (sorted_logs jobID (job_logs w))))) (\<lambda>tail.
                  ret (rev tail, total))))"

definition ListJobLogsAfter :: "string \<Rightarrow> gotime \<Rightarrow> string \<Rightarrow> int \<Rightarrow> ('w db_world_scheme, JobLog list) io" where
  "ListJobLogsAfter jobID afterCreated afterID limit =
     (let lim = nat (if limit \<le> 0 then DefaultJobLogTail else limit)
      in if afterID = [] \<and> afterCreated = zero_time then ret []
         else query (\<lambda>w. take lim (filter (\<lambda>l. afterCreated < l_CreatedAt l
                \<or> (l_CreatedAt l = afterCreated \<and> afterID < l_ID l)) (sorted_logs jobID (job_logs w)))))"

definition LastJobLogTime :: "string \<Rightarrow> ('w db_world_scheme, gotime) io" where
  "LastJobLogTime jobID =
     query (\<lambda>w. let ts = map l_CreatedAt (filter (\<lambda>l. l_JobID l = jobID) (job_logs w))
                in if ts = [] then zero_time else Max (set ts))"

subsection \<open>Tenants\<close>

definition CreateTenant :: "Tenant \<Rightarrow> ('w db_world_scheme, Tenant) io" where
  "CreateTenant t =
     bindE (if t_ID t = [] then uuid_NewString else ret (t_ID t)) (\<lambda>i.
     bindE time_Now (\<lambda>now.
       (let t' = t\<lparr>t_ID := i, t_CreatedAt := now, t_UpdatedAt := now,
                   t_Status := (if t_Status t = [] then ''setup'' else t_Status t)\<rparr>
        in bindE (sql_guarded
                    (\<lambda>w. \<exists>r \<in> set (tenants w). t_ID r = i \<or> t_AzureTenantID r = t_AzureTenantID t') ''tenants''
                    (\<lambda>w. w\<lparr>tenants := tenants w @ [t']\<rparr>)) (\<lambda>_. ret t'))))"

definition UpdateTenant :: "Tenant \<Rightarrow> ('w db_world_scheme, Tenant) io" where
  "UpdateTenant t =
     bindE time_Now (\<lambda>now.
       (let t' = t\<lparr>t_UpdatedAt := now\<rparr>
        in bindE (sql_guarded
             (\<lambda>w. \<exists>r \<in> set (tenants w). t_ID r = t_ID t
                   \<and> (\<exists>k \<in> set (tenants w). t_ID k \<noteq> t_ID t \<and> t_AzureTenantID k = t_AzureTenantID t)) ''tenants''
             (\<lambda>w. w\<lparr>tenants := map (\<lambda>r. if t_ID r = t_ID t then t'\<lparr>t_CreatedAt := t_CreatedAt r\<rparr> else r) (tenants w)\<rparr>))
             (\<lambda>_. ret t')))"

definition UpdateTenantRetention :: "string \<Rightarrow> string \<Rightarrow> ('w db_world_scheme, unit) io" where
  "UpdateTenantRetention tenantID retentionJSON =
     bindE time_Now (\<lambda>now.
       exec (\<lambda>w. w\<lparr>tenants := map (\<lambda>r. if t_ID r = tenantID
         then r\<lparr>t_RetentionJSON := retentionJSON, t_UpdatedAt := now\<rparr> else r) (tenants w)\<rparr>))"

text \<open>The rows of a tenant go with it (\<open>ON DELETE CASCADE\<close>), and the logs with their jobs.\<close>

definition DeleteTenant :: "string \<Rightarrow> ('w db_world_scheme, unit) io" where
  "DeleteTenant i =
     exec (\<lambda>w.
       if \<exists>t \<in> set (tenants w). t_ID t = i then
         w\<lparr>tenants := filter (\<lambda>t. t_ID t \<noteq> i) (tenants w),
           schedules := filter (\<lambda>s. sc_TenantID s \<noteq> i) (schedules w),
           job_logs := filter (\<lambda>l. \<not> (\<exists>j \<in> set (jobs w). j_ID j = l_JobID l \<and> j_TenantID j = i)) (job_logs w),
           jobs := filter (\<lambda>j. j_TenantID j \<noteq> i) (jobs w),
           delta_tokens := filter (\<lambda>d. dt_TenantID d \<noteq> i) (delta_tokens w),
           catalog_items := filter (\<lambda>r. ir_tenant r \<noteq> i) (catalog_items w),
           catalog_snapshots := filter (\<lambda>s. sn_TenantID s \<noteq> i) (catalog_snapshots w),
           catalog_changes := filter (\<lambda>c. cr_tenant c \<noteq> i) (catalog_changes w)\<rparr>
       else w)"

definition GetTenant :: "string \<Rightarrow> ('w db_world_scheme, Tenant) io" where
  "GetTenant i = query_row (\<lambda>w. filter (\<lambda>t. t_ID t = i) (tenants w))"

definition ListTenants :: "('w db_world_scheme, Tenant list) io" where
  "ListTenants = query (\<lambda>w. sort_key t_Name (tenants w))"

section \<open>Lemmas\<close>

lemma wp_guarded [wp_intros]:
  assumes "\<And>fs. \<not> clash (w\<lparr>faults := fs\<rparr>) \<Longrightarrow> Q (Inr ()) (f (w\<lparr>faults := fs\<rparr>))"
    "\<And>e fs. Q (Inl e) (w\<lparr>faults := fs\<rparr>)"
  shows "wp (sql_guarded clash what f) Q w"
  using assms by (auto simp: sql_guarded_def wp_simps intro!: wp_access)

lemma wp_query_row [wp_intros]:
  assumes "\<And>fs r rs. f (w\<lparr>faults := fs\<rparr>) = r # rs \<Longrightarrow> Q (Inr r) (w\<lparr>faults := fs\<rparr>)"
    "\<And>e fs. Q (Inl e) (w\<lparr>faults := fs\<rparr>)"
  shows "wp (query_row f) Q w"
  using assms by (auto simp: query_row_def wp_simps intro!: wp_query split: list.split)

lemma unique_error_recognised: "IsUniqueViolation (unique_error what)"
proof -
  have "strings_ToLower ''constraint failed: UNIQUE constraint failed: '' =
      ''constraint failed: '' @ ''unique constraint'' @ '' failed: ''"
    by code_simp
  then have "strings_ToLower (err_text (unique_error what)) =
      ''constraint failed: '' @ ''unique constraint'' @ '' failed: '' @ strings_ToLower what"
    by (simp add: unique_error_def strings_ToLower_def)
  then have "strings_Contains (strings_ToLower (err_text (unique_error what))) ''unique constraint''"
    unfolding Contains_iff by blast
  then show ?thesis by (simp add: IsUniqueViolation_def Let_def)
qed

subsection \<open>The job table\<close>

text \<open>The invariant the indexes keep: ids are unique, and so is the active job of a tenant and service.\<close>

definition slot_ok :: "Job \<Rightarrow> Job \<Rightarrow> bool" where
  "slot_ok j k =
     (active j \<and> active k \<and> j_TenantID j = j_TenantID k \<and> j_Service j = j_Service k \<longrightarrow> j_ID j = j_ID k)"

definition jobs_ok :: "Job list \<Rightarrow> bool" where
  "jobs_ok js = (distinct (map j_ID js) \<and> (\<forall>j \<in> set js. \<forall>k \<in> set js. slot_ok j k))"

lemma slot_ok_sym: "slot_ok j k = slot_ok k j"
  by (auto simp: slot_ok_def)

lemma slot_ok_same [simp]: "j_ID j = j_ID k \<Longrightarrow> slot_ok j k"
  by (simp add: slot_ok_def)

lemma no_clash_slot: "\<not> active_clash j js \<Longrightarrow> k \<in> set js \<Longrightarrow> slot_ok j k"
  unfolding active_clash_def slot_ok_def by metis

lemma jobs_ok_snoc:
  assumes "jobs_ok js" "\<forall>r \<in> set js. j_ID r \<noteq> j_ID j" "\<not> active_clash j js"
  shows "jobs_ok (js @ [j])"
proof -
  have "slot_ok j k" "slot_ok k j" if "k \<in> set js" for k
    using no_clash_slot [OF assms(3) that] slot_ok_sym by auto
  then show ?thesis using assms(1,2) by (auto simp: jobs_ok_def image_iff)
qed

lemma jobs_ok_mapI:
  assumes "jobs_ok js" "map j_ID (map f js) = map j_ID js"
    "\<And>j k. j \<in> set js \<Longrightarrow> k \<in> set js \<Longrightarrow> slot_ok (f j) (f k)"
  shows "jobs_ok (map f js)"
  using assms unfolding jobs_ok_def by (metis (no_types, lifting) imageE set_map)

lemma jobs_ok_map:
  assumes "jobs_ok js" "\<And>r. j_ID (f r) = j_ID r" "\<And>r. j_TenantID (f r) = j_TenantID r"
    "\<And>r. j_Service (f r) = j_Service r" "\<And>r. r \<in> set js \<Longrightarrow> active (f r) \<Longrightarrow> active r"
  shows "jobs_ok (map f js)"
proof -
  have "slot_ok (f j) (f k)" if "j \<in> set js" "k \<in> set js" for j k
    using assms that unfolding jobs_ok_def slot_ok_def by metis
  then show ?thesis using assms(1,2) by (intro jobs_ok_mapI) simp_all
qed

lemma job_update_keys [simp]:
  "j_ID (job_update j r) = j_ID r" "j_TenantID (job_update j r) = j_TenantID r"
  "j_Service (job_update j r) = j_Service r" "j_Status (job_update j r) = j_Status j"
  by (simp_all add: job_update_def)

lemma jobs_ok_update:
  assumes "jobs_ok js" "\<forall>r \<in> set js. j_ID r = j_ID j \<longrightarrow> \<not> active_clash (job_update j r) js"
  shows "jobs_ok (map (\<lambda>r. if j_ID r = j_ID j then job_update j r else r) js)"
proof -
  let ?f = "\<lambda>r. if j_ID r = j_ID j then job_update j r else r"
  have upd: "slot_ok (job_update j r) k" if "r \<in> set js" "k \<in> set js" "j_ID r = j_ID j" for r k
    using no_clash_slot assms(2) that by blast
  have "slot_ok (?f r) (?f k)" if r: "r \<in> set js" and k: "k \<in> set js" for r k
  proof (cases "j_ID r = j_ID k")
    case False
    then show ?thesis
      using upd [OF r k] upd [OF k r] assms(1) r k slot_ok_sym by (auto simp: jobs_ok_def)
  qed simp
  then show ?thesis by (intro jobs_ok_mapI [OF assms(1)]) auto
qed

lemma jobs_ok_filter: "jobs_ok js \<Longrightarrow> jobs_ok (filter P js)"
  by (auto simp: jobs_ok_def distinct_map_filter)

abbreviation jobs_inv :: "'w db_world_scheme \<Rightarrow> bool" where
  "jobs_inv w \<equiv> jobs_ok (jobs w)"

lemma fault_free_jobs: "fault_free (\<lambda>w. P (jobs w))"
  by (simp add: fault_free_def)

lemma keeps_guarded:
  assumes "fault_free P" "\<And>w. P w \<Longrightarrow> \<not> clash w \<Longrightarrow> P (f w)"
  shows "keeps P (sql_guarded clash what f)"
proof (rule keepsI)
  fix w
  assume "P w"
  then have "wp (sql_guarded clash what f) (\<lambda>_ w'. P w') w"
    using assms by (auto simp: fault_free_def intro!: wp_guarded)
  then show "P (snd (sql_guarded clash what f w))" by (simp add: wp_def)
qed

lemma keeps_query_row: "fault_free P \<Longrightarrow> keeps P (query_row f)"
  by (auto simp: query_row_def intro!: keeps_rules keeps_query split: list.split)

lemma keeps_uuid: "(\<And>w n. P (w\<lparr>uuid_next := n\<rparr>) = P w) \<Longrightarrow> keeps P uuid_NewString"
  by (simp add: keeps_def uuid_NewString_def)

lemma keeps_time [keeps_rules]: "keeps P time_Now"
  by (simp add: time_Now_def keeps_rules)

lemma active_clash_progress:
  "active_clash (j\<lparr>j_ProgressPct := p, j_ProgressMessage := m\<rparr>) js = active_clash j js"
  by (simp add: active_clash_def active_def)

lemma keeps_CreateJob [keeps_rules]: "keeps jobs_inv (CreateJob j)"
  unfolding CreateJob_def
  by (auto intro!: keeps_rules keeps_uuid keeps_guarded fault_free_jobs jobs_ok_snoc
      simp: active_clash_progress)

lemma keeps_UpdateJob [keeps_rules]: "keeps jobs_inv (UpdateJob j)"
  unfolding UpdateJob_def
  by (auto intro!: keeps_guarded fault_free_jobs jobs_ok_update)

lemma keeps_UpdateJobProgress [keeps_rules]: "keeps jobs_inv (UpdateJobProgress j)"
  unfolding UpdateJobProgress_def
  by (auto intro!: keeps_exec fault_free_jobs jobs_ok_map simp: active_def split: if_splits)

lemma keeps_UpdateJobProgressMessage [keeps_rules]: "keeps jobs_inv (UpdateJobProgressMessage i m)"
  unfolding UpdateJobProgressMessage_def
  by (auto intro!: keeps_exec fault_free_jobs jobs_ok_map simp: active_def split: if_splits)

lemma keeps_FailOrphanedJobs [keeps_rules]: "keeps jobs_inv (FailOrphanedJobs reason)"
  unfolding FailOrphanedJobs_def
  by (auto intro!: keeps_rules keeps_access keeps_modify fault_free_jobs jobs_ok_map simp: active_def split: if_splits)

lemma keeps_DeleteTenant [keeps_rules]: "keeps jobs_inv (DeleteTenant i)"
  unfolding DeleteTenant_def
  by (auto intro!: keeps_exec fault_free_jobs jobs_ok_filter)

subsection \<open>Log lines\<close>

lemma sorted_logs_sorted: "sorted (map l_CreatedAt (sorted_logs jobID ls))"
  by (simp add: sorted_logs_def)

text \<open>
  The tail of a job's log. Without a fault \<open>ListJobLogsTail\<close> returns the number of lines of the
  job and, in chronological order, its newest \<open>limit\<close> lines (500 for a limit that is not positive),
  or all of them when there are fewer.
\<close>

theorem ListJobLogsTail_newest:
  "ListJobLogsTail jobID limit (w\<lparr>faults := []\<rparr>) =
     (let ls = sorted_logs jobID (job_logs w); lim = nat (if limit \<le> 0 then DefaultJobLogTail else limit)
      in (Inr (drop (length ls - lim) ls, length ls), w\<lparr>faults := []\<rparr>))"
proof -
  let ?ls = "sorted_logs jobID (job_logs w)"
  have len: "length ?ls = length (filter (\<lambda>l. l_JobID l = jobID) (job_logs w))"
    by (simp add: sorted_logs_def)
  have rev_take: "rev (take n (rev ?ls)) = drop (length ?ls - n) ?ls" for n
    by (simp add: take_rev)
  show ?thesis
    using rev_take len
    by (auto simp: ListJobLogsTail_def CountJobLogs_def ListJobLogs_def io_simps Let_def)
qed

end
