(* ===== verification/Blob_Store.thy ===== *)
theory Blob_Store
  imports Disk
begin

text \<open>
  The content-addressed store of encrypted blobs (\<open>internal/blobstore/store.go\<close>): a blob lies in
  \<open>root/blobs/hh/hash\<close>, where \<open>hash\<close> is the hexadecimal SHA-256 of the plaintext, and holds a random
  nonce followed by the AES-256-GCM ciphertext. The theory models every operation of the store on
  the disk, states what a client relies on as the locale \<open>content_store\<close>, and interprets it on the
  operations.
\<close>

section \<open>The store\<close>

record BlobStore =
  bs_root :: string
  bs_key :: string

definition blobstore_New :: "string \<Rightarrow> string \<Rightarrow> ('w fs_world_scheme, BlobStore) io" where
  "blobstore_New root password =
     bindE (from_result (GuardPath root)) (\<lambda>_.
       (let key = sha256_Sum256 password
        in bindE (os_MkdirAll (path_Join [root, ''blobs''])) (\<lambda>_.
             ret \<lparr>bs_root = root, bs_key = key\<rparr>)))"

definition Hash :: "string \<Rightarrow> string" where
  "Hash plain = hex_EncodeToString (sha256_Sum256 plain)"

definition validHash :: "string \<Rightarrow> bool" where
  "validHash h = (length h = 64 \<and> list_all is_lower_hex h)"

definition blobPath :: "BlobStore \<Rightarrow> string \<Rightarrow> string result" where
  "blobPath s h =
     (if \<not> validHash h then Inl (Err ''invalid blob hash'')
      else EnsureSubpath (bs_root s) (path_Join [''blobs'', take 2 h, h]))"

definition blob_Put :: "BlobStore \<Rightarrow> string \<Rightarrow> ('w fs_world_scheme, string) io" where
  "blob_Put s plain =
     (let h = Hash plain
      in bindE (from_result (blobPath s h)) (\<lambda>path.
         attempt (os_Stat path) (\<lambda>st.
           if (case st of Inr n \<Rightarrow> n > 0 | Inl _ \<Rightarrow> False) then ret h
           else
             bindE (os_MkdirAll (filepath_Dir path)) (\<lambda>_.
             bindE (rand_Read gcm_NonceSize) (\<lambda>nonce.
               (let out = nonce @ gcm_Seal (bs_key s) nonce plain; tmp = path @ ''.tmp''
                in bindE (os_WriteFile tmp out) (\<lambda>_.
                   attempt (os_Rename tmp path) (\<lambda>r. case r of
                     Inl e \<Rightarrow> bindE (ignore (os_Remove tmp)) (\<lambda>_. throw e)
                   | Inr _ \<Rightarrow> ret h))))))))"

definition blob_Get :: "BlobStore \<Rightarrow> string \<Rightarrow> ('w fs_world_scheme, string) io" where
  "blob_Get s h =
     bindE (from_result (blobPath s h)) (\<lambda>path.
     bindE (os_ReadFile path) (\<lambda>raw.
       if length raw < gcm_NonceSize then throw (Err ''invalid blob'')
       else (case gcm_Open (bs_key s) (take gcm_NonceSize raw) (drop gcm_NonceSize raw) of
               None \<Rightarrow> throw (Wrap ''decrypt blob'' (Err ''cipher: message authentication failed''))
             | Some plain \<Rightarrow> ret plain)))"

definition blob_Exists :: "BlobStore \<Rightarrow> string \<Rightarrow> ('w fs_world_scheme, bool) io" where
  "blob_Exists s h =
     (case blobPath s h of
        Inl _ \<Rightarrow> ret False
      | Inr path \<Rightarrow> attempt (os_Stat path) (\<lambda>st.
          ret (case st of Inr n \<Rightarrow> n > 0 | Inl _ \<Rightarrow> False)))"

definition blob_Delete :: "BlobStore \<Rightarrow> string \<Rightarrow> ('w fs_world_scheme, unit) io" where
  "blob_Delete s h = bindE (from_result (blobPath s h)) os_Remove"

text \<open>The walk skips what it cannot read; the entry names are the last path elements.\<close>

definition ListHashes :: "BlobStore \<Rightarrow> ('w fs_world_scheme, string list) io" where
  "ListHashes s =
     gets (\<lambda>w.
       filter (\<lambda>name. \<not> strings_HasSuffix name ''.tmp'' \<and> validHash name)
         (map (\<lambda>(p, d). last (strings_Split slash p))
            (files_below (path_Join [bs_root s, ''blobs'']) w)))"

section \<open>What a client relies on\<close>

text \<open>
  A content store shows its clients a partial map from addresses to contents (\<open>view\<close>). Storing
  never changes or loses an address that is already there, whatever fails; a successful \<open>put\<close>
  returns the address of its argument, and something with that address is there afterwards. Deleting
  touches only its own address.
\<close>

locale content_store =
  fixes inv :: "'w \<Rightarrow> bool"
    and view :: "'w \<Rightarrow> string \<Rightarrow> string option"
    and put :: "string \<Rightarrow> ('w, string) io"
    and del :: "string \<Rightarrow> ('w, unit) io"
    and hash :: "string \<Rightarrow> string"
  assumes put_spec: "inv w \<Longrightarrow>
      wp (put p) (\<lambda>r w'. inv w' \<and> (\<forall>h. h \<noteq> hash p \<longrightarrow> view w' h = view w h)
        \<and> (view w (hash p) \<noteq> None \<longrightarrow> view w' (hash p) \<noteq> None)
        \<and> (\<forall>h. r = Inr h \<longrightarrow> h = hash p \<and> view w' h \<noteq> None)) w"
    and view_hash: "inv w \<Longrightarrow> view w h = Some q \<Longrightarrow> hash q = h"
    and del_spec: "inv w \<Longrightarrow>
      wp (del h) (\<lambda>r w'. inv w' \<and> (\<forall>k. k \<noteq> h \<longrightarrow> view w' k = view w k)
        \<and> (r = Inr () \<longrightarrow> view w' h = None)) w"
begin

text \<open>Storing one content after the other: all of them are there at the end.\<close>

fun put_all :: "string list \<Rightarrow> ('w, string list) io" where
  "put_all [] = ret []"
| "put_all (p # ps) = bindE (put p) (\<lambda>h. bindE (put_all ps) (\<lambda>hs. ret (h # hs)))"

lemma put_keeps:
  assumes "inv w"
  shows "wp (put p) (\<lambda>r w'. inv w' \<and> dom (view w) \<subseteq> dom (view w')
      \<and> (\<forall>h. r = Inr h \<longrightarrow> h = hash p \<and> h \<in> dom (view w'))) w"
proof (rule wp_mono [OF put_spec [OF assms, of p]], goal_cases)
  case (1 r w')
  have "view w' h \<noteq> None" if "view w h \<noteq> None" for h
    using 1 that by (cases "h = hash p") auto
  then show ?case using 1 by (auto simp: dom_def)
qed

lemma put_all_spec:
  assumes "inv w"
  shows "wp (put_all ps) (\<lambda>r w'. inv w' \<and> dom (view w) \<subseteq> dom (view w')
      \<and> (\<forall>hs. r = Inr hs \<longrightarrow> hs = map hash ps \<and> hash ` set ps \<subseteq> dom (view w'))) w"
  using assms
proof (induction ps arbitrary: w)
  case Nil
  then show ?case by (simp add: wp_simps)
next
  case (Cons p ps)
  show ?case
    unfolding put_all.simps wp_simps
  proof (rule wp_mono [OF put_keeps [OF Cons.prems, of p]], goal_cases)
    case (1 r w')
    show ?case
    proof (cases r)
      case (Inr h)
      then show ?thesis
        using 1 by (auto simp: wp_simps split: sum.split intro!: wp_mono [OF Cons.IH [of w']])
          (metis domI domD subsetD)+
    qed (use 1 in auto)
  qed
qed

text \<open>Deleting a list of addresses, whatever fails on the way, keeps every other address.\<close>

lemma del_all_spec:
  assumes "inv w"
  shows "wp (for_each hs (\<lambda>h. ignore (del h))) (\<lambda>r w'. inv w' \<and> (\<forall>k. k \<notin> set hs \<longrightarrow> view w' k = view w k)) w"
proof (rule wp_for_each_inv)
  show "wp (ignore (del h)) (\<lambda>_ w'. inv w' \<and> (\<forall>k. k \<notin> set hs \<longrightarrow> view w' k = view w k)) v"
    if "h \<in> set hs" "inv v \<and> (\<forall>k. k \<notin> set hs \<longrightarrow> view v k = view w k)" for h v
    unfolding wp_simps
    by (rule wp_mono [OF del_spec]) (use that in auto)
qed (use assms in auto)

end

section \<open>The store implements the contract\<close>

definition good_root :: "string \<Rightarrow> bool" where
  "good_root root = (GuardPath root = Inr root \<and> path_segs root \<noteq> [])"

definition bpath :: "BlobStore \<Rightarrow> string \<Rightarrow> string" where
  "bpath s h = render_path (is_rooted (bs_root s)) (path_segs (bs_root s) @ [''blobs'', take 2 h, h])"

definition open_blob :: "BlobStore \<Rightarrow> string \<Rightarrow> string option" where
  "open_blob s raw =
     (if length raw < gcm_NonceSize then None
      else gcm_Open (bs_key s) (take gcm_NonceSize raw) (drop gcm_NonceSize raw))"

text \<open>The contents a store holds: a valid address whose file decrypts.\<close>

definition blob_view :: "BlobStore \<Rightarrow> 'w fs_world_scheme \<Rightarrow> string \<Rightarrow> string option" where
  "blob_view s w h =
     (if validHash h then Option.bind (file_at w (bpath s h)) (open_blob s) else None)"

text \<open>Every non-empty blob file decrypts to a content with that address.\<close>

definition cas_ok :: "BlobStore \<Rightarrow> 'w fs_world_scheme \<Rightarrow> bool" where
  "cas_ok s w =
     (good_root (bs_root s)
      \<and> (\<forall>h d. validHash h \<longrightarrow> file_at w (bpath s h) = Some d \<longrightarrow> d \<noteq> []
            \<longrightarrow> (\<exists>p. open_blob s d = Some p \<and> Hash p = h)))"

lemma validHash_Hash [simp]: "validHash (Hash p)"
  using hex_lower by (auto simp: validHash_def Hash_def list_all_iff)

lemma lower_hex_special:
  assumes "is_lower_hex c"
  shows "c \<noteq> slash" "c \<noteq> CHR ''.''" "c \<noteq> CHR 0x00"
  using assms by (auto simp: is_lower_hex_def)

lemma validHash_chars:
  assumes "validHash h" "set g \<subseteq> set h"
  shows "slash \<notin> set g" "CHR ''.'' \<notin> set g" "CHR 0x00 \<notin> set g"
  using assms lower_hex_special by (fastforce simp: validHash_def list_all_iff)+

lemma no_dot_no_dotdot: "CHR ''.'' \<notin> set s \<Longrightarrow> no_dotdot s"
  by (auto simp: Contains_iff)

lemma validHash_clean:
  assumes "validHash h"
  shows "clean_list [take 2 h, h]"
proof -
  have "clean_list [g]" if "set g \<subseteq> set h" "g \<noteq> []" for g
    using that validHash_chars [OF assms that(1)] no_dot_no_dotdot [of g] by auto
  moreover have "h \<noteq> []" "take 2 h \<noteq> []" using assms by (auto simp: validHash_def)
  moreover have "set (take 2 h) \<subseteq> set h" by (rule set_take_subset)
  ultimately have "clean_list [take 2 h]" "clean_list [h]" by blast+
  then show ?thesis by simp
qed

lemma clean_blobs: "clean_list [''blobs'']"
  by simp

lemma blob_rel:
  assumes "validHash h"
  shows "path_Join [''blobs'', take 2 h, h] = render_path False [''blobs'', take 2 h, h]"
proof -
  have cl: "clean_list [''blobs'', take 2 h, h]" using validHash_clean [OF assms] by simp
  have "path_Join [''blobs'', take 2 h, h] = path_Clean (strings_Join [''blobs'', take 2 h, h] ''/'')"
    using assms by (auto simp: path_Join_def validHash_def)
  also have "strings_Join [''blobs'', take 2 h, h] ''/'' = render_path False [''blobs'', take 2 h, h]"
    by (simp add: render_path_def)
  finally show ?thesis using path_Clean_render [OF cl] by metis
qed

lemma blobPath_ok:
  assumes "good_root (bs_root s)" "validHash h"
  shows "blobPath s h = Inr (bpath s h)"
proof -
  have cl: "clean_list [''blobs'', take 2 h, h]" using validHash_clean [OF assms(2)] by simp
  have "\<not> has_nul (render_path False [''blobs'', take 2 h, h])"
    using validHash_chars(3) [OF assms(2)] set_take_subset [of 2 h]
    by (intro render_no_nul) auto
  then show ?thesis
    using assms EnsureSubpath_accepts [of "bs_root s" "render_path False [''blobs'', take 2 h, h]"]
    by (simp add: blobPath_def bpath_def good_root_def blob_rel no_dotdot_render [OF cl]
        path_segs_render [OF cl] del: GuardPath_Inr)
qed

lemma blobPath_invalid: "\<not> validHash h \<Longrightarrow> blobPath s h = Inl (Err ''invalid blob hash'')"
  by (simp add: blobPath_def)

lemma path_segs_bpath:
  assumes "good_root (bs_root s)" "validHash h"
  shows "path_segs (bpath s h) = path_segs (bs_root s) @ [''blobs'', take 2 h, h]"
  unfolding bpath_def
  by (rule path_segs_render) (use assms validHash_clean [OF assms(2)] in \<open>auto simp: good_root_def\<close>)

lemma bpath_inj:
  assumes "good_root (bs_root s)" "validHash h" "validHash k"
  shows "bpath s h = bpath s k \<longleftrightarrow> h = k"
proof
  assume "bpath s h = bpath s k"
  then have "path_segs (bs_root s) @ [''blobs'', take 2 h, h] = path_segs (bs_root s) @ [''blobs'', take 2 k, k]"
    using path_segs_bpath [OF assms(1,2)] path_segs_bpath [OF assms(1,3)] by metis
  then show "h = k" by (simp only: same_append_eq list.inject)
qed simp

text \<open>The temporary name is no blob.\<close>

lemma bpath_tmp:
  assumes "good_root (bs_root s)" "validHash h" "validHash k"
  shows "bpath s k \<noteq> bpath s h @ ''.tmp''"
proof
  assume eq: "bpath s k = bpath s h @ ''.tmp''"
  have "bpath s x = render_path (is_rooted (bs_root s)) (path_segs (bs_root s)) @ ''/blobs/'' @ take 2 x @ ''/'' @ x" for x
    using assms(1) by (simp add: bpath_def good_root_def render_append)
  then have "length (bpath s k) = length (bpath s h)" using assms(2,3) by (simp add: validHash_def)
  with eq show False by simp
qed

lemma open_sealed [simp]:
  "length n = gcm_NonceSize \<Longrightarrow> open_blob s (n @ gcm_Seal (bs_key s) n p) = Some p"
  by (simp add: open_blob_def)

lemma blob_view_env [simp]:
  "blob_view s (w\<lparr>faults := fs\<rparr>) = blob_view s w" "blob_view s (w\<lparr>rand_pos := n\<rparr>) = blob_view s w"
  by (simp_all add: blob_view_def fun_eq_iff)

lemma cas_ok_env [simp]:
  "cas_ok s (w\<lparr>faults := fs\<rparr>) = cas_ok s w" "cas_ok s (w\<lparr>rand_pos := n\<rparr>) = cas_ok s w"
  by (simp_all add: cas_ok_def)

lemma blob_view_put:
  assumes "good_root (bs_root s)" "validHash h"
  shows "blob_view s (put_file (bpath s h) d w) k = (if k = h then open_blob s d else blob_view s w k)"
  using assms by (auto simp: blob_view_def bpath_inj)

lemma blob_view_del:
  assumes "good_root (bs_root s)" "validHash h"
  shows "blob_view s (del_file (bpath s h) w) k = (if k = h then None else blob_view s w k)"
  using assms by (auto simp: blob_view_def bpath_inj)

lemma blob_view_tmp:
  assumes "good_root (bs_root s)" "validHash h"
  shows "blob_view s (put_file (bpath s h @ ''.tmp'') d w) = blob_view s w"
    "blob_view s (del_file (bpath s h @ ''.tmp'') w) = blob_view s w"
  using assms bpath_tmp by (fastforce simp: blob_view_def fun_eq_iff)+

lemma cas_ok_put:
  assumes "cas_ok s w" "validHash h" "open_blob s d = Some p" "Hash p = h"
  shows "cas_ok s (put_file (bpath s h) d w)"
  using assms by (auto simp: cas_ok_def bpath_inj)

lemma cas_ok_del: "cas_ok s w \<Longrightarrow> cas_ok s (del_file q w)"
  by (simp add: cas_ok_def)

lemma cas_ok_tmp:
  assumes "cas_ok s w" "validHash h"
  shows "cas_ok s (put_file (bpath s h @ ''.tmp'') d w)"
  using assms bpath_tmp by (auto simp: cas_ok_def)

lemma cas_ok_root: "cas_ok s w \<Longrightarrow> good_root (bs_root s)"
  by (simp add: cas_ok_def)

lemma cas_ok_view:
  assumes "cas_ok s w" "blob_view s w h = Some q"
  shows "Hash q = h"
proof -
  obtain d where d: "validHash h" "file_at w (bpath s h) = Some d" "open_blob s d = Some q"
    using assms(2) by (auto simp: blob_view_def bind_eq_Some_conv split: if_splits)
  then have "d \<noteq> []" by (auto simp: open_blob_def gcm_NonceSize_def)
  with assms(1) d show ?thesis by (fastforce simp: cas_ok_def)
qed

lemmas blob_frame = blob_view_put blob_view_del blob_view_tmp cas_ok_put cas_ok_del cas_ok_tmp cas_ok_root

text \<open>A \<open>Put\<close> that writes: the file becomes visible under its name only when it is complete.\<close>

lemma blob_Put_spec:
  assumes "cas_ok s w"
  shows "wp (blob_Put s p) (\<lambda>r w'. cas_ok s w'
      \<and> (\<forall>h. h \<noteq> Hash p \<longrightarrow> blob_view s w' h = blob_view s w h)
      \<and> (blob_view s w (Hash p) \<noteq> None \<longrightarrow> blob_view s w' (Hash p) \<noteq> None)
      \<and> (\<forall>h. r = Inr h \<longrightarrow> h = Hash p \<and> blob_view s w' h \<noteq> None)) w"
proof -
  note root = cas_ok_root [OF assms]
  have stored: "\<exists>q. blob_view s w (Hash p) = Some q" if "file_at w (bpath s (Hash p)) = Some d" "d \<noteq> []" for d
    using that assms by (simp add: cas_ok_def blob_view_def) (metis validHash_Hash)
  show ?thesis
    unfolding blob_Put_def Let_def
    by (auto simp: wp_simps blobPath_ok [OF root] blob_view_put [OF root] blob_view_tmp [OF root]
        assms intro!: wp_intros cas_ok_put [where p = p] cas_ok_tmp cas_ok_del)
      (erule (1) stored)
qed

lemma blob_Delete_spec:
  assumes "cas_ok s w"
  shows "wp (blob_Delete s h) (\<lambda>r w'. cas_ok s w' \<and> (\<forall>k. k \<noteq> h \<longrightarrow> blob_view s w' k = blob_view s w k)
      \<and> (r = Inr () \<longrightarrow> blob_view s w' h = None)) w"
proof (cases "validHash h")
  case True
  note root = cas_ok_root [OF assms]
  show ?thesis
    using True assms
    by (auto simp: blob_Delete_def wp_simps blobPath_ok [OF root] blob_view_del [OF root]
        intro!: wp_intros cas_ok_del)
qed (use assms in \<open>auto simp: blob_Delete_def wp_simps blobPath_invalid\<close>)

interpretation blobs: content_store "cas_ok s" "blob_view s" "blob_Put s" "blob_Delete s" Hash for s
  by unfold_locales (erule blob_Put_spec blob_Delete_spec cas_ok_view; assumption?)+

lemma keeps_blob_ops:
  assumes "disk_free P"
  shows "keeps P (blob_Put s d)" "keeps P (blob_Get s h)" "keeps P (blob_Delete s h)"
  unfolding blob_Put_def blob_Get_def blob_Delete_def Let_def
  by (auto intro!: keeps_rules keeps_disk [OF assms] split: option.split sum.split)

text \<open>Reading never changes a file, and returns what the view holds.\<close>

lemma blob_Get_spec:
  assumes "cas_ok s w"
  shows "wp (blob_Get s h) (\<lambda>r w'. files w' = files w \<and> (\<forall>q. r = Inr q \<longrightarrow> blob_view s w h = Some q)) w"
proof (cases "validHash h")
  case True
  show ?thesis
    using True by (auto simp: blob_Get_def wp_simps blobPath_ok [OF cas_ok_root [OF assms]] blob_view_def open_blob_def
        split: option.split intro!: wp_intros)
qed (auto simp: blob_Get_def wp_simps blobPath_invalid)

lemma blob_Get_ok:
  assumes "cas_ok s w" "faults w = []" "blob_view s w h = Some q"
  shows "blob_Get s h w = (Inr q, w)"
proof -
  obtain d where d: "validHash h" "file_at w (bpath s h) = Some d" "open_blob s d = Some q"
    using assms(3) by (auto simp: blob_view_def bind_eq_Some_conv split: if_splits)
  then have "\<not> length d < gcm_NonceSize" by (auto simp: open_blob_def)
  with d assms show ?thesis
    by (simp add: blob_Get_def io_simps os_ReadFile_def blobPath_ok [OF cas_ok_root] open_blob_def)
qed

text \<open>Without a fault, \<open>Put\<close> returns the address, and a content that is there is not written again.\<close>

lemma blob_Put_ok:
  assumes "cas_ok s w" "faults w = []"
  shows "fst (blob_Put s p w) = Inr (Hash p)" "faults (snd (blob_Put s p w)) = []"
    "blob_view s w (Hash p) \<noteq> None \<Longrightarrow> snd (blob_Put s p w) = w"
proof -
  note root = cas_ok_root [OF assms(1)]
  note [simp] = blobPath_ok [OF root] assms(2)
  show "fst (blob_Put s p w) = Inr (Hash p)" "faults (snd (blob_Put s p w)) = []"
    by (auto simp: blob_Put_def io_simps os_Stat_def os_ReadFile_def os_MkdirAll_def rand_Read_def
        os_WriteFile_def os_Rename_def Let_def put_file_def del_file_def file_at_def update_conv'
        split: option.split)
  assume "blob_view s w (Hash p) \<noteq> None"
  then obtain d where d: "file_at w (bpath s (Hash p)) = Some d" "open_blob s d \<noteq> None"
    by (cases "file_at w (bpath s (Hash p))") (auto simp: blob_view_def)
  moreover from d(2) have "d \<noteq> []" by (auto simp: open_blob_def gcm_NonceSize_def)
  ultimately show "snd (blob_Put s p w) = w"
    by (simp add: blob_Put_def io_simps os_Stat_def os_ReadFile_def Let_def)
qed

text \<open>The listing names every stored address, and nothing but valid addresses.\<close>

lemma bpath_below:
  assumes "good_root (bs_root s)" "validHash h"
  shows "strings_HasPrefix (bpath s h) (path_Clean (path_Join [bs_root s, ''blobs'']) @ ''/'')"
    "last (strings_Split slash (bpath s h)) = h"
proof -
  have cl: "clean_list (path_segs (bs_root s))" and ne: "path_segs (bs_root s) \<noteq> []" "bs_root s \<noteq> []"
    "no_dotdot (bs_root s)"
    using assms(1) by (auto simp: good_root_def)
  let ?r = "render_path (is_rooted (bs_root s)) (path_segs (bs_root s) @ [''blobs''])"
  have "path_segs ''blobs'' = [''blobs'']" by (simp add: path_segs_def is_rooted_def)
  then have join: "path_Join [bs_root s, ''blobs''] = ?r"
    using path_Join_two [of "bs_root s" "''blobs''"] ne by simp
  have "path_Clean ?r = ?r" by (rule path_Clean_render) (use cl in simp)
  moreover have bp: "bpath s h = ?r @ ''/'' @ strings_Join [take 2 h, h] ''/''"
    using render_append [of "path_segs (bs_root s) @ [''blobs'']" "[take 2 h, h]"] by (simp add: bpath_def)
  ultimately show "strings_HasPrefix (bpath s h) (path_Clean (path_Join [bs_root s, ''blobs'']) @ ''/'')"
    unfolding join HasPrefix_iff by auto
  have "slash \<notin> set h" using validHash_chars(1) [OF assms(2), of h] by simp
  moreover have "bpath s h = (?r @ ''/'' @ take 2 h) @ slash # h" using bp by simp
  ultimately show "last (strings_Split slash (bpath s h)) = h"
    by (simp only: Split_append_sep) (simp add: Split_no_sep)
qed

lemma HasSuffix_last: "strings_HasSuffix s (t @ [c]) \<Longrightarrow> last s = c"
  by (auto simp: HasSuffix_iff)

lemma validHash_not_tmp:
  assumes "validHash h"
  shows "\<not> strings_HasSuffix h ''.tmp''"
proof
  assume "strings_HasSuffix h ''.tmp''"
  then have "CHR ''.'' \<in> set h" by (auto simp: HasSuffix_iff)
  with validHash_chars(2) [OF assms, of h] show False by simp
qed

lemma ListHashes_complete:
  assumes "good_root (bs_root s)" "validHash h" "file_at w (bpath s h) = Some d"
  shows "ListHashes s w = (Inr hs, w') \<Longrightarrow> h \<in> set hs"
proof -
  have "(bpath s h, d) \<in> set (files_below (path_Join [bs_root s, ''blobs'']) w)"
    using assms bpath_below(1) [OF assms(1,2)] map_of_SomeD [of "files w"]
    by (auto simp: files_below_def file_at_def)
  then have "h \<in> (\<lambda>(p, d). last (strings_Split slash p)) ` set (files_below (path_Join [bs_root s, ''blobs'']) w)"
    using bpath_below(2) [OF assms(1,2)] by force
  then show "ListHashes s w = (Inr hs, w') \<Longrightarrow> h \<in> set hs"
    using assms(2) validHash_not_tmp [OF assms(2)] by (auto simp: ListHashes_def gets_def)
qed

section \<open>Properties\<close>

text \<open>
  C20: storing is durable and safe whatever fails. For every fault script, with a write that may leave
  any part of the data behind, after \<open>Put\<close> the store is still consistent, every address that was
  there before is still there, the content of every other address is unchanged, and if \<open>Put\<close>
  returned an address then it is the SHA-256 of the plaintext and a later undisturbed \<open>Get\<close> of it
  returns a content with that SHA-256: the plaintext itself, unless two different contents collide.
\<close>

theorem blob_Put_Get:
  assumes "cas_ok s w" "blob_Put s p w = (r, w')"
  shows "cas_ok s w' \<and> (\<forall>h. h \<noteq> Hash p \<longrightarrow> blob_view s w' h = blob_view s w h)
    \<and> dom (blob_view s w) \<subseteq> dom (blob_view s w')
    \<and> (\<forall>h. r = Inr h \<longrightarrow> h = Hash p
         \<and> (\<exists>q. blob_Get s h (w'\<lparr>faults := []\<rparr>) = (Inr q, w'\<lparr>faults := []\<rparr>) \<and> Hash q = Hash p))"
proof -
  have ok: "cas_ok s w'" and frame: "\<forall>h. h \<noteq> Hash p \<longrightarrow> blob_view s w' h = blob_view s w h"
    and stored: "r = Inr h \<longrightarrow> h = Hash p \<and> blob_view s w' h \<noteq> None" for h
    using wpD [OF blob_Put_spec [OF assms(1)] assms(2)] by auto
  have "dom (blob_view s w) \<subseteq> dom (blob_view s w')"
    using wpD [OF blobs.put_keeps [OF assms(1)] assms(2)] by blast
  moreover have "\<exists>q. blob_Get s h (w'\<lparr>faults := []\<rparr>) = (Inr q, w'\<lparr>faults := []\<rparr>) \<and> Hash q = Hash p"
    if "r = Inr h" for h
  proof -
    have q': "blob_view s w' h \<noteq> None" "h = Hash p" using stored [of h] that by blast+
    then obtain q where q: "blob_view s w' h = Some q" "h = Hash p" by blast
    have "blob_Get s h (w'\<lparr>faults := []\<rparr>) = (Inr q, w'\<lparr>faults := []\<rparr>)"
      by (rule blob_Get_ok) (use ok q in simp_all)
    with cas_ok_view [OF ok q(1)] q(2) show ?thesis by blast
  qed
  ultimately show ?thesis using ok frame stored by (intro conjI allI impI) simp_all
qed

definition demo_store :: BlobStore where
  "demo_store = \<lparr>bs_root = ''/srv/tenant'', bs_key = sha256_Sum256 ''secret''\<rparr>"

definition empty_disk :: fs_world where
  "empty_disk =
     \<lparr>faults = [], clock = 1, uuid_src = show_nat, uuid_next = 0,
      files = [], torn = Some 3, rand_byte = (\<lambda>i. char_of i), rand_pos = 0\<rparr>"

lemma demo_ok: "cas_ok demo_store empty_disk"
  by (simp add: cas_ok_def demo_store_def empty_disk_def file_at_def good_root_def has_nul_def
      path_segs_def is_rooted_def)

theorem blob_Put_Get_witness:
  "\<exists>q. blob_Get demo_store (Hash ''hello'') ((snd (blob_Put demo_store ''hello'' empty_disk))\<lparr>faults := []\<rparr>) =
      (Inr q, (snd (blob_Put demo_store ''hello'' empty_disk))\<lparr>faults := []\<rparr>) \<and> Hash q = Hash ''hello''"
proof -
  let ?r = "blob_Put demo_store ''hello'' empty_disk"
  have "fst ?r = Inr (Hash ''hello'')"
    by (rule blob_Put_ok) (simp_all add: demo_ok, simp add: empty_disk_def)
  then show ?thesis
    using blob_Put_Get [OF demo_ok prod.collapse [symmetric], of "''hello''"] by metis
qed

end
