(* ===== verification/Civil_Time.thy ===== *)
theory Civil_Time
  imports Go_Prelude
begin

text \<open>
  The calendar of package \<open>time\<close> as far as the program uses it, in UTC: the date of a time, its ISO
  week, and midnight. Days are counted from 1 January of year 1, a Monday. The year of a day is
  estimated from the length of 400 years and corrected by at most one; \<open>year_bounds\<close> shows that
  the day lies in it.
\<close>

definition day_of :: "gotime \<Rightarrow> int" where
  "day_of t = t div ns_per_day"

definition first_day :: "int \<Rightarrow> int" where
  "first_day y = 365 * (y - 1) + (y - 1) div 4 - (y - 1) div 100 + (y - 1) div 400"

definition is_leap :: "int \<Rightarrow> bool" where
  "is_leap y = (y mod 4 = 0 \<and> (y mod 100 \<noteq> 0 \<or> y mod 400 = 0))"

definition year_of_day :: "int \<Rightarrow> int" where
  "year_of_day d =
     (let y = (400 * d) div 146097 + 1
      in if d < first_day y then y - 1 else if first_day (y + 1) \<le> d then y + 1 else y)"

text \<open>The days of the year on which the months start.\<close>

definition month_starts :: "bool \<Rightarrow> int list" where
  "month_starts leap =
     (let l = (if leap then 1 else 0)
      in [0, 31, 59 + l, 90 + l, 120 + l, 151 + l, 181 + l, 212 + l, 243 + l, 273 + l, 304 + l, 334 + l])"

definition month_of_day :: "int \<Rightarrow> int" where
  "month_of_day d =
     (let y = year_of_day d
      in int (length (filter (\<lambda>s. s \<le> d - first_day y) (month_starts (is_leap y)))))"

definition mday_of_day :: "int \<Rightarrow> int" where
  "mday_of_day d =
     (let y = year_of_day d
      in d - first_day y - month_starts (is_leap y) ! nat (month_of_day d - 1) + 1)"

definition time_Year :: "gotime \<Rightarrow> int" where
  "time_Year t = year_of_day (day_of t)"

definition time_Month :: "gotime \<Rightarrow> int" where
  "time_Month t = month_of_day (day_of t)"

definition time_Day :: "gotime \<Rightarrow> int" where
  "time_Day t = mday_of_day (day_of t)"

text \<open>The ISO week is counted in the year that its Thursday lies in.\<close>

definition time_ISOWeek :: "gotime \<Rightarrow> int \<times> int" where
  "time_ISOWeek t =
     (let thursday = day_of t - day_of t mod 7 + 3; y = year_of_day thursday
      in (y, (thursday - first_day y) div 7 + 1))"

text \<open>\<open>time.Date(t.Year(), t.Month(), t.Day(), 0, 0, 0, 0, time.UTC)\<close>\<close>

definition time_midnight :: "gotime \<Rightarrow> gotime" where
  "time_midnight t = day_of t * ns_per_day"

section \<open>Lemmas\<close>

lemma div_bounds: "(0::int) < k \<Longrightarrow> k * (x div k) \<le> x \<and> x < k * (x div k) + k"
  using mod_mult_div_eq [of x k] pos_mod_bound [of k x] pos_mod_sign [of k x]
  by (metis add.commute le_add_same_cancel1 add_less_cancel_left mult_div_mod_eq)

lemma div_pred:
  assumes "(0::int) < k"
  shows "y div k = (y - 1) div k + (if y mod k = 0 then 1 else 0)"
proof (cases "y mod k = 0")
  case True
  have "(y - 1) div k = y div k - 1"
    by (rule int_div_pos_eq [of _ _ _ "k - 1"])
      (use assms True mult_div_mod_eq [of k y] in \<open>auto simp: algebra_simps\<close>)
  with True show ?thesis by simp
next
  case False
  have "0 < y mod k" "y mod k < k" using assms False pos_mod_sign [of k y] pos_mod_bound [of k y] by linarith+
  then have "(y - 1) div k = y div k"
    by (intro int_div_pos_eq [of _ _ _ "y mod k - 1"])
      (use mult_div_mod_eq [of k y] in \<open>auto simp: algebra_simps\<close>)
  with False show ?thesis by simp
qed

lemma first_day_Suc:
  "first_day (y + 1) = first_day y + (if is_leap y then 366 else 365)"
proof -
  have "y mod 4 = 0" if "y mod 100 = 0" using that mod_mod_cancel [of 4 100 y] by simp
  moreover have "y mod 100 = 0" if "y mod 400 = 0" using that mod_mod_cancel [of 100 400 y] by simp
  ultimately have leap: "(if is_leap y then 366 else 365) = (365::int) + (if y mod 4 = 0 then 1 else 0)
      - (if y mod 100 = 0 then 1 else 0) + (if y mod 400 = 0 then 1 else 0)"
    unfolding is_leap_def
    by (cases "y mod 400 = 0"; cases "y mod 100 = 0"; cases "y mod 4 = 0"; simp only: simp_thms if_True if_False; simp)
  have "first_day (y + 1) = 365 * y + y div 4 - y div 100 + y div 400"
    by (simp add: first_day_def)
  also have "\<dots> = 365 * y + ((y - 1) div 4 + (if y mod 4 = 0 then 1 else 0))
      - ((y - 1) div 100 + (if y mod 100 = 0 then 1 else 0)) + ((y - 1) div 400 + (if y mod 400 = 0 then 1 else 0))"
    by (intro arg_cong2 [where f = "(+)"] arg_cong2 [where f = "(-)"] div_pred refl) simp_all
  also have "365 * y + (a + u) - (b + v) + (c + w) = 365 * (y - 1) + a - b + c + (365 + u - v + w)"
    for a b c u v w :: int by simp
  finally show ?thesis unfolding leap first_day_def .
qed

lemma first_day_bounds:
  "400 * first_day y \<le> 146097 * (y - 1) + 399" "146097 * (y - 1) \<le> 400 * first_day y + 699"
  using div_bounds [of 4 "y - 1"] div_bounds [of 100 "y - 1"] div_bounds [of 400 "y - 1"]
  by (simp_all add: first_day_def)

lemma first_day_mono: "a \<le> b \<Longrightarrow> first_day a \<le> first_day b"
proof (induction "nat (b - a)" arbitrary: b)
  case (Suc n)
  then have "first_day a \<le> first_day (b - 1)" by simp
  also have "first_day (b - 1) \<le> first_day b" using first_day_Suc [of "b - 1"] by simp
  finally show ?case .
qed simp

lemma year_bounds: "first_day (year_of_day d) \<le> d" "d < first_day (year_of_day d + 1)"
proof -
  define y where "y = (400 * d) div 146097 + 1"
  have est: "146097 * (y - 1) \<le> 400 * d" "400 * d < 146097 * y"
    using div_bounds [of 146097 "400 * d"] by (simp_all add: y_def algebra_simps)
  have "first_day (y - 1) \<le> d" "d < first_day (y + 2)"
    using est first_day_bounds [of "y - 1"] first_day_bounds [of "y + 2"] by (simp_all add: algebra_simps)
  then show "first_day (year_of_day d) \<le> d" "d < first_day (year_of_day d + 1)"
    unfolding year_of_day_def Let_def y_def [symmetric] by (simp_all add: ac_simps)
qed

lemma year_mono: "d \<le> e \<Longrightarrow> year_of_day d \<le> year_of_day e"
  using year_bounds [of d] year_bounds [of e] first_day_mono [of "year_of_day e + 1" "year_of_day d"]
  by linarith

lemma month_range: "1 \<le> month_of_day d" "month_of_day d \<le> 12"
proof -
  have "length (filter P (month_starts l)) \<le> 12" for P l
    by (rule order_trans [OF length_filter_le]) (simp add: month_starts_def Let_def)
  then show "month_of_day d \<le> 12" by (simp add: month_of_day_def Let_def)
  have "0 \<in> set (filter (\<lambda>s. s \<le> d - first_day (year_of_day d)) (month_starts (is_leap (year_of_day d))))"
    using year_bounds [of d] by (simp add: month_starts_def Let_def)
  then have "filter (\<lambda>s. s \<le> d - first_day (year_of_day d)) (month_starts (is_leap (year_of_day d))) \<noteq> []"
    by (metis empty_iff list.set(1))
  then show "1 \<le> month_of_day d"
    by (simp add: month_of_day_def Let_def Suc_le_eq)
qed

lemma length_filter_mono: "(\<And>x. P x \<Longrightarrow> Q x) \<Longrightarrow> length (filter P xs) \<le> length (filter Q xs)"
  by (induction xs) auto

text \<open>Months, counted through the years, do not go back.\<close>

lemma month_index_mono:
  assumes "d \<le> e"
  shows "12 * year_of_day d + month_of_day d \<le> 12 * year_of_day e + month_of_day e"
proof (cases "year_of_day d = year_of_day e")
  case True
  then show ?thesis
    using assms by (auto simp: month_of_day_def Let_def intro!: length_filter_mono)
next
  case False
  then show ?thesis
    using year_mono [OF assms] month_range [of d] month_range [of e] by linarith
qed

lemma day_mono: "t \<le> u \<Longrightarrow> day_of t \<le> day_of u"
  by (simp add: day_of_def ns_per_day_def ns_per_hour_def ns_per_sec_def zdiv_mono1)

lemma ISOWeek_of_week: "day_of t div 7 = day_of u div 7 \<Longrightarrow> time_ISOWeek t = time_ISOWeek u"
proof -
  have "day_of t - day_of t mod 7 = 7 * (day_of t div 7)" for t by (simp add: minus_mod_eq_mult_div)
  then show "day_of t div 7 = day_of u div 7 \<Longrightarrow> time_ISOWeek t = time_ISOWeek u"
    by (simp add: time_ISOWeek_def)
qed

end
