(* ===== verification/Retention.thy ===== *)
theory Retention
  imports Civil_Time
begin

text \<open>
  The choice of snapshots to keep (\<open>internal/storage/retention.go\<close>): the policy, its normalisation,
  and \<open>SelectSmartKeepIDs\<close>. Against the loop stands the abstract description of its comment: the
  newest \<open>KeepMin\<close>, everything in the hour window, and the newest of every day, week, month and year
  slot.

  A set of strings (\<open>map[string]bool\<close>) is the list of its elements. The keys of the slots are the
  numbers that the formatted keys are made of: the date, the ISO year and week, the year and month,
  the year.
\<close>

section \<open>The policy\<close>

record SnapshotInfo =
  si_ID :: string
  si_CreatedAt :: gotime
  si_Source :: string
  si_Service :: string
  si_Bytes :: int
  si_BytesHuman :: string
  si_Files :: int

record RetentionPolicy =
  Enabled :: bool
  KeepHours :: int
  KeepDaily :: int
  KeepWeekly :: int
  KeepMonthly :: int
  KeepYearly :: int
  KeepMin :: int
  PSTKeepRuns :: int

definition DefaultRetention :: RetentionPolicy where
  "DefaultRetention =
     \<lparr>Enabled = True, KeepHours = 24, KeepDaily = 7, KeepWeekly = 4, KeepMonthly = 6,
      KeepYearly = 2, KeepMin = 3, PSTKeepRuns = 5\<rparr>"

definition normalize_policy :: "RetentionPolicy \<Rightarrow> RetentionPolicy" where
  "normalize_policy p =
     p\<lparr>KeepHours := (if KeepHours p < 0 then 0 else KeepHours p),
       KeepDaily := (if KeepDaily p < 0 then 0 else KeepDaily p),
       KeepWeekly := (if KeepWeekly p < 0 then 0 else KeepWeekly p),
       KeepMonthly := (if KeepMonthly p < 0 then 0 else KeepMonthly p),
       KeepYearly := (if KeepYearly p < 0 then 0 else KeepYearly p),
       KeepMin := (if KeepMin p < 1 then 1 else KeepMin p),
       PSTKeepRuns := (if PSTKeepRuns p < 1 then 1 else PSTKeepRuns p)\<rparr>"

section \<open>The selection\<close>

definition daysBetween :: "gotime \<Rightarrow> gotime \<Rightarrow> int" where
  "daysBetween past now = go_div (time_Sub (time_midnight now) (time_midnight past)) ns_per_day"

definition weeksBetween :: "gotime \<Rightarrow> gotime \<Rightarrow> int" where
  "weeksBetween past now = go_div (daysBetween past now) 7"

definition monthsBetween :: "gotime \<Rightarrow> gotime \<Rightarrow> int" where
  "monthsBetween past now =
     (time_Year now - time_Year past) * 12 + time_Month now - time_Month past"

text \<open>\<open>now.Add(-time.Duration(policy.KeepHours) * time.Hour)\<close>: the product is a 64-bit number.\<close>

definition hourCutoff :: "RetentionPolicy \<Rightarrow> gotime \<Rightarrow> gotime" where
  "hourCutoff p now = now + wrap64 (wrap64 (- KeepHours p) * ns_per_hour)"

record seen_slots =
  seenDay :: "(int \<times> int \<times> int) list"
  seenWeek :: "(int \<times> int) list"
  seenMonth :: "(int \<times> int) list"
  seenYear :: "int list"

definition dayKey :: "gotime \<Rightarrow> int \<times> int \<times> int" where
  "dayKey t = (time_Year t, time_Month t, time_Day t)"

definition monthKey :: "gotime \<Rightarrow> int \<times> int" where
  "monthKey t = (time_Year t, time_Month t)"

text \<open>The four tests of the loop body; a slot that is outside its window is not marked as seen.\<close>

definition in_days :: "RetentionPolicy \<Rightarrow> gotime \<Rightarrow> gotime \<Rightarrow> bool" where
  "in_days p now t = (KeepDaily p > 0 \<and> daysBetween t now < KeepDaily p)"

definition in_weeks :: "RetentionPolicy \<Rightarrow> gotime \<Rightarrow> gotime \<Rightarrow> bool" where
  "in_weeks p now t = (KeepWeekly p > 0 \<and> weeksBetween t now < KeepWeekly p)"

definition in_months :: "RetentionPolicy \<Rightarrow> gotime \<Rightarrow> gotime \<Rightarrow> bool" where
  "in_months p now t = (KeepMonthly p > 0 \<and> monthsBetween t now < KeepMonthly p)"

definition in_years :: "RetentionPolicy \<Rightarrow> gotime \<Rightarrow> gotime \<Rightarrow> bool" where
  "in_years p now t = (KeepYearly p > 0 \<and> time_Year now - time_Year t < KeepYearly p)"

fun slot_loop :: "RetentionPolicy \<Rightarrow> gotime \<Rightarrow> seen_slots \<Rightarrow> string list \<Rightarrow> SnapshotInfo list \<Rightarrow> string list" where
  "slot_loop p now s keep [] = keep"
| "slot_loop p now s keep (sn # sns) =
     (let t = si_CreatedAt sn;
          d = (in_days p now t \<and> dayKey t \<notin> set (seenDay s));
          w = (in_weeks p now t \<and> time_ISOWeek t \<notin> set (seenWeek s));
          m = (in_months p now t \<and> monthKey t \<notin> set (seenMonth s));
          y = (in_years p now t \<and> time_Year t \<notin> set (seenYear s));
          s' = \<lparr>seenDay = (if d then dayKey t # seenDay s else seenDay s),
                seenWeek = (if w then time_ISOWeek t # seenWeek s else seenWeek s),
                seenMonth = (if m then monthKey t # seenMonth s else seenMonth s),
                seenYear = (if y then time_Year t # seenYear s else seenYear s)\<rparr>
      in slot_loop p now s' (if d \<or> w \<or> m \<or> y then si_ID sn # keep else keep) sns)"

definition SelectSmartKeepIDs :: "SnapshotInfo list \<Rightarrow> RetentionPolicy \<Rightarrow> gotime \<Rightarrow> string list" where
  "SelectSmartKeepIDs snaps policy now =
     (let p = normalize_policy policy;
          newest = map si_ID (take (nat (KeepMin p)) snaps)
      in if snaps = [] then []
         else if \<not> Enabled p then newest
         else (let window = map si_ID (filter (\<lambda>sn. \<not> si_CreatedAt sn < hourCutoff p now) snaps)
               in slot_loop p now \<lparr>seenDay = [], seenWeek = [], seenMonth = [], seenYear = []\<rparr>
                    (window @ newest) snaps))"

section \<open>The abstract selection\<close>

text \<open>
  Position \<open>i\<close> of a list is the first of its slot: it lies in the window, and no earlier position in
  the window has its key.
\<close>

definition first_in_slot :: "(gotime \<Rightarrow> bool) \<Rightarrow> (gotime \<Rightarrow> 'k) \<Rightarrow> gotime list \<Rightarrow> nat \<Rightarrow> bool" where
  "first_in_slot win key ts i =
     (win (ts ! i) \<and> (\<forall>j < i. win (ts ! j) \<longrightarrow> key (ts ! j) \<noteq> key (ts ! i)))"

definition slot_rule :: "RetentionPolicy \<Rightarrow> gotime \<Rightarrow> gotime list \<Rightarrow> nat \<Rightarrow> bool" where
  "slot_rule p now ts i =
     (first_in_slot (in_days p now) dayKey ts i \<or> first_in_slot (in_weeks p now) time_ISOWeek ts i
      \<or> first_in_slot (in_months p now) monthKey ts i \<or> first_in_slot (in_years p now) time_Year ts i)"

definition keep_rule :: "RetentionPolicy \<Rightarrow> gotime \<Rightarrow> gotime list \<Rightarrow> nat \<Rightarrow> bool" where
  "keep_rule p now ts i =
     (int i < KeepMin p \<or> (Enabled p \<and> (hourCutoff p now \<le> ts ! i \<or> slot_rule p now ts i)))"

section \<open>Lemmas\<close>

lemma normalize_idem [simp]: "normalize_policy (normalize_policy p) = normalize_policy p"
  by (simp add: normalize_policy_def)

lemma normalize_bounds:
  "0 \<le> KeepHours (normalize_policy p)" "0 \<le> KeepDaily (normalize_policy p)" "0 \<le> KeepWeekly (normalize_policy p)"
  "0 \<le> KeepMonthly (normalize_policy p)" "0 \<le> KeepYearly (normalize_policy p)" "1 \<le> KeepMin (normalize_policy p)"
  "1 \<le> PSTKeepRuns (normalize_policy p)"
  by (simp_all add: normalize_policy_def)

text \<open>The loop with the keys seen so far: what it has seen are the keys of the earlier elements.\<close>

definition slots_of :: "RetentionPolicy \<Rightarrow> gotime \<Rightarrow> gotime list \<Rightarrow> seen_slots \<Rightarrow> bool" where
  "slots_of p now ts s =
     (set (seenDay s) = dayKey ` {t \<in> set ts. in_days p now t}
      \<and> set (seenWeek s) = time_ISOWeek ` {t \<in> set ts. in_weeks p now t}
      \<and> set (seenMonth s) = monthKey ` {t \<in> set ts. in_months p now t}
      \<and> set (seenYear s) = time_Year ` {t \<in> set ts. in_years p now t})"

lemma first_in_slot_last:
  "first_in_slot win key (ts @ [t]) (length ts) \<longleftrightarrow> win t \<and> key t \<notin> key ` {u \<in> set ts. win u}"
  by (auto simp: first_in_slot_def nth_append in_set_conv_nth image_iff)

lemma first_in_slot_append:
  "i < length ts \<Longrightarrow> first_in_slot win key (ts @ us) i \<longleftrightarrow> first_in_slot win key ts i"
  by (auto simp: first_in_slot_def nth_append)

lemma slot_rule_append: "i < length ts \<Longrightarrow> slot_rule p now (ts @ us) i \<longleftrightarrow> slot_rule p now ts i"
  by (simp add: slot_rule_def first_in_slot_append)

lemma seen_insert:
  assumes "set seen = key ` {u \<in> set ts. win u}"
  shows "set (if win t \<and> key t \<notin> set seen then key t # seen else seen) = key ` {u \<in> set (ts @ [t]). win u}"
proof -
  have "{u \<in> set (ts @ [t]). win u} = {u \<in> set ts. win u} \<union> (if win t then {t} else {})" by auto
  with assms show ?thesis by auto
qed

lemma set_filter_nth: "set (map f (filter P xs)) = {f (xs ! i) | i. i < length xs \<and> P (xs ! i)}"
  by (force simp: in_set_conv_nth)

lemma set_take_nth: "set (map f (take n xs)) = {f (xs ! i) | i. i < length xs \<and> i < n}"
  by (force simp: in_set_conv_nth)

lemma slot_loop_keeps:
  assumes "slots_of p now (map si_CreatedAt before) s"
  shows "set (slot_loop p now s keep sns) =
    set keep \<union> {si_ID (sns ! i) | i. i < length sns
      \<and> slot_rule p now (map si_CreatedAt (before @ sns)) (length before + i)}"
  using assms
proof (induction sns arbitrary: before s keep)
  case Nil
  then show ?case by simp
next
  case (Cons sn sns)
  let ?t = "si_CreatedAt sn" and ?ts = "map si_CreatedAt before"
  define d where "d = (in_days p now ?t \<and> dayKey ?t \<notin> set (seenDay s))"
  define w where "w = (in_weeks p now ?t \<and> time_ISOWeek ?t \<notin> set (seenWeek s))"
  define m where "m = (in_months p now ?t \<and> monthKey ?t \<notin> set (seenMonth s))"
  define y where "y = (in_years p now ?t \<and> time_Year ?t \<notin> set (seenYear s))"
  define s' where "s' = \<lparr>seenDay = (if d then dayKey ?t # seenDay s else seenDay s),
      seenWeek = (if w then time_ISOWeek ?t # seenWeek s else seenWeek s),
      seenMonth = (if m then monthKey ?t # seenMonth s else seenMonth s),
      seenYear = (if y then time_Year ?t # seenYear s else seenYear s)\<rparr>"
  have rule: "(d \<or> w \<or> m \<or> y) = slot_rule p now (?ts @ [?t]) (length ?ts)"
    using Cons.prems unfolding slot_rule_def first_in_slot_last d_def w_def m_def y_def slots_of_def
    by simp
  have slots: "slots_of p now (map si_CreatedAt (before @ [sn])) s'"
    using Cons.prems unfolding slots_of_def s'_def d_def w_def m_def y_def
    unfolding seen_slots.simps map_append list.map by (elim conjE) (intro conjI seen_insert)
  have head: "slot_rule p now (map si_CreatedAt (before @ sn # sns)) (length before) = (d \<or> w \<or> m \<or> y)"
    using slot_rule_append [of "length ?ts" "?ts @ [?t]" p now "map si_CreatedAt sns"] rule by simp
  have "set (slot_loop p now s keep (sn # sns)) =
      set (slot_loop p now s' (if d \<or> w \<or> m \<or> y then si_ID sn # keep else keep) sns)"
    by (simp add: Let_def d_def w_def m_def y_def s'_def)
  also have "\<dots> = set (if d \<or> w \<or> m \<or> y then si_ID sn # keep else keep) \<union> {si_ID (sns ! i) | i. i < length sns
      \<and> slot_rule p now (map si_CreatedAt ((before @ [sn]) @ sns)) (length (before @ [sn]) + i)}"
    by (rule Cons.IH [OF slots])
  also have "\<dots> = set keep \<union> {si_ID ((sn # sns) ! i) | i. i < length (sn # sns)
      \<and> slot_rule p now (map si_CreatedAt (before @ sn # sns)) (length before + i)}"
  proof -
    have split: "{f i | i. i < Suc n \<and> P i} = (if P 0 then {f 0} else {}) \<union> {f (Suc i) | i. i < n \<and> P (Suc i)}"
      for f :: "nat \<Rightarrow> string" and n P
      by (auto simp: less_Suc_eq_0_disj)
    show ?thesis
      using split [of "\<lambda>i. si_ID ((sn # sns) ! i)" "length sns"
          "\<lambda>i. slot_rule p now (map si_CreatedAt (before @ sn # sns)) (length before + i)"] head
      by auto
  qed
  finally show ?case .
qed

lemma SelectSmartKeepIDs_rule:
  "set (SelectSmartKeepIDs snaps policy now) =
     {si_ID (snaps ! i) | i. i < length snaps \<and> keep_rule (normalize_policy policy) now (map si_CreatedAt snaps) i}"
proof -
  let ?p = "normalize_policy policy"
  have newest: "set (map si_ID (take (nat (KeepMin ?p)) snaps)) =
      {si_ID (snaps ! i) | i. i < length snaps \<and> int i < KeepMin ?p}"
    by (simp only: set_take_nth zless_nat_eq_int_zless)
  have window: "set (map si_ID (filter (\<lambda>sn. \<not> si_CreatedAt sn < hourCutoff ?p now) snaps)) =
      {si_ID (snaps ! i) | i. i < length snaps \<and> hourCutoff ?p now \<le> si_CreatedAt (snaps ! i)}"
    by (simp only: set_filter_nth not_less)
  have loop: "set (slot_loop ?p now \<lparr>seenDay = [], seenWeek = [], seenMonth = [], seenYear = []\<rparr> keep snaps) =
      set keep \<union> {si_ID (snaps ! i) | i. i < length snaps \<and> slot_rule ?p now (map si_CreatedAt snaps) i}" for keep
    using slot_loop_keeps [of ?p now "[]" "\<lparr>seenDay = [], seenWeek = [], seenMonth = [], seenYear = []\<rparr>"]
    by (simp add: slots_of_def)
  show ?thesis
  proof (cases "snaps = []")
    case False
    show ?thesis
      unfolding SelectSmartKeepIDs_def Let_def if_not_P [OF False]
      by (cases "Enabled ?p")
        (simp_all only: if_True if_False simp_thms loop set_append newest window keep_rule_def, auto)
  qed (simp add: SelectSmartKeepIDs_def)
qed

subsection \<open>Slots and their windows\<close>

text \<open>The first element of a list with a property and the key of a given one.\<close>

lemma first_in_slot_exists:
  assumes "i < length ts" "win (ts ! i)"
  shows "\<exists>j \<le> i. first_in_slot win key ts j \<and> key (ts ! j) = key (ts ! i)"
proof -
  define j where "j = (LEAST j. win (ts ! j) \<and> key (ts ! j) = key (ts ! i))"
  have j: "win (ts ! j) \<and> key (ts ! j) = key (ts ! i)"
    unfolding j_def by (rule LeastI [of _ i]) (use assms in simp)
  moreover have "j \<le> i" unfolding j_def by (rule Least_le) (use assms in simp)
  moreover have "key (ts ! k) \<noteq> key (ts ! j)" if "k < j" "win (ts ! k)" for k
    using not_less_Least [of k "\<lambda>j. win (ts ! j) \<and> key (ts ! j) = key (ts ! i)"] that j
    by (simp add: j_def [symmetric])
  ultimately show ?thesis by (auto simp: first_in_slot_def)
qed

lemma first_in_slot_card:
  "finite {i. i < length ts \<and> first_in_slot win key ts i}"
  "card {i. i < length ts \<and> first_in_slot win key ts i} \<le> card (key ` {t \<in> set ts. win t})"
proof -
  let ?F = "{i. i < length ts \<and> first_in_slot win key ts i}"
  show "finite ?F" by simp
  have "inj_on (\<lambda>i. key (ts ! i)) ?F"
    by (rule inj_onI) (metis (mono_tags, lifting) first_in_slot_def linorder_neqE_nat mem_Collect_eq)
  moreover have "(\<lambda>i. key (ts ! i)) ` ?F \<subseteq> key ` {t \<in> set ts. win t}"
    by (auto simp: first_in_slot_def)
  ultimately show "card ?F \<le> card (key ` {t \<in> set ts. win t})"
    by (rule card_inj_on_le) simp
qed

text \<open>The number of different values of a function of an integer that lies in an interval.\<close>

lemma card_keys:
  assumes "\<And>t. t \<in> T \<Longrightarrow> idx t \<in> {lo..hi}" "\<And>t u. t \<in> T \<Longrightarrow> u \<in> T \<Longrightarrow> idx t = idx u \<Longrightarrow> key t = key u"
  shows "int (card (key ` T)) \<le> max 0 (hi - lo + 1)"
proof -
  let ?pick = "\<lambda>n. key (SOME t. t \<in> T \<and> idx t = n)"
  have "key ` T \<subseteq> ?pick ` {lo..hi}"
  proof
    fix k
    assume "k \<in> key ` T"
    then obtain t where t: "t \<in> T" "k = key t" by blast
    then have "(SOME u. u \<in> T \<and> idx u = idx t) \<in> T \<and> idx (SOME u. u \<in> T \<and> idx u = idx t) = idx t"
      by (intro someI [of "\<lambda>u. u \<in> T \<and> idx u = idx t" t]) simp
    with t have "k = ?pick (idx t)" using assms(2) [of t] by metis
    with t assms(1) show "k \<in> ?pick ` {lo..hi}" by blast
  qed
  then have "card (key ` T) \<le> card {lo..hi}"
    by (meson card_image_le card_mono finite_atLeastAtMost_int finite_imageI order_trans)
  then show ?thesis by simp
qed

text \<open>Snapshots that are at most this old have an exact age in days (about 292 years).\<close>

definition max_age :: int where
  "max_age = 106751 * ns_per_day"

lemma daysBetween_exact:
  assumes "t \<le> now" "now - t \<le> max_age"
  shows "daysBetween t now = day_of now - day_of t" "0 \<le> daysBetween t now"
proof -
  have le: "day_of t \<le> day_of now" using assms(1) by (rule day_mono)
  have pos: "0 < ns_per_day" by (simp add: ns_per_day_def ns_per_hour_def ns_per_sec_def)
  have "ns_per_day * day_of now \<le> now" "t < ns_per_day * day_of t + ns_per_day"
    using div_bounds [OF pos, of now] div_bounds [OF pos, of t] by (simp_all add: day_of_def)
  then have "ns_per_day * (day_of now - day_of t) < ns_per_day * (106751 + 1)"
    using assms(2) by (simp add: max_age_def algebra_simps)
  then have "day_of now - day_of t < 106751 + 1" using pos mult_less_cancel_left_pos by blast
  then have "(day_of now - day_of t) * ns_per_day \<le> 106751 * ns_per_day"
    using pos by (intro mult_right_mono) auto
  also have "\<dots> \<le> max_int64" by (simp add: max_int64_def ns_per_day_def ns_per_hour_def ns_per_sec_def)
  finally have le_max: "(day_of now - day_of t) * ns_per_day \<le> max_int64" .
  have "time_Sub (time_midnight now) (time_midnight t) = (day_of now - day_of t) * ns_per_day"
  proof -
    have "0 \<le> (day_of now - day_of t) * ns_per_day" using le pos by simp
    with le_max show ?thesis by (simp add: time_Sub_def time_midnight_def algebra_simps)
  qed
  then show "daysBetween t now = day_of now - day_of t"
    using le pos by (simp add: daysBetween_def go_div_nonneg)
  with le show "0 \<le> daysBetween t now" by simp
qed

lemma week_gap:
  fixes n t :: int
  assumes "7 * a \<le> n \<and> n < 7 * a + 7" "7 * b \<le> t \<and> t < 7 * b + 7"
    "7 * c \<le> n - t \<and> n - t < 7 * c + 7" "c < k"
  shows "a - k \<le> b"
  using assms by linarith

lemma month_index_inj:
  fixes a b m n :: int
  assumes "12 * a + m = 12 * b + n" "1 \<le> m" "m \<le> 12" "1 \<le> n" "n \<le> 12"
  shows "a = b \<and> m = n"
  using assms by presburger

lemma slot_counts:
  assumes "\<forall>t \<in> set ts. t \<le> now \<and> now - t \<le> max_age"
  shows "int (card (dayKey ` {t \<in> set ts. in_days p now t})) \<le> max 0 (KeepDaily p)"
    "int (card (time_ISOWeek ` {t \<in> set ts. in_weeks p now t})) \<le> max 0 (KeepWeekly p + 1)"
    "int (card (monthKey ` {t \<in> set ts. in_months p now t})) \<le> max 0 (KeepMonthly p)"
    "int (card (time_Year ` {t \<in> set ts. in_years p now t})) \<le> max 0 (KeepYearly p)"
proof -
  have days: "daysBetween t now = day_of now - day_of t" "day_of t \<le> day_of now" if "t \<in> set ts" for t
    using that assms daysBetween_exact day_mono by auto
  have "int (card (dayKey ` {t \<in> set ts. in_days p now t})) \<le> max 0 (day_of now - (day_of now - KeepDaily p + 1) + 1)"
    by (rule card_keys [where idx = day_of])
      (use days in \<open>auto simp: in_days_def dayKey_def time_Year_def time_Month_def time_Day_def\<close>)
  then show "int (card (dayKey ` {t \<in> set ts. in_days p now t})) \<le> max 0 (KeepDaily p)" by simp
  have seven: "7 * (x div 7) \<le> x \<and> x < 7 * (x div 7) + 7" for x :: int
    by (rule div_bounds) simp
  have week: "day_of now div 7 - KeepWeekly p \<le> day_of t div 7" "day_of t div 7 \<le> day_of now div 7"
    if "t \<in> set ts" "in_weeks p now t" for t
  proof -
    have "(day_of now - day_of t) div 7 < KeepWeekly p"
      using that days [OF that(1)] by (simp add: in_weeks_def weeksBetween_def go_div_nonneg)
    then show "day_of now div 7 - KeepWeekly p \<le> day_of t div 7"
      by (rule week_gap [OF seven seven seven])
    show "day_of t div 7 \<le> day_of now div 7" using days(2) [OF that(1)] by (simp add: zdiv_mono1)
  qed
  have "int (card (time_ISOWeek ` {t \<in> set ts. in_weeks p now t}))
      \<le> max 0 (day_of now div 7 - (day_of now div 7 - KeepWeekly p) + 1)"
  proof (rule card_keys [where idx = "\<lambda>t. day_of t div 7"])
    show "day_of t div 7 \<in> {day_of now div 7 - KeepWeekly p..day_of now div 7}"
      if "t \<in> {t \<in> set ts. in_weeks p now t}" for t
      using that week [of t] by (simp only: mem_Collect_eq atLeastAtMost_iff simp_thms)
  qed (rule ISOWeek_of_week)
  then show "int (card (time_ISOWeek ` {t \<in> set ts. in_weeks p now t})) \<le> max 0 (KeepWeekly p + 1)" by simp
  let ?m = "\<lambda>t. 12 * time_Year t + time_Month t"
  have "int (card (monthKey ` {t \<in> set ts. in_months p now t})) \<le> max 0 (?m now - (?m now - KeepMonthly p + 1) + 1)"
  proof (rule card_keys [where idx = ?m])
    show "?m t \<in> {?m now - KeepMonthly p + 1..?m now}" if "t \<in> {t \<in> set ts. in_months p now t}" for t
      using that month_index_mono [of "day_of t" "day_of now"] days(2) [of t]
      by (auto simp: in_months_def monthsBetween_def time_Year_def time_Month_def)
    show "monthKey t = monthKey u" if "?m t = ?m u" for t u
      using month_index_inj [of "time_Year t" "time_Month t" "time_Year u" "time_Month u"] that
        month_range [of "day_of t"] month_range [of "day_of u"]
      by (simp add: monthKey_def time_Month_def)
  qed
  then show "int (card (monthKey ` {t \<in> set ts. in_months p now t})) \<le> max 0 (KeepMonthly p)" by simp
  have "int (card (time_Year ` {t \<in> set ts. in_years p now t}))
      \<le> max 0 (time_Year now - (time_Year now - KeepYearly p + 1) + 1)"
    by (rule card_keys [where idx = time_Year])
      (use days(2) year_mono in \<open>auto simp: in_years_def time_Year_def\<close>)
  then show "int (card (time_Year ` {t \<in> set ts. in_years p now t})) \<le> max 0 (KeepYearly p)" by simp
qed

section \<open>Properties\<close>


lemma kept_nth:
  "i < length snaps \<Longrightarrow> keep_rule (normalize_policy policy) now (map si_CreatedAt snaps) i \<Longrightarrow>
   si_ID (snaps ! i) \<in> set (SelectSmartKeepIDs snaps policy now)"
  unfolding SelectSmartKeepIDs_rule by blast

definition newest_first :: "SnapshotInfo list \<Rightarrow> bool" where
  "newest_first snaps = sorted_wrt (\<lambda>a b. si_CreatedAt b \<le> si_CreatedAt a) snaps"

lemma slot_representative:
  assumes "newest_first snaps" "i < length snaps" "win (si_CreatedAt (snaps ! i))"
    "\<And>j. first_in_slot win key (map si_CreatedAt snaps) j \<Longrightarrow> keep_rule (normalize_policy policy) now (map si_CreatedAt snaps) j"
  shows "\<exists>sn \<in> set snaps. si_ID sn \<in> set (SelectSmartKeepIDs snaps policy now)
    \<and> key (si_CreatedAt sn) = key (si_CreatedAt (snaps ! i)) \<and> si_CreatedAt (snaps ! i) \<le> si_CreatedAt sn"
proof -
  obtain j where j: "j \<le> i" "first_in_slot win key (map si_CreatedAt snaps) j"
    "key (si_CreatedAt (snaps ! j)) = key (si_CreatedAt (snaps ! i))"
    using first_in_slot_exists [of i "map si_CreatedAt snaps" win key] assms(2,3) by auto
  have "si_CreatedAt (snaps ! i) \<le> si_CreatedAt (snaps ! j)"
    using assms(1,2) j(1) by (cases "i = j") (auto simp: newest_first_def sorted_wrt_iff_nth_less)
  moreover have "si_ID (snaps ! j) \<in> set (SelectSmartKeepIDs snaps policy now)"
    using kept_nth assms(2,4) j by simp
  ultimately show ?thesis using assms(2) j by (meson le_less_trans nth_mem)
qed

text \<open>
  No covered slot is lost. With an enabled policy and snapshots listed newest first, for every
  snapshot whose day lies in the daily window some snapshot of the same day that is at least as new
  is kept; likewise for its ISO week, its month and its year.
\<close>

theorem retention_covers_slots:
  assumes "newest_first snaps" "Enabled policy" "sn \<in> set snaps"
  shows "(in_days (normalize_policy policy) now (si_CreatedAt sn) \<longrightarrow>
      (\<exists>k \<in> set snaps. si_ID k \<in> set (SelectSmartKeepIDs snaps policy now)
        \<and> dayKey (si_CreatedAt k) = dayKey (si_CreatedAt sn) \<and> si_CreatedAt sn \<le> si_CreatedAt k))
    \<and> (in_weeks (normalize_policy policy) now (si_CreatedAt sn) \<longrightarrow>
      (\<exists>k \<in> set snaps. si_ID k \<in> set (SelectSmartKeepIDs snaps policy now)
        \<and> time_ISOWeek (si_CreatedAt k) = time_ISOWeek (si_CreatedAt sn) \<and> si_CreatedAt sn \<le> si_CreatedAt k))
    \<and> (in_months (normalize_policy policy) now (si_CreatedAt sn) \<longrightarrow>
      (\<exists>k \<in> set snaps. si_ID k \<in> set (SelectSmartKeepIDs snaps policy now)
        \<and> monthKey (si_CreatedAt k) = monthKey (si_CreatedAt sn) \<and> si_CreatedAt sn \<le> si_CreatedAt k))
    \<and> (in_years (normalize_policy policy) now (si_CreatedAt sn) \<longrightarrow>
      (\<exists>k \<in> set snaps. si_ID k \<in> set (SelectSmartKeepIDs snaps policy now)
        \<and> time_Year (si_CreatedAt k) = time_Year (si_CreatedAt sn) \<and> si_CreatedAt sn \<le> si_CreatedAt k))"
proof -
  obtain i where i: "i < length snaps" "snaps ! i = sn" using assms(3) by (auto simp: in_set_conv_nth)
  have "Enabled (normalize_policy policy)" using assms(2) by (simp add: normalize_policy_def)
  then have rule: "keep_rule (normalize_policy policy) now ts j" if "slot_rule (normalize_policy policy) now ts j" for ts j
    using that by (simp add: keep_rule_def)
  note rep = slot_representative [OF assms(1) i(1), unfolded i(2), OF _ rule]
  show ?thesis
    by (intro conjI impI; erule rep; simp add: slot_rule_def)
qed

lemma normalize_Enabled [simp]: "Enabled (normalize_policy p) = Enabled p"
  by (simp add: normalize_policy_def)

text \<open>The kept positions, rule by rule.\<close>

lemma keep_rule_positions:
  "{i. i < n \<and> keep_rule p now ts i} \<subseteq> {i. i < n \<and> int i < KeepMin p}
     \<union> {i. i < n \<and> hourCutoff p now \<le> ts ! i}
     \<union> {i. i < n \<and> first_in_slot (in_days p now) dayKey ts i}
     \<union> {i. i < n \<and> first_in_slot (in_weeks p now) time_ISOWeek ts i}
     \<union> {i. i < n \<and> first_in_slot (in_months p now) monthKey ts i}
     \<union> {i. i < n \<and> first_in_slot (in_years p now) time_Year ts i}"
  by (auto simp: keep_rule_def slot_rule_def)

lemma card_Un6:
  assumes "A \<subseteq> B \<union> C \<union> D \<union> E \<union> F \<union> G" "finite B" "finite C" "finite D" "finite E" "finite F" "finite G"
  shows "card A \<le> card B + card C + card D + card E + card F + card G"
proof -
  have "card A \<le> card (B \<union> C \<union> D \<union> E \<union> F \<union> G)" using assms by (intro card_mono) auto
  also have "\<dots> \<le> card B + card C + card D + card E + card F + card G"
    by (intro order_trans [OF card_Un_le] add_mono order_refl)
  finally show ?thesis .
qed

text \<open>
  Retention bounds the store. When every snapshot was created before \<open>now\<close> and is at most about
  292 years old, an enabled policy keeps at most \<open>KeepMin\<close> snapshots, those in the hour window, and
  \<open>KeepDaily + (KeepWeekly + 1) + KeepMonthly + KeepYearly\<close> others. (A window of \<open>KeepWeekly\<close> times
  seven days can touch one ISO week more.)
\<close>

theorem retention_bounded:
  assumes "\<forall>sn \<in> set snaps. si_CreatedAt sn \<le> now \<and> now - si_CreatedAt sn \<le> max_age"
  shows "let p = normalize_policy policy
    in int (card (set (SelectSmartKeepIDs snaps policy now)))
       \<le> KeepMin p + int (length (filter (\<lambda>sn. hourCutoff p now \<le> si_CreatedAt sn) snaps))
          + KeepDaily p + (KeepWeekly p + 1) + KeepMonthly p + KeepYearly p"
proof -
  define p where "p = normalize_policy policy"
  define ts where "ts = map si_CreatedAt snaps"
  note nb = normalize_bounds [of policy, folded p_def]
  let ?K = "{i. i < length ts \<and> keep_rule p now ts i}"
  have "set (SelectSmartKeepIDs snaps policy now) = (\<lambda>i. si_ID (snaps ! i)) ` ?K"
    by (auto simp: SelectSmartKeepIDs_rule ts_def p_def)
  then have "card (set (SelectSmartKeepIDs snaps policy now)) \<le> card ?K"
    by (simp add: card_image_le)
  also have "\<dots> \<le> card {i. i < length ts \<and> int i < KeepMin p}
      + card {i. i < length ts \<and> hourCutoff p now \<le> ts ! i}
      + card {i. i < length ts \<and> first_in_slot (in_days p now) dayKey ts i}
      + card {i. i < length ts \<and> first_in_slot (in_weeks p now) time_ISOWeek ts i}
      + card {i. i < length ts \<and> first_in_slot (in_months p now) monthKey ts i}
      + card {i. i < length ts \<and> first_in_slot (in_years p now) time_Year ts i}"
    by (rule card_Un6 [OF keep_rule_positions]) simp_all
  finally have le: "int (card (set (SelectSmartKeepIDs snaps policy now))) \<le> int (\<dots>)" by linarith
  have "card {i. i < length ts \<and> int i < KeepMin p} \<le> card {..<nat (KeepMin p)}"
    by (intro card_mono) auto
  then have min: "int (card {i. i < length ts \<and> int i < KeepMin p}) \<le> KeepMin p" using nb by simp
  have window: "card {i. i < length ts \<and> hourCutoff p now \<le> ts ! i} =
      length (filter (\<lambda>sn. hourCutoff p now \<le> si_CreatedAt sn) snaps)"
    by (simp add: ts_def length_filter_conv_card)
      (rule arg_cong [where f = card], auto)
  have old: "\<forall>t \<in> set ts. t \<le> now \<and> now - t \<le> max_age" using assms by (auto simp: ts_def)
  note counts = slot_counts [OF old, of p]
  show ?thesis
    using le min window counts nb
      first_in_slot_card(2) [of ts "in_days p now" dayKey] first_in_slot_card(2) [of ts "in_weeks p now" time_ISOWeek]
      first_in_slot_card(2) [of ts "in_months p now" monthKey] first_in_slot_card(2) [of ts "in_years p now" time_Year]
    by (simp add: Let_def p_def [symmetric])
qed

text \<open>An element that a filter keeps: its new position, and what stands before it.\<close>

lemma filter_position:
  assumes "i < length xs" "P (xs ! i)"
  defines "k \<equiv> length (filter P (take i xs))"
  shows "k < length (filter P xs)" "k \<le> i" "filter P xs ! k = xs ! i"
    "\<And>j. j < k \<Longrightarrow> \<exists>m < i. filter P xs ! j = xs ! m"
proof -
  have split: "filter P xs = filter P (take i xs) @ xs ! i # filter P (drop (Suc i) xs)"
    using assms(1,2) id_take_nth_drop [OF assms(1)] by (metis filter.simps(2) filter_append)
  show "k < length (filter P xs)" "filter P xs ! k = xs ! i"
    unfolding split k_def by simp_all
  show "k \<le> i" unfolding k_def by (rule order_trans [OF length_filter_le]) simp
  show "\<exists>m < i. filter P xs ! j = xs ! m" if "j < k" for j
  proof -
    have "filter P xs ! j \<in> set (take i xs)"
    proof -
      have "filter P xs ! j = filter P (take i xs) ! j" using that unfolding split k_def by (simp add: nth_append)
      moreover have "filter P (take i xs) ! j \<in> set (filter P (take i xs))" using that unfolding k_def by (rule nth_mem)
      ultimately show ?thesis by simp
    qed
    then show ?thesis using assms(1) by (auto simp: in_set_conv_nth)
  qed
qed

lemma first_in_slot_filter:
  assumes "i < length xs" "P (xs ! i)" "first_in_slot win key (map f xs) i"
  shows "first_in_slot win key (map f (filter P xs)) (length (filter P (take i xs)))"
proof -
  note pos = filter_position [of i xs P, OF assms(1,2)]
  have "key (f (filter P xs ! j)) \<noteq> key (f (xs ! i))"
    if "j < length (filter P (take i xs))" "win (f (filter P xs ! j))" for j
    using pos(4) [OF that(1)] that(2) assms(1,3) by (auto simp: first_in_slot_def)
  then show ?thesis
    using pos(1,3) assms(1,3) by (auto simp: first_in_slot_def)
qed

lemma slot_rule_filter:
  assumes "i < length xs" "P (xs ! i)" "slot_rule p now (map f xs) i"
  shows "slot_rule p now (map f (filter P xs)) (length (filter P (take i xs)))"
  using assms by (auto simp: slot_rule_def first_in_slot_filter)

lemma kept_listed: "set (SelectSmartKeepIDs xs policy now) \<subseteq> si_ID ` set xs"
  unfolding SelectSmartKeepIDs_rule using nth_mem by fastforce

text \<open>
  Retention is stable. Running the selection again, at the same time, on the snapshots it kept
  removes nothing.
\<close>

theorem retention_stable:
  "set (SelectSmartKeepIDs (filter (\<lambda>sn. si_ID sn \<in> set (SelectSmartKeepIDs snaps policy now)) snaps) policy now) =
   set (SelectSmartKeepIDs snaps policy now)"
proof -
  let ?K = "SelectSmartKeepIDs snaps policy now"
  let ?P = "\<lambda>sn. si_ID sn \<in> set ?K"
  let ?p = "normalize_policy policy" and ?f = "filter ?P snaps"
  have "x \<in> set (SelectSmartKeepIDs ?f policy now)" if "x \<in> set ?K" for x
  proof -
    obtain i where i: "i < length snaps" "x = si_ID (snaps ! i)" "keep_rule ?p now (map si_CreatedAt snaps) i"
      using \<open>x \<in> set ?K\<close> unfolding SelectSmartKeepIDs_rule by blast
    have P: "?P (snaps ! i)" using that i(2) by simp
    let ?k = "length (filter ?P (take i snaps))"
    note pos = filter_position [of i snaps ?P, OF i(1) P]
    have "slot_rule ?p now (map si_CreatedAt ?f) ?k" if "slot_rule ?p now (map si_CreatedAt snaps) i"
      by (rule slot_rule_filter [of i snaps ?P]) (use i(1) P that in simp_all)
    then have "keep_rule ?p now (map si_CreatedAt ?f) ?k"
      using i pos by (auto simp: keep_rule_def)
    then show ?thesis using kept_nth [of ?k ?f policy now] pos(1,3) i(2) by simp
  qed
  moreover have "set (SelectSmartKeepIDs ?f policy now) \<subseteq> si_ID ` set ?f"
    by (rule kept_listed)
  ultimately show ?thesis by auto
qed

text \<open>
  The hour window. With a window of at most 2562047 hours, every snapshot of the last
  \<open>KeepHours\<close> hours is kept by an enabled policy; with 2562048 hours the 64-bit product overflows,
  and the cutoff lies after \<open>now\<close>, so the window covers no past snapshot at all.
\<close>

theorem retention_hour_window:
  "(0 \<le> KeepHours policy \<and> KeepHours policy \<le> 2562047 \<and> Enabled policy \<and> sn \<in> set snaps
      \<and> now - KeepHours policy * ns_per_hour \<le> si_CreatedAt sn
    \<longrightarrow> si_ID sn \<in> set (SelectSmartKeepIDs snaps policy now))
   \<and> now < hourCutoff (policy\<lparr>KeepHours := 2562048\<rparr>) now"
proof (intro conjI impI)
  show "now < hourCutoff (policy\<lparr>KeepHours := 2562048\<rparr>) now"
    by (simp add: hourCutoff_def wrap64_def ns_per_hour_def ns_per_sec_def)
  assume h: "0 \<le> KeepHours policy \<and> KeepHours policy \<le> 2562047 \<and> Enabled policy \<and> sn \<in> set snaps
      \<and> now - KeepHours policy * ns_per_hour \<le> si_CreatedAt sn"
  then obtain i where i: "i < length snaps" "snaps ! i = sn" by (auto simp: in_set_conv_nth)
  have "hourCutoff (normalize_policy policy) now = now - KeepHours policy * ns_per_hour"
    using h by (simp add: hourCutoff_def normalize_policy_def wrap64_def ns_per_hour_def ns_per_sec_def)
  with h i have "keep_rule (normalize_policy policy) now (map si_CreatedAt snaps) i"
    by (simp add: keep_rule_def)
  from kept_nth [OF i(1) this] i(2) show "si_ID sn \<in> set (SelectSmartKeepIDs snaps policy now)" by simp
qed

section \<open>Witnesses\<close>

text \<open>Three snapshots of two days in March 2024, and a time on the second day.\<close>

definition demo_snap :: "string \<Rightarrow> int \<Rightarrow> SnapshotInfo" where
  "demo_snap i t =
     \<lparr>si_ID = i, si_CreatedAt = t, si_Source = ''exchange'', si_Service = ''exchange'', si_Bytes = 0,
      si_BytesHuman = ''0 B'', si_Files = 0\<rparr>"

definition demo_snaps :: "SnapshotInfo list" where
  "demo_snaps =
     [demo_snap ''c'' (738950 * ns_per_day + 3 * ns_per_hour),
      demo_snap ''b'' (738949 * ns_per_day + 20 * ns_per_hour),
      demo_snap ''a'' (738949 * ns_per_day + 2 * ns_per_hour)]"

definition demo_now :: gotime where
  "demo_now = 738950 * ns_per_day + 4 * ns_per_hour"

lemmas demo_defs = demo_snaps_def demo_snap_def demo_now_def

lemmas ns_defs = ns_per_day_def ns_per_hour_def ns_per_sec_def

theorem retention_covers_slots_witness:
  "\<exists>k \<in> set demo_snaps. si_ID k \<in> set (SelectSmartKeepIDs demo_snaps DefaultRetention demo_now)
     \<and> dayKey (si_CreatedAt k) = dayKey (si_CreatedAt (demo_snaps ! 2))
     \<and> si_CreatedAt (demo_snaps ! 2) \<le> si_CreatedAt k"
proof -
  have "newest_first demo_snaps" by (simp add: newest_first_def demo_defs ns_defs)
  moreover have "Enabled DefaultRetention" by (simp add: DefaultRetention_def)
  moreover have "demo_snaps ! 2 \<in> set demo_snaps" by (simp add: demo_snaps_def)
  moreover have "in_days (normalize_policy DefaultRetention) demo_now (si_CreatedAt (demo_snaps ! 2))" by code_simp
  ultimately show ?thesis using retention_covers_slots [of demo_snaps DefaultRetention "demo_snaps ! 2" demo_now] by blast
qed

theorem retention_bounded_witness:
  "card (set (SelectSmartKeepIDs demo_snaps DefaultRetention demo_now)) \<le> 25"
proof -
  have "\<forall>sn \<in> set demo_snaps. si_CreatedAt sn \<le> demo_now \<and> demo_now - si_CreatedAt sn \<le> max_age"
    by (simp add: demo_defs ns_defs max_age_def)
  moreover have "length (filter (\<lambda>sn. hourCutoff (normalize_policy DefaultRetention) demo_now \<le> si_CreatedAt sn) demo_snaps) = 2"
    by code_simp
  ultimately show ?thesis
    using retention_bounded [of demo_snaps demo_now DefaultRetention]
    by (simp add: normalize_policy_def DefaultRetention_def Let_def)
qed

theorem retention_hour_window_witness:
  "''b'' \<in> set (SelectSmartKeepIDs demo_snaps DefaultRetention demo_now)"
  using retention_hour_window [of DefaultRetention "demo_snaps ! 1" demo_snaps demo_now]
  by (simp add: DefaultRetention_def demo_defs ns_defs)

end
