(* ===== verification/Catalog.thy ===== *)
theory Catalog
  imports Database Blob_Store Retention
begin

text \<open>
  The item catalog (\<open>internal/catalog/store.go\<close>, \<open>types.go\<close>, \<open>crypto.go\<close>): one \<open>Store\<close> per tenant and
  job on top of the database and the blob store, with the in-memory set of pending changes and of
  items seen by a reconciliation.

  The immutable fields of a \<open>Store\<close> are the record of that name, an argument of every operation; the
  two maps of the object, \<open>pending\<close> and \<open>seen\<close>, are fields of the world, as association lists. Go
  ranges over \<open>pending\<close> in an unspecified order; the model uses the order of insertion, and no
  theorem depends on it. Progress reports to the caller are left out.

  The manifest of a generation is a JSON text in a zstd frame. The package for zstd is not part of
  the program, so the two directions of that encoding are a parameter (\<open>codec\<close>) of the operations
  that write and read a manifest, and what the program relies on, that decoding inverts encoding, is
  the named hypothesis \<open>codec_ok\<close>.
\<close>

section \<open>State\<close>

abbreviation OpUpsert :: string where
  "OpUpsert \<equiv> ''upsert''"

abbreviation OpDelete :: string where
  "OpDelete \<equiv> ''delete''"

definition ImportEMLPrefix :: string where
  "ImportEMLPrefix = ''eml:''"

definition ImportPathPrefix :: string where
  "ImportPathPrefix = ''path:''"

record pendingChange =
  pc_Op :: string
  pc_Item :: Item

record Store =
  TenantID :: string
  Root :: string
  Password :: string
  SkipRematch :: bool
  TrackChanges :: bool

record cat_world = db_world +
  pending :: "(string \<times> pendingChange) list"
  seen :: "(string \<times> string list) list"

record ManifestEntry =
  me_Path :: string
  me_Hash :: string
  me_Size :: int

record Manifest =
  m_Service :: string
  m_Generation :: int
  m_CreatedAt :: gotime
  m_Items :: "ManifestEntry list"

record codec =
  man_enc :: "Manifest \<Rightarrow> string"
  man_dec :: "string \<Rightarrow> Manifest result"

definition codec_ok :: "codec \<Rightarrow> bool" where
  "codec_ok c = (\<forall>m. man_dec c (man_enc c m) = Inr m)"

definition Blobs :: "Store \<Rightarrow> BlobStore" where
  "Blobs s = \<lparr>bs_root = Root s, bs_key = sha256_Sum256 (Password s)\<rparr>"

text \<open>An item as Go's composite literal leaves it.\<close>

definition zero_item :: Item where
  "zero_item =
     \<lparr>it_Service = [], it_GraphItemID = [], it_Mailbox = [], it_ParentPath = [], it_Name = [],
      it_BlobHash = [], it_Size = 0, it_MTime = zero_time, it_ContentType = [], it_Subject = [],
      it_FromAddr = [], it_Deleted = False\<rparr>"

definition RelPath :: "Item \<Rightarrow> string" where
  "RelPath it =
     path_Join
       ((if it_Mailbox it \<noteq> [] then [it_Mailbox it] else [])
        @ (if it_ParentPath it \<noteq> [] then strings_Split slash (strings_Trim (it_ParentPath it) slash) else [])
        @ (if it_Name it \<noteq> [] then [it_Name it] else []))"

section \<open>Opening\<close>

definition catalog_Open :: "string \<Rightarrow> string \<Rightarrow> string \<Rightarrow> ('w cat_world_scheme, Store) io" where
  "catalog_Open tenantID root password =
     bindE (from_result (GuardPath root)) (\<lambda>_.
     bindE (os_MkdirAll (path_Join [root, ''blobs''])) (\<lambda>_.
     bindE (os_MkdirAll (path_Join [root, ''manifests''])) (\<lambda>_.
     bindE (os_MkdirAll (path_Join [root, ''exports''])) (\<lambda>_.
     bindE (blobstore_New root password) (\<lambda>_.
     bindE (modify (\<lambda>w. w\<lparr>pending := [], seen := []\<rparr>)) (\<lambda>_.
       ret \<lparr>TenantID = tenantID, Root = root, Password = password, SkipRematch = False, TrackChanges = True\<rparr>))))))"

section \<open>Pending changes and reconciliation marks\<close>

definition pendingKey :: "string \<Rightarrow> string \<Rightarrow> string" where
  "pendingKey service graphID = service @ [CHR 0x00] @ graphID"

definition notePending :: "Store \<Rightarrow> string \<Rightarrow> Item \<Rightarrow> ('w cat_world_scheme, unit) io" where
  "notePending s op it =
     (if \<not> TrackChanges s then ret ()
      else modify (\<lambda>w.
        w\<lparr>pending := AList.update (pendingKey (it_Service it) (it_GraphItemID it)) \<lparr>pc_Op = op, pc_Item = it\<rparr> (pending w),
          seen := (case map_of (seen w) (it_Service it) of
                     Some ids \<Rightarrow> (if op = OpUpsert then AList.update (it_Service it) (it_GraphItemID it # ids) (seen w)
                                  else seen w)
                   | None \<Rightarrow> seen w)\<rparr>))"

definition StartReconcile :: "string \<Rightarrow> ('w cat_world_scheme, unit) io" where
  "StartReconcile service = modify (\<lambda>w. w\<lparr>seen := AList.update service [] (seen w)\<rparr>)"

definition MarkSeen :: "string \<Rightarrow> string \<Rightarrow> ('w cat_world_scheme, unit) io" where
  "MarkSeen service graphID =
     modify (\<lambda>w. w\<lparr>seen := AList.update service
       (graphID # (case map_of (seen w) service of None \<Rightarrow> [] | Some ids \<Rightarrow> ids)) (seen w)\<rparr>)"

section \<open>Rows\<close>

text \<open>
  The row of an item: tenant, service and Graph id. (On MySQL the id is compared by its SHA-256,
  on SQLite directly.)
\<close>

definition row_is :: "Store \<Rightarrow> string \<Rightarrow> string \<Rightarrow> item_row \<Rightarrow> bool" where
  "row_is s service graphID r =
     (ir_tenant r = TenantID s \<and> it_Service (ir_item r) = service \<and> it_GraphItemID (ir_item r) = graphID)"

definition live_row :: "Store \<Rightarrow> string \<Rightarrow> item_row \<Rightarrow> bool" where
  "live_row s service r =
     (ir_tenant r = TenantID s \<and> it_Service (ir_item r) = service \<and> \<not> it_Deleted (ir_item r))"

definition getItem :: "Store \<Rightarrow> string \<Rightarrow> string \<Rightarrow> ('w cat_world_scheme, Item) io" where
  "getItem s service graphID = query_row (\<lambda>w. map ir_item (filter (row_is s service graphID) (catalog_items w)))"

definition upsert_rows :: "Store \<Rightarrow> Item \<Rightarrow> item_row list \<Rightarrow> item_row list" where
  "upsert_rows s it rows =
     (let new = \<lparr>ir_tenant = TenantID s, ir_item = it\<lparr>it_Deleted := False\<rparr>\<rparr>;
          same = row_is s (it_Service it) (it_GraphItemID it)
      in if list_ex same rows then map (\<lambda>r. if same r then new else r) rows else rows @ [new])"

definition upsertItem :: "Store \<Rightarrow> Item \<Rightarrow> ('w cat_world_scheme, unit) io" where
  "upsertItem s it =
     bindE uuid_NewString (\<lambda>_. exec (\<lambda>w. w\<lparr>catalog_items := upsert_rows s it (catalog_items w)\<rparr>))"

definition markDeleted :: "Store \<Rightarrow> string \<Rightarrow> string \<Rightarrow> ('w cat_world_scheme, unit) io" where
  "markDeleted s service graphID =
     exec (\<lambda>w. w\<lparr>catalog_items := map (\<lambda>r. if row_is s service graphID r
       then r\<lparr>ir_item := (ir_item r)\<lparr>it_Deleted := True\<rparr>\<rparr> else r) (catalog_items w)\<rparr>)"

section \<open>Matching imported items\<close>

definition shortID :: "string \<Rightarrow> string" where
  "shortID mid = take 10 (hex_EncodeToString (sha256_Sum256 mid))"

definition importAliases :: "string \<Rightarrow> string \<Rightarrow> string \<Rightarrow> string \<Rightarrow> string \<Rightarrow> string list" where
  "importAliases service graphID mailbox parent name =
     (if strings_HasPrefix graphID ImportEMLPrefix \<or> strings_HasPrefix graphID ImportPathPrefix then []
      else
        (let rel = strings_Trim (parent @ ''/'' @ name) slash
         in (if service = ''exchange'' then [ImportEMLPrefix @ shortID graphID] else [])
            @ (if mailbox \<noteq> [] \<and> rel \<noteq> [] then [ImportPathPrefix @ mailbox @ ''/'' @ rel]
               else if mailbox \<noteq> [] \<and> name \<noteq> [] then [ImportPathPrefix @ mailbox @ ''/'' @ name]
               else [])))"

text \<open>\<open>UPDATE catalog_items SET graph_item_id=? WHERE ...\<close>: fails when the new id already has a row.\<close>

definition rename_row :: "Store \<Rightarrow> string \<Rightarrow> string \<Rightarrow> string \<Rightarrow> ('w cat_world_scheme, unit) io" where
  "rename_row s service alt graphID =
     sql_guarded
       (\<lambda>w. list_ex (row_is s service alt) (catalog_items w) \<and> alt \<noteq> graphID
             \<and> list_ex (row_is s service graphID) (catalog_items w)) ''catalog_items''
       (\<lambda>w. w\<lparr>catalog_items := map (\<lambda>r. if row_is s service alt r
          then r\<lparr>ir_item := (ir_item r)\<lparr>it_GraphItemID := graphID\<rparr>\<rparr> else r) (catalog_items w)\<rparr>)"

fun rematch_loop :: "Store \<Rightarrow> Item \<Rightarrow> string list \<Rightarrow> ('w cat_world_scheme, Item) io" where
  "rematch_loop s it [] = ret it"
| "rematch_loop s it (alt # alts) =
     attempt (getItem s (it_Service it) alt) (\<lambda>r. case r of
       Inl e \<Rightarrow> (if e = ErrNoRows then rematch_loop s it alts else throw e)
     | Inr old \<Rightarrow>
         (let it' = it\<lparr>it_Mailbox := (if it_Mailbox it = [] then it_Mailbox old else it_Mailbox it),
                       it_ParentPath := (if it_ParentPath it = [] then it_ParentPath old else it_ParentPath it),
                       it_Name := (if it_Name it = [] then it_Name old else it_Name it)\<rparr>
          in attempt (rename_row s (it_Service it) alt (it_GraphItemID it)) (\<lambda>u. case u of
               Inr _ \<Rightarrow> ret it'
             | Inl e \<Rightarrow>
                 (if IsUniqueViolation e then
                    bindE (ignore (exec (\<lambda>w. w\<lparr>catalog_items :=
                      filter (\<lambda>r. \<not> row_is s (it_Service it) alt r) (catalog_items w)\<rparr>))) (\<lambda>_. ret it')
                  else throw e))))"

definition rematchID :: "Store \<Rightarrow> Item \<Rightarrow> ('w cat_world_scheme, Item) io" where
  "rematchID s it =
     (if SkipRematch s then ret it
      else attempt (getItem s (it_Service it) (it_GraphItemID it)) (\<lambda>r. case r of
        Inr _ \<Rightarrow> ret it
      | Inl e \<Rightarrow>
          (if e \<noteq> ErrNoRows then throw e
           else rematch_loop s it
                  (importAliases (it_Service it) (it_GraphItemID it) (it_Mailbox it) (it_ParentPath it) (it_Name it)))))"

section \<open>Items\<close>

definition Put :: "Store \<Rightarrow> Item \<Rightarrow> string \<Rightarrow> ('w cat_world_scheme, unit) io" where
  "Put s it data =
     (if it_Service it = [] \<or> it_GraphItemID it = []
      then throw (Err ''catalog put: service and graph_item_id required'')
      else
        bindE (blob_Put (Blobs s) data) (\<lambda>h.
        bindE time_Now (\<lambda>now.
          (let it1 = it\<lparr>it_BlobHash := h, it_Size := int (length data), it_Deleted := False,
                        it_MTime := (if it_MTime it = zero_time then now else it_MTime it)\<rparr>
           in bindE (rematchID s it1) (\<lambda>it2.
              bindE (upsertItem s it2) (\<lambda>_.
                notePending s OpUpsert it2))))))"

definition LiveBlob :: "Store \<Rightarrow> string \<Rightarrow> string \<Rightarrow> ('w cat_world_scheme, Item option) io" where
  "LiveBlob s service graphID =
     attempt (getItem s service graphID) (\<lambda>r. case r of
       Inl e \<Rightarrow> (if e = ErrNoRows then ret None else throw e)
     | Inr it \<Rightarrow> (if it_Deleted it \<or> it_BlobHash it = [] then ret None else ret (Some it)))"

definition Keep :: "Store \<Rightarrow> Item \<Rightarrow> ('w cat_world_scheme, unit) io" where
  "Keep s it =
     (if it_Service it = [] \<or> it_GraphItemID it = [] \<or> it_BlobHash it = []
      then throw (Err ''catalog keep: service, graph_item_id, blob_hash required'')
      else (let it1 = it\<lparr>it_Deleted := False\<rparr>
            in bindE (upsertItem s it1) (\<lambda>_. notePending s OpUpsert it1)))"

definition Delete :: "Store \<Rightarrow> string \<Rightarrow> string \<Rightarrow> ('w cat_world_scheme, unit) io" where
  "Delete s service graphItemID =
     (if service = [] \<or> graphItemID = []
      then throw (Err ''catalog delete: service and graph_item_id required'')
      else
        bindE (rematchID s (zero_item\<lparr>it_Service := service, it_GraphItemID := graphItemID, it_Deleted := True\<rparr>)) (\<lambda>it.
        attempt (getItem s service (it_GraphItemID it)) (\<lambda>r.
          if (case r of Inl e \<Rightarrow> e \<noteq> ErrNoRows | Inr _ \<Rightarrow> False)
          then throw (case r of Inl e \<Rightarrow> e | Inr _ \<Rightarrow> ErrNoRows)
          else
            (let it1 = (case r of Inr existing \<Rightarrow> existing\<lparr>it_Deleted := True\<rparr> | Inl _ \<Rightarrow> it)
             in bindE (markDeleted s service (it_GraphItemID it1)) (\<lambda>_.
                  notePending s OpDelete it1)))))"

definition under_prefix :: "string \<Rightarrow> string \<Rightarrow> Item \<Rightarrow> bool" where
  "under_prefix mailbox rel it =
     (let p = RelPath it
      in rel = [] \<or> p = mailbox @ ''/'' @ rel \<or> strings_HasPrefix p (mailbox @ ''/'' @ rel @ ''/''))"

definition DeletePrefix :: "Store \<Rightarrow> string \<Rightarrow> string \<Rightarrow> string \<Rightarrow> ('w cat_world_scheme, unit) io" where
  "DeletePrefix s service mailbox rel =
     (let rel' = strings_Trim rel slash
      in bindE (query (\<lambda>w. map ir_item (filter (\<lambda>r. live_row s service r \<and> it_Mailbox (ir_item r) = mailbox) (catalog_items w)))) (\<lambda>items.
           for_each (filter (under_prefix mailbox rel') items) (\<lambda>it. Delete s service (it_GraphItemID it))))"

definition FinishReconcile :: "Store \<Rightarrow> string \<Rightarrow> ('w cat_world_scheme, nat) io" where
  "FinishReconcile s service =
     bindE (gets (\<lambda>w. map_of (seen w) service)) (\<lambda>sn. case sn of
       None \<Rightarrow> ret 0
     | Some ids \<Rightarrow>
         bindE (query (\<lambda>w. map (\<lambda>r. it_GraphItemID (ir_item r)) (filter (live_row s service) (catalog_items w)))) (\<lambda>live.
           (let gone = filter (\<lambda>i. i \<notin> set ids) live
            in bindE (for_each gone (Delete s service)) (\<lambda>_. ret (length gone)))))"

section \<open>Snapshots\<close>

text \<open>One more than the largest generation (\<open>MAX\<close> of no row is NULL).\<close>

definition gen_after :: "int list \<Rightarrow> int" where
  "gen_after gs = (if gs = [] then 1 else Max (set gs) + 1)"

definition nextGeneration :: "Store \<Rightarrow> string \<Rightarrow> ('w cat_world_scheme, int) io" where
  "nextGeneration s service =
     query (\<lambda>w. gen_after (map sn_Generation
       (filter (\<lambda>x. sn_TenantID x = TenantID s \<and> sn_Service x = service) (catalog_snapshots w))))"

definition liveStats :: "Store \<Rightarrow> string \<Rightarrow> ('w cat_world_scheme, int \<times> int) io" where
  "liveStats s service =
     query (\<lambda>w. let rows = filter (live_row s service) (catalog_items w)
                in (int (length rows), sum_list (map (\<lambda>r. it_Size (ir_item r)) rows)))"

definition latestSnapshot :: "Store \<Rightarrow> string \<Rightarrow> ('w cat_world_scheme, Snapshot option) io" where
  "latestSnapshot s service =
     query (\<lambda>w. case sort_key (\<lambda>x. - sn_Generation x)
                  (filter (\<lambda>x. sn_TenantID x = TenantID s \<and> sn_Service x = service) (catalog_snapshots w)) of
                  [] \<Rightarrow> None | x # _ \<Rightarrow> Some x)"

definition insertChangeExec :: "Store \<Rightarrow> int \<Rightarrow> pendingChange \<Rightarrow> ('w cat_world_scheme, unit) io" where
  "insertChangeExec s gen ch =
     bindE uuid_NewString (\<lambda>_.
       exec (\<lambda>w. w\<lparr>catalog_changes := catalog_changes w @
         [\<lparr>cr_tenant = TenantID s, cr_generation = gen, cr_op = pc_Op ch, cr_item = pc_Item ch\<rparr>]\<rparr>))"

text \<open>
  One transaction for all rows: an error, also of the check of the context before each row or of the
  commit, rolls the table back.
\<close>

definition insertChanges :: "Store \<Rightarrow> int \<Rightarrow> pendingChange list \<Rightarrow> ('w cat_world_scheme, unit) io" where
  "insertChanges s gen changes =
     (if changes = [] then ret ()
      else
        bindE access (\<lambda>_.
        bindE (gets catalog_changes) (\<lambda>before.
        attempt
          (bindE (for_each changes (\<lambda>ch. bindE access (\<lambda>_. insertChangeExec s gen ch))) (\<lambda>_. access))
          (\<lambda>r. case r of
             Inr _ \<Rightarrow> ret ()
           | Inl e \<Rightarrow> bindE (modify (\<lambda>w. w\<lparr>catalog_changes := before\<rparr>)) (\<lambda>_. throw e)))))"

definition encryptBytes :: "string \<Rightarrow> string \<Rightarrow> ('w fs_world_scheme, string) io" where
  "encryptBytes password plain =
     bindE (rand_Read gcm_NonceSize) (\<lambda>nonce.
       ret (nonce @ gcm_Seal (sha256_Sum256 password) nonce plain))"

definition decryptBytes :: "string \<Rightarrow> string \<Rightarrow> string result" where
  "decryptBytes password raw =
     (if length raw < gcm_NonceSize then Inl (Err ''invalid ciphertext'')
      else (case gcm_Open (sha256_Sum256 password) (take gcm_NonceSize raw) (drop gcm_NonceSize raw) of
              None \<Rightarrow> Inl (Err ''cipher: message authentication failed'')
            | Some plain \<Rightarrow> Inr plain))"

definition manifestPath :: "Store \<Rightarrow> string \<Rightarrow> int \<Rightarrow> string result" where
  "manifestPath s service gen =
     (case GuardPath service of
        Inl e \<Rightarrow> Inl e
      | Inr _ \<Rightarrow> EnsureSubpath (Root s) (path_Join [''manifests'', service, show_int gen @ ''.json.zst'']))"

definition manifest_entry :: "Item \<Rightarrow> ManifestEntry" where
  "manifest_entry it =
     \<lparr>me_Path = RelPath (zero_item\<lparr>it_Mailbox := it_Mailbox it, it_ParentPath := it_ParentPath it, it_Name := it_Name it\<rparr>),
      me_Hash = it_BlobHash it, me_Size = it_Size it\<rparr>"

definition writeManifest :: "codec \<Rightarrow> Store \<Rightarrow> string \<Rightarrow> int \<Rightarrow> gotime \<Rightarrow> ('w cat_world_scheme, unit) io" where
  "writeManifest c s service gen created =
     bindE (query (\<lambda>w. map (\<lambda>r. manifest_entry (ir_item r)) (filter (live_row s service) (catalog_items w)))) (\<lambda>entries.
       (let comp = man_enc c \<lparr>m_Service = service, m_Generation = gen, m_CreatedAt = created, m_Items = entries\<rparr>
        in bindE access (\<lambda>_.
           bindE (from_result (manifestPath s service gen)) (\<lambda>path.
           bindE (os_MkdirAll (filepath_Dir path)) (\<lambda>_.
           bindE (encryptBytes (Password s) comp) (\<lambda>sealed.
             (let tmp = path @ ''.tmp''
              in bindE (os_WriteFile tmp sealed) (\<lambda>_. os_Rename tmp path))))))))"

definition ReadManifest :: "codec \<Rightarrow> Store \<Rightarrow> string \<Rightarrow> int \<Rightarrow> ('w cat_world_scheme, Manifest) io" where
  "ReadManifest c s service gen =
     bindE (from_result (manifestPath s service gen)) (\<lambda>path.
     bindE (os_ReadFile path) (\<lambda>raw.
     bindE (from_result (decryptBytes (Password s) raw)) (\<lambda>comp.
       from_result (man_dec c comp))))"

definition deleteManifest :: "Store \<Rightarrow> string \<Rightarrow> int \<Rightarrow> ('w cat_world_scheme, unit) io" where
  "deleteManifest s service gen =
     (case manifestPath s service gen of
        Inl _ \<Rightarrow> ret ()
      | Inr path \<Rightarrow> ignore (os_Remove path))"

definition insert_snapshot :: "Snapshot \<Rightarrow> ('w cat_world_scheme, unit) io" where
  "insert_snapshot snap =
     sql_guarded
       (\<lambda>w. \<exists>x \<in> set (catalog_snapshots w). sn_ID x = sn_ID snap
             \<or> (sn_TenantID x = sn_TenantID snap \<and> sn_Service x = sn_Service snap \<and> sn_Generation x = sn_Generation snap))
       ''catalog_snapshots''
       (\<lambda>w. w\<lparr>catalog_snapshots := catalog_snapshots w @ [snap]\<rparr>)"

text \<open>The pending changes of a service leave the map before anything is written.\<close>

definition take_pending :: "string \<Rightarrow> ('w cat_world_scheme, pendingChange list) io" where
  "take_pending service =
     bindE (gets (\<lambda>w. map snd (filter (\<lambda>(k, ch). it_Service (pc_Item ch) = service) (pending w)))) (\<lambda>changes.
     bindE (modify (\<lambda>w. w\<lparr>pending := filter (\<lambda>(k, ch). it_Service (pc_Item ch) \<noteq> service) (pending w)\<rparr>)) (\<lambda>_.
       ret changes))"

definition CommitSnapshot :: "codec \<Rightarrow> Store \<Rightarrow> string \<Rightarrow> string \<Rightarrow> ('w cat_world_scheme, Snapshot option) io" where
  "CommitSnapshot c s service jobID =
     (if service = [] then throw (Err ''commit snapshot: service required'')
      else
        bindE (take_pending service) (\<lambda>changes.
          if TrackChanges s \<and> changes = [] then
            bindE (latestSnapshot s service) (\<lambda>prev.
              ret (map_option (\<lambda>p. p\<lparr>sn_Skipped := True\<rparr>) prev))
          else
            bindE (nextGeneration s service) (\<lambda>gen.
            bindE (liveStats s service) (\<lambda>(liveN, liveBytes).
            bindE uuid_NewString (\<lambda>i.
            bindE time_Now (\<lambda>now.
              (let snap = \<lparr>sn_ID = i, sn_TenantID = TenantID s, sn_Service = service, sn_Generation = gen,
                           sn_JobID = jobID, sn_CreatedAt = now, sn_ItemsLive = liveN, sn_BytesLive = liveBytes,
                           sn_Skipped = False\<rparr>
               in bindE (insert_snapshot snap) (\<lambda>_.
                  bindE (insertChanges s gen changes) (\<lambda>_.
                  bindE (writeManifest c s service gen now) (\<lambda>_.
                    ret (Some snap)))))))))))"

section \<open>Queries\<close>

definition countSnapshots :: "string \<Rightarrow> string \<Rightarrow> ('w db_world_scheme, nat) io" where
  "countSnapshots tenantID service =
     query (\<lambda>w. length (filter (\<lambda>x. sn_TenantID x = tenantID \<and> (service = [] \<or> sn_Service x = service)) (catalog_snapshots w)))"

definition countLiveItems :: "string \<Rightarrow> string \<Rightarrow> ('w db_world_scheme, nat) io" where
  "countLiveItems tenantID service =
     query (\<lambda>w. length (filter (\<lambda>r. ir_tenant r = tenantID \<and> \<not> it_Deleted (ir_item r)
        \<and> (service = [] \<or> it_Service (ir_item r) = service)) (catalog_items w)))"

definition HasLiveItems :: "Store \<Rightarrow> string \<Rightarrow> ('w cat_world_scheme, bool) io" where
  "HasLiveItems s service = bindE (countLiveItems (TenantID s) service) (\<lambda>n. ret (n > 0))"

definition HasSnapshotsFor :: "Store \<Rightarrow> string \<Rightarrow> ('w cat_world_scheme, bool) io" where
  "HasSnapshotsFor s service = bindE (countSnapshots (TenantID s) service) (\<lambda>n. ret (n > 0))"

definition HasSnapshots :: "Store \<Rightarrow> ('w cat_world_scheme, bool) io" where
  "HasSnapshots s = HasSnapshotsFor s []"

definition ListSnapshots :: "Store \<Rightarrow> string \<Rightarrow> ('w cat_world_scheme, Snapshot list) io" where
  "ListSnapshots s service =
     query (\<lambda>w. sort_key (\<lambda>x. - sn_CreatedAt x)
       (filter (\<lambda>x. sn_TenantID x = TenantID s \<and> (service = [] \<or> sn_Service x = service)) (catalog_snapshots w)))"

definition GetSnapshot :: "Store \<Rightarrow> string \<Rightarrow> ('w cat_world_scheme, Snapshot) io" where
  "GetSnapshot s i =
     query_row (\<lambda>w. filter (\<lambda>x. sn_TenantID x = TenantID s \<and> sn_ID x = i) (catalog_snapshots w))"

definition ListMailboxes :: "Store \<Rightarrow> string \<Rightarrow> ('w cat_world_scheme, string list) io" where
  "ListMailboxes s service =
     query (\<lambda>w. sort (remdups (filter (\<lambda>m. m \<noteq> []) (map (\<lambda>r. it_Mailbox (ir_item r)) (filter (live_row s service) (catalog_items w))))))"

text \<open>The top folders, in the order of the sorted parent paths.\<close>

fun top_folders :: "string list \<Rightarrow> string list \<Rightarrow> string list" where
  "top_folders acc [] = []"
| "top_folders acc (p # ps) =
     (let top = hd (strings_Split slash (strings_Trim p slash))
      in if top = [] \<or> top \<in> set acc then top_folders acc ps
         else top # top_folders (top # acc) ps)"

definition ListFolders :: "Store \<Rightarrow> string \<Rightarrow> string \<Rightarrow> ('w cat_world_scheme, string list) io" where
  "ListFolders s service mailbox =
     query (\<lambda>w. top_folders [] (sort (remdups (filter (\<lambda>p. p \<noteq> []) (map (\<lambda>r. it_ParentPath (ir_item r))
       (filter (\<lambda>r. live_row s service r \<and> it_Mailbox (ir_item r) = mailbox) (catalog_items w)))))))"

definition ListLiveItems :: "Store \<Rightarrow> string \<Rightarrow> string \<Rightarrow> string \<Rightarrow> ('w cat_world_scheme, Item list) io" where
  "ListLiveItems s service mailbox folder =
     query (\<lambda>w. sort_key it_Mailbox (sort_key it_ParentPath (sort_key it_Name
       (map ir_item (filter (\<lambda>r. live_row s service r
          \<and> (mailbox = [] \<or> (it_Mailbox (ir_item r) = mailbox
                \<and> (folder = [] \<or> it_ParentPath (ir_item r) = folder)))) (catalog_items w))))))"

definition GetBlob :: "Store \<Rightarrow> string \<Rightarrow> ('w cat_world_scheme, string) io" where
  "GetBlob s h = blob_Get (Blobs s) h"

section \<open>The catalog as a map\<close>

text \<open>
  The abstract state of a tenant's catalog: a partial map from service and Graph id to the item. The
  operations on rows are updates of this map; its invariant is the unique key of the table.
\<close>

definition row_key :: "item_row \<Rightarrow> string \<times> string \<times> string" where
  "row_key r = (ir_tenant r, it_Service (ir_item r), it_GraphItemID (ir_item r))"

definition rows_ok :: "item_row list \<Rightarrow> bool" where
  "rows_ok rows = distinct (map row_key rows)"

definition item_at :: "string \<Rightarrow> item_row list \<Rightarrow> string \<times> string \<Rightarrow> Item option" where
  "item_at tenant rows k = map_of (map (\<lambda>r. (row_key r, ir_item r)) rows) (tenant, k)"

lemma row_is_key: "row_is s service i r \<longleftrightarrow> row_key r = (TenantID s, service, i)"
  by (auto simp: row_is_def row_key_def)

lemma rows_ok_snoc: "rows_ok (rows @ [r]) \<longleftrightarrow> rows_ok rows \<and> row_key r \<notin> row_key ` set rows"
  by (auto simp: rows_ok_def)

lemma item_at_None: "item_at t rows k = None \<longleftrightarrow> (t, k) \<notin> row_key ` set rows"
  by (force simp: item_at_def map_of_eq_None_iff)

lemma filter_row: "filter (row_is s service i) rows = [] \<longleftrightarrow> item_at (TenantID s) rows (service, i) = None"
  by (auto simp: item_at_None filter_empty_conv row_is_key image_iff)

lemma filter_row_hd:
  "filter (row_is s service i) rows = r # rs \<Longrightarrow> item_at (TenantID s) rows (service, i) = Some (ir_item r)"
proof (induction rows)
  case (Cons a rows)
  then show ?case by (cases "row_is s service i a") (auto simp: row_is_key item_at_def)
qed simp

text \<open>A map over the rows that replaces items but no keys.\<close>

lemma item_at_map:
  assumes "\<And>r. r \<in> set rows \<Longrightarrow> row_key (f r) = row_key r"
    "\<And>r. r \<in> set rows \<Longrightarrow> ir_item (f r) = g (row_key r) (ir_item r)"
  shows "item_at t (map f rows) k = map_option (g (t, k)) (item_at t rows k)"
  using assms by (induction rows) (auto simp: item_at_def)

lemma rows_ok_map: "(\<And>r. r \<in> set rows \<Longrightarrow> row_key (f r) = row_key r) \<Longrightarrow> rows_ok (map f rows) = rows_ok rows"
proof -
  assume "\<And>r. r \<in> set rows \<Longrightarrow> row_key (f r) = row_key r"
  then have "map row_key (map f rows) = map row_key rows" by simp
  then show ?thesis by (simp only: rows_ok_def)
qed

lemma item_at_snoc:
  "item_at t (rows @ [r]) k = (case item_at t rows k of Some it \<Rightarrow> Some it
     | None \<Rightarrow> if (t, k) = row_key r then Some (ir_item r) else None)"
  by (auto simp: item_at_def map_add_def split: option.split)

lemma list_ex_row: "list_ex (row_is s service i) rows \<longleftrightarrow> item_at (TenantID s) rows (service, i) \<noteq> None"
  by (force simp: item_at_None list_ex_iff row_is_key image_iff)

lemma upsert_rows_item_at:
  "item_at t (upsert_rows s it rows) k =
     (if t = TenantID s \<and> k = (it_Service it, it_GraphItemID it) then Some (it\<lparr>it_Deleted := False\<rparr>) else item_at t rows k)"
proof -
  let ?same = "row_is s (it_Service it) (it_GraphItemID it)"
  let ?new = "\<lparr>ir_tenant = TenantID s, ir_item = it\<lparr>it_Deleted := False\<rparr>\<rparr>"
  let ?key = "(TenantID s, it_Service it, it_GraphItemID it)"
  have new: "row_key ?new = ?key" by (simp add: row_key_def)
  show ?thesis
  proof (cases "list_ex ?same rows")
    case True
    have "item_at t (map (\<lambda>r. if ?same r then ?new else r) rows) k =
        map_option (\<lambda>i. if (t, k) = ?key then it\<lparr>it_Deleted := False\<rparr> else i) (item_at t rows k)"
      by (rule item_at_map) (auto simp: row_is_key row_key_def)
    then show ?thesis
      using True by (cases "item_at t rows k") (auto simp: upsert_rows_def Let_def list_ex_row)
  next
    case False
    then have "item_at (TenantID s) rows (it_Service it, it_GraphItemID it) = None" by (simp add: list_ex_row)
    with False new show ?thesis by (auto simp: upsert_rows_def Let_def item_at_snoc split: option.split)
  qed
qed

lemma upsert_rows_ok: "rows_ok rows \<Longrightarrow> rows_ok (upsert_rows s it rows)"
proof -
  let ?same = "row_is s (it_Service it) (it_GraphItemID it)"
  let ?new = "\<lparr>ir_tenant = TenantID s, ir_item = it\<lparr>it_Deleted := False\<rparr>\<rparr>"
  assume ok: "rows_ok rows"
  have "rows_ok (map (\<lambda>r. if ?same r then ?new else r) rows) = rows_ok rows"
    by (rule rows_ok_map) (auto simp: row_is_key row_key_def)
  moreover have "row_key ?new \<notin> row_key ` set rows" if "\<not> list_ex ?same rows"
    using that by (force simp: list_ex_iff row_is_key row_key_def)
  ultimately show ?thesis using ok by (auto simp: upsert_rows_def Let_def rows_ok_snoc)
qed

text \<open>The live items of a service: the rows of the map that are not deleted.\<close>

lemma live_rows_item_at:
  assumes "rows_ok rows"
  shows "it \<in> ir_item ` set (filter (live_row s service) rows) \<longleftrightarrow>
    (\<exists>i. item_at (TenantID s) rows (service, i) = Some it \<and> \<not> it_Deleted it)"
proof -
  have keys: "distinct (map fst (map (\<lambda>r. (row_key r, ir_item r)) rows))"
    using assms by (simp add: rows_ok_def comp_def)
  have at: "item_at (TenantID s) rows (service, i) = Some it \<longleftrightarrow> (\<exists>r \<in> set rows. row_key r = (TenantID s, service, i) \<and> ir_item r = it)" for i
    unfolding item_at_def map_of_eq_Some_iff [OF keys] set_map image_iff by (metis prod.inject)
  show ?thesis unfolding at live_row_def row_key_def image_iff set_filter mem_Collect_eq prod.inject by blast
qed

end
