(* ===== verification/Catalog_Props.thy ===== *)
theory Catalog_Props
  imports Catalog
begin

text \<open>
  The catalog's invariant and what its operations do: the unique key of the rows, the consistency of
  the blob store, and that every row of the tenant that names a blob names one that is there. Every
  operation keeps it under every fault script, so that an interrupted backup never leaves a row whose
  content is missing.
\<close>

section \<open>The invariant\<close>

definition live_ok :: "Store \<Rightarrow> 'w cat_world_scheme \<Rightarrow> bool" where
  "live_ok s w =
     (\<forall>r \<in> set (catalog_items w). ir_tenant r = TenantID s \<longrightarrow> it_BlobHash (ir_item r) \<noteq> []
        \<longrightarrow> blob_view (Blobs s) w (it_BlobHash (ir_item r)) \<noteq> None)"

definition cat_inv :: "Store \<Rightarrow> 'w cat_world_scheme \<Rightarrow> bool" where
  "cat_inv s w = (cas_ok (Blobs s) w \<and> rows_ok (catalog_items w) \<and> live_ok s w)"

lemma file_at_db [simp]:
  "file_at (w\<lparr>catalog_items := a\<rparr>) = file_at w" "file_at (w\<lparr>catalog_snapshots := b\<rparr>) = file_at w"
  "file_at (w\<lparr>catalog_changes := c\<rparr>) = file_at w"
  by (simp_all add: fun_eq_iff file_at_def)

lemma file_at_cat [simp]:
  "file_at (w\<lparr>pending := d\<rparr>) = file_at w" "file_at (w\<lparr>seen := e\<rparr>) = file_at w"
  by (simp_all add: fun_eq_iff file_at_def)

lemma blob_view_cong: "(\<And>p. file_at w' p = file_at w p) \<Longrightarrow> blob_view b w' = blob_view b w"
  by (simp add: blob_view_def fun_eq_iff)

lemma cas_ok_cong: "(\<And>p. file_at w' p = file_at w p) \<Longrightarrow> cas_ok b w' = cas_ok b w"
  by (simp add: cas_ok_def)

lemma store_env [simp]:
  "blob_view b (w\<lparr>catalog_items := x1\<rparr>) = blob_view b w" "blob_view b (w\<lparr>catalog_snapshots := x2\<rparr>) = blob_view b w"
  "blob_view b (w\<lparr>catalog_changes := x3\<rparr>) = blob_view b w" "blob_view b (w\<lparr>pending := x4\<rparr>) = blob_view b w"
  "blob_view b (w\<lparr>seen := x5\<rparr>) = blob_view b w" "blob_view b (w\<lparr>uuid_next := x6\<rparr>) = blob_view b w"
  "cas_ok b (w\<lparr>catalog_items := x1\<rparr>) = cas_ok b w" "cas_ok b (w\<lparr>catalog_snapshots := x2\<rparr>) = cas_ok b w"
  "cas_ok b (w\<lparr>catalog_changes := x3\<rparr>) = cas_ok b w" "cas_ok b (w\<lparr>pending := x4\<rparr>) = cas_ok b w"
  "cas_ok b (w\<lparr>seen := x5\<rparr>) = cas_ok b w" "cas_ok b (w\<lparr>uuid_next := x6\<rparr>) = cas_ok b w"
  by (rule blob_view_cong cas_ok_cong, simp)+

lemma cat_inv_env [simp]:
  "cat_inv s (w\<lparr>faults := fs\<rparr>) = cat_inv s w" "cat_inv s (w\<lparr>uuid_next := n\<rparr>) = cat_inv s w"
  "cat_inv s (w\<lparr>rand_pos := m\<rparr>) = cat_inv s w"
  "cat_inv s (w\<lparr>pending := a\<rparr>) = cat_inv s w" "cat_inv s (w\<lparr>seen := b\<rparr>) = cat_inv s w"
  "cat_inv s (w\<lparr>catalog_snapshots := c\<rparr>) = cat_inv s w" "cat_inv s (w\<lparr>catalog_changes := d\<rparr>) = cat_inv s w"
  by (simp_all add: cat_inv_def live_ok_def)

lemma fault_free_cat_inv: "fault_free (cat_inv s)"
  by (simp add: fault_free_def)

text \<open>Changes of the rows that keep the key unique and bring in no unknown hash.\<close>

definition rows_step :: "Store \<Rightarrow> (string \<Rightarrow> bool) \<Rightarrow> item_row list \<Rightarrow> item_row list \<Rightarrow> bool" where
  "rows_step s known rows rows' =
     ((rows_ok rows \<longrightarrow> rows_ok rows')
      \<and> (\<forall>r' \<in> set rows'. ir_tenant r' = TenantID s \<longrightarrow> it_BlobHash (ir_item r') \<noteq> []
           \<longrightarrow> known (it_BlobHash (ir_item r'))
               \<or> (\<exists>r \<in> set rows. ir_tenant r = TenantID s \<and> it_BlobHash (ir_item r) = it_BlobHash (ir_item r'))))"

lemma cat_inv_rows:
  assumes "cat_inv s w" "rows_step s (\<lambda>h. blob_view (Blobs s) w h \<noteq> None) (catalog_items w) rows"
  shows "cat_inv s (w\<lparr>catalog_items := rows\<rparr>)"
proof -
  have "blob_view (Blobs s) w (it_BlobHash (ir_item r')) \<noteq> None"
    if "r' \<in> set rows" "ir_tenant r' = TenantID s" "it_BlobHash (ir_item r') \<noteq> []" for r'
    using assms that unfolding cat_inv_def live_ok_def rows_step_def by metis
  then show ?thesis using assms by (auto simp: cat_inv_def live_ok_def rows_step_def)
qed

lemma rows_step_upsert:
  assumes "it_BlobHash it = [] \<or> known (it_BlobHash it)"
  shows "rows_step s known rows (upsert_rows s it rows)"
proof -
  let ?new = "\<lparr>ir_tenant = TenantID s, ir_item = it\<lparr>it_Deleted := False\<rparr>\<rparr>"
  have "set (upsert_rows s it rows) \<subseteq> insert ?new (set rows)"
    by (auto simp: upsert_rows_def Let_def)
  then show ?thesis using assms upsert_rows_ok by (fastforce simp: rows_step_def)
qed

lemma rows_step_map:
  assumes "\<And>r. r \<in> set rows \<Longrightarrow> row_key (f r) = row_key r"
    "\<And>r. it_BlobHash (ir_item (f r)) = it_BlobHash (ir_item r)" "\<And>r. ir_tenant (f r) = ir_tenant r"
  shows "rows_step s known rows (map f rows)"
  using assms rows_ok_map [of rows f] by (auto simp: rows_step_def)

lemma rows_step_filter: "rows_step s known rows (filter P rows)"
  by (auto simp: rows_step_def rows_ok_def distinct_map_filter)

text \<open>Giving a row a new Graph id, when no row has it yet.\<close>

lemma rows_step_rename:
  assumes "list_ex (row_is s service alt) rows \<and> alt \<noteq> i \<longrightarrow> \<not> list_ex (row_is s service i) rows"
  shows "rows_step s known rows (map (\<lambda>r. if row_is s service alt r
    then r\<lparr>ir_item := (ir_item r)\<lparr>it_GraphItemID := i\<rparr>\<rparr> else r) rows)" (is "rows_step s known rows (map ?f rows)")
proof -
  have "rows_ok (map ?f rows)" if ok: "rows_ok rows"
  proof -
    let ?g = "\<lambda>k. if k = (TenantID s, service, alt) then (TenantID s, service, i) else k"
    have "map row_key (map ?f rows) = map ?g (map row_key rows)"
      by (auto simp: row_is_key row_key_def)
    moreover have "inj_on ?g (set (map row_key rows))"
      using assms by (force simp: inj_on_def list_ex_iff row_is_key)
    ultimately show ?thesis using ok by (simp only: rows_ok_def distinct_map)
  qed
  then show ?thesis by (auto simp: rows_step_def)
qed

section \<open>Operations keep the invariant\<close>

lemma keeps_getItem: "fault_free P \<Longrightarrow> keeps P (getItem s service i)"
  by (simp add: getItem_def keeps_query_row)

lemma keeps_rename_row [keeps_rules]: "keeps (cat_inv s) (rename_row s service alt i)"
  unfolding rename_row_def
  by (auto intro!: keeps_guarded fault_free_cat_inv cat_inv_rows rows_step_rename)

lemma keeps_rematch_loop: "keeps (cat_inv s) (rematch_loop s it alts)"
  by (induction alts)
    (auto intro!: keeps_rules keeps_getItem keeps_exec fault_free_cat_inv cat_inv_rows rows_step_filter
      simp: Let_def split: sum.split)

lemma keeps_rematchID [keeps_rules]: "keeps (cat_inv s) (rematchID s it)"
  unfolding rematchID_def
  by (auto intro!: keeps_rules keeps_getItem keeps_rematch_loop fault_free_cat_inv split: sum.split)

lemma keeps_notePending [keeps_rules]: "keeps (cat_inv s) (notePending s op it)"
  unfolding notePending_def by (auto intro!: keeps_rules keeps_modify)

lemma keeps_StartReconcile [keeps_rules]: "keeps (cat_inv s) (StartReconcile service)"
  and keeps_MarkSeen [keeps_rules]: "keeps (cat_inv s) (MarkSeen service i)"
  unfolding StartReconcile_def MarkSeen_def by (auto intro!: keeps_modify)

lemma keeps_markDeleted [keeps_rules]: "keeps (cat_inv s) (markDeleted s service i)"
  unfolding markDeleted_def
  by (auto intro!: keeps_exec fault_free_cat_inv cat_inv_rows rows_step_map simp: row_key_def)

lemma keeps_Delete [keeps_rules]: "keeps (cat_inv s) (Delete s service i)"
  unfolding Delete_def
  by (auto intro!: keeps_rules keeps_getItem fault_free_cat_inv simp: Let_def)

lemma keeps_DeletePrefix [keeps_rules]: "keeps (cat_inv s) (DeletePrefix s service mailbox rel)"
  unfolding DeletePrefix_def Let_def
  by (auto intro!: keeps_rules keeps_query fault_free_cat_inv)

lemma keeps_FinishReconcile [keeps_rules]: "keeps (cat_inv s) (FinishReconcile s service)"
  unfolding FinishReconcile_def Let_def
  by (auto intro!: keeps_rules keeps_query fault_free_cat_inv split: option.split)

text \<open>The operations on rows touch no file.\<close>

abbreviation on_files :: "((string \<Rightarrow> string option) \<Rightarrow> bool) \<Rightarrow> 'w fs_world_scheme \<Rightarrow> bool" where
  "on_files R w \<equiv> R (file_at w)"

lemma fault_free_files: "fault_free (on_files R)"
  by (simp add: fault_free_def)

lemma files_rename_row [keeps_rules]: "keeps (on_files R) (rename_row s service alt i)"
  unfolding rename_row_def by (auto intro!: keeps_guarded fault_free_files)

lemma files_rematch_loop [keeps_rules]: "keeps (on_files R) (rematch_loop s it alts)"
  by (induction alts)
    (auto intro!: keeps_rules keeps_getItem keeps_exec fault_free_files simp: Let_def split: sum.split)

lemma files_rematchID [keeps_rules]: "keeps (on_files R) (rematchID s it)"
  unfolding rematchID_def
  by (auto intro!: keeps_rules keeps_getItem fault_free_files split: sum.split)

lemma files_notePending [keeps_rules]: "keeps (on_files R) (notePending s op it)"
  unfolding notePending_def by (auto intro!: keeps_rules keeps_modify)

lemma files_upsertItem [keeps_rules]: "keeps (on_files R) (upsertItem s it)"
  unfolding upsertItem_def by (auto intro!: keeps_rules keeps_uuid keeps_exec fault_free_files)

text \<open>The item that comes back from matching differs at most in its place.\<close>

definition same_but_place :: "Item \<Rightarrow> Item \<Rightarrow> bool" where
  "same_but_place a b =
     (it_Service b = it_Service a \<and> it_GraphItemID b = it_GraphItemID a \<and> it_BlobHash b = it_BlobHash a
      \<and> it_Size b = it_Size a \<and> it_MTime b = it_MTime a \<and> it_ContentType b = it_ContentType a
      \<and> it_Subject b = it_Subject a \<and> it_FromAddr b = it_FromAddr a \<and> it_Deleted b = it_Deleted a)"

lemma same_but_place_refl [simp]: "same_but_place a a"
  by (simp add: same_but_place_def)

lemma same_but_place_fields:
  assumes "same_but_place a b"
  shows "it_Service b = it_Service a" "it_GraphItemID b = it_GraphItemID a" "it_BlobHash b = it_BlobHash a"
    "it_Size b = it_Size a" "it_MTime b = it_MTime a" "it_Deleted b = it_Deleted a"
  using assms by (simp_all add: same_but_place_def)

lemma rematch_loop_item: "wp (rematch_loop s it alts) (\<lambda>r _. \<forall>it'. r = Inr it' \<longrightarrow> same_but_place it it') w"
proof (induction alts arbitrary: w)
  case (Cons alt alts)
  show ?case
    by (auto simp: wp_simps Let_def same_but_place_def getItem_def rename_row_def
        intro!: wp_intros Cons [unfolded same_but_place_def] split: sum.split)
qed (simp add: wp_simps)

lemma rematchID_item: "wp (rematchID s it) (\<lambda>r _. \<forall>it'. r = Inr it' \<longrightarrow> same_but_place it it') w"
  by (auto simp: rematchID_def wp_simps getItem_def intro!: wp_intros rematch_loop_item split: sum.split)

text \<open>An upsert of an item whose content is stored.\<close>

definition stored_inv :: "Store \<Rightarrow> string \<Rightarrow> 'w cat_world_scheme \<Rightarrow> bool" where
  "stored_inv s h w = (cat_inv s w \<and> blob_view (Blobs s) w h \<noteq> None)"

lemma stored_inv_env [simp]:
  "stored_inv s h (w\<lparr>faults := fs\<rparr>) = stored_inv s h w" "stored_inv s h (w\<lparr>uuid_next := n\<rparr>) = stored_inv s h w"
  "stored_inv s h (w\<lparr>pending := a\<rparr>) = stored_inv s h w" "stored_inv s h (w\<lparr>seen := b\<rparr>) = stored_inv s h w"
  by (simp_all add: stored_inv_def)

lemma stored_inv_keeps:
  fixes m :: "('w cat_world_scheme, 'a) io"
  assumes "keeps (cat_inv s) m" "\<And>R. keeps (on_files R) m"
  shows "keeps (stored_inv s h) m"
proof (rule keepsI)
  fix w :: "'w cat_world_scheme"
  assume P: "stored_inv s h w"
  then have "cat_inv s (snd (m w))" using assms(1) by (simp add: keeps_def stored_inv_def)
  moreover have "file_at (snd (m w)) = file_at w"
    using assms(2) [of "\<lambda>f. f = file_at w"] by (simp add: keeps_def)
  then have "blob_view (Blobs s) (snd (m w)) = blob_view (Blobs s) w"
    by (intro blob_view_cong) simp
  ultimately show "stored_inv s h (snd (m w))" using P by (simp add: stored_inv_def)
qed

lemma stored_upsert:
  assumes "stored_inv s (it_BlobHash it) w"
  shows "stored_inv s (it_BlobHash it) (w\<lparr>catalog_items := upsert_rows s it (catalog_items w)\<rparr>)"
  using assms cat_inv_rows [OF _ rows_step_upsert, of s w it] by (auto simp: stored_inv_def)

lemma stored_upsertItem: "keeps (stored_inv s (it_BlobHash it)) (upsertItem s it)"
  unfolding upsertItem_def
  by (auto intro!: keeps_rules keeps_uuid keeps_exec stored_upsert simp: fault_free_def)

lemma cat_inv_blob_Put:
  assumes "cat_inv s w"
  shows "wp (blob_Put (Blobs s) d) (\<lambda>r w'. cat_inv s w' \<and> (\<forall>h. r = Inr h \<longrightarrow> h = Hash d \<and> stored_inv s h w')) w"
proof -
  have cas: "cas_ok (Blobs s) w" using assms by (simp add: cat_inv_def)
  have rows: "wp (blob_Put (Blobs s) d) (\<lambda>_ w'. catalog_items w' = catalog_items w) w"
    by (rule wp_keeps [OF keeps_blob_ops(1)]) (simp_all add: disk_free_def)
  show ?thesis
  proof (rule wp_mono [OF wp_conj [OF rows blobs.put_keeps [OF cas, of d]]], goal_cases)
    case (1 r w')
    then have "live_ok s w'"
      using assms by (auto simp: cat_inv_def live_ok_def)
    with 1 assms show ?case by (auto simp: cat_inv_def stored_inv_def)
  qed
qed

lemma wp_notePending [wp_intros]:
  assumes "\<And>p q. Q (Inr ()) (w\<lparr>pending := p, seen := q\<rparr>)"
  shows "wp (notePending s op it) Q w"
  using assms [where p = "pending w" and q = "seen w"] assms by (simp add: notePending_def wp_simps)

lemma put_rows_spec:
  assumes "stored_inv s (it_BlobHash it) w"
  shows "wp (bindE (rematchID s it) (\<lambda>it2. bindE (upsertItem s it2) (\<lambda>_. notePending s OpUpsert it2)))
    (\<lambda>r w'. stored_inv s (it_BlobHash it) w' \<and> (r = Inr () \<longrightarrow>
       (\<exists>it2. same_but_place it it2 \<and>
          item_at (TenantID s) (catalog_items w') (it_Service it, it_GraphItemID it) = Some (it2\<lparr>it_Deleted := False\<rparr>)))) w"
proof -
  have re: "wp (rematchID s it) (\<lambda>r w'. stored_inv s (it_BlobHash it) w' \<and> (\<forall>it'. r = Inr it' \<longrightarrow> same_but_place it it')) w"
    by (intro wp_conj wp_keeps [OF stored_inv_keeps] rematchID_item keeps_rematchID files_rematchID assms)
  show ?thesis
    unfolding wp_simps
  proof (rule wp_mono [OF re], goal_cases)
    case (1 r w')
    show ?case
    proof (cases r)
      case (Inr it2)
      with 1 have same: "same_but_place it it2" and st: "stored_inv s (it_BlobHash it2) w'"
        by (auto simp: same_but_place_fields)
      have "stored_inv s (it_BlobHash it2) (w'\<lparr>uuid_next := n, faults := fs, catalog_items := upsert_rows s it2 (catalog_items w')\<rparr>)" for n fs
        using stored_upsert [of s it2 "w'\<lparr>uuid_next := n, faults := fs\<rparr>"] st by simp
      then show ?thesis
        using same st unfolding Inr sum.case upsertItem_def wp_simps
        by (auto simp: wp_simps same_but_place_fields upsert_rows_item_at intro!: wp_exec wp_notePending exI [of _ it2])
    qed (use 1 in auto)
  qed
qed

lemma Put_spec:
  assumes "cat_inv s w"
  shows "wp (Put s it d) (\<lambda>r w'. cat_inv s w' \<and> (r = Inr () \<longrightarrow>
     (\<exists>it'. item_at (TenantID s) (catalog_items w') (it_Service it, it_GraphItemID it) = Some it'
        \<and> it_BlobHash it' = Hash d \<and> it_Size it' = int (length d) \<and> \<not> it_Deleted it'
        \<and> blob_view (Blobs s) w' (Hash d) \<noteq> None))) w"
proof (cases "it_Service it = [] \<or> it_GraphItemID it = []")
  case True
  then show ?thesis using assms by (auto simp: Put_def wp_simps)
next
  case False
  show ?thesis
    unfolding Put_def if_not_P [OF False] wp_bindE [of "blob_Put (Blobs s) d"]
  proof (rule wp_mono [OF cat_inv_blob_Put [OF assms]], goal_cases)
    case (1 r w')
    show ?case
    proof (cases r)
      case (Inr h)
      let ?it = "it\<lparr>it_BlobHash := h, it_Size := int (length d), it_Deleted := False,
          it_MTime := if it_MTime it = 0 then clock w' else it_MTime it\<rparr>"
      have st: "stored_inv s (it_BlobHash ?it) w'" and h: "h = Hash d" using 1 Inr by auto
      show ?thesis
        unfolding Inr sum.case wp_bindE [of time_Now] wp_time_Now Let_def
        by (rule wp_mono [OF put_rows_spec [OF st]]) (auto simp: stored_inv_def h same_but_place_fields)
    qed (use 1 in auto)
  qed
qed

lemma keeps_Put [keeps_rules]: "keeps (cat_inv s) (Put s it d)"
  by (rule keeps_wp) (rule wp_mono [OF Put_spec], auto)

end
