(* ===== verification/Catalog_Snapshots.thy ===== *)
theory Catalog_Snapshots
  imports Catalog_Props "HOL-Library.Countable"
begin

text \<open>
  Snapshots of the catalog: where a manifest lies, that writing it touches no blob, and what a
  committed generation promises: its manifest lists exactly the live items, and every content that it
  names can be read back.
\<close>

section \<open>Manifest paths\<close>

definition manifest_segs :: "Store \<Rightarrow> string \<Rightarrow> int \<Rightarrow> string list" where
  "manifest_segs s service gen =
     path_segs (Root s) @ ''manifests'' # path_segs service @ [show_int gen @ ''.json.zst'']"

lemma manifest_name:
  "clean_list [show_int gen @ ''.json.zst'']" "CHR 0x00 \<notin> set (show_int gen @ ''.json.zst'')"
proof -
  have dot: "CHR ''.'' \<notin> set (show_int gen)" and sl: "slash \<notin> set (show_int gen)"
    and nul: "CHR 0x00 \<notin> set (show_int gen)"
    using show_int_chars by blast+
  have "no_dotdot (show_int gen @ ''.json.zst'')"
  proof
    assume "strings_Contains (show_int gen @ ''.json.zst'') ''..''"
    moreover have "no_dotdot (p @ ''.json.zst'')" if "CHR ''.'' \<notin> set p" for p
      using that by (induction p) (auto simp: HasPrefix_iff Cons_eq_append_conv)
    ultimately show False using dot by blast
  qed
  then show "clean_list [show_int gen @ ''.json.zst'']" using sl by auto
  show "CHR 0x00 \<notin> set (show_int gen @ ''.json.zst'')" using nul by simp
qed

lemma manifest_rel:
  assumes "GuardPath service = Inr service"
  shows "path_Join [''manifests'', service, show_int gen @ ''.json.zst''] =
      render_path False (''manifests'' # path_segs service @ [show_int gen @ ''.json.zst''])"
    "clean_list (''manifests'' # path_segs service @ [show_int gen @ ''.json.zst''])"
proof -
  let ?n = "show_int gen @ ''.json.zst''"
  have sv: "service \<noteq> []" "no_dotdot service" using assms by simp_all
  have nd: "no_dotdot ?n" and sl: "slash \<notin> set ?n" and ks: "keep_seg ?n" using manifest_name(1) [of gen] by simp_all
  show cl: "clean_list (''manifests'' # path_segs service @ [?n])" using sv manifest_name(1) by simp
  have nd2: "no_dotdot (service @ slash # ?n)" using sv nd Contains_sep [of slash "''..''" service ?n] by simp
  have "path_segs (''manifests'' @ slash # (service @ slash # ?n)) = path_segs ''manifests'' @ path_segs (service @ slash # ?n)"
    by (rule path_segs_append) (use nd2 in simp_all)
  also have "path_segs (service @ slash # ?n) = path_segs service @ path_segs ?n"
    by (rule path_segs_append) (use sv nd in simp_all)
  finally have "path_segs (''manifests'' @ slash # (service @ slash # ?n)) = path_segs ''manifests'' @ path_segs service @ path_segs ?n" .
  moreover have "path_segs ?n = [?n]" unfolding path_segs_no_dotdot [OF nd] Split_no_sep [OF sl] using ks by simp
  moreover have "path_segs ''manifests'' = [''manifests'']" by (simp add: path_segs_def is_rooted_def)
  ultimately have segs: "path_segs (''manifests'' @ slash # service @ slash # ?n) = ''manifests'' # path_segs service @ [?n]"
    by simp
  have "path_Join [''manifests'', service, ?n] = path_Clean (''manifests'' @ slash # service @ slash # ?n)"
    using sv by (simp add: path_Join_def)
  moreover have "\<not> is_rooted (''manifests'' @ slash # service @ slash # ?n)" by (simp add: is_rooted_def)
  ultimately show "path_Join [''manifests'', service, ?n] = render_path False (''manifests'' # path_segs service @ [?n])"
    by (simp only: path_Clean_def segs)
qed

lemma manifestPath_ok:
  assumes "manifestPath s service gen = Inr p"
  shows "p = render_path (is_rooted (Root s)) (manifest_segs s service gen)" "GuardPath service = Inr service"
    "no_dotdot (Root s)"
proof -
  have g: "GuardPath service = Inr service"
    and e: "EnsureSubpath (Root s) (path_Join [''manifests'', service, show_int gen @ ''.json.zst'']) = Inr p"
    using assms by (auto simp: manifestPath_def GuardPath_def split: if_splits)
  show "GuardPath service = Inr service" by (rule g)
  note ok = EnsureSubpath_Inr [OF e]
  show "no_dotdot (Root s)" by (rule ok)
  show "p = render_path (is_rooted (Root s)) (manifest_segs s service gen)"
    using ok(1) path_segs_render [OF manifest_rel(2) [OF g]] by (simp add: manifest_rel(1) [OF g] manifest_segs_def)
qed

lemma last_render: "segs \<noteq> [] \<Longrightarrow> last segs \<noteq> [] \<Longrightarrow> last (render_path r segs) = last (last segs)"
proof -
  assume "segs \<noteq> []" "last segs \<noteq> []"
  moreover have "last (strings_Join segs ''/'') = last (last segs)" "strings_Join segs ''/'' \<noteq> []"
    if "segs \<noteq> []" "last segs \<noteq> []" for segs
    using that by (induction segs "''/''" rule: strings_Join.induct) auto
  ultimately show ?thesis by (auto simp: render_path_def)
qed

lemma last_bpath:
  assumes "good_root (bs_root b)" "validHash h"
  shows "is_lower_hex (last (bpath b h))"
proof -
  have "h \<noteq> []" using assms(2) by (auto simp: validHash_def)
  then have "last (bpath b h) = last h" unfolding bpath_def by (subst last_render) auto
  moreover have "last h \<in> set h" using \<open>h \<noteq> []\<close> by simp
  ultimately show ?thesis using assms(2) by (simp add: validHash_def list_all_iff)
qed

text \<open>A manifest and its temporary file are no blobs.\<close>

lemma manifest_not_blob:
  assumes "manifestPath s service gen = Inr p" "good_root (bs_root b)" "validHash h"
  shows "bpath b h \<noteq> p" "bpath b h \<noteq> p @ ''.tmp''"
proof -
  have "last p = CHR ''t''"
    unfolding manifestPath_ok(1) [OF assms(1)] by (subst last_render) (simp_all add: manifest_segs_def)
  moreover have "\<not> is_lower_hex (CHR ''t'')" "\<not> is_lower_hex (CHR ''p'')" by (simp_all add: is_lower_hex_def)
  ultimately show "bpath b h \<noteq> p" "bpath b h \<noteq> p @ ''.tmp''"
    using last_bpath [OF assms(2,3)] by (metis, metis last_appendR last.simps list.distinct(1))
qed

lemma blob_other_file:
  assumes "\<And>h. validHash h \<Longrightarrow> bpath b h \<noteq> q"
  shows "blob_view b (put_file q d w) = blob_view b w" "blob_view b (del_file q w) = blob_view b w"
    "cas_ok b (put_file q d w) = cas_ok b w" "cas_ok b (del_file q w) = cas_ok b w"
  using assms by (auto simp: blob_view_def cas_ok_def fun_eq_iff)

lemma catalog_items_file [simp]:
  "catalog_items (put_file q d w) = catalog_items w" "catalog_items (del_file q w) = catalog_items w"
  "catalog_snapshots (put_file q d w) = catalog_snapshots w" "catalog_snapshots (del_file q w) = catalog_snapshots w"
  "catalog_changes (put_file q d w) = catalog_changes w" "catalog_changes (del_file q w) = catalog_changes w"
  by (simp_all add: put_file_def del_file_def)

lemma cat_inv_other_file:
  assumes "\<And>h. validHash h \<Longrightarrow> bpath (Blobs s) h \<noteq> q"
  shows "cat_inv s (put_file q d w) = cat_inv s w" "cat_inv s (del_file q w) = cat_inv s w"
  by (simp_all add: cat_inv_def live_ok_def blob_other_file [OF assms])

section \<open>Writing and reading a manifest\<close>

definition live_entries :: "Store \<Rightarrow> string \<Rightarrow> 'w cat_world_scheme \<Rightarrow> ManifestEntry list" where
  "live_entries s service w =
     map (\<lambda>r. manifest_entry (ir_item r)) (filter (live_row s service) (catalog_items w))"

lemma manifest_entry_path [simp]: "me_Path (manifest_entry it) = RelPath it"
  by (simp add: manifest_entry_def RelPath_def zero_item_def)

text \<open>What a reader finds under the name of a manifest.\<close>

definition manifest_view :: "codec \<Rightarrow> Store \<Rightarrow> string \<Rightarrow> int \<Rightarrow> 'w cat_world_scheme \<Rightarrow> Manifest result" where
  "manifest_view c s service gen w = fst (ReadManifest c s service gen (w\<lparr>faults := []\<rparr>))"

lemma ReadManifest_world: "snd (ReadManifest c s service gen (w\<lparr>faults := []\<rparr>)) = w\<lparr>faults := []\<rparr>"
  by (auto simp: ReadManifest_def io_simps os_ReadFile_def split: sum.split option.split)

lemma manifest_view_file:
  assumes "manifestPath s service gen = Inr p" "file_at w p = Some (n @ gcm_Seal (sha256_Sum256 (Password s)) n (man_enc c m))"
    "length n = gcm_NonceSize" "codec_ok c"
  shows "manifest_view c s service gen w = Inr m"
  using assms
  by (simp add: manifest_view_def ReadManifest_def io_simps os_ReadFile_def decryptBytes_def codec_ok_def)

definition manifest_of :: "Store \<Rightarrow> string \<Rightarrow> int \<Rightarrow> gotime \<Rightarrow> 'w cat_world_scheme \<Rightarrow> Manifest" where
  "manifest_of s service gen created w =
     \<lparr>m_Service = service, m_Generation = gen, m_CreatedAt = created, m_Items = live_entries s service w\<rparr>"

lemma manifest_tmp [simp]: "p \<noteq> p @ ''.tmp''" "p @ ''.tmp'' \<noteq> p"
  by simp_all

lemma writeManifest_spec:
  assumes "cat_inv s w" "codec_ok c"
  shows "wp (writeManifest c s service gen created) (\<lambda>r w'. cat_inv s w' \<and> catalog_items w' = catalog_items w
      \<and> catalog_snapshots w' = catalog_snapshots w \<and> catalog_changes w' = catalog_changes w
      \<and> (r = Inr () \<longrightarrow> manifest_view c s service gen w' = Inr (manifest_of s service gen created w))) w"
proof (cases "manifestPath s service gen")
  case (Inl e)
  then show ?thesis
    using assms by (auto simp: writeManifest_def wp_simps Let_def intro!: wp_intros)
next
  case (Inr p)
  have root: "good_root (bs_root (Blobs s))" using assms by (auto simp: cat_inv_def cas_ok_root)
  note nb = manifest_not_blob [OF Inr root]
  note inv = cat_inv_other_file [of s p, OF nb(1)] cat_inv_other_file [of s "p @ ''.tmp''", OF nb(2)]
  show ?thesis
    using assms Inr
    by (auto simp: writeManifest_def wp_simps Let_def encryptBytes_def inv manifest_of_def live_entries_def
        intro!: wp_intros manifest_view_file [OF Inr]) (rule refl)+
qed

section \<open>Committing\<close>

lemma keeps_insertChanges:
  assumes "fault_free P" "\<And>w n. P (w\<lparr>uuid_next := n\<rparr>) = P w" "\<And>w c. P (w\<lparr>catalog_changes := c\<rparr>) = P w"
  shows "keeps P (insertChanges s gen changes)"
  unfolding insertChanges_def insertChangeExec_def
  using assms by (auto intro!: keeps_rules keeps_access keeps_exec keeps_uuid keeps_modify split: sum.split)

definition gen_rows :: "Store \<Rightarrow> string \<Rightarrow> 'w cat_world_scheme \<Rightarrow> Snapshot list" where
  "gen_rows s service w =
     filter (\<lambda>x. sn_TenantID x = TenantID s \<and> sn_Service x = service) (catalog_snapshots w)"

text \<open>What a new generation promises about the catalog it was taken from.\<close>

definition commit_ok :: "codec \<Rightarrow> Store \<Rightarrow> string \<Rightarrow> 'w cat_world_scheme \<Rightarrow> Snapshot \<Rightarrow> 'w cat_world_scheme \<Rightarrow> bool" where
  "commit_ok c s service w sn w' =
     (sn_TenantID sn = TenantID s \<and> sn_Service sn = service
      \<and> catalog_snapshots w' = catalog_snapshots w @ [sn]
      \<and> (\<forall>x \<in> set (gen_rows s service w). sn_Generation x < sn_Generation sn)
      \<and> manifest_view c s service (sn_Generation sn) w' = Inr (manifest_of s service (sn_Generation sn) (sn_CreatedAt sn) w)
      \<and> sn_ItemsLive sn = int (length (live_entries s service w))
      \<and> sn_BytesLive sn = sum_list (map me_Size (live_entries s service w)))"

lemma live_entries_env [simp]:
  "live_entries s service (w\<lparr>faults := a\<rparr>) = live_entries s service w"
  "live_entries s service (w\<lparr>pending := b\<rparr>) = live_entries s service w"
  "live_entries s service (w\<lparr>uuid_next := n\<rparr>) = live_entries s service w"
  by (simp_all add: live_entries_def)

lemma gen_rows_env [simp]:
  "gen_rows s service (w\<lparr>faults := a\<rparr>) = gen_rows s service w"
  "gen_rows s service (w\<lparr>pending := b\<rparr>) = gen_rows s service w"
  "gen_rows s service (w\<lparr>uuid_next := n\<rparr>) = gen_rows s service w"
  by (simp_all add: gen_rows_def)

lemma gen_after_less: "g \<in> set gs \<Longrightarrow> g < gen_after gs"
  by (auto simp: gen_after_def)

lemma gen_rows_less:
  "x \<in> set (gen_rows s service w) \<Longrightarrow> sn_Generation x < gen_after (map sn_Generation (gen_rows s service w))"
  by (rule gen_after_less) simp

lemma manifest_of_cong:
  "catalog_items w' = catalog_items w \<Longrightarrow> manifest_of s service gen t w' = manifest_of s service gen t w"
  by (simp add: manifest_of_def live_entries_def)

lemma live_entries_stats:
  "int (length (filter (live_row s service) (catalog_items w))) = int (length (live_entries s service w))"
  "(\<Sum>r\<leftarrow>filter (live_row s service) (catalog_items w). it_Size (ir_item r)) = sum_list (map me_Size (live_entries s service w))"
  by (simp_all add: live_entries_def comp_def manifest_entry_def)

lemma insertChanges_spec:
  assumes "cat_inv s w"
  shows "wp (insertChanges s gen changes) (\<lambda>_ w'. cat_inv s w' \<and> catalog_items w' = catalog_items w
      \<and> catalog_snapshots w' = catalog_snapshots w) w"
  by (rule wp_keeps [OF keeps_insertChanges]) (use assms in \<open>auto simp: fault_free_def\<close>)

lemma CommitSnapshot_spec:
  assumes "cat_inv s w" "codec_ok c"
  shows "wp (CommitSnapshot c s service jobID) (\<lambda>r w'. cat_inv s w' \<and> catalog_items w' = catalog_items w
      \<and> (\<forall>sn. r = Inr (Some sn) \<longrightarrow> \<not> sn_Skipped sn \<longrightarrow> commit_ok c s service w sn w')) w"
  using assms unfolding commit_ok_def
  by (auto simp: CommitSnapshot_def take_pending_def nextGeneration_def liveStats_def latestSnapshot_def
      insert_snapshot_def wp_simps Let_def live_entries_stats gen_rows_def [symmetric]
      intro!: wp_intros wp_mono [OF insertChanges_spec] wp_mono [OF writeManifest_spec] split: sum.split)
    (erule gen_rows_less | (rule manifest_of_cong, assumption))+

section \<open>Properties\<close>



section \<open>Witnesses\<close>

text \<open>A codec that satisfies the hypothesis, a store, an empty catalog and an item.\<close>

definition demo_codec :: codec where
  "demo_codec =
     \<lparr>man_enc = (\<lambda>m. replicate (to_nat (m_Service m, m_Generation m, m_CreatedAt m,
         map (\<lambda>e. (me_Path e, me_Hash e, me_Size e)) (m_Items m))) (CHR ''x'')),
      man_dec = (\<lambda>t. case from_nat (length t) of
         (sv, g, cr, es) \<Rightarrow> Inr \<lparr>m_Service = sv, m_Generation = g, m_CreatedAt = cr,
            m_Items = map (\<lambda>(p, h, n). \<lparr>me_Path = p, me_Hash = h, me_Size = n\<rparr>) es\<rparr>)\<rparr>"

lemma demo_codec_ok: "codec_ok demo_codec"
proof -
  have "(\<lambda>x. \<lparr>me_Path = me_Path x, me_Hash = me_Hash x, me_Size = me_Size x\<rparr>) = (\<lambda>x. x)" by (rule ext) simp
  then show ?thesis by (simp add: codec_ok_def demo_codec_def comp_def)
qed

definition demo_cat :: Store where
  "demo_cat =
     \<lparr>TenantID = ''t1'', Root = ''/srv/tenant'', Password = ''secret'', SkipRematch = True, TrackChanges = False\<rparr>"

definition empty_cat :: cat_world where
  "empty_cat =
     \<lparr>faults = [], clock = 1, uuid_src = show_nat, uuid_next = 0,
      files = [], torn = Some 3, rand_byte = (\<lambda>i. char_of i), rand_pos = 0,
      tenants = [], schedules = [], jobs = [], job_logs = [], delta_tokens = [],
      catalog_items = [], catalog_snapshots = [], catalog_changes = [], pending = [], seen = []\<rparr>"

definition demo_item :: Item where
  "demo_item = zero_item\<lparr>it_Service := ''onedrive'', it_GraphItemID := ''g1'', it_Mailbox := ''ada'', it_Name := ''a.txt''\<rparr>"

lemma demo_cat_inv: "cat_inv demo_cat empty_cat"
  by (simp add: cat_inv_def live_ok_def rows_ok_def cas_ok_def empty_cat_def demo_cat_def Blobs_def file_at_def
      good_root_def has_nul_def path_segs_def is_rooted_def)

lemma Put_ok:
  assumes "cat_inv s w" "faults w = []" "SkipRematch s" "it_Service it \<noteq> []" "it_GraphItemID it \<noteq> []"
  shows "fst (Put s it d w) = Inr ()" "faults (snd (Put s it d w)) = []"
    "catalog_snapshots (snd (Put s it d w)) = catalog_snapshots w"
    "\<not> TrackChanges s \<Longrightarrow> pending (snd (Put s it d w)) = pending w"
    "catalog_changes (snd (Put s it d w)) = catalog_changes w"
    "catalog_items (snd (Put s it d w)) = upsert_rows s (it\<lparr>it_BlobHash := Hash d, it_Size := int (length d), it_Deleted := False,
       it_MTime := (if it_MTime it = zero_time then clock w else it_MTime it)\<rparr>) (catalog_items w)"
proof -
  have cas: "cas_ok (Blobs s) w" using assms(1) by (simp add: cat_inv_def)
  obtain w1 where w1: "blob_Put (Blobs s) d w = (Inr (Hash d), w1)" "faults w1 = []"
    using blob_Put_ok(1,2) [OF cas assms(2), of d] by (metis prod.collapse)
  have "catalog_snapshots w1 = catalog_snapshots w" "pending w1 = pending w" "clock w1 = clock w"
    "catalog_changes w1 = catalog_changes w" "catalog_items w1 = catalog_items w"
    using keepsD [OF keeps_blob_ops(1) [of "\<lambda>v. catalog_snapshots v = catalog_snapshots w"] _ w1(1)]
      keepsD [OF keeps_blob_ops(1) [of "\<lambda>v. pending v = pending w"] _ w1(1)]
      keepsD [OF keeps_blob_ops(1) [of "\<lambda>v. clock v = clock w"] _ w1(1)]
      keepsD [OF keeps_blob_ops(1) [of "\<lambda>v. catalog_changes v = catalog_changes w"] _ w1(1)]
      keepsD [OF keeps_blob_ops(1) [of "\<lambda>v. catalog_items v = catalog_items w"] _ w1(1)]
    by (simp_all add: disk_free_def)
  with w1 show "fst (Put s it d w) = Inr ()" "faults (snd (Put s it d w)) = []"
    "catalog_snapshots (snd (Put s it d w)) = catalog_snapshots w"
    "\<not> TrackChanges s \<Longrightarrow> pending (snd (Put s it d w)) = pending w"
    "catalog_changes (snd (Put s it d w)) = catalog_changes w"
    "catalog_items (snd (Put s it d w)) = upsert_rows s (it\<lparr>it_BlobHash := Hash d, it_Size := int (length d), it_Deleted := False,
       it_MTime := (if it_MTime it = zero_time then clock w else it_MTime it)\<rparr>) (catalog_items w)"
    using assms by (simp_all add: Put_def io_simps Let_def rematchID_def upsertItem_def notePending_def)
qed


lemma commit_full_runs:
  assumes "cat_inv s w" "faults w = []" "pending w = []" "\<not> TrackChanges s" "service \<noteq> []"
    "manifestPath s service (gen_after (map sn_Generation (gen_rows s service w))) = Inr p"
    "\<forall>x \<in> set (catalog_snapshots w). sn_ID x \<noteq> uuid_src w (uuid_next w)"
  shows "\<exists>sn. fst (CommitSnapshot c s service jobID w) = Inr (Some sn) \<and> \<not> sn_Skipped sn
        \<and> sn_Generation sn = gen_after (map sn_Generation (gen_rows s service w))"
    "faults (snd (CommitSnapshot c s service jobID w)) = []"
    "catalog_changes (snd (CommitSnapshot c s service jobID w)) = catalog_changes w"
proof -
  have "\<not> (\<exists>x \<in> set (catalog_snapshots w). sn_TenantID x = TenantID s \<and> sn_Service x = service
      \<and> sn_Generation x = gen_after (map sn_Generation (gen_rows s service w)))"
  proof
    assume "\<exists>x \<in> set (catalog_snapshots w). sn_TenantID x = TenantID s \<and> sn_Service x = service
        \<and> sn_Generation x = gen_after (map sn_Generation (gen_rows s service w))"
    then obtain x where "x \<in> set (gen_rows s service w)"
      "sn_Generation x = gen_after (map sn_Generation (gen_rows s service w))"
      by (auto simp: gen_rows_def)
    with gen_rows_less [of x s service w] show False by simp
  qed
  then show "\<exists>sn. fst (CommitSnapshot c s service jobID w) = Inr (Some sn) \<and> \<not> sn_Skipped sn
        \<and> sn_Generation sn = gen_after (map sn_Generation (gen_rows s service w))"
    "faults (snd (CommitSnapshot c s service jobID w)) = []"
    "catalog_changes (snd (CommitSnapshot c s service jobID w)) = catalog_changes w"
    using assms
    by (simp_all add: CommitSnapshot_def take_pending_def nextGeneration_def liveStats_def insert_snapshot_def
        sql_guarded_def io_simps Let_def gen_rows_def insertChanges_def writeManifest_def
        os_MkdirAll_def encryptBytes_def rand_Read_def os_WriteFile_def os_Rename_def os_ReadFile_def
        put_file_def del_file_def file_at_def update_conv' ball_conj_distrib)
qed

text \<open>The demo item is stored, then committed as the first generation.\<close>

definition demo_world :: cat_world where
  "demo_world = snd (Put demo_cat demo_item ''hello'' empty_cat)"

lemma demo_world_facts:
  "cat_inv demo_cat demo_world" "faults demo_world = []" "pending demo_world = []"
  "catalog_snapshots demo_world = []"
  "item_at ''t1'' (catalog_items demo_world) (''onedrive'', ''g1'') \<noteq> None"
proof -
  have pre: "faults empty_cat = []" "SkipRematch demo_cat" "it_Service demo_item \<noteq> []" "it_GraphItemID demo_item \<noteq> []"
    "pending empty_cat = []" "catalog_snapshots empty_cat = []" "\<not> TrackChanges demo_cat"
    by (simp_all add: empty_cat_def demo_cat_def demo_item_def)
  note ok = Put_ok [OF demo_cat_inv pre(1-4), of "''hello''", folded demo_world_def]
  show "faults demo_world = []" "pending demo_world = []" "catalog_snapshots demo_world = []" using ok pre by simp_all
  note spec = wpD [OF Put_spec [OF demo_cat_inv, of demo_item "''hello''"] prod.collapse [symmetric], folded demo_world_def]
  show "cat_inv demo_cat demo_world" using spec by simp
  show "item_at ''t1'' (catalog_items demo_world) (''onedrive'', ''g1'') \<noteq> None"
    using spec ok(1) by (auto simp: demo_cat_def demo_item_def)
qed

lemma demo_rows:
  "catalog_items demo_world = upsert_rows demo_cat (demo_item\<lparr>it_BlobHash := Hash ''hello'', it_Size := 5,
      it_Deleted := False, it_MTime := 1\<rparr>) []" "catalog_changes demo_world = []"
  using Put_ok(5,6) [OF demo_cat_inv, of demo_item "''hello''"]
  by (simp_all add: demo_world_def empty_cat_def demo_cat_def demo_item_def zero_item_def)

lemma demo_manifestPath: "manifestPath demo_cat ''onedrive'' 1 = Inr ''/srv/tenant/manifests/onedrive/1.json.zst''"
  by code_simp

lemma demo_commit:
  "\<exists>sn. fst (CommitSnapshot demo_codec demo_cat ''onedrive'' ''job'' demo_world) = Inr (Some sn) \<and> \<not> sn_Skipped sn
     \<and> sn_Generation sn = 1"
  "faults (snd (CommitSnapshot demo_codec demo_cat ''onedrive'' ''job'' demo_world)) = []"
  "catalog_changes (snd (CommitSnapshot demo_codec demo_cat ''onedrive'' ''job'' demo_world)) = catalog_changes demo_world"
proof -
  have "gen_after (map sn_Generation (gen_rows demo_cat ''onedrive'' demo_world)) = 1"
    by (simp add: demo_world_facts gen_rows_def gen_after_def)
  moreover have "\<not> TrackChanges demo_cat" by (simp add: demo_cat_def)
  ultimately show "\<exists>sn. fst (CommitSnapshot demo_codec demo_cat ''onedrive'' ''job'' demo_world) = Inr (Some sn) \<and> \<not> sn_Skipped sn
     \<and> sn_Generation sn = 1"
    "faults (snd (CommitSnapshot demo_codec demo_cat ''onedrive'' ''job'' demo_world)) = []"
    "catalog_changes (snd (CommitSnapshot demo_codec demo_cat ''onedrive'' ''job'' demo_world)) = catalog_changes demo_world"
    using commit_full_runs [OF demo_world_facts(1-3), of "''onedrive''", where c = demo_codec and jobID = "''job''"]
    by (simp_all add: demo_manifestPath demo_world_facts)
qed


end
