(* ===== verification/Catalog_Import.thy ===== *)
theory Catalog_Import
  imports Catalog_Snapshots
begin

text \<open>
  Import of a plain \<open>sync/\<close> tree into an empty catalog (\<open>internal/catalog/import.go\<close>) and the question
  whether anything is there to increment from. Directories are not part of the disk of the model: a
  directory is there when a file is below it.
\<close>

section \<open>Operations\<close>

definition importServices :: "string list" where
  "importServices = [''exchange'', ''onedrive'', ''teams'', ''sharepoint'']"

definition dirHasFiles :: "string \<Rightarrow> 'w fs_world_scheme \<Rightarrow> bool" where
  "dirHasFiles root w = (files_below root w \<noteq> [])"

text \<open>The position after the last \<open>__\<close> of a file name without its extension, if an id follows.\<close>

definition emlShortFromName :: "string \<Rightarrow> string option" where
  "emlShortFromName name =
     (let base = strings_TrimSuffix name (filepath_Ext name)
      in case strings_LastIndex base ''__'' of
           None \<Rightarrow> None
         | Some i \<Rightarrow>
             (if i + 2 \<ge> length base then None
              else (let ident = drop (i + 2) base
                    in if length ident < 6 \<or> length ident > 16 then None else Some ident)))"

definition SubjectFromEMLFilename :: "string \<Rightarrow> string option" where
  "SubjectFromEMLFilename name =
     (let base = strings_TrimSuffix name (filepath_Ext name)
      in case strings_LastIndex base ''__'' of
           None \<Rightarrow> None
         | Some i \<Rightarrow>
             (if i = 0 \<or> i + 2 \<ge> length base then None
              else (let ident = drop (i + 2) base
                    in if length ident < 6 \<or> length ident > 16 then None
                       else (let subj = strings_TrimSpace (strings_ReplaceAll (take i base) ''_'' '' '')
                             in if subj = [] \<or> subj = ''ohne-betreff'' then None else Some subj))))"

definition itemFromSyncPath :: "string \<Rightarrow> string \<Rightarrow> string \<Rightarrow> Item" where
  "itemFromSyncPath service rel name =
     (let parts = strings_Split slash rel;
          it0 = zero_item\<lparr>it_Service := service, it_Name := name, it_ContentType := ''application/octet-stream'',
                  it_Mailbox := hd parts\<rparr>;
          it1 = (if length parts = 2 then it0\<lparr>it_ParentPath := [], it_Name := parts ! 1\<rparr>
                 else if length parts \<ge> 3
                 then it0\<lparr>it_ParentPath := strings_Join (butlast (tl parts)) ''/'', it_Name := last parts\<rparr>
                 else it0)
      in if service = ''exchange'' then
           (case emlShortFromName (it_Name it1) of
              Some short \<Rightarrow>
                it1\<lparr>it_GraphItemID := ImportEMLPrefix @ short, it_ContentType := ''message/rfc822'',
                    it_Subject := (case SubjectFromEMLFilename (it_Name it1) of Some subj \<Rightarrow> subj | None \<Rightarrow> it_Subject it1)\<rparr>
            | None \<Rightarrow> it1\<lparr>it_GraphItemID := ImportPathPrefix @ rel\<rparr>)
         else it1\<lparr>it_GraphItemID := ImportPathPrefix @ rel\<rparr>)"

text \<open>The walk over the files below \<open>base\<close>: meta files, hidden files and unreadable files are passed over.\<close>

fun import_files :: "Store \<Rightarrow> string \<Rightarrow> string \<Rightarrow> string list \<Rightarrow> nat \<Rightarrow> ('w cat_world_scheme, nat) io" where
  "import_files s service base [] n = ret n"
| "import_files s service base (path # paths) n =
     (let name = last (strings_Split slash path); rel = drop (length base + 1) path
      in if name = ''BACKUP_META.txt'' \<or> name = ''SNAPSHOT_ROOT.txt'' \<or> strings_HasPrefix name ''.'' \<or> strings_Contains rel ''..''
         then import_files s service base paths n
         else attempt (os_ReadFile path) (\<lambda>r. case r of
             Inl _ \<Rightarrow> import_files s service base paths n
           | Inr data \<Rightarrow>
               (let it = itemFromSyncPath service rel name
                in if it_GraphItemID it = [] then import_files s service base paths n
                   else bindE (Put s it data) (\<lambda>_. import_files s service base paths (Suc n)))))"

definition importSyncService :: "Store \<Rightarrow> string \<Rightarrow> ('w cat_world_scheme, nat) io" where
  "importSyncService s service =
     (let base = path_Join [Root s, ''sync'', service]
      in attempt access (\<lambda>st. case st of
           Inl _ \<Rightarrow> ret 0
         | Inr _ \<Rightarrow> bindE (gets (\<lambda>w. map fst (files_below base w))) (\<lambda>paths.
             import_files s service base paths 0)))"

definition RemoveLegacyDirs :: "string \<Rightarrow> ('w fs_world_scheme, unit) io" where
  "RemoveLegacyDirs tenantRoot =
     (case GuardPath tenantRoot of
        Inl _ \<Rightarrow> ret ()
      | Inr _ \<Rightarrow>
          bindE (ignore (os_RemoveAll (path_Join [tenantRoot, ''repo'']))) (\<lambda>_.
          bindE (ignore (os_Remove (path_Join [tenantRoot, ''kopia.config'']))) (\<lambda>_.
            ignore (os_RemoveAll (path_Join [tenantRoot, ''.kopia-cache''])))))"

fun import_services :: "codec \<Rightarrow> Store \<Rightarrow> string \<Rightarrow> string \<Rightarrow> string list \<Rightarrow> bool \<Rightarrow> ('w cat_world_scheme, bool) io" where
  "import_services c s jobService jobID [] imported = ret imported"
| "import_services c s jobService jobID (svc # svcs) imported =
     attempt (importSyncService s svc) (\<lambda>r. case r of
       Inl e \<Rightarrow> throw (Wrap (''import sync/'' @ svc) e)
     | Inr n \<Rightarrow>
         (if n = 0 then import_services c s jobService jobID svcs imported
          else attempt (CommitSnapshot c s svc (if svc = jobService then jobID else [])) (\<lambda>q. case q of
            Inl e \<Rightarrow> throw (Wrap (''commit import '' @ svc) e)
          | Inr _ \<Rightarrow> import_services c s jobService jobID svcs True)))"

text \<open>Whether something was imported, and whether a full sync from Graph is needed.\<close>

definition EnsureMigrated :: "codec \<Rightarrow> Store \<Rightarrow> string \<Rightarrow> string \<Rightarrow> ('w cat_world_scheme, bool \<times> bool) io" where
  "EnsureMigrated c s jobService jobID =
     bindE (HasSnapshots s) (\<lambda>hasSnap.
       if hasSnap then ret (False, False)
       else (let syncRoot = path_Join [Root s, ''sync'']
             in bindE (gets (dirHasFiles syncRoot)) (\<lambda>present.
                  if \<not> present then ret (False, True)
                  else bindE (import_services c s jobService jobID importServices False) (\<lambda>imported.
                       attempt (os_RemoveAll syncRoot) (\<lambda>r. case r of
                         Inl e \<Rightarrow> throw (Wrap ''remove sync/'' e)
                       | Inr _ \<Rightarrow> bindE (RemoveLegacyDirs (Root s)) (\<lambda>_. ret (imported, False)))))))"

definition EmptyLocalData :: "string \<Rightarrow> string \<Rightarrow> string \<Rightarrow> ('w db_world_scheme, bool \<times> bool) io" where
  "EmptyLocalData tenantID root service =
     (if tenantID = [] then throw (Err ''empty local data: database and tenant required'')
      else
        bindE (countSnapshots tenantID []) (\<lambda>nAll.
        bindE (countLiveItems tenantID []) (\<lambda>liveAll.
        bindE (gets (\<lambda>w. nAll = 0 \<and> liveAll = 0 \<and> \<not> dirHasFiles (path_Join [root, ''sync'']) w
            \<and> \<not> dirHasFiles (path_Join [root, ''blobs'']) w \<and> \<not> dirHasFiles (path_Join [root, ''manifests'']) w)) (\<lambda>tenantEmpty.
          if service = [] then ret (tenantEmpty, tenantEmpty)
          else
            bindE (countSnapshots tenantID service) (\<lambda>nSvc.
            bindE (countLiveItems tenantID service) (\<lambda>liveSvc.
            bindE (gets (\<lambda>w. nSvc = 0 \<and> liveSvc = 0 \<and> \<not> dirHasFiles (path_Join [root, ''sync'', service]) w
                \<and> \<not> dirHasFiles (path_Join [root, ''manifests'', service]) w)) (\<lambda>serviceEmpty.
              ret (serviceEmpty, tenantEmpty))))))))"

section \<open>The place of an imported file\<close>

lemma Join_first: "segs \<noteq> [] \<Longrightarrow> hd segs \<noteq> [] \<Longrightarrow> hd (strings_Join segs ''/'') = hd (hd segs)"
  by (cases segs; cases "tl segs") auto

lemma Join_last: "segs \<noteq> [] \<Longrightarrow> last segs \<noteq> [] \<Longrightarrow> last (strings_Join segs ''/'') = last (last segs)"
  by (induction segs rule: induct_list012) (auto simp: Join_single_Cons)

lemma Join_not_Nil: "segs \<noteq> [] \<Longrightarrow> hd segs \<noteq> [] \<Longrightarrow> strings_Join segs ''/'' \<noteq> []"
  by (cases segs; cases "tl segs") auto

lemma dropWhile_first: "s \<noteq> [] \<Longrightarrow> \<not> P (hd s) \<Longrightarrow> dropWhile P s = s"
  by (cases s) auto

lemma Trim_ends: "s \<noteq> [] \<Longrightarrow> hd s \<noteq> c \<Longrightarrow> last s \<noteq> c \<Longrightarrow> strings_Trim s c = s"
  by (simp add: strings_Trim_def strings_TrimRight_def dropWhile_first hd_rev)

lemma Trim_clean:
  assumes "clean_list segs"
  shows "strings_Trim (strings_Join segs ''/'') slash = strings_Join segs ''/''"
proof (cases "segs = []")
  case False
  have seg: "s \<noteq> [] \<and> slash \<notin> set s" if "s \<in> set segs" for s
    using assms that by (auto simp: clean_list_def)
  have "hd segs \<in> set segs" "last segs \<in> set segs" using False by auto
  with seg have "hd segs \<noteq> []" "last segs \<noteq> []" "hd (hd segs) \<noteq> slash" "last (last segs) \<noteq> slash"
    by (metis list.set_sel(1), metis, metis list.set_sel(1), metis last_in_set)
  then show ?thesis
    using False by (intro Trim_ends) (simp_all add: Join_first Join_last Join_not_Nil)
qed (simp add: strings_Trim_def strings_TrimRight_def)

lemma path_Join_clean:
  assumes "clean_list segs"
  shows "path_Join segs = strings_Join segs ''/''"
proof (cases "segs = []")
  case False
  have "filter (\<lambda>e. e \<noteq> []) segs = segs" using assms by (auto simp: clean_list_def filter_id_conv)
  moreover have "path_Clean (strings_Join segs ''/'') = strings_Join segs ''/''"
    using path_Clean_render [OF assms, of False] False by (simp add: render_path_def)
  ultimately show ?thesis using False by (simp add: path_Join_def)
qed (simp add: path_Join_def)

lemma item_place:
  "it_Mailbox (itemFromSyncPath service rel name) = hd (strings_Split slash rel)"
  "length (strings_Split slash rel) = 2 \<Longrightarrow>
     it_ParentPath (itemFromSyncPath service rel name) = [] \<and> it_Name (itemFromSyncPath service rel name) = strings_Split slash rel ! 1"
  "3 \<le> length (strings_Split slash rel) \<Longrightarrow>
     it_ParentPath (itemFromSyncPath service rel name) = strings_Join (butlast (tl (strings_Split slash rel))) ''/''
     \<and> it_Name (itemFromSyncPath service rel name) = last (strings_Split slash rel)"
  by (auto simp: itemFromSyncPath_def Let_def zero_item_def split: option.split)

lemma clean_list_sub: "clean_list segs \<Longrightarrow> set ys \<subseteq> set segs \<Longrightarrow> clean_list ys"
  by (auto simp: clean_list_def)

lemma RelPath_place:
  assumes "it_Mailbox it = a" "it_ParentPath it = strings_Join mid ''/''" "it_Name it = z"
    "clean_list (a # mid @ [z])"
  shows "RelPath it = strings_Join (a # mid @ [z]) ''/''"
proof -
  have mid: "clean_list mid" using assms(4) by simp
  have "strings_Split slash (strings_Join mid ''/'') = mid" if "mid \<noteq> []"
    using mid that by (intro Split_Join) (auto simp: clean_list_def)
  moreover have "strings_Join mid ''/'' \<noteq> []" if "mid \<noteq> []"
    using mid that by (intro Join_not_Nil) (auto simp: clean_list_def)
  ultimately have "RelPath it = path_Join (a # mid @ [z])"
    using assms by (cases "mid = []") (auto simp: RelPath_def Trim_clean)
  then show ?thesis using path_Join_clean [OF assms(4)] by simp
qed

text \<open>
  An imported file keeps its place. For a file at \<open>sync/<service>/<rel>\<close> with at least one
  directory in \<open>rel\<close>, the item that \<open>itemFromSyncPath\<close> makes of it has \<open>rel\<close> as its path in the
  catalog, so the manifest of the imported generation shows the tree that was on the disk.
\<close>

theorem itemFromSyncPath_keeps_place:
  assumes "clean_list segs" "2 \<le> length segs"
  shows "RelPath (itemFromSyncPath service (strings_Join segs ''/'') name) = strings_Join segs ''/''"
proof -
  let ?it = "itemFromSyncPath service (strings_Join segs ''/'') name"
  have split: "strings_Split slash (strings_Join segs ''/'') = segs"
    using assms by (intro Split_Join) (auto simp: clean_list_def)
  obtain a mid z where segs: "segs = a # mid @ [z]"
    using assms(2) by (metis One_nat_def Suc_1 Suc_le_length_iff append_butlast_last_id list.size(3) not_less_eq_eq zero_le)
  have "it_Mailbox ?it = a \<and> it_ParentPath ?it = strings_Join mid ''/'' \<and> it_Name ?it = z"
    using item_place [where rel = "strings_Join segs ''/''" and name = name and service = service]
    unfolding split by (cases mid) (auto simp: segs)
  then show ?thesis using RelPath_place [of ?it a mid z] assms(1) unfolding segs by blast
qed

theorem itemFromSyncPath_keeps_place_witness:
  "RelPath (itemFromSyncPath ''exchange'' ''anna@contoso.com/Inbox/2024/Hello__abcdef12.eml'' ''Hello__abcdef12.eml'')
     = ''anna@contoso.com/Inbox/2024/Hello__abcdef12.eml''"
  using itemFromSyncPath_keeps_place
    [of "[''anna@contoso.com'', ''Inbox'', ''2024'', ''Hello__abcdef12.eml'']" "''exchange''" "''Hello__abcdef12.eml''"]
  by (simp add: clean_list_def)

text \<open>
  A file directly in \<open>sync/<service>/\<close> does not keep its place: its name becomes the mailbox as
  well, and the item is catalogued below a directory that carries the file's own name.
\<close>

theorem itemFromSyncPath_top_level:
  assumes "clean_list [f]" "service \<noteq> ''exchange''"
  shows "RelPath (itemFromSyncPath service f f) = f @ ''/'' @ f"
proof -
  have "strings_Split slash f = [f]" using assms by (intro Split_no_sep) simp
  then have "it_Mailbox (itemFromSyncPath service f f) = f" "it_ParentPath (itemFromSyncPath service f f) = []"
    "it_Name (itemFromSyncPath service f f) = f"
    using assms(2) by (simp_all add: itemFromSyncPath_def Let_def zero_item_def)
  then have "RelPath (itemFromSyncPath service f f) = path_Join [f, f]"
    using assms(1) by (simp add: RelPath_def)
  then show ?thesis using assms(1) path_Join_clean [of "[f, f]"] by simp
qed

theorem itemFromSyncPath_top_level_witness:
  "RelPath (itemFromSyncPath ''onedrive'' ''report.docx'' ''report.docx'') = ''report.docx/report.docx''"
  using itemFromSyncPath_top_level [of "''report.docx''" "''onedrive''"] by simp

end
