(* ===== verification/Usage.thy ===== *)
theory Usage
  imports Retention Disk
begin

text \<open>
  Sizes and their display (\<open>internal/storage/usage.go\<close>), and the selection of snapshots by service
  (\<open>engine.go\<close>, \<open>annotate.go\<close>).

  \<open>FormatBytes\<close> divides in floating point; the dividend is the 53-bit rounding of the number, the
  divisor a power of two, so that the quotient is exact and the formatting verbs round it half to
  even. Its table of suffixes ends at \<open>P\<close>, and indexing it beyond its end panics.
\<close>

fun unit_loop :: "int \<Rightarrow> int \<Rightarrow> nat \<Rightarrow> int \<times> nat" where
  "unit_loop v dv ex = (if v \<ge> 1024 then unit_loop (v div 1024) (dv * 1024) (Suc ex) else (dv, ex))"

declare unit_loop.simps [simp del]

fun bit_length :: "nat \<Rightarrow> nat" where
  "bit_length n = (if n = 0 then 0 else Suc (bit_length (n div 2)))"

declare bit_length.simps [simp del]

text \<open>Division rounded to the nearest integer, ties to even.\<close>

definition round_div :: "int \<Rightarrow> int \<Rightarrow> int" where
  "round_div a b =
     (let q = a div b; r = a mod b
      in if 2 * r > b \<or> (2 * r = b \<and> odd q) then q + 1 else q)"

definition float_of_int :: "int \<Rightarrow> int" where
  "float_of_int n =
     (if n < 2 ^ 53 then n
      else (let k = bit_length (nat n) - 53 in round_div n (2 ^ k) * 2 ^ k))"

definition byte_suffixes :: "string list" where
  "byte_suffixes = [''K'', ''M'', ''G'', ''T'', ''P'']"

definition FormatBytes :: "int \<Rightarrow> string result" where
  "FormatBytes n0 =
     (let n = (if n0 < 0 then 0 else n0)
      in if n < 1024 then Inr (show_int n @ '' B'')
         else
           (let (dv, ex) = unit_loop (n div 1024) 1024 0; f = float_of_int n
            in if ex \<ge> length byte_suffixes then Inl (Panic ''index out of range'')
               else
                 (let suffix = byte_suffixes ! ex
                  in if f \<ge> 10 * dv then Inr (show_int (round_div f dv) @ '' '' @ suffix @ ''B'')
                     else (let t = round_div (10 * f) dv
                           in Inr (show_int (t div 10) @ ''.'' @ show_int (t mod 10) @ '' '' @ suffix @ ''B'')))))"

definition DirSize :: "string \<Rightarrow> 'w fs_world_scheme \<Rightarrow> int" where
  "DirSize root w = sum_list (map (\<lambda>(p, d). int (length d)) (files_below root w))"

definition sumMap :: "(string \<times> int) list \<Rightarrow> int" where
  "sumMap m = sum_list (map snd m)"

definition InferServiceFromSource :: "string \<Rightarrow> string" where
  "InferServiceFromSource source =
     (let s = strings_ToLower source
      in if strings_Contains s ''/sync/exchange'' \<or> strings_HasSuffix s ''/exchange'' then ''exchange''
         else if strings_Contains s ''/sync/onedrive'' \<or> strings_HasSuffix s ''/onedrive'' then ''onedrive''
         else if strings_Contains s ''/teams'' \<or> strings_HasSuffix s ''/teams'' then ''teams''
         else if strings_Contains s ''/sharepoint'' \<or> strings_HasSuffix s ''/sharepoint'' then ''sharepoint''
         else [])"

definition AnnotateServices :: "SnapshotInfo list \<Rightarrow> (string \<times> string) list \<Rightarrow> SnapshotInfo list" where
  "AnnotateServices snaps snapService =
     map (\<lambda>sn. if si_Service sn \<noteq> [] then sn
               else (case map_of snapService (si_ID sn) of
                       Some svc \<Rightarrow> sn\<lparr>si_Service := (if svc \<noteq> [] then svc else InferServiceFromSource (si_Source sn))\<rparr>
                     | None \<Rightarrow> sn\<lparr>si_Service := InferServiceFromSource (si_Source sn)\<rparr>)) snaps"

definition LatestSnapshotForService :: "SnapshotInfo list \<Rightarrow> string \<Rightarrow> SnapshotInfo option" where
  "LatestSnapshotForService snaps service0 =
     (let service = strings_ToLower (strings_TrimSpace service0)
      in if service = [] then None
         else find (\<lambda>sn. strings_EqualFold
                (if si_Service sn = [] then InferServiceFromSource (si_Source sn) else si_Service sn) service) snaps)"

definition FilterByService :: "SnapshotInfo list \<Rightarrow> string \<Rightarrow> SnapshotInfo list" where
  "FilterByService snaps service0 =
     (let service = strings_ToLower (strings_TrimSpace service0)
      in if service = [] \<or> service = ''all'' then snaps
         else filter (\<lambda>sn. strings_EqualFold (si_Service sn) service) snaps)"

section \<open>When the display panics\<close>

lemma le_div_iff_int:
  fixes x v d :: int
  assumes "0 < d"
  shows "x \<le> v div d \<longleftrightarrow> d * x \<le> v"
proof
  assume "x \<le> v div d"
  then have "d * x \<le> d * (v div d)" using assms by (intro mult_left_mono) simp_all
  also have "\<dots> \<le> v" using mult_div_mod_eq [of d v] pos_mod_sign [OF assms, of v] by linarith
  finally show "d * x \<le> v" .
next
  assume "d * x \<le> v"
  then show "x \<le> v div d" using zdiv_mono1 [of "d * x" v d] assms by simp
qed

lemma unit_loop_exp:
  assumes "0 \<le> v"
  shows "ex + k < snd (unit_loop v dv ex) \<longleftrightarrow> 1024 ^ Suc k \<le> v"
  using assms
proof (induction v dv ex arbitrary: k rule: unit_loop.induct)
  case (1 v dv ex)
  show ?case
  proof (cases "v \<ge> 1024")
    case False
    have "(1024::int) * 1 \<le> 1024 * 1024 ^ k" by (rule mult_left_mono) simp_all
    with False have "\<not> 1024 ^ Suc k \<le> v" unfolding power_Suc by linarith
    with False show ?thesis by (subst unit_loop.simps) simp
  next
    case True
    have step: "unit_loop v dv ex = unit_loop (v div 1024) (dv * 1024) (Suc ex)"
      using True by (subst unit_loop.simps) simp
    show ?thesis
    proof (cases k)
      case 0
      have "Suc ex \<le> snd (unit_loop u d (Suc ex))" for u d
        by (induction u d "Suc ex" arbitrary: ex rule: unit_loop.induct)
          (subst unit_loop.simps, auto intro: Suc_leD)
      with True 0 step show ?thesis by (simp add: Suc_le_eq)
    next
      case (Suc j)
      have "Suc ex + j < snd (unit_loop (v div 1024) (dv * 1024) (Suc ex)) \<longleftrightarrow> 1024 ^ Suc j \<le> v div 1024"
        using 1 True by simp
      also have "\<dots> \<longleftrightarrow> 1024 ^ Suc k \<le> v" using Suc by (subst le_div_iff_int) simp_all
      finally show ?thesis using step Suc by simp
    qed
  qed
qed

text \<open>
  \<open>FormatBytes\<close> returns a text for every number below \<open>2 ^ 60\<close> and panics for every 64-bit
  number from there on, as its table of suffixes has no entry for exabytes.
\<close>

theorem FormatBytes_panics:
  "(\<exists>s. FormatBytes n = Inr s) \<longleftrightarrow> n < 2 ^ 60"
proof (cases "n < 1024")
  case True
  then show ?thesis by (simp add: FormatBytes_def Let_def)
next
  case False
  obtain dv ex where loop: "unit_loop (n div 1024) 1024 0 = (dv, ex)" by fastforce
  have "4 < ex \<longleftrightarrow> 1024 ^ Suc 4 \<le> n div 1024"
    using unit_loop_exp [of "n div 1024" 0 4 1024] False loop by simp
  also have "\<dots> \<longleftrightarrow> 2 ^ 60 \<le> n" by (subst le_div_iff_int) simp_all
  finally have "ex \<ge> length byte_suffixes \<longleftrightarrow> 2 ^ 60 \<le> n" by (auto simp: byte_suffixes_def)
  then show ?thesis using False loop by (auto simp: FormatBytes_def Let_def)
qed

end
