(* ===== verification/Backup_Service.thy ===== *)
theory Backup_Service
  imports Catalog_Import Usage
begin

text \<open>
  What the services of a backup share (\<open>internal/backup/service.go\<close>, \<open>progress.go\<close>, \<open>heartbeat.go\<close>,
  \<open>delta.go\<close>, \<open>reuse.go\<close>): the result of a run with its counters and log lines, the progress reports
  into the job row and the job log, the check points of a delta query, and the decision whether the
  content of an item has to be fetched again.

  The mutex of a \<open>Result\<close> makes each of its operations atomic; an operation is a function on the record.
  Lines for the process log are not part of the state. The counters are unbounded integers; the program
  counts items and bytes in 64 bits.
\<close>

section \<open>Results and progress\<close>

record LogLine =
  ll_Level :: string
  ll_Message :: string

record Progress =
  pg_JobID :: string
  pg_Tenant :: string
  pg_Service :: string

record Result =
  rs_ItemsNew :: int
  rs_ItemsTotal :: int
  rs_BytesTransferred :: int
  rs_SkippedUsers :: int
  rs_Warnings :: "string list"
  rs_Logs :: "LogLine list"
  rs_SkipSnapshot :: bool
  rs_ExportPath :: string
  rs_progress :: "Progress option"
  rs_livePersisted :: bool

definition NewResult :: "Progress option \<Rightarrow> Result" where
  "NewResult p =
     \<lparr>rs_ItemsNew = 0, rs_ItemsTotal = 0, rs_BytesTransferred = 0, rs_SkippedUsers = 0, rs_Warnings = [],
      rs_Logs = [], rs_SkipSnapshot = False, rs_ExportPath = [], rs_progress = p, rs_livePersisted = False\<rparr>"

definition zero_log :: JobLog where
  "zero_log = \<lparr>l_ID = [], l_JobID = [], l_Level = [], l_Message = [], l_CreatedAt = zero_time\<rparr>"

definition Emit :: "Progress option \<Rightarrow> string \<Rightarrow> string \<Rightarrow> ('w db_world_scheme, unit) io" where
  "Emit p level msg =
     (case p of
        None \<Rightarrow> ret ()
      | Some q \<Rightarrow>
          (if pg_JobID q = [] then ret ()
           else ignore (InsertJobLog (zero_log\<lparr>l_JobID := pg_JobID q, l_Level := level, l_Message := msg\<rparr>))))"

definition clampPct :: "int \<Rightarrow> int" where
  "clampPct pct = (if pct < 0 then 0 else if pct > 100 then 100 else pct)"

text \<open>The counters of a result into the job: the caller's job is updated as well as its row.\<close>

definition SyncJob :: "Progress option \<Rightarrow> Job \<Rightarrow> Result \<Rightarrow> int \<Rightarrow> string \<Rightarrow> ('w db_world_scheme, Job) io" where
  "SyncJob p job res pct msg =
     (if p = None then ret job
      else (let job' = job\<lparr>j_ItemsNew := rs_ItemsNew res, j_ItemsTotal := rs_ItemsTotal res,
                  j_BytesTransferred := rs_BytesTransferred res, j_ProgressPct := clampPct pct,
                  j_ProgressMessage := (if msg \<noteq> [] then msg else j_ProgressMessage job)\<rparr>
            in bindE (ignore (UpdateJobProgress job')) (\<lambda>_. ret job')))"

definition res_live :: "Result \<Rightarrow> Result" where
  "res_live r = (if rs_progress r = None then r else r\<lparr>rs_livePersisted := True\<rparr>)"

definition res_Info :: "string \<Rightarrow> Result \<Rightarrow> ('w db_world_scheme, Result) io" where
  "res_Info msg r =
     bindE (Emit (rs_progress r) ''info'' msg) (\<lambda>_.
       ret (res_live (r\<lparr>rs_Logs := rs_Logs r @ [\<lparr>ll_Level = ''info'', ll_Message = msg\<rparr>]\<rparr>)))"

definition res_Warn :: "string \<Rightarrow> Result \<Rightarrow> ('w db_world_scheme, Result) io" where
  "res_Warn msg r =
     bindE (Emit (rs_progress r) ''warn'' msg) (\<lambda>_.
       ret (res_live (r\<lparr>rs_Warnings := rs_Warnings r @ [msg],
                       rs_Logs := rs_Logs r @ [\<lparr>ll_Level = ''warn'', ll_Message = msg\<rparr>]\<rparr>)))"

definition res_Error :: "string \<Rightarrow> Result \<Rightarrow> ('w db_world_scheme, Result) io" where
  "res_Error msg r =
     bindE (Emit (rs_progress r) ''error'' msg) (\<lambda>_.
       ret (res_live (r\<lparr>rs_Logs := rs_Logs r @ [\<lparr>ll_Level = ''error'', ll_Message = msg\<rparr>]\<rparr>)))"

definition res_Skip :: "Result \<Rightarrow> Result" where
  "res_Skip r = r\<lparr>rs_SkippedUsers := rs_SkippedUsers r + 1\<rparr>"

definition addItems :: "int \<Rightarrow> int \<Rightarrow> Result \<Rightarrow> Result" where
  "addItems n bytes r =
     r\<lparr>rs_ItemsNew := rs_ItemsNew r + n, rs_BytesTransferred := rs_BytesTransferred r + bytes\<rparr>"

definition addTotal :: "int \<Rightarrow> Result \<Rightarrow> Result" where
  "addTotal n r = r\<lparr>rs_ItemsTotal := rs_ItemsTotal r + n\<rparr>"

definition res_snapshot :: "Result \<Rightarrow> int \<times> int \<times> int \<times> int" where
  "res_snapshot r = (rs_ItemsNew r, rs_ItemsTotal r, rs_SkippedUsers r, rs_BytesTransferred r)"

section \<open>Heartbeat\<close>

definition heartbeatInterval :: int where
  "heartbeatInterval = 5 * ns_per_sec"

definition heartbeatEveryN :: int where
  "heartbeatEveryN = 250"

record progressHeartbeat =
  hb_interval :: int
  hb_everyN :: int
  hb_last :: gotime

text \<open>Whether to report after change number \<open>n\<close>, at the time \<open>now\<close>, and the new state.\<close>

definition shouldFire :: "gotime \<Rightarrow> int \<Rightarrow> progressHeartbeat \<Rightarrow> bool \<times> progressHeartbeat" where
  "shouldFire now n h =
     (if n = 0 then (False, h)
      else if hb_everyN h > 0 \<and> n mod hb_everyN h = 0 then (True, h\<lparr>hb_last := now\<rparr>)
      else if time_Sub now (hb_last h) \<ge> hb_interval h then (True, h\<lparr>hb_last := now\<rparr>)
      else (False, h))"

section \<open>Check points of a delta query\<close>

text \<open>A pointer to a string is an option; the next link wins over the delta link.\<close>

definition odataResumeURL :: "string option \<Rightarrow> string option \<Rightarrow> string" where
  "odataResumeURL next delta =
     (case next of
        Some (c # cs) \<Rightarrow> c # cs
      | _ \<Rightarrow> (case delta of Some (c # cs) \<Rightarrow> c # cs | _ \<Rightarrow> []))"

definition sync_token :: "string \<Rightarrow> string \<Rightarrow> string \<Rightarrow> string \<Rightarrow> DeltaToken" where
  "sync_token tenantID service userKey url =
     \<lparr>dt_ID = [], dt_TenantID = tenantID, dt_Service = service, dt_UserID = userKey, dt_Token = url, dt_UpdatedAt = zero_time\<rparr>"

definition persistDeltaURL :: "string \<Rightarrow> string \<Rightarrow> string \<Rightarrow> string \<Rightarrow> ('w db_world_scheme, unit) io" where
  "persistDeltaURL tenantID service userKey url =
     (if url = [] then ret () else ignore (UpsertDeltaToken (sync_token tenantID service userKey url)))"

section \<open>Reuse of stored content\<close>

definition skipContentDownload :: "Item option \<Rightarrow> int option \<Rightarrow> bool" where
  "skipContentDownload existing knownSize =
     (case existing of
        None \<Rightarrow> False
      | Some it \<Rightarrow>
          (if it_BlobHash it = [] then False
           else (case knownSize of None \<Rightarrow> True | Some n \<Rightarrow> it_Size it = n)))"

definition catalogMetaChanged :: "Item option \<Rightarrow> string \<Rightarrow> string \<Rightarrow> string \<Rightarrow> string \<Rightarrow> bool" where
  "catalogMetaChanged x mailbox parent name subject =
     (case x of
        None \<Rightarrow> False
      | Some it \<Rightarrow> it_Deleted it \<or> it_Mailbox it \<noteq> mailbox \<or> it_ParentPath it \<noteq> parent \<or> it_Name it \<noteq> name
                   \<or> it_Subject it \<noteq> subject)"

definition refreshCatalogMeta ::
  "Store \<Rightarrow> Item \<Rightarrow> string \<Rightarrow> string \<Rightarrow> string \<Rightarrow> string \<Rightarrow> ('w cat_world_scheme, unit) io" where
  "refreshCatalogMeta cat existing mailbox parent name subject =
     (if \<not> catalogMetaChanged (Some existing) mailbox parent name subject then ret ()
      else Keep cat (existing\<lparr>it_Mailbox := mailbox, it_ParentPath := parent, it_Name := name,
                              it_Subject := subject, it_Deleted := False\<rparr>))"

section \<open>Lemmas\<close>

text \<open>Predicates that do not look at the log, the tokens, the environment survive the reports.\<close>

definition log_free :: "('w db_world_scheme \<Rightarrow> bool) \<Rightarrow> bool" where
  "log_free P =
     (\<forall>w fs n ls. P (w\<lparr>faults := fs\<rparr>) = P w \<and> P (w\<lparr>uuid_next := n\<rparr>) = P w \<and> P (w\<lparr>job_logs := ls\<rparr>) = P w)"

lemma log_free_fault: "log_free P \<Longrightarrow> fault_free P"
  by (auto simp: log_free_def fault_free_def)

lemma log_free_uuid: "log_free P \<Longrightarrow> keeps P uuid_NewString"
  by (auto simp: log_free_def intro!: keeps_uuid)

lemma keeps_InsertJobLog:
  assumes "log_free P"
  shows "keeps P (InsertJobLog l)"
  using assms log_free_fault [OF assms] log_free_uuid [OF assms] unfolding InsertJobLog_def
  by (auto intro!: keeps_rules keeps_guarded simp: log_free_def)

lemma keeps_InsertJobLogs: "log_free P \<Longrightarrow> keeps P (InsertJobLogs i ls)"
  unfolding InsertJobLogs_def by (auto intro!: keeps_rules keeps_InsertJobLog)

lemma keeps_Emit: "log_free P \<Longrightarrow> keeps P (Emit p level msg)"
  unfolding Emit_def by (auto intro!: keeps_rules keeps_InsertJobLog split: option.split)

lemma keeps_reports:
  assumes "log_free P"
  shows "keeps P (res_Info msg r)" "keeps P (res_Warn msg r)" "keeps P (res_Error msg r)"
  unfolding res_Info_def res_Warn_def res_Error_def by (auto intro!: keeps_rules keeps_Emit assms)

end
