(* ===== verification/Catalog_Retention.thy ===== *)
theory Catalog_Retention
  imports Catalog_Snapshots Usage
begin

text \<open>
  Retention and garbage collection of the catalog (\<open>internal/catalog/retention.go\<close>): expired
  generations are deleted per service, then the blobs that nothing references. \<open>Materialize\<close>, the
  restore of a generation or of the live state to a directory, is here too.

  Go ranges over the services in an unspecified order; the model uses that of their newest snapshot.
\<close>

section \<open>Operations\<close>

definition Info :: "Snapshot \<Rightarrow> SnapshotInfo result" where
  "Info sn =
     (case FormatBytes (sn_BytesLive sn) of
        Inl e \<Rightarrow> Inl e
      | Inr human \<Rightarrow>
          Inr \<lparr>si_ID = sn_ID sn, si_CreatedAt = sn_CreatedAt sn, si_Source = sn_Service sn,
               si_Service = sn_Service sn, si_Bytes = sn_BytesLive sn, si_BytesHuman = human,
               si_Files = sn_ItemsLive sn\<rparr>)"

fun infos :: "Snapshot list \<Rightarrow> SnapshotInfo list result" where
  "infos [] = Inr []"
| "infos (sn # sns) =
     (case Info sn of
        Inl e \<Rightarrow> Inl e
      | Inr i \<Rightarrow> (case infos sns of Inl e \<Rightarrow> Inl e | Inr is \<Rightarrow> Inr (i # is)))"

definition deleteSnapshot :: "Store \<Rightarrow> Snapshot \<Rightarrow> ('w cat_world_scheme, unit) io" where
  "deleteSnapshot s sn =
     bindE (exec (\<lambda>w. w\<lparr>catalog_changes := filter (\<lambda>c. \<not> (cr_tenant c = TenantID s
         \<and> it_Service (cr_item c) = sn_Service sn \<and> cr_generation c = sn_Generation sn)) (catalog_changes w)\<rparr>)) (\<lambda>_.
     bindE (exec (\<lambda>w. w\<lparr>catalog_snapshots := filter (\<lambda>x. \<not> (sn_TenantID x = TenantID s \<and> sn_ID x = sn_ID sn))
         (catalog_snapshots w)\<rparr>)) (\<lambda>_.
       deleteManifest s (sn_Service sn) (sn_Generation sn)))"

definition item_hashes :: "Store \<Rightarrow> 'w db_world_scheme \<Rightarrow> string list" where
  "item_hashes s w =
     filter (\<lambda>h. h \<noteq> []) (map (\<lambda>r. it_BlobHash (ir_item r)) (filter (\<lambda>r. ir_tenant r = TenantID s) (catalog_items w)))"

definition change_hashes :: "Store \<Rightarrow> 'w db_world_scheme \<Rightarrow> string list" where
  "change_hashes s w =
     filter (\<lambda>h. h \<noteq> []) (map (\<lambda>c. it_BlobHash (cr_item c)) (filter (\<lambda>c. cr_tenant c = TenantID s) (catalog_changes w)))"

text \<open>
  A loop over \<open>rows.Next()\<close> whose \<open>rows.Err()\<close> nobody asks for: a failure ends it like the last row.
\<close>

fun scan_unchecked :: "'a list \<Rightarrow> ('w io_env_scheme, 'a list) io" where
  "scan_unchecked [] = ret []"
| "scan_unchecked (x # xs) =
     attempt access (\<lambda>r. case r of
       Inl _ \<Rightarrow> ret []
     | Inr _ \<Rightarrow> bindE (scan_unchecked xs) (\<lambda>ys. ret (x # ys)))"

definition GCBlobs :: "Store \<Rightarrow> ('w cat_world_scheme, unit) io" where
  "GCBlobs s =
     bindE (query (item_hashes s)) (\<lambda>a.
     bindE (query (change_hashes s)) (\<lambda>rows.
     bindE (scan_unchecked rows) (\<lambda>b.
     bindE (ListHashes (Blobs s)) (\<lambda>hashes.
       for_each (filter (\<lambda>h. h \<notin> set (a @ b)) hashes) (\<lambda>h. ignore (blob_Delete (Blobs s) h))))))"

text \<open>The snapshots of one service that the policy does not keep, newest first.\<close>

definition expired :: "RetentionPolicy \<Rightarrow> gotime \<Rightarrow> SnapshotInfo list \<Rightarrow> string \<Rightarrow> string list" where
  "expired policy now is service =
     (let l = sort_key (\<lambda>i. - si_CreatedAt i) (filter (\<lambda>i. si_Service i = service) is);
          keep = SelectSmartKeepIDs l policy now
      in map si_ID (filter (\<lambda>i. si_ID i \<notin> set keep) l))"

definition expired_ids :: "RetentionPolicy \<Rightarrow> gotime \<Rightarrow> SnapshotInfo list \<Rightarrow> string list" where
  "expired_ids policy now is = concat (map (expired policy now is) (remdups (map si_Service is)))"

definition ApplySmartRetention :: "Store \<Rightarrow> RetentionPolicy \<Rightarrow> ('w cat_world_scheme, nat) io" where
  "ApplySmartRetention s policy =
     bindE (ListSnapshots s []) (\<lambda>snaps.
     bindE (from_result (infos snaps)) (\<lambda>is.
     bindE time_Now (\<lambda>now.
       (let ids = expired_ids policy now is;
            toDelete = map (\<lambda>i. last (filter (\<lambda>sn. sn_ID sn = i) snaps)) ids
        in bindE (for_each toDelete (deleteSnapshot s)) (\<lambda>_.
           attempt (GCBlobs s) (\<lambda>r. case r of
             Inl e \<Rightarrow> throw (Wrap (''retention deleted '' @ show_nat (length toDelete) @ '' snapshots but blob GC failed'') e)
           | Inr _ \<Rightarrow> ret (length toDelete)))))))"

fun write_entries :: "Store \<Rightarrow> string \<Rightarrow> ManifestEntry list \<Rightarrow> ('w cat_world_scheme, unit) io" where
  "write_entries s dest [] = ret ()"
| "write_entries s dest (e # es) =
     (if me_Path e = [] \<or> stringsContainsDotDot (me_Path e) then write_entries s dest es
      else attempt (blob_Get (Blobs s) (me_Hash e)) (\<lambda>r. case r of
        Inl err \<Rightarrow> throw (Wrap (me_Path e) err)
      | Inr data \<Rightarrow>
          bindE (from_result (EnsureSubpath dest (me_Path e))) (\<lambda>out.
          bindE (os_MkdirAll (filepath_Dir out)) (\<lambda>_.
          bindE (os_WriteFile out data) (\<lambda>_. write_entries s dest es)))))"

definition Materialize :: "codec \<Rightarrow> Store \<Rightarrow> string \<Rightarrow> string \<Rightarrow> string \<Rightarrow> ('w cat_world_scheme, unit) io" where
  "Materialize c s service version destDir =
     bindE (from_result (GuardPath destDir)) (\<lambda>dest.
     bindE (os_MkdirAll dest) (\<lambda>_.
     bindE
       (if version = [] \<or> version = ''live'' then
          bindE (ListLiveItems s service [] []) (\<lambda>items.
            ret (map (\<lambda>it. \<lparr>me_Path = RelPath it, me_Hash = it_BlobHash it, me_Size = it_Size it\<rparr>) items))
        else
          bindE (GetSnapshot s version) (\<lambda>sn.
          bindE (ReadManifest c s (sn_Service sn) (sn_Generation sn)) (\<lambda>man.
            ret (m_Items man))))
       (\<lambda>entries. write_entries s dest entries)))"

section \<open>Garbage collection\<close>

lemma keeps_ListHashes: "keeps P (ListHashes b)"
  by (simp add: ListHashes_def keeps_rules)

lemma wp_scan_unchecked [wp_intros]:
  assumes "\<And>ys fs. Q (Inr ys) (w\<lparr>faults := fs\<rparr>)"
  shows "wp (scan_unchecked xs) Q w"
  using assms
proof (induction xs arbitrary: w Q)
  case Nil
  from Nil [of "[]" "faults w"] show ?case by (simp add: wp_simps)
next
  case (Cons x xs)
  then show ?case by (auto simp: wp_simps intro!: wp_access Cons.IH)
qed

lemma scan_unchecked_quiet [simp]: "faults w = [] \<Longrightarrow> scan_unchecked xs w = (Inr xs, w)"
  by (induction xs) (simp_all add: io_simps)

lemma hashes_env [simp]:
  "item_hashes s (w\<lparr>faults := fs\<rparr>) = item_hashes s w" "change_hashes s (w\<lparr>faults := fs\<rparr>) = change_hashes s w"
  by (simp_all add: item_hashes_def change_hashes_def)

lemma GC_spec:
  assumes "cas_ok (Blobs s) w"
  shows "wp (GCBlobs s) (\<lambda>_ w'. cas_ok (Blobs s) w'
      \<and> (\<forall>h \<in> set (item_hashes s w). blob_view (Blobs s) w' h = blob_view (Blobs s) w h)) w"
proof -
  let ?K = "set (item_hashes s w)"
  have del: "wp (for_each hs (\<lambda>h. ignore (blob_Delete (Blobs s) h)))
      (\<lambda>_ w'. cas_ok (Blobs s) w' \<and> (\<forall>h \<in> ?K. blob_view (Blobs s) w' h = blob_view (Blobs s) w h)) v"
    if "cas_ok (Blobs s) v" "blob_view (Blobs s) v = blob_view (Blobs s) w" "set hs \<inter> ?K = {}"
    for hs and v :: "'a cat_world_scheme"
    by (rule wp_mono [OF blobs.del_all_spec [OF that(1)]]) (use that(2,3) in auto)
  show ?thesis
    unfolding GCBlobs_def ListHashes_def
    using assms by (auto simp: wp_simps intro!: wp_intros del)
qed

lemma GC_tables:
  assumes "disk_free P"
  shows "keeps P (GCBlobs s)"
proof -
  have "keeps P (scan_unchecked xs)" for xs :: "string list"
    by (induction xs) (auto intro!: keeps_rules keeps_access disk_free_fault [OF assms] split: sum.split)
  then show ?thesis
    unfolding GCBlobs_def
    by (intro keeps_rules keeps_query disk_free_fault keeps_ListHashes keeps_blob_ops assms)
qed

text \<open>Without a fault every unreferenced content goes.\<close>

lemma blob_Delete_quiet:
  assumes "cas_ok b w" "faults w = []"
  shows "wp (ignore (blob_Delete b h)) (\<lambda>r w'. cas_ok b w' \<and> faults w' = []
      \<and> (\<forall>k. blob_view b w' k = (if k = h then None else blob_view b w k))) w"
proof (cases "validHash h")
  case True
  note root = cas_ok_root [OF assms(1)]
  have "faults (del_file p w) = faults w" for p by (simp add: del_file_def)
  then show ?thesis
    using True assms by (auto simp: wp_def io_simps blob_Delete_def blobPath_ok [OF root] os_Remove_def os_ReadFile_def
        blob_view_del [OF root] cas_ok_del split: option.split) (simp add: blob_view_def)
next
  case False
  then show ?thesis using assms by (auto simp: wp_def io_simps blob_Delete_def blobPath_invalid blob_view_def)
qed

lemma del_all_quiet:
  assumes "cas_ok b w" "faults w = []"
  shows "wp (for_each hs (\<lambda>h. ignore (blob_Delete b h))) (\<lambda>r w'. r = Inr () \<and>
      (\<forall>k. blob_view b w' k = (if k \<in> set hs then None else blob_view b w k))) w"
  using assms
proof (induction hs arbitrary: w)
  case (Cons h hs)
  have "wp (ignore (blob_Delete b h)) (\<lambda>r _. r = Inr ()) w" by (simp add: wp_simps) (simp add: wp_def)
  note step = wp_conj [OF blob_Delete_quiet [OF Cons.prems, of h] this]
  show ?case
    unfolding for_each.simps wp_bindE
    by (rule wp_mono [OF step]) (auto intro!: wp_mono [OF Cons.IH])
qed (simp add: wp_simps)

lemma GC_quiet:
  assumes "cas_ok (Blobs s) w" "faults w = []"
  shows "wp (GCBlobs s) (\<lambda>r w'. r = Inr () \<and>
      (\<forall>h. blob_view (Blobs s) w' h =
         (if h \<in> set (item_hashes s w) \<union> set (change_hashes s w) then blob_view (Blobs s) w h else None))) w"
proof -
  have listed: "h \<in> set hs" if "ListHashes (Blobs s) w = (Inr hs, w')" "blob_view (Blobs s) w h \<noteq> None" for hs h w'
    using ListHashes_complete [OF cas_ok_root [OF assms(1)] _ _ that(1), of h] that(2)
    by (auto simp: blob_view_def bind_eq_Some_conv split: if_splits)
  obtain hs where hs: "ListHashes (Blobs s) w = (Inr hs, w)"
    by (simp add: ListHashes_def gets_def)
  let ?gone = "filter (\<lambda>h. h \<notin> set (item_hashes s w @ change_hashes s w)) hs"
  have "GCBlobs s w = for_each ?gone (\<lambda>h. ignore (blob_Delete (Blobs s) h)) w"
    using assms(2) hs by (simp add: GCBlobs_def io_simps)
  moreover have "wp (for_each ?gone (\<lambda>h. ignore (blob_Delete (Blobs s) h))) (\<lambda>r w'. r = Inr () \<and>
      (\<forall>h. blob_view (Blobs s) w' h =
         (if h \<in> set (item_hashes s w) \<union> set (change_hashes s w) then blob_view (Blobs s) w h else None))) w"
  proof (rule wp_mono [OF del_all_quiet [OF assms]], goal_cases)
    case (1 r w')
    have "blob_view (Blobs s) w h = None" if "h \<notin> set hs" for h using listed [OF hs] that by blast
    with 1 show ?case by auto
  qed
  ultimately show ?thesis by (simp add: wp_def)
qed

section \<open>Retention\<close>

lemma cat_inv_GC:
  assumes "cat_inv s w"
  shows "wp (GCBlobs s) (\<lambda>_ w'. cat_inv s w' \<and> catalog_items w' = catalog_items w
      \<and> catalog_snapshots w' = catalog_snapshots w \<and> catalog_changes w' = catalog_changes w) w"
proof -
  have tables: "wp (GCBlobs s) (\<lambda>_ w'. catalog_items w' = catalog_items w
      \<and> catalog_snapshots w' = catalog_snapshots w \<and> catalog_changes w' = catalog_changes w) w"
    by (rule wp_keeps [OF GC_tables]) (simp_all add: disk_free_def)
  have cas: "cas_ok (Blobs s) w" using assms by (simp add: cat_inv_def)
  have "it_BlobHash (ir_item r) \<in> set (item_hashes s w)"
    if "r \<in> set (catalog_items w)" "ir_tenant r = TenantID s" "it_BlobHash (ir_item r) \<noteq> []" for r
    using that by (auto simp: item_hashes_def)
  then show ?thesis
    using assms by (intro wp_mono [OF wp_conj [OF tables GC_spec [OF cas]]]) (auto simp: cat_inv_def live_ok_def)
qed

lemma deleteManifest_spec:
  assumes "cat_inv s w"
  shows "wp (deleteManifest s service gen) (\<lambda>r w'. r = Inr () \<and> cat_inv s w' \<and> catalog_items w' = catalog_items w
      \<and> catalog_snapshots w' = catalog_snapshots w) w"
proof (cases "manifestPath s service gen")
  case (Inr p)
  have "good_root (bs_root (Blobs s))" using assms by (auto simp: cat_inv_def cas_ok_root)
  note inv = cat_inv_other_file [of s p, OF manifest_not_blob(1) [OF Inr this]]
  show ?thesis using Inr assms by (auto simp: deleteManifest_def wp_simps inv intro!: wp_intros)
qed (use assms in \<open>simp add: deleteManifest_def wp_simps\<close>)

definition without :: "Store \<Rightarrow> string set \<Rightarrow> Snapshot list \<Rightarrow> Snapshot list" where
  "without s ids = filter (\<lambda>x. \<not> (sn_TenantID x = TenantID s \<and> sn_ID x \<in> ids))"

lemma deleteSnapshot_spec:
  assumes "cat_inv s w"
  shows "wp (deleteSnapshot s d) (\<lambda>r w'. cat_inv s w' \<and> catalog_items w' = catalog_items w
      \<and> (catalog_snapshots w' = catalog_snapshots w \<and> r \<noteq> Inr ()
         \<or> catalog_snapshots w' = without s {sn_ID d} (catalog_snapshots w))) w"
  using assms
  by (auto simp: deleteSnapshot_def wp_simps without_def intro!: wp_intros wp_mono [OF deleteManifest_spec])

lemma delete_all_spec:
  assumes "cat_inv s w"
  shows "wp (for_each ds (deleteSnapshot s)) (\<lambda>r w'. cat_inv s w' \<and> catalog_items w' = catalog_items w
      \<and> (\<exists>ids \<subseteq> sn_ID ` set ds. catalog_snapshots w' = without s ids (catalog_snapshots w)
           \<and> (r = Inr () \<longrightarrow> ids = sn_ID ` set ds))) w"
  using assms
proof (induction ds arbitrary: w)
  case Nil
  then show ?case by (simp add: wp_simps without_def)
next
  case (Cons d ds)
  have join: "without s b (without s a l) = without s (a \<union> b) l" for a b l by (auto simp: without_def intro: filter_cong)
  have none: "without s {} l = l" for l by (simp add: without_def)
  show ?case
    unfolding for_each.simps wp_bindE
  proof (rule wp_mono [OF deleteSnapshot_spec [OF Cons.prems, of d]], goal_cases)
    case (1 r w1)
    show ?case
    proof (cases r)
      case (Inl e)
      then have "\<exists>ids \<subseteq> sn_ID ` set (d # ds). catalog_snapshots w1 = without s ids (catalog_snapshots w)"
        using 1 none [of "catalog_snapshots w"] by (auto intro: exI [of _ "{}"] exI [of _ "{sn_ID d}"])
      with 1 Inl show ?thesis by (simp only: sum.case) blast
    next
      case (Inr u)
      with 1 have s1: "catalog_snapshots w1 = without s {sn_ID d} (catalog_snapshots w)" by auto
      show ?thesis
        unfolding Inr sum.case
      proof (rule wp_mono [OF Cons.IH], goal_cases)
        case (2 r2 w2)
        then obtain ids where ids: "ids \<subseteq> sn_ID ` set ds" "catalog_snapshots w2 = without s ids (catalog_snapshots w1)"
          "r2 = Inr () \<longrightarrow> ids = sn_ID ` set ds" by blast
        then have "insert (sn_ID d) ids \<subseteq> sn_ID ` set (d # ds)"
          "catalog_snapshots w2 = without s (insert (sn_ID d) ids) (catalog_snapshots w)"
          "r2 = Inr () \<longrightarrow> insert (sn_ID d) ids = sn_ID ` set (d # ds)"
          by (auto simp: s1 join)
        moreover have "cat_inv s w2" "catalog_items w2 = catalog_items w" using 2 1 by simp_all
        ultimately show ?case by blast
      qed (use 1 in simp)
    qed
  qed
qed

text \<open>The tenant's snapshots newest first, and those that the policy keeps for their service.\<close>

definition snapshots_of :: "Store \<Rightarrow> 'w db_world_scheme \<Rightarrow> Snapshot list" where
  "snapshots_of s w = sort_key (\<lambda>x. - sn_CreatedAt x) (filter (\<lambda>x. sn_TenantID x = TenantID s) (catalog_snapshots w))"

definition kept_by :: "RetentionPolicy \<Rightarrow> gotime \<Rightarrow> SnapshotInfo list \<Rightarrow> Snapshot \<Rightarrow> bool" where
  "kept_by policy now is x =
     (sn_ID x \<in> set (SelectSmartKeepIDs
        (sort_key (\<lambda>i. - si_CreatedAt i) (filter (\<lambda>i. si_Service i = sn_Service x) is)) policy now))"

lemma infos_map:
  "infos sns = Inr is \<Longrightarrow> map (\<lambda>i. (si_ID i, si_Service i)) is = map (\<lambda>x. (sn_ID x, sn_Service x)) sns"
  by (induction sns arbitrary: "is") (auto simp: Info_def split: sum.splits)

lemma infos_Inr:
  assumes "infos sns = Inr is"
  shows "(\<exists>i \<in> set is. si_ID i = a \<and> si_Service i = b) \<longleftrightarrow> (\<exists>x \<in> set sns. sn_ID x = a \<and> sn_Service x = b)"
proof -
  have "(a, b) \<in> set (map (\<lambda>i. (si_ID i, si_Service i)) is) \<longleftrightarrow> (a, b) \<in> set (map (\<lambda>x. (sn_ID x, sn_Service x)) sns)"
    by (simp only: infos_map [OF assms])
  then show ?thesis by (auto simp: image_iff)
qed

lemma expired_iff:
  assumes "infos sns = Inr is" "distinct (map sn_ID sns)" "x \<in> set sns"
  shows "sn_ID x \<in> set (expired_ids policy now is) \<longleftrightarrow> \<not> kept_by policy now is x"
proof -
  note rel = infos_Inr [OF assms(1)]
  have to_info: "\<exists>i \<in> set is. si_ID i = sn_ID x \<and> si_Service i = sn_Service x"
    using rel assms(3) by blast
  have of_info: "\<exists>y \<in> set sns. sn_ID y = si_ID i \<and> sn_Service y = si_Service i" if "i \<in> set is" for i
    using rel that by blast
  have unique: "sn_Service y = sn_Service x" if "y \<in> set sns" "sn_ID y = sn_ID x" for y
    using assms(2,3) that by (metis distinct_map inj_onD)
  have "sn_ID x \<in> set (expired_ids policy now is) \<longleftrightarrow>
      (\<exists>i \<in> set is. si_ID i = sn_ID x \<and> sn_ID x \<notin> set (SelectSmartKeepIDs
        (sort_key (\<lambda>i. - si_CreatedAt i) (filter (\<lambda>j. si_Service j = si_Service i) is)) policy now))"
    by (force simp: expired_ids_def expired_def Let_def)
  also have "\<dots> \<longleftrightarrow> \<not> kept_by policy now is x"
    unfolding kept_by_def using to_info of_info unique by metis
  finally show ?thesis .
qed

lemma to_delete_ids:
  assumes "set ids \<subseteq> sn_ID ` set sns"
  shows "sn_ID ` set (map (\<lambda>i. last (filter (\<lambda>sn. sn_ID sn = i) sns)) ids) = set ids"
proof -
  have "sn_ID (last (filter (\<lambda>sn. sn_ID sn = i) sns)) = i" if "i \<in> set ids" for i
  proof -
    have "filter (\<lambda>sn. sn_ID sn = i) sns \<noteq> []" using assms that by (auto simp: filter_empty_conv)
    then have "last (filter (\<lambda>sn. sn_ID sn = i) sns) \<in> set (filter (\<lambda>sn. sn_ID sn = i) sns)" by (rule last_in_set)
    then show ?thesis by simp
  qed
  then show ?thesis by force
qed

lemma expired_ids_known:
  assumes "infos sns = Inr is"
  shows "set (expired_ids policy now is) \<subseteq> sn_ID ` set sns"
proof -
  have "si_ID i \<in> sn_ID ` set sns" if "i \<in> set is" for i
    using infos_Inr [OF assms, of "si_ID i" "si_Service i"] that by (metis image_eqI)
  then show ?thesis by (auto simp: expired_ids_def expired_def Let_def)
qed

lemma snapshots_of_env [simp]: "snapshots_of s (w\<lparr>faults := fs\<rparr>) = snapshots_of s w"
  by (simp add: snapshots_of_def)

lemma ApplySmartRetention_spec:
  assumes "cat_inv s w" "infos (snapshots_of s w) = Inr is"
  shows "wp (ApplySmartRetention s policy) (\<lambda>r w'. cat_inv s w' \<and> catalog_items w' = catalog_items w
      \<and> (\<exists>ids \<subseteq> set (expired_ids policy (clock w) is).
           catalog_snapshots w' = without s ids (catalog_snapshots w)
           \<and> ((\<exists>n. r = Inr n) \<longrightarrow> ids = set (expired_ids policy (clock w) is)))) w"
proof -
  let ?ids = "expired_ids policy (clock w) is"
  let ?del = "map (\<lambda>i. last (filter (\<lambda>sn. sn_ID sn = i) (snapshots_of s w))) ?ids"
  have list: "ListSnapshots s [] = query (snapshots_of s)"
    by (simp add: ListSnapshots_def snapshots_of_def [abs_def])
  note del = to_delete_ids [OF expired_ids_known [OF assms(2)], of policy "clock w"]
  have body: "wp (bindE (for_each ?del (deleteSnapshot s)) (\<lambda>_.
           attempt (GCBlobs s) (\<lambda>r. case r of
             Inl e \<Rightarrow> throw (Wrap (''retention deleted '' @ show_nat (length ?del) @ '' snapshots but blob GC failed'') e)
           | Inr _ \<Rightarrow> ret (length ?del)))) (\<lambda>r w'. cat_inv s w' \<and> catalog_items w' = catalog_items w
      \<and> (\<exists>ids \<subseteq> set ?ids. catalog_snapshots w' = without s ids (catalog_snapshots w)
           \<and> ((\<exists>n. r = Inr n) \<longrightarrow> ids = set ?ids))) (w\<lparr>faults := fs\<rparr>)" for fs
    unfolding wp_simps
  proof (rule wp_mono [OF delete_all_spec], goal_cases)
    case (2 r w1)
    show ?case
    proof (cases r)
      case (Inr u)
      with 2 have w1: "cat_inv s w1" "catalog_items w1 = catalog_items w"
        "catalog_snapshots w1 = without s (set ?ids) (catalog_snapshots w)" by (simp_all add: del del: set_map)
      show ?thesis
        unfolding Inr sum.case
        by (rule wp_mono [OF cat_inv_GC [OF w1(1)]]) (use w1 in \<open>auto simp: wp_simps split: sum.split\<close>)
    qed (use 2 in \<open>simp add: del del: set_map\<close>)
  qed (use assms in simp)
  have none: "\<exists>ids \<subseteq> set ?ids. catalog_snapshots w = without s ids (catalog_snapshots w)"
    by (rule exI [of _ "{}"]) (simp add: without_def)
  show ?thesis
    unfolding ApplySmartRetention_def list Let_def wp_simps
  proof (rule wp_query, goal_cases)
    case (1 fs)
    have "clock (w\<lparr>faults := fs\<rparr>) = clock w" by simp
    then show ?case
      unfolding sum.case snapshots_of_env assms(2) wp_simps by (simp only: body [unfolded wp_simps])
  qed (use assms none in simp)
qed

section \<open>Properties\<close>

text \<open>
  C17: retention removes exactly the generations the policy does not keep, and never the live state.
  Under every fault script \<open>ApplySmartRetention\<close> keeps the catalog consistent, in particular every
  content behind a row of the items, and changes no item; every generation that disappears belongs to
  the tenant and is not kept by the policy for its service; and when it reports success, exactly
  those generations are gone. (The hypothesis on \<open>infos\<close> excludes the panic of \<open>FormatBytes\<close>.)
\<close>

theorem ApplySmartRetention_exact:
  assumes "cat_inv s w" "infos (snapshots_of s w) = Inr is" "distinct (map sn_ID (catalog_snapshots w))"
    "ApplySmartRetention s policy w = (r, w')"
  shows "cat_inv s w' \<and> catalog_items w' = catalog_items w
    \<and> (\<forall>x \<in> set (catalog_snapshots w). x \<notin> set (catalog_snapshots w')
         \<longrightarrow> sn_TenantID x = TenantID s \<and> \<not> kept_by policy (clock w) is x)
    \<and> (\<forall>n. r = Inr n \<longrightarrow> catalog_snapshots w' =
         filter (\<lambda>x. sn_TenantID x \<noteq> TenantID s \<or> kept_by policy (clock w) is x) (catalog_snapshots w))"
proof -
  let ?ids = "set (expired_ids policy (clock w) is)"
  obtain ids where w': "cat_inv s w'" "catalog_items w' = catalog_items w" and ids: "ids \<subseteq> ?ids"
    "catalog_snapshots w' = without s ids (catalog_snapshots w)" "(\<exists>n. r = Inr n) \<longrightarrow> ids = ?ids"
    using wpD [OF ApplySmartRetention_spec [OF assms(1,2)] assms(4)] by blast
  have "distinct (map sn_ID (snapshots_of s w))"
    using distinct_map_filter [OF assms(3)] by (simp add: snapshots_of_def distinct_map)
  note iff = expired_iff [OF assms(2) this, of _ policy "clock w"]
  have kept: "sn_ID x \<in> ?ids \<longleftrightarrow> \<not> kept_by policy (clock w) is x"
    if "x \<in> set (catalog_snapshots w)" "sn_TenantID x = TenantID s" for x
    using iff [of x] that by (simp add: snapshots_of_def)
  have "catalog_snapshots w' = filter (\<lambda>x. sn_TenantID x \<noteq> TenantID s \<or> kept_by policy (clock w) is x) (catalog_snapshots w)"
    if "r = Inr n" for n
    unfolding ids(2) without_def using ids(3) that kept by (intro filter_cong) auto
  moreover have "sn_TenantID x = TenantID s \<and> \<not> kept_by policy (clock w) is x"
    if "x \<in> set (catalog_snapshots w)" "x \<notin> set (catalog_snapshots w')" for x
    using that ids(1) kept [of x] by (auto simp: ids(2) without_def)
  ultimately show ?thesis using w' by blast
qed

text \<open>
  C18: what garbage collection removes. Whatever fails, every content behind a row of the items stays
  and the tables are untouched; and without a failure the contents that stay are exactly those which
  a row of the items or a recorded change of the tenant names.
\<close>

theorem GCBlobs_exact:
  assumes "cat_inv s w" "GCBlobs s w = (r, w')"
  shows "cat_inv s w' \<and> catalog_items w' = catalog_items w \<and> catalog_snapshots w' = catalog_snapshots w
    \<and> (\<forall>h \<in> set (item_hashes s w). blob_view (Blobs s) w' h = blob_view (Blobs s) w h)
    \<and> (faults w = [] \<longrightarrow> r = Inr () \<and> (\<forall>h. blob_view (Blobs s) w' h =
         (if h \<in> set (item_hashes s w) \<union> set (change_hashes s w) then blob_view (Blobs s) w h else None)))"
proof -
  have cas: "cas_ok (Blobs s) w" using assms(1) by (simp add: cat_inv_def)
  show ?thesis
    using wpD [OF cat_inv_GC [OF assms(1)] assms(2)] wpD [OF GC_spec [OF cas] assms(2)]
      wpD [OF GC_quiet [OF cas] assms(2)] by blast
qed

text \<open>Files that are no blobs survive the operations on blobs.\<close>

definition no_blob :: "BlobStore \<Rightarrow> string \<Rightarrow> bool" where
  "no_blob b p = (good_root (bs_root b) \<and> (\<forall>h. validHash h \<longrightarrow> bpath b h \<noteq> p \<and> bpath b h @ ''.tmp'' \<noteq> p))"

lemma file_at_blob_Put:
  assumes "no_blob b p"
  shows "wp (blob_Put b d) (\<lambda>_ w'. file_at w' p = file_at w p) w"
proof -
  have root: "good_root (bs_root b)" and np: "bpath b (Hash d) \<noteq> p" "bpath b (Hash d) @ ''.tmp'' \<noteq> p"
    using assms by (auto simp: no_blob_def)
  show ?thesis
    unfolding blob_Put_def Let_def
    using np by (auto simp: wp_simps blobPath_ok [OF root] intro!: wp_intros)
qed

lemma file_at_blob_Delete:
  assumes "no_blob b p"
  shows "keeps (\<lambda>w. file_at w p = x) (blob_Delete b h)"
proof (rule keeps_wp)
  fix w :: "'a fs_world_scheme"
  assume w: "file_at w p = x"
  have root: "good_root (bs_root b)" using assms by (simp add: no_blob_def)
  show "wp (blob_Delete b h) (\<lambda>_ w. file_at w p = x) w"
    using w assms by (cases "validHash h")
      (auto simp: blob_Delete_def wp_simps blobPath_ok [OF root] blobPath_invalid no_blob_def intro!: wp_intros)
qed

lemma file_at_GC:
  assumes "no_blob (Blobs s) p"
  shows "keeps (\<lambda>w. file_at w p = x) (GCBlobs s)"
proof -
  have ff: "fault_free (\<lambda>w. file_at w p = x)" by (simp add: fault_free_def)
  have "keeps (\<lambda>w. file_at w p = x) (scan_unchecked xs)" for xs :: "string list"
    by (induction xs) (auto intro!: keeps_rules keeps_access ff split: sum.split)
  then show ?thesis
    unfolding GCBlobs_def
    by (intro keeps_rules keeps_query ff keeps_ListHashes file_at_blob_Delete assms)
qed

lemma manifest_no_blob:
  assumes "manifestPath s service gen = Inr p" "cat_inv s w"
  shows "no_blob (Blobs s) p"
proof -
  have root: "good_root (bs_root (Blobs s))" using assms(2) by (auto simp: cat_inv_def cas_ok_root)
  have "last p = CHR ''t''"
    unfolding manifestPath_ok(1) [OF assms(1)] by (subst last_render) (simp_all add: manifest_segs_def)
  then have "bpath (Blobs s) h @ ''.tmp'' \<noteq> p" for h by auto
  with root manifest_not_blob(1) [OF assms(1) root] show ?thesis by (simp add: no_blob_def)
qed

lemma manifest_view_cong:
  assumes "\<And>p. manifestPath s service gen = Inr p \<Longrightarrow> file_at w' p = file_at w p"
  shows "manifest_view c s service gen w' = manifest_view c s service gen w"
  using assms by (auto simp: manifest_view_def ReadManifest_def io_simps os_ReadFile_def
      split: sum.split option.split)

text \<open>
  C36: garbage collection does not look at the manifests. A content that only the manifest of a kept
  generation names is deleted by a successful, undisturbed \<open>GCBlobs\<close>, although the generation is
  still listed and its manifest still names the content: reading it fails. (The comment of \<open>GCBlobs\<close>
  says that it removes what no remaining generation references.)
\<close>

theorem GC_drops_kept_content:
  assumes "cat_inv s w" "faults w = []" "GCBlobs s w = (r, w')"
    "manifest_view c s service gen w = Inr m" "e \<in> set (m_Items m)"
    "me_Hash e \<notin> set (item_hashes s w) \<union> set (change_hashes s w)"
  shows "r = Inr () \<and> catalog_snapshots w' = catalog_snapshots w
    \<and> manifest_view c s service gen w' = Inr m
    \<and> (\<forall>q. fst (GetBlob s (me_Hash e) w') \<noteq> Inr q)"
proof -
  have cas: "cas_ok (Blobs s) w" using assms(1) by (simp add: cat_inv_def)
  note gone = wpD [OF GC_quiet [OF cas assms(2)] assms(3)] and inv = wpD [OF cat_inv_GC [OF assms(1)] assms(3)]
  have cas': "cas_ok (Blobs s) w'" using inv by (simp add: cat_inv_def)
  have "file_at w' p = file_at w p" if "manifestPath s service gen = Inr p" for p
    by (rule keepsD [OF file_at_GC [OF manifest_no_blob [OF that assms(1)]] _ assms(3)]) simp
  then have "manifest_view c s service gen w' = manifest_view c s service gen w" by (rule manifest_view_cong)
  moreover have "fst (GetBlob s (me_Hash e) w') \<noteq> Inr q" for q
    using wpD [OF blob_Get_spec [OF cas', of "me_Hash e"] prod.collapse [symmetric]] gone assms(6)
    by (auto simp: GetBlob_def)
  ultimately show ?thesis using gone inv assms(4) by simp
qed

section \<open>Witnesses\<close>

text \<open>
  A full backup of an item and its generation, then a second full backup that finds the item changed.
  The two contents have different addresses (their SHA-256 values are computed).
\<close>

definition gen1_world :: cat_world where
  "gen1_world = snd (CommitSnapshot demo_codec demo_cat ''onedrive'' ''job'' demo_world)"

definition gen2_world :: cat_world where
  "gen2_world = snd (Put demo_cat demo_item ''b'' gen1_world)"

lemma hashes_differ: "Hash ''hello'' \<noteq> Hash ''b''"
proof -
  have "hd (Hash ''hello'') \<noteq> hd (Hash ''b'')" by code_simp
  then show ?thesis by metis
qed

lemma gen1_facts:
  "cat_inv demo_cat gen1_world" "faults gen1_world = []" "catalog_changes gen1_world = []"
  "catalog_items gen1_world = catalog_items demo_world"
  "\<exists>m. manifest_view demo_codec demo_cat ''onedrive'' 1 gen1_world = Inr m \<and> map me_Hash (m_Items m) = [Hash ''hello'']"
proof -
  obtain sn where sn: "fst (CommitSnapshot demo_codec demo_cat ''onedrive'' ''job'' demo_world) = Inr (Some sn)"
    "\<not> sn_Skipped sn" "sn_Generation sn = 1" using demo_commit(1) by blast
  note spec = wpD [OF CommitSnapshot_spec [OF demo_world_facts(1) demo_codec_ok, of "''onedrive''" "''job''"]
      prod.collapse [symmetric], folded gen1_world_def]
  show "cat_inv demo_cat gen1_world" "catalog_items gen1_world = catalog_items demo_world" using spec by simp_all
  show "faults gen1_world = []" "catalog_changes gen1_world = []"
    using demo_commit(2,3) demo_rows by (simp_all add: gen1_world_def)
  have "manifest_view demo_codec demo_cat ''onedrive'' 1 gen1_world =
      Inr (manifest_of demo_cat ''onedrive'' 1 (sn_CreatedAt sn) demo_world)"
    using spec sn by (simp add: commit_ok_def)
  then show "\<exists>m. manifest_view demo_codec demo_cat ''onedrive'' 1 gen1_world = Inr m \<and> map me_Hash (m_Items m) = [Hash ''hello'']"
    by (simp add: manifest_of_def live_entries_def demo_rows upsert_rows_def demo_item_def live_row_def demo_cat_def manifest_entry_def)
qed

lemma file_at_Put:
  assumes "no_blob (Blobs s) p"
  shows "file_at (snd (Put s it d w)) p = file_at w p"
proof -
  let ?P = "\<lambda>v :: 'a cat_world_scheme. file_at v p = file_at w p"
  have "keeps ?P (blob_Put (Blobs s) d)"
    by (rule keeps_wp) (simp add: wp_def file_at_blob_Put [OF assms, unfolded wp_def])
  moreover have "keeps ?P time_Now" by (simp add: time_Now_def keeps_rules)
  moreover have "keeps ?P (rematchID s i)" "keeps ?P (upsertItem s i)" "keeps ?P (notePending s op i)" for op i
    by (rule files_rematchID files_upsertItem files_notePending)+
  ultimately have "keeps ?P (Put s it d)" unfolding Put_def by (auto intro!: keeps_rules)
  then show ?thesis by (simp add: keeps_def)
qed

lemma gen2_facts:
  "cat_inv demo_cat gen2_world" "faults gen2_world = []"
  "item_hashes demo_cat gen2_world = [Hash ''b'']" "change_hashes demo_cat gen2_world = []"
  "manifest_view demo_codec demo_cat ''onedrive'' 1 gen2_world = manifest_view demo_codec demo_cat ''onedrive'' 1 gen1_world"
proof -
  have pre: "SkipRematch demo_cat" "it_Service demo_item \<noteq> []" "it_GraphItemID demo_item \<noteq> []"
    by (simp_all add: demo_cat_def demo_item_def)
  note ok = Put_ok [OF gen1_facts(1,2) pre, of "''b''", folded gen2_world_def]
  show "faults gen2_world = []" by (rule ok(2))
  show "cat_inv demo_cat gen2_world"
    using wpD [OF Put_spec [OF gen1_facts(1), of demo_item "''b''"] prod.collapse [symmetric], folded gen2_world_def] by simp
  show "change_hashes demo_cat gen2_world = []" by (simp add: change_hashes_def ok gen1_facts)
  show "item_hashes demo_cat gen2_world = [Hash ''b'']"
    using validHash_Hash [of "''b''"]
    by (auto simp: item_hashes_def ok(6) gen1_facts(4) demo_rows upsert_rows_def row_is_def demo_cat_def demo_item_def
        validHash_def Let_def)
  show "manifest_view demo_codec demo_cat ''onedrive'' 1 gen2_world = manifest_view demo_codec demo_cat ''onedrive'' 1 gen1_world"
    by (rule manifest_view_cong) (simp add: gen2_world_def file_at_Put manifest_no_blob [OF _ gen1_facts(1)])
qed

theorem GC_drops_kept_content_witness:
  "\<exists>m e. manifest_view demo_codec demo_cat ''onedrive'' 1 (snd (GCBlobs demo_cat gen2_world)) = Inr m \<and> e \<in> set (m_Items m)
     \<and> (\<forall>q. fst (GetBlob demo_cat (me_Hash e) (snd (GCBlobs demo_cat gen2_world))) \<noteq> Inr q)"
proof -
  obtain m where m: "manifest_view demo_codec demo_cat ''onedrive'' 1 gen2_world = Inr m" "map me_Hash (m_Items m) = [Hash ''hello'']"
    using gen1_facts(5) gen2_facts(5) by auto
  then obtain e where e: "e \<in> set (m_Items m)" "me_Hash e = Hash ''hello''" by auto
  have "me_Hash e \<notin> set (item_hashes demo_cat gen2_world) \<union> set (change_hashes demo_cat gen2_world)"
    using hashes_differ e(2) by (simp add: gen2_facts)
  from GC_drops_kept_content [OF gen2_facts(1,2) prod.collapse [symmetric] m(1) e(1) this] e(1)
  show ?thesis by blast
qed

theorem GCBlobs_exact_witness:
  "\<forall>h. blob_view (Blobs demo_cat) (snd (GCBlobs demo_cat gen2_world)) h =
     (if h = Hash ''b'' then blob_view (Blobs demo_cat) gen2_world h else None)"
  using GCBlobs_exact [OF gen2_facts(1) prod.collapse [symmetric]] by (simp add: gen2_facts)

text \<open>Two generations of a service, and a policy that keeps one.\<close>

definition gen_row :: "string \<Rightarrow> int \<Rightarrow> gotime \<Rightarrow> Snapshot" where
  "gen_row i g t =
     \<lparr>sn_ID = i, sn_TenantID = ''t1'', sn_Service = ''teams'', sn_Generation = g, sn_JobID = ''j'', sn_CreatedAt = t,
      sn_ItemsLive = 0, sn_BytesLive = 5, sn_Skipped = False\<rparr>"

definition two_gens :: cat_world where
  "two_gens = empty_cat\<lparr>catalog_snapshots := [gen_row ''old'' 1 10, gen_row ''new'' 2 20]\<rparr>"

theorem ApplySmartRetention_exact_witness:
  "gen_row ''new'' 2 20 \<in> set (catalog_snapshots (snd (ApplySmartRetention demo_cat (DefaultRetention\<lparr>Enabled := False, KeepMin := 1\<rparr>) two_gens)))"
proof -
  let ?p = "DefaultRetention\<lparr>Enabled := False, KeepMin := 1\<rparr>"
  have inv: "cat_inv demo_cat two_gens" by (simp add: two_gens_def demo_cat_inv)
  have "snapshots_of demo_cat two_gens = [gen_row ''new'' 2 20, gen_row ''old'' 1 10]"
    by (simp add: snapshots_of_def two_gens_def demo_cat_def gen_row_def)
  moreover have "\<exists>l. infos [gen_row ''new'' 2 20, gen_row ''old'' 1 10] = Inr l \<and> kept_by ?p (clock two_gens) l (gen_row ''new'' 2 20)"
    by (simp add: Info_def gen_row_def FormatBytes_def kept_by_def SelectSmartKeepIDs_def normalize_policy_def DefaultRetention_def Let_def)
  ultimately obtain l where l: "infos (snapshots_of demo_cat two_gens) = Inr l" "kept_by ?p (clock two_gens) l (gen_row ''new'' 2 20)"
    by auto
  have "distinct (map sn_ID (catalog_snapshots two_gens))" "gen_row ''new'' 2 20 \<in> set (catalog_snapshots two_gens)"
    by (simp_all add: two_gens_def gen_row_def)
  then show ?thesis
    using ApplySmartRetention_exact [OF inv l(1) _ prod.collapse [symmetric], of ?p] l(2) by blast
qed

end
