(* ===== verification/Retention_Json.thy ===== *)
theory Retention_Json
  imports Retention Go_Json
begin

text \<open>
  The retention policy as text (\<open>internal/storage/retention.go\<close>): how a tenant's policy is read from the
  JSON of its row and written back.
\<close>

section \<open>Operations\<close>

text \<open>One member stored into the policy; \<open>int\<close> is 64 bits wide. A member of the wrong type is skipped.\<close>

definition store_policy :: "RetentionPolicy \<Rightarrow> string \<times> json \<Rightarrow> RetentionPolicy" where
  "store_policy p kv =
     (let (k, v) = kv; key = strings_EqualFold k
      in if key ''enabled'' then p\<lparr>Enabled := fst (store_bool v (Enabled p))\<rparr>
         else if key ''keep_hours'' then p\<lparr>KeepHours := fst (store_int v (KeepHours p))\<rparr>
         else if key ''keep_daily'' then p\<lparr>KeepDaily := fst (store_int v (KeepDaily p))\<rparr>
         else if key ''keep_weekly'' then p\<lparr>KeepWeekly := fst (store_int v (KeepWeekly p))\<rparr>
         else if key ''keep_monthly'' then p\<lparr>KeepMonthly := fst (store_int v (KeepMonthly p))\<rparr>
         else if key ''keep_yearly'' then p\<lparr>KeepYearly := fst (store_int v (KeepYearly p))\<rparr>
         else if key ''keep_min'' then p\<lparr>KeepMin := fst (store_int v (KeepMin p))\<rparr>
         else if key ''pst_keep_runs'' then p\<lparr>PSTKeepRuns := fst (store_int v (PSTKeepRuns p))\<rparr>
         else p)"

text \<open>The error of \<open>json.Unmarshal\<close> is dropped: a text that is no JSON object leaves the defaults.\<close>

definition ParseRetentionJSON :: "string \<Rightarrow> RetentionPolicy" where
  "ParseRetentionJSON s =
     (if s = [] then DefaultRetention
      else normalize_policy
        (case json_parse s of
           Some (JObj ms) \<Rightarrow> foldl store_policy DefaultRetention ms
         | _ \<Rightarrow> DefaultRetention))"

definition policy_fields :: "RetentionPolicy \<Rightarrow> (string \<times> int) list" where
  "policy_fields p =
     [(''keep_hours'', KeepHours p), (''keep_daily'', KeepDaily p), (''keep_weekly'', KeepWeekly p),
      (''keep_monthly'', KeepMonthly p), (''keep_yearly'', KeepYearly p), (''keep_min'', KeepMin p),
      (''pst_keep_runs'', PSTKeepRuns p)]"

definition ToJSON :: "RetentionPolicy \<Rightarrow> string" where
  "ToJSON p0 =
     (let p = normalize_policy p0
      in json_Marshal (JObj ((''enabled'', JBool (Enabled p)) # map (\<lambda>(k, v). (k, JNum (show_int v))) (policy_fields p))))"

section \<open>Reading what was written\<close>

definition policy_range :: "RetentionPolicy \<Rightarrow> bool" where
  "policy_range p = list_all (\<lambda>(k, v). - (2 ^ 63) \<le> v \<and> v < 2 ^ 63) (policy_fields p)"

lemma normalize_range: "policy_range p \<Longrightarrow> policy_range (normalize_policy p)"
  by (simp add: policy_range_def policy_fields_def normalize_policy_def)

definition member_text :: "string \<Rightarrow> int \<Rightarrow> string" where
  "member_text k v = CHR 0x22 # k @ CHR 0x22 # CHR '':'' # show_int v"

lemma members_text:
  assumes "kvs \<noteq> []" "list_all (\<lambda>(k, v). list_all plain_char k) kvs"
  shows "json_members (length kvs + Suc n) d (strings_Join (map (\<lambda>(k, v). member_text k v) kvs) '','' @ CHR ''}'' # r) =
    Some (map (\<lambda>(k, v). (k, JNum (show_int v))) kvs, r)"
  using assms
proof (induction kvs)
  case (Cons kv kvs)
  obtain k v where kv: "kv = (k, v)" by fastforce
  show ?case
  proof (cases kvs)
    case Nil
    then show ?thesis using members_int [of k "CHR ''}''" n d v r] Cons.prems kv by (simp add: member_text_def)
  next
    case (Cons b bs)
    then have fuel: "length kvs + Suc n = Suc (Suc (length bs + n))" by simp
    show ?thesis
      using members_int [of k "CHR '',''" "Suc (length bs + n)" d v] Cons.prems Cons.IH kv Cons fuel
      by (simp add: member_text_def)
  qed
qed simp

lemma policy_keys_plain:
  "list_all (\<lambda>(k, v). list_all (\<lambda>c. plain_char c \<and> c \<noteq> CHR ''<'' \<and> c \<noteq> CHR ''>'' \<and> c \<noteq> CHR ''&'') k) (policy_fields p)"
  "list_all (\<lambda>c. plain_char c \<and> c \<noteq> CHR ''<'' \<and> c \<noteq> CHR ''>'' \<and> c \<noteq> CHR ''&'') ''enabled''"
  by (simp_all add: policy_fields_def plain_char_def byte_in_def)

lemma ToJSON_text:
  fixes p0
  defines "p \<equiv> normalize_policy p0"
  shows "ToJSON p0 = CHR ''{'' # CHR 0x22 # ''enabled'' @ CHR 0x22 # CHR '':'' # json_Marshal (JBool (Enabled p)) @ CHR '','' #
    strings_Join (map (\<lambda>(k, v). member_text k v) (policy_fields p)) '','' @ CHR ''}'' # []"
proof -
  have ms: "map (\<lambda>(k, v). json_quote k @ '':'' @ json_Marshal v) (map (\<lambda>(k, v). (k, JNum (show_int v))) (policy_fields p)) =
      map (\<lambda>(k, v). member_text k v) (policy_fields p)"
  proof -
    have q: "json_quote k = CHR 0x22 # k @ [CHR 0x22]" if "(k, v) \<in> set (policy_fields p)" for k v
      by (rule json_quote_plain) (use policy_keys_plain(1) [of p] that in \<open>fastforce simp only: list_all_iff split_conv\<close>)
    show ?thesis
      unfolding map_map comp_def by (rule map_cong [OF refl]) (auto simp: q member_text_def)
  qed
  have "policy_fields p \<noteq> []" by (simp add: policy_fields_def)
  then have join: "strings_Join (x # map (\<lambda>(k, v). member_text k v) (policy_fields p)) '','' =
      x @ CHR '','' # strings_Join (map (\<lambda>(k, v). member_text k v) (policy_fields p)) '',''" for x
    by (cases "policy_fields p") simp_all
  show ?thesis
    unfolding ToJSON_def Let_def p_def [symmetric] json_Marshal.simps(6) list.map(2) split_conv ms join
    unfolding json_quote_plain [OF policy_keys_plain(2)] append_Cons append_assoc append_Nil by (rule refl)
qed

lemma parse_ToJSON:
  fixes p0
  defines "p \<equiv> normalize_policy p0"
  shows "json_parse (ToJSON p0) =
    Some (JObj ((''enabled'', JBool (Enabled p)) # map (\<lambda>(k, v). (k, JNum (show_int v))) (policy_fields p)))"
proof -
  let ?rest = "strings_Join (map (\<lambda>(k, v). member_text k v) (policy_fields p)) '','' @ CHR ''}'' # []"
  let ?ms = "map (\<lambda>(k, v). (k, JNum (show_int v))) (policy_fields p)"
  have keys: "list_all (\<lambda>(k, v). list_all plain_char k) (policy_fields p)" "list_all plain_char ''enabled''"
    "policy_fields p \<noteq> []"
    by (simp_all add: policy_fields_def plain_char_def byte_in_def)
  have len: "length (policy_fields p) = 7" by (simp add: policy_fields_def)
  have "10 \<le> length (ToJSON p0)" by (simp add: ToJSON_text)
  then have "10 \<le> 2 * length (ToJSON p0) + 2" by simp
  then obtain m where "2 * length (ToJSON p0) + 2 = 10 + m" by (rule less_eqE)
  then obtain n where fuel: "2 * length (ToJSON p0) + 2 = 9 + n" "n = Suc m" by simp
  have "json_members (Suc (7 + n)) 9999 (CHR 0x22 # ''enabled'' @ CHR 0x22 # CHR '':'' # json_Marshal (JBool (Enabled p)) @ CHR '','' # ?rest) =
      map_option (apfst ((#) (''enabled'', JBool (Enabled p)))) (json_members (7 + n) 9999 ?rest)"
    using members_bool [OF keys(2), of "6 + n" 9999 "Enabled p" ?rest] by simp
  also have "json_members (7 + n) 9999 ?rest = Some (?ms, [])"
    using members_text [OF keys(3,1), of m 9999 "[]"] len fuel(2) by simp
  finally have "json_members (Suc (7 + n)) 9999 (CHR 0x22 # ''enabled'' @ CHR 0x22 # CHR '':'' # json_Marshal (JBool (Enabled p)) @ CHR '','' # ?rest) =
      Some ((''enabled'', JBool (Enabled p)) # ?ms, [])" by simp
  then have "json_value (Suc (Suc (7 + n))) 10000 (ToJSON p0) = Some (JObj ((''enabled'', JBool (Enabled p)) # ?ms), [])"
    unfolding ToJSON_text [of p0, folded p_def] json_value.simps by (simp add: skip_ws_Cons json_ws_def del: json_Marshal.simps json_members.simps)
  moreover have "2 * length (ToJSON p0) + 2 = Suc (Suc (7 + n))" using fuel(1) by simp
  ultimately show ?thesis unfolding json_parse_def by (simp only: option.case split_conv) (simp add: skip_ws_def)
qed

section \<open>Properties\<close>

text \<open>
  The policy survives its text. A policy whose numbers are 64-bit numbers, written with \<open>ToJSON\<close> and
  read with \<open>ParseRetentionJSON\<close>, is the policy with its bounds enforced.
\<close>

theorem ParseRetentionJSON_ToJSON:
  assumes "policy_range p"
  shows "ParseRetentionJSON (ToJSON p) = normalize_policy p"
proof -
  let ?q = "normalize_policy p"
  have ne: "ToJSON p \<noteq> []" by (simp add: ToJSON_text)
  have int: "fst (store_int (JNum (show_int v)) old) = v" if "- (2 ^ 63) \<le> v" "v < 2 ^ 63" for v old
    using json_int_show [OF that] by (simp add: store_int_def)
  have fold: "strings_EqualFold k l \<longleftrightarrow> strings_ToLower k = strings_ToLower l" for k l
    by (simp add: strings_EqualFold_def)
  have "foldl store_policy DefaultRetention ((''enabled'', JBool (Enabled ?q)) # map (\<lambda>(k, v). (k, JNum (show_int v))) (policy_fields ?q)) = ?q"
    using normalize_range [OF assms]
    by (simp add: policy_fields_def policy_range_def store_policy_def int fold store_bool_def strings_ToLower_def ascii_lower_def)
  then show ?thesis using ne parse_ToJSON [of p] by (simp add: ParseRetentionJSON_def)
qed

theorem ParseRetentionJSON_ToJSON_witness:
  "ParseRetentionJSON (ToJSON (DefaultRetention\<lparr>KeepMin := -4\<rparr>)) = DefaultRetention\<lparr>KeepMin := 1\<rparr>"
  using ParseRetentionJSON_ToJSON [of "DefaultRetention\<lparr>KeepMin := -4\<rparr>"]
  by (simp add: policy_range_def policy_fields_def DefaultRetention_def normalize_policy_def)

end
