(* ===== verification/Tenants.thy ===== *)
theory Tenants
  imports Database Go_Json Paths
begin

text \<open>
  Secrets and tenants: the cipher for stored secrets (\<open>internal/crypto/cipher.go\<close>), the tenant manager
  (\<open>internal/tenant/manager.go\<close>) and the signed state of the consent redirect
  (\<open>internal/tenant/consent.go\<close>). AES-256-GCM, SHA-256, HMAC and base64 are computed by the model; the
  texts of the errors of the base64 decoder leave out the offset.
\<close>

section \<open>The cipher\<close>

definition cipher_New :: "string \<Rightarrow> string result" where
  "cipher_New masterKeyB64 =
     (case base64_DecodeString masterKeyB64 of
        None \<Rightarrow> Inl (Wrap ''decode master key'' (Err ''illegal base64 data''))
      | Some key \<Rightarrow>
          (if length key \<noteq> 32 then Inl (Err ''master key must decode to exactly 32 bytes'') else Inr key))"

definition Encrypt :: "string \<Rightarrow> string \<Rightarrow> ('w fs_world_scheme, string) io" where
  "Encrypt key plaintext =
     bindE (rand_Read gcm_NonceSize) (\<lambda>nonce.
       ret (base64_EncodeToString (nonce @ gcm_Seal key nonce plaintext)))"

definition Decrypt :: "string \<Rightarrow> string \<Rightarrow> string result" where
  "Decrypt key encoded =
     (case base64_DecodeString encoded of
        None \<Rightarrow> Inl (Err ''illegal base64 data'')
      | Some raw \<Rightarrow>
          (if length raw < gcm_NonceSize then Inl (Err ''invalid ciphertext'')
           else (case gcm_Open key (take gcm_NonceSize raw) (drop gcm_NonceSize raw) of
                   None \<Rightarrow> Inl (Err ''invalid ciphertext'')
                 | Some pt \<Rightarrow> Inr pt)))"

text \<open>\<open>base64.RawURLEncoding\<close>: another alphabet for 62 and 63, no padding.\<close>

definition url_char :: "char \<Rightarrow> char" where
  "url_char c = (if c = CHR ''+'' then CHR ''-'' else if c = CHR ''/'' then CHR ''_'' else c)"

definition std_char :: "char \<Rightarrow> char" where
  "std_char c = (if c = CHR ''-'' then CHR ''+'' else if c = CHR ''_'' then CHR ''/'' else c)"

definition rawurl_EncodeToString :: "string \<Rightarrow> string" where
  "rawurl_EncodeToString s = map url_char (filter (\<lambda>c. c \<noteq> CHR ''='') (base64_EncodeToString s))"

definition rawurl_DecodeString :: "string \<Rightarrow> string option" where
  "rawurl_DecodeString s =
     (let t = filter (\<lambda>c. c \<noteq> CHR 0x0A \<and> c \<noteq> CHR 0x0D) s
      in if list_ex (\<lambda>c. c = CHR ''='' \<or> c = CHR ''+'' \<or> c = CHR ''/'') t \<or> length t mod 4 = 1 then None
         else b64_dec (map std_char t @ replicate ((4 - length t mod 4) mod 4) (CHR ''='')))"

definition RandomPassword :: "int \<Rightarrow> ('w fs_world_scheme, string) io" where
  "RandomPassword n =
     bindE (rand_Read (nat (if n < 16 then 32 else n))) (\<lambda>b. ret (rawurl_EncodeToString b))"

section \<open>The tenant manager\<close>

record Manager =
  mg_Cipher :: string
  mg_StoreRoot :: string
  mg_BaseURL :: string

record CreateInput =
  ci_Name :: string
  ci_AzureTenantID :: string
  ci_ClientID :: string
  ci_ClientSecret :: string
  ci_SecretExpires :: gotime

definition DefaultSchedules :: "(string \<times> string \<times> bool) list" where
  "DefaultSchedules =
     [(''exchange'', ''0 * * * *'', True), (''onedrive'', ''30 2 * * *'', True), (''teams'', ''0 3 * * *'', True),
      (''sharepoint'', ''30 3 * * 0'', True), (''pst'', ''0 5 * * 0'', False)]"

definition DefaultCronFor :: "string \<Rightarrow> string \<times> bool" where
  "DefaultCronFor service =
     (case filter (\<lambda>(sv, c, e). sv = service) DefaultSchedules of
        [] \<Rightarrow> ([], False)
      | (sv, c, e) # _ \<Rightarrow> (c, True))"

definition default_schedule :: "string \<Rightarrow> string \<times> string \<times> bool \<Rightarrow> Schedule" where
  "default_schedule tenantID ds =
     (let (sv, c, e) = ds
      in \<lparr>sc_ID = [], sc_TenantID = tenantID, sc_Service = sv, sc_CronExpr = c, sc_Enabled = e,
          sc_LastRun = zero_time, sc_NextRun = zero_time, sc_CreatedAt = zero_time\<rparr>)"

definition create_schedules :: "string \<Rightarrow> (string \<times> string \<times> bool) list \<Rightarrow> ('w db_world_scheme, unit) io" where
  "create_schedules tenantID l =
     for_each l (\<lambda>ds. bindE (CreateSchedule (default_schedule tenantID ds)) (\<lambda>_. ret ()))"

definition EnsureDefaultSchedules :: "string \<Rightarrow> ('w db_world_scheme, nat) io" where
  "EnsureDefaultSchedules tenantID =
     bindE (ListSchedules tenantID) (\<lambda>existing.
       (let present = map (\<lambda>s. strings_ToLower (sc_Service s)) existing;
            missing = filter (\<lambda>(sv, c, e). sv \<notin> set present) DefaultSchedules
        in bindE (create_schedules tenantID missing) (\<lambda>_. ret (length missing))))"

definition CreateRepo :: "string \<Rightarrow> ('w fs_world_scheme, unit) io" where
  "CreateRepo repoPath =
     bindE (from_result (GuardPath repoPath)) (\<lambda>_.
       for_each [BlobsDir repoPath, ManifestsDir repoPath, path_Join [repoPath, ''exports'']] os_MkdirAll)"

definition tenant_Create :: "Manager \<Rightarrow> CreateInput \<Rightarrow> ('w db_world_scheme, Tenant) io" where
  "tenant_Create m i =
     bindE (Encrypt (mg_Cipher m) (ci_ClientSecret i)) (\<lambda>encSecret.
     bindE (RandomPassword 32) (\<lambda>storePass.
     bindE (Encrypt (mg_Cipher m) storePass) (\<lambda>encStore.
     bindE (CreateTenant
        \<lparr>t_ID = [], t_Name = ci_Name i, t_AzureTenantID = ci_AzureTenantID i, t_ClientID = ci_ClientID i,
         t_ClientSecret = encSecret, t_SecretExpires = ci_SecretExpires i, t_StorePassword = encStore,
         t_StorePath = [], t_Status = ''setup'', t_RetentionJSON = [], t_CreatedAt = zero_time, t_UpdatedAt = zero_time\<rparr>) (\<lambda>t0.
       (let t1 = t0\<lparr>t_StorePath := path_Join [mg_StoreRoot m, t_ID t0]\<rparr>
        in bindE (os_MkdirAll (t_StorePath t1)) (\<lambda>_.
           bindE (attempt (CreateRepo (t_StorePath t1)) (\<lambda>r. case r of
              Inl e \<Rightarrow> throw (Wrap ''create store'' e) | Inr _ \<Rightarrow> ret ())) (\<lambda>_.
           bindE (UpdateTenant t1) (\<lambda>t.
           bindE (create_schedules (t_ID t) DefaultSchedules) (\<lambda>_. ret t)))))))))"

definition DecryptSecrets :: "Manager \<Rightarrow> Tenant \<Rightarrow> (string \<times> string) result" where
  "DecryptSecrets m t =
     (case Decrypt (mg_Cipher m) (t_ClientSecret t) of
        Inl e \<Rightarrow> Inl e
      | Inr clientSecret \<Rightarrow>
          (case Decrypt (mg_Cipher m) (t_StorePassword t) of
             Inl e \<Rightarrow> Inl e
           | Inr storePassword \<Rightarrow> Inr (clientSecret, storePassword)))"

definition Activate :: "string \<Rightarrow> ('w db_world_scheme, unit) io" where
  "Activate tenantID =
     bindE (GetTenant tenantID) (\<lambda>t. bindE (UpdateTenant (t\<lparr>t_Status := ''active''\<rparr>)) (\<lambda>_. ret ()))"

definition tenant_Delete :: "string \<Rightarrow> ('w db_world_scheme, unit) io" where
  "tenant_Delete i = DeleteTenant i"

text \<open>The previous path, and the tenant with the path it has from now on.\<close>

definition BindStorePath :: "Manager \<Rightarrow> Tenant \<Rightarrow> ('w db_world_scheme, string \<times> Tenant) io" where
  "BindStorePath m t =
     (if t_ID t = [] then ret ([], t)
      else if mg_StoreRoot m = [] then ret (t_StorePath t, t)
      else
        (let want = path_Clean (path_Join [mg_StoreRoot m, t_ID t]); previous = t_StorePath t
         in bindE (from_result (GuardPath want)) (\<lambda>_.
            bindE (os_MkdirAll want) (\<lambda>_.
              if path_Clean previous = want then ret (previous, t)
              else bindE (UpdateTenant (t\<lparr>t_StorePath := want\<rparr>)) (\<lambda>t'. ret (previous, t'))))))"

fun rebase_loop :: "Manager \<Rightarrow> Tenant list \<Rightarrow> nat \<Rightarrow> ('w db_world_scheme, nat) io" where
  "rebase_loop m [] n = ret n"
| "rebase_loop m (t # ts) n =
     attempt (BindStorePath m t) (\<lambda>r. case r of
       Inl e \<Rightarrow> throw (Wrap (''tenant '' @ t_ID t) e)
     | Inr (old, t') \<Rightarrow>
         rebase_loop m ts (if path_Clean (t_StorePath t) \<noteq> path_Clean (t_StorePath t') then Suc n else n))"

definition RebaseAllStorePaths :: "Manager \<Rightarrow> ('w db_world_scheme, nat) io" where
  "RebaseAllStorePaths m =
     (if mg_StoreRoot m = [] then ret 0 else bindE ListTenants (\<lambda>l. rebase_loop m l 0))"

section \<open>The consent state\<close>

text \<open>\<open>hmac.New(sha256.New, key)\<close>.\<close>

definition xor_pad :: "nat \<Rightarrow> string \<Rightarrow> string" where
  "xor_pad b key = map (\<lambda>c. char_of_byte (byte_of c XOR of_nat b)) key"

definition hmac_sha256 :: "string \<Rightarrow> string \<Rightarrow> string" where
  "hmac_sha256 key msg =
     (let k0 = (if length key > 64 then sha256_Sum256 key else key);
          k = k0 @ replicate (64 - length k0) (CHR 0x00)
      in sha256_Sum256 (xor_pad 0x5C k @ sha256_Sum256 (xor_pad 0x36 k @ msg)))"

definition time_Unix :: "gotime \<Rightarrow> int" where
  "time_Unix t = t div ns_per_sec - 62135596800"

definition consent_payload :: "string \<Rightarrow> int \<Rightarrow> string" where
  "consent_payload tenantID expires = json_Marshal (JObj [(''t'', JStr tenantID), (''e'', JNum (show_int expires))])"

definition SignConsentState :: "string \<Rightarrow> string \<Rightarrow> int \<Rightarrow> gotime \<Rightarrow> string" where
  "SignConsentState tenantID masterKeyB64 ttl now =
     (let payload = consent_payload tenantID (time_Unix (now + ttl))
      in rawurl_EncodeToString payload @ ''.'' @ rawurl_EncodeToString (hmac_sha256 masterKeyB64 payload))"

definition store_consent :: "(string \<times> int) \<times> bool \<Rightarrow> string \<times> json \<Rightarrow> (string \<times> int) \<times> bool" where
  "store_consent st kv =
     (let ((t, e), bad) = st; (k, v) = kv
      in if strings_EqualFold k ''t'' then (case store_string v t of (t', b) \<Rightarrow> ((t', e), bad \<or> b))
         else if strings_EqualFold k ''e'' then (case store_int v e of (e', b) \<Rightarrow> ((t, e'), bad \<or> b))
         else st)"

definition parse_consent :: "string \<Rightarrow> (string \<times> int) result" where
  "parse_consent payload =
     (case json_parse payload of
        None \<Rightarrow> Inl (Err ''invalid character in JSON'')
      | Some JNull \<Rightarrow> Inr ([], 0)
      | Some (JObj ms) \<Rightarrow>
          (case foldl store_consent (([], 0), False) ms of
             (c, bad) \<Rightarrow> (if bad then Inl (Err ''json: cannot unmarshal'') else Inr c))
      | Some _ \<Rightarrow> Inl (Err ''json: cannot unmarshal''))"

definition VerifyConsentState :: "string \<Rightarrow> string \<Rightarrow> gotime \<Rightarrow> string result" where
  "VerifyConsentState state masterKeyB64 now =
     (case strings_Split (CHR ''.'') state of
        [a, b] \<Rightarrow>
          (case rawurl_DecodeString a of
             None \<Rightarrow> Inl (Err ''illegal base64 data'')
           | Some payload \<Rightarrow>
               (case rawurl_DecodeString b of
                  None \<Rightarrow> Inl (Err ''illegal base64 data'')
                | Some sig \<Rightarrow>
                    (if sig \<noteq> hmac_sha256 masterKeyB64 payload then Inl (Err ''bad signature'')
                     else (case parse_consent payload of
                             Inl e \<Rightarrow> Inl e
                           | Inr (tenantID, expires) \<Rightarrow>
                               (if time_Unix now > expires then Inl (Err ''state expired'') else Inr tenantID)))))
      | _ \<Rightarrow> Inl (Err ''invalid state''))"

section \<open>Lemmas\<close>

lemma Decrypt_sealed:
  assumes "length nonce = gcm_NonceSize"
  shows "Decrypt key (base64_EncodeToString (nonce @ gcm_Seal key nonce p)) = Inr p"
  using assms by (simp add: Decrypt_def)

lemma wp_Encrypt [wp_intros]:
  assumes "\<And>c fs n. Decrypt key c = Inr p \<Longrightarrow> Q (Inr c) (w\<lparr>faults := fs, rand_pos := n\<rparr>)"
    "\<And>e fs. Q (Inl e) (w\<lparr>faults := fs\<rparr>)"
  shows "wp (Encrypt key p) Q w"
  unfolding Encrypt_def using assms by (auto simp: wp_simps Decrypt_sealed intro!: wp_intros)

text \<open>The padding of the standard encoding comes at the end and completes a group of four.\<close>

lemma base64_padding:
  "base64_EncodeToString s = filter (\<lambda>c. c \<noteq> CHR ''='') (base64_EncodeToString s) @
     replicate ((4 - length (filter (\<lambda>c. c \<noteq> CHR ''='') (base64_EncodeToString s)) mod 4) mod 4) (CHR ''='')
   \<and> length (filter (\<lambda>c. c \<noteq> CHR ''='') (base64_EncodeToString s)) mod 4 \<noteq> 1"
proof (induction s rule: base64_EncodeToString.induct)
  case (4 a b c r)
  have four: "Suc (Suc (Suc (Suc n))) mod 4 = n mod 4" for n by presburger
  then show ?case using 4 by (simp add: b64_chr_special)
qed (simp_all add: b64_chr_special numeral_2_eq_2)

lemma base64_char_kept:
  "c \<in> set (base64_EncodeToString s) \<Longrightarrow> c \<noteq> CHR ''='' \<Longrightarrow> c \<in> set b64_alphabet"
  by (induction s rule: base64_EncodeToString.induct) (auto simp: b64_chr_mem)

lemma std_url_char: "c \<in> set b64_alphabet \<Longrightarrow> std_char (url_char c) = c"
  by (auto simp: std_char_def url_char_def b64_alphabet_def)

lemma url_char_special:
  "c \<in> set b64_alphabet \<Longrightarrow> url_char c \<notin> {CHR ''='', CHR ''+'', CHR ''/'', CHR ''.'', CHR 0x0A, CHR 0x0D}"
  by (auto simp: url_char_def b64_alphabet_def)

lemma rawurl_chars:
  "c \<in> set (rawurl_EncodeToString s) \<Longrightarrow> c \<notin> {CHR ''='', CHR ''+'', CHR ''/'', CHR ''.'', CHR 0x0A, CHR 0x0D}"
  using url_char_special base64_char_kept by (fastforce simp: rawurl_EncodeToString_def)

lemma rawurl_Decode_Encode [simp]: "rawurl_DecodeString (rawurl_EncodeToString s) = Some s"
proof -
  let ?e = "filter (\<lambda>c. c \<noteq> CHR ''='') (base64_EncodeToString s)"
  let ?r = "rawurl_EncodeToString s"
  have plain: "filter (\<lambda>c. c \<noteq> CHR 0x0A \<and> c \<noteq> CHR 0x0D) ?r = ?r"
    using rawurl_chars [of _ s] by (intro filter_True) auto
  have none: "\<not> list_ex (\<lambda>c. c = CHR ''='' \<or> c = CHR ''+'' \<or> c = CHR ''/'') ?r"
    using rawurl_chars [of _ s] by (auto simp: list_ex_iff)
  have std: "map std_char ?r = ?e"
    unfolding rawurl_EncodeToString_def map_map comp_def
    by (rule map_idI) (use base64_char_kept std_url_char in auto)
  have len: "length ?r = length ?e" by (simp add: rawurl_EncodeToString_def)
  have "b64_dec (?e @ replicate ((4 - length ?e mod 4) mod 4) (CHR ''='')) = Some s"
    using base64_padding [of s] b64_dec_enc [of s] by argo
  then show ?thesis
    unfolding rawurl_DecodeString_def Let_def plain std len using none base64_padding [of s] by simp
qed

lemma length_rawurl: "length (rawurl_EncodeToString s) = (4 * length s + 2) div 3"
proof -
  have "length (filter (\<lambda>c. c \<noteq> CHR ''='') (base64_EncodeToString s)) = (4 * length s + 2) div 3"
    by (induction s rule: base64_EncodeToString.induct) (simp_all add: b64_chr_special)
  then show ?thesis by (simp add: rawurl_EncodeToString_def)
qed

definition schedule_of :: "Schedule \<Rightarrow> string \<times> string \<times> bool" where
  "schedule_of s = (sc_Service s, sc_CronExpr s, sc_Enabled s)"

lemma create_schedules_spec:
  "wp (create_schedules tid l) (\<lambda>r w'. tenants w' = tenants w
     \<and> (\<exists>new. schedules w' = schedules w @ new \<and> (\<forall>s \<in> set new. sc_TenantID s = tid)
          \<and> (r = Inr () \<longrightarrow> map schedule_of new = l))) w"
proof (induction l arbitrary: w)
  case Nil
  then show ?case by (simp add: create_schedules_def wp_simps)
next
  case (Cons ds l)
  obtain sv c e where ds: "ds = (sv, c, e)" by (cases ds)
  let ?Q = "\<lambda>r w'. tenants w' = tenants w
     \<and> (\<exists>new. schedules w' = schedules w @ new \<and> (\<forall>s \<in> set new. sc_TenantID s = tid)
          \<and> (r = Inr () \<longrightarrow> map schedule_of new = ds # l))"
  have step: "wp (create_schedules tid l) ?Q v"
    if v: "tenants v = tenants w" "schedules v = schedules w @ [s]" "sc_TenantID s = tid" "schedule_of s = ds"
    for v :: "'a db_world_scheme" and s
  proof (rule wp_mono [OF Cons.IH], goal_cases)
    case (1 r w')
    then obtain new where "schedules w' = schedules v @ new" "\<forall>s \<in> set new. sc_TenantID s = tid"
      "r = Inr () \<longrightarrow> map schedule_of new = l" by blast
    with 1 v show ?case by (intro conjI exI [of _ "s # new"]) simp_all
  qed
  have unfold_loop: "create_schedules tid (ds # l) =
      bindE (bindE (CreateSchedule (default_schedule tid ds)) (\<lambda>_. ret ())) (\<lambda>_. create_schedules tid l)"
    by (simp add: create_schedules_def)
  show ?case
    unfolding unfold_loop
    by (auto simp: wp_simps CreateSchedule_def Let_def default_schedule_def ds [symmetric]
        intro!: wp_intros step) (auto simp: schedule_of_def ds)
qed

lemma wp_RandomPassword [wp_intros]:
  assumes "\<And>p fs k. length p = (4 * nat (if n < 16 then 32 else n) + 2) div 3 \<Longrightarrow> Q (Inr p) (w\<lparr>faults := fs, rand_pos := k\<rparr>)"
    "\<And>e fs. Q (Inl e) (w\<lparr>faults := fs\<rparr>)"
  shows "wp (RandomPassword n) Q w"
  unfolding RandomPassword_def using assms by (auto simp: wp_simps length_rawurl intro!: wp_intros)

lemma wp_CreateRepo:
  assumes "\<And>fs. Q (Inr ()) (w\<lparr>faults := fs\<rparr>)" "\<And>e fs. Q (Inl e) (w\<lparr>faults := fs\<rparr>)"
  shows "wp (CreateRepo p) Q w"
proof -
  let ?P = "\<lambda>v. \<exists>fs. v = w\<lparr>faults := fs\<rparr>"
  have same: "w\<lparr>faults := faults w\<rparr> = w" by simp
  have "fault_free ?P" by (auto simp: fault_free_def) (metis (no_types) io_env.surjective io_env.update_convs(1))
  then have "keeps ?P (CreateRepo p)"
    unfolding CreateRepo_def os_MkdirAll_def by (intro keeps_rules keeps_access)
  then have "wp (CreateRepo p) (\<lambda>_. ?P) w" by (rule wp_keeps) (metis same)
  then show ?thesis
    by (rule wp_mono) (metis assms sum.exhaust old.unit.exhaust)
qed

text \<open>The payload of a state is read back.\<close>

definition token_char :: "char \<Rightarrow> bool" where
  "token_char c = (plain_char c \<and> c \<noteq> CHR ''<'' \<and> c \<noteq> CHR ''>'' \<and> c \<noteq> CHR ''&'')"

lemma consent_text:
  assumes "list_all token_char i"
  shows "consent_payload i e =
    CHR ''{'' # CHR 0x22 # ''t'' @ CHR 0x22 # CHR '':'' # CHR 0x22 # i @ CHR 0x22 # CHR '','' #
      CHR 0x22 # ''e'' @ CHR 0x22 # CHR '':'' # show_int e @ CHR ''}'' # []"
proof -
  have "json_quote ''t'' = CHR 0x22 # ''t'' @ [CHR 0x22]" "json_quote ''e'' = CHR 0x22 # ''e'' @ [CHR 0x22]"
    by (rule json_quote_plain, simp add: plain_char_def byte_in_def)+
  moreover have "json_quote i = CHR 0x22 # i @ [CHR 0x22]"
    by (rule json_quote_plain) (use assms in \<open>simp add: token_char_def list_all_iff\<close>)
  ultimately show ?thesis by (simp add: consent_payload_def)
qed

lemma parse_consent_payload:
  assumes "list_all token_char i" "- (2 ^ 63) \<le> e" "e < 2 ^ 63"
  shows "parse_consent (consent_payload i e) = Inr (i, e)"
proof -
  let ?p = "consent_payload i e"
  let ?rest = "CHR 0x22 # ''e'' @ CHR 0x22 # CHR '':'' # show_int e @ CHR ''}'' # []"
  have plain: "list_all plain_char ''t''" "list_all plain_char ''e''" "list_all plain_char i"
    using assms(1) by (auto simp: plain_char_def byte_in_def token_char_def list_all_iff)
  obtain n where fuel: "2 * length ?p + 2 = Suc (Suc (Suc (Suc n)))"
    using consent_text [OF assms(1), of e] by (cases "2 * length ?p + 2") (auto simp: eval_nat_numeral)
  have "json_members (Suc (Suc (Suc n))) 9999
      (CHR 0x22 # ''t'' @ CHR 0x22 # CHR '':'' # CHR 0x22 # i @ CHR 0x22 # CHR '','' # ?rest) =
      Some ([(''t'', JStr i), (''e'', JNum (show_int e))], [])"
    using members_string [OF plain(1,3), of "Suc n" 9999 ?rest]
      members_int [OF plain(2), of "CHR ''}''" n 9999 e "[]"] by simp
  then have "json_value (Suc (Suc (Suc (Suc n)))) 10000 ?p = Some (JObj [(''t'', JStr i), (''e'', JNum (show_int e))], [])"
    unfolding consent_text [OF assms(1)] json_value.simps
    by (simp add: skip_ws_Cons json_ws_def del: json_members.simps)
  then have "json_parse ?p = Some (JObj [(''t'', JStr i), (''e'', JNum (show_int e))])"
    unfolding json_parse_def fuel by (simp only: option.case split_conv) (simp add: skip_ws_def)
  then show ?thesis
    by (simp add: parse_consent_def store_consent_def strings_EqualFold_def strings_ToLower_def ascii_lower_def
        store_string_def store_int_def json_int_show [OF assms(2,3)])
qed

lemma Split_state:
  assumes "c \<notin> set a" "c \<notin> set b"
  shows "strings_Split c (a @ [c] @ b) = [a, b]"
  using assms by (simp add: Split_append_sep Split_no_sep)

section \<open>Properties\<close>

text \<open>
  A stored secret can be read back. Whatever random bytes were drawn, decrypting what \<open>Encrypt\<close>
  returned gives the plaintext.
\<close>

theorem Decrypt_Encrypt:
  assumes "Encrypt key p w = (Inr c, w')"
  shows "Decrypt key c = Inr p"
proof -
  have "wp (Encrypt key p) (\<lambda>r w'. \<forall>c. r = Inr c \<longrightarrow> Decrypt key c = Inr p) w"
    by (auto intro!: wp_intros)
  from wpD [OF this assms] show ?thesis by simp
qed

text \<open>
  C32: a created tenant is complete. When \<open>Create\<close> succeeds, under any fault script, the tenant it
  returns is the row of the table, in status \<open>setup\<close>, with its store below the store root under its
  id; its secrets decrypt to the client secret of the input and to a store password of 43
  characters; and the five default schedules were added for it.
\<close>

theorem tenant_Create_complete:
  assumes "tenant_Create m i w = (Inr t, w')"
  shows "t \<in> set (tenants w') \<and> t_Name t = ci_Name i \<and> t_Status t = ''setup''
    \<and> t_StorePath t = path_Join [mg_StoreRoot m, t_ID t]
    \<and> (\<exists>pass. DecryptSecrets m t = Inr (ci_ClientSecret i, pass) \<and> length pass = 43)
    \<and> (\<exists>new. schedules w' = schedules w @ new \<and> (\<forall>s \<in> set new. sc_TenantID s = t_ID t)
         \<and> map schedule_of new = DefaultSchedules)"
proof -
  let ?Q = "\<lambda>r w'. \<forall>t. r = Inr t \<longrightarrow> t \<in> set (tenants w') \<and> t_Name t = ci_Name i \<and> t_Status t = ''setup''
    \<and> t_StorePath t = path_Join [mg_StoreRoot m, t_ID t]
    \<and> (\<exists>pass. DecryptSecrets m t = Inr (ci_ClientSecret i, pass) \<and> length pass = 43)
    \<and> (\<exists>new. schedules w' = schedules w @ new \<and> (\<forall>s \<in> set new. sc_TenantID s = t_ID t)
         \<and> map schedule_of new = DefaultSchedules)"
  have "wp (tenant_Create m i) ?Q w"
    unfolding tenant_Create_def
    by (auto simp: wp_simps Let_def CreateTenant_def UpdateTenant_def DecryptSecrets_def
        intro!: wp_intros wp_CreateRepo wp_mono [OF create_schedules_spec] split: sum.split)
  from wpD [OF this assms] show ?thesis by blast
qed

text \<open>
  A consent state returns to its tenant until it expires. For a tenant id of printable ASCII
  without quotes and angle brackets, verifying a signed state with the same key gives the tenant up
  to the second of its expiry, and an error afterwards.
\<close>

theorem VerifyConsentState_Sign:
  assumes "list_all token_char i" "- (2 ^ 63) \<le> time_Unix (t0 + ttl)" "time_Unix (t0 + ttl) < 2 ^ 63"
  shows "VerifyConsentState (SignConsentState i key ttl t0) key now =
    (if time_Unix now \<le> time_Unix (t0 + ttl) then Inr i else Inl (Err ''state expired''))"
proof -
  let ?p = "consent_payload i (time_Unix (t0 + ttl))"
  have "CHR ''.'' \<notin> set (rawurl_EncodeToString x)" for x using rawurl_chars [of "CHR ''.''" x] by blast
  then have "strings_Split (CHR ''.'') (SignConsentState i key ttl t0) =
      [rawurl_EncodeToString ?p, rawurl_EncodeToString (hmac_sha256 key ?p)]"
    unfolding SignConsentState_def Let_def by (intro Split_state)
  then show ?thesis by (simp add: VerifyConsentState_def parse_consent_payload [OF assms])
qed

section \<open>Witnesses\<close>

definition demo_manager :: Manager where
  "demo_manager = \<lparr>mg_Cipher = replicate 32 (CHR ''k''), mg_StoreRoot = ''/srv'', mg_BaseURL = ''https://backup''\<rparr>"

definition empty_db :: db_world where
  "empty_db =
     \<lparr>faults = [], clock = 1, uuid_src = show_nat, uuid_next = 0,
      files = [], torn = Some 3, rand_byte = (\<lambda>i. char_of i), rand_pos = 0,
      tenants = [], schedules = [], jobs = [], job_logs = [], delta_tokens = [],
      catalog_items = [], catalog_snapshots = [], catalog_changes = []\<rparr>"

definition demo_input :: CreateInput where
  "demo_input = \<lparr>ci_Name = ''ACME'', ci_AzureTenantID = ''a1'', ci_ClientID = ''c1'', ci_ClientSecret = ''s3cret'', ci_SecretExpires = 0\<rparr>"

theorem Decrypt_Encrypt_witness:
  "\<exists>c. fst (Encrypt ''key'' ''s3cret'' empty_db) = Inr c \<and> Decrypt ''key'' c = Inr ''s3cret''"
proof -
  have "\<exists>c w'. Encrypt ''key'' ''s3cret'' empty_db = (Inr c, w')"
    by (simp add: Encrypt_def rand_Read_def io_simps empty_db_def)
  then show ?thesis using Decrypt_Encrypt by (metis fst_conv)
qed

lemma create_schedules_ok:
  assumes "faults w = []" "inj (uuid_src w)" "\<forall>s \<in> set (schedules w). \<exists>k < uuid_next w. sc_ID s = uuid_src w k"
  shows "fst (create_schedules tid l w) = Inr ()"
  using assms
proof (induction l arbitrary: w)
  case Nil
  then show ?case by (simp add: create_schedules_def ret_def)
next
  case (Cons ds l)
  let ?s = "(default_schedule tid ds)\<lparr>sc_ID := uuid_src w (uuid_next w), sc_CreatedAt := clock w\<rparr>"
  let ?w = "w\<lparr>uuid_next := Suc (uuid_next w), schedules := schedules w @ [?s]\<rparr>"
  have "sc_ID s \<noteq> uuid_src w (uuid_next w)" if "s \<in> set (schedules w)" for s
    using Cons.prems that by (metis injD less_irrefl)
  then have "CreateSchedule (default_schedule tid ds) w = (Inr ?s, ?w)"
    using Cons.prems(1) by (auto simp: CreateSchedule_def default_schedule_def sql_guarded_def io_simps Let_def split: prod.split)
  then have "create_schedules tid (ds # l) w = create_schedules tid l ?w"
    by (simp add: create_schedules_def bindE_def ret_def)
  moreover have "fst (create_schedules tid l ?w) = Inr ()"
  proof (rule Cons.IH)
    show "\<forall>s \<in> set (schedules ?w). \<exists>k < uuid_next ?w. sc_ID s = uuid_src ?w k"
      using Cons.prems(3) by (auto intro: less_SucI)
  qed (use Cons.prems in simp_all)
  ultimately show ?case by simp
qed

lemma demo_create_runs: "\<exists>t w'. tenant_Create demo_manager demo_input empty_db = (Inr t, w')"
proof -
  have inj: "inj show_nat" by (metis digits_val_show injI)
  have id0: "show_nat 0 = ''0''" and guard: "GuardPath (path_Join [''/srv'', ''0'']) = Inr ''/srv/0''" by code_simp+
  have "\<exists>t w1. tenant_Create demo_manager demo_input empty_db =
      bindE (create_schedules ''0'' DefaultSchedules) (\<lambda>_. ret t) w1 \<and> faults w1 = [] \<and> uuid_src w1 = show_nat \<and> schedules w1 = []"
    unfolding tenant_Create_def
    by (simp add: demo_manager_def demo_input_def empty_db_def Encrypt_def RandomPassword_def rand_Read_def id0 guard
        CreateTenant_def UpdateTenant_def CreateRepo_def os_MkdirAll_def sql_guarded_def Let_def io_simps)
      (rule exI, rule exI, rule conjI, rule refl, simp)
  then obtain t w1 where run: "tenant_Create demo_manager demo_input empty_db =
      bindE (create_schedules ''0'' DefaultSchedules) (\<lambda>_. ret t) w1" "faults w1 = []" "uuid_src w1 = show_nat" "schedules w1 = []"
    by blast
  then have "fst (create_schedules ''0'' DefaultSchedules w1) = Inr ()" by (intro create_schedules_ok) (simp_all add: inj)
  then have "\<exists>w2. create_schedules ''0'' DefaultSchedules w1 = (Inr (), w2)" by (metis prod.collapse)
  then show ?thesis by (auto simp: run(1) bindE_def ret_def)
qed

theorem tenant_Create_complete_witness:
  "\<exists>t. fst (tenant_Create demo_manager demo_input empty_db) = Inr t \<and> t_Name t = ''ACME''
     \<and> (\<exists>pass. DecryptSecrets demo_manager t = Inr (''s3cret'', pass) \<and> length pass = 43)"
proof -
  obtain t w' where "tenant_Create demo_manager demo_input empty_db = (Inr t, w')" using demo_create_runs by blast
  from tenant_Create_complete [OF this] this show ?thesis by (auto simp: demo_input_def)
qed

theorem VerifyConsentState_Sign_witness:
  "VerifyConsentState (SignConsentState ''t-1'' ''key'' (10 * ns_per_sec) (64000000000 * ns_per_sec)) ''key'' (64000000005 * ns_per_sec) = Inr ''t-1''"
  using VerifyConsentState_Sign [of "''t-1''" "64000000000 * ns_per_sec" "10 * ns_per_sec" "''key''" "64000000005 * ns_per_sec"]
  by (simp add: token_char_def plain_char_def byte_in_def time_Unix_def ns_per_sec_def)

end
