(* ===== verification/Job_Runner.thy ===== *)
theory Job_Runner
  imports Backup_Service Catalog_Retention Retention_Json Tenants
begin

text \<open>
  The runner of backup jobs (\<open>internal/backup/job.go\<close>): enqueueing, the body of a job, cancellation,
  and the recovery after a restart.

  The maps and locks of the \<open>Runner\<close> are fields of the world: the jobs with a registered cancel
  function, the jobs whose context is cancelled, the file locks with the job that holds them (\<open>None\<close> for
  another process), and the jobs for which a goroutine was started. A job has one goroutine, so its
  context is named by the job's id. A call with the context of a job fails with \<open>context canceled\<close>
  before it reaches the database once the context is cancelled (\<open>on_ctx\<close>).

  The services, the notifier, the Graph client of the Microsoft SDK and the parser of UUIDs are fields of
  the \<open>Runner\<close>. \<open>runJob\<close> is cut at the places where other goroutines can interfere, one definition per
  part; \<open>Runner_Threads\<close> composes the parts to goroutines and interleaves them.
\<close>

section \<open>State\<close>

record run_world = cat_world +
  cancels :: "string list"
  cancelled :: "string list"
  flocks :: "(string \<times> string option) list"
  spawned :: "string list"

record Event =
  ev_Type :: string
  ev_TenantID :: string
  ev_Subject :: string
  ev_Body :: string

text \<open>\<open>ServiceBackup.Run\<close>: the job it was given is changed in place, also when it returns an error.\<close>

type_synonym ('w, 'g) ServiceBackup =
  "'g option \<Rightarrow> Tenant \<Rightarrow> Job \<Rightarrow> string \<Rightarrow> Store \<Rightarrow> Progress option \<Rightarrow>
     'w run_world_scheme \<Rightarrow> (Job \<times> Result result) \<times> 'w run_world_scheme"

text \<open>For the dates of exports: the parser of times in JSON, and the modification time of a directory.\<close>

record export_clock =
  ec_Parse :: "string \<Rightarrow> gotime option"
  ec_ModTime :: "string \<Rightarrow> gotime"

record ('w, 'g) Runner =
  rn_Tenants :: Manager
  rn_Registry :: "(string \<times> ('w, 'g) ServiceBackup) list"
  rn_Notifier :: "(Event \<Rightarrow> ('w run_world_scheme, unit) io) option"
  rn_StagingRoot :: string
  rn_MaxConcurrent :: nat
  rn_MaxConcurrentFull :: nat
  rn_graph :: "string \<Rightarrow> string \<Rightarrow> string \<Rightarrow> ('w run_world_scheme, 'g) io"
  rn_isUUID :: "string \<Rightarrow> bool"
  rn_codec :: codec
  rn_exportTime :: export_clock

definition NewRegistry :: "(string \<times> ('w, 'g) ServiceBackup) list \<Rightarrow> (string \<times> ('w, 'g) ServiceBackup) list" where
  "NewRegistry svcs = foldl (\<lambda>m (name, s). AList.update name s m) [] svcs"

definition Registry_Get :: "('w, 'g) Runner \<Rightarrow> string \<Rightarrow> ('w, 'g) ServiceBackup option" where
  "Registry_Get r name = map_of (rn_Registry r) name"

definition NewRunner ::
  "Manager \<Rightarrow> (string \<times> ('w, 'g) ServiceBackup) list \<Rightarrow> (Event \<Rightarrow> ('w run_world_scheme, unit) io) option \<Rightarrow> string
   \<Rightarrow> int \<Rightarrow> (string \<Rightarrow> string \<Rightarrow> string \<Rightarrow> ('w run_world_scheme, 'g) io) \<Rightarrow> (string \<Rightarrow> bool) \<Rightarrow> codec \<Rightarrow> export_clock
   \<Rightarrow> ('w, 'g) Runner" where
  "NewRunner mgr reg notifier staging maxConc graph isUUID c created =
     \<lparr>rn_Tenants = mgr, rn_Registry = reg, rn_Notifier = notifier, rn_StagingRoot = staging,
      rn_MaxConcurrent = nat (if maxConc < 1 then 1 else maxConc), rn_MaxConcurrentFull = 1,
      rn_graph = graph, rn_isUUID = isUUID, rn_codec = c, rn_exportTime = created\<rparr>"

definition SetMaxConcurrentFull :: "int \<Rightarrow> ('w, 'g) Runner \<Rightarrow> ('w, 'g) Runner" where
  "SetMaxConcurrentFull n r = r\<lparr>rn_MaxConcurrentFull := nat (if n < 1 then 1 else n)\<rparr>"

text \<open>Punctuation outside ASCII in the messages, as UTF-8.\<close>

definition em_dash :: string where
  "em_dash = [CHR 0xE2, CHR 0x80, CHR 0x94]"

definition ellipsis :: string where
  "ellipsis = [CHR 0xE2, CHR 0x80, CHR 0xA6]"

definition middot :: string where
  "middot = '' '' @ [CHR 0xC2, CHR 0xB7] @ '' ''"

definition ctx_done :: "string \<Rightarrow> 'w run_world_scheme \<Rightarrow> bool" where
  "ctx_done jobID w = (jobID \<in> set (cancelled w))"

definition on_ctx :: "string \<Rightarrow> ('w run_world_scheme, 'a) io \<Rightarrow> ('w run_world_scheme, 'a) io" where
  "on_ctx jobID m = bindE (gets (ctx_done jobID)) (\<lambda>d. if d then throw ErrCanceled else m)"

definition notify :: "('w, 'g) Runner \<Rightarrow> Event \<Rightarrow> ('w run_world_scheme, unit) io" where
  "notify r ev = (case rn_Notifier r of None \<Rightarrow> ret () | Some send \<Rightarrow> ignore (send ev))"

definition SafeService :: "string \<Rightarrow> string" where
  "SafeService service =
     (let s = strings_ToLower (strings_TrimSpace service)
      in if s \<in> {''exchange'', ''onedrive'', ''sharepoint'', ''teams'', ''pst''} then s else ''unknown'')"

section \<open>Staging\<close>

text \<open>\<open>os.ReadDir\<close>: the names in a directory, sorted. A directory is there when a file is below it.\<close>

definition dir_entries :: "string \<Rightarrow> 'w fs_world_scheme \<Rightarrow> string list" where
  "dir_entries root w =
     sort (remdups (map (\<lambda>(p, d). path_segs p ! length (path_segs root)) (files_below root w)))"

definition stagingJobDir :: "('w, 'g) Runner \<Rightarrow> string \<Rightarrow> string result" where
  "stagingJobDir r jobID =
     (if rn_StagingRoot r = [] then Inl (Err ''invalid path'')
      else (case GuardPath jobID of
              Inl e \<Rightarrow> Inl e
            | Inr _ \<Rightarrow> EnsureSubpath (rn_StagingRoot r) jobID))"

definition cleanStagingJob :: "('w, 'g) Runner \<Rightarrow> string \<Rightarrow> ('w run_world_scheme, unit) io" where
  "cleanStagingJob r jobID =
     (case stagingJobDir r jobID of
        Inl _ \<Rightarrow> ret ()
      | Inr path \<Rightarrow>
          (case GuardPath path of
             Inl _ \<Rightarrow> ret ()
           | Inr path' \<Rightarrow> ignore (os_RemoveAll path')))"

fun purge_loop :: "('w, 'g) Runner \<Rightarrow> string list \<Rightarrow> ('w run_world_scheme, unit) io" where
  "purge_loop r [] = ret ()"
| "purge_loop r (e # es) =
     (if \<not> rn_isUUID r e then purge_loop r es
      else (case EnsureSubpath (rn_StagingRoot r) e of
              Inl _ \<Rightarrow> purge_loop r es
            | Inr path \<Rightarrow>
                (case GuardPath path of
                   Inl _ \<Rightarrow> purge_loop r es
                 | Inr path' \<Rightarrow> bindE (ignore (os_RemoveAll path')) (\<lambda>_. purge_loop r es))))"

definition PurgeStaging :: "('w, 'g) Runner \<Rightarrow> ('w run_world_scheme, unit) io" where
  "PurgeStaging r =
     (if rn_StagingRoot r = [] then ret ()
      else attempt (query (dir_entries (rn_StagingRoot r))) (\<lambda>x. case x of
             Inl _ \<Rightarrow> ret ()
           | Inr entries \<Rightarrow> purge_loop r entries))"

definition RecoverOrphans :: "('w, 'g) Runner \<Rightarrow> ('w run_world_scheme, unit) io" where
  "RecoverOrphans r =
     bindE (ignore (FailOrphanedJobs ''interrupted by process restart'')) (\<lambda>_. PurgeStaging r)"

section \<open>Enqueueing\<close>

definition GraphBackupServices :: "string list" where
  "GraphBackupServices = [''exchange'', ''onedrive'', ''teams'', ''sharepoint'']"

definition isGraphBackupService :: "string \<Rightarrow> bool" where
  "isGraphBackupService service = list_ex (\<lambda>s. s = service) GraphBackupServices"

definition bindTenantStore :: "('w, 'g) Runner \<Rightarrow> Tenant \<Rightarrow> ('w run_world_scheme, Tenant) io" where
  "bindTenantStore r t = bindE (BindStorePath (rn_Tenants r) t) (\<lambda>(old, t'). ret t')"

definition emptyStoreState :: "('w, 'g) Runner \<Rightarrow> string \<Rightarrow> string \<Rightarrow> ('w run_world_scheme, bool \<times> bool) io" where
  "emptyStoreState r tenantID service =
     bindE (GetTenant tenantID) (\<lambda>t.
     bindE (bindTenantStore r t) (\<lambda>t'.
       EmptyLocalData tenantID (t_StorePath t') service))"

definition enabledGraphServices :: "string \<Rightarrow> string \<Rightarrow> ('w run_world_scheme, string list) io" where
  "enabledGraphServices tenantID except =
     bindE (ListSchedules tenantID) (\<lambda>schedules.
       ret (map sc_Service (filter (\<lambda>sch. \<not> (\<not> sc_Enabled sch \<or> sc_Service sch = except \<or> \<not> isGraphBackupService (sc_Service sch))) schedules)))"

text \<open>The promotion of a job on an empty store: the job type to use, and the services to sync as well.\<close>

definition promote_empty ::
  "('w, 'g) Runner \<Rightarrow> string \<Rightarrow> string \<Rightarrow> string \<Rightarrow> bool \<Rightarrow> ('w run_world_scheme, string \<times> string list) io" where
  "promote_empty r tenantID service jobType promoteEmpty =
     (if promoteEmpty \<and> isGraphBackupService service \<and> jobType \<noteq> ''export'' then
        bindE (emptyStoreState r tenantID service) (\<lambda>(svcEmpty, tenantEmpty).
          (let jobType' = (if jobType \<noteq> ''full'' \<and> svcEmpty then ''full'' else jobType)
           in if tenantEmpty
              then bindE (enabledGraphServices tenantID service) (\<lambda>extras. ret (jobType', extras))
              else ret (jobType', [])))
      else ret (jobType, []))"

definition queued_job :: "string \<Rightarrow> string \<Rightarrow> string \<Rightarrow> string \<Rightarrow> string \<Rightarrow> Job" where
  "queued_job tenantID scheduleID service jobType params =
     \<lparr>j_ID = [], j_TenantID = tenantID, j_ScheduleID = scheduleID, j_Service = service, j_JobType = jobType,
      j_Status = ''queued'', j_StartedAt = zero_time, j_FinishedAt = zero_time, j_ItemsNew = 0, j_ItemsTotal = 0,
      j_BytesTransferred = 0, j_ErrorMessage = [], j_SnapshotID = [], j_ProgressPct = 0, j_ProgressMessage = [],
      j_Params = params, j_CreatedAt = zero_time\<rparr>"

text \<open>\<open>go r.runJob(job.ID)\<close> puts the job among the spawned ones.\<close>

definition enqueueLocked ::
  "('w, 'g) Runner \<Rightarrow> string \<Rightarrow> string \<Rightarrow> string \<Rightarrow> string \<Rightarrow> string \<Rightarrow> bool
   \<Rightarrow> ('w run_world_scheme, Job \<times> string list) io" where
  "enqueueLocked r tenantID service scheduleID jobType0 params promoteEmpty =
     bindE (promote_empty r tenantID service jobType0 promoteEmpty) (\<lambda>(jobType, extras).
     bindE (CountActiveJobs tenantID service) (\<lambda>n.
       if n > 0 then throw ErrTenantBusy
       else
         bindE (if jobType \<noteq> ''full'' then CountActiveFullJobs tenantID else ret 0) (\<lambda>fullN.
           if fullN > 0 then throw ErrTenantBusy
           else
             bindE (if jobType = ''full'' then DeleteDeltaTokens tenantID service else ret ()) (\<lambda>_.
             attempt (CreateJob (queued_job tenantID scheduleID service jobType params)) (\<lambda>c. case c of
               Inl e \<Rightarrow> throw (if IsUniqueViolation e then ErrTenantBusy else e)
             | Inr job \<Rightarrow>
                 bindE (modify (\<lambda>w. w\<lparr>spawned := spawned w @ [j_ID job]\<rparr>)) (\<lambda>_. ret (job, extras)))))))"

fun enqueue_extras :: "('w, 'g) Runner \<Rightarrow> string \<Rightarrow> string list \<Rightarrow> ('w run_world_scheme, unit) io" where
  "enqueue_extras r tenantID [] = ret ()"
| "enqueue_extras r tenantID (svc # svcs) =
     bindE (ignore (enqueueLocked r tenantID svc [] ''full'' [] False)) (\<lambda>_. enqueue_extras r tenantID svcs)"

definition EnqueueParams ::
  "('w, 'g) Runner \<Rightarrow> string \<Rightarrow> string \<Rightarrow> string \<Rightarrow> string \<Rightarrow> string \<Rightarrow> ('w run_world_scheme, Job) io" where
  "EnqueueParams r tenantID service scheduleID jobType params =
     bindE (enqueueLocked r tenantID service scheduleID jobType params True) (\<lambda>(job, extras).
     bindE (enqueue_extras r tenantID extras) (\<lambda>_. ret job))"

definition Enqueue ::
  "('w, 'g) Runner \<Rightarrow> string \<Rightarrow> string \<Rightarrow> string \<Rightarrow> string \<Rightarrow> ('w run_world_scheme, Job) io" where
  "Enqueue r tenantID service scheduleID jobType = EnqueueParams r tenantID service scheduleID jobType []"

section \<open>Cancelling\<close>

text \<open>\<open>if cancel, ok := r.cancels[jobID]; ok { cancel() }\<close>\<close>

definition call_cancel :: "string \<Rightarrow> ('w run_world_scheme, unit) io" where
  "call_cancel jobID =
     modify (\<lambda>w. if jobID \<in> set (cancels w) then w\<lparr>cancelled := jobID # cancelled w\<rparr> else w)"

definition log_line :: "string \<Rightarrow> string \<Rightarrow> string \<Rightarrow> JobLog" where
  "log_line jobID level msg = zero_log\<lparr>l_JobID := jobID, l_Level := level, l_Message := msg\<rparr>"

definition Cancel :: "('w, 'g) Runner \<Rightarrow> string \<Rightarrow> ('w run_world_scheme, unit) io" where
  "Cancel r jobID =
     bindE (GetJob jobID) (\<lambda>job.
       if j_Status job \<noteq> ''queued'' \<and> j_Status job \<noteq> ''running''
       then throw (Err (''job is not active (status='' @ j_Status job @ '')''))
       else
         bindE (call_cancel jobID) (\<lambda>_.
         bindE time_Now (\<lambda>now.
         bindE (ignore (UpdateJob (job\<lparr>j_Status := ''cancelled'', j_FinishedAt := now,
              j_ErrorMessage := ''cancelled by user'', j_ProgressMessage := ''Cancelled''\<rparr>))) (\<lambda>_.
         bindE (ignore (InsertJobLog (log_line (j_ID job) ''warn'' ''cancelled by user''))) (\<lambda>_.
           cleanStagingJob r jobID)))))"

definition KillStale :: "('w, 'g) Runner \<Rightarrow> string \<Rightarrow> string \<Rightarrow> ('w run_world_scheme, unit) io" where
  "KillStale r jobID reason =
     bindE (GetJob jobID) (\<lambda>job.
       if j_Status job \<noteq> ''running'' then ret ()
       else
         bindE (call_cancel jobID) (\<lambda>_.
         bindE time_Now (\<lambda>now.
         bindE (ignore (UpdateJob (job\<lparr>j_Status := ''error'', j_ErrorMessage := reason, j_FinishedAt := now,
              j_ProgressMessage := ''Stalled '' @ em_dash @ '' '' @ reason\<rparr>))) (\<lambda>_.
         bindE (ignore (InsertJobLog (log_line (j_ID job) ''error'' reason))) (\<lambda>_.
         bindE (cleanStagingJob r jobID) (\<lambda>_.
           notify r \<lparr>ev_Type = ''job_error'', ev_TenantID = j_TenantID job,
                     ev_Subject = ''Backup stalled: '' @ SafeService (j_Service job), ev_Body = reason\<rparr>))))))"

definition wasCancelled :: "string \<Rightarrow> ('w run_world_scheme, bool) io" where
  "wasCancelled jobID =
     attempt (GetJob jobID) (\<lambda>r. ret (case r of Inl _ \<Rightarrow> False | Inr job \<Rightarrow> j_Status job = ''cancelled''))"

definition isCancelErr :: "goerr \<Rightarrow> bool" where
  "isCancelErr err =
     (errors_Is err ErrCanceled \<or> errors_Is err ErrDeadline
      \<or> strings_Contains (strings_ToLower (err_text err)) ''context canceled'')"

definition finishCancelled :: "('w, 'g) Runner \<Rightarrow> Job \<Rightarrow> string \<Rightarrow> ('w run_world_scheme, unit) io" where
  "finishCancelled r job reason =
     attempt (GetJob (j_ID job)) (\<lambda>fresh.
       if (case fresh of Inl _ \<Rightarrow> False | Inr f \<Rightarrow> j_Status f = ''cancelled'')
       then cleanStagingJob r (j_ID job)
       else
         bindE time_Now (\<lambda>now.
         bindE (ignore (UpdateJob (job\<lparr>j_Status := ''cancelled'', j_ErrorMessage := reason, j_FinishedAt := now,
              j_ProgressMessage := ''Cancelled''\<rparr>))) (\<lambda>_.
         bindE (ignore (InsertJobLog (log_line (j_ID job) ''warn'' reason))) (\<lambda>_.
           cleanStagingJob r (j_ID job)))))"

definition fail :: "('w, 'g) Runner \<Rightarrow> Job \<Rightarrow> goerr \<Rightarrow> ('w run_world_scheme, unit) io" where
  "fail r job err =
     bindE (wasCancelled (j_ID job)) (\<lambda>c.
       if c \<or> isCancelErr err
       then bindE (finishCancelled r job ''cancelled by user'') (\<lambda>_. cleanStagingJob r (j_ID job))
       else
         bindE time_Now (\<lambda>now.
         bindE (ignore (UpdateJob (job\<lparr>j_Status := ''error'', j_ErrorMessage := err_text err, j_FinishedAt := now,
              j_ProgressMessage := ''Failed: '' @ err_text err\<rparr>))) (\<lambda>_.
         bindE (ignore (InsertJobLog (log_line (j_ID job) ''error'' (err_text err)))) (\<lambda>_.
         bindE (notify r \<lparr>ev_Type = ''job_error'', ev_TenantID = j_TenantID job,
                          ev_Subject = ''Backup failed: '' @ SafeService (j_Service job), ev_Body = err_text err\<rparr>) (\<lambda>_.
           cleanStagingJob r (j_ID job))))))"

end
