(* ===== verification/Notification.thy ===== *)
theory Notification
  imports Net_Addr Go_Struct Job_Runner
begin

text \<open>
  Notifications (\<open>internal/notification\<close>): which channels an event goes to, the messages they get, and the
  guards against header injection and against requests to internal addresses.

  The world grows by the two tables of the component and by what leaves the process: the mails handed to
  \<open>smtp.SendMail\<close> and the requests handed to the HTTP client, in order. Whether such a call succeeds is up to
  the fault script, the status of a response to \<open>http_status\<close>.
\<close>

section \<open>State\<close>

record NotificationSetting =
  ns_ID :: string
  ns_TenantID :: string
  ns_Channel :: string
  ns_Enabled :: bool
  ns_Config :: string
  ns_NotifyOn :: string
  ns_CreatedAt :: gotime

record NotificationLog =
  nl_ID :: string
  nl_TenantID :: string
  nl_Channel :: string
  nl_EventType :: string
  nl_Subject :: string
  nl_SentAt :: gotime
  nl_Success :: bool
  nl_Error :: string

record mail =
  ml_addr :: string
  ml_auth :: "(string \<times> string \<times> string) option"
  ml_from :: string
  ml_to :: "string list"
  ml_msg :: string

record request_out =
  rq_url :: string
  rq_headers :: "(string \<times> string) list"
  rq_body :: string

record note_world = run_world +
  notification_settings :: "NotificationSetting list"
  notification_log :: "NotificationLog list"
  mails :: "mail list"
  requests :: "request_out list"
  http_status :: "nat \<Rightarrow> int"
  http_body :: "nat \<Rightarrow> string"

text \<open>The mail server of the environment, used when no setting matches.\<close>

record NotifyService =
  sv_SMTPHost :: string
  sv_SMTPPort :: int
  sv_SMTPUser :: string
  sv_SMTPPassword :: string
  sv_SMTPFrom :: string
  sv_SMTPTo :: "string list"

section \<open>The tables\<close>

definition ListNotificationSettings :: "('w note_world_scheme, NotificationSetting list) io" where
  "ListNotificationSettings = query (\<lambda>w. sort_key ns_CreatedAt (notification_settings w))"

definition UpsertNotificationSetting :: "NotificationSetting \<Rightarrow> ('w note_world_scheme, NotificationSetting) io" where
  "UpsertNotificationSetting s =
     bindE (if ns_ID s = [] then uuid_NewString else ret (ns_ID s)) (\<lambda>i.
     bindE time_Now (\<lambda>now.
       (let s' = s\<lparr>ns_ID := i, ns_CreatedAt := now\<rparr>
        in bindE (exec (\<lambda>w. w\<lparr>notification_settings :=
             (if list_ex (\<lambda>r. ns_ID r = i) (notification_settings w)
              then map (\<lambda>r. if ns_ID r = i then s'\<lparr>ns_CreatedAt := ns_CreatedAt r\<rparr> else r) (notification_settings w)
              else notification_settings w @ [s'])\<rparr>)) (\<lambda>_. ret s'))))"

definition InsertNotificationLog :: "NotificationLog \<Rightarrow> ('w note_world_scheme, unit) io" where
  "InsertNotificationLog l =
     bindE (if nl_ID l = [] then uuid_NewString else ret (nl_ID l)) (\<lambda>i.
     bindE time_Now (\<lambda>now.
       sql_guarded (\<lambda>w. \<exists>r \<in> set (notification_log w). nl_ID r = i) ''notification_log.id''
         (\<lambda>w. w\<lparr>notification_log := notification_log w @ [l\<lparr>nl_ID := i, nl_SentAt := now\<rparr>]\<rparr>)))"

section \<open>Addresses of webhooks\<close>

definition blockedWebhookHosts :: "string list" where
  "blockedWebhookHosts =
     [''metadata.google.internal'', ''metadata.goog'', ''kubernetes.default'', ''kubernetes.default.svc'']"

definition isBlockedWebhookIP :: "nat list option \<Rightarrow> bool" where
  "isBlockedWebhookIP x =
     (case x of
        None \<Rightarrow> True
      | Some ip \<Rightarrow>
          (case To4 ip of
             Some ip4 \<Rightarrow> (if ip4 ! 0 = 169 \<and> ip4 ! 1 = 254 then True else ip4 ! 0 = 0)
           | None \<Rightarrow>
               (ip ! 0 = 0xFE \<and> ip ! 1 div 64 = 2) \<or> (ip ! 0 = 0xFF \<and> ip ! 1 mod 16 = 2)
               \<or> ip = [0xFD, 0, 0x0E, 0xC2, 0, 0, 0, 0, 0, 0, 0, 0, 0, 0, 2, 0x54]))"

definition ValidateWebhookURL :: "string \<Rightarrow> unit result" where
  "ValidateWebhookURL raw0 =
     (let raw = strings_TrimSpace raw0
      in if raw = [] then Inl (Err ''webhook url required'')
         else (case url_Parse raw of
           None \<Rightarrow> Inl (Err ''invalid webhook url'')
         | Some u \<Rightarrow>
             (let scheme = strings_ToLower (pu_Scheme u); host = url_Hostname u
              in if scheme \<noteq> ''http'' \<and> scheme \<noteq> ''https'' then Inl (Err ''webhook url must be http or https'')
                 else if host = [] then Inl (Err ''webhook url missing host'')
                 else if pu_hasUser u then Inl (Err ''webhook url must not contain credentials'')
                 else if strings_ToLower host \<in> set blockedWebhookHosts then Inl (Err ''webhook host not allowed'')
                 else (case net_ParseIP host of
                         Some ip \<Rightarrow> (if isBlockedWebhookIP (Some ip) then Inl (Err ''webhook destination not allowed'') else Inr ())
                       | None \<Rightarrow> Inr ()))))"

text \<open>
  The transport of the HTTP client: the addresses of the host in the order of the resolver, each dialled only
  when it is not blocked. \<open>dial\<close> stands for the dialer of package \<open>net\<close>.
\<close>

fun dial_loop :: "(nat list \<Rightarrow> ('w, 'c) io) \<Rightarrow> nat list list \<Rightarrow> goerr option \<Rightarrow> ('w, 'c) io" where
  "dial_loop dial [] lastErr =
     throw (case lastErr of None \<Rightarrow> Err ''webhook destination not allowed'' | Some e \<Rightarrow> e)"
| "dial_loop dial (ip # ips) lastErr =
     (if isBlockedWebhookIP (Some ip) then dial_loop dial ips (Some (Err ''webhook destination not allowed''))
      else attempt (dial ip) (\<lambda>x. case x of
             Inr c \<Rightarrow> ret c
           | Inl e \<Rightarrow> dial_loop dial ips (Some e)))"

definition safe_dial :: "('w, nat list list) io \<Rightarrow> (nat list \<Rightarrow> ('w, 'c) io) \<Rightarrow> ('w, 'c) io" where
  "safe_dial lookup dial = bindE lookup (\<lambda>ips. dial_loop dial ips None)"

section \<open>Messages\<close>

definition crlf :: string where
  "crlf = [CHR 0x0D, CHR 0x0A]"

definition sanitizeHeader :: "string \<Rightarrow> string" where
  "sanitizeHeader s =
     strings_ReplaceAll (strings_ReplaceAll (strings_ReplaceAll s [CHR 0x0D] '' '') [CHR 0x0A] '' '') [CHR 0x00] []"

definition sanitizeBody :: "string \<Rightarrow> string" where
  "sanitizeBody s =
     strings_ReplaceAll (strings_ReplaceAll (strings_ReplaceAll (strings_ReplaceAll s [CHR 0x00] []) crlf [CHR 0x0A])
       [CHR 0x0D] [CHR 0x0A]) [CHR 0x0A] crlf"

definition rejectSMTPMeta :: "string \<Rightarrow> unit result" where
  "rejectSMTPMeta s =
     (if strings_ContainsAny s [CHR 0x0D, CHR 0x0A, CHR 0x00] then Inl (Err ''address contains control characters'')
      else Inr ())"

definition isOKEvent :: "string \<Rightarrow> bool" where
  "isOKEvent t = (t = ''job_success'' \<or> t = ''restore_done'')"

definition errString :: "goerr option \<Rightarrow> string" where
  "errString e = (case e of None \<Rightarrow> [] | Some x \<Rightarrow> err_text x)"

subsection \<open>Configurations\<close>

record smtpConfig =
  sm_Host :: string
  sm_Port :: int
  sm_Username :: string
  sm_Password :: string
  sm_From :: string
  sm_To :: "string list"

definition store_smtp :: "smtpConfig \<Rightarrow> string \<times> json \<Rightarrow> smtpConfig \<times> bool" where
  "store_smtp c kv =
     (let (k, v) = kv; key = strings_EqualFold k
      in if key ''host'' then (case store_string v (sm_Host c) of (x, b) \<Rightarrow> (c\<lparr>sm_Host := x\<rparr>, b))
         else if key ''port'' then (case store_int v (sm_Port c) of (x, b) \<Rightarrow> (c\<lparr>sm_Port := x\<rparr>, b))
         else if key ''username'' then (case store_string v (sm_Username c) of (x, b) \<Rightarrow> (c\<lparr>sm_Username := x\<rparr>, b))
         else if key ''password'' then (case store_string v (sm_Password c) of (x, b) \<Rightarrow> (c\<lparr>sm_Password := x\<rparr>, b))
         else if key ''from'' then (case store_string v (sm_From c) of (x, b) \<Rightarrow> (c\<lparr>sm_From := x\<rparr>, b))
         else if key ''to'' then (case store_strings v (sm_To c) of (x, b) \<Rightarrow> (c\<lparr>sm_To := x\<rparr>, b))
         else (c, False))"

definition zero_smtp :: smtpConfig where
  "zero_smtp = \<lparr>sm_Host = [], sm_Port = 0, sm_Username = [], sm_Password = [], sm_From = [], sm_To = []\<rparr>"

record webhookConfig =
  wh_URL :: string
  wh_Headers :: "(string \<times> string) list"
  wh_Format :: string

definition store_webhook :: "webhookConfig \<Rightarrow> string \<times> json \<Rightarrow> webhookConfig \<times> bool" where
  "store_webhook c kv =
     (let (k, v) = kv; key = strings_EqualFold k
      in if key ''url'' then (case store_string v (wh_URL c) of (x, b) \<Rightarrow> (c\<lparr>wh_URL := x\<rparr>, b))
         else if key ''headers'' then
           (case v of
              JNull \<Rightarrow> (c\<lparr>wh_Headers := []\<rparr>, False)
            | JObj ms \<Rightarrow>
                (c\<lparr>wh_Headers := foldl (\<lambda>h (n, x). AList.update n (fst (store_string x [])) h) (wh_Headers c) ms\<rparr>,
                 list_ex (\<lambda>(n, x). snd (store_string x [])) ms)
            | _ \<Rightarrow> (c, True))
         else if key ''format'' then (case store_string v (wh_Format c) of (x, b) \<Rightarrow> (c\<lparr>wh_Format := x\<rparr>, b))
         else (c, False))"

definition zero_webhook :: webhookConfig where
  "zero_webhook = \<lparr>wh_URL = [], wh_Headers = [], wh_Format = []\<rparr>"

record pushoverConfig =
  po_UserKey :: string
  po_AppToken :: string
  po_Device :: string
  po_Title :: string
  po_Priority :: int
  po_Sound :: string
  po_SoundOK :: string
  po_TTL :: int
  po_Retry :: int
  po_Expire :: int

definition store_pushover :: "pushoverConfig \<Rightarrow> string \<times> json \<Rightarrow> pushoverConfig \<times> bool" where
  "store_pushover c kv =
     (let (k, v) = kv; key = strings_EqualFold k
      in if key ''user_key'' then (case store_string v (po_UserKey c) of (x, b) \<Rightarrow> (c\<lparr>po_UserKey := x\<rparr>, b))
         else if key ''app_token'' then (case store_string v (po_AppToken c) of (x, b) \<Rightarrow> (c\<lparr>po_AppToken := x\<rparr>, b))
         else if key ''device'' then (case store_string v (po_Device c) of (x, b) \<Rightarrow> (c\<lparr>po_Device := x\<rparr>, b))
         else if key ''title'' then (case store_string v (po_Title c) of (x, b) \<Rightarrow> (c\<lparr>po_Title := x\<rparr>, b))
         else if key ''priority'' then (case store_int v (po_Priority c) of (x, b) \<Rightarrow> (c\<lparr>po_Priority := x\<rparr>, b))
         else if key ''sound'' then (case store_string v (po_Sound c) of (x, b) \<Rightarrow> (c\<lparr>po_Sound := x\<rparr>, b))
         else if key ''sound_ok'' then (case store_string v (po_SoundOK c) of (x, b) \<Rightarrow> (c\<lparr>po_SoundOK := x\<rparr>, b))
         else if key ''ttl'' then (case store_int v (po_TTL c) of (x, b) \<Rightarrow> (c\<lparr>po_TTL := x\<rparr>, b))
         else if key ''retry'' then (case store_int v (po_Retry c) of (x, b) \<Rightarrow> (c\<lparr>po_Retry := x\<rparr>, b))
         else if key ''expire'' then (case store_int v (po_Expire c) of (x, b) \<Rightarrow> (c\<lparr>po_Expire := x\<rparr>, b))
         else (c, False))"

definition zero_pushover :: pushoverConfig where
  "zero_pushover =
     \<lparr>po_UserKey = [], po_AppToken = [], po_Device = [], po_Title = [], po_Priority = 0, po_Sound = [], po_SoundOK = [],
      po_TTL = 0, po_Retry = 0, po_Expire = 0\<rparr>"

section \<open>Sending\<close>

definition check_tos :: "string list \<Rightarrow> unit result" where
  "check_tos tos =
     foldl (\<lambda>r (i, x). case r of
         Inl e \<Rightarrow> Inl e
       | Inr _ \<Rightarrow> (case rejectSMTPMeta x of
                     Inl e \<Rightarrow> Inl (Wrap (''smtp to['' @ show_nat i @ '']'') e)
                   | Inr _ \<Rightarrow> Inr ())) (Inr ()) (enumerate 0 tos)"

definition smtp_headers :: "smtpConfig \<Rightarrow> Event \<Rightarrow> string list" where
  "smtp_headers cfg ev =
     [''From: '' @ sanitizeHeader (sm_From cfg), ''To: '' @ sanitizeHeader (strings_Join (sm_To cfg) '',''),
      ''Subject: '' @ sanitizeHeader (ev_Subject ev), ''MIME-Version: 1.0'', ''Content-Type: text/plain; charset=UTF-8'']"

definition smtp_message :: "smtpConfig \<Rightarrow> Event \<Rightarrow> string" where
  "smtp_message cfg ev = strings_Join (smtp_headers cfg ev) crlf @ crlf @ crlf @ sanitizeBody (ev_Body ev) @ crlf"

definition smtp_SendMail :: "mail \<Rightarrow> ('w note_world_scheme, unit) io" where
  "smtp_SendMail m = exec (\<lambda>w. w\<lparr>mails := mails w @ [m]\<rparr>)"

definition sendSMTP :: "string \<Rightarrow> Event \<Rightarrow> ('w note_world_scheme, unit) io" where
  "sendSMTP configJSON ev =
     bindE (from_result (unmarshal store_smtp zero_smtp configJSON)) (\<lambda>cfg.
       (let port = (if sm_Port cfg = 0 then 587 else sm_Port cfg)
        in case rejectSMTPMeta (sm_From cfg) of
             Inl e \<Rightarrow> throw (Wrap ''smtp from'' e)
           | Inr _ \<Rightarrow>
               bindE (from_result (check_tos (sm_To cfg))) (\<lambda>_.
                 smtp_SendMail
                   \<lparr>ml_addr = sm_Host cfg @ '':'' @ show_int port,
                    ml_auth = (if sm_Username cfg \<noteq> [] then Some (sm_Username cfg, sm_Password cfg, sm_Host cfg) else None),
                    ml_from = sanitizeHeader (sm_From cfg), ml_to = sm_To cfg, ml_msg = smtp_message cfg ev\<rparr>)))"

text \<open>
  One request: the status and the body of the response. \<open>rq_headers\<close> lists the calls of \<open>Header.Set\<close>, of which
  the last for a name counts.
\<close>

definition http_Do :: "request_out \<Rightarrow> ('w note_world_scheme, int \<times> string) io" where
  "http_Do rq =
     bindE (exec (\<lambda>w. w\<lparr>requests := requests w @ [rq]\<rparr>)) (\<lambda>_.
       gets (\<lambda>w. let n = length (requests w) in (http_status w n, http_body w n)))"

definition webhook_body :: "string \<Rightarrow> Event \<Rightarrow> string" where
  "webhook_body format ev =
     json_Marshal
       (if format = ''slack'' then JObj [(''text'', JStr (''*'' @ ev_Subject ev @ ''*'' @ [CHR 0x0A] @ ev_Body ev))]
        else if format = ''teams'' then
          JObj [(''@type'', JStr ''MessageCard''), (''summary'', JStr (ev_Subject ev)), (''text'', JStr (ev_Body ev)),
                (''themeColor'', JStr ''E81123''), (''title'', JStr (ev_Subject ev))]
        else JObj [(''body'', JStr (ev_Body ev)), (''subject'', JStr (ev_Subject ev)), (''type'', JStr (ev_Type ev))])"

definition sendWebhook :: "string \<Rightarrow> string \<Rightarrow> Event \<Rightarrow> ('w note_world_scheme, unit) io" where
  "sendWebhook channel configJSON ev =
     bindE (from_result (unmarshal store_webhook zero_webhook configJSON)) (\<lambda>cfg.
     bindE (from_result (ValidateWebhookURL (wh_URL cfg))) (\<lambda>_.
       (let format = (if wh_Format cfg = [] then channel else wh_Format cfg)
        in if url_Parse (wh_URL cfg) = None then throw (Err ''parse url'')
           else bindE (http_Do \<lparr>rq_url = wh_URL cfg, rq_headers = (''Content-Type'', ''application/json'') # wh_Headers cfg,
                          rq_body = webhook_body format ev\<rparr>) (\<lambda>(status, body).
             if status \<ge> 300 then throw (Err (''webhook status '' @ show_int status)) else ret ()))))"

text \<open>The form of a Pushover message, before its encoding.\<close>

definition pushover_form :: "pushoverConfig \<Rightarrow> Event \<Rightarrow> (string \<times> string) list" where
  "pushover_form cfg ev =
     (let sound = (if isOKEvent (ev_Type ev) \<and> po_SoundOK cfg \<noteq> [] then po_SoundOK cfg else po_Sound cfg);
          retry = (if po_Retry cfg < 30 then 30 else po_Retry cfg);
          expire = (let x = (if po_Expire cfg \<le> 0 then 3600 else po_Expire cfg) in if x > 86400 then 86400 else x)
      in [(''token'', po_AppToken cfg), (''user'', po_UserKey cfg), (''message'', ev_Body ev),
          (''title'', if po_Title cfg = [] then ev_Subject ev else po_Title cfg),
          (''priority'', show_int (po_Priority cfg)), (''html'', ''1'')]
         @ (if po_Device cfg \<noteq> [] then [(''device'', po_Device cfg)] else [])
         @ (if sound \<noteq> [] then [(''sound'', sound)] else [])
         @ (if po_TTL cfg > 0 then [(''ttl'', show_int (po_TTL cfg))] else [])
         @ (if po_Priority cfg = 2 then [(''retry'', show_int retry), (''expire'', show_int expire)] else []))"

text \<open>\<open>url.Values.Encode\<close>: sorted by key, escaped as a query.\<close>

definition query_escape :: "string \<Rightarrow> string" where
  "query_escape s =
     concat (map (\<lambda>c. if is_letter c \<or> is_digit c \<or> c \<in> set ''-_.~'' then [c]
                    else if c = CHR '' '' then ''+''
                    else (let n = of_char c :: nat; d = (\<lambda>k. if k < 10 then char_of (48 + k) else char_of (55 + k :: nat))
                          in [CHR ''%'', d (n div 16), d (n mod 16)])) s)"

definition form_Encode :: "(string \<times> string) list \<Rightarrow> string" where
  "form_Encode kvs =
     strings_Join (map (\<lambda>(k, v). query_escape k @ ''='' @ query_escape v) (sort_key fst kvs)) ''&''"

definition sendPushover :: "string \<Rightarrow> Event \<Rightarrow> ('w note_world_scheme, unit) io" where
  "sendPushover configJSON ev =
     bindE (from_result (unmarshal store_pushover zero_pushover configJSON)) (\<lambda>cfg.
       if po_UserKey cfg = [] \<or> po_AppToken cfg = [] then throw (Err ''pushover user_key and app_token required'')
       else
         bindE (http_Do \<lparr>rq_url = ''https://api.pushover.net/1/messages.json'',
                        rq_headers = [(''Content-Type'', ''application/x-www-form-urlencoded'')],
                        rq_body = form_Encode (pushover_form cfg ev)\<rparr>) (\<lambda>(status, body).
           if status \<ge> 300
           then throw (Err (''pushover status '' @ show_int status @ '': '' @ strings_TrimSpace (take 4096 body)))
           else ret ()))"

text \<open>The events of a setting: the error of \<open>json.Unmarshal\<close> is dropped.\<close>

definition notify_on :: "string \<Rightarrow> string list" where
  "notify_on text = (case json_parse text of Some v \<Rightarrow> fst (store_strings v []) | None \<Rightarrow> [])"

definition matches :: "Event \<Rightarrow> NotificationSetting \<Rightarrow> bool" where
  "matches ev st =
     (ns_Enabled st \<and> \<not> (ns_TenantID st \<noteq> [] \<and> ns_TenantID st \<noteq> ev_TenantID ev)
      \<and> list_ex (\<lambda>s. s = ev_Type ev) (notify_on (ns_NotifyOn st)))"

definition send_channel :: "NotificationSetting \<Rightarrow> Event \<Rightarrow> ('w note_world_scheme, unit) io" where
  "send_channel st ev =
     (if ns_Channel st = ''smtp'' then sendSMTP (ns_Config st) ev
      else if ns_Channel st \<in> {''webhook'', ''slack'', ''teams''} then sendWebhook (ns_Channel st) (ns_Config st) ev
      else if ns_Channel st = ''pushover'' then sendPushover (ns_Config st) ev
      else throw (Err (''unknown channel '' @ ns_Channel st)))"

definition log_of :: "Event \<Rightarrow> NotificationSetting \<Rightarrow> unit result \<Rightarrow> NotificationLog" where
  "log_of ev st x =
     \<lparr>nl_ID = [], nl_TenantID = ev_TenantID ev, nl_Channel = ns_Channel st, nl_EventType = ev_Type ev, nl_Subject = ev_Subject ev,
      nl_SentAt = zero_time, nl_Success = (case x of Inl _ \<Rightarrow> False | Inr _ \<Rightarrow> True),
      nl_Error = errString (case x of Inl e \<Rightarrow> Some e | Inr _ \<Rightarrow> None)\<rparr>"

fun send_loop :: "Event \<Rightarrow> NotificationSetting list \<Rightarrow> bool \<Rightarrow> ('w note_world_scheme, bool) io" where
  "send_loop ev [] matched = ret matched"
| "send_loop ev (st # sts) matched =
     (if \<not> matches ev st then send_loop ev sts matched
      else attempt (send_channel st ev) (\<lambda>x.
           bindE (ignore (InsertNotificationLog (log_of ev st x))) (\<lambda>_. send_loop ev sts True)))"

definition env_config :: "NotifyService \<Rightarrow> string" where
  "env_config s =
     json_Marshal (JObj [(''from'', JStr (sv_SMTPFrom s)), (''host'', JStr (sv_SMTPHost s)), (''password'', JStr (sv_SMTPPassword s)),
       (''port'', JNum (show_int (sv_SMTPPort s))), (''to'', JArr (map JStr (sv_SMTPTo s))), (''username'', JStr (sv_SMTPUser s))])"

definition Send :: "NotifyService \<Rightarrow> Event \<Rightarrow> ('w note_world_scheme, unit) io" where
  "Send s ev =
     bindE ListNotificationSettings (\<lambda>settings.
     bindE (send_loop ev settings False) (\<lambda>matched.
       if \<not> matched \<and> sv_SMTPHost s \<noteq> [] \<and> sv_SMTPTo s \<noteq> []
          \<and> (ev_Type ev = ''job_error'' \<or> strings_HasPrefix (ev_Type ev) ''key_'')
       then sendSMTP (env_config s) ev
       else ret ()))"

section \<open>Expiry of client secrets\<close>

text \<open>
  \<open>int(time.Until(t).Hours() / 24)\<close>: whole days towards zero. The hours are a floating-point number; for
  the spans of a few years that occur here the division is exact enough to be the quotient of nanoseconds.
\<close>

definition days_left :: "gotime \<Rightarrow> gotime \<Rightarrow> int" where
  "days_left now expires = go_div (time_Sub expires now) ns_per_day"

definition expiry_event :: "gotime \<Rightarrow> Tenant \<Rightarrow> Event option" where
  "expiry_event now t =
     (if t_SecretExpires t = zero_time then None
      else (let d = days_left now (t_SecretExpires t); le = [CHR 0xE2, CHR 0x89, CHR 0xA4]
            in if d < 0 then
                 Some \<lparr>ev_Type = ''key_expired'', ev_TenantID = t_ID t, ev_Subject = ''Client secret expired: '' @ t_Name t,
                   ev_Body = ''Azure app client secret for tenant '' @ t_Name t @ '' has expired. Renew immediately.''\<rparr>
               else if d \<le> 7 then
                 Some \<lparr>ev_Type = ''key_expiry_7d'', ev_TenantID = t_ID t,
                   ev_Subject = ''Client secret expires in '' @ le @ ''7 days: '' @ t_Name t,
                   ev_Body = ''Renew the Azure app client secret soon.''\<rparr>
               else if d \<le> 30 then
                 Some \<lparr>ev_Type = ''key_expiry_30d'', ev_TenantID = t_ID t,
                   ev_Subject = ''Client secret expires in '' @ le @ ''30 days: '' @ t_Name t,
                   ev_Body = ''Plan renewal of the Azure app client secret.''\<rparr>
               else None))"

definition CheckSecretExpiry :: "NotifyService \<Rightarrow> ('w note_world_scheme, unit) io" where
  "CheckSecretExpiry s =
     attempt ListTenants (\<lambda>x. case x of
       Inl _ \<Rightarrow> ret ()
     | Inr ts \<Rightarrow>
         for_each ts (\<lambda>t. bindE time_Now (\<lambda>now.
           case expiry_event now t of None \<Rightarrow> ret () | Some ev \<Rightarrow> ignore (Send s ev))))"

end
