(* ===== verification/Auth.thy ===== *)
theory Auth
  imports Notification "HOL-Library.AList"
begin

text \<open>
  Who may use the server: \<open>internal/api/auth.go\<close>, the tables of \<open>internal/db/user.go\<close> and the login handlers of
  \<open>internal/api/router.go\<close>. The world grows by the tables of users and API tokens and by the memory of the
  \<open>SessionStore\<close>, its sessions and its list of failed logins.

  The password hash is the package \<open>bcrypt\<close>, outside of the program: \<open>bc_compare hash password\<close> stands for
  \<open>CompareHashAndPassword\<close>, \<open>bc_generate\<close> for one call of \<open>GenerateFromPassword\<close>.
\<close>

section \<open>Requests and responses\<close>

text \<open>
  What a handler sees of a request: parameters of the route (\<open>chi.URLParam\<close>), of the query and of the form,
  headers and cookies by name. A name may occur more than once in a query or a form.
\<close>

record request =
  r_Method :: string
  r_Path :: string
  r_Params :: "(string \<times> string) list"
  r_Query :: "(string \<times> string) list"
  r_Form :: "(string \<times> string) list"
  r_Body :: string
  r_Headers :: "(string \<times> string) list"
  r_Cookies :: "(string \<times> string) list"
  r_RemoteAddr :: string
  r_Host :: string
  r_TLS :: bool

text \<open>The value of the first pair of a name, or the empty string: \<open>Header.Get\<close>, \<open>Query().Get\<close>, \<open>FormValue\<close>.\<close>

definition get_value :: "(string \<times> string) list \<Rightarrow> string \<Rightarrow> string" where
  "get_value kvs k = (case map_of kvs k of None \<Rightarrow> [] | Some v \<Rightarrow> v)"

definition get_values :: "(string \<times> string) list \<Rightarrow> string \<Rightarrow> string list" where
  "get_values kvs k = map snd (filter (\<lambda>kv. fst kv = k) kvs)"

record cookie =
  ck_Value :: string
  ck_MaxAge :: int
  ck_Secure :: bool

text \<open>
  A response: an error text with its status, a redirect, a page of a template with its data, a JSON document, a
  file, or a body with its type; with the session cookie it sets, if any.
\<close>

datatype 'v response =
    HttpError string int
  | Redirect string
  | RedirectSet cookie string
  | Page string 'v
  | JsonDoc 'v
  | FileAt string string
  | Download string string
  | NoContent

section \<open>Users and tokens\<close>

record User =
  usr_ID :: string
  usr_Username :: string
  usr_PasswordHash :: string
  usr_CreatedAt :: gotime
  usr_UpdatedAt :: gotime

record APIToken =
  tk_ID :: string
  tk_UserID :: string
  tk_Name :: string
  tk_Kind :: string
  tk_TokenHash :: string
  tk_Prefix :: string
  tk_Scope :: string
  tk_CreatedAt :: gotime
  tk_LastUsedAt :: gotime

record sessionInfo =
  ses_UserID :: string
  ses_Username :: string
  ses_Expires :: gotime

record Principal =
  p_UserID :: string
  p_Username :: string
  p_Scope :: string
  p_Via :: string

record auth_world = note_world +
  users :: "User list"
  api_tokens :: "APIToken list"
  sessions :: "(string \<times> sessionInfo) list"
  attempts :: "(string \<times> gotime list) list"

definition GetUserByUsername :: "string \<Rightarrow> ('w auth_world_scheme, User) io" where
  "GetUserByUsername username = query_row (\<lambda>w. filter (\<lambda>u. usr_Username u = username) (users w))"

definition GetUser :: "string \<Rightarrow> ('w auth_world_scheme, User) io" where
  "GetUser i = query_row (\<lambda>w. filter (\<lambda>u. usr_ID u = i) (users w))"

definition UpsertUser :: "string \<Rightarrow> string \<Rightarrow> ('w auth_world_scheme, User) io" where
  "UpsertUser username hash =
     (if username = [] \<or> hash = [] then throw (Err ''username and password hash required'')
      else attempt (GetUserByUsername username) (\<lambda>x. bindE time_Now (\<lambda>now. case x of
        Inr u \<Rightarrow>
          bindE (exec (\<lambda>w. w\<lparr>users := map (\<lambda>r. if usr_ID r = usr_ID u
                   then r\<lparr>usr_PasswordHash := hash, usr_UpdatedAt := now\<rparr> else r) (users w)\<rparr>)) (\<lambda>_.
            ret (u\<lparr>usr_PasswordHash := hash, usr_UpdatedAt := now\<rparr>))
      | Inl e \<Rightarrow>
          (if e \<noteq> ErrNoRows then throw e
           else bindE uuid_NewString (\<lambda>i.
             (let u = \<lparr>usr_ID = i, usr_Username = username, usr_PasswordHash = hash, usr_CreatedAt = now, usr_UpdatedAt = now\<rparr>
              in bindE (sql_guarded (\<lambda>w. \<exists>r \<in> set (users w). usr_ID r = i \<or> usr_Username r = username) ''users''
                         (\<lambda>w. w\<lparr>users := users w @ [u]\<rparr>)) (\<lambda>_. ret u)))))))"

definition ListAPITokens :: "string \<Rightarrow> ('w auth_world_scheme, APIToken list) io" where
  "ListAPITokens userID =
     query (\<lambda>w. sort_key (\<lambda>t. - tk_CreatedAt t) (filter (\<lambda>t. tk_UserID t = userID \<and> tk_Kind t = ''user'') (api_tokens w)))"

definition GetAPITokenByHash :: "string \<Rightarrow> ('w auth_world_scheme, APIToken) io" where
  "GetAPITokenByHash h =
     (if h = [] then throw ErrNoRows
      else query_row (\<lambda>w. filter (\<lambda>t. tk_TokenHash t = h \<and> tk_Kind t = ''user'') (api_tokens w)))"

text \<open>Migration 007: the id is the key, a user has one token of a name, and the user must exist.\<close>

definition token_clash :: "APIToken \<Rightarrow> 'w auth_world_scheme \<Rightarrow> bool" where
  "token_clash t w =
     ((\<exists>r \<in> set (api_tokens w). tk_ID r = tk_ID t \<or> (tk_UserID r = tk_UserID t \<and> tk_Name r = tk_Name t))
      \<or> (\<forall>u \<in> set (users w). usr_ID u \<noteq> tk_UserID t))"

definition InsertAPIToken :: "APIToken \<Rightarrow> ('w auth_world_scheme, unit) io" where
  "InsertAPIToken t =
     bindE (if tk_ID t = [] then uuid_NewString else ret (tk_ID t)) (\<lambda>i.
     bindE time_Now (\<lambda>now.
       (let t' = t\<lparr>tk_ID := i, tk_Kind := (if tk_Kind t = [] then ''user'' else tk_Kind t), tk_CreatedAt := now, tk_LastUsedAt := zero_time\<rparr>
        in sql_guarded (token_clash t') ''api_tokens'' (\<lambda>w. w\<lparr>api_tokens := api_tokens w @ [t']\<rparr>))))"

definition DeleteAPITokensByKind :: "string \<Rightarrow> string \<Rightarrow> ('w auth_world_scheme, unit) io" where
  "DeleteAPITokensByKind userID kind =
     (if userID = [] \<or> kind = [] then throw (Err ''user id and kind required'')
      else exec (\<lambda>w. w\<lparr>api_tokens := filter (\<lambda>t. \<not> (tk_UserID t = userID \<and> tk_Kind t = kind)) (api_tokens w)\<rparr>))"

definition own_token :: "string \<Rightarrow> string \<Rightarrow> APIToken \<Rightarrow> bool" where
  "own_token userID tokenID t = (tk_ID t = tokenID \<and> tk_UserID t = userID \<and> tk_Kind t = ''user'')"

definition DeleteAPIToken :: "string \<Rightarrow> string \<Rightarrow> ('w auth_world_scheme, unit) io" where
  "DeleteAPIToken userID tokenID =
     bindE (query (\<lambda>w. length (filter (own_token userID tokenID) (api_tokens w)))) (\<lambda>n.
     bindE (modify (\<lambda>w. w\<lparr>api_tokens := filter (\<lambda>t. \<not> own_token userID tokenID t) (api_tokens w)\<rparr>)) (\<lambda>_.
       if n = 0 then throw ErrNoRows else ret ()))"

definition TouchAPIToken :: "string \<Rightarrow> ('w auth_world_scheme, unit) io" where
  "TouchAPIToken i =
     bindE time_Now (\<lambda>now. ignore (exec (\<lambda>w. w\<lparr>api_tokens :=
       map (\<lambda>t. if tk_ID t = i then t\<lparr>tk_LastUsedAt := now\<rparr> else t) (api_tokens w)\<rparr>)))"

section \<open>Passwords and tokens\<close>

record bcrypt =
  bc_compare :: "string \<Rightarrow> string \<Rightarrow> bool"
  bc_generate :: "string \<Rightarrow> string result"

definition HashPassword :: "bcrypt \<Rightarrow> string \<Rightarrow> string result" where
  "HashPassword bc password = bc_generate bc password"

definition CheckPasswordHash :: "bcrypt \<Rightarrow> string \<Rightarrow> string \<Rightarrow> bool" where
  "CheckPasswordHash bc hash password = bc_compare bc hash password"

definition EnsureBootstrapAuth :: "bcrypt \<Rightarrow> string \<Rightarrow> string \<Rightarrow> ('w auth_world_scheme, unit) io" where
  "EnsureBootstrapAuth bc username password =
     bindE (from_result (HashPassword bc password)) (\<lambda>hash.
     bindE (UpsertUser username hash) (\<lambda>u.
       DeleteAPITokensByKind (usr_ID u) ''env''))"

definition hashAPIToken :: "string \<Rightarrow> string" where
  "hashAPIToken plain = hex_EncodeToString (sha256_Sum256 plain)"

definition newAPITokenPlain :: "('w auth_world_scheme, string) io" where
  "newAPITokenPlain = bindE (rand_Read 32) (\<lambda>b. ret (''m365_'' @ hex_EncodeToString b))"

definition tokenPrefix :: "string \<Rightarrow> string" where
  "tokenPrefix plain = (if length plain < 12 then plain else take 12 plain) @ [CHR 0xE2, CHR 0x80, CHR 0xA6]"

section \<open>Sessions\<close>

definition session_ttl :: int where
  "session_ttl = 24 * ns_per_hour"

definition loginWindow :: int where
  "loginWindow = 60 * ns_per_sec"

definition loginMaxAttempts :: nat where
  "loginMaxAttempts = 10"

definition attempts_of :: "string \<Rightarrow> 'w auth_world_scheme \<Rightarrow> gotime list" where
  "attempts_of ip w = (case map_of (attempts w) ip of None \<Rightarrow> [] | Some ts \<Rightarrow> ts)"

definition allowLogin :: "string \<Rightarrow> ('w auth_world_scheme, bool) io" where
  "allowLogin ip =
     bindE time_Now (\<lambda>now.
     bindE (gets (attempts_of ip)) (\<lambda>ts.
       (let recent = filter (\<lambda>t. now - loginWindow < t) ts
        in bindE (modify (\<lambda>w. w\<lparr>attempts := AList.update ip recent (attempts w)\<rparr>)) (\<lambda>_.
             ret (length recent < loginMaxAttempts)))))"

definition recordLoginAttempt :: "string \<Rightarrow> ('w auth_world_scheme, unit) io" where
  "recordLoginAttempt ip =
     bindE time_Now (\<lambda>now. modify (\<lambda>w. w\<lparr>attempts := AList.update ip (attempts_of ip w @ [now]) (attempts w)\<rparr>))"

definition verifyUser :: "bcrypt \<Rightarrow> string \<Rightarrow> string \<Rightarrow> ('w auth_world_scheme, User) io" where
  "verifyUser bc username password =
     bindE (GetUserByUsername (strings_TrimSpace username)) (\<lambda>u.
       if \<not> CheckPasswordHash bc (usr_PasswordHash u) password then throw ErrAuth else ret u)"

definition Login :: "bcrypt \<Rightarrow> string \<Rightarrow> string \<Rightarrow> ('w auth_world_scheme, string option) io" where
  "Login bc username0 password =
     (let username = strings_TrimSpace username0
      in if username = [] \<or> password = [] then ret None
         else attempt (verifyUser bc username password) (\<lambda>x. case x of
           Inl _ \<Rightarrow> ret None
         | Inr u \<Rightarrow>
             bindE uuid_NewString (\<lambda>token.
             bindE time_Now (\<lambda>now.
             bindE (modify (\<lambda>w. w\<lparr>sessions := AList.update token
                      \<lparr>ses_UserID = usr_ID u, ses_Username = usr_Username u, ses_Expires = now + session_ttl\<rparr> (sessions w)\<rparr>)) (\<lambda>_.
               ret (Some token))))))"

definition VerifyUserPassword :: "bcrypt \<Rightarrow> string \<Rightarrow> string \<Rightarrow> ('w auth_world_scheme, bool) io" where
  "VerifyUserPassword bc userID password =
     (if userID = [] then ret False
      else attempt (GetUser userID) (\<lambda>x. case x of
        Inl _ \<Rightarrow> ret False
      | Inr u \<Rightarrow> ret (CheckPasswordHash bc (usr_PasswordHash u) password)))"

definition Valid :: "string \<Rightarrow> ('w auth_world_scheme, Principal option) io" where
  "Valid token =
     bindE (gets (\<lambda>w. (map_of (sessions w) token, clock w))) (\<lambda>(info, now).
       case info of
         Some i \<Rightarrow>
           (if ses_Expires i < now then
              bindE (modify (\<lambda>w. w\<lparr>sessions := AList.delete token (sessions w)\<rparr>)) (\<lambda>_. ret None)
            else ret (Some \<lparr>p_UserID = ses_UserID i, p_Username = ses_Username i, p_Scope = ''write'', p_Via = ''session''\<rparr>))
       | None \<Rightarrow> bindE (modify (\<lambda>w. w\<lparr>sessions := AList.delete token (sessions w)\<rparr>)) (\<lambda>_. ret None))"

definition Logout :: "string \<Rightarrow> ('w auth_world_scheme, unit) io" where
  "Logout token = modify (\<lambda>w. w\<lparr>sessions := AList.delete token (sessions w)\<rparr>)"

definition AuthenticateBearer :: "string \<Rightarrow> ('w auth_world_scheme, Principal option) io" where
  "AuthenticateBearer raw0 =
     (let raw = strings_TrimSpace raw0
      in if raw = [] then ret None
         else attempt (GetAPITokenByHash (hashAPIToken raw)) (\<lambda>x. case x of
           Inl _ \<Rightarrow> ret None
         | Inr tok \<Rightarrow>
             attempt (GetUser (tk_UserID tok)) (\<lambda>y. case y of
               Inl _ \<Rightarrow> ret None
             | Inr u \<Rightarrow>
                 bindE (TouchAPIToken (tk_ID tok)) (\<lambda>_.
                   ret (Some \<lparr>p_UserID = usr_ID u, p_Username = usr_Username u, p_Scope = tk_Scope tok, p_Via = ''token''\<rparr>)))))"

section \<open>The guard in front of every handler\<close>

definition public_path :: "string \<Rightarrow> bool" where
  "public_path path =
     (strings_HasPrefix path ''/login'' \<or> strings_HasPrefix path ''/lang/'' \<or> strings_HasPrefix path ''/static/''
      \<or> strings_HasPrefix path ''/api/consent/callback'' \<or> path = ''/healthz'')"

definition bearer :: "request \<Rightarrow> string option" where
  "bearer r =
     (let h = get_value (r_Headers r) ''Authorization''
      in if strings_HasPrefix (strings_ToLower h) ''bearer '' then Some (strings_TrimSpace (drop 7 h)) else None)"

definition session_principal :: "request \<Rightarrow> ('w auth_world_scheme, Principal option) io" where
  "session_principal r =
     (case map_of (r_Cookies r) ''session'' of None \<Rightarrow> ret None | Some token \<Rightarrow> Valid token)"

definition principalFromRequest :: "request \<Rightarrow> ('w auth_world_scheme, Principal option) io" where
  "principalFromRequest r =
     (case bearer r of
        None \<Rightarrow> session_principal r
      | Some raw \<Rightarrow>
          bindE (AuthenticateBearer raw) (\<lambda>p. case p of Some x \<Rightarrow> ret (Some x) | None \<Rightarrow> session_principal r))"

definition allowScope :: "request \<Rightarrow> Principal \<Rightarrow> bool" where
  "allowScope r p =
     (if p_Scope p = ''write'' then True
      else if p_Scope p \<noteq> ''read'' then False
      else if r_Method r \<in> {''GET'', ''HEAD'', ''OPTIONS''} then \<not> strings_HasPrefix (r_Path r) ''/api/consent/start''
      else False)"

text \<open>The handler behind the guard gets the principal of the request, or none on a public path.\<close>

definition Middleware ::
  "(Principal option \<Rightarrow> ('w auth_world_scheme, 'v response) io) \<Rightarrow> request \<Rightarrow> ('w auth_world_scheme, 'v response) io" where
  "Middleware inner r =
     (if public_path (r_Path r) then inner None
      else bindE (principalFromRequest r) (\<lambda>x. case x of
        Some p \<Rightarrow> (if \<not> allowScope r p then ret (HttpError ''forbidden'' 403) else inner (Some p))
      | None \<Rightarrow>
          (if strings_HasPrefix (r_Path r) ''/api/'' then ret (HttpError ''unauthorized'' 401)
           else ret (Redirect ''/login''))))"

section \<open>Logging in\<close>

definition byte_index :: "char \<Rightarrow> string \<Rightarrow> nat option" where
  "byte_index c s = (let n = length (takeWhile (\<lambda>x. x \<noteq> c) s) in if n < length s then Some n else None)"

definition last_byte_index :: "char \<Rightarrow> string \<Rightarrow> nat option" where
  "last_byte_index c s = map_option (\<lambda>n. length s - 1 - n) (byte_index c (rev s))"

text \<open>\<open>net.SplitHostPort\<close>, of which only the host is used here.\<close>

definition split_host :: "string \<Rightarrow> string option" where
  "split_host s =
     (case last_byte_index (CHR '':'') s of
        None \<Rightarrow> None
      | Some i \<Rightarrow>
          (if s ! 0 = CHR ''['' then
             (case byte_index (CHR '']'') s of
                None \<Rightarrow> None
              | Some e \<Rightarrow>
                  (if e + 1 \<noteq> i then None
                   else if CHR ''['' \<in> set (drop 1 s) \<or> CHR '']'' \<in> set (drop (e + 1) s) then None
                   else Some (drop 1 (take e s))))
           else if CHR '':'' \<in> set (take i s) then None
           else if CHR ''['' \<in> set s \<or> CHR '']'' \<in> set s then None
           else Some (take i s)))"

definition clientIP :: "request \<Rightarrow> string" where
  "clientIP r =
     (let xff = get_value (r_Headers r) ''X-Forwarded-For'';
          ip = strings_TrimSpace (hd (strings_Split (CHR '','') xff))
      in if xff \<noteq> [] \<and> ip \<noteq> [] then ip
         else (case split_host (r_RemoteAddr r) of None \<Rightarrow> r_RemoteAddr r | Some host \<Rightarrow> host))"

record login_body =
  lb_Username :: string
  lb_Password :: string

definition store_login :: "login_body \<Rightarrow> string \<times> json \<Rightarrow> login_body \<times> bool" where
  "store_login c kv =
     (let (k, v) = kv; key = strings_EqualFold k
      in if key ''username'' then (case store_string v (lb_Username c) of (x, b) \<Rightarrow> (c\<lparr>lb_Username := x\<rparr>, b))
         else if key ''password'' then (case store_string v (lb_Password c) of (x, b) \<Rightarrow> (c\<lparr>lb_Password := x\<rparr>, b))
         else (c, False))"

text \<open>The error of the JSON decoder is dropped.\<close>

definition login_json :: "string \<Rightarrow> login_body" where
  "login_json body = fst (decode_struct store_login \<lparr>lb_Username = [], lb_Password = []\<rparr> body)"

definition readLoginCredentials :: "request \<Rightarrow> string \<times> string" where
  "readLoginCredentials r =
     (if strings_Contains (strings_ToLower (get_value (r_Headers r) ''Content-Type'')) ''application/json''
      then (let b = login_json (r_Body r) in (strings_TrimSpace (lb_Username b), lb_Password b))
      else (let user = strings_TrimSpace (get_value (r_Form r) ''username'')
            in (if user = [] then strings_TrimSpace (get_value (r_Form r) ''user'') else user, get_value (r_Form r) ''password'')))"

definition cookieSecure :: "string \<Rightarrow> request \<Rightarrow> bool" where
  "cookieSecure publicBaseURL r =
     (if strings_HasPrefix (strings_ToLower (strings_TrimSpace publicBaseURL)) ''https://'' then True
      else if r_TLS r then True
      else strings_EqualFold (get_value (r_Headers r) ''X-Forwarded-Proto'') ''https'')"

definition handleLogin :: "bcrypt \<Rightarrow> string \<Rightarrow> request \<Rightarrow> ('w auth_world_scheme, 'v response) io" where
  "handleLogin bc publicBaseURL r =
     (let ip = clientIP r
      in bindE (allowLogin ip) (\<lambda>ok.
         if \<not> ok then ret (HttpError ''too many login attempts'' 429)
         else (let (user, pass) = readLoginCredentials r
               in bindE (Login bc user pass) (\<lambda>x. case x of
                    None \<Rightarrow> bindE (recordLoginAttempt ip) (\<lambda>_. ret (HttpError ''invalid credentials'' 401))
                  | Some token \<Rightarrow>
                      ret (RedirectSet \<lparr>ck_Value = token, ck_MaxAge = 86400, ck_Secure = cookieSecure publicBaseURL r\<rparr> ''/tenants'')))))"

definition handleLogout :: "request \<Rightarrow> ('w auth_world_scheme, 'v response) io" where
  "handleLogout r =
     bindE (case map_of (r_Cookies r) ''session'' of None \<Rightarrow> ret () | Some token \<Rightarrow> Logout token) (\<lambda>_.
       ret (RedirectSet \<lparr>ck_Value = [], ck_MaxAge = -1, ck_Secure = True\<rparr> ''/login''))"

end
