(* ===== verification/Export_Runs.thy ===== *)
theory Export_Runs
  imports Job_Runner Go_Struct
begin

text \<open>
  The runs of mailbox exports on the disk (\<open>internal/storage/exports.go\<close>): their metadata, the list of them, and the removal
  of old ones. A directory exists while it has a file. Parameters are the parser of times in JSON and the modification time
  of a directory (record \<open>export_clock\<close>).
\<close>

record PSTExportRun =
  pr_ID :: string
  pr_CreatedAt :: gotime
  pr_Path :: string
  pr_Users :: int
  pr_Files :: int
  pr_Bytes :: int
  pr_Human :: string
  pr_Zips :: "string list"
  pr_Scope :: string
  pr_Mailbox :: string
  pr_Folder :: string

definition empty_run :: PSTExportRun where
  "empty_run =
     \<lparr>pr_ID = [], pr_CreatedAt = zero_time, pr_Path = [], pr_Users = 0, pr_Files = 0, pr_Bytes = 0, pr_Human = [], pr_Zips = [],
      pr_Scope = [], pr_Mailbox = [], pr_Folder = []\<rparr>"

text \<open>
  \<open>json.Unmarshal\<close> into a run, whose error is dropped: a member of the wrong type is left out, and a time that cannot be
  read ends the reading.
\<close>

definition store_run :: "PSTExportRun \<Rightarrow> string \<times> json \<Rightarrow> PSTExportRun" where
  "store_run c kv =
     (let (k, v) = kv; key = strings_EqualFold k
      in if key ''id'' then c\<lparr>pr_ID := fst (store_string v (pr_ID c))\<rparr>
         else if key ''path'' then c\<lparr>pr_Path := fst (store_string v (pr_Path c))\<rparr>
         else if key ''users'' then c\<lparr>pr_Users := fst (store_int v (pr_Users c))\<rparr>
         else if key ''files'' then c\<lparr>pr_Files := fst (store_int v (pr_Files c))\<rparr>
         else if key ''bytes'' then c\<lparr>pr_Bytes := fst (store_int v (pr_Bytes c))\<rparr>
         else if key ''human'' then c\<lparr>pr_Human := fst (store_string v (pr_Human c))\<rparr>
         else if key ''zips'' then c\<lparr>pr_Zips := fst (store_strings v (pr_Zips c))\<rparr>
         else if key ''scope'' then c\<lparr>pr_Scope := fst (store_string v (pr_Scope c))\<rparr>
         else if key ''mailbox'' then c\<lparr>pr_Mailbox := fst (store_string v (pr_Mailbox c))\<rparr>
         else if key ''folder'' then c\<lparr>pr_Folder := fst (store_string v (pr_Folder c))\<rparr>
         else c)"

fun fill_run :: "(string \<Rightarrow> gotime option) \<Rightarrow> PSTExportRun \<Rightarrow> (string \<times> json) list \<Rightarrow> PSTExportRun" where
  "fill_run parse c [] = c"
| "fill_run parse c ((k, v) # ms) =
     (if strings_EqualFold k ''created_at'' then
        (case v of
           JNull \<Rightarrow> fill_run parse c ms
         | JStr s \<Rightarrow> (case parse s of Some t \<Rightarrow> fill_run parse (c\<lparr>pr_CreatedAt := t\<rparr>) ms | None \<Rightarrow> c)
         | _ \<Rightarrow> c)
      else fill_run parse (store_run c (k, v)) ms)"

definition unmarshal_run :: "(string \<Rightarrow> gotime option) \<Rightarrow> string \<Rightarrow> PSTExportRun \<Rightarrow> PSTExportRun" where
  "unmarshal_run parse text c = (case json_parse text of Some (JObj ms) \<Rightarrow> fill_run parse c ms | _ \<Rightarrow> c)"

text \<open>The files directly in a directory, by name.\<close>

definition file_names :: "string \<Rightarrow> 'w fs_world_scheme \<Rightarrow> string list" where
  "file_names dir w = sort (map (path_Base \<circ> fst) (filter (\<lambda>(p, d). length (path_segs p) = Suc (length (path_segs dir))) (files_below dir w)))"

definition read_run :: "export_clock \<Rightarrow> string \<Rightarrow> string \<Rightarrow> ('w fs_world_scheme, PSTExportRun) io" where
  "read_run clk root i =
     (let dir = path_Join [root, i]; run0 = empty_run\<lparr>pr_ID := i, pr_Path := dir\<rparr>
      in attempt (os_ReadFile (path_Join [dir, ''manifest.json''])) (\<lambda>x.
         bindE (case x of
             Inr meta \<Rightarrow> ret ((unmarshal_run (ec_Parse clk) meta run0)\<lparr>pr_ID := i, pr_Path := dir\<rparr>)
           | Inl _ \<Rightarrow>
               attempt access (\<lambda>y.
               bindE (gets (DirSize dir)) (\<lambda>n.
                 ret (run0\<lparr>pr_CreatedAt := (case y of Inr _ \<Rightarrow> ec_ModTime clk dir | Inl _ \<Rightarrow> zero_time), pr_Bytes := n\<rparr>)))) (\<lambda>run.
         bindE (from_result (FormatBytes (pr_Bytes run))) (\<lambda>human.
         attempt (query (file_names dir)) (\<lambda>z.
           (let zips = filter (\<lambda>n. strings_HasSuffix (strings_ToLower n) ''.zip'') (case z of Inr ns \<Rightarrow> ns | Inl _ \<Rightarrow> [])
            in ret (run\<lparr>pr_Human := human, pr_Zips := sort (pr_Zips run @ zips)\<rparr>)))))))"

fun read_runs :: "export_clock \<Rightarrow> string \<Rightarrow> string list \<Rightarrow> ('w fs_world_scheme, PSTExportRun list) io" where
  "read_runs clk root [] = ret []"
| "read_runs clk root (i # is) = bindE (read_run clk root i) (\<lambda>r. bindE (read_runs clk root is) (\<lambda>rs. ret (r # rs)))"

definition ListPSTExports :: "export_clock \<Rightarrow> string \<Rightarrow> ('w fs_world_scheme, PSTExportRun list) io" where
  "ListPSTExports clk repoPath =
     (let root = PSTExportRoot repoPath
      in attempt (query (\<lambda>w. filter (\<lambda>i. files_below (path_Join [root, i]) w \<noteq> []) (dir_entries root w))) (\<lambda>x. case x of
           Inl e \<Rightarrow> (if errors_Is e ErrNotExist then ret [] else throw e)
         | Inr is \<Rightarrow> bindE (read_runs clk root is) (\<lambda>rs. ret (sort_key (\<lambda>r. - pr_CreatedAt r) rs))))"

definition ApplyPSTExportRetention :: "export_clock \<Rightarrow> string \<Rightarrow> int \<Rightarrow> ('w fs_world_scheme, unit) io" where
  "ApplyPSTExportRetention clk repoPath keepN =
     (let k = nat (if keepN < 1 then 5 else keepN)
      in bindE (ListPSTExports clk repoPath) (\<lambda>runs.
           for_each (drop k runs) (\<lambda>r. ignore (os_RemoveAll (pr_Path r)))))"

section \<open>Lemmas\<close>

lemma keeps_read_run: "disk_free P \<Longrightarrow> keeps P (read_run clk root i)"
  unfolding read_run_def Let_def
  by (auto intro!: keeps_rules keeps_disk keeps_query keeps_access disk_free_fault split: sum.split)

lemma keeps_read_runs: "disk_free P \<Longrightarrow> keeps P (read_runs clk root is)"
  by (induction "is") (auto intro!: keeps_rules keeps_read_run)

lemma keeps_ListPSTExports: "disk_free P \<Longrightarrow> keeps P (ListPSTExports clk repo)"
  unfolding ListPSTExports_def Let_def
  by (auto intro!: keeps_rules keeps_read_runs keeps_query disk_free_fault split: sum.split)

end
