(* ===== verification/Job_Run.thy ===== *)
theory Job_Run
  imports Export_Runs
begin

text \<open>
  The body of a job (\<open>runJob\<close> in \<open>internal/backup/job.go\<close>), in the parts between which other goroutines
  run: loading the job, marking it as running, preparing tenant, lock, client, catalog and staging
  directory, running the service, committing the snapshot, and finishing.

  A part that ends the job has already written the final state of the row when it returns; a part that
  fails with an error value of its own returns the job as it stood then, since the job is written back
  with the error. The progress reports while a manifest is streamed are left out; the message and the
  percentage they set are overwritten when the job ends.
\<close>

section \<open>Messages\<close>

definition summarizeResult :: "Result \<Rightarrow> string result" where
  "summarizeResult r =
     (if rs_ExportPath r \<noteq> [] \<or> rs_SkipSnapshot r then
        (case (if rs_BytesTransferred r > 0 then FormatBytes (rs_BytesTransferred r) else Inr []) of
           Inl e \<Rightarrow> Inl e
         | Inr human \<Rightarrow>
             Inr (strings_Join
               ([show_int (rs_ItemsNew r) @ '' Postf'' @ [CHR 0xC3, CHR 0xA4] @ ''cher exportiert'']
                @ (if rs_BytesTransferred r > 0 then [human] else [])
                @ (if rs_Warnings r \<noteq> [] then [show_nat (length (rs_Warnings r)) @ '' warnings''] else [])) middot))
      else
        Inr (strings_Join
          ([show_int (rs_ItemsNew r) @ '' items backed up'']
           @ (if rs_ItemsTotal r > 0 then [show_int (rs_ItemsTotal r) @ '' users checked''] else [])
           @ (if rs_SkippedUsers r > 0 then [show_int (rs_SkippedUsers r) @ '' without mailbox (ignored)''] else [])
           @ (if rs_Warnings r \<noteq> [] then [show_nat (length (rs_Warnings r)) @ '' real warnings''] else [])
           @ (if rs_BytesTransferred r > 0 then [show_int (rs_BytesTransferred r) @ '' bytes''] else [])) middot))"

definition persistLogs :: "string \<Rightarrow> LogLine list \<Rightarrow> ('w db_world_scheme, unit) io" where
  "persistLogs jobID ls =
     InsertJobLogs jobID
       (map (\<lambda>l. zero_log\<lparr>l_Level := ll_Level l, l_Message := ll_Message l\<rparr>) (filter (\<lambda>l. ll_Level l \<noteq> ''skip'') ls))"

section \<open>Locks\<close>

text \<open>\<open>flock\<close>: a lock on a file that a descriptor holds already, of this process or another, is refused.\<close>

definition tryServiceFileLock :: "string \<Rightarrow> string \<Rightarrow> string \<Rightarrow> ('w run_world_scheme, unit) io" where
  "tryServiceFileLock jobID storePath service =
     (if storePath = [] \<or> service = [] then throw (Err ''service lock: store path and service required'')
      else (case GuardPath service of
        Inl e \<Rightarrow> throw (Wrap ''service lock'' e)
      | Inr _ \<Rightarrow>
          bindE (from_result (EnsureSubpath storePath ''.locks'')) (\<lambda>lockDir.
          bindE (os_MkdirAll lockDir) (\<lambda>_.
            (let lockPath = path_Join [lockDir, service @ ''.lock'']
             in attempt access (\<lambda>a. case a of
                  Inl e \<Rightarrow> throw (Wrap ''service lock'' e)
                | Inr _ \<Rightarrow>
                    bindE (gets (\<lambda>w. lockPath \<in> fst ` set (flocks w))) (\<lambda>held.
                      if held then throw (Err (''service '' @ service @ '' is already locked by another process''))
                      else modify (\<lambda>w. w\<lparr>flocks := (lockPath, Some jobID) # flocks w\<rparr>))))))))"

definition serviceGate :: "string \<Rightarrow> string \<Rightarrow> string" where
  "serviceGate tenantID service = tenantID @ [CHR 0x00] @ service"

section \<open>The parts of a run\<close>

definition runJob_load :: "string \<Rightarrow> ('w run_world_scheme, Job option) io" where
  "runJob_load jobID =
     attempt (GetJob jobID) (\<lambda>r. case r of
       Inl _ \<Rightarrow> ret None
     | Inr job \<Rightarrow> ret (if j_Status job = ''cancelled'' \<or> j_Status job = ''error'' then None else Some job))"

definition runJob_register :: "string \<Rightarrow> ('w run_world_scheme, unit) io" where
  "runJob_register jobID =
     modify (\<lambda>w. w\<lparr>cancels := jobID # cancels w, cancelled := filter (\<lambda>i. i \<noteq> jobID) (cancelled w)\<rparr>)"

definition runJob_mark :: "Job \<Rightarrow> ('w run_world_scheme, Job) io" where
  "runJob_mark job =
     bindE time_Now (\<lambda>now.
       (let job' = job\<lparr>j_Status := ''running'', j_StartedAt := now\<rparr>
        in bindE (ignore (on_ctx (j_ID job) (UpdateJob job'))) (\<lambda>_. ret job')))"

text \<open>An error ends the part with the job as it is.\<close>

definition or_fail :: "Job \<Rightarrow> ('w, 'a) io \<Rightarrow> ('a \<Rightarrow> ('w, Job \<times> goerr + 'b) io) \<Rightarrow> ('w, Job \<times> goerr + 'b) io" where
  "or_fail job m k = attempt m (\<lambda>r. case r of Inl e \<Rightarrow> ret (Inl (job, e)) | Inr x \<Rightarrow> k x)"

record ('w, 'g) run_env =
  re_tenant :: Tenant
  re_svc :: "('w, 'g) ServiceBackup"
  re_prog :: "Progress option"
  re_gc :: "'g option"
  re_cat :: Store
  re_stage :: string

definition runJob_tenant :: "('w, 'g) Runner \<Rightarrow> Job \<Rightarrow> ('w run_world_scheme, Job \<times> goerr + Tenant) io" where
  "runJob_tenant r job =
     or_fail job (on_ctx (j_ID job) (GetTenant (j_TenantID job))) (\<lambda>t.
     or_fail job (bindTenantStore r t) (\<lambda>t'.
     or_fail job (tryServiceFileLock (j_ID job) (t_StorePath t') (j_Service job)) (\<lambda>_.
       ret (Inr t'))))"

definition job_progress :: "int \<Rightarrow> string \<Rightarrow> Job \<Rightarrow> Job" where
  "job_progress pct msg job = job\<lparr>j_ProgressPct := pct, j_ProgressMessage := msg\<rparr>"

definition runJob_client ::
  "('w, 'g) Runner \<Rightarrow> Tenant \<Rightarrow> Job
   \<Rightarrow> ('w run_world_scheme, Job \<times> goerr + Job \<times> ('w, 'g) ServiceBackup \<times> Progress option \<times> 'g option \<times> string) io" where
  "runJob_client r t job =
     (case Registry_Get r (j_Service job) of
        None \<Rightarrow> ret (Inl (job, Err (''unknown service '' @ j_Service job)))
      | Some svc \<Rightarrow>
          (let prog = Some \<lparr>pg_JobID = j_ID job, pg_Tenant = t_Name t, pg_Service = j_Service job\<rparr>;
               job1 = job_progress 1 (''Starting'' @ ellipsis) job
           in bindE (Emit prog ''info'' (''job started ('' @ t_Name t @ '' / '' @ j_Service job @ '')'')) (\<lambda>_.
              bindE (ignore (on_ctx (j_ID job) (UpdateJobProgress job1))) (\<lambda>_.
              or_fail job1 (from_result (DecryptSecrets (rn_Tenants r) t)) (\<lambda>(clientSecret, storePass).
                if j_Service job = ''pst'' then ret (Inr (job1, svc, prog, None, storePass))
                else or_fail job1 (rn_graph r (t_AzureTenantID t) (t_ClientID t) clientSecret) (\<lambda>gc.
                       ret (Inr (job1, svc, prog, Some gc, storePass))))))))"

definition runJob_catalog ::
  "('w, 'g) Runner \<Rightarrow> Tenant \<Rightarrow> Progress option \<Rightarrow> string \<Rightarrow> Job \<Rightarrow> ('w run_world_scheme, Job \<times> goerr + Job \<times> Store) io" where
  "runJob_catalog r t prog storePass job =
     or_fail job (catalog_Open (t_ID t) (t_StorePath t) storePass) (\<lambda>cat0.
       (let cat = (if j_JobType job = ''full'' then cat0\<lparr>SkipRematch := True, TrackChanges := False\<rparr> else cat0)
        in or_fail job (on_ctx (j_ID job) (EnsureMigrated (rn_codec r) cat (j_Service job) (j_ID job))) (\<lambda>(imported, needFull).
           bindE (if imported then Emit prog ''info'' ''imported existing sync/ tree as catalog generation 1'' else ret ()) (\<lambda>_.
             if needFull \<and> j_Service job \<noteq> ''pst'' then
               (let msg = ''empty catalog '' @ em_dash @ '' Graph full sync (delta tokens cleared)''
                in if j_JobType job \<noteq> ''full'' then
                     or_fail job (on_ctx (j_ID job) (DeleteDeltaTokens (t_ID t) (j_Service job))) (\<lambda>_.
                       (let job1 = job\<lparr>j_JobType := ''full''\<rparr>
                        in bindE (ignore (on_ctx (j_ID job) (UpdateJob job1))) (\<lambda>_.
                           bindE (Emit prog ''info'' msg) (\<lambda>_. ret (Inr (job1, cat))))))
                   else bindE (Emit prog ''info'' msg) (\<lambda>_. ret (Inr (job, cat))))
             else ret (Inr (job, cat))))))"

definition runJob_stage :: "('w, 'g) Runner \<Rightarrow> Job \<Rightarrow> ('w run_world_scheme, Job \<times> goerr + string) io" where
  "runJob_stage r job =
     or_fail job (from_result (stagingJobDir r (j_ID job))) (\<lambda>d.
     or_fail job (from_result (GuardPath d)) (\<lambda>stageDir.
     bindE (ignore (os_RemoveAll stageDir)) (\<lambda>_.
     or_fail job (os_MkdirAll stageDir) (\<lambda>_. ret (Inr stageDir)))))"

definition and_then ::
  "('w, 'e + 'a) io \<Rightarrow> ('a \<Rightarrow> ('w, 'e + 'b) io) \<Rightarrow> ('w, 'e + 'b) io" where
  "and_then m k = bindE m (\<lambda>x. case x of Inl f \<Rightarrow> ret (Inl f) | Inr a \<Rightarrow> k a)"

definition runJob_prepare ::
  "('w, 'g) Runner \<Rightarrow> Job \<Rightarrow> ('w run_world_scheme, Job \<times> goerr + Job \<times> ('w, 'g) run_env) io" where
  "runJob_prepare r job =
     and_then (runJob_tenant r job) (\<lambda>t.
     and_then (runJob_client r t job) (\<lambda>(job1, svc, prog, gc, storePass).
     and_then (runJob_catalog r t prog storePass job1) (\<lambda>(job2, cat).
     and_then (runJob_stage r job2) (\<lambda>stageDir.
       ret (Inr (job2, \<lparr>re_tenant = t, re_svc = svc, re_prog = prog, re_gc = gc, re_cat = cat, re_stage = stageDir\<rparr>))))))"

text \<open>The call of the service, and the check whether the job was cancelled meanwhile.\<close>

definition runJob_service ::
  "('w, 'g) Runner \<Rightarrow> ('w, 'g) run_env \<Rightarrow> Job \<Rightarrow> ('w run_world_scheme, (Job \<times> Result) option) io" where
  "runJob_service r env job =
     (let job1 = job_progress 2 (''Running service backup'' @ ellipsis) job
      in bindE (Emit (re_prog env) ''info'' (''running service backup'' @ ellipsis)) (\<lambda>_.
         bindE (ignore (on_ctx (j_ID job) (UpdateJobProgress job1))) (\<lambda>_.
         bindE (\<lambda>w. apfst Inr (re_svc env (re_gc env) (re_tenant env) job1 (re_stage env) (re_cat env) (re_prog env) w))
           (\<lambda>(job2, out). case out of
              Inl runErr \<Rightarrow>
                bindE (if isCancelErr runErr then ret True else wasCancelled (j_ID job)) (\<lambda>c.
                bindE (if c then finishCancelled r job2 ''cancelled by user'' else fail r job2 runErr) (\<lambda>_. ret None))
            | Inr res \<Rightarrow>
                bindE (wasCancelled (j_ID job)) (\<lambda>c.
                bindE (gets (ctx_done (j_ID job))) (\<lambda>d.
                  if c \<or> d then bindE (finishCancelled r job2 ''cancelled by user'') (\<lambda>_. ret None)
                  else ret (Some (job2\<lparr>j_ItemsNew := rs_ItemsNew res, j_ItemsTotal := rs_ItemsTotal res,
                                     j_BytesTransferred := rs_BytesTransferred res\<rparr>, res))))))))"

text \<open>The final status and its message.\<close>

definition close_status :: "Result \<Rightarrow> string \<Rightarrow> Job \<Rightarrow> Job" where
  "close_status res summary job =
     job\<lparr>j_Status := (if rs_Warnings res \<noteq> [] then ''warning'' else ''success''), j_ErrorMessage := summary\<rparr>"

definition runJob_export ::
  "('w, 'g) Runner \<Rightarrow> ('w, 'g) run_env \<Rightarrow> Job \<Rightarrow> Result \<Rightarrow> ('w run_world_scheme, unit) io" where
  "runJob_export r env job res =
     (let t = re_tenant env;
          policy = ParseRetentionJSON (t_RetentionJSON t);
          job1 = (if rs_ExportPath res \<noteq> [] then job\<lparr>j_SnapshotID := path_Base (rs_ExportPath res)\<rparr> else job)
      in bindE (Emit (re_prog env) ''info'' ''skipping catalog snapshot (export job)'') (\<lambda>_.
         bindE (ignore (ApplyPSTExportRetention (rn_exportTime r) (t_StorePath t) (PSTKeepRuns policy))) (\<lambda>_.
         bindE time_Now (\<lambda>now.
         bindE (from_result (summarizeResult res)) (\<lambda>summary.
         bindE (if \<not> rs_livePersisted res then ignore (on_ctx (j_ID job) (persistLogs (j_ID job) (rs_Logs res))) else ret ()) (\<lambda>_.
           (let job2 = job_progress 100
                  (if rs_ExportPath res \<noteq> [] then ''export '' @ j_SnapshotID job1 @ middot @ summary else summary)
                  (job1\<lparr>j_FinishedAt := now\<rparr>)
            in ignore (on_ctx (j_ID job) (UpdateJob (close_status res summary job2))))))))))"

text \<open>The commit: \<open>None\<close> when the job ended here.\<close>

definition runJob_commit ::
  "('w, 'g) Runner \<Rightarrow> ('w, 'g) run_env \<Rightarrow> Job \<Rightarrow> Result \<Rightarrow> ('w run_world_scheme, (Job \<times> Snapshot option) option) io" where
  "runJob_commit r env job res =
     (let job1 = job_progress 95 (''Committing catalog snapshot'' @ ellipsis) job
      in bindE (Emit (re_prog env) ''info''
             (''committing catalog snapshot ('' @ show_int (rs_ItemsNew res) @ '' items, '' @ show_int (rs_BytesTransferred res) @ '' bytes)'' @ ellipsis)) (\<lambda>_.
         bindE (ignore (on_ctx (j_ID job) (UpdateJobProgress job1))) (\<lambda>_.
         attempt (on_ctx (j_ID job) (CommitSnapshot (rn_codec r) (re_cat env) (j_Service job) (j_ID job))) (\<lambda>x. case x of
           Inl err \<Rightarrow>
             bindE (if isCancelErr err then ret True else wasCancelled (j_ID job)) (\<lambda>c.
             bindE (if c then finishCancelled r job1 ''cancelled by user'' else fail r job1 (Wrap ''snapshot'' err)) (\<lambda>_. ret None))
         | Inr snap \<Rightarrow>
             bindE (RemoveLegacyDirs (t_StorePath (re_tenant env))) (\<lambda>_. ret (Some (job1, snap)))))))"

definition runJob_skipped ::
  "('w, 'g) Runner \<Rightarrow> ('w, 'g) run_env \<Rightarrow> Job \<Rightarrow> Result \<Rightarrow> Snapshot option \<Rightarrow> ('w run_world_scheme, unit) io" where
  "runJob_skipped r env job res snap =
     (let base = ''no catalog changes '' @ em_dash @ '' snapshot skipped'';
          skipMsg = (case snap of None \<Rightarrow> base | Some s \<Rightarrow> base @ '' (generation '' @ show_int (sn_Generation s) @ '')'');
          job1 = (case snap of None \<Rightarrow> job | Some s \<Rightarrow> job\<lparr>j_SnapshotID := sn_ID s\<rparr>)
      in bindE (Emit (re_prog env) ''info'' skipMsg) (\<lambda>_.
         bindE (wasCancelled (j_ID job)) (\<lambda>c.
           if c then finishCancelled r job1 ''cancelled by user''
           else
             bindE time_Now (\<lambda>now.
             bindE (from_result (summarizeResult res)) (\<lambda>summary.
             bindE (if \<not> rs_livePersisted res then ignore (on_ctx (j_ID job) (persistLogs (j_ID job) (rs_Logs res))) else ret ()) (\<lambda>_.
               ignore (on_ctx (j_ID job) (UpdateJob (close_status res summary
                 (job_progress 100 skipMsg (job1\<lparr>j_ItemsNew := rs_ItemsNew res, j_ItemsTotal := rs_ItemsTotal res,
                    j_BytesTransferred := rs_BytesTransferred res, j_FinishedAt := now\<rparr>)))))))))))"

definition runJob_done ::
  "('w, 'g) Runner \<Rightarrow> ('w, 'g) run_env \<Rightarrow> Job \<Rightarrow> Result \<Rightarrow> Snapshot \<Rightarrow> ('w run_world_scheme, unit) io" where
  "runJob_done r env job res snap =
     (let t = re_tenant env; policy = ParseRetentionJSON (t_RetentionJSON t)
      in bindE (attempt (on_ctx (j_ID job) (ApplySmartRetention (re_cat env) policy)) (\<lambda>x. case x of
                  Inl e \<Rightarrow> Emit (re_prog env) ''warn'' (''retention: '' @ err_text e)
                | Inr n \<Rightarrow> (if n > 0 then Emit (re_prog env) ''info'' (''Smart Recycle: '' @ show_nat n @ '' alte Snapshots entfernt'')
                            else ret ()))) (\<lambda>_.
         bindE (wasCancelled (j_ID job)) (\<lambda>c.
           if c then finishCancelled r job ''cancelled by user''
           else
             bindE time_Now (\<lambda>now.
               (let snapMsg = (if rs_Logs res = []
                      then ''snapshot '' @ sn_ID snap @ '' created ('' @ show_int (rs_ItemsNew res) @ '' items)''
                      else ''snapshot '' @ sn_ID snap @ '' stored (generation '' @ show_int (sn_Generation snap) @ '')'');
                    job1 = job_progress 100 snapMsg (job\<lparr>j_ItemsNew := rs_ItemsNew res, j_ItemsTotal := rs_ItemsTotal res,
                      j_BytesTransferred := rs_BytesTransferred res, j_SnapshotID := sn_ID snap, j_FinishedAt := now\<rparr>)
                in bindE (if rs_livePersisted res then bindE (Emit (re_prog env) ''info'' snapMsg) (\<lambda>_. ret res)
                          else bindE (res_Info snapMsg res) (\<lambda>res1.
                               bindE (ignore (on_ctx (j_ID job) (persistLogs (j_ID job) (rs_Logs res1)))) (\<lambda>_. ret res1))) (\<lambda>res1.
                   bindE (from_result (summarizeResult res1)) (\<lambda>summary.
                   bindE (if rs_Warnings res1 \<noteq> [] then
                            notify r \<lparr>ev_Type = ''job_warning'', ev_TenantID = t_ID t,
                              ev_Subject = ''Backup warning: '' @ t_Name t @ '' / '' @ SafeService (j_Service job),
                              ev_Body = summary @ [CHR 0x0A, CHR 0x0A] @ ''See job detail log for full list.''\<rparr>
                          else ret ()) (\<lambda>_.
                     ignore (on_ctx (j_ID job) (UpdateJob (close_status res1 summary job1)))))))))))"

end
