(* ===== verification/Runner_Threads.thy ===== *)
theory Runner_Threads
  imports Job_Run "HOL-Library.Multiset"
begin

text \<open>
  The goroutines of the runner: each job runs through the parts of \<open>runJob\<close>, takes a slot of the
  semaphores and the gate of its tenant and service on the way, and gives them back at the end. A step
  of the system is one part of one goroutine, or a request (enqueue, cancel, kill), or the passing of
  time; parts of different goroutines interleave in every order.

  The catalog handle of a job (\<open>pending\<close> and \<open>seen\<close>) belongs to its goroutine and is swapped in for the
  parts of that job.
\<close>

section \<open>Goroutines\<close>

datatype ('w, 'g) phase =
    PLoad
  | PFull
  | PSem
  | PReload
  | PGate Job
  | PRegister Job
  | PMark Job
  | PPrepare Job
  | PFail Job goerr
  | PService "('w, 'g) run_env" Job
  | PExport "('w, 'g) run_env" Job Result
  | PCommit "('w, 'g) run_env" Job Result
  | PFinish "('w, 'g) run_env" Job Result "Snapshot option"
  | PRelease "string option"
  | PEnd

record ('w, 'g) thread =
  th_job :: string
  th_phase :: "('w, 'g) phase"
  th_full :: bool
  th_sem :: bool
  th_gate :: "string option"
  th_pending :: "(string \<times> pendingChange) list"
  th_seen :: "(string \<times> string list) list"

record ('w, 'g) system =
  sy_world :: "'w run_world_scheme"
  sy_threads :: "('w, 'g) thread list"
  sy_sem :: nat
  sy_full :: nat
  sy_gates :: "string list"

definition new_thread :: "string \<Rightarrow> ('w, 'g) thread" where
  "new_thread jobID =
     \<lparr>th_job = jobID, th_phase = PLoad, th_full = False, th_sem = False, th_gate = None, th_pending = [], th_seen = []\<rparr>"

text \<open>One part of a goroutine: its catalog handle in, its next phase out; \<open>stage\<close> is the staging directory
  that the deferred calls remove when the part panics.\<close>

definition run_part ::
  "('w, 'g) system \<Rightarrow> ('w, 'g) thread \<Rightarrow> string option \<Rightarrow> ('w run_world_scheme, 'a) io \<Rightarrow> ('a \<Rightarrow> ('w, 'g) phase)
   \<Rightarrow> (('w, 'g) system \<times> ('w, 'g) thread) option" where
  "run_part s th stage m next =
     (case m ((sy_world s)\<lparr>pending := th_pending th, seen := th_seen th\<rparr>) of
        (x, w') \<Rightarrow>
          Some (s\<lparr>sy_world := w'\<lparr>pending := pending (sy_world s), seen := seen (sy_world s)\<rparr>\<rparr>,
                th\<lparr>th_phase := (case x of Inl _ \<Rightarrow> PRelease stage | Inr a \<Rightarrow> next a),
                   th_pending := pending w', th_seen := seen w'\<rparr>))"

text \<open>The deferred calls of \<open>runJob\<close>, in their order.\<close>

definition release_ctx :: "string \<Rightarrow> 'w run_world_scheme \<Rightarrow> 'w run_world_scheme" where
  "release_ctx jobID w =
     (if jobID \<in> set (cancels w)
      then w\<lparr>cancels := filter (\<lambda>i. i \<noteq> jobID) (cancels w), cancelled := jobID # cancelled w\<rparr> else w)"

definition release_world :: "string \<Rightarrow> string option \<Rightarrow> ('w run_world_scheme, unit) io" where
  "release_world jobID stage =
     bindE (case stage of None \<Rightarrow> ret () | Some d \<Rightarrow> ignore (os_RemoveAll d)) (\<lambda>_.
       modify (\<lambda>w. release_ctx jobID (w\<lparr>flocks := filter (\<lambda>(p, owner). owner \<noteq> Some jobID) (flocks w)\<rparr>)))"

definition release_locks :: "('w, 'g) system \<Rightarrow> ('w, 'g) thread \<Rightarrow> ('w, 'g) system \<times> ('w, 'g) thread" where
  "release_locks s th =
     (s\<lparr>sy_gates := (case th_gate th of None \<Rightarrow> sy_gates s | Some k \<Rightarrow> remove1 k (sy_gates s)),
        sy_sem := sy_sem s - (if th_sem th then 1 else 0),
        sy_full := sy_full s - (if th_full th then 1 else 0)\<rparr>,
      th\<lparr>th_phase := PEnd, th_full := False, th_sem := False, th_gate := None\<rparr>)"

definition after_service :: "('w, 'g) run_env \<Rightarrow> (Job \<times> Result) option \<Rightarrow> ('w, 'g) phase" where
  "after_service env x =
     (case x of
        None \<Rightarrow> PRelease (Some (re_stage env))
      | Some (job, res) \<Rightarrow> (if rs_SkipSnapshot res then PExport env job res else PCommit env job res))"

definition runJob_finish ::
  "('w, 'g) Runner \<Rightarrow> ('w, 'g) run_env \<Rightarrow> Job \<Rightarrow> Result \<Rightarrow> Snapshot option \<Rightarrow> ('w run_world_scheme, unit) io" where
  "runJob_finish r env job res snap =
     (case snap of
        None \<Rightarrow> runJob_skipped r env job res None
      | Some sn \<Rightarrow> (if sn_Skipped sn then runJob_skipped r env job res (Some sn) else runJob_done r env job res sn))"

text \<open>One step of a goroutine; \<open>None\<close> when it waits for a slot or a gate, or has ended.\<close>

fun step_phase ::
  "('w, 'g) Runner \<Rightarrow> ('w, 'g) phase \<Rightarrow> ('w, 'g) system \<Rightarrow> ('w, 'g) thread \<Rightarrow> (('w, 'g) system \<times> ('w, 'g) thread) option" where
  "step_phase r PLoad s th =
     run_part s th None (runJob_load (th_job th)) (\<lambda>x. case x of
       None \<Rightarrow> PRelease None | Some job \<Rightarrow> (if j_JobType job = ''full'' then PFull else PSem))"
| "step_phase r PFull s th =
     (if sy_full s < rn_MaxConcurrentFull r
      then Some (s\<lparr>sy_full := Suc (sy_full s)\<rparr>, th\<lparr>th_full := True, th_phase := PSem\<rparr>) else None)"
| "step_phase r PSem s th =
     (if sy_sem s < rn_MaxConcurrent r
      then Some (s\<lparr>sy_sem := Suc (sy_sem s)\<rparr>, th\<lparr>th_sem := True, th_phase := PReload\<rparr>) else None)"
| "step_phase r PReload s th =
     run_part s th None (runJob_load (th_job th)) (\<lambda>x. case x of None \<Rightarrow> PRelease None | Some job \<Rightarrow> PGate job)"
| "step_phase r (PGate job) s th =
     (let k = serviceGate (j_TenantID job) (j_Service job)
      in if k \<in> set (sy_gates s) then None
         else Some (s\<lparr>sy_gates := k # sy_gates s\<rparr>, th\<lparr>th_gate := Some k, th_phase := PRegister job\<rparr>))"
| "step_phase r (PRegister job) s th = run_part s th None (runJob_register (th_job th)) (\<lambda>_. PMark job)"
| "step_phase r (PMark job) s th = run_part s th None (runJob_mark job) PPrepare"
| "step_phase r (PPrepare job) s th =
     run_part s th None (runJob_prepare r job) (\<lambda>x. case x of
       Inl (job1, e) \<Rightarrow> PFail job1 e | Inr (job1, env) \<Rightarrow> PService env job1)"
| "step_phase r (PFail job e) s th = run_part s th None (fail r job e) (\<lambda>_. PRelease None)"
| "step_phase r (PService env job) s th =
     run_part s th (Some (re_stage env)) (runJob_service r env job) (after_service env)"
| "step_phase r (PExport env job res) s th =
     run_part s th (Some (re_stage env)) (runJob_export r env job res) (\<lambda>_. PRelease (Some (re_stage env)))"
| "step_phase r (PCommit env job res) s th =
     run_part s th (Some (re_stage env)) (runJob_commit r env job res) (\<lambda>x. case x of
       None \<Rightarrow> PRelease (Some (re_stage env)) | Some (job1, snap) \<Rightarrow> PFinish env job1 res snap)"
| "step_phase r (PFinish env job res snap) s th =
     run_part s th (Some (re_stage env)) (runJob_finish r env job res snap) (\<lambda>_. PRelease (Some (re_stage env)))"
| "step_phase r (PRelease stage) s th =
     (case run_part s th None (release_world (th_job th) stage) (\<lambda>_. PEnd) of
        None \<Rightarrow> None | Some (s', th') \<Rightarrow> Some (release_locks s' th'))"
| "step_phase r PEnd s th = None"

definition step_thread ::
  "('w, 'g) Runner \<Rightarrow> ('w, 'g) system \<Rightarrow> ('w, 'g) thread \<Rightarrow> (('w, 'g) system \<times> ('w, 'g) thread) option" where
  "step_thread r s th = step_phase r (th_phase th) s th"

text \<open>The goroutine number \<open>i\<close> of the system takes a step.\<close>

definition step_at :: "('w, 'g) Runner \<Rightarrow> nat \<Rightarrow> ('w, 'g) system \<Rightarrow> ('w, 'g) system option" where
  "step_at r i s =
     (if i < length (sy_threads s)
      then (case step_thread r s (sy_threads s ! i) of
              None \<Rightarrow> None
            | Some (s', th') \<Rightarrow> Some (s'\<lparr>sy_threads := (sy_threads s)[i := th']\<rparr>))
      else None)"

text \<open>A request against the runner: the goroutines that it spawned start.\<close>

definition request :: "('w run_world_scheme, 'a) io \<Rightarrow> ('w, 'g) system \<Rightarrow> ('w, 'g) system" where
  "request m s =
     (case m ((sy_world s)\<lparr>spawned := []\<rparr>) of
        (_, w') \<Rightarrow> s\<lparr>sy_world := w'\<lparr>spawned := []\<rparr>, sy_threads := sy_threads s @ map new_thread (spawned w')\<rparr>)"

inductive run_step :: "('w, 'g) Runner \<Rightarrow> ('w, 'g) system \<Rightarrow> ('w, 'g) system \<Rightarrow> bool"
  for r where
  thread: "step_at r i s = Some s' \<Longrightarrow> run_step r s s'"
| enqueue: "run_step r s (request (EnqueueParams r tenantID service scheduleID jobType params) s)"
| cancel: "run_step r s (request (Cancel r jobID) s)"
| kill: "run_step r s (request (KillStale r jobID reason) s)"
| tick: "clock (sy_world s) \<le> t \<Longrightarrow> run_step r s (s\<lparr>sy_world := (sy_world s)\<lparr>clock := t, faults := fs\<rparr>\<rparr>)"

definition start :: "'w run_world_scheme \<Rightarrow> ('w, 'g) system" where
  "start w = \<lparr>sy_world = w, sy_threads = [], sy_sem = 0, sy_full = 0, sy_gates = []\<rparr>"

inductive reachable :: "('w, 'g) Runner \<Rightarrow> 'w run_world_scheme \<Rightarrow> ('w, 'g) system \<Rightarrow> bool"
  for r w where
  init: "reachable r w (start w)"
| step: "reachable r w s \<Longrightarrow> run_step r s s' \<Longrightarrow> reachable r w s'"

inductive_cases run_stepE: "run_step r s s'"

section \<open>The locks\<close>

text \<open>Where a goroutine can hold which lock.\<close>

fun before_full :: "('w, 'g) phase \<Rightarrow> bool" where
  "before_full PLoad = True" | "before_full PFull = True" | "before_full PEnd = True" | "before_full _ = False"

fun before_sem :: "('w, 'g) phase \<Rightarrow> bool" where
  "before_sem PSem = True" | "before_sem p = before_full p"

fun before_gate :: "('w, 'g) phase \<Rightarrow> bool" where
  "before_gate PReload = True" | "before_gate (PGate job) = True" | "before_gate p = before_sem p"

definition thread_ok :: "('w, 'g) thread \<Rightarrow> bool" where
  "thread_ok th =
     ((before_full (th_phase th) \<longrightarrow> \<not> th_full th) \<and> (before_sem (th_phase th) \<longrightarrow> \<not> th_sem th)
      \<and> (before_gate (th_phase th) \<longrightarrow> th_gate th = None))"

definition gates_of :: "('w, 'g) thread list \<Rightarrow> string list" where
  "gates_of ts = List.map_filter th_gate ts"

definition count_if :: "('a \<Rightarrow> bool) \<Rightarrow> 'a list \<Rightarrow> nat" where
  "count_if P xs = length (filter P xs)"

definition locks_ok :: "('w, 'g) Runner \<Rightarrow> ('w, 'g) system \<Rightarrow> bool" where
  "locks_ok r s =
     (list_all thread_ok (sy_threads s)
      \<and> sy_sem s = count_if th_sem (sy_threads s) \<and> sy_sem s \<le> rn_MaxConcurrent r
      \<and> sy_full s = count_if th_full (sy_threads s) \<and> sy_full s \<le> rn_MaxConcurrentFull r
      \<and> mset (sy_gates s) = mset (gates_of (sy_threads s)) \<and> distinct (sy_gates s))"

end
