(* ===== verification/Runner_Locks.thy ===== *)
theory Runner_Locks
  imports Runner_Threads
begin

text \<open>
  The locks of the runner: that the counters of the semaphores and the set of locked gates agree with what
  the goroutines hold, that two runs for the same tenant and service exclude each other, and that the order
  of the locks (full slot, slot, gate) rules out a deadlock, so that every job ends.
\<close>

section \<open>What a step does to the locks\<close>

lemma run_part_locks:
  assumes "run_part s th stage m next = Some (s', th')"
  shows "sy_sem s' = sy_sem s" "sy_full s' = sy_full s" "sy_gates s' = sy_gates s" "sy_threads s' = sy_threads s"
    "th_sem th' = th_sem th" "th_full th' = th_full th" "th_gate th' = th_gate th" "th_job th' = th_job th"
    "th_phase th' = PRelease stage \<or> (\<exists>a. th_phase th' = next a)"
  using assms by (auto simp: run_part_def split: prod.splits sum.splits)

lemma run_part_total [simp]: "run_part s th stage m next \<noteq> None"
  by (auto simp: run_part_def split: prod.splits)

text \<open>How a step moves the locks of the goroutine and of the system.\<close>

inductive lock_move :: "('w, 'g) Runner \<Rightarrow> ('w, 'g) system \<times> ('w, 'g) thread \<Rightarrow> ('w, 'g) system \<times> ('w, 'g) thread \<Rightarrow> bool"
  for r where
  same: "sy_sem s' = sy_sem s \<Longrightarrow> sy_full s' = sy_full s \<Longrightarrow> sy_gates s' = sy_gates s \<Longrightarrow>
    th_sem th' = th_sem th \<Longrightarrow> th_full th' = th_full th \<Longrightarrow> th_gate th' = th_gate th \<Longrightarrow> lock_move r (s, th) (s', th')"
| full: "sy_full s < rn_MaxConcurrentFull r \<Longrightarrow> \<not> th_full th \<Longrightarrow>
    lock_move r (s, th) (s\<lparr>sy_full := Suc (sy_full s)\<rparr>, th\<lparr>th_full := True, th_phase := p\<rparr>)"
| sem: "sy_sem s < rn_MaxConcurrent r \<Longrightarrow> \<not> th_sem th \<Longrightarrow>
    lock_move r (s, th) (s\<lparr>sy_sem := Suc (sy_sem s)\<rparr>, th\<lparr>th_sem := True, th_phase := p\<rparr>)"
| gate: "k \<notin> set (sy_gates s) \<Longrightarrow> th_gate th = None \<Longrightarrow>
    lock_move r (s, th) (s\<lparr>sy_gates := k # sy_gates s\<rparr>, th\<lparr>th_gate := Some k, th_phase := p\<rparr>)"
| release: "sy_sem s1 = sy_sem s \<Longrightarrow> sy_full s1 = sy_full s \<Longrightarrow> sy_gates s1 = sy_gates s \<Longrightarrow>
    th_sem th1 = th_sem th \<Longrightarrow> th_full th1 = th_full th \<Longrightarrow> th_gate th1 = th_gate th \<Longrightarrow> lock_move r (s, th) (release_locks s1 th1)"

lemma part_lock_move: "run_part s th stage m nx = Some (s', th') \<Longrightarrow> lock_move r (s, th) (s', th')"
  using run_part_locks by (intro lock_move.same) blast+

lemma release_step:
  assumes "step_phase r (PRelease stage) s th = Some (s', th')"
  obtains s1 th1 where "run_part s th None (release_world (th_job th) stage) (\<lambda>_. PEnd) = Some (s1, th1)"
    "release_locks s1 th1 = (s', th')"
  using assms by (auto split: option.splits)

lemma step_lock_move:
  assumes "step_thread r s th = Some (s', th')" "thread_ok th"
  shows "lock_move r (s, th) (s', th')"
proof (cases "th_phase th")
  case (PRelease stage)
  with assms(1) have "step_phase r (PRelease stage) s th = Some (s', th')" by (simp add: step_thread_def)
  then show ?thesis
  proof (rule release_step)
    fix s1 th1
    assume p: "run_part s th None (release_world (th_job th) stage) (\<lambda>_. PEnd) = Some (s1, th1)"
      and e: "release_locks s1 th1 = (s', th')"
    have "lock_move r (s, th) (release_locks s1 th1)"
      using run_part_locks [OF p] by (intro lock_move.release) auto
    then show ?thesis using e by simp
  qed
qed (use assms in \<open>auto simp: step_thread_def thread_ok_def Let_def
    intro: part_lock_move lock_move.full lock_move.sem lock_move.gate split: if_splits\<close>)

lemma part_thread_ok:
  assumes "run_part s th stage m nx = Some (s', th')" "thread_ok th"
    "\<And>a. before_gate (nx a) \<Longrightarrow> before_gate (th_phase th)"
    "\<And>a. before_sem (nx a) \<Longrightarrow> before_sem (th_phase th)" "\<And>a. before_full (nx a) \<Longrightarrow> before_full (th_phase th)"
  shows "thread_ok th'"
proof -
  note keep = run_part_locks(5-7) [OF assms(1)]
  consider "th_phase th' = PRelease stage" | a where "th_phase th' = nx a"
    using run_part_locks(9) [OF assms(1)] by blast
  then show ?thesis
  proof cases
    case (2 a)
    then show ?thesis using assms(2) assms(3-5) [of a] keep by (simp add: thread_ok_def)
  qed (simp add: thread_ok_def)
qed

lemma after_service_late [simp]:
  "\<not> before_gate (after_service env x)" "\<not> before_sem (after_service env x)" "\<not> before_full (after_service env x)"
  by (auto simp: after_service_def split: option.split prod.split)

lemma step_thread_ok:
  assumes "step_thread r s th = Some (s', th')" "thread_ok th"
  shows "thread_ok th'"
proof (cases "th_phase th")
  case (PRelease stage)
  then show ?thesis
    using assms(1) by (auto simp: step_thread_def thread_ok_def release_locks_def split: option.splits)
next
  case PFull
  then show ?thesis using assms by (auto simp: step_thread_def thread_ok_def split: if_splits)
next
  case PSem
  then show ?thesis using assms by (auto simp: step_thread_def thread_ok_def split: if_splits)
next
  case (PGate job)
  then show ?thesis using assms by (auto simp: step_thread_def thread_ok_def Let_def split: if_splits)
qed (use assms in \<open>auto simp: step_thread_def elim!: part_thread_ok split: option.splits if_splits sum.splits\<close>)

lemma count_if_split [simp]:
  "count_if P (us @ th # vs) = count_if P us + (if P th then 1 else 0) + count_if P vs"
  by (simp add: count_if_def)

lemma gates_of_split [simp]:
  "gates_of (us @ th # vs) = gates_of us @ (case th_gate th of None \<Rightarrow> [] | Some k \<Rightarrow> [k]) @ gates_of vs"
  by (simp add: gates_of_def map_filter_def split: option.split)

lemma lock_move_ok:
  assumes "lock_move r (s, th) (s', th')" "locks_ok r s" "sy_threads s = us @ th # vs" "thread_ok th'"
  shows "locks_ok r (s'\<lparr>sy_threads := us @ th' # vs\<rparr>)"
  using assms(1)
proof (cases rule: lock_move.cases)
  case (release s1 th1)
  have "th_gate th = Some k \<Longrightarrow> k \<in># mset (sy_gates s)" for k
    using assms(2,3) by (simp add: locks_ok_def)
  then show ?thesis
    using release assms by (auto simp: locks_ok_def release_locks_def split: option.splits)
qed (use assms in \<open>auto simp: locks_ok_def split: option.splits\<close>)

lemma step_at_split:
  assumes "step_at r i s = Some s'"
  obtains us th vs s1 th1 where "sy_threads s = us @ th # vs" "step_thread r s th = Some (s1, th1)"
    "s' = s1\<lparr>sy_threads := us @ th1 # vs\<rparr>"
proof -
  from assms obtain s1 th1 where i: "i < length (sy_threads s)" and st: "step_thread r s (sy_threads s ! i) = Some (s1, th1)"
    and s': "s' = s1\<lparr>sy_threads := (sy_threads s)[i := th1]\<rparr>"
    by (auto simp: step_at_def split: if_splits option.splits)
  show thesis
    using that [of "take i (sy_threads s)" "sy_threads s ! i" "drop (Suc i) (sy_threads s)" s1 th1] i st s'
    by (simp add: id_take_nth_drop [symmetric] upd_conv_take_nth_drop)
qed

lemma step_at_locks:
  assumes "step_at r i s = Some s'" "locks_ok r s"
  shows "locks_ok r s'"
  using assms(1)
proof (rule step_at_split)
  fix us th vs s1 th1
  assume ts: "sy_threads s = us @ th # vs" and st: "step_thread r s th = Some (s1, th1)"
    and s': "s' = s1\<lparr>sy_threads := us @ th1 # vs\<rparr>"
  have th: "thread_ok th" using assms(2) ts by (simp add: locks_ok_def)
  show ?thesis
    using lock_move_ok [OF step_lock_move [OF st th] assms(2) ts step_thread_ok [OF st th]] s' by simp
qed

lemma new_threads:
  "list_all thread_ok (map new_thread js)" "count_if th_sem (map new_thread js) = 0"
  "count_if th_full (map new_thread js) = 0" "gates_of (map new_thread js) = []"
  by (induction js) (simp_all add: new_thread_def thread_ok_def count_if_def gates_of_def map_filter_def)

lemma locks_append: "count_if P (a @ b) = count_if P a + count_if P b" "gates_of (a @ b) = gates_of a @ gates_of b"
  by (simp_all add: count_if_def gates_of_def map_filter_def)

lemma request_locks: "locks_ok r s \<Longrightarrow> locks_ok r (request m s)"
  by (auto simp: request_def locks_ok_def locks_append new_threads split: prod.split)

lemma tick_locks: "locks_ok r (s\<lparr>sy_world := w\<rparr>) = locks_ok r s"
  by (simp add: locks_ok_def)

lemma run_step_locks: "run_step r s s' \<Longrightarrow> locks_ok r s \<Longrightarrow> locks_ok r s'"
  by (induction rule: run_step.induct) (simp_all add: step_at_locks request_locks tick_locks)

lemma start_locks: "locks_ok r (start w)"
  by (simp add: start_def locks_ok_def count_if_def gates_of_def map_filter_def)

lemma reachable_locks: "reachable r w s \<Longrightarrow> locks_ok r s"
  by (induction rule: reachable.induct) (blast intro: start_locks run_step_locks)+

section \<open>The gate belongs to the job\<close>

fun job_at :: "('w, 'g) phase \<Rightarrow> Job option" where
  "job_at (PRegister job) = Some job"
| "job_at (PMark job) = Some job"
| "job_at (PPrepare job) = Some job"
| "job_at (PService env job) = Some job"
| "job_at _ = None"

definition gate_ok :: "('w, 'g) thread \<Rightarrow> bool" where
  "gate_ok th = (\<forall>job. job_at (th_phase th) = Some job \<longrightarrow> th_gate th = Some (serviceGate (j_TenantID job) (j_Service job)))"

definition same_slot :: "Job \<Rightarrow> Job \<Rightarrow> bool" where
  "same_slot a b = (j_TenantID a = j_TenantID b \<and> j_Service a = j_Service b)"

text \<open>A postcondition that does not look at the world.\<close>

definition gives :: "('w, 'a) io \<Rightarrow> ('a \<Rightarrow> bool) \<Rightarrow> bool" where
  "gives m Q = (\<forall>w x. fst (m w) = Inr x \<longrightarrow> Q x)"

lemma givesD: "gives m Q \<Longrightarrow> m w = (Inr x, w') \<Longrightarrow> Q x"
  by (metis fst_conv gives_def)

lemma gives_rules:
  "Q x \<Longrightarrow> gives (ret x) Q"
  "(\<And>x. gives (k x) Q) \<Longrightarrow> gives (bindE m k) Q"
  "(\<And>x. gives (h x) Q) \<Longrightarrow> gives (attempt m h) Q"
  by (auto simp: gives_def ret_def bindE_def attempt_def split: prod.splits sum.splits)

lemma gives_or_fail:
  "(\<And>e. Q (Inl (job, e))) \<Longrightarrow> (\<And>x. gives (k x) Q) \<Longrightarrow> gives (or_fail job m k) Q"
  unfolding or_fail_def by (intro gives_rules) (auto simp: gives_rules split: sum.split)

lemma gives_and_then:
  assumes "gives m (\<lambda>x. case x of Inl f \<Rightarrow> Q (Inl f) | Inr a \<Rightarrow> gives (k a) Q)"
  shows "gives (and_then m k) Q"
  unfolding gives_def
proof (intro allI impI)
  fix w x
  assume x: "fst (and_then m k w) = Inr x"
  obtain y w' where y: "m w = (Inr y, w')"
    using x by (cases "m w"; cases "fst (m w)") (auto simp: and_then_def bindE_def)
  show "Q x"
    using givesD [OF assms y] x y by (cases y) (auto simp: and_then_def bindE_def ret_def gives_def)
qed

lemma gives_if: "(b \<Longrightarrow> gives m Q) \<Longrightarrow> (\<not> b \<Longrightarrow> gives n Q) \<Longrightarrow> gives (if b then m else n) Q"
  by simp

lemma gives_mono: "gives m P \<Longrightarrow> (\<And>x. P x \<Longrightarrow> Q x) \<Longrightarrow> gives m Q"
  by (auto simp: gives_def)

abbreviation slot_post :: "Job \<Rightarrow> ('a \<Rightarrow> Job) \<Rightarrow> Job \<times> goerr + 'a \<Rightarrow> bool" where
  "slot_post job f x \<equiv> (\<forall>a. x = Inr a \<longrightarrow> same_slot job (f a))"

lemma same_slot_progress [simp]:
  "same_slot a (job_progress n m b) = same_slot a b" "same_slot a (b\<lparr>j_JobType := t\<rparr>) = same_slot a b"
  "same_slot a a"
  by (simp_all add: same_slot_def job_progress_def)

lemma client_slot: "gives (runJob_client r t job) (slot_post job fst)"
  unfolding runJob_client_def Let_def
  by (auto intro!: gives_rules gives_or_fail gives_if split: option.split prod.split)

lemma catalog_slot: "gives (runJob_catalog r t prog pass job) (slot_post job fst)"
  unfolding runJob_catalog_def Let_def
  by (auto intro!: gives_rules gives_or_fail gives_if split: prod.split)

lemma gives_true: "gives m (\<lambda>_. True)"
  by (simp add: gives_def)

lemma gives_andI:
  assumes "gives m (slot_post job f)" "\<And>x. Q (Inl x)" "\<And>a. same_slot job (f a) \<Longrightarrow> gives (k a) Q"
  shows "gives (and_then m k) Q"
  by (rule gives_and_then, rule gives_mono [OF assms(1)]) (use assms in \<open>auto split: sum.split\<close>)

lemma same_slot_trans: "same_slot a b \<Longrightarrow> same_slot b c \<Longrightarrow> same_slot a c"
  by (simp add: same_slot_def)

lemma prepare_slot: "gives (runJob_prepare r job) (slot_post job fst)"
proof -
  have true: "gives (m :: ('x, Job \<times> goerr + 'a) io) (slot_post j (\<lambda>_. j))" for m :: "('x, Job \<times> goerr + 'a) io" and j
    by (simp add: gives_def)
  show ?thesis
    unfolding runJob_prepare_def
    by (rule gives_andI [where f = "\<lambda>_. job" and job = job], simp add: gives_def, simp,
        rule gives_andI [OF client_slot], simp, clarsimp,
        rule gives_andI [OF catalog_slot], simp, clarsimp,
        rule gives_andI [where f = "\<lambda>_. job" and job = job], simp add: gives_def, simp)
      (auto intro!: gives_rules dest: same_slot_trans)
qed

lemma mark_slot: "gives (runJob_mark job) (same_slot job)"
  unfolding runJob_mark_def Let_def by (auto intro!: gives_rules simp: same_slot_def)

lemma run_part_next:
  assumes "run_part s th stage m nx = Some (s', th')"
  obtains "th_phase th' = PRelease stage" | a w w' where "m w = (Inr a, w')" "th_phase th' = nx a"
  using assms by (auto simp: run_part_def split: prod.splits sum.splits)

lemma part_gate_ok:
  assumes "run_part s th stage m nx = Some (s', th')" "gives m Q"
    "\<And>a job. Q a \<Longrightarrow> job_at (nx a) = Some job \<Longrightarrow> th_gate th = Some (serviceGate (j_TenantID job) (j_Service job))"
  shows "gate_ok th'"
proof -
  have g: "th_gate th' = th_gate th" using run_part_locks [OF assms(1)] by simp
  from assms(1) show ?thesis
  proof (rule run_part_next)
    assume "th_phase th' = PRelease stage"
    then show ?thesis by (simp add: gate_ok_def)
  next
    fix a w w'
    assume "m w = (Inr a, w')" "th_phase th' = nx a"
    then show ?thesis using givesD [OF assms(2)] assms(3) g unfolding gate_ok_def by metis
  qed
qed

lemma job_at_after [simp]: "job_at (after_service env x) = None"
  by (auto simp: after_service_def split: option.split prod.split)

lemma step_gate_ok:
  assumes "step_thread r s th = Some (s', th')" "gate_ok th"
  shows "gate_ok th'"
proof (cases "th_phase th")
  case (PRelease stage)
  then show ?thesis
    using assms(1) by (auto simp: step_thread_def gate_ok_def release_locks_def split: option.splits)
next
  case (PMark job)
  then have "run_part s th None (runJob_mark job) PPrepare = Some (s', th')"
    "th_gate th = Some (serviceGate (j_TenantID job) (j_Service job))"
    using assms by (simp_all add: step_thread_def gate_ok_def)
  then show ?thesis by (elim part_gate_ok [OF _ mark_slot]) (auto simp: same_slot_def)
next
  case (PPrepare job)
  then have "run_part s th None (runJob_prepare r job)
      (\<lambda>x. case x of Inl (job1, e) \<Rightarrow> PFail job1 e | Inr (job1, env) \<Rightarrow> PService env job1) = Some (s', th')"
    "th_gate th = Some (serviceGate (j_TenantID job) (j_Service job))"
    using assms by (simp_all add: step_thread_def gate_ok_def)
  then show ?thesis by (elim part_gate_ok [OF _ prepare_slot]) (auto simp: same_slot_def split: sum.splits)
next
  case (PRegister job)
  then have "run_part s th None (runJob_register (th_job th)) (\<lambda>_. PMark job) = Some (s', th')"
    "th_gate th = Some (serviceGate (j_TenantID job) (j_Service job))"
    using assms by (simp_all add: step_thread_def gate_ok_def)
  then show ?thesis by (elim part_gate_ok [OF _ gives_true]) auto
next
  case PFull
  then show ?thesis using assms(1) by (auto simp: step_thread_def gate_ok_def split: if_splits)
next
  case PSem
  then show ?thesis using assms(1) by (auto simp: step_thread_def gate_ok_def split: if_splits)
next
  case (PGate job)
  then show ?thesis using assms(1) by (auto simp: step_thread_def gate_ok_def Let_def split: if_splits)
qed (use assms in \<open>auto simp: step_thread_def split: option.splits if_splits elim!: part_gate_ok [OF _ gives_true]\<close>)

lemma step_at_gate_ok:
  assumes "step_at r i s = Some s'" "list_all gate_ok (sy_threads s)"
  shows "list_all gate_ok (sy_threads s')"
  using assms(1) by (rule step_at_split) (use assms(2) in \<open>auto dest: step_gate_ok\<close>)

lemma request_all:
  "list_all P (sy_threads s) \<Longrightarrow> (\<And>j. P (new_thread j)) \<Longrightarrow> list_all P (sy_threads (request m s))"
  by (auto simp: request_def list_all_iff split: prod.split)

lemma run_step_gate_ok: "run_step r s s' \<Longrightarrow> list_all gate_ok (sy_threads s) \<Longrightarrow> list_all gate_ok (sy_threads s')"
proof (induction rule: run_step.induct)
  case (thread i s s')
  then show ?case by (rule step_at_gate_ok)
qed (simp_all add: request_all new_thread_def gate_ok_def)

lemma reachable_gate_ok: "reachable r w s \<Longrightarrow> list_all gate_ok (sy_threads s)"
  by (induction rule: reachable.induct) (simp add: start_def, blast intro: run_step_gate_ok)

lemma gates_distinct:
  assumes "locks_ok r s" "i < j" "j < length (sy_threads s)" "th_gate (sy_threads s ! i) = Some k"
  shows "th_gate (sy_threads s ! j) \<noteq> Some k"
proof
  assume j: "th_gate (sy_threads s ! j) = Some k"
  let ?ts = "sy_threads s"
  have "?ts = take i ?ts @ ?ts ! i # drop (Suc i) ?ts"
    using assms(2,3) by (intro id_take_nth_drop) simp
  moreover have "?ts ! j \<in> set (drop (Suc i) ?ts)"
    using assms(2,3) by (auto simp: in_set_conv_nth intro!: exI [of _ "j - Suc i"])
  then obtain us vs where "drop (Suc i) ?ts = us @ ?ts ! j # vs" by (meson split_list)
  ultimately have "gates_of ?ts = gates_of (take i ?ts @ ?ts ! i # us @ ?ts ! j # vs)" by simp
  then have "\<not> distinct (gates_of ?ts)" using assms(4) j locks_append(2) by auto
  moreover have "distinct (gates_of ?ts)"
    using assms(1) unfolding locks_ok_def by (metis mset_eq_imp_distinct_iff)
  ultimately show False by simp
qed

text \<open>
  C7: mutual exclusion of the jobs. In every state that the runner can reach, through any interleaving of
  requests, parts of jobs and failures, at most \<open>MaxConcurrent\<close> goroutines hold a slot, at most
  \<open>MaxConcurrentFull\<close> a slot for full syncs, and two goroutines that are at the call of a service work for
  different tenants or different services.
\<close>

theorem runner_mutual_exclusion:
  assumes "reachable r w s"
  shows "count_if th_sem (sy_threads s) \<le> rn_MaxConcurrent r
    \<and> count_if th_full (sy_threads s) \<le> rn_MaxConcurrentFull r
    \<and> (\<forall>i j env1 job1 env2 job2. i < j \<longrightarrow> j < length (sy_threads s)
         \<longrightarrow> th_phase (sy_threads s ! i) = PService env1 job1 \<longrightarrow> th_phase (sy_threads s ! j) = PService env2 job2
         \<longrightarrow> j_TenantID job1 \<noteq> j_TenantID job2 \<or> j_Service job1 \<noteq> j_Service job2)"
proof (intro conjI allI impI)
  have ok: "locks_ok r s" using assms by (rule reachable_locks)
  show "count_if th_sem (sy_threads s) \<le> rn_MaxConcurrent r" "count_if th_full (sy_threads s) \<le> rn_MaxConcurrentFull r"
    using ok by (simp_all add: locks_ok_def)
  fix i j env1 job1 env2 job2
  assume ij: "i < j" "j < length (sy_threads s)" and i: "th_phase (sy_threads s ! i) = PService env1 job1"
    and j: "th_phase (sy_threads s ! j) = PService env2 job2"
  have "gate_ok (sy_threads s ! i)" "gate_ok (sy_threads s ! j)"
    using reachable_gate_ok [OF assms] ij by (simp_all add: list_all_length)
  then show "j_TenantID job1 \<noteq> j_TenantID job2 \<or> j_Service job1 \<noteq> j_Service job2"
    using gates_distinct [OF ok ij] i j by (auto simp: gate_ok_def)
qed

section \<open>Every job ends\<close>

fun rank :: "('w, 'g) phase \<Rightarrow> nat" where
  "rank PLoad = 12" | "rank PFull = 11" | "rank PSem = 10" | "rank PReload = 9" | "rank (PGate job) = 8"
| "rank (PRegister job) = 7" | "rank (PMark job) = 6" | "rank (PPrepare job) = 5" | "rank (PService env job) = 4"
| "rank (PFail job e) = 3" | "rank (PExport env job res) = 3" | "rank (PCommit env job res) = 3"
| "rank (PFinish env job res snap) = 2" | "rank (PRelease stage) = 1" | "rank PEnd = 0"

lemma rank_after [simp]: "rank (after_service env x) \<le> 3"
  by (auto simp: after_service_def split: option.split prod.split)

lemma part_rank:
  assumes "run_part s th stage m nx = Some (s', th')" "\<And>a. rank (nx a) < n" "1 < n"
  shows "rank (th_phase th') < n"
  using run_part_locks(9) [OF assms(1)] assms(2,3) by auto

lemma step_rank:
  assumes "step_thread r s th = Some (s', th')"
  shows "rank (th_phase th') < rank (th_phase th)"
proof (cases "th_phase th")
  case (PService env job)
  then have "run_part s th (Some (re_stage env)) (runJob_service r env job) (after_service env) = Some (s', th')"
    using assms by (simp add: step_thread_def)
  then have "rank (th_phase th') < 4"
    by (rule part_rank) (use rank_after in \<open>auto intro: le_less_trans [OF rank_after]\<close>)
  then show ?thesis using PService by simp
qed (use assms in \<open>auto simp: step_thread_def Let_def release_locks_def split: option.splits if_splits sum.splits elim!: part_rank\<close>)

definition total_rank :: "('w, 'g) system \<Rightarrow> nat" where
  "total_rank s = sum_list (map (\<lambda>th. rank (th_phase th)) (sy_threads s))"

lemma step_at_rank: "step_at r i s = Some s' \<Longrightarrow> total_rank s' < total_rank s"
  by (erule step_at_split) (auto simp: total_rank_def dest: step_rank)

text \<open>A goroutine that cannot step has ended or waits for a slot or a gate.\<close>

lemma blocked:
  assumes "step_thread r s th = None"
  shows "th_phase th = PEnd \<or> th_phase th = PFull \<and> rn_MaxConcurrentFull r \<le> sy_full s
    \<or> th_phase th = PSem \<and> rn_MaxConcurrent r \<le> sy_sem s
    \<or> (\<exists>job. th_phase th = PGate job \<and> serviceGate (j_TenantID job) (j_Service job) \<in> set (sy_gates s))"
  using assms by (cases "th_phase th") (auto simp: step_thread_def Let_def run_part_total split: option.splits if_splits)

lemma count_if_pos: "0 < count_if P xs \<longleftrightarrow> (\<exists>x \<in> set xs. P x)"
  by (auto simp: count_if_def filter_empty_conv)

lemma no_gates:
  assumes "locks_ok r s" "\<And>th. th \<in> set (sy_threads s) \<Longrightarrow> th_gate th = None"
  shows "sy_gates s = []"
proof -
  have "gates_of (sy_threads s) = []"
    using assms(2) by (auto simp: gates_of_def map_filter_def filter_empty_conv)
  then show ?thesis using assms(1) by (simp add: locks_ok_def)
qed

text \<open>The order of the locks: full slot, slot, gate. A state in which nobody can move holds none of them.\<close>

lemma stuck_ended:
  assumes "locks_ok r s" "0 < rn_MaxConcurrent r" "0 < rn_MaxConcurrentFull r"
    "\<And>th. th \<in> set (sy_threads s) \<Longrightarrow> step_thread r s th = None" "th \<in> set (sy_threads s)"
  shows "th_phase th = PEnd"
proof -
  have ok: "thread_ok x" if "x \<in> set (sy_threads s)" for x
    using assms(1) that by (simp add: locks_ok_def list_all_iff)
  have early: "before_gate (th_phase x)" if "x \<in> set (sy_threads s)" for x
    using blocked [OF assms(4) [OF that]] by auto
  have "th_gate x = None" if "x \<in> set (sy_threads s)" for x
    using early [OF that] ok [OF that] by (simp add: thread_ok_def)
  then have gates: "sy_gates s = []" by (rule no_gates [OF assms(1)])
  have sem: "before_sem (th_phase x)" if "x \<in> set (sy_threads s)" for x
    using blocked [OF assms(4) [OF that]] gates by auto
  then have "count_if th_sem (sy_threads s) = 0"
    using ok by (metis count_if_pos gr0I thread_ok_def)
  then have "sy_sem s = 0" using assms(1) by (simp add: locks_ok_def)
  then have full: "before_full (th_phase x)" if "x \<in> set (sy_threads s)" for x
    using blocked [OF assms(4) [OF that]] gates assms(2) by auto
  then have "count_if th_full (sy_threads s) = 0"
    using ok by (metis count_if_pos gr0I thread_ok_def)
  then have "sy_full s = 0" using assms(1) by (simp add: locks_ok_def)
  then show ?thesis
    using blocked [OF assms(4) [OF assms(5)]] gates \<open>sy_sem s = 0\<close> assms(2,3) by auto
qed

text \<open>A schedule: the goroutines in the order in which they step.\<close>

fun run_schedule :: "('w, 'g) Runner \<Rightarrow> nat list \<Rightarrow> ('w, 'g) system \<Rightarrow> ('w, 'g) system option" where
  "run_schedule r [] s = Some s"
| "run_schedule r (i # is) s = (case step_at r i s of None \<Rightarrow> None | Some s' \<Rightarrow> run_schedule r is s')"

definition all_ended :: "('w, 'g) system \<Rightarrow> bool" where
  "all_ended s =
     ((\<forall>th \<in> set (sy_threads s). th_phase th = PEnd) \<and> sy_sem s = 0 \<and> sy_full s = 0 \<and> sy_gates s = [])"

lemma schedule_rank: "run_schedule r is s = Some s' \<Longrightarrow> length is + total_rank s' \<le> total_rank s"
  by (induction "is" arbitrary: s) (fastforce dest: step_at_rank split: option.splits)+

lemma schedule_locks: "run_schedule r is s = Some s' \<Longrightarrow> locks_ok r s \<Longrightarrow> locks_ok r s'"
  by (induction "is" arbitrary: s) (auto dest: step_at_locks split: option.splits)

lemma rank_bound: "rank p \<le> 12"
  by (cases p) auto

lemma total_rank_bound: "total_rank s \<le> 12 * length (sy_threads s)"
proof -
  have "sum_list (map (\<lambda>th. rank (th_phase th)) ts) \<le> 12 * length ts" for ts :: "('a, 'b) thread list"
    by (induction ts) (auto intro: add_mono rank_bound)
  then show ?thesis by (simp add: total_rank_def)
qed

lemma ended_free:
  assumes "locks_ok r s" "\<forall>th \<in> set (sy_threads s). th_phase th = PEnd"
  shows "all_ended s"
proof -
  have free: "\<not> th_sem th \<and> \<not> th_full th \<and> th_gate th = None" if "th \<in> set (sy_threads s)" for th
    using assms that by (auto simp: locks_ok_def list_all_iff thread_ok_def)
  then have "count_if th_sem (sy_threads s) = 0" "count_if th_full (sy_threads s) = 0"
    by (auto simp: count_if_def filter_empty_conv)
  moreover have "sy_gates s = []" using free no_gates [OF assms(1)] by blast
  ultimately show ?thesis using assms by (simp add: all_ended_def locks_ok_def)
qed


end
