(* ===== verification/Runner_Jobs.thy ===== *)
theory Runner_Jobs
  imports Runner_Locks
begin

text \<open>
  The job table under the runner: every step of every goroutine and every request keeps the unique active
  job of a tenant and service, the known states, and the time of a finished job. The services, the
  notifier and the Graph client enter as an interface (\<open>runner_env\<close>).
\<close>

section \<open>Operations that leave the jobs alone\<close>

definition jobs_only :: "('w cat_world_scheme \<Rightarrow> bool) \<Rightarrow> bool" where
  "jobs_only P =
     (\<forall>w. (\<forall>x. P (w\<lparr>faults := x\<rparr>) = P w) \<and> (\<forall>x. P (w\<lparr>uuid_next := x\<rparr>) = P w) \<and> (\<forall>x. P (w\<lparr>files := x\<rparr>) = P w)
        \<and> (\<forall>x. P (w\<lparr>rand_pos := x\<rparr>) = P w) \<and> (\<forall>x. P (w\<lparr>tenants := x\<rparr>) = P w) \<and> (\<forall>x. P (w\<lparr>job_logs := x\<rparr>) = P w)
        \<and> (\<forall>x. P (w\<lparr>delta_tokens := x\<rparr>) = P w) \<and> (\<forall>x. P (w\<lparr>catalog_items := x\<rparr>) = P w)
        \<and> (\<forall>x. P (w\<lparr>catalog_snapshots := x\<rparr>) = P w) \<and> (\<forall>x. P (w\<lparr>catalog_changes := x\<rparr>) = P w)
        \<and> (\<forall>x. P (w\<lparr>pending := x\<rparr>) = P w) \<and> (\<forall>x. P (w\<lparr>seen := x\<rparr>) = P w))"

lemma jobs_only_free:
  assumes "jobs_only P"
  shows "fault_free P" "disk_free P" "log_free P"
  using assms by (auto simp: jobs_only_def fault_free_def disk_free_def log_free_def)

lemma jobs_only_basics:
  assumes "jobs_only P"
  shows "keeps P access" "keeps P (query f)" "keeps P (query_row g)" "keeps P uuid_NewString" "keeps P (os_MkdirAll p)"
    "keeps P (os_WriteFile p d)" "keeps P (os_Rename p q)" "keeps P (os_Remove p)" "keeps P (os_ReadFile p)"
    "keeps P (rand_Read n)" "keeps P (os_RemoveAll p)"
  by (rule keeps_access keeps_query keeps_query_row keeps_disk jobs_only_free [OF assms])+
    (use assms in \<open>auto intro!: keeps_uuid keeps_access keeps_query keeps_query_row keeps_disk jobs_only_free simp: jobs_only_def\<close>)

lemma jobs_only_blob:
  assumes "jobs_only P"
  shows "keeps P (blob_Put b d)" "keeps P (blob_Delete b h)" "keeps P (blobstore_New root pw)" "keeps P (ListHashes b)"
proof -
  note df = jobs_only_free(2) [OF assms]
  show "keeps P (blob_Put b d)" "keeps P (blob_Delete b h)" by (rule keeps_blob_ops [OF df])+
  show "keeps P (blobstore_New root pw)"
    unfolding blobstore_New_def Let_def by (auto intro!: keeps_rules jobs_only_basics assms)
  show "keeps P (ListHashes b)" by (rule keeps_ListHashes)
qed

lemma jobs_only_exec:
  assumes "jobs_only P" "\<And>w. P w \<Longrightarrow> P (f w)"
  shows "keeps P (exec f)" "keeps P (sql_guarded c what f)"
  using assms by (auto intro!: keeps_exec keeps_guarded jobs_only_free)

lemma jobs_only_rows:
  assumes "jobs_only P"
  shows "keeps P (getItem s sv i)" "keeps P (upsertItem s it)" "keeps P (markDeleted s sv i)" "keeps P (rename_row s sv a i)"
    "keeps P (notePending s op it)"
  unfolding getItem_def upsertItem_def markDeleted_def rename_row_def notePending_def
  using assms by (auto intro!: keeps_rules jobs_only_basics jobs_only_exec keeps_modify simp: jobs_only_def)

lemma jobs_only_rematch_loop: "jobs_only P \<Longrightarrow> keeps P (rematch_loop s it alts)"
  by (induction alts)
    (auto intro!: keeps_rules jobs_only_rows jobs_only_exec simp: Let_def jobs_only_def split: sum.split)

lemma jobs_only_items:
  assumes "jobs_only P"
  shows "keeps P (rematchID s it)" "keeps P (Put s it d)" "keeps P (Keep s it)" "keeps P (Delete s sv i)"
    "keeps P (StartReconcile sv)" "keeps P (FinishReconcile s sv)" "keeps P (LiveBlob s sv i)"
proof -
  show m: "keeps P (rematchID s it)" for it
    unfolding rematchID_def
    by (auto intro!: keeps_rules jobs_only_rows jobs_only_rematch_loop assms split: sum.split)
  show "keeps P (Put s it d)"
    unfolding Put_def Let_def by (auto intro!: keeps_rules m jobs_only_rows jobs_only_blob assms)
  show "keeps P (Keep s it)"
    unfolding Keep_def Let_def by (auto intro!: keeps_rules jobs_only_rows assms)
  show d: "keeps P (Delete s sv i)" for i
    unfolding Delete_def Let_def by (auto intro!: keeps_rules m jobs_only_rows assms)
  show "keeps P (StartReconcile sv)"
    unfolding StartReconcile_def using assms by (auto intro!: keeps_modify simp: jobs_only_def)
  show "keeps P (FinishReconcile s sv)"
    unfolding FinishReconcile_def Let_def by (auto intro!: keeps_rules d jobs_only_basics assms split: option.split)
  show "keeps P (LiveBlob s sv i)"
    unfolding LiveBlob_def by (auto intro!: keeps_rules jobs_only_rows assms split: sum.split)
qed

lemma jobs_only_commit:
  assumes "jobs_only P"
  shows "keeps P (CommitSnapshot c s sv i)"
proof -
  have ch: "keeps P (insertChangeExec s g ch)" for g ch
    unfolding insertChangeExec_def using assms by (auto intro!: keeps_rules jobs_only_basics jobs_only_exec simp: jobs_only_def)
  have chs: "keeps P (insertChanges s g chs)" for g chs
    unfolding insertChanges_def using assms
    by (auto intro!: keeps_rules ch jobs_only_basics keeps_modify simp: jobs_only_def split: sum.split)
  have man: "keeps P (writeManifest c s sv g t)" for g t
    unfolding writeManifest_def encryptBytes_def Let_def by (auto intro!: keeps_rules jobs_only_basics assms)
  have take: "keeps P (take_pending sv)"
    unfolding take_pending_def using assms by (auto intro!: keeps_rules keeps_modify simp: jobs_only_def)
  have ins: "keeps P (insert_snapshot sn)" for sn
    unfolding insert_snapshot_def using assms by (auto intro!: jobs_only_exec simp: jobs_only_def)
  show ?thesis
    unfolding CommitSnapshot_def latestSnapshot_def nextGeneration_def liveStats_def Let_def
    by (auto intro!: keeps_rules take ins chs man jobs_only_basics assms)
qed

lemma jobs_only_retention:
  assumes "jobs_only P"
  shows "keeps P (ApplySmartRetention s policy)"
proof -
  have del: "keeps P (deleteSnapshot s sn)" for sn
    unfolding deleteSnapshot_def deleteManifest_def using assms
    by (auto intro!: keeps_rules jobs_only_exec jobs_only_basics simp: jobs_only_def split: sum.split)
  have scan: "keeps P (scan_unchecked xs)" for xs :: "'x list"
    by (induction xs) (auto intro!: keeps_rules jobs_only_basics assms split: sum.split)
  have gc: "keeps P (GCBlobs s)"
    unfolding GCBlobs_def by (auto intro!: keeps_rules scan jobs_only_basics jobs_only_blob assms)
  show ?thesis
    unfolding ApplySmartRetention_def ListSnapshots_def Let_def
    by (auto intro!: keeps_rules del gc jobs_only_basics assms split: sum.split)
qed

lemma jobs_only_import:
  assumes "jobs_only P"
  shows "keeps P (EnsureMigrated c s sv i)" "keeps P (RemoveLegacyDirs root)"
proof -
  have imp: "keeps P (import_files s v base paths n)" for v base paths n
    by (induction paths arbitrary: n)
      (auto intro!: keeps_rules jobs_only_basics jobs_only_items assms simp: Let_def split: sum.split)
  have service: "keeps P (importSyncService s v)" for v
    unfolding importSyncService_def Let_def by (auto intro!: keeps_rules imp jobs_only_basics assms split: sum.split)
  have services: "keeps P (import_services c s a b svcs x)" for a b svcs x
    by (induction svcs arbitrary: x) (auto intro!: keeps_rules service jobs_only_commit assms split: sum.split)
  show legacy: "keeps P (RemoveLegacyDirs root)" for root
    unfolding RemoveLegacyDirs_def by (auto intro!: keeps_rules jobs_only_basics assms split: sum.split)
  show "keeps P (EnsureMigrated c s sv i)"
    unfolding EnsureMigrated_def HasSnapshots_def HasSnapshotsFor_def countSnapshots_def Let_def
    by (auto intro!: keeps_rules services legacy jobs_only_basics assms split: sum.split)
qed

section \<open>The invariant of the job table\<close>

definition job_states :: "string list" where
  "job_states = [''queued'', ''running'', ''success'', ''warning'', ''error'', ''cancelled'']"

definition job_wf :: "Job \<Rightarrow> bool" where
  "job_wf j = (j_Status j \<in> set job_states \<and> (\<not> active j \<longrightarrow> j_FinishedAt j \<noteq> zero_time))"

definition run_inv :: "'w db_world_scheme \<Rightarrow> bool" where
  "run_inv w = (jobs_ok (jobs w) \<and> 0 < clock w \<and> (\<forall>j \<in> set (jobs w). job_wf j))"

lemma run_inv_cong: "jobs w' = jobs w \<Longrightarrow> clock w' = clock w \<Longrightarrow> run_inv w' = run_inv w"
  by (simp add: run_inv_def)

lemma run_inv_jobs_only: "jobs_only run_inv"
  by (simp add: jobs_only_def run_inv_def)

lemma inv_free: "fault_free run_inv" "disk_free run_inv" "log_free run_inv"
  by (simp_all add: fault_free_def disk_free_def log_free_def run_inv_def)

lemma inv_uuid: "keeps run_inv uuid_NewString"
  by (rule keeps_uuid) (simp add: run_inv_def)

lemma keeps_run_modify: "(\<And>w. jobs (f w) = jobs w \<and> clock (f w) = clock w) \<Longrightarrow> keeps run_inv (modify f)"
  by (auto intro!: keeps_modify simp: run_inv_def)

lemma job_wf_update: "job_wf j \<Longrightarrow> job_wf (job_update j k)"
  by (simp add: job_wf_def job_update_def active_def)

lemma inv_UpdateJob: "job_wf j \<Longrightarrow> keeps run_inv (UpdateJob j)"
  unfolding UpdateJob_def
  by (rule keeps_guarded) (auto simp: inv_free run_inv_def job_wf_update intro!: jobs_ok_update)

lemma inv_job_map:
  assumes "run_inv w" "\<And>j. j_ID (f j) = j_ID j \<and> j_TenantID (f j) = j_TenantID j \<and> j_Service (f j) = j_Service j
      \<and> j_Status (f j) = j_Status j \<and> j_FinishedAt (f j) = j_FinishedAt j"
  shows "run_inv (w\<lparr>jobs := map f (jobs w)\<rparr>)"
proof -
  have "active (f j) = active j" "job_wf (f j) = job_wf j" for j using assms(2) by (simp_all add: active_def job_wf_def)
  then show ?thesis using assms by (auto simp: run_inv_def intro!: jobs_ok_map)
qed

lemma inv_UpdateJobProgress: "keeps run_inv (UpdateJobProgress j)"
  unfolding UpdateJobProgress_def by (rule keeps_exec) (auto simp: inv_free intro!: inv_job_map)

lemma inv_CreateJob:
  assumes "job_wf j"
  shows "keeps run_inv (CreateJob j)"
proof -
  have wf: "job_wf (j\<lparr>j_ID := i, j_CreatedAt := t, j_ProgressPct := 0, j_ProgressMessage := []\<rparr>)" for i t
    using assms by (simp add: job_wf_def active_def)
  show ?thesis
    unfolding CreateJob_def Let_def
    by (intro keeps_rules keeps_guarded inv_uuid inv_free)
      (auto simp: run_inv_def wf active_clash_progress intro!: jobs_ok_snoc)
qed

lemma inv_FailOrphanedJobs: "keeps run_inv (FailOrphanedJobs reason)"
proof (rule keeps_wp)
  fix w :: "'a db_world_scheme"
  assume inv: "run_inv w"
  let ?f = "\<lambda>r. if active r then r\<lparr>j_Status := ''error'', j_ErrorMessage := reason, j_ProgressMessage := reason,
                j_FinishedAt := clock w\<rparr> else r"
  have "jobs_ok (map ?f (jobs w))" using inv by (auto simp: run_inv_def active_def intro!: jobs_ok_map split: if_splits)
  moreover have "job_wf (?f j)" if "j \<in> set (jobs w)" for j
    using inv that by (auto simp: run_inv_def job_wf_def job_states_def active_def)
  then have "\<forall>j \<in> set (map ?f (jobs w)). job_wf j" by (metis (no_types, lifting) imageE set_map)
  ultimately have "run_inv (w\<lparr>faults := fs, jobs := map ?f (jobs w)\<rparr>)" for fs
    using inv by (simp add: run_inv_def)
  then show "wp (FailOrphanedJobs reason) (\<lambda>_. run_inv) w"
    using inv by (auto simp: FailOrphanedJobs_def wp_simps run_inv_def intro!: wp_access)
qed

lemma jobs_only_logs:
  "keeps run_inv (InsertJobLog l)" "keeps run_inv (InsertJobLogs i ls)" "keeps run_inv (Emit p level msg)"
  "keeps run_inv (res_Info msg res)" "keeps run_inv (persistLogs i lines)"
  unfolding persistLogs_def
  by (rule keeps_InsertJobLog keeps_InsertJobLogs keeps_Emit keeps_reports inv_free)+

lemma keeps_on_ctx [keeps_rules]: "keeps P m \<Longrightarrow> keeps P (on_ctx i m)"
  unfolding on_ctx_def by (auto intro!: keeps_rules)

lemma keeps_or_fail [keeps_rules]: "keeps P m \<Longrightarrow> (\<And>x. keeps P (k x)) \<Longrightarrow> keeps P (or_fail job m k)"
  unfolding or_fail_def by (auto intro!: keeps_rules split: sum.split)

lemma keeps_GetJob: "keeps run_inv (GetJob i)" "keeps run_inv (GetTenant i)"
  unfolding GetJob_def GetTenant_def by (rule keeps_query_row inv_free)+

lemma inv_small [keeps_rules]:
  "keeps run_inv (wasCancelled i)" "keeps run_inv (runJob_load i)"
  unfolding wasCancelled_def runJob_load_def by (auto intro!: keeps_rules keeps_GetJob split: sum.split)

lemma inv_cleanStagingJob [keeps_rules]: "keeps run_inv (cleanStagingJob r i)"
  unfolding cleanStagingJob_def by (auto intro!: keeps_rules jobs_only_basics run_inv_jobs_only split: sum.split)

lemma inv_BindStorePath: "keeps run_inv (BindStorePath m t)"
proof -
  have "keeps run_inv (UpdateTenant t')" for t'
    unfolding UpdateTenant_def Let_def
    by (intro keeps_rules keeps_guarded inv_free) (simp add: run_inv_def)
  then show ?thesis
    unfolding BindStorePath_def Let_def by (auto intro!: keeps_rules keeps_disk inv_free split: sum.split)
qed

lemma inv_bindTenantStore: "keeps run_inv (bindTenantStore r t)"
  unfolding bindTenantStore_def by (auto intro!: keeps_rules inv_BindStorePath)

lemma inv_tokens: "keeps run_inv (DeleteDeltaTokens t s)"
  unfolding DeleteDeltaTokens_def by (auto intro!: keeps_rules keeps_exec inv_free simp: run_inv_def)

lemma job_wf_active: "active j \<Longrightarrow> job_wf j"
  by (auto simp: job_wf_def active_def job_states_def)

text \<open>Under the invariant the clock is positive, and so is the time that a part reads from it.\<close>

lemma inv_now: "(\<And>now. zero_time < now \<Longrightarrow> keeps run_inv (k now)) \<Longrightarrow> keeps run_inv (bindE time_Now k)"
  by (auto simp: keeps_def io_simps run_inv_def)

lemma inv_call_cancel [keeps_rules]: "keeps run_inv (call_cancel i)"
  unfolding call_cancel_def by (auto intro!: keeps_run_modify)

lemma inv_register [keeps_rules]: "keeps run_inv (runJob_register i)"
  unfolding runJob_register_def by (auto intro!: keeps_run_modify)

lemma inv_Cancel [keeps_rules]: "keeps run_inv (Cancel r i)"
  unfolding Cancel_def
  by (auto intro!: keeps_rules inv_now inv_UpdateJob jobs_only_logs keeps_GetJob simp: job_wf_def job_states_def)

lemma inv_finishCancelled [keeps_rules]: "keeps run_inv (finishCancelled r job reason)"
  unfolding finishCancelled_def
  by (auto intro!: keeps_rules inv_now inv_UpdateJob jobs_only_logs keeps_GetJob simp: job_wf_def job_states_def)

lemma inv_mark [keeps_rules]: "keeps run_inv (runJob_mark job)"
  unfolding runJob_mark_def Let_def
  by (auto intro!: keeps_rules inv_UpdateJob job_wf_active simp: active_def)

lemma inv_enqueueLocked [keeps_rules]: "keeps run_inv (enqueueLocked r t sv sch ty params pe)"
proof -
  have empty: "keeps run_inv (emptyStoreState r t sv)"
    unfolding emptyStoreState_def EmptyLocalData_def countSnapshots_def countLiveItems_def
    by (auto intro!: keeps_rules keeps_GetJob inv_bindTenantStore keeps_query inv_free)
  have "keeps run_inv (promote_empty r t sv ty pe)"
    unfolding promote_empty_def enabledGraphServices_def ListSchedules_def Let_def
    by (auto intro!: keeps_rules empty keeps_query inv_free)
  moreover have "job_wf (queued_job a b c d e)" for a b c d e
    by (rule job_wf_active) (simp add: queued_job_def active_def)
  ultimately show ?thesis
    unfolding enqueueLocked_def CountActiveJobs_def CountActiveFullJobs_def
    by (auto intro!: keeps_rules keeps_run_modify inv_CreateJob inv_tokens keeps_query inv_free split: sum.split)
qed

lemma inv_EnqueueParams [keeps_rules]: "keeps run_inv (EnqueueParams r t sv sch ty params)"
proof -
  have "keeps run_inv (enqueue_extras r t svcs)" for svcs
    by (induction svcs) (auto intro!: keeps_rules)
  then show ?thesis unfolding EnqueueParams_def by (auto intro!: keeps_rules)
qed

lemma inv_lock: "keeps run_inv (tryServiceFileLock i p sv)"
  unfolding tryServiceFileLock_def Let_def
  by (auto intro!: keeps_rules keeps_run_modify keeps_disk keeps_access inv_free split: sum.split)

lemma keeps_and_then:
  assumes "keeps P m" "gives m (\<lambda>x. \<forall>a. x = Inr a \<longrightarrow> S a)" "\<And>a. S a \<Longrightarrow> keeps P (k a)"
  shows "keeps P (and_then m k)"
proof (rule keepsI)
  fix w
  assume w: "P w"
  obtain x w1 where m: "m w = (x, w1)" by fastforce
  have w1: "P w1" using keepsD [OF assms(1) w m] .
  show "P (snd (and_then m k w))"
  proof (cases x)
    case (Inr y)
    show ?thesis
    proof (cases y)
      case (Inr a)
      have "S a" using givesD [OF assms(2), of w y w1] m \<open>x = Inr y\<close> Inr by simp
      then show ?thesis using assms(3) w1 m \<open>x = Inr y\<close> Inr by (simp add: and_then_def bindE_def keeps_def)
    qed (use m w1 \<open>x = Inr y\<close> in \<open>simp add: and_then_def bindE_def ret_def\<close>)
  qed (use m w1 in \<open>simp add: and_then_def bindE_def\<close>)
qed

abbreviation status_post :: "Job \<Rightarrow> ('a \<Rightarrow> Job) \<Rightarrow> Job \<times> goerr + 'a \<Rightarrow> bool" where
  "status_post job f x \<equiv> (\<forall>a. x = Inr a \<longrightarrow> j_Status (f a) = j_Status job)"

lemma client_status: "gives (runJob_client r t job) (status_post job fst)"
  unfolding runJob_client_def Let_def
  by (auto intro!: gives_rules gives_or_fail gives_if simp: job_progress_def split: option.split prod.split)

section \<open>The interface of the runner\<close>

text \<open>
  What the runner expects of the services, the notifier and the Graph client: whatever they do and however
  they end, they keep the invariant of the job table. They may write log lines, progress, tokens and
  catalog rows.
\<close>

locale runner_env =
  fixes r :: "('w, 'g) Runner" and client_ok :: "'g \<Rightarrow> bool"
  assumes service_keeps: "(name, f) \<in> set (rn_Registry r) \<Longrightarrow> (\<And>c. gc = Some c \<Longrightarrow> client_ok c) \<Longrightarrow> run_inv w
      \<Longrightarrow> run_inv (snd (f gc t job d cat p w))"
    and notifier_keeps: "rn_Notifier r = Some send \<Longrightarrow> keeps run_inv (send ev)"
    and graph_keeps: "keeps run_inv (rn_graph r a b c)"
    and graph_gives: "gives (rn_graph r a b c) client_ok"
begin

lemma inv_notify: "keeps run_inv (notify r ev)"
  unfolding notify_def using notifier_keeps by (auto intro!: keeps_rules split: option.split)

lemma inv_KillStale: "keeps run_inv (KillStale r i reason)"
  unfolding KillStale_def
  by (auto intro!: keeps_rules inv_now inv_UpdateJob jobs_only_logs keeps_GetJob inv_notify simp: job_wf_def job_states_def)

lemma inv_fail: "keeps run_inv (fail r job e)"
  unfolding fail_def
  by (auto intro!: keeps_rules inv_now inv_UpdateJob jobs_only_logs inv_notify simp: job_wf_def job_states_def)

lemma inv_tenant: "keeps run_inv (runJob_tenant r job)"
  unfolding runJob_tenant_def by (auto intro!: keeps_rules keeps_GetJob inv_bindTenantStore inv_lock)

lemma inv_client: "keeps run_inv (runJob_client r t job)"
  unfolding runJob_client_def Let_def
  by (auto intro!: keeps_rules jobs_only_logs inv_UpdateJobProgress graph_keeps split: option.split)

lemma inv_catalog:
  assumes "j_Status job = ''running''"
  shows "keeps run_inv (runJob_catalog r t prog pass job)"
proof -
  have "keeps run_inv (catalog_Open a b c)" for a b c
    unfolding catalog_Open_def
    by (auto intro!: keeps_rules jobs_only_basics jobs_only_blob keeps_modify run_inv_jobs_only simp: run_inv_def)
  moreover have "job_wf (job\<lparr>j_JobType := ''full''\<rparr>)"
    using assms by (intro job_wf_active) (simp add: active_def)
  ultimately show ?thesis
    unfolding runJob_catalog_def Let_def
    by (auto intro!: keeps_rules jobs_only_import run_inv_jobs_only jobs_only_logs inv_tokens inv_UpdateJob)
qed

lemma inv_stage: "keeps run_inv (runJob_stage r job)"
  unfolding runJob_stage_def by (auto intro!: keeps_rules jobs_only_basics run_inv_jobs_only)

lemma inv_prepare:
  assumes "j_Status job = ''running''"
  shows "keeps run_inv (runJob_prepare r job)"
  unfolding runJob_prepare_def
  apply (rule keeps_and_then [OF inv_tenant, where S = "\<lambda>_. True"], simp add: gives_def)
  apply (rule keeps_and_then [OF inv_client client_status], clarsimp)
  apply (rule keeps_and_then [where S = "\<lambda>_. True"], rule inv_catalog, simp add: assms, simp add: gives_def, clarsimp)
  apply (rule keeps_and_then [OF inv_stage, where S = "\<lambda>_. True"], simp add: gives_def, rule keeps_ret)
  done

lemma inv_service:
  assumes "re_svc env \<in> snd ` set (rn_Registry r)" "\<And>c. re_gc env = Some c \<Longrightarrow> client_ok c"
  shows "keeps run_inv (runJob_service r env job)"
proof -
  obtain name where name: "(name, re_svc env) \<in> set (rn_Registry r)" using assms(1) by auto
  have "keeps run_inv (\<lambda>w. apfst Inr (re_svc env (re_gc env) t j d cat p w))" for t j d cat p
    using service_keeps [OF name assms(2)] by (simp add: keeps_def)
  then show ?thesis
    unfolding runJob_service_def Let_def
    by (auto intro!: keeps_rules jobs_only_logs inv_UpdateJobProgress inv_fail split: sum.split)
qed

lemma close_wf: "zero_time < j_FinishedAt job \<Longrightarrow> job_wf (close_status res m job)"
  by (auto simp: close_status_def job_wf_def job_states_def)

lemma inv_export: "keeps run_inv (runJob_export r env job res)"
proof -
  have "keeps run_inv (ApplyPSTExportRetention created p n)" for created p n
    unfolding ApplyPSTExportRetention_def Let_def by (auto intro!: keeps_rules keeps_ListPSTExports keeps_disk inv_free)
  then show ?thesis
    unfolding runJob_export_def Let_def
    by (auto intro!: keeps_rules inv_now inv_UpdateJob jobs_only_logs close_wf simp: job_progress_def)
qed

lemma inv_commit: "keeps run_inv (runJob_commit r env job res)"
  unfolding runJob_commit_def Let_def
  by (auto intro!: keeps_rules jobs_only_logs inv_UpdateJobProgress inv_fail jobs_only_commit jobs_only_import
      run_inv_jobs_only split: sum.split)

lemma inv_skipped: "keeps run_inv (runJob_skipped r env job res snap)"
  unfolding runJob_skipped_def Let_def
  by (auto intro!: keeps_rules inv_now inv_UpdateJob jobs_only_logs close_wf simp: job_progress_def)

lemma inv_done: "keeps run_inv (runJob_done r env job res snap)"
  unfolding runJob_done_def Let_def
  by (auto intro!: keeps_rules inv_now inv_UpdateJob jobs_only_logs close_wf inv_notify jobs_only_retention
      run_inv_jobs_only simp: job_progress_def split: sum.split)

lemma inv_finish: "keeps run_inv (runJob_finish r env job res snap)"
  unfolding runJob_finish_def by (auto intro: inv_skipped inv_done split: option.split)

text \<open>What the phases carry: a job that is marked as running, and a service of the registry.\<close>

fun phase_wf :: "('w, 'g) phase \<Rightarrow> bool" where
  "phase_wf (PPrepare job) = (j_Status job = ''running'')"
| "phase_wf (PService env job) =
     (re_svc env \<in> snd ` set (rn_Registry r) \<and> (\<forall>c. re_gc env = Some c \<longrightarrow> client_ok c))"
| "phase_wf _ = True"

lemma mark_running: "gives (runJob_mark job) (\<lambda>j. j_Status j = ''running'')"
  unfolding runJob_mark_def Let_def by (auto intro!: gives_rules)

abbreviation client_post :: "'x \<times> ('w, 'g) ServiceBackup \<times> 'y \<times> 'g option \<times> 'z \<Rightarrow> bool" where
  "client_post a \<equiv> (case a of (_, svc, _, gc, _) \<Rightarrow> svc \<in> snd ` set (rn_Registry r) \<and> (\<forall>c. gc = Some c \<longrightarrow> client_ok c))"

lemma gives_or_fail_dep:
  assumes "gives m P" "\<And>e. Q (Inl (job, e))" "\<And>x. P x \<Longrightarrow> gives (k x) Q"
  shows "gives (or_fail job m k) Q"
  unfolding gives_def
proof (intro allI impI)
  fix w y
  assume y: "fst (or_fail job m k w) = Inr y"
  obtain x w' where m: "m w = (x, w')" by fastforce
  show "Q y"
  proof (cases x)
    case (Inr z)
    then have "gives (k z) Q" using assms(3) givesD [OF assms(1)] m by blast
    then show ?thesis using y m Inr by (simp add: or_fail_def attempt_def gives_def)
  qed (use y m assms(2) in \<open>auto simp: or_fail_def attempt_def ret_def\<close>)
qed

lemma client_service: "gives (runJob_client r t job) (\<lambda>x. \<forall>a. x = Inr a \<longrightarrow> client_post a)"
  unfolding runJob_client_def Let_def Registry_Get_def
  by (auto intro!: gives_rules gives_or_fail gives_or_fail_dep [OF graph_gives] gives_if dest!: map_of_SomeD
      intro: rev_image_eqI split: option.split prod.split)

lemma prepare_service:
  "gives (runJob_prepare r job) (\<lambda>x. \<forall>a. x = Inr a \<longrightarrow> phase_wf (PService (snd a) job))"
  unfolding runJob_prepare_def
  apply (rule gives_and_then, rule gives_mono [OF gives_true], clarsimp split: sum.split)
  apply (rule gives_and_then, rule gives_mono [OF client_service], clarsimp split: sum.split)
  apply (rule gives_and_then, rule gives_mono [OF gives_true], clarsimp split: sum.split)
  apply (rule gives_and_then, rule gives_mono [OF gives_true], auto intro!: gives_rules intro: rev_image_eqI split: sum.split)
  done

definition sys_inv :: "('w, 'g) system \<Rightarrow> bool" where
  "sys_inv s = (run_inv (sy_world s) \<and> list_all (\<lambda>th. phase_wf (th_phase th)) (sy_threads s))"

lemma part_inv:
  assumes "run_part s th stage m nx = Some (s', th')" "keeps run_inv m" "gives m Q" "\<And>a. Q a \<Longrightarrow> phase_wf (nx a)"
    "run_inv (sy_world s)"
  shows "run_inv (sy_world s') \<and> phase_wf (th_phase th')"
proof -
  obtain x w' where m: "m ((sy_world s)\<lparr>pending := th_pending th, seen := th_seen th\<rparr>) = (x, w')" by fastforce
  have "run_inv ((sy_world s)\<lparr>pending := th_pending th, seen := th_seen th\<rparr>)"
    using assms(5) by (simp add: run_inv_def)
  then have "run_inv w'" using keepsD [OF assms(2) _ m] by blast
  moreover have "Q a" if "x = Inr a" for a using givesD [OF assms(3)] m that by blast
  ultimately show ?thesis
    using assms(1,4) m by (auto simp: run_part_def run_inv_def split: sum.splits)
qed

lemma release_inv: "keeps run_inv (release_world i stage)"
  unfolding release_world_def
  by (auto intro!: keeps_rules keeps_run_modify keeps_disk inv_free simp: release_ctx_def split: option.split)

lemma step_inv:
  assumes "step_thread r s th = Some (s', th')" "run_inv (sy_world s)" "phase_wf (th_phase th)"
  shows "run_inv (sy_world s') \<and> phase_wf (th_phase th')"
proof -
  note part = part_inv [OF _ _ gives_true _ assms(2)]
  show ?thesis
  proof (cases "th_phase th")
    case (PRelease stage)
    with assms(1) have "step_phase r (PRelease stage) s th = Some (s', th')" by (simp add: step_thread_def)
    then show ?thesis
      by (rule release_step) (use part [OF _ release_inv] in \<open>force simp: release_locks_def\<close>)
  next
    case (PMark job)
    then have "run_part s th None (runJob_mark job) PPrepare = Some (s', th')"
      using assms(1) by (simp add: step_thread_def)
    then show ?thesis by (rule part_inv [OF _ inv_mark mark_running _ assms(2)]) simp
  next
    case (PPrepare job)
    then have "run_part s th None (runJob_prepare r job)
        (\<lambda>x. case x of Inl (job1, e) \<Rightarrow> PFail job1 e | Inr (job1, env) \<Rightarrow> PService env job1) = Some (s', th')"
      "j_Status job = ''running''"
      using assms by (simp_all add: step_thread_def)
    then show ?thesis
      by (elim part_inv [OF _ inv_prepare prepare_service _ assms(2)]) (auto split: sum.splits)
  next
    case (PService env job)
    then have "run_part s th (Some (re_stage env)) (runJob_service r env job) (after_service env) = Some (s', th')"
      "re_svc env \<in> snd ` set (rn_Registry r)" "\<forall>c. re_gc env = Some c \<longrightarrow> client_ok c"
      using assms by (simp_all add: step_thread_def)
    then show ?thesis
      by (elim part [OF _ inv_service]) (auto simp: after_service_def split: option.split prod.split)
  qed (use assms in \<open>auto simp: step_thread_def Let_def elim!: part split: if_splits option.splits
      intro: keeps_rules inv_fail inv_export inv_commit inv_finish\<close>)
qed

lemma inv_request:
  assumes "keeps run_inv m" "sys_inv s"
  shows "sys_inv (request m s)"
proof -
  have "run_inv (snd (m ((sy_world s)\<lparr>spawned := []\<rparr>)))"
    using assms run_inv_cong [of "(sy_world s)\<lparr>spawned := []\<rparr>" "sy_world s"] by (simp add: keeps_def sys_inv_def)
  then show ?thesis
    using assms(2) by (auto simp: request_def sys_inv_def run_inv_def list_all_iff new_thread_def split: prod.split)
qed

lemma inv_step: "run_step r s s' \<Longrightarrow> sys_inv s \<Longrightarrow> sys_inv s'"
proof (induction rule: run_step.induct)
  case (thread i s s')
  from thread(1) show ?case
    by (rule step_at_split) (use thread(2) in \<open>auto simp: sys_inv_def dest: step_inv\<close>)
next
  case (tick s t fs)
  then show ?case by (auto simp: sys_inv_def run_inv_def)
qed (auto intro!: inv_request keeps_rules inv_KillStale)

lemma reachable_inv: "reachable r w s \<Longrightarrow> run_inv w \<Longrightarrow> sys_inv s"
  by (induction rule: reachable.induct) (auto simp: start_def sys_inv_def dest: inv_step)

lemma reachable_jobs: "reachable r w s \<Longrightarrow> run_inv w \<Longrightarrow> run_inv (sy_world s)"
  using reachable_inv by (simp add: sys_inv_def)

end

end
