(* ===== verification/Graph_Services.thy ===== *)
theory Graph_Services
  imports Runner_Jobs Net_Addr Civil_Time
begin

text \<open>
  Two of the backup services, Teams and SharePoint (\<open>internal/backup/teams.go\<close>, \<open>sharepoint.go\<close>), and the
  download with retries of the Graph client (\<open>internal/graph/client.go\<close>).

  The Microsoft Graph SDK and the HTTP client are not part of the program: the calls the services make
  are the fields of \<open>graph_sdk\<close>. A call with the context of the job fails with \<open>context canceled\<close> once the
  context is cancelled, as the SDK documents (\<open>on_ctx\<close>). A pointer of the SDK is an option.
\<close>

section \<open>Text\<close>

definition ptrStr :: "string option \<Rightarrow> string" where
  "ptrStr p = (case p of None \<Rightarrow> [] | Some s \<Rightarrow> s)"

definition html_EscapeString :: "string \<Rightarrow> string" where
  "html_EscapeString s =
     concat (map (\<lambda>c. if c = CHR ''&'' then ''&amp;'' else if c = CHR 0x27 then ''&#39;'' else if c = CHR ''<'' then ''&lt;''
                    else if c = CHR ''>'' then ''&gt;'' else if c = CHR 0x22 then ''&#34;'' else [c]) s)"

definition pad :: "nat \<Rightarrow> int \<Rightarrow> string" where
  "pad n i = (let s = show_int i in replicate (n - length s) (CHR ''0'') @ s)"

text \<open>\<open>t.Format(time.RFC3339)\<close> of a time in UTC.\<close>

definition rfc3339 :: "gotime \<Rightarrow> string" where
  "rfc3339 t =
     (let s = (t mod ns_per_day) div ns_per_sec
      in pad 4 (time_Year t) @ ''-'' @ pad 2 (time_Month t) @ ''-'' @ pad 2 (time_Day t) @ ''T''
         @ pad 2 (s div 3600) @ '':'' @ pad 2 (s div 60 mod 60) @ '':'' @ pad 2 (s mod 60) @ ''Z'')"

text \<open>\<open>json.MarshalIndent(v, "", "  ")\<close>\<close>

definition new_line :: "nat \<Rightarrow> string" where
  "new_line d = CHR 0x0A # replicate (2 * d) (CHR '' '')"

fun json_MarshalIndent :: "nat \<Rightarrow> json \<Rightarrow> string" where
  "json_MarshalIndent d (JArr vs) =
     (if vs = [] then ''[]''
      else CHR ''['' # strings_Join (map (\<lambda>v. new_line (Suc d) @ json_MarshalIndent (Suc d) v) vs) '','' @ new_line d @ '']'')"
| "json_MarshalIndent d (JObj ms) =
     (if ms = [] then ''{}''
      else CHR ''{'' # strings_Join (map (\<lambda>(k, v). new_line (Suc d) @ json_quote k @ '': '' @ json_MarshalIndent (Suc d) v) ms) '',''
             @ new_line d @ ''}'')"
| "json_MarshalIndent d v = json_Marshal v"

section \<open>The Graph client\<close>

record chat_message =
  cm_id :: "string option"
  cm_body :: "string option"
  cm_from :: "string option"
  cm_created :: "gotime option"

record drive_item =
  di_id :: "string option"
  di_name :: "string option"
  di_isFile :: bool
  di_isFolder :: bool
  di_parent :: "string option"
  di_size :: "int option"
  di_deleted :: bool
  di_additional :: "string list"

record site =
  st_id :: "string option"
  st_name :: "string option"
  st_webUrl :: "string option"

record user =
  us_id :: "string option"
  us_upn :: "string option"
  us_mail :: "string option"
  us_enabled :: "bool option"

record mail_folder =
  mf_id :: "string option"
  mf_name :: "string option"

record message =
  ms_id :: "string option"
  ms_subject :: "string option"
  ms_additional :: "string list"

text \<open>One page of a listing: its values, the link to the next page and the link for the next delta query.\<close>

record 'a page =
  pg_value :: "'a list"
  pg_next :: "string option"
  pg_delta :: "string option"

text \<open>
  The calls of the SDK. A listing by pages gets \<open>None\<close> for its first request and the link of the page
  otherwise; \<open>g_users\<close> also whether the filter on the mail attribute is set. \<open>g_pages\<close> bounds the pages of one
  listing: the loops over pages end only because the service stops to send next links.
\<close>

record 'w graph_sdk =
  g_pages :: nat
  g_users :: "bool \<Rightarrow> string option \<Rightarrow> ('w run_world_scheme, user page) io"
  g_userDrive :: "string \<Rightarrow> ('w run_world_scheme, string option) io"
  g_driveDelta :: "string \<Rightarrow> string option \<Rightarrow> ('w run_world_scheme, drive_item page) io"
  g_mailFolders :: "string \<Rightarrow> string option \<Rightarrow> ('w run_world_scheme, mail_folder page) io"
  g_childFolders :: "string \<Rightarrow> string \<Rightarrow> string option \<Rightarrow> ('w run_world_scheme, mail_folder page) io"
  g_mailDelta :: "string \<Rightarrow> string \<Rightarrow> string option \<Rightarrow> ('w run_world_scheme, message page) io"
  g_teams :: "('w run_world_scheme, (string option \<times> string option) list) io"
  g_channels :: "string \<Rightarrow> ('w run_world_scheme, (string option \<times> string option) list) io"
  g_messages :: "string \<Rightarrow> string \<Rightarrow> ('w run_world_scheme, chat_message list) io"
  g_sites :: "('w run_world_scheme, site list) io"
  g_drive :: "string \<Rightarrow> ('w run_world_scheme, string option) io"
  g_children :: "string \<Rightarrow> ('w run_world_scheme, drive_item list) io"
  g_token :: "('w run_world_scheme, string) io"
  g_http :: "string \<Rightarrow> (string \<times> string) list \<Rightarrow> ('w run_world_scheme, int \<times> string) io"
  g_isTimeout :: "goerr \<Rightarrow> bool"

definition mimeMaxAttempts :: nat where
  "mimeMaxAttempts = 3"

definition graph_truncate :: "string \<Rightarrow> nat \<Rightarrow> string" where
  "graph_truncate s n = (if length s \<le> n then s else take n s @ ''...'')"

text \<open>\<open>g_token\<close> is the credential of the Azure library, \<open>g_http\<close> a GET with its headers.\<close>

definition getBytesOnce :: "'w graph_sdk \<Rightarrow> string \<Rightarrow> ('w run_world_scheme, string) io" where
  "getBytesOnce gc rawURL =
     (if url_Parse rawURL = None then throw (Err ''parse url'')
      else bindE (g_token gc) (\<lambda>tok.
           bindE (g_http gc rawURL [(''Authorization'', ''Bearer '' @ tok)]) (\<lambda>(status, body).
             if status \<ge> 300
             then throw (Err (''GET '' @ rawURL @ '': status '' @ show_int status @ '': '' @ graph_truncate body 200))
             else ret body)))"

definition isRetryableGetBytesErr :: "(goerr \<Rightarrow> bool) \<Rightarrow> goerr \<Rightarrow> bool" where
  "isRetryableGetBytesErr isTimeout err =
     (if errors_Is err ErrCanceled then False
      else if errors_Is err ErrDeadline then True
      else if isTimeout err then True
      else (let s = strings_ToLower (err_text err)
            in list_ex (strings_Contains s)
                 [''status 429'', ''status 500'', ''status 503'', ''status 504'', ''connection reset'', ''unexpected eof'']))"

text \<open>The attempts from \<open>attempt\<close> on; the pause between two of them can be cut short by the context.\<close>

function get_attempts :: "'w graph_sdk \<Rightarrow> string \<Rightarrow> string \<Rightarrow> nat \<Rightarrow> goerr \<Rightarrow> ('w run_world_scheme, string) io" where
  "get_attempts gc jobID url k lastErr =
     (if k > mimeMaxAttempts then throw lastErr
      else on_ctx jobID (attempt (getBytesOnce gc url) (\<lambda>x. case x of
        Inr body \<Rightarrow> ret body
      | Inl e \<Rightarrow>
          (if \<not> isRetryableGetBytesErr (g_isTimeout gc) e \<or> k = mimeMaxAttempts then throw e
           else on_ctx jobID (get_attempts gc jobID url (Suc k) e)))))"
  by pat_completeness auto
termination
  by (relation "measure (\<lambda>(gc, jobID, url, k, lastErr). Suc mimeMaxAttempts - k)") auto

declare get_attempts.simps [simp del]

definition GetBytes :: "'w graph_sdk \<Rightarrow> string \<Rightarrow> string \<Rightarrow> ('w run_world_scheme, string) io" where
  "GetBytes gc jobID url = get_attempts gc jobID url 1 ErrCanceled"

text \<open>
  The pages after the first of a listing that is read to its end. A page beyond the bound of the client is
  the end of the model, not of the program.
\<close>

definition page_bound :: goerr where
  "page_bound = Panic ''more pages than the bound''"

definition has_next :: "'a page \<Rightarrow> string option" where
  "has_next p = (case pg_next p of Some (c # cs) \<Rightarrow> Some (c # cs) | _ \<Rightarrow> None)"

fun read_pages ::
  "nat \<Rightarrow> (string \<Rightarrow> ('w, 'a page) io) \<Rightarrow> (goerr \<Rightarrow> goerr) \<Rightarrow> 'a page \<Rightarrow> ('w, 'a list) io" where
  "read_pages 0 get wrap p = throw page_bound"
| "read_pages (Suc n) get wrap p =
     (case has_next p of
        None \<Rightarrow> ret (pg_value p)
      | Some url \<Rightarrow>
          attempt (get url) (\<lambda>x. case x of
            Inl e \<Rightarrow> throw (wrap e)
          | Inr q \<Rightarrow> bindE (read_pages n get wrap q) (\<lambda>rest. ret (pg_value p @ rest))))"

definition ListUsers :: "'w graph_sdk \<Rightarrow> string \<Rightarrow> ('w run_world_scheme, user list) io" where
  "ListUsers gc jobID =
     attempt (on_ctx jobID (g_users gc True None)) (\<lambda>x.
     bindE (case x of Inr p \<Rightarrow> ret p | Inl _ \<Rightarrow> on_ctx jobID (g_users gc False None)) (\<lambda>p.
       read_pages (g_pages gc) (\<lambda>url. on_ctx jobID (g_users gc False (Some url))) (Wrap ''users next page'') p))"

definition isDeltaGone :: "goerr \<Rightarrow> bool" where
  "isDeltaGone err =
     (let s = strings_ToLower (err_text err)
      in strings_Contains s ''resyncrequired'' \<or> strings_Contains s ''syncstate''
         \<or> (strings_Contains s ''410'' \<and> strings_Contains s ''gone'') \<or> strings_Contains s ''deltatoken'')"

section \<open>Loops over a result\<close>

fun for_res :: "'a list \<Rightarrow> ('a \<Rightarrow> Result \<Rightarrow> ('w, Result) io) \<Rightarrow> Result \<Rightarrow> ('w, Result) io" where
  "for_res [] f res = ret res"
| "for_res (x # xs) f res = bindE (f x res) (for_res xs f)"

text \<open>\<open>if err := m; err != nil { res.Warn(err.Error()) }\<close>\<close>

definition warn_if :: "('w db_world_scheme, 'a) io \<Rightarrow> Result \<Rightarrow> ('w db_world_scheme, Result) io" where
  "warn_if m res = attempt m (\<lambda>x. case x of Inl e \<Rightarrow> res_Warn (err_text e) res | Inr _ \<Rightarrow> ret res)"

definition finish_reconcile :: "string \<Rightarrow> Store \<Rightarrow> string \<Rightarrow> string \<Rightarrow> Result \<Rightarrow> ('w run_world_scheme, Result) io" where
  "finish_reconcile jobID cat service label res =
     attempt (on_ctx jobID (FinishReconcile cat service)) (\<lambda>x. case x of
       Inl e \<Rightarrow> res_Warn (''reconcile: '' @ err_text e) res
     | Inr n \<Rightarrow> (if n > 0 then res_Info (''reconcile: marked '' @ show_nat n @ '' unseen '' @ label @ '' items deleted'') res
                 else ret res))"

section \<open>Teams\<close>

definition message_entry :: "chat_message \<Rightarrow> json" where
  "message_entry m =
     JObj [(''body'', JStr (ptrStr (cm_body m))),
           (''created'', JStr (case cm_created m of None \<Rightarrow> [] | Some t \<Rightarrow> rfc3339 t)),
           (''from'', JStr (ptrStr (cm_from m))), (''id'', JStr (ptrStr (cm_id m)))]"

definition message_html :: "chat_message \<Rightarrow> string" where
  "message_html m =
     ''<article><header><strong>'' @ html_EscapeString (ptrStr (cm_from m)) @ ''</strong> <time>''
       @ html_EscapeString (case cm_created m of None \<Rightarrow> [] | Some t \<Rightarrow> rfc3339 t)
       @ ''</time></header><div>'' @ ptrStr (cm_body m) @ ''</div></article>''"

definition channel_html :: "string \<Rightarrow> string \<Rightarrow> chat_message list \<Rightarrow> string" where
  "channel_html tname cname msgs =
     strings_Join
       ([''<!DOCTYPE html><html><head><meta charset='' @ [CHR 0x22] @ ''utf-8'' @ [CHR 0x22] @ ''><title>'' @ html_EscapeString cname
           @ ''</title></head><body>'',
         ''<h1>'' @ html_EscapeString tname @ '' / '' @ html_EscapeString cname @ ''</h1>'']
        @ map message_html msgs @ [''</body></html>'']) [CHR 0x0A]"

definition channel_json :: "chat_message list \<Rightarrow> string" where
  "channel_json msgs = json_MarshalIndent 0 (if msgs = [] then JNull else JArr (map message_entry msgs))"

definition teams_item :: "string \<Rightarrow> string \<Rightarrow> string \<Rightarrow> string \<Rightarrow> string \<Rightarrow> Item" where
  "teams_item gid tname cname name ctype =
     zero_item\<lparr>it_Service := ''teams'', it_GraphItemID := gid, it_Mailbox := tname, it_ParentPath := cname, it_Name := name,
               it_ContentType := ctype\<rparr>"

definition teams_channel ::
  "'w graph_sdk \<Rightarrow> Tenant \<Rightarrow> Job \<Rightarrow> Store \<Rightarrow> string \<Rightarrow> string \<Rightarrow> string option \<times> string option \<Rightarrow> Result
   \<Rightarrow> ('w run_world_scheme, Result) io" where
  "teams_channel gc t job cat tid tname ch res =
     (let cid = ptrStr (fst ch); cname = sanitize (ptrStr (snd ch)); base = ''teams:'' @ tid @ '':'' @ cid
      in attempt (on_ctx (j_ID job) (g_messages gc tid cid)) (\<lambda>x. case x of
           Inl e \<Rightarrow> res_Warn (cname @ '': '' @ err_text e) res
         | Inr msgs \<Rightarrow>
             (let res1 = res\<lparr>rs_ItemsNew := rs_ItemsNew res + int (length msgs),
                    rs_BytesTransferred := rs_BytesTransferred res + int (sum_list (map (\<lambda>m. length (ptrStr (cm_body m))) msgs))\<rparr>
              in bindE (warn_if (on_ctx (j_ID job) (Put cat
                      (teams_item (base @ '':json'') tname cname ''messages.json'' ''application/json'') (channel_json msgs))) res1) (\<lambda>res2.
                 bindE (warn_if (on_ctx (j_ID job) (Put cat
                      (teams_item (base @ '':html'') tname cname ''messages.html'' ''text/html'') (channel_html tname cname msgs))) res2) (\<lambda>res3.
                 bindE (ignore (on_ctx (j_ID job) (UpsertDeltaToken (sync_token (t_ID t) ''teams'' (tid @ '':'' @ cid) (''sync-'' @ j_ID job))))) (\<lambda>_.
                   ret res3))))))"

definition teams_team ::
  "'w graph_sdk \<Rightarrow> Tenant \<Rightarrow> Job \<Rightarrow> Store \<Rightarrow> string option \<times> string option \<Rightarrow> Result \<Rightarrow> ('w run_world_scheme, Result) io" where
  "teams_team gc t job cat team res =
     (let tid = ptrStr (fst team); tname = sanitize (ptrStr (snd team))
      in if tid = [] then ret res
         else (let res1 = res\<lparr>rs_ItemsTotal := rs_ItemsTotal res + 1\<rparr>
               in attempt (on_ctx (j_ID job) (g_channels gc tid)) (\<lambda>x. case x of
                    Inl e \<Rightarrow> res_Warn (tname @ '': '' @ err_text e) res1
                  | Inr channels \<Rightarrow> for_res channels (teams_channel gc t job cat tid tname) res1)))"

text \<open>A service that got no client dereferences a nil pointer.\<close>

definition run_service ::
  "('w graph_sdk \<Rightarrow> Tenant \<Rightarrow> Job \<Rightarrow> Store \<Rightarrow> Progress option \<Rightarrow> ('w run_world_scheme, Result) io)
   \<Rightarrow> ('w, 'w graph_sdk) ServiceBackup" where
  "run_service body gc t job stageDir cat prog w =
     (case gc of
        None \<Rightarrow> ((job, Inl (Panic ''nil pointer'')), w)
      | Some c \<Rightarrow> (case body c t job cat prog w of (x, w') \<Rightarrow> ((job, x), w')))"

definition teams_body ::
  "'w graph_sdk \<Rightarrow> Tenant \<Rightarrow> Job \<Rightarrow> Store \<Rightarrow> Progress option \<Rightarrow> ('w run_world_scheme, Result) io" where
  "teams_body gc t job cat prog =
     bindE (StartReconcile ''teams'') (\<lambda>_.
     bindE (res_Info (''listing Teams'' @ ellipsis) (NewResult prog)) (\<lambda>res.
     attempt (on_ctx (j_ID job) (g_teams gc)) (\<lambda>x. case x of
       Inl e \<Rightarrow> throw (Wrap ''list teams'' e)
     | Inr teams \<Rightarrow>
         bindE (for_res teams (teams_team gc t job cat) res) (\<lambda>res1.
           finish_reconcile (j_ID job) cat ''teams'' ''Teams'' res1))))"

definition TeamsBackup :: "('w, 'w graph_sdk) ServiceBackup" where
  "TeamsBackup = run_service teams_body"

section \<open>SharePoint\<close>

definition sp_item :: "string \<Rightarrow> string \<Rightarrow> string \<Rightarrow> string \<Rightarrow> Item" where
  "sp_item gid mailbox name ctype =
     zero_item\<lparr>it_Service := ''sharepoint'', it_GraphItemID := gid, it_Mailbox := mailbox, it_Name := name, it_ContentType := ctype\<rparr>"

definition sp_file ::
  "'w graph_sdk \<Rightarrow> Job \<Rightarrow> Store \<Rightarrow> string \<Rightarrow> string \<Rightarrow> string \<Rightarrow> drive_item \<Rightarrow> Result \<Rightarrow> ('w run_world_scheme, Result) io" where
  "sp_file gc job cat sid name driveID item res =
     (if \<not> di_isFile item then ret res
      else
        (let fname = sanitize (ptrStr (di_name item)); itemID = ptrStr (di_id item);
             contentURL = ''https://graph.microsoft.com/v1.0/drives/'' @ driveID @ ''/items/'' @ itemID @ ''/content'';
             gid = (if itemID = [] then ''sp:'' @ sid @ '':file:'' @ fname else ''sp:'' @ sid @ '':'' @ itemID)
         in attempt (GetBytes gc (j_ID job) contentURL) (\<lambda>x. case x of
              Inl e \<Rightarrow> res_Warn (fname @ '': '' @ err_text e) res
            | Inr data \<Rightarrow>
                attempt (on_ctx (j_ID job) (Put cat (sp_item gid name fname []) data)) (\<lambda>y. case y of
                  Inl e \<Rightarrow> res_Warn (err_text e) res
                | Inr _ \<Rightarrow> ret (res\<lparr>rs_ItemsNew := rs_ItemsNew res + 1,
                                   rs_BytesTransferred := rs_BytesTransferred res + int (length data)\<rparr>)))))"

definition sp_site ::
  "'w graph_sdk \<Rightarrow> Tenant \<Rightarrow> Job \<Rightarrow> Store \<Rightarrow> site \<Rightarrow> Result \<Rightarrow> ('w run_world_scheme, Result) io" where
  "sp_site gc t job cat site res =
     (let sid = ptrStr (st_id site); name = sanitize (ptrStr (st_name site));
          meta = json_MarshalIndent 0 (JObj [(''id'', JStr sid), (''name'', JStr (ptrStr (st_name site))), (''webUrl'', JStr (ptrStr (st_webUrl site)))]);
          token = (ignore (on_ctx (j_ID job) (UpsertDeltaToken (sync_token (t_ID t) ''sharepoint'' sid (''sync-'' @ j_ID job)))))
      in if sid = [] then ret res
         else
           bindE (warn_if (on_ctx (j_ID job) (Put cat (sp_item (''sp:'' @ sid @ '':meta'') name ''site.json'' ''application/json'') meta))
                    (res\<lparr>rs_ItemsTotal := rs_ItemsTotal res + 1\<rparr>)) (\<lambda>res1.
           attempt (on_ctx (j_ID job) (g_drive gc sid)) (\<lambda>x. case x of
             Inl e \<Rightarrow> bindE (res_Warn (name @ '': '' @ err_text e) res1) (\<lambda>res2. bindE token (\<lambda>_. ret res2))
           | Inr drive \<Rightarrow>
               attempt (on_ctx (j_ID job) (g_children gc (ptrStr drive))) (\<lambda>y. case y of
                 Inl e \<Rightarrow> res_Warn (name @ '' children: '' @ err_text e) res1
               | Inr children \<Rightarrow>
                   bindE (for_res children (sp_file gc job cat sid name (ptrStr drive)) res1) (\<lambda>res2.
                   bindE token (\<lambda>_. ret res2))))))"

definition sharepoint_body ::
  "'w graph_sdk \<Rightarrow> Tenant \<Rightarrow> Job \<Rightarrow> Store \<Rightarrow> Progress option \<Rightarrow> ('w run_world_scheme, Result) io" where
  "sharepoint_body gc t job cat prog =
     bindE (StartReconcile ''sharepoint'') (\<lambda>_.
     bindE (res_Info (''listing SharePoint sites'' @ ellipsis) (NewResult prog)) (\<lambda>res.
     attempt (on_ctx (j_ID job) (g_sites gc)) (\<lambda>x. case x of
       Inl e \<Rightarrow> throw (Wrap ''list sites'' e)
     | Inr sites \<Rightarrow>
         bindE (for_res sites (sp_site gc t job cat) res) (\<lambda>res1.
           finish_reconcile (j_ID job) cat ''sharepoint'' ''SharePoint'' res1))))"

definition SharePointBackup :: "('w, 'w graph_sdk) ServiceBackup" where
  "SharePointBackup = run_service sharepoint_body"

section \<open>Retries\<close>

lemma on_ctx_live: "\<not> ctx_done i w \<Longrightarrow> on_ctx i m w = m w"
  by (simp add: on_ctx_def io_simps)

lemma ctx_done_faults [simp]: "ctx_done i (w\<lparr>faults := fs\<rparr>) = ctx_done i w"
  by (simp add: ctx_done_def)

text \<open>A client whose requests fail as the fault script says.\<close>

definition scripted :: "('w run_world_scheme \<Rightarrow> string) \<Rightarrow> 'w graph_sdk \<Rightarrow> string \<Rightarrow> bool" where
  "scripted body gc url =
     (url_Parse url \<noteq> None \<and> (\<exists>tok. g_token gc = ret tok)
      \<and> g_http gc = (\<lambda>u hs. bindE access (\<lambda>_. gets (\<lambda>w. (200, body w)))))"

lemma scripted_once:
  "scripted body gc url \<Longrightarrow> getBytesOnce gc url = bindE access (\<lambda>_. gets body)"
  by (auto simp: scripted_def getBytesOnce_def fun_eq_iff io_simps split: sum.split prod.split)

lemma attempts_retry:
  assumes "scripted body gc url" "\<not> ctx_done i w" "k < mimeMaxAttempts" "isRetryableGetBytesErr (g_isTimeout gc) e"
  shows "get_attempts gc i url k e0 (w\<lparr>faults := Some e # fs\<rparr>) = get_attempts gc i url (Suc k) e (w\<lparr>faults := fs\<rparr>)"
proof -
  have "get_attempts gc i url k e0 (w\<lparr>faults := Some e # fs\<rparr>) = on_ctx i (get_attempts gc i url (Suc k) e) (w\<lparr>faults := fs\<rparr>)"
    using assms
    by (subst get_attempts.simps) (simp add: on_ctx_live scripted_once attempt_def bindE_def access_def)
  then show ?thesis using assms(2) by (simp add: on_ctx_live)
qed

lemma attempts_hit:
  assumes "scripted body gc url" "\<not> ctx_done i w" "k \<le> mimeMaxAttempts"
  shows "get_attempts gc i url k e0 (w\<lparr>faults := None # fs\<rparr>) = (Inr (body (w\<lparr>faults := fs\<rparr>)), w\<lparr>faults := fs\<rparr>)"
  using assms
  by (subst get_attempts.simps) (simp add: on_ctx_live scripted_once attempt_def bindE_def access_def gets_def ret_def)

lemma attempts_last:
  assumes "scripted body gc url" "\<not> ctx_done i w" "k \<le> mimeMaxAttempts" "k = mimeMaxAttempts \<or> \<not> isRetryableGetBytesErr (g_isTimeout gc) e"
  shows "get_attempts gc i url k e0 (w\<lparr>faults := Some e # fs\<rparr>) = (Inl e, w\<lparr>faults := fs\<rparr>)"
  using assms
  by (subst get_attempts.simps) (auto simp: on_ctx_live scripted_once attempt_def bindE_def access_def throw_def)

text \<open>
  The download of a file from Graph. While the job is not cancelled, \<open>GetBytes\<close> sends a request again after
  an error that can pass (a timeout, throttling, a server error) and not after another one, it sends at most
  three requests, and returns the content of the first that succeeds or else the last error. The client here
  is any one that answers from a script of failures; one entry of the script is used per request.
\<close>

theorem GetBytes_retries:
  assumes "scripted body gc url" "\<not> ctx_done i w" "list_all (isRetryableGetBytesErr (g_isTimeout gc)) es" "length es \<le> 2"
  shows "GetBytes gc i url (w\<lparr>faults := map Some es @ None # fs\<rparr>) = (Inr (body (w\<lparr>faults := fs\<rparr>)), w\<lparr>faults := fs\<rparr>)
    \<and> (length es = 2 \<or> \<not> isRetryableGetBytesErr (g_isTimeout gc) e \<longrightarrow>
         GetBytes gc i url (w\<lparr>faults := map Some es @ Some e # fs\<rparr>) = (Inl e, w\<lparr>faults := fs\<rparr>))"
proof -
  have skip: "get_attempts gc i url k e0 (w\<lparr>faults := map Some xs @ ys\<rparr>)
      = get_attempts gc i url (k + length xs) (if xs = [] then e0 else last xs) (w\<lparr>faults := ys\<rparr>)"
    if "list_all (isRetryableGetBytesErr (g_isTimeout gc)) xs" "k + length xs \<le> 3" for k e0 xs ys
    using that
  proof (induction xs arbitrary: k e0)
    case (Cons x xs)
    then show ?case using attempts_retry [OF assms(1,2), of k x e0 "map Some xs @ ys"] by (simp add: mimeMaxAttempts_def)
  qed simp
  have three: "1 + length es \<le> 3" using assms(4) by simp
  show ?thesis
    using skip [OF assms(3) three] assms(4)
    by (auto simp: GetBytes_def attempts_hit [OF assms(1,2)] attempts_last [OF assms(1,2)] mimeMaxAttempts_def)
qed

section \<open>The services keep the invariant\<close>

lemma keeps_for_res: "(\<And>x res. x \<in> set xs \<Longrightarrow> keeps P (f x res)) \<Longrightarrow> keeps P (for_res xs f res)"
  by (induction xs arbitrary: res) (auto intro!: keeps_rules)

lemma inv_UpsertDeltaToken: "keeps run_inv (UpsertDeltaToken t)"
  unfolding UpsertDeltaToken_def Let_def
  by (auto intro!: keeps_rules inv_uuid keeps_exec inv_free simp: run_inv_def)

lemma inv_reports: "keeps run_inv (res_Info msg res)" "keeps run_inv (res_Warn msg res)"
  by (rule keeps_reports inv_free)+

lemma inv_warn_if: "keeps run_inv m \<Longrightarrow> keeps run_inv (warn_if m res)"
  unfolding warn_if_def by (auto intro!: keeps_rules inv_reports split: sum.split)

lemma inv_finish_reconcile: "keeps run_inv (finish_reconcile i cat sv label res)"
  unfolding finish_reconcile_def
  by (auto intro!: keeps_rules inv_reports jobs_only_items run_inv_jobs_only split: sum.split)

text \<open>What the services rely on: the calls of the SDK do not touch what \<open>P\<close> is about, such as the tables of the program.\<close>

definition sdk_keeps :: "('w run_world_scheme \<Rightarrow> bool) \<Rightarrow> 'w graph_sdk \<Rightarrow> bool" where
  "sdk_keeps P gc =
     ((\<forall>a b. keeps P (g_users gc a b)) \<and> (\<forall>a. keeps P (g_userDrive gc a)) \<and> (\<forall>a b. keeps P (g_driveDelta gc a b))
      \<and> (\<forall>a b. keeps P (g_mailFolders gc a b)) \<and> (\<forall>a b c. keeps P (g_childFolders gc a b c))
      \<and> (\<forall>a b c. keeps P (g_mailDelta gc a b c))
      \<and> keeps P (g_teams gc) \<and> (\<forall>a. keeps P (g_channels gc a)) \<and> (\<forall>a b. keeps P (g_messages gc a b))
      \<and> keeps P (g_sites gc) \<and> (\<forall>a. keeps P (g_drive gc a)) \<and> (\<forall>a. keeps P (g_children gc a))
      \<and> keeps P (g_token gc) \<and> (\<forall>a b. keeps P (g_http gc a b)))"

abbreviation sdk_ok :: "'w graph_sdk \<Rightarrow> bool" where
  "sdk_ok \<equiv> sdk_keeps run_inv"

lemma keeps_GetBytes:
  assumes "sdk_keeps P gc"
  shows "keeps P (GetBytes gc i url)"
proof -
  have "keeps P (getBytesOnce gc url)" for url
    using assms unfolding getBytesOnce_def by (auto intro!: keeps_rules simp: sdk_keeps_def)
  then have "keeps P (get_attempts gc i url k e)" for k e
    by (induction gc i url k e rule: get_attempts.induct, subst get_attempts.simps)
      (auto intro!: keeps_rules split: sum.split)
  then show ?thesis by (simp add: GetBytes_def)
qed

lemmas inv_GetBytes = keeps_GetBytes [where P = run_inv]

lemma keeps_read_pages:
  assumes "\<And>url. keeps P (get url)"
  shows "keeps P (read_pages n get wrap p)"
  using assms by (induction n arbitrary: p) (auto intro!: keeps_rules split: option.split sum.split)

lemma inv_ListUsers: "sdk_ok gc \<Longrightarrow> keeps run_inv (ListUsers gc i)"
  unfolding ListUsers_def by (auto intro!: keeps_rules keeps_read_pages simp: sdk_keeps_def split: sum.split)

lemma inv_teams_body:
  assumes "sdk_ok gc"
  shows "keeps run_inv (teams_body gc t job cat prog)"
proof -
  have "keeps run_inv (teams_channel gc t job cat tid tname ch res)" for tid tname ch res
    using assms unfolding teams_channel_def Let_def
    by (auto intro!: keeps_rules inv_reports inv_warn_if inv_UpsertDeltaToken jobs_only_items run_inv_jobs_only
        simp: sdk_keeps_def split: sum.split)
  then have "keeps run_inv (teams_team gc t job cat team res)" for team res
    using assms unfolding teams_team_def Let_def
    by (auto intro!: keeps_rules inv_reports keeps_for_res simp: sdk_keeps_def split: sum.split)
  then show ?thesis
    using assms unfolding teams_body_def
    by (auto intro!: keeps_rules inv_reports keeps_for_res inv_finish_reconcile jobs_only_items run_inv_jobs_only
        simp: sdk_keeps_def split: sum.split)
qed

lemma inv_sharepoint_body:
  assumes "sdk_ok gc"
  shows "keeps run_inv (sharepoint_body gc t job cat prog)"
proof -
  have "keeps run_inv (sp_file gc job cat sid name d item res)" for sid name d item res
    unfolding sp_file_def Let_def
    by (auto intro!: keeps_rules inv_reports inv_GetBytes assms jobs_only_items run_inv_jobs_only split: sum.split)
  then have "keeps run_inv (sp_site gc t job cat st res)" for st res
    using assms unfolding sp_site_def Let_def
    by (auto intro!: keeps_rules inv_reports inv_warn_if keeps_for_res inv_UpsertDeltaToken jobs_only_items run_inv_jobs_only
        simp: sdk_keeps_def split: sum.split)
  then show ?thesis
    using assms unfolding sharepoint_body_def
    by (auto intro!: keeps_rules inv_reports keeps_for_res inv_finish_reconcile jobs_only_items run_inv_jobs_only
        simp: sdk_keeps_def split: sum.split)
qed

end
