(* ===== verification/Delta_Sync.thy ===== *)
theory Delta_Sync
  imports Graph_Services
begin

text \<open>
  What the delta queries of OneDrive and Exchange share (\<open>syncDriveDelta\<close> of \<open>onedrive.go\<close> and
  \<open>backupFolderDelta\<close> of \<open>exchange.go\<close>, with the reports of \<open>heartbeat.go\<close>): the first request with its fall-back
  to a full query, the loop over the pages with a check point after each of them, and the state of the loop.
\<close>

section \<open>Reports\<close>

text \<open>A duration of whole seconds as \<open>Duration.String\<close> writes it, and rounding half away from zero.\<close>

definition seconds_String :: "int \<Rightarrow> string" where
  "seconds_String n =
     (let a = \<bar>n\<bar>; h = a div 3600; m = a div 60 mod 60; s = a mod 60
      in (if n < 0 then ''-'' else []) @ (if h > 0 then show_int h @ ''h'' else [])
         @ (if a \<ge> 60 then show_int m @ ''m'' else []) @ show_int s @ ''s'')"

definition round_seconds :: "int \<Rightarrow> int" where
  "round_seconds d = sgn d * ((\<bar>d\<bar> + ns_per_sec div 2) div ns_per_sec)"

record delta_state =
  dl_job :: Job
  dl_res :: Result
  dl_n :: int
  dl_stored :: int
  dl_warnings :: "string list"
  dl_hb :: progressHeartbeat

definition newProgressHeartbeat :: "int \<Rightarrow> int \<Rightarrow> gotime \<Rightarrow> progressHeartbeat" where
  "newProgressHeartbeat interval everyN now = \<lparr>hb_interval = interval, hb_everyN = everyN, hb_last = now\<rparr>"

definition progressDetail :: "int \<Rightarrow> int \<Rightarrow> gotime \<Rightarrow> gotime \<Rightarrow> string" where
  "progressDetail n skippedStored began now =
     (let downloaded = (if n - skippedStored < 0 then 0 else n - skippedStored)
      in ''progress '' @ show_int n @ '' change(s) ('' @ show_int skippedStored @ '' skipped, '' @ show_int downloaded
         @ '' downloaded, elapsed '' @ seconds_String (round_seconds (time_Sub now began)) @ '')'' @ ellipsis)"

text \<open>The callback of a service: a line in the log and in the job row.\<close>

type_synonym 'w live = "string \<Rightarrow> Job \<times> Result \<Rightarrow> ('w run_world_scheme, Job \<times> Result) io"

definition live_report :: "Progress option \<Rightarrow> int \<Rightarrow> 'w live" where
  "live_report prog pct msg jr =
     bindE (res_Info msg (snd jr)) (\<lambda>res.
     bindE (SyncJob prog (fst jr) res pct msg) (\<lambda>job. ret (job, res)))"

definition maybeEmit :: "'w live \<Rightarrow> string \<Rightarrow> gotime \<Rightarrow> delta_state \<Rightarrow> ('w run_world_scheme, delta_state) io" where
  "maybeEmit live label began st =
     bindE time_Now (\<lambda>now.
       (case shouldFire now (dl_n st) (dl_hb st) of (fire, hb) \<Rightarrow>
          (if \<not> fire then ret (st\<lparr>dl_hb := hb\<rparr>)
           else bindE (live (label @ '': '' @ progressDetail (dl_n st) (dl_stored st) began now) (dl_job st, dl_res st)) (\<lambda>(job, res).
                ret (st\<lparr>dl_hb := hb, dl_job := job, dl_res := res\<rparr>)))))"

definition dl_warn :: "string \<Rightarrow> delta_state \<Rightarrow> delta_state" where
  "dl_warn msg st = st\<lparr>dl_warnings := dl_warnings st @ [msg]\<rparr>"

definition dl_count :: "int \<Rightarrow> delta_state \<Rightarrow> delta_state" where
  "dl_count bytes st = st\<lparr>dl_n := dl_n st + 1, dl_res := addItems 1 bytes (dl_res st)\<rparr>"

section \<open>Pages\<close>

text \<open>The first page: the saved link when there is one, the whole listing when it has expired.\<close>

definition delta_first ::
  "(string option \<Rightarrow> ('w db_world_scheme, 'i page) io) \<Rightarrow> string \<Rightarrow> string \<Rightarrow> Result
   \<Rightarrow> ('w db_world_scheme, 'i page result \<times> Result) io" where
  "delta_first get saved gone res =
     (if saved = [] then attempt (get None) (\<lambda>x. ret (x, res))
      else attempt (get (Some saved)) (\<lambda>x. case x of
             Inr p \<Rightarrow> ret (Inr p, res)
           | Inl e \<Rightarrow>
               (if isDeltaGone e then bindE (res_Info gone res) (\<lambda>res1. attempt (get None) (\<lambda>y. ret (y, res1)))
                else ret (Inl e, res))))"

text \<open>The items of a page; \<open>True\<close> when the context was cancelled in between.\<close>

fun delta_items ::
  "string \<Rightarrow> ('i \<Rightarrow> delta_state \<Rightarrow> ('w run_world_scheme, delta_state) io) \<Rightarrow> 'i list \<Rightarrow> delta_state
   \<Rightarrow> ('w run_world_scheme, bool \<times> delta_state) io" where
  "delta_items jobID step [] st = ret (False, st)"
| "delta_items jobID step (x # xs) st =
     bindE (gets (ctx_done jobID)) (\<lambda>d.
       if d then ret (True, dl_warn (err_text ErrCanceled) st)
       else bindE (step x st) (delta_items jobID step xs))"

fun delta_pages ::
  "nat \<Rightarrow> string \<Rightarrow> (string option \<Rightarrow> ('w run_world_scheme, 'i page) io) \<Rightarrow> (string \<Rightarrow> ('w run_world_scheme, unit) io)
   \<Rightarrow> (goerr \<Rightarrow> string) \<Rightarrow> ('i \<Rightarrow> delta_state \<Rightarrow> ('w run_world_scheme, delta_state) io) \<Rightarrow> 'i page \<Rightarrow> delta_state
   \<Rightarrow> ('w run_world_scheme, delta_state) io" where
  "delta_pages 0 jobID get persist failed step p st = throw page_bound"
| "delta_pages (Suc n) jobID get persist failed step p st =
     bindE (gets (ctx_done jobID)) (\<lambda>d.
       if d then ret (dl_warn (err_text ErrCanceled) st)
       else bindE (delta_items jobID step (pg_value p) st) (\<lambda>(stopped, st1).
         if stopped then ret st1
         else bindE (persist (odataResumeURL (pg_next p) (pg_delta p))) (\<lambda>_.
           case has_next p of
             None \<Rightarrow> ret st1
           | Some url \<Rightarrow>
               attempt (get (Some url)) (\<lambda>x. case x of
                 Inl e \<Rightarrow> ret (dl_warn (failed e) st1)
               | Inr q \<Rightarrow> delta_pages n jobID get persist failed step q st1))))"

text \<open>A check point under the context of the job.\<close>

definition checkpoint :: "string \<Rightarrow> string \<Rightarrow> string \<Rightarrow> string \<Rightarrow> string \<Rightarrow> ('w run_world_scheme, unit) io" where
  "checkpoint jobID tenantID service userKey url = ignore (on_ctx jobID (persistDeltaURL tenantID service userKey url))"

text \<open>The token of the last run, empty on any error.\<close>

definition saved_token :: "string \<Rightarrow> string \<Rightarrow> string \<Rightarrow> string \<Rightarrow> string \<Rightarrow> ('w run_world_scheme, string) io" where
  "saved_token jobID tenantID service userKey placeholder =
     attempt (on_ctx jobID (GetDeltaToken tenantID service userKey)) (\<lambda>x. ret (case x of
       Inl _ \<Rightarrow> []
     | Inr tok \<Rightarrow> (if strings_HasPrefix tok placeholder then [] else tok)))"

text \<open>The share of the users that are done, between 5 and 90 percent.\<close>

definition pctFor :: "int \<Rightarrow> int \<Rightarrow> int" where
  "pctFor tot doneN = (if tot \<le> 0 then 50 else 5 + go_div (doneN * 85) tot)"

fun warn_all :: "string list \<Rightarrow> Result \<Rightarrow> ('w db_world_scheme, Result) io" where
  "warn_all [] res = ret res"
| "warn_all (x # xs) res = bindE (res_Warn x res) (warn_all xs)"

text \<open>
  The users one after the other. The program hands them to several workers; each user is handled by one
  worker and has a mailbox, tokens and items of its own, so the order is that of the directory here. A
  cancelled context ends the loop.
\<close>

fun for_users :: "string \<Rightarrow> (nat \<times> user \<Rightarrow> 's \<Rightarrow> ('w run_world_scheme, 's) io) \<Rightarrow> (nat \<times> user) list \<Rightarrow> 's \<Rightarrow> ('w run_world_scheme, 's) io" where
  "for_users jobID f [] s = ret s"
| "for_users jobID f (u # us) s =
     bindE (gets (ctx_done jobID)) (\<lambda>d. if d then ret s else bindE (f u s) (for_users jobID f us))"

text \<open>A service whose job is changed in place: it returns the job also with an error.\<close>

definition run_sync ::
  "('w graph_sdk \<Rightarrow> Tenant \<Rightarrow> Job \<Rightarrow> Store \<Rightarrow> Progress option \<Rightarrow> ('w run_world_scheme, Job \<times> Result result) io)
   \<Rightarrow> ('w, 'w graph_sdk) ServiceBackup" where
  "run_sync body gc t job stageDir cat prog w =
     (case gc of
        None \<Rightarrow> ((job, Inl (Panic ''nil pointer'')), w)
      | Some c \<Rightarrow>
          (case body c t job cat prog w of
             (Inl e, w') \<Rightarrow> ((job, Inl e), w')
           | (Inr r, w') \<Rightarrow> (r, w')))"

section \<open>Lemmas\<close>

lemma keeps_delta_items:
  assumes "\<And>x st. x \<in> set xs \<Longrightarrow> keeps P (step x st)"
  shows "keeps P (delta_items i step xs st)"
  using assms by (induction xs arbitrary: st) (auto intro!: keeps_rules)

lemma keeps_delta_pages:
  assumes "\<And>x st. keeps P (step x st)" "\<And>u. keeps P (get u)" "\<And>u. keeps P (persist u)"
  shows "keeps P (delta_pages n i get persist failed step p st)"
  using assms
  by (induction n arbitrary: p st)
    (auto intro!: keeps_rules keeps_delta_items split: option.split sum.split)

lemma inv_maybeEmit:
  assumes "\<And>msg jr. keeps run_inv (live msg jr)"
  shows "keeps run_inv (maybeEmit live label began st)"
  using assms unfolding maybeEmit_def by (auto intro!: keeps_rules inv_now split: prod.split)

lemma inv_SyncJob: "keeps run_inv (SyncJob p job res pct msg)"
  unfolding SyncJob_def Let_def by (auto intro!: keeps_rules inv_UpdateJobProgress)

lemma inv_live_report: "keeps run_inv (live_report prog pct msg jr)"
  unfolding live_report_def by (auto intro!: keeps_rules inv_reports inv_SyncJob)

lemma inv_delta_first:
  assumes "\<And>u. keeps run_inv (get u)"
  shows "keeps run_inv (delta_first get saved gone res)"
  using assms unfolding delta_first_def by (auto intro!: keeps_rules inv_reports split: sum.split)

lemma inv_persistDeltaURL: "keeps run_inv (persistDeltaURL a b c url)"
  unfolding persistDeltaURL_def by (auto intro!: keeps_rules inv_UpsertDeltaToken)

lemma inv_checkpoint: "keeps run_inv (checkpoint i a b c url)"
  unfolding checkpoint_def by (auto intro!: keeps_rules inv_persistDeltaURL)

lemma inv_saved_token: "keeps run_inv (saved_token i a b c d)"
  unfolding saved_token_def GetDeltaToken_def by (auto intro!: keeps_rules keeps_query_row inv_free)

lemma inv_warn_all: "keeps run_inv (warn_all ws res)"
  by (induction ws arbitrary: res) (auto intro!: keeps_rules inv_reports)

lemma keeps_for_users: "(\<And>u s. keeps P (f u s)) \<Longrightarrow> keeps P (for_users i f us s)"
  by (induction us arbitrary: s) (auto intro!: keeps_rules)

lemmas inv_sync =
  inv_reports inv_SyncJob inv_live_report inv_delta_first inv_checkpoint inv_saved_token inv_warn_all inv_maybeEmit
  keeps_delta_pages keeps_for_users jobs_only_items run_inv_jobs_only inv_GetBytes inv_ListUsers

lemma inv_run_sync:
  assumes "\<And>t job cat prog. keeps run_inv (body c t job cat prog)" "run_inv w" "gc = Some c \<or> gc = None"
  shows "run_inv (snd (run_sync body gc t job d cat prog w))"
proof (cases gc)
  case None
  then show ?thesis using assms(2) by (simp add: run_sync_def)
next
  case (Some c')
  then have "c' = c" using assms(3) by simp
  then have "run_inv (snd (body c' t job cat prog w))" using assms(1,2) by (simp add: keeps_def)
  then show ?thesis using Some by (auto simp: run_sync_def split: prod.split sum.split)
qed

end
