(* ===== verification/Watchdog.thy ===== *)
theory Watchdog
  imports Auth Delta_Sync
begin

text \<open>
  The watchdog of \<open>internal/backup/watchdog.go\<close>: at every tick it looks at the running jobs and kills those whose
  numbers have not moved for the stall time. Its memory of the last observation of each job is part of the world.
\<close>

section \<open>The watchdog\<close>

record stallTrack =
  tr_bytes :: int
  tr_items :: int
  tr_pct :: int
  tr_message :: string
  tr_lastMove :: gotime

record watch_world = auth_world +
  track :: "(string \<times> stallTrack) list"

record Watchdog =
  wd_Interval :: int
  wd_Stall :: int

definition NewWatchdog :: "int \<Rightarrow> int \<Rightarrow> Watchdog" where
  "NewWatchdog interval stall =
     \<lparr>wd_Interval = (if interval \<le> 0 then 5 * 60 * ns_per_sec else interval),
      wd_Stall = (if stall \<le> 0 then 2 * ns_per_hour else stall)\<rparr>"

definition initialActivity :: "Job \<Rightarrow> gotime \<Rightarrow> ('w db_world_scheme, gotime) io" where
  "initialActivity j now =
     (if j_BytesTransferred j > 0 \<or> j_ItemsNew j > 0 \<or> j_ProgressPct j > 0 then
        attempt (LastJobLogTime (j_ID j)) (\<lambda>x. case x of
          Inr logAt \<Rightarrow> (if logAt \<noteq> zero_time then ret logAt else ret now)
        | Inl _ \<Rightarrow> ret now)
      else
        (let t = (if j_StartedAt j \<noteq> zero_time then j_StartedAt j else now)
         in attempt (LastJobLogTime (j_ID j)) (\<lambda>x. case x of
              Inr logAt \<Rightarrow> (if logAt \<noteq> zero_time \<and> t < logAt then ret logAt else ret t)
            | Inl _ \<Rightarrow> ret t)))"

text \<open>What the watchdog sees of a job.\<close>

definition observed :: "Job \<Rightarrow> gotime \<Rightarrow> stallTrack" where
  "observed j moved =
     \<lparr>tr_bytes = j_BytesTransferred j, tr_items = j_ItemsNew j, tr_pct = j_ProgressPct j, tr_message = j_ProgressMessage j,
      tr_lastMove = moved\<rparr>"

definition moved_since :: "stallTrack \<Rightarrow> Job \<Rightarrow> bool" where
  "moved_since prev j =
     (tr_bytes prev \<noteq> j_BytesTransferred j \<or> tr_items prev \<noteq> j_ItemsNew j \<or> tr_pct prev \<noteq> j_ProgressPct j
      \<or> tr_message prev \<noteq> j_ProgressMessage j)"

definition evaluate :: "Watchdog \<Rightarrow> Job \<Rightarrow> gotime \<Rightarrow> ('w watch_world_scheme, bool) io" where
  "evaluate wd j now =
     bindE (gets (\<lambda>w. map_of (track w) (j_ID j))) (\<lambda>prev.
     bindE (case prev of
              None \<Rightarrow> initialActivity j now
            | Some p \<Rightarrow> ret (if moved_since p j then now else tr_lastMove p)) (\<lambda>moved.
     bindE (modify (\<lambda>w. w\<lparr>track := AList.update (j_ID j) (observed j moved) (track w)\<rparr>)) (\<lambda>_.
       ret (wd_Stall wd \<le> time_Sub now moved))))"

definition prune :: "string list \<Rightarrow> ('w watch_world_scheme, unit) io" where
  "prune seen_ids = modify (\<lambda>w. w\<lparr>track := filter (\<lambda>kv. fst kv \<in> set seen_ids) (track w)\<rparr>)"

text \<open>\<open>Duration.Round(time.Minute)\<close>, of a duration that is not negative.\<close>

definition round_minutes :: "int \<Rightarrow> int" where
  "round_minutes d = (let m = 60 * ns_per_sec in (d + m div 2) div m * 60)"

definition stall_reason :: "Watchdog \<Rightarrow> string" where
  "stall_reason wd = ''no progress for '' @ seconds_String (round_minutes (wd_Stall wd)) @ '' (watchdog)''"

definition watchdog_check :: "_ \<Rightarrow> Watchdog \<Rightarrow> ('w watch_world_scheme, unit) io" where
  "watchdog_check r wd =
     attempt ListRunningJobs (\<lambda>x. case x of
       Inl _ \<Rightarrow> ret ()
     | Inr js \<Rightarrow>
         bindE time_Now (\<lambda>now.
         bindE (for_each js (\<lambda>j.
           bindE (evaluate wd j now) (\<lambda>kill.
             if kill then ignore (KillStale r (j_ID j) (stall_reason wd)) else ret ()))) (\<lambda>_.
           prune (map j_ID js))))"

section \<open>Observations of one job\<close>

text \<open>The watchdog looks at a job again and again, at times that do not go back.\<close>

fun watch :: "Watchdog \<Rightarrow> (gotime \<times> Job) list \<Rightarrow> 'w watch_world_scheme \<Rightarrow> (gotime \<times> Job \<times> bool) list" where
  "watch wd [] w = []"
| "watch wd ((t, j) # obs) w =
     (case evaluate wd j t w of
        (Inr kill, w') \<Rightarrow> (t, j, kill) # watch wd obs w'
      | (Inl _, w') \<Rightarrow> watch wd obs w')"

abbreviation visible :: "Job \<Rightarrow> int \<times> int \<times> int \<times> string" where
  "visible j \<equiv> (j_BytesTransferred j, j_ItemsNew j, j_ProgressPct j, j_ProgressMessage j)"

abbreviation tracked :: "stallTrack \<Rightarrow> int \<times> int \<times> int \<times> string" where
  "tracked tr \<equiv> (tr_bytes tr, tr_items tr, tr_pct tr, tr_message tr)"

lemma moved_since_iff: "moved_since p j \<longleftrightarrow> tracked p \<noteq> visible j"
  by (auto simp: moved_since_def)

lemma initialActivity_ok: "\<exists>t w'. initialActivity j now w = (Inr t, w') \<and> track w' = track w"
proof -
  have "wp (initialActivity j now) (\<lambda>r w'. (\<exists>t. r = Inr t) \<and> track w' = track w) w"
    unfolding initialActivity_def LastJobLogTime_def by (auto simp: wp_simps Let_def intro!: wp_intros)
  then show ?thesis by (auto simp: wp_def) (metis prod.collapse)
qed

lemma stall_reached: "wd_Stall wd < 2 ^ 63 \<Longrightarrow> wd_Stall wd \<le> time_Sub now moved \<Longrightarrow> 0 < wd_Stall wd \<Longrightarrow> wd_Stall wd \<le> now - moved"
  by (auto simp: time_Sub_def max_int64_def)

lemma evaluate_cases:
  obtains kill w' moved where "evaluate wd j now w = (Inr kill, w')"
    and "map_of (track w') (j_ID j) = Some (observed j moved)" "kill = (wd_Stall wd \<le> time_Sub now moved)"
    and "\<And>p. map_of (track w) (j_ID j) = Some p \<Longrightarrow> moved = (if tracked p = visible j then tr_lastMove p else now)"
proof (cases "map_of (track w) (j_ID j)")
  case None
  obtain t w1 where "initialActivity j now w = (Inr t, w1)" "track w1 = track w" using initialActivity_ok by blast
  then show thesis
    using that [of "wd_Stall wd \<le> time_Sub now t" "w1\<lparr>track := AList.update (j_ID j) (observed j t) (track w1)\<rparr>" t] None
    by (simp add: evaluate_def io_simps update_conv')
next
  case (Some p)
  let ?m = "if moved_since p j then now else tr_lastMove p"
  show thesis
    using that [of "wd_Stall wd \<le> time_Sub now ?m" "w\<lparr>track := AList.update (j_ID j) (observed j ?m) (track w)\<rparr>" ?m] Some
    by (simp add: evaluate_def io_simps update_conv' moved_since_iff)
qed

lemma watch_spares:
  assumes "sorted (now # map fst obs)" "list_all (\<lambda>(t, j). j_ID j = i) obs"
    and "map_of (track w) i = Some p" "\<forall>(t, j) \<in> set hist. tr_lastMove p < t \<longrightarrow> visible j = tracked p" "\<forall>(t, j) \<in> set hist. t \<le> now"
    and "watch wd obs w = xs @ (t, j, True) # ys" "0 < wd_Stall wd" "wd_Stall wd < 2 ^ 63"
    and "(t', j') \<in> set hist \<union> set (map (\<lambda>(t, j, k). (t, j)) xs)" "t - wd_Stall wd < t'"
  shows "visible j' = visible j"
  using assms(1-6,9)
proof (induction obs arbitrary: now hist w p xs)
  case Nil
  then show ?case by simp
next
  case (Cons tj obs)
  obtain t1 j1 where tj: "tj = (t1, j1)" by fastforce
  have id: "j_ID j1 = i" using Cons.prems(2) tj by simp
  obtain kill w' m where run: "evaluate wd j1 t1 w = (Inr kill, w')"
    and new: "map_of (track w') i = Some (observed j1 m)" "kill = (wd_Stall wd \<le> time_Sub t1 m)"
    and m: "m = (if tracked p = visible j1 then tr_lastMove p else t1)"
    using evaluate_cases [of wd j1 t1 w] Cons.prems(3) id by metis
  have out: "watch wd (tj # obs) w = (t1, j1, kill) # watch wd obs w'" by (simp add: tj run)
  have le: "now \<le> t1" "sorted (t1 # map fst obs)" using Cons.prems(1) tj by auto
  have same: "\<forall>(t, j) \<in> set (hist @ [(t1, j1)]). m < t \<longrightarrow> visible j = tracked (observed j1 m)"
  proof (cases "tracked p = visible j1")
    case True
    then have "m = tr_lastMove p" "tracked (observed j1 m) = tracked p" by (simp_all add: m observed_def)
    then show ?thesis using Cons.prems(4) True by auto
  next
    case False
    then have "m = t1" using m by argo
    then show ?thesis using Cons.prems(5) le(1) by auto
  qed
  show ?case
  proof (cases xs)
    case Nil
    then have here: "t = t1" "j = j1" "kill" using Cons.prems(6) out by auto
    then have "m \<le> t - wd_Stall wd" using new(2) stall_reached [of wd t1 m] assms(7,8) by simp
    then show ?thesis using same assms(10) Cons.prems(7) Nil here by (auto simp: observed_def)
  next
    case (Cons x xs')
    then have "watch wd obs w' = xs' @ (t, j, True) # ys" "x = (t1, j1, kill)" using Cons.prems(6) out by auto
    moreover have "(t', j') \<in> set (hist @ [(t1, j1)]) \<union> set (map (\<lambda>(t, j, k). (t, j)) xs')"
      using Cons.prems(7) calculation(2) Cons by auto
    moreover have "\<forall>(t, j) \<in> set (hist @ [(t1, j1)]). t \<le> t1" using Cons.prems(5) le(1) by auto
    ultimately show ?thesis
      using Cons.IH [of t1 w' "observed j1 m" "hist @ [(t1, j1)]" xs'] le(2) Cons.prems(2) tj new(1) same by (simp add: observed_def)
  qed
qed

text \<open>
  C30: the watchdog spares a job that moves. Over any sequence of observations of a job, at times that do not go back:
  when the watchdog decides to kill the job at time \<open>t\<close>, then at every earlier observation less than the stall time
  before \<open>t\<close> the bytes, the items, the percentage and the message of the job were what they are now. (Observations
  before the watchdog has seen the job do not count: the first one takes the last log line or the start as the last
  move.)
\<close>

theorem watchdog_spares_moving_jobs:
  assumes "sorted (map fst obs)" "list_all (\<lambda>(t, j). j_ID j = i) obs"
    and "0 < wd_Stall wd" "wd_Stall wd < 2 ^ 63"
    and "watch wd obs w = xs @ (t, j, True) # ys" "(t', j', k) \<in> set xs" "t - wd_Stall wd < t'"
  shows "visible j' = visible j"
proof (cases obs)
  case Nil
  then show ?thesis using assms(5) by simp
next
  case (Cons tj obs')
  obtain t1 j1 where tj: "tj = (t1, j1)" by fastforce
  have id: "j_ID j1 = i" using assms(2) Cons tj by simp
  obtain kill w' m where run: "evaluate wd j1 t1 w = (Inr kill, w')" and new: "map_of (track w') i = Some (observed j1 m)"
    using evaluate_cases [of wd j1 t1 w] id by metis
  obtain x xs' where xs: "xs = x # xs'" using assms(6) by (cases xs) auto
  then have rest: "watch wd obs' w' = xs' @ (t, j, True) # ys" and x: "x = (t1, j1, kill)"
    using assms(5) Cons tj run by auto
  show ?thesis
  proof (rule watch_spares [OF _ _ new _ _ rest assms(3,4) _ assms(7)])
    show "sorted (t1 # map fst obs')" using assms(1) Cons tj by simp
    show "list_all (\<lambda>(t, j). j_ID j = i) obs'" using assms(2) Cons by simp
    show "\<forall>(t, j) \<in> set [(t1, j1)]. tr_lastMove (observed j1 m) < t \<longrightarrow> visible j = tracked (observed j1 m)"
      by (simp add: observed_def)
    show "\<forall>(t, j) \<in> set [(t1, j1)]. t \<le> t1" by simp
    show "(t', j') \<in> set [(t1, j1)] \<union> set (map (\<lambda>(t, j, k). (t, j)) xs')" using assms(6) xs x by force
  qed
qed

end
