(* ===== verification/Scheduler.thy ===== *)
theory Scheduler
  imports Watchdog
begin

text \<open>
  The scheduler of \<open>internal/backup/scheduler.go\<close> over the package \<open>cron\<close>, which is outside of the program: the world
  has its table of entries, and \<open>cron_ok\<close> says which expressions its parser accepts. When an entry fires is up to that
  package; \<open>run_entry\<close> is what happens then.
\<close>

section \<open>State\<close>

datatype cron_func = FireSchedule Schedule | CheckExpiry | ScanUsage

record sched_world = watch_world +
  cron_entries :: "(nat \<times> string \<times> cron_func) list"
  cron_next :: nat
  entryIDs :: "nat list"

definition cron_Remove :: "nat \<Rightarrow> ('w sched_world_scheme, unit) io" where
  "cron_Remove i = modify (\<lambda>w. w\<lparr>cron_entries := filter (\<lambda>e. fst e \<noteq> i) (cron_entries w)\<rparr>)"

definition cron_AddFunc :: "(string \<Rightarrow> bool) \<Rightarrow> string \<Rightarrow> cron_func \<Rightarrow> ('w sched_world_scheme, nat) io" where
  "cron_AddFunc cron_ok spec f =
     (if \<not> cron_ok spec then throw (Err ''failed to parse cron expression'')
      else bindE (gets cron_next) (\<lambda>i.
           bindE (modify (\<lambda>w. w\<lparr>cron_entries := cron_entries w @ [(i, spec, f)], cron_next := Suc i\<rparr>)) (\<lambda>_. ret i)))"

section \<open>Operations\<close>

definition fire :: "_ \<Rightarrow> Schedule \<Rightarrow> ('w sched_world_scheme, unit) io" where
  "fire r sch =
     attempt (GetTenant (sc_TenantID sch)) (\<lambda>x. case x of
       Inl _ \<Rightarrow> ret ()
     | Inr t \<Rightarrow>
         (if t_Status t \<noteq> ''active'' then ret ()
          else (let jobType = (if sc_Service sch = ''pst'' then ''export'' else ''delta'')
                in attempt (Enqueue r (sc_TenantID sch) (sc_Service sch) (sc_ID sch) jobType) (\<lambda>y.
                     if (case y of Inl e \<Rightarrow> \<not> errors_Is e ErrTenantBusy | Inr _ \<Rightarrow> False) then ret ()
                     else bindE time_Now (\<lambda>now. ignore (UpdateSchedule (sch\<lparr>sc_LastRun := now\<rparr>)))))))"

fun add_schedules :: "(string \<Rightarrow> bool) \<Rightarrow> Schedule list \<Rightarrow> ('w sched_world_scheme, unit) io" where
  "add_schedules cron_ok [] = ret ()"
| "add_schedules cron_ok (sch # schs) =
     attempt (cron_AddFunc cron_ok (sc_CronExpr sch) (FireSchedule sch)) (\<lambda>x. case x of
       Inl _ \<Rightarrow> add_schedules cron_ok schs
     | Inr i \<Rightarrow> bindE (modify (\<lambda>w. w\<lparr>entryIDs := entryIDs w @ [i]\<rparr>)) (\<lambda>_. add_schedules cron_ok schs))"

definition Reload :: "(string \<Rightarrow> bool) \<Rightarrow> ('w sched_world_scheme, unit) io" where
  "Reload cron_ok =
     bindE (gets entryIDs) (\<lambda>old.
     bindE (for_each old cron_Remove) (\<lambda>_.
     bindE (modify (\<lambda>w. w\<lparr>entryIDs := []\<rparr>)) (\<lambda>_.
     bindE ListAllSchedules (\<lambda>schs. add_schedules cron_ok schs))))"

definition ensure_all :: "('w sched_world_scheme, unit) io" where
  "ensure_all =
     attempt ListTenants (\<lambda>x. case x of
       Inl _ \<Rightarrow> ret ()
     | Inr ts \<Rightarrow> for_each ts (\<lambda>t. ignore (EnsureDefaultSchedules (t_ID t))))"

definition Scheduler_Start :: "(string \<Rightarrow> bool) \<Rightarrow> ('w sched_world_scheme, unit) io" where
  "Scheduler_Start cron_ok =
     bindE ensure_all (\<lambda>_.
     bindE (Reload cron_ok) (\<lambda>_.
     bindE (ignore (cron_AddFunc cron_ok ''0 8 * * *'' CheckExpiry)) (\<lambda>_.
       ignore (cron_AddFunc cron_ok ''15 * * * *'' ScanUsage))))"

section \<open>The table of entries\<close>

text \<open>The schedules that will fire, in the order of their entries.\<close>

fun entry_schedule :: "nat \<times> string \<times> cron_func \<Rightarrow> Schedule option" where
  "entry_schedule (i, spec, FireSchedule s) = Some s"
| "entry_schedule (i, spec, f) = None"

definition scheduled :: "'w sched_world_scheme \<Rightarrow> Schedule list" where
  "scheduled w = List.map_filter entry_schedule (cron_entries w)"

definition others :: "'w sched_world_scheme \<Rightarrow> (nat \<times> string \<times> cron_func) list" where
  "others w = filter (\<lambda>e. entry_schedule e = None) (cron_entries w)"

text \<open>Entries have distinct numbers below the next one, and the scheduler knows exactly those of its schedules.\<close>

definition sched_inv :: "'w sched_world_scheme \<Rightarrow> bool" where
  "sched_inv w =
     (distinct (map fst (cron_entries w)) \<and> (\<forall>e \<in> set (cron_entries w). fst e < cron_next w)
      \<and> set (entryIDs w) = fst ` {e \<in> set (cron_entries w). entry_schedule e \<noteq> None})"

lemma remove_all:
  "for_each is cron_Remove w = (Inr (), w\<lparr>cron_entries := filter (\<lambda>e. fst e \<notin> set is) (cron_entries w)\<rparr>)"
  by (induction "is" arbitrary: w) (auto simp: cron_Remove_def io_simps intro!: filter_cong arg_cong [where f = "\<lambda>x. _\<lparr>cron_entries := x\<rparr>"])

lemma add_schedules_run:
  assumes "sched_inv w"
  shows "\<exists>w'. add_schedules cron_ok schs w = (Inr (), w') \<and> sched_inv w'
    \<and> scheduled w' = scheduled w @ filter (\<lambda>s. cron_ok (sc_CronExpr s)) schs \<and> others w' = others w"
  using assms
proof (induction schs arbitrary: w)
  case Nil
  then show ?case by (simp add: io_simps)
next
  case (Cons s schs)
  show ?case
  proof (cases "cron_ok (sc_CronExpr s)")
    case False
    then show ?thesis using Cons.IH [OF Cons.prems] by (simp add: cron_AddFunc_def io_simps)
  next
    case True
    let ?e = "(cron_next w, sc_CronExpr s, FireSchedule s)"
    let ?w = "w\<lparr>cron_entries := cron_entries w @ [?e], cron_next := Suc (cron_next w), entryIDs := entryIDs w @ [cron_next w]\<rparr>"
    have "{e \<in> set (cron_entries ?w). entry_schedule e \<noteq> None} = insert ?e {e \<in> set (cron_entries w). entry_schedule e \<noteq> None}"
      by auto
    then have "sched_inv ?w" using Cons.prems by (auto simp: sched_inv_def less_SucI)
    moreover have "scheduled ?w = scheduled w @ [s]" "others ?w = others w"
      by (simp_all add: scheduled_def others_def map_filter_def)
    moreover have "add_schedules cron_ok (s # schs) w = add_schedules cron_ok schs ?w"
      using True by (simp add: cron_AddFunc_def io_simps)
    ultimately show ?thesis using Cons.IH [of ?w] True by auto
  qed
qed

text \<open>
  What runs by the clock. Whatever was scheduled before, a successful \<open>Reload\<close> leaves exactly one entry for every
  enabled schedule with a valid expression, in the order of the table, and the fixed entries as they were. When the
  table cannot be read, no entry is left at all: all scheduled backups stop until the next \<open>Reload\<close> that succeeds,
  and the handlers that call it drop its error.
\<close>

theorem Reload_exact:
  assumes "sched_inv w" "Reload cron_ok w = (x, w')"
  shows "sched_inv w' \<and> others w' = others w
    \<and> scheduled w' = (case x of Inr _ \<Rightarrow> filter (\<lambda>s. sc_Enabled s \<and> cron_ok (sc_CronExpr s)) (schedules w) | Inl _ \<Rightarrow> [])"
proof -
  let ?w = "w\<lparr>cron_entries := filter (\<lambda>e. fst e \<notin> set (entryIDs w)) (cron_entries w), entryIDs := []\<rparr>"
  have keep: "fst e \<notin> set (entryIDs w) \<longleftrightarrow> entry_schedule e = None" if "e \<in> set (cron_entries w)" for e
    using assms(1) that by (auto simp: sched_inv_def distinct_map dest: inj_onD)
  then have rest: "filter (\<lambda>e. fst e \<notin> set (entryIDs w)) (cron_entries w) = others w"
    by (auto simp: others_def intro!: filter_cong)
  have inv: "sched_inv (?w\<lparr>faults := fs\<rparr>)" for fs
    using assms(1) unfolding rest by (auto simp: sched_inv_def others_def distinct_map intro: inj_on_subset)
  have none: "scheduled (?w\<lparr>faults := fs\<rparr>) = []" "others (?w\<lparr>faults := fs\<rparr>) = others w" for fs
    unfolding rest by (auto simp: scheduled_def others_def map_filter_def filter_empty_conv)
  have step: "Reload cron_ok w = bindE ListAllSchedules (\<lambda>schs. add_schedules cron_ok schs) ?w"
    by (simp add: Reload_def io_simps remove_all split: prod.split)
  show ?thesis
  proof (cases "ListAllSchedules ?w")
    case (Pair y w1)
    show ?thesis
    proof (cases y)
      case (Inl e)
      then obtain fs where "w1 = ?w\<lparr>faults := fs\<rparr>" using query_Inl [OF Pair [unfolded ListAllSchedules_def Inl]] by auto
      then show ?thesis using step assms(2) Pair Inl inv none by (auto simp: bindE_def)
    next
      case (Inr schs)
      then obtain fs where w1: "w1 = ?w\<lparr>faults := fs\<rparr>" and schs: "schs = filter sc_Enabled (schedules w1)"
        using query_Inr [OF Pair [unfolded ListAllSchedules_def Inr]] by auto
      obtain w2 where run: "add_schedules cron_ok schs w1 = (Inr (), w2)" and inv2: "sched_inv w2"
        and two: "scheduled w2 = scheduled w1 @ filter (\<lambda>s. cron_ok (sc_CronExpr s)) schs" "others w2 = others w1"
        using add_schedules_run [OF inv [of fs], of cron_ok schs] w1 by blast
      have "x = Inr ()" "w' = w2" using step assms(2) Pair Inr run by (simp_all add: bindE_def)
      moreover have "schs = filter sc_Enabled (schedules w)" using schs w1 by simp
      ultimately show ?thesis using inv2 two none [of fs] w1 by (simp add: conj_commute)
    qed
  qed
qed

end
