(* ===== verification/Catalog_Browse.thy ===== *)
theory Catalog_Browse
  imports Catalog_Import "HOL-Library.Multiset"
begin

text \<open>
  Looking into a catalog: \<open>internal/catalog/browse.go\<close>, the rest of \<open>internal/catalog/zip.go\<close>, and the entries of
  \<open>internal/storage/browse.go\<close>. A directory of the live items or of a generation is listed by grouping the paths of
  its items.
\<close>

section \<open>Entries\<close>

record BrowseEntry =
  be_Name :: string
  be_Path :: string
  be_IsDir :: bool
  be_Size :: int
  be_Subject :: string
  be_From :: string
  be_ReceivedAt :: gotime

record pathEntry =
  pe_Path :: string
  pe_Size :: int
  pe_Hash :: string
  pe_Subject :: string
  pe_From :: string
  pe_MTime :: gotime

definition EnrichBrowseEntryFromName :: "string \<Rightarrow> BrowseEntry \<Rightarrow> BrowseEntry" where
  "EnrichBrowseEntryFromName fileName be =
     (if be_IsDir be \<or> \<not> strings_HasSuffix (strings_ToLower fileName) ''.eml'' then be
      else (case SubjectFromEMLFilename fileName of
              Some subj \<Rightarrow> be\<lparr>be_Subject := subj, be_Name := subj @ ''.eml''\<rparr>
            | None \<Rightarrow> be\<lparr>be_Name := fileName\<rparr>))"

text \<open>
  Directories first, then what has a time, newest first, then the rest, each by name. \<open>sort.Slice\<close> promises no order
  for entries that are equal in all of this; the model takes the order they had.
\<close>

definition SortBrowseEntries :: "BrowseEntry list \<Rightarrow> BrowseEntry list" where
  "SortBrowseEntries es =
     sort_key (\<lambda>e. if be_IsDir e then 0 else 1 :: nat)
       (sort_key (\<lambda>e. if be_ReceivedAt e = zero_time then 1 else 0 :: nat)
         (sort_key (\<lambda>e. - be_ReceivedAt e) (sort_key (\<lambda>e. strings_ToLower (be_Name e)) es)))"

definition itemsToPaths :: "Item list \<Rightarrow> pathEntry list" where
  "itemsToPaths items =
     map (\<lambda>it. \<lparr>pe_Path = RelPath it, pe_Size = it_Size it, pe_Hash = it_BlobHash it, pe_Subject = it_Subject it,
                pe_From = it_FromAddr it, pe_MTime = it_MTime it\<rparr>) items"

text \<open>The name a mail is shown with.\<close>

definition named :: "string \<Rightarrow> BrowseEntry \<Rightarrow> BrowseEntry" where
  "named name be =
     (if be_Subject be = [] then EnrichBrowseEntryFromName name be
      else if strings_HasSuffix (strings_ToLower name) ''.eml'' then be\<lparr>be_Name := be_Subject be @ ''.eml''\<rparr>
      else be)"

definition itemEntry :: "Item \<Rightarrow> BrowseEntry" where
  "itemEntry it =
     named (it_Name it)
       \<lparr>be_Name = it_Name it, be_Path = RelPath it, be_IsDir = False, be_Size = it_Size it, be_Subject = it_Subject it,
        be_From = it_FromAddr it, be_ReceivedAt = it_MTime it\<rparr>"

definition dir_entry :: "string \<Rightarrow> string \<Rightarrow> BrowseEntry" where
  "dir_entry rel d =
     \<lparr>be_Name = d, be_Path = (if rel = [] then d else rel @ ''/'' @ d), be_IsDir = True, be_Size = 0, be_Subject = [],
      be_From = [], be_ReceivedAt = zero_time\<rparr>"

definition file_entry :: "pathEntry \<Rightarrow> BrowseEntry" where
  "file_entry pe =
     (let name = path_Base (pe_Path pe)
      in named name
           \<lparr>be_Name = name, be_Path = pe_Path pe, be_IsDir = False, be_Size = pe_Size pe, be_Subject = pe_Subject pe,
            be_From = pe_From pe, be_ReceivedAt = pe_MTime pe\<rparr>)"

text \<open>What is left of a path below a directory; nothing for the directory itself and for what lies elsewhere.\<close>

definition below :: "string \<Rightarrow> string \<Rightarrow> string option" where
  "below rel p =
     (let q = (if rel = [] then Some p
               else if p = rel then None
               else if \<not> strings_HasPrefix p (rel @ ''/'') then None
               else Some (strings_TrimPrefix p (rel @ ''/'')))
      in if q = Some [] then None else q)"

fun entries_loop :: "string \<Rightarrow> pathEntry list \<Rightarrow> string list \<Rightarrow> BrowseEntry list" where
  "entries_loop rel [] dirSeen = []"
| "entries_loop rel (pe # pes) dirSeen =
     (case below rel (pe_Path pe) of
        None \<Rightarrow> entries_loop rel pes dirSeen
      | Some p \<Rightarrow>
          (if slash \<in> set p then
             (let d = takeWhile (\<lambda>c. c \<noteq> slash) p
              in if d \<in> set dirSeen then entries_loop rel pes dirSeen
                 else dir_entry rel d # entries_loop rel pes (d # dirSeen))
           else file_entry pe # entries_loop rel pes dirSeen))"

definition entriesAtPrefix :: "pathEntry list \<Rightarrow> string \<Rightarrow> BrowseEntry list" where
  "entriesAtPrefix paths rel = SortBrowseEntries (entries_loop rel paths [])"

definition browseMatches :: "BrowseEntry \<Rightarrow> string \<Rightarrow> bool" where
  "browseMatches be q =
     (strings_Contains (strings_ToLower (be_Path be)) q \<or> strings_Contains (strings_ToLower (be_Name be)) q
      \<or> strings_Contains (strings_ToLower (be_Subject be)) q \<or> strings_Contains (strings_ToLower (be_From be)) q)"

section \<open>Listing and searching\<close>

definition BrowseLive :: "Store \<Rightarrow> string \<Rightarrow> string \<Rightarrow> ('w cat_world_scheme, BrowseEntry list) io" where
  "BrowseLive s service rel =
     bindE (ListLiveItems s service [] []) (\<lambda>items. ret (entriesAtPrefix (itemsToPaths items) (normalizeRel rel)))"

definition take_matches :: "int \<Rightarrow> string \<Rightarrow> BrowseEntry list \<Rightarrow> BrowseEntry list" where
  "take_matches limit q es = take (nat limit) (filter (\<lambda>e. browseMatches e q) es)"

definition SearchLive :: "Store \<Rightarrow> string \<Rightarrow> string \<Rightarrow> int \<Rightarrow> ('w cat_world_scheme, BrowseEntry list) io" where
  "SearchLive s service query0 limit0 =
     (let q = strings_ToLower (strings_TrimSpace query0); limit = (if limit0 \<le> 0 then 500 else limit0)
      in if q = [] then BrowseLive s service []
         else bindE (ListLiveItems s service [] []) (\<lambda>items.
           ret (SortBrowseEntries (take_matches limit q (map itemEntry items)))))"

definition manifest_paths :: "Manifest \<Rightarrow> pathEntry list" where
  "manifest_paths man =
     map (\<lambda>e. \<lparr>pe_Path = me_Path e, pe_Size = me_Size e, pe_Hash = me_Hash e, pe_Subject = [], pe_From = [],
               pe_MTime = zero_time\<rparr>) (m_Items man)"

definition BrowseGeneration :: "codec \<Rightarrow> Store \<Rightarrow> string \<Rightarrow> int \<Rightarrow> string \<Rightarrow> ('w cat_world_scheme, BrowseEntry list) io" where
  "BrowseGeneration c s service gen rel =
     bindE (ReadManifest c s service gen) (\<lambda>man. ret (entriesAtPrefix (manifest_paths man) (normalizeRel rel)))"

definition search_entry :: "ManifestEntry \<Rightarrow> BrowseEntry" where
  "search_entry e =
     (let name = path_Base (me_Path e)
      in EnrichBrowseEntryFromName name
           \<lparr>be_Name = name, be_Path = me_Path e, be_IsDir = False, be_Size = me_Size e, be_Subject = [], be_From = [],
            be_ReceivedAt = zero_time\<rparr>)"

definition SearchGeneration ::
  "codec \<Rightarrow> Store \<Rightarrow> string \<Rightarrow> int \<Rightarrow> string \<Rightarrow> int \<Rightarrow> ('w cat_world_scheme, BrowseEntry list) io" where
  "SearchGeneration c s service gen query0 limit0 =
     (let q = strings_ToLower (strings_TrimSpace query0); limit = (if limit0 \<le> 0 then 500 else limit0)
      in bindE (ReadManifest c s service gen) (\<lambda>man.
           if q = [] then BrowseGeneration c s service gen []
           else ret (SortBrowseEntries (take_matches limit q (map search_entry (m_Items man))))))"

section \<open>Opening\<close>

definition OpenLiveFile :: "Store \<Rightarrow> string \<Rightarrow> string \<Rightarrow> ('w cat_world_scheme, string \<times> string) io" where
  "OpenLiveFile s service rel0 =
     (let rel = normalizeRel rel0
      in if rel = [] then throw (Err ''not a file'')
         else bindE (ListLiveItems s service [] []) (\<lambda>items.
           case List.find (\<lambda>it. RelPath it = rel) items of
             None \<Rightarrow> throw (Err ''not found'')
           | Some it \<Rightarrow> bindE (blob_Get (Blobs s) (it_BlobHash it)) (\<lambda>data. ret (it_Name it, data))))"

definition OpenGenerationFile :: "codec \<Rightarrow> Store \<Rightarrow> string \<Rightarrow> int \<Rightarrow> string \<Rightarrow> ('w cat_world_scheme, string \<times> string) io" where
  "OpenGenerationFile c s service gen rel0 =
     (let rel = normalizeRel rel0
      in bindE (ReadManifest c s service gen) (\<lambda>man.
           case List.find (\<lambda>e. me_Path e = rel) (m_Items man) of
             None \<Rightarrow> throw (Err ''not found'')
           | Some e \<Rightarrow> bindE (blob_Get (Blobs s) (me_Hash e)) (\<lambda>data. ret (path_Base (me_Path e), data))))"

text \<open>The name offered for the download, and the data.\<close>

definition ServeFile :: "codec \<Rightarrow> Store \<Rightarrow> string \<Rightarrow> string \<Rightarrow> string \<Rightarrow> ('w cat_world_scheme, string \<times> string) io" where
  "ServeFile c s service version rel =
     bindE (if version = [] \<or> version = ''live'' then OpenLiveFile s service rel
            else bindE (GetSnapshot s version) (\<lambda>sn. OpenGenerationFile c s (sn_Service sn) (sn_Generation sn) rel)) (\<lambda>(name, data).
       ret (case SubjectFromEMLFilename name of Some subj \<Rightarrow> subj @ ''.eml'' | None \<Rightarrow> name, data))"

definition GetItemByPath :: "Store \<Rightarrow> string \<Rightarrow> string \<Rightarrow> ('w cat_world_scheme, Item) io" where
  "GetItemByPath s service rel0 =
     bindE (ListLiveItems s service [] []) (\<lambda>items.
       case List.find (\<lambda>it. RelPath it = normalizeRel rel0) items of None \<Rightarrow> throw ErrNoRows | Some it \<Rightarrow> ret it)"

section \<open>A directory shows its content\<close>

lemma set_SortBrowseEntries [simp]: "set (SortBrowseEntries es) = set es"
  by (simp add: SortBrowseEntries_def)

lemma named_keeps [simp]: "be_Path (named name be) = be_Path be" "be_IsDir (named name be) = be_IsDir be"
  by (auto simp: named_def EnrichBrowseEntryFromName_def split: option.split)

lemma file_entry_keeps [simp]: "be_Path (file_entry pe) = pe_Path pe" "\<not> be_IsDir (file_entry pe)"
  by (simp_all add: file_entry_def Let_def)

lemma dir_entry_simps [simp]: "be_IsDir (dir_entry rel d)" "be_Name (dir_entry rel d) = d"
  by (simp_all add: dir_entry_def)

text \<open>The path of a child of a directory.\<close>

definition child :: "string \<Rightarrow> string \<Rightarrow> string" where
  "child rel p = (if rel = [] then p else rel @ ''/'' @ p)"

lemma below_iff: "below rel q = Some p \<longleftrightarrow> p \<noteq> [] \<and> q = child rel p"
proof (cases "rel = []")
  case False
  have "q = rel @ slash # drop (Suc (length rel)) q" if "take (Suc (length rel)) q = rel @ [slash]"
    using append_take_drop_id [of "Suc (length rel)" q] that by simp
  with False show ?thesis
    by (auto simp: below_def child_def strings_TrimPrefix_def strings_HasPrefix_def Let_def)
qed (auto simp: below_def child_def)

lemma dir_entry_path: "be_Path (dir_entry rel d) = child rel d"
  by (simp add: dir_entry_def child_def)

lemma child_inject [simp]: "child rel p = child rel q \<longleftrightarrow> p = q"
  by (simp add: child_def)

text \<open>The paths that are files of the directory, and the names of its directories.\<close>

definition file_in :: "string \<Rightarrow> string \<Rightarrow> bool" where
  "file_in rel q \<longleftrightarrow> (\<exists>n. n \<noteq> [] \<and> slash \<notin> set n \<and> q = child rel n)"

definition dirs_in :: "string \<Rightarrow> string set \<Rightarrow> string set" where
  "dirs_in rel qs = {d. slash \<notin> set d \<and> (\<exists>rest. child rel (d @ ''/'' @ rest) \<in> qs)}"

lemma dirs_in_insert_file: "file_in rel q \<Longrightarrow> dirs_in rel (insert q qs) = dirs_in rel qs"
  by (auto simp: file_in_def dirs_in_def)

lemma dirs_in_insert_dir:
  assumes "slash \<in> set p"
  shows "dirs_in rel (insert (child rel p) qs) = insert (takeWhile (\<lambda>c. c \<noteq> slash) p) (dirs_in rel qs)"
proof -
  have "takeWhile (\<lambda>c. c \<noteq> slash) (d @ slash # rest) = d" if "slash \<notin> set d" for d rest
    using that by (induction d) auto
  moreover have "\<exists>rest. p = takeWhile (\<lambda>c. c \<noteq> slash) p @ slash # rest"
    using assms by (induction p) auto
  ultimately show ?thesis
    by (auto simp: dirs_in_def dest: set_takeWhileD) (metis)
qed

lemma dirs_in_insert_none: "below rel q = None \<Longrightarrow> dirs_in rel (insert q qs) = dirs_in rel qs"
  using below_iff [of rel q] by (auto simp: dirs_in_def)

lemma file_in_below: "file_in rel q \<longleftrightarrow> (\<exists>p. below rel q = Some p \<and> slash \<notin> set p)"
  by (auto simp: file_in_def below_iff)

lemma entries_loop_files:
  "filter (\<lambda>e. \<not> be_IsDir e) (entries_loop rel pes ds) = map file_entry (filter (\<lambda>pe. file_in rel (pe_Path pe)) pes)"
  by (induction rel pes ds rule: entries_loop.induct) (auto simp: file_in_below Let_def split: option.splits)

abbreviation dir_names :: "BrowseEntry list \<Rightarrow> string list" where
  "dir_names es \<equiv> map be_Name (filter be_IsDir es)"

lemma entries_loop_dirs:
  "distinct (dir_names (entries_loop rel pes ds)) \<and>
   set (dir_names (entries_loop rel pes ds)) = dirs_in rel (set (map pe_Path pes)) - set ds"
proof (induction pes arbitrary: ds)
  case Nil
  then show ?case by (simp add: dirs_in_def)
next
  case (Cons pe pes)
  show ?case
  proof (cases "below rel (pe_Path pe)")
    case None
    then show ?thesis using Cons [of ds] by (simp add: dirs_in_insert_none)
  next
    case (Some p)
    then have q: "pe_Path pe = child rel p" by (simp add: below_iff)
    show ?thesis
    proof (cases "slash \<in> set p")
      case False
      then have "file_in rel (child rel p)" using Some by (auto simp: file_in_below q)
      then show ?thesis using Cons [of ds] Some False by (simp add: dirs_in_insert_file q)
    next
      case True
      define d where "d = takeWhile (\<lambda>c. c \<noteq> slash) p"
      have step: "dir_names (entries_loop rel (pe # pes) ds)
          = (if d \<in> set ds then dir_names (entries_loop rel pes ds) else d # dir_names (entries_loop rel pes (d # ds)))"
        using True Some by (simp add: d_def Let_def)
      have dirs: "dirs_in rel (set (map pe_Path (pe # pes))) = insert d (dirs_in rel (set (map pe_Path pes)))"
        using True by (simp add: q d_def dirs_in_insert_dir)
      show ?thesis
        unfolding step dirs using Cons [of ds] Cons [of "d # ds"]
        by (cases "d \<in> set ds") (simp_all only: if_True if_False distinct.simps list.set, blast+)
    qed
  qed
qed

lemma entries_loop_dir_paths: "e \<in> set (entries_loop rel pes ds) \<Longrightarrow> be_IsDir e \<Longrightarrow> e = dir_entry rel (be_Name e)"
  by (induction rel pes ds rule: entries_loop.induct) (auto simp: Let_def split: option.splits if_splits)

lemma filter_mset_Sort: "mset (filter P (SortBrowseEntries es)) = mset (filter P es)"
  by (simp add: SortBrowseEntries_def)

text \<open>
  A directory of a backup shows exactly its content. Each stored path that is a file directly in the directory gives
  one entry, with that path and the size of its item; each first component of a path further below gives one
  directory entry, once, whose path leads one level down; and nothing else is listed. So every stored item is reached
  by walking down from the root, and no path outside the directory shows up in it.
\<close>

theorem entriesAtPrefix_exact:
  "mset (filter (\<lambda>e. \<not> be_IsDir e) (entriesAtPrefix paths rel))
     = mset (map file_entry (filter (\<lambda>pe. file_in rel (pe_Path pe)) paths)) \<and>
   mset (filter be_IsDir (entriesAtPrefix paths rel))
     = mset_set (dir_entry rel ` dirs_in rel (pe_Path ` set paths))"
proof
  show "mset (filter (\<lambda>e. \<not> be_IsDir e) (entriesAtPrefix paths rel))
     = mset (map file_entry (filter (\<lambda>pe. file_in rel (pe_Path pe)) paths))"
    by (simp only: entriesAtPrefix_def filter_mset_Sort entries_loop_files)
  let ?ds = "filter be_IsDir (entries_loop rel paths [])"
  have d: "distinct (map be_Name ?ds)" "set (map be_Name ?ds) = dirs_in rel (set (map pe_Path paths))"
    using entries_loop_dirs [of rel paths "[]"] by simp_all
  have "map (dir_entry rel) (map be_Name ?ds) = ?ds"
    using entries_loop_dir_paths [of _ rel paths "[]"] by (auto intro!: map_idI simp: comp_def)
  then have "set ?ds = dir_entry rel ` dirs_in rel (pe_Path ` set paths)"
    using d(2) by (metis image_set)
  moreover have "mset ?ds = mset_set (set ?ds)"
    using d(1) by (metis distinct_map mset_set_set)
  ultimately show "mset (filter be_IsDir (entriesAtPrefix paths rel))
     = mset_set (dir_entry rel ` dirs_in rel (pe_Path ` set paths))"
    by (simp only: entriesAtPrefix_def filter_mset_Sort)
qed

end
