(* ===== verification/PST_Export.thy ===== *)
theory PST_Export
  imports Delta_Sync Go_Struct
begin

text \<open>
  The export of mailboxes as archives (\<open>internal/backup/pst.go\<close>, \<open>ZipItems\<close> of \<open>internal/catalog/zip.go\<close>, the
  directories and manifests of \<open>internal/storage/exports.go\<close>).

  The format of an archive is that of Go's \<open>archive/zip\<close>: \<open>zip\<close>, the bytes of a list of names and contents, is a
  parameter. The bytes reach the disk when the writer is closed.
\<close>

section \<open>Parameters of a run\<close>

record PSTExportParams =
  pp_Scope :: string
  pp_Mailbox :: string
  pp_Folder :: string

definition store_pst :: "PSTExportParams \<Rightarrow> string \<times> json \<Rightarrow> PSTExportParams \<times> bool" where
  "store_pst c kv =
     (let (k, v) = kv; key = strings_EqualFold k
      in if key ''scope'' then (case store_string v (pp_Scope c) of (x, b) \<Rightarrow> (c\<lparr>pp_Scope := x\<rparr>, b))
         else if key ''mailbox'' then (case store_string v (pp_Mailbox c) of (x, b) \<Rightarrow> (c\<lparr>pp_Mailbox := x\<rparr>, b))
         else if key ''folder'' then (case store_string v (pp_Folder c) of (x, b) \<Rightarrow> (c\<lparr>pp_Folder := x\<rparr>, b))
         else (c, False))"

text \<open>The checks after the text has been read.\<close>

definition check_scope :: "PSTExportParams \<Rightarrow> PSTExportParams result" where
  "check_scope q =
     (let s = strings_ToLower (strings_TrimSpace (pp_Scope q));
          p = \<lparr>pp_Scope = (if s = [] then ''all'' else s), pp_Mailbox = strings_TrimSpace (pp_Mailbox q),
               pp_Folder = strings_TrimSpace (pp_Folder q)\<rparr>
      in if pp_Scope p = ''all'' then Inr (p\<lparr>pp_Mailbox := [], pp_Folder := []\<rparr>)
         else if pp_Scope p = ''mailbox'' then
           (if pp_Mailbox p = [] then Inl (Err ''mailbox required for scope=mailbox'') else Inr (p\<lparr>pp_Folder := []\<rparr>))
         else if pp_Scope p = ''folder'' then
           (if pp_Mailbox p = [] \<or> pp_Folder p = [] then Inl (Err ''mailbox and folder required for scope=folder'') else Inr p)
         else Inl (Err (''unknown pst scope '' @ [CHR 0x22] @ pp_Scope p @ [CHR 0x22] @ '' (use all, mailbox, or folder)'')))"

definition parsePSTParams :: "string \<Rightarrow> PSTExportParams result" where
  "parsePSTParams raw0 =
     (let p = \<lparr>pp_Scope = ''all'', pp_Mailbox = [], pp_Folder = []\<rparr>; raw = strings_TrimSpace raw0
      in if raw = [] then Inr p
         else (case unmarshal store_pst p raw of
                 Inl e \<Rightarrow> Inl (Wrap ''invalid pst params'' e)
               | Inr q \<Rightarrow> check_scope q))"

definition pst_json :: "PSTExportParams \<Rightarrow> json" where
  "pst_json p =
     JObj ((''scope'', JStr (pp_Scope p))
       # (if pp_Mailbox p = [] then [] else [(''mailbox'', JStr (pp_Mailbox p))])
       @ (if pp_Folder p = [] then [] else [(''folder'', JStr (pp_Folder p))]))"

definition parsePSTParamsMust :: "PSTExportParams \<Rightarrow> PSTExportParams result" where
  "parsePSTParamsMust p = parsePSTParams (json_Marshal (pst_json p))"

definition EncodePSTParams :: "string \<Rightarrow> string \<Rightarrow> string \<Rightarrow> string result" where
  "EncodePSTParams scope mailbox folder =
     (let s = strings_ToLower (strings_TrimSpace scope);
          p = \<lparr>pp_Scope = (if s = [] then ''all'' else s), pp_Mailbox = strings_TrimSpace mailbox, pp_Folder = strings_TrimSpace folder\<rparr>
      in case parsePSTParamsMust p of
           Inl e \<Rightarrow> Inl e
         | Inr cleaned \<Rightarrow> Inr (json_Marshal (pst_json cleaned)))"

definition pstScopeLabel :: "PSTExportParams \<Rightarrow> string" where
  "pstScopeLabel p =
     (if pp_Scope p = ''mailbox'' then ''Postfach '' @ pp_Mailbox p
      else if pp_Scope p = ''folder'' then ''Ordner '' @ pp_Mailbox p @ ''/'' @ pp_Folder p
      else ''alle Postf'' @ [CHR 0xC3, CHR 0xA4] @ ''cher'')"

section \<open>Archives\<close>

definition entry_name :: "string \<Rightarrow> Item \<Rightarrow> string" where
  "entry_name mailbox it =
     path_Clean (if mailbox \<noteq> [] then strings_TrimPrefix (RelPath it) (mailbox @ ''/'') else RelPath it)"

text \<open>The entries, and the error that ended the loop early.\<close>

fun zip_loop :: "Store \<Rightarrow> string \<Rightarrow> Item list \<Rightarrow> (string \<times> string) list \<Rightarrow> ('w cat_world_scheme, (string \<times> string) list \<times> goerr option) io" where
  "zip_loop s mailbox [] es = ret (es, None)"
| "zip_loop s mailbox (it # its) es =
     (if it_BlobHash it = [] then zip_loop s mailbox its es
      else attempt (blob_Get (Blobs s) (it_BlobHash it)) (\<lambda>x. case x of
        Inl e \<Rightarrow> ret (es, Some e)
      | Inr data \<Rightarrow>
          attempt access (\<lambda>y. case y of
            Inl e \<Rightarrow> ret (es, Some e)
          | Inr _ \<Rightarrow> zip_loop s mailbox its (es @ [(entry_name mailbox it, data)]))))"

text \<open>
  \<open>ZipItems\<close>: the archive is closed by a deferred call on every path, and the error of closing it is dropped.
\<close>

definition ZipItems ::
  "((string \<times> string) list \<Rightarrow> string) \<Rightarrow> Store \<Rightarrow> string \<Rightarrow> string \<Rightarrow> string \<Rightarrow> string \<Rightarrow> ('w cat_world_scheme, nat \<times> int) io" where
  "ZipItems archive s service mailbox folder dest0 =
     bindE (ListLiveItems s service mailbox folder) (\<lambda>items.
     bindE (from_result (GuardPath dest0)) (\<lambda>dest.
     bindE (os_MkdirAll (filepath_Dir dest)) (\<lambda>_.
     bindE (os_WriteFile dest []) (\<lambda>_.
     bindE (zip_loop s mailbox items []) (\<lambda>(es, err).
     bindE (ignore (os_WriteFile dest (archive es))) (\<lambda>_.
       case err of
         Some e \<Rightarrow> throw e
       | None \<Rightarrow> ret (length es, int (sum_list (map (length \<circ> snd) es)))))))))"

section \<open>Directories of exports\<close>

definition stamp :: "gotime \<Rightarrow> string" where
  "stamp t =
     (let s = (t mod ns_per_day) div ns_per_sec
      in pad 4 (time_Year t) @ pad 2 (time_Month t) @ pad 2 (time_Day t) @ ''T''
         @ pad 2 (s div 3600) @ pad 2 (s div 60 mod 60) @ pad 2 (s mod 60) @ ''Z'')"

definition EnsurePSTExportDir :: "string \<Rightarrow> ('w fs_world_scheme, string \<times> string) io" where
  "EnsurePSTExportDir repoPath =
     bindE time_Now (\<lambda>now.
       (let runID = stamp now; runDir = path_Join [PSTExportRoot repoPath, runID]
        in attempt (os_MkdirAll runDir) (\<lambda>x. case x of
             Inl e \<Rightarrow> throw (Wrap ''mkdir pst export'' e)
           | Inr _ \<Rightarrow> ret (runID, runDir))))"

text \<open>\<open>time.Time.MarshalJSON\<close>: RFC 3339 with the fraction of the second, without trailing zeros.\<close>

definition rfc3339nano :: "gotime \<Rightarrow> string" where
  "rfc3339nano t =
     (let n = t mod ns_per_sec; frac = rev (dropWhile (\<lambda>c. c = CHR ''0'') (rev (pad 9 n)))
      in butlast (rfc3339 t) @ (if n = 0 then [] else CHR ''.'' # frac) @ ''Z'')"

definition run_json :: "PSTExportRun \<Rightarrow> json" where
  "run_json r =
     JObj ([(''id'', JStr (pr_ID r)), (''created_at'', JStr (rfc3339nano (pr_CreatedAt r))), (''path'', JStr (pr_Path r)),
            (''users'', JNum (show_int (pr_Users r))), (''files'', JNum (show_int (pr_Files r))), (''bytes'', JNum (show_int (pr_Bytes r))),
            (''human'', JStr (pr_Human r))]
       @ (if pr_Zips r = [] then [] else [(''zips'', JArr (map JStr (pr_Zips r)))])
       @ (if pr_Scope r = [] then [] else [(''scope'', JStr (pr_Scope r))])
       @ (if pr_Mailbox r = [] then [] else [(''mailbox'', JStr (pr_Mailbox r))])
       @ (if pr_Folder r = [] then [] else [(''folder'', JStr (pr_Folder r))]))"

definition WritePSTManifest :: "string \<Rightarrow> PSTExportRun \<Rightarrow> ('w fs_world_scheme, unit) io" where
  "WritePSTManifest dir run =
     bindE (from_result (FormatBytes (pr_Bytes run))) (\<lambda>human.
       os_WriteFile (path_Join [dir, ''manifest.json'']) (json_MarshalIndent 0 (run_json (run\<lparr>pr_Human := human\<rparr>))))"

section \<open>The run\<close>

record pstTarget =
  tg_Label :: string
  tg_Mailbox :: string
  tg_Folder :: string
  tg_ZipName :: string

definition box_target :: "string \<Rightarrow> pstTarget" where
  "box_target m = \<lparr>tg_Label = m, tg_Mailbox = m, tg_Folder = [], tg_ZipName = SanitizeExportName m @ ''.zip''\<rparr>"

definition resolvePSTTargets :: "Store \<Rightarrow> PSTExportParams \<Rightarrow> ('w cat_world_scheme, pstTarget list) io" where
  "resolvePSTTargets cat p =
     (if pp_Scope p = ''mailbox'' then
        bindE (ListMailboxes cat ''exchange'') (\<lambda>boxes.
          if pp_Mailbox p \<notin> set boxes then throw (Err (''Postfach nicht gefunden: '' @ pp_Mailbox p))
          else ret [box_target (pp_Mailbox p)])
      else if pp_Scope p = ''folder'' then
        bindE (ListFolders cat ''exchange'' (pp_Mailbox p)) (\<lambda>folders.
          if pp_Folder p \<notin> set folders then throw (Err (''Ordner nicht gefunden: '' @ pp_Folder p))
          else ret [\<lparr>tg_Label = pp_Mailbox p @ '' / '' @ pp_Folder p, tg_Mailbox = pp_Mailbox p, tg_Folder = pp_Folder p,
                     tg_ZipName = SanitizeExportName (pp_Mailbox p) @ ''__'' @ SanitizeExportName (pp_Folder p) @ ''.zip''\<rparr>])
      else
        bindE (ListMailboxes cat ''exchange'') (\<lambda>boxes.
          if boxes = [] then throw (Err (''Exchange-Katalog enth'' @ [CHR 0xC3, CHR 0xA4] @ ''lt keine Postf'' @ [CHR 0xC3, CHR 0xA4] @ ''cher''))
          else ret (map box_target boxes)))"

record pst_state =
  ps_job :: Job
  ps_res :: Result
  ps_bytes :: int
  ps_files :: nat

definition arrow :: string where
  "arrow = [CHR 0xE2, CHR 0x86, CHR 0x92]"

text \<open>One target; \<open>i\<close> of \<open>n\<close>.\<close>

definition pst_target ::
  "((string \<times> string) list \<Rightarrow> string) \<Rightarrow> Store \<Rightarrow> Progress option \<Rightarrow> string \<Rightarrow> nat \<Rightarrow> nat \<times> pstTarget \<Rightarrow> pst_state
   \<Rightarrow> ('w run_world_scheme, pst_state) io" where
  "pst_target archive cat prog runDir n it s =
     (let i = fst it; t = snd it; zipPath = path_Join [runDir, tg_ZipName t]; pct = 5 + int (i * 90 div n); jobID = j_ID (ps_job s);
          msg = ''Exportiere '' @ tg_Label t @ '' ('' @ show_nat (Suc i) @ ''/'' @ show_nat n @ '')'' @ ellipsis
      in bindE (res_Info msg (ps_res s)) (\<lambda>res1.
         bindE (SyncJob prog (ps_job s) res1 pct msg) (\<lambda>job1.
         attempt (on_ctx jobID (ZipItems archive cat ''exchange'' (tg_Mailbox t) (tg_Folder t) zipPath)) (\<lambda>x. case x of
           Inl e \<Rightarrow> bindE (res_Warn (tg_Label t @ '': '' @ err_text e) res1) (\<lambda>res2. ret (s\<lparr>ps_job := job1, ps_res := res2\<rparr>))
         | Inr (nFiles, nBytes) \<Rightarrow>
             (if nFiles = 0 then bindE (ignore (os_Remove zipPath)) (\<lambda>_. ret (s\<lparr>ps_job := job1, ps_res := res_Skip res1\<rparr>))
              else
                bindE (from_result (FormatBytes nBytes)) (\<lambda>human.
                bindE (res_Info (tg_Label t @ '' '' @ arrow @ '' '' @ tg_ZipName t @ '' ('' @ show_nat nFiles @ '' Mails, '' @ human @ '')'')
                         (addItems 1 nBytes res1)) (\<lambda>res2.
                  ret (s\<lparr>ps_job := job1, ps_res := res2, ps_bytes := ps_bytes s + nBytes, ps_files := ps_files s + nFiles\<rparr>))))))))"

text \<open>The targets in order; \<open>True\<close> when the context was cancelled in between.\<close>

fun pst_targets ::
  "((string \<times> string) list \<Rightarrow> string) \<Rightarrow> Store \<Rightarrow> Progress option \<Rightarrow> string \<Rightarrow> nat \<Rightarrow> (nat \<times> pstTarget) list \<Rightarrow> pst_state
   \<Rightarrow> ('w run_world_scheme, bool \<times> pst_state) io" where
  "pst_targets archive cat prog runDir n [] s = ret (False, s)"
| "pst_targets archive cat prog runDir n (t # ts) s =
     bindE (gets (ctx_done (j_ID (ps_job s)))) (\<lambda>d.
       if d then ret (True, s) else bindE (pst_target archive cat prog runDir n t s) (pst_targets archive cat prog runDir n ts))"

definition pst_finish ::
  "PSTExportParams \<Rightarrow> string \<Rightarrow> string \<Rightarrow> pst_state \<Rightarrow> ('w run_world_scheme, Job \<times> Result result) io" where
  "pst_finish params runID runDir s =
     bindE time_Now (\<lambda>now.
     bindE (attempt (WritePSTManifest runDir
              \<lparr>pr_ID = runID, pr_CreatedAt = now, pr_Path = runDir, pr_Users = rs_ItemsNew (ps_res s), pr_Files = int (ps_files s),
               pr_Bytes = ps_bytes s, pr_Human = [], pr_Zips = [], pr_Scope = pp_Scope params, pr_Mailbox = pp_Mailbox params, pr_Folder = pp_Folder params\<rparr>)
              (\<lambda>x. case x of Inl e \<Rightarrow> res_Warn (''manifest: '' @ err_text e) (ps_res s) | Inr _ \<Rightarrow> ret (ps_res s))) (\<lambda>res.
       if rs_ItemsNew res = 0 then
         bindE (ignore (os_RemoveAll runDir)) (\<lambda>_. ret (ps_job s, Inl (Err ''keine Mails zum Exportieren gefunden'')))
       else
         bindE (from_result (FormatBytes (ps_bytes s))) (\<lambda>human.
         bindE (res_Info (''Fertig: '' @ show_int (rs_ItemsNew res) @ '' Archiv(e), '' @ show_nat (ps_files s) @ '' Dateien, '' @ human
                  @ '' '' @ arrow @ '' exports/pst/'' @ runID) res) (\<lambda>res2.
           ret (ps_job s, Inr res2)))))"

definition pst_body ::
  "((string \<times> string) list \<Rightarrow> string) \<Rightarrow> Tenant \<Rightarrow> Job \<Rightarrow> Store \<Rightarrow> Progress option \<Rightarrow> ('w run_world_scheme, Job \<times> Result result) io" where
  "pst_body archive t job cat prog =
     (let res = (NewResult prog)\<lparr>rs_SkipSnapshot := True\<rparr>
      in attempt
           (bindE (from_result (parsePSTParams (j_Params job))) (\<lambda>params.
            bindE (on_ctx (j_ID job) (HasLiveItems cat ''exchange'')) (\<lambda>has.
            bindE (if has then ret () else throw (Err (''kein Exchange-Katalog vorhanden '' @ em_dash @ '' zuerst Exchange-Backup ausf''
                     @ [CHR 0xC3, CHR 0xBC] @ ''hren''))) (\<lambda>_.
            bindE (on_ctx (j_ID job) (resolvePSTTargets cat params)) (\<lambda>targets.
            bindE (EnsurePSTExportDir (t_StorePath t)) (\<lambda>(runID, runDir). ret (params, targets, runID, runDir)))))))
           (\<lambda>x. case x of
              Inl e \<Rightarrow> ret (job, Inl e)
            | Inr (params, targets, runID, runDir) \<Rightarrow>
                bindE (res_Info (''PST-Export ('' @ pstScopeLabel params @ '') nach '' @ runDir) (res\<lparr>rs_ExportPath := runDir\<rparr>)) (\<lambda>res1.
                bindE (pst_targets archive cat prog runDir (length targets) (enumerate 0 targets)
                         \<lparr>ps_job = job, ps_res = addTotal (int (length targets)) res1, ps_bytes = 0, ps_files = 0\<rparr>) (\<lambda>(stopped, s).
                  if stopped then ret (ps_job s, Inl ErrCanceled) else pst_finish params runID runDir s))))"

text \<open>The service needs no Graph client.\<close>

definition PSTExport :: "((string \<times> string) list \<Rightarrow> string) \<Rightarrow> ('w, 'w graph_sdk) ServiceBackup" where
  "PSTExport archive gc t job stageDir cat prog w =
     (case pst_body archive t job cat prog w of
        (Inl e, w') \<Rightarrow> ((job, Inl e), w')
      | (Inr r, w') \<Rightarrow> (r, w'))"

end
