(* ===== verification/Usage_Scan.thy ===== *)
theory Usage_Scan
  imports Scheduler Catalog_Browse Catalog_Retention PST_Export
begin

text \<open>
  The space a tenant uses: the rest of \<open>internal/storage/usage.go\<close>, the queries of \<open>internal/catalog/zip.go\<close>, the cached
  reports of \<open>internal/db/usage.go\<close> and the scanner of \<open>internal/backup/usage.go\<close>.

  A number of gigabytes is a \<open>float64\<close>. \<open>BytesToGB\<close> is given here in units of \<open>2 ^ -30\<close>, \<open>round2\<close> in hundredths:
  scaling by a power of two is exact, so each operation is one rounding to 53 bits (\<open>float_of_int\<close>). The JSON text of a
  report in the table is made and read by \<open>encoding/json\<close>; with its floating point numbers it is a parameter of the model
  (\<open>usage_codec\<close>).
\<close>

section \<open>Reports\<close>

record ServiceUsage =
  su_Service :: string
  su_SyncBytes :: int
  su_SyncHuman :: string
  su_SnapshotBytes :: int
  su_SnapshotHuman :: string
  su_SnapshotCount :: int
  su_TotalBytes :: int
  su_TotalHuman :: string

record UserUsage =
  uu_User :: string
  uu_Service :: string
  uu_Bytes :: int
  uu_Human :: string
  uu_GB :: int

record UsageReport =
  ur_TenantID :: string
  ur_RepoPath :: string
  ur_MeasuredAt :: gotime
  ur_TotalBytes :: int
  ur_TotalHuman :: string
  ur_TotalGB :: int
  ur_SnapshotsBytes :: int
  ur_SnapshotsHuman :: string
  ur_SyncBytes :: int
  ur_SyncHuman :: string
  ur_OtherBytes :: int
  ur_OtherHuman :: string
  ur_ExportsBytes :: int
  ur_ExportsHuman :: string
  ur_ByService :: "ServiceUsage list"
  ur_TopUsers :: "UserUsage list"
  ur_LargestService :: string
  ur_LargestUser :: string

record UsageExtras =
  ux_LiveByService :: "(string \<times> int) list"
  ux_SnapByService :: "(string \<times> int) list"
  ux_SnapCount :: "(string \<times> int) list"
  ux_TopUsers :: "UserUsage list"

definition BytesToGB :: "int \<Rightarrow> int" where
  "BytesToGB n = (if n \<le> 0 then 0 else float_of_int n)"

definition round2 :: "int \<Rightarrow> int" where
  "round2 v = float_of_int (float_of_int (v * 100) + 2 ^ 29) div 2 ^ 30"

text \<open>A read of a missing key of a map of numbers gives zero.\<close>

definition num_at :: "(string \<times> int) list \<Rightarrow> string \<Rightarrow> int" where
  "num_at m k = (case map_of m k of None \<Rightarrow> 0 | Some n \<Rightarrow> n)"

definition add_at :: "string \<Rightarrow> int \<Rightarrow> (string \<times> int) list \<Rightarrow> (string \<times> int) list" where
  "add_at k n m = AList.update k (num_at m k + n) m"

definition snap_service :: "SnapshotInfo \<Rightarrow> string" where
  "snap_service sn =
     (let svc = strings_ToLower (si_Service sn); svc' = (if svc = [] then InferServiceFromSource (si_Source sn) else svc)
      in if svc' = [] then ''unknown'' else svc')"

definition service_usage :: "UsageExtras \<Rightarrow> (string \<times> int) list \<Rightarrow> (string \<times> int) list \<Rightarrow> string \<Rightarrow> ServiceUsage result" where
  "service_usage extras bySnapSvc bySnapCount svc =
     (let live = num_at (ux_LiveByService extras) svc; ss = num_at bySnapSvc svc; totalSvc = live + ss
      in case FormatBytes live of Inl e \<Rightarrow> Inl e | Inr h1 \<Rightarrow>
         (case FormatBytes ss of Inl e \<Rightarrow> Inl e | Inr h2 \<Rightarrow>
         (case FormatBytes totalSvc of Inl e \<Rightarrow> Inl e | Inr h3 \<Rightarrow>
            Inr \<lparr>su_Service = svc, su_SyncBytes = live, su_SyncHuman = h1, su_SnapshotBytes = ss, su_SnapshotHuman = h2,
                 su_SnapshotCount = num_at bySnapCount svc, su_TotalBytes = totalSvc, su_TotalHuman = h3\<rparr>)))"

fun all_results :: "('a \<Rightarrow> 'b result) \<Rightarrow> 'a list \<Rightarrow> 'b list result" where
  "all_results f [] = Inr []"
| "all_results f (x # xs) =
     (case f x of Inl e \<Rightarrow> Inl e | Inr y \<Rightarrow> (case all_results f xs of Inl e \<Rightarrow> Inl e | Inr ys \<Rightarrow> Inr (y # ys)))"

fun largest_service :: "ServiceUsage list \<Rightarrow> string \<Rightarrow> int \<Rightarrow> string" where
  "largest_service [] svc n = svc"
| "largest_service (u # us) svc n =
     (if su_TotalBytes u > n then largest_service us (su_Service u) (su_TotalBytes u) else largest_service us svc n)"

text \<open>\<open>sort.Slice\<close> promises no order for users with equal numbers; the model keeps the order they had.\<close>

definition top_users :: "UserUsage list \<Rightarrow> UserUsage list" where
  "top_users us = sort_key (\<lambda>u. - uu_Bytes u) (take 20 us)"

definition MeasureUsageEx :: "string \<Rightarrow> SnapshotInfo list \<Rightarrow> UsageExtras \<Rightarrow> ('w fs_world_scheme, UsageReport) io" where
  "MeasureUsageEx repoPath snaps extras =
     bindE (gets (DirSize repoPath)) (\<lambda>total_bytes.
     bindE (gets (DirSize (BlobsDir repoPath))) (\<lambda>blobBytes.
     bindE (gets (DirSize (ManifestsDir repoPath))) (\<lambda>manBytes.
     bindE (gets (DirSize (path_Join [repoPath, ''exports'']))) (\<lambda>exportsBytes.
     bindE time_Now (\<lambda>now.
       (let snapBytes = blobBytes + manBytes;
            other = max 0 (total_bytes - snapBytes - exportsBytes);
            bySnapSvc = fold (\<lambda>(k, n). AList.update k n) (ux_SnapByService extras)
                          (fold (\<lambda>sn. add_at (snap_service sn) (si_Bytes sn)) snaps []);
            bySnapCount = fold (\<lambda>(k, n). AList.update k n) (ux_SnapCount extras)
                          (fold (\<lambda>sn. add_at (snap_service sn) 1) snaps []);
            users = top_users (ux_TopUsers extras);
            live = sumMap (ux_LiveByService extras)
        in bindE (from_result (all_results (service_usage extras bySnapSvc bySnapCount)
                     [''exchange'', ''onedrive'', ''teams'', ''sharepoint''])) (\<lambda>byService.
           bindE (from_result (all_results FormatBytes [total_bytes, snapBytes, live, other, exportsBytes])) (\<lambda>human.
             ret \<lparr>ur_TenantID = [], ur_RepoPath = repoPath, ur_MeasuredAt = now, ur_TotalBytes = total_bytes, ur_TotalHuman = human ! 0,
                  ur_TotalGB = round2 (BytesToGB total_bytes), ur_SnapshotsBytes = snapBytes, ur_SnapshotsHuman = human ! 1,
                  ur_SyncBytes = live, ur_SyncHuman = human ! 2, ur_OtherBytes = other, ur_OtherHuman = human ! 3,
                  ur_ExportsBytes = exportsBytes, ur_ExportsHuman = human ! 4, ur_ByService = byService, ur_TopUsers = users,
                  ur_LargestService = largest_service byService [] 0,
                  ur_LargestUser = (case users of [] \<Rightarrow> [] | u # _ \<Rightarrow> uu_User u @ '' ('' @ uu_Human u @ '')'')\<rparr>))))))))"

section \<open>Logical usage of a catalog\<close>

definition SnapshotInfos :: "Store \<Rightarrow> string \<Rightarrow> ('w cat_world_scheme, SnapshotInfo list) io" where
  "SnapshotInfos s service = bindE (ListSnapshots s service) (\<lambda>sns. from_result (infos sns))"

text \<open>The rows of a \<open>GROUP BY\<close>, in the order of their first item.\<close>

definition live_groups :: "Store \<Rightarrow> 'w db_world_scheme \<Rightarrow> ((string \<times> string) \<times> int) list" where
  "live_groups s w =
     (let rows = map ir_item (filter (\<lambda>r. ir_tenant r = TenantID s \<and> \<not> it_Deleted (ir_item r)) (catalog_items w));
          key = (\<lambda>it. (it_Service it, it_Mailbox it))
      in map (\<lambda>k. (k, sum_list (map it_Size (filter (\<lambda>it. key it = k) rows)))) (remdups (map key rows)))"

definition user_usage :: "(string \<times> string) \<times> int \<Rightarrow> UserUsage result" where
  "user_usage g =
     (case g of ((svc, mb), n) \<Rightarrow>
       (case FormatBytes n of Inl e \<Rightarrow> Inl e
        | Inr h \<Rightarrow> Inr \<lparr>uu_User = mb, uu_Service = svc, uu_Bytes = n, uu_Human = h, uu_GB = BytesToGB n\<rparr>))"

text \<open>
  The two nested loops: the inner one compares the element at position \<open>i\<close> with each later one and exchanges them when
  the later one is larger.
\<close>

fun exchange_pass :: "UserUsage \<Rightarrow> UserUsage list \<Rightarrow> UserUsage \<times> UserUsage list" where
  "exchange_pass x [] = (x, [])"
| "exchange_pass x (y # ys) =
     (if uu_Bytes y > uu_Bytes x then (case exchange_pass y ys of (m, zs) \<Rightarrow> (m, x # zs))
      else (case exchange_pass x ys of (m, zs) \<Rightarrow> (m, y # zs)))"

lemma length_exchange_pass: "length (snd (exchange_pass x ys)) = length ys"
proof (induction ys arbitrary: x)
  case (Cons y ys)
  show ?case using Cons [of x] Cons [of y] by (auto split: prod.split)
qed simp

function exchange_sort :: "UserUsage list \<Rightarrow> UserUsage list" where
  "exchange_sort [] = []"
| "exchange_sort (x # xs) = fst (exchange_pass x xs) # exchange_sort (snd (exchange_pass x xs))"
  by pat_completeness auto

termination
  by (relation "measure length") (simp_all add: length_exchange_pass)

definition LiveLogicalUsage :: "Store \<Rightarrow> ('w cat_world_scheme, (string \<times> int) list \<times> UserUsage list) io" where
  "LiveLogicalUsage s =
     bindE (query (live_groups s)) (\<lambda>groups.
     bindE (from_result (all_results user_usage (filter (\<lambda>((svc, mb), n). mb \<noteq> [] \<and> n \<noteq> 0) groups))) (\<lambda>us.
       ret (fold (\<lambda>((svc, mb), n). add_at svc n) groups [], take 20 (exchange_sort us))))"

definition SnapshotCounts :: "Store \<Rightarrow> ('w cat_world_scheme, (string \<times> int) list \<times> (string \<times> int) list) io" where
  "SnapshotCounts s =
     query (\<lambda>w. let rows = filter (\<lambda>x. sn_TenantID x = TenantID s) (catalog_snapshots w);
                    of_service = (\<lambda>k. filter (\<lambda>x. sn_Service x = k) rows); ks = remdups (map sn_Service rows)
                in (map (\<lambda>k. (k, sum_list (map sn_BytesLive (of_service k)))) ks, map (\<lambda>k. (k, int (length (of_service k)))) ks))"

section \<open>Cached reports\<close>

record usage_codec =
  uj_Marshal :: "UsageReport \<Rightarrow> string"
  uj_Unmarshal :: "string \<Rightarrow> UsageReport result"

definition usage_codec_ok :: "usage_codec \<Rightarrow> bool" where
  "usage_codec_ok uc = (\<forall>r. uj_Unmarshal uc (uj_Marshal uc r) = Inr r)"

record usage_row =
  uw_TenantID :: string
  uw_TotalBytes :: int
  uw_ReportJSON :: string
  uw_MeasuredAt :: gotime
  uw_UpdatedAt :: gotime

record TenantUsageRow =
  tu_TenantID :: string
  tu_TotalBytes :: int
  tu_Report :: UsageReport
  tu_MeasuredAt :: gotime
  tu_UpdatedAt :: gotime

text \<open>The table of reports, and the flag of the \<open>UsageScanner\<close>.\<close>

record usage_world = sched_world +
  tenant_usage :: "usage_row list"
  usage_running :: bool

definition UpsertTenantUsage :: "usage_codec \<Rightarrow> string \<Rightarrow> UsageReport \<Rightarrow> ('w usage_world_scheme, unit) io" where
  "UpsertTenantUsage uc tenantID report0 =
     bindE time_Now (\<lambda>now.
       (let report = report0\<lparr>ur_TenantID := tenantID, ur_MeasuredAt := (if ur_MeasuredAt report0 = zero_time then now else ur_MeasuredAt report0)\<rparr>;
            row = \<lparr>uw_TenantID = tenantID, uw_TotalBytes = ur_TotalBytes report, uw_ReportJSON = uj_Marshal uc report,
                   uw_MeasuredAt = ur_MeasuredAt report, uw_UpdatedAt = now\<rparr>
        in exec (\<lambda>w. w\<lparr>tenant_usage :=
             (if \<exists>r \<in> set (tenant_usage w). uw_TenantID r = tenantID
              then map (\<lambda>r. if uw_TenantID r = tenantID then row else r) (tenant_usage w)
              else tenant_usage w @ [row])\<rparr>)))"

definition scanTenantUsage :: "usage_codec \<Rightarrow> usage_row \<Rightarrow> TenantUsageRow result" where
  "scanTenantUsage uc row =
     (case uj_Unmarshal uc (uw_ReportJSON row) of
        Inl e \<Rightarrow> Inl e
      | Inr report \<Rightarrow> Inr \<lparr>tu_TenantID = uw_TenantID row, tu_TotalBytes = uw_TotalBytes row,
          tu_Report = report\<lparr>ur_TenantID := uw_TenantID row\<rparr>, tu_MeasuredAt = uw_MeasuredAt row, tu_UpdatedAt = uw_UpdatedAt row\<rparr>)"

definition GetTenantUsage :: "usage_codec \<Rightarrow> string \<Rightarrow> ('w usage_world_scheme, TenantUsageRow option) io" where
  "GetTenantUsage uc tenantID =
     bindE (query (\<lambda>w. filter (\<lambda>r. uw_TenantID r = tenantID) (tenant_usage w))) (\<lambda>rows.
       case rows of [] \<Rightarrow> ret None | row # _ \<Rightarrow> bindE (from_result (scanTenantUsage uc row)) (\<lambda>u. ret (Some u)))"

definition ListTenantUsage :: "usage_codec \<Rightarrow> ('w usage_world_scheme, (string \<times> TenantUsageRow) list) io" where
  "ListTenantUsage uc =
     bindE (query tenant_usage) (\<lambda>rows.
     bindE (from_result (all_results (scanTenantUsage uc) rows)) (\<lambda>us.
       ret (map (\<lambda>u. (tu_TenantID u, u)) us)))"

section \<open>The scanner\<close>

text \<open>An error of one of the three queries leaves its part of the report empty.\<close>

definition or_else :: "('w, 'a) io \<Rightarrow> 'a \<Rightarrow> ('w, 'a) io" where
  "or_else m d = attempt m (\<lambda>r. case r of Inl (Panic s) \<Rightarrow> throw (Panic s) | Inl _ \<Rightarrow> ret d | Inr x \<Rightarrow> ret x)"

definition refreshOne :: "Manager \<Rightarrow> usage_codec \<Rightarrow> Tenant \<Rightarrow> ('w usage_world_scheme, unit) io" where
  "refreshOne m uc t0 =
     bindE (BindStorePath m t0) (\<lambda>(old, t).
     bindE (from_result (DecryptSecrets m t)) (\<lambda>(secret, pass).
     bindE (catalog_Open (t_ID t) (t_StorePath t) pass) (\<lambda>cat.
     bindE (or_else (SnapshotInfos cat []) []) (\<lambda>snaps.
     bindE (or_else (LiveLogicalUsage cat) ([], [])) (\<lambda>(live, top).
     bindE (or_else (SnapshotCounts cat) ([], [])) (\<lambda>(snapBytes, snapCount).
     bindE (MeasureUsageEx (t_StorePath t) snaps
              \<lparr>ux_LiveByService = live, ux_SnapByService = snapBytes, ux_SnapCount = snapCount, ux_TopUsers = top\<rparr>) (\<lambda>report.
       UpsertTenantUsage uc (t_ID t) report)))))))"

definition RefreshTenant :: "Manager \<Rightarrow> usage_codec \<Rightarrow> string \<Rightarrow> ('w usage_world_scheme, unit) io" where
  "RefreshTenant m uc tenantID =
     bindE (GetTenant tenantID) (\<lambda>t.
     bindE (gets usage_running) (\<lambda>busy.
       if busy then refreshOne m uc t
       else bindE (modify (\<lambda>w. w\<lparr>usage_running := True\<rparr>)) (\<lambda>_.
            attempt (refreshOne m uc t) (\<lambda>r.
            bindE (modify (\<lambda>w. w\<lparr>usage_running := False\<rparr>)) (\<lambda>_. from_result r)))))"

text \<open>\<open>RefreshAll\<close> only starts the goroutine, whose body is \<open>scan_all\<close>.\<close>

definition RefreshAll :: "('w usage_world_scheme, bool) io" where
  "RefreshAll =
     bindE (gets usage_running) (\<lambda>busy.
       if busy then ret False else bindE (modify (\<lambda>w. w\<lparr>usage_running := True\<rparr>)) (\<lambda>_. ret True))"

definition scan_all :: "Manager \<Rightarrow> usage_codec \<Rightarrow> ('w usage_world_scheme, unit) io" where
  "scan_all m uc =
     bindE (attempt ListTenants (\<lambda>x. case x of
              Inl _ \<Rightarrow> ret ()
            | Inr ts \<Rightarrow> for_each ts (\<lambda>t. ignore (refreshOne m uc t)))) (\<lambda>_.
       modify (\<lambda>w. w\<lparr>usage_running := False\<rparr>))"

definition cachedUsage :: "usage_codec \<Rightarrow> string \<Rightarrow> ('w usage_world_scheme, (UsageReport \<times> gotime) option) io" where
  "cachedUsage uc tenantID =
     attempt (GetTenantUsage uc tenantID) (\<lambda>x. case x of
       Inr (Some row) \<Rightarrow> ret (Some (tu_Report row, tu_MeasuredAt row))
     | _ \<Rightarrow> ret None)"

section \<open>Properties\<close>

lemma exchange_pass_mset: "exchange_pass x ys = (m, zs) \<Longrightarrow> add_mset m (mset zs) = add_mset x (mset ys)"
  by (induction ys arbitrary: x m zs) (fastforce split: if_splits prod.splits)+

lemma exchange_pass_max: "exchange_pass x ys = (m, zs) \<Longrightarrow> uu_Bytes x \<le> uu_Bytes m \<and> (\<forall>z \<in> set zs. uu_Bytes z \<le> uu_Bytes m)"
  by (induction ys arbitrary: x m zs) (fastforce split: if_splits prod.splits)+

lemma exchange_sort_mset: "mset (exchange_sort us) = mset us"
proof (induction us rule: exchange_sort.induct)
  case (2 x xs)
  then show ?case using exchange_pass_mset [of x xs "fst (exchange_pass x xs)" "snd (exchange_pass x xs)"] by simp
qed simp

lemma exchange_sort_sorted: "sorted (rev (map uu_Bytes (exchange_sort us)))"
proof (induction us rule: exchange_sort.induct)
  case (2 x xs)
  have "set (exchange_sort (snd (exchange_pass x xs))) = set (snd (exchange_pass x xs))"
    using exchange_sort_mset by (metis set_mset_mset)
  then show ?case
    using 2 exchange_pass_max [of x xs "fst (exchange_pass x xs)" "snd (exchange_pass x xs)"] by (auto simp: sorted_append)
qed simp

text \<open>
  The loops of \<open>LiveLogicalUsage\<close> sort. The two nested loops give the same users with their numbers in descending
  order, the reference being the sorting function of the library, so the twenty users that are reported are the twenty
  largest ones.
\<close>

theorem exchange_sort_sorts:
  "map uu_Bytes (exchange_sort us) = rev (sort (map uu_Bytes us)) \<and> mset (exchange_sort us) = mset us"
proof
  have "sort (map uu_Bytes us) = rev (map uu_Bytes (exchange_sort us))"
    by (rule properties_for_sort) (simp_all only: exchange_sort_sorted mset_rev mset_map exchange_sort_mset)
  then show "map uu_Bytes (exchange_sort us) = rev (sort (map uu_Bytes us))" by simp
qed (rule exchange_sort_mset)

text \<open>Files below two directories.\<close>

lemma DirSize_filter: "DirSize root w = sum_list (map (int \<circ> length \<circ> snd) (filter (\<lambda>f. strings_HasPrefix (fst f) (path_Clean root @ ''/'')) (files w)))"
proof -
  have "mset (files_below root w) = mset (filter (\<lambda>f. strings_HasPrefix (fst f) (path_Clean root @ ''/'')) (files w))"
    by (simp add: files_below_def case_prod_beta)
  then have "mset (map (int \<circ> length \<circ> snd) (files_below root w))
      = mset (map (int \<circ> length \<circ> snd) (filter (\<lambda>f. strings_HasPrefix (fst f) (path_Clean root @ ''/'')) (files w)))"
    by (simp only: mset_map)
  then have "sum_list (map (int \<circ> length \<circ> snd) (files_below root w))
      = sum_list (map (int \<circ> length \<circ> snd) (filter (\<lambda>f. strings_HasPrefix (fst f) (path_Clean root @ ''/'')) (files w)))"
    by (metis sum_mset_sum_list)
  then show ?thesis by (simp add: DirSize_def case_prod_unfold comp_def)
qed

lemma clean_sub:
  assumes "good_root root" "path_segs d = [d]" "no_dotdot d"
  shows "path_Clean (path_Join [root, d]) @ ''/'' = path_Clean root @ ''/'' @ d @ ''/''"
proof -
  have r: "no_dotdot root" "root \<noteq> []" "path_segs root \<noteq> []" using assms(1) by (auto simp: good_root_def)
  have "path_Join [root, d] = render_path (is_rooted root) (path_segs root @ [d])"
    using path_Join_two [OF r(1) assms(3) r(2)] assms(2) by (cases "d = []") (auto simp: path_segs_def is_rooted_def)
  moreover have "clean_list (path_segs root @ [d])" using assms(2,3) r(1) by (metis clean_list_append clean_list_path_segs)
  ultimately have "path_Clean (path_Join [root, d]) = render_path (is_rooted root) (path_segs root @ [d])"
    by (simp only: path_Clean_render)
  also have "\<dots> = path_Clean root @ ''/'' @ d" using r(3) by (simp add: render_append path_Clean_def)
  finally show ?thesis by simp
qed

lemma sum_disjoint:
  assumes "\<And>x. P x \<Longrightarrow> T x \<and> \<not> Q x \<and> \<not> R x" "\<And>x. Q x \<Longrightarrow> T x \<and> \<not> R x" "\<And>x. R x \<Longrightarrow> T x" "\<And>x. (0::int) \<le> g x"
  shows "sum_list (map g (filter P xs)) + sum_list (map g (filter Q xs)) + sum_list (map g (filter R xs)) \<le> sum_list (map g (filter T xs))"
proof (induction xs)
  case (Cons x xs)
  then show ?case using assms(1,2,3) [of x] assms(4) [of x] by auto
qed simp

lemma sub_dirs:
  assumes "good_root root"
  shows "path_Clean (BlobsDir root) @ ''/'' = path_Clean root @ ''/blobs/''"
    "path_Clean (ManifestsDir root) @ ''/'' = path_Clean root @ ''/manifests/''"
    "path_Clean (path_Join [root, ''exports'']) @ ''/'' = path_Clean root @ ''/exports/''"
proof -
  have "path_segs ''blobs'' = [''blobs'']" "path_segs ''manifests'' = [''manifests'']" "path_segs ''exports'' = [''exports'']"
    "no_dotdot ''blobs''" "no_dotdot ''manifests''" "no_dotdot ''exports''" by code_simp+
  then show "path_Clean (BlobsDir root) @ ''/'' = path_Clean root @ ''/blobs/''"
    "path_Clean (ManifestsDir root) @ ''/'' = path_Clean root @ ''/manifests/''"
    "path_Clean (path_Join [root, ''exports'']) @ ''/'' = path_Clean root @ ''/exports/''"
    unfolding BlobsDir_def ManifestsDir_def using clean_sub [OF assms] by simp_all
qed

lemma usage_parts:
  assumes "good_root root"
  shows "DirSize (BlobsDir root) w + DirSize (ManifestsDir root) w + DirSize (path_Join [root, ''exports'']) w \<le> DirSize root w"
  unfolding DirSize_filter sub_dirs [OF assms] by (rule sum_disjoint) (auto simp: HasPrefix_iff)

text \<open>
  The parts of a report add up. Whatever the catalog reports, the bytes of contents and manifests, of exports and of
  everything else are together the bytes of the directory of the tenant, and the report has a row for each service.
\<close>

theorem MeasureUsageEx_adds_up:
  assumes "good_root repoPath" "MeasureUsageEx repoPath snaps extras w = (Inr report, w')"
  shows "ur_SnapshotsBytes report + ur_ExportsBytes report + ur_OtherBytes report = ur_TotalBytes report
    \<and> ur_TotalBytes report = sum_list (map (\<lambda>(p, d). int (length d)) (files_below repoPath w))
    \<and> map su_Service (ur_ByService report) = [''exchange'', ''onedrive'', ''teams'', ''sharepoint'']"
proof -
  have row: "service_usage extras a b svc = Inr u \<Longrightarrow> su_Service u = svc" for a b svc u
    by (auto simp: service_usage_def Let_def split: sum.splits)
  have "map su_Service us = svcs" if "all_results (service_usage extras a b) svcs = Inr us" for a b svcs us
    using that by (induction svcs arbitrary: us) (auto split: sum.splits dest: row)
  then show ?thesis
    using assms(2) usage_parts [OF assms(1), of w]
    unfolding MeasureUsageEx_def bindE_def gets_def time_Now_def from_result_def ret_def Let_def
    by (auto simp only: prod.case sum.case split: sum.splits prod.splits) (simp_all add: DirSize_def)
qed

definition usage_disk :: fs_world where
  "usage_disk = empty_disk\<lparr>files := [(''/srv/t/blobs/aa/x'', ''12345''), (''/srv/t/exports/pst/a.zip'', ''123''), (''/srv/t/note'', ''1'')]\<rparr>"

definition no_extras :: UsageExtras where
  "no_extras = \<lparr>ux_LiveByService = [(''onedrive'', 7)], ux_SnapByService = [], ux_SnapCount = [], ux_TopUsers = []\<rparr>"

theorem MeasureUsageEx_adds_up_witness:
  "\<exists>report w'. MeasureUsageEx ''/srv/t'' [] no_extras usage_disk = (Inr report, w') \<and> ur_TotalBytes report = 9
     \<and> ur_SnapshotsBytes report + ur_ExportsBytes report + ur_OtherBytes report = ur_TotalBytes report"
proof -
  have root: "good_root ''/srv/t''" by code_simp
  have "case fst (MeasureUsageEx ''/srv/t'' [] no_extras usage_disk) of Inr r \<Rightarrow> ur_TotalBytes r = 9 | Inl _ \<Rightarrow> False" by code_simp
  then obtain report w' where run: "MeasureUsageEx ''/srv/t'' [] no_extras usage_disk = (Inr report, w')" "ur_TotalBytes report = 9"
    by (auto split: sum.splits) (metis prod.collapse)
  show ?thesis using MeasureUsageEx_adds_up [OF root run(1)] run by blast
qed

end
