(* ===== verification/Restore.thy ===== *)
theory Restore
  imports Catalog_Retention "HOL-Library.Sublist"
begin

text \<open>
  From the backup back to files: what \<open>Materialize\<close> of \<open>internal/catalog/retention.go\<close> writes for a generation that
  \<open>CommitSnapshot\<close> committed, and the command \<open>m365-restore\<close> of \<open>cmd/restore\<close>, which restores a generation from the
  directory of a tenant and its password alone.
\<close>

section \<open>The offline command\<close>

definition usage_exit :: goerr where
  "usage_exit = Err ''usage: m365-restore --root PATH --password PASS --service exchange --generation N --out DIR''"

fun restore_loop :: "BlobStore \<Rightarrow> string \<Rightarrow> ManifestEntry list \<Rightarrow> nat \<Rightarrow> ('w cat_world_scheme, nat) io" where
  "restore_loop blobs out [] n = ret n"
| "restore_loop blobs out (e # es) n =
     (if me_Path e = [] \<or> me_Hash e = [] then restore_loop blobs out es n
      else attempt (blob_Get blobs (me_Hash e)) (\<lambda>r. case r of
        Inl err \<Rightarrow> throw (Wrap (me_Path e) err)
      | Inr data \<Rightarrow>
          bindE (from_result (EnsureSubpath out (me_Path e))) (\<lambda>dest.
          bindE (os_MkdirAll (filepath_Dir dest)) (\<lambda>_.
          bindE (os_WriteFile dest data) (\<lambda>_. restore_loop blobs out es (Suc n))))))"

text \<open>The number of files that were restored; an error ends the process with status 1, missing arguments with 2.\<close>

definition restore_main :: "codec \<Rightarrow> string \<Rightarrow> string \<Rightarrow> string \<Rightarrow> int \<Rightarrow> string \<Rightarrow> ('w cat_world_scheme, nat) io" where
  "restore_main c root password service generation out =
     (if root = [] \<or> password = [] \<or> out = [] \<or> generation < 1 then throw usage_exit
      else
        bindE (from_result (GuardPath root)) (\<lambda>_.
        bindE (from_result (GuardPath out)) (\<lambda>_.
        bindE (blobstore_New root password) (\<lambda>blobs.
          (let st = \<lparr>TenantID = [], Root = root, Password = password, SkipRematch = False, TrackChanges = False\<rparr>
           in attempt (ReadManifest c st service generation) (\<lambda>x. case x of
                Inl e \<Rightarrow> throw (Wrap ''manifest'' e)
              | Inr man \<Rightarrow>
                  bindE (os_MkdirAll out) (\<lambda>_. restore_loop blobs out (m_Items man) 0)))))))"

section \<open>A generation as an archive\<close>

text \<open>
  \<open>ZipDirCounted\<close> of \<open>internal/storage/restore.go\<close>: the entries, and the error that ended the walk early. As in \<open>ZipItems\<close>
  the archive is closed by a deferred call, and the error of closing it is dropped. \<open>archive\<close> is the zip format.
\<close>

fun zip_walk :: "string \<Rightarrow> string list \<Rightarrow> (string \<times> string) list \<Rightarrow> ('w fs_world_scheme, (string \<times> string) list \<times> goerr option) io" where
  "zip_walk src [] es = ret (es, None)"
| "zip_walk src (p # ps) es =
     attempt (bindE access (\<lambda>_. bindE (from_result (GuardPath p)) os_ReadFile)) (\<lambda>x. case x of
       Inl e \<Rightarrow> ret (es, Some e)
     | Inr data \<Rightarrow> zip_walk src ps (es @ [(strings_TrimPrefix p (path_Clean src @ ''/''), data)]))"

definition ZipDirCounted :: "((string \<times> string) list \<Rightarrow> string) \<Rightarrow> string \<Rightarrow> string \<Rightarrow> ('w fs_world_scheme, nat \<times> int) io" where
  "ZipDirCounted archive src0 dest0 =
     bindE (from_result (GuardPath src0)) (\<lambda>src.
     bindE (from_result (GuardPath dest0)) (\<lambda>dest.
     bindE (os_WriteFile dest []) (\<lambda>_.
     bindE (attempt (query (files_below src)) (\<lambda>x. case x of Inl e \<Rightarrow> ret ([], Some e) | Inr fs \<Rightarrow> zip_walk src (map fst fs) [])) (\<lambda>(es, err).
     bindE (ignore (os_WriteFile dest (archive es))) (\<lambda>_.
       case err of
         Some e \<Rightarrow> throw e
       | None \<Rightarrow> ret (length es, int (sum_list (map (length \<circ> snd) es))))))))"

definition ExportZip :: "((string \<times> string) list \<Rightarrow> string) \<Rightarrow> codec \<Rightarrow> Store \<Rightarrow> string \<Rightarrow> string \<Rightarrow> ('w cat_world_scheme, string) io" where
  "ExportZip archive c s snapshotID workDir =
     bindE (from_result (ValidateSnapshotID snapshotID)) (\<lambda>_.
     bindE (from_result (EnsureSubpath workDir (''restore-'' @ snapshotID))) (\<lambda>dest.
     bindE (GetSnapshot s snapshotID) (\<lambda>sn.
     bindE (Materialize c s (sn_Service sn) snapshotID dest) (\<lambda>_.
     bindE (from_result (EnsureSubpath workDir (snapshotID @ ''.zip''))) (\<lambda>zipPath.
     bindE (ZipDirCounted archive dest zipPath) (\<lambda>_. ret zipPath))))))"

section \<open>Where the files go\<close>

definition restorable :: "ManifestEntry \<Rightarrow> bool" where
  "restorable e = (me_Path e \<noteq> [] \<and> \<not> stringsContainsDotDot (me_Path e))"

definition out_path :: "string \<Rightarrow> ManifestEntry \<Rightarrow> string" where
  "out_path dest e = render_path (is_rooted dest) (path_segs dest @ path_segs (me_Path e))"

text \<open>A directory to restore to: neither inside of the store nor above it.\<close>

definition outside :: "string \<Rightarrow> string \<Rightarrow> bool" where
  "outside dest root =
     (GuardPath dest = Inr dest \<and> \<not> prefix (path_segs dest) (path_segs root) \<and> \<not> prefix (path_segs root) (path_segs dest))"

lemma outside_not_blob:
  assumes "outside dest (bs_root b)" "good_root (bs_root b)" "validHash h" "restorable e" "\<not> has_nul (me_Path e)"
  shows "bpath b h \<noteq> out_path dest e"
proof
  assume eq: "bpath b h = out_path dest e"
  have "clean_list (path_segs dest @ path_segs (me_Path e))"
    using assms(1,4) by (auto simp: outside_def restorable_def stringsContainsDotDot_def)
  then have "path_segs (bs_root b) @ [''blobs'', take 2 h, h] = path_segs dest @ path_segs (me_Path e)"
    using eq path_segs_bpath [OF assms(2,3)] path_segs_render by (metis out_path_def)
  then have "prefix (path_segs (bs_root b)) (path_segs dest @ path_segs (me_Path e))" by (metis prefixI)
  then show False using assms(1) by (auto simp: outside_def prefix_append)
qed

lemma EnsureSubpath_out:
  assumes "EnsureSubpath dest (me_Path e) = Inr out"
  shows "out = out_path dest e" "\<not> has_nul (me_Path e)"
  using assms by (auto simp: EnsureSubpath_cases out_path_def split: if_splits)

section \<open>Writing the files\<close>

text \<open>What a complete restore of some entries has changed.\<close>

definition restored :: "Store \<Rightarrow> string \<Rightarrow> ManifestEntry list \<Rightarrow> 'w cat_world_scheme \<Rightarrow> 'w cat_world_scheme \<Rightarrow> bool" where
  "restored s dest es w w' =
     ((\<forall>e \<in> set es. restorable e \<longrightarrow> (\<exists>q. blob_view (Blobs s) w (me_Hash e) = Some q \<and> Hash q = me_Hash e
          \<and> file_at w' (out_path dest e) = Some q))
      \<and> (\<forall>p. p \<notin> out_path dest ` set (filter restorable es) \<longrightarrow> file_at w' p = file_at w p))"

lemma same_files:
  assumes "files w' = files w"
  shows "file_at w' = file_at w" "blob_view b w' = blob_view b w" "cas_ok b w' = cas_ok b w"
proof -
  show at: "file_at w' = file_at w" using assms by (simp add: file_at_def fun_eq_iff)
  show "blob_view b w' = blob_view b w" "cas_ok b w' = cas_ok b w" by (simp_all add: at blob_view_def cas_ok_def fun_eq_iff)
qed

lemma write_entries_Cons:
  "write_entries s dest (e # es) =
     (if \<not> restorable e then write_entries s dest es
      else attempt (blob_Get (Blobs s) (me_Hash e)) (\<lambda>r. case r of
        Inl err \<Rightarrow> throw (Wrap (me_Path e) err)
      | Inr data \<Rightarrow>
          bindE (from_result (EnsureSubpath dest (me_Path e))) (\<lambda>out.
          bindE (os_MkdirAll (filepath_Dir out)) (\<lambda>_.
          bindE (os_WriteFile out data) (\<lambda>_. write_entries s dest es)))))"
  by (simp add: restorable_def)

lemma restored_Cons:
  assumes "restored s dest es w1 w'" "restorable e" "out_path dest e \<notin> out_path dest ` set (filter restorable es)"
    and "blob_view (Blobs s) w (me_Hash e) = Some q" "Hash q = me_Hash e"
    and "blob_view (Blobs s) w1 = blob_view (Blobs s) w" "file_at w1 = (file_at w)(out_path dest e \<mapsto> q)"
  shows "restored s dest (e # es) w w'"
  using assms unfolding restored_def by auto

lemma write_entries_spec:
  assumes "cas_ok (Blobs s) w" "outside dest (bs_root (Blobs s))" "distinct (map (out_path dest) (filter restorable es))"
  shows "wp (write_entries s dest es) (\<lambda>r w'. cas_ok (Blobs s) w' \<and> blob_view (Blobs s) w' = blob_view (Blobs s) w
      \<and> (r = Inr () \<longrightarrow> restored s dest es w w')) w"
  using assms
proof (induction es arbitrary: w)
  case Nil
  then show ?case by (simp add: wp_simps restored_def)
next
  case (Cons e es)
  let ?Q = "\<lambda>es w r w'. cas_ok (Blobs s) w' \<and> blob_view (Blobs s) w' = blob_view (Blobs s) w \<and> (r = Inr () \<longrightarrow> restored s dest es w w')"
  show ?case
  proof (cases "restorable e")
    case False
    then have "restored s dest (e # es) w w' = restored s dest es w w'" for w' by (simp add: restored_def)
    then show ?thesis using Cons False unfolding write_entries_Cons by simp
  next
    case True
    note root = cas_ok_root [OF Cons.prems(1)]
    have rest: "wp (write_entries s dest es) (?Q (e # es) w) w2"
      if "blob_view (Blobs s) w (me_Hash e) = Some q" "cas_ok (Blobs s) w2" "blob_view (Blobs s) w2 = blob_view (Blobs s) w"
        "file_at w2 = (file_at w)(out_path dest e \<mapsto> q)" for q w2
    proof (rule wp_mono [OF Cons.IH [of w2]])
      fix r w'
      assume "?Q es w2 r w'"
      moreover have "restored s dest (e # es) w w'" if "restored s dest es w2 w'"
        using that True _ _ _ \<open>blob_view (Blobs s) w2 = blob_view (Blobs s) w\<close> \<open>file_at w2 = _\<close>
        by (rule restored_Cons) (use Cons.prems True that cas_ok_view \<open>blob_view (Blobs s) w (me_Hash e) = Some q\<close> in auto)
      ultimately show "?Q (e # es) w r w'" using that by simp
    qed (use Cons.prems that True in auto)
    have put: "cas_ok (Blobs s) (put_file (out_path dest e) d w1)" "blob_view (Blobs s) (put_file (out_path dest e) d w1) = blob_view (Blobs s) w"
      if "\<not> has_nul (me_Path e)" "files w1 = files w" for d w1
      by (simp_all add: blob_other_file [OF outside_not_blob [OF Cons.prems(2) root _ True that(1)]] same_files [OF that(2)] Cons.prems(1))
    have step: "wp (bindE (from_result (EnsureSubpath dest (me_Path e))) (\<lambda>out.
          bindE (os_MkdirAll (filepath_Dir out)) (\<lambda>_.
          bindE (os_WriteFile out q) (\<lambda>_. write_entries s dest es)))) (?Q (e # es) w) w1"
      if "blob_view (Blobs s) w (me_Hash e) = Some q" "files w1 = files w" for q w1
    proof (cases "EnsureSubpath dest (me_Path e)")
      case (Inl err)
      then show ?thesis using Cons.prems(1) same_files [OF that(2)] by (simp add: wp_simps)
    next
      case (Inr out)
      note out = EnsureSubpath_out [OF Inr]
      have "wp (write_entries s dest es) (?Q (e # es) w) (put_file (out_path dest e) q (w1\<lparr>faults := fs\<rparr>))" for fs
        by (rule rest [OF that(1)]) (simp_all add: put [OF out(2)] that(2) same_files [OF that(2)] fun_eq_iff)
      then show ?thesis
        unfolding Inr out(1) os_MkdirAll_def
        by (auto simp: wp_simps same_files [OF that(2)] Cons.prems(1) put [OF out(2)] that(2) intro!: wp_intros)
    qed
    have all: "wp (case r of Inl err \<Rightarrow> throw (Wrap (me_Path e) err)
      | Inr q \<Rightarrow> bindE (from_result (EnsureSubpath dest (me_Path e))) (\<lambda>out.
          bindE (os_MkdirAll (filepath_Dir out)) (\<lambda>_.
          bindE (os_WriteFile out q) (\<lambda>_. write_entries s dest es)))) (?Q (e # es) w) w1"
      if "files w1 = files w \<and> (\<forall>q. r = Inr q \<longrightarrow> blob_view (Blobs s) w (me_Hash e) = Some q)" for r w1
    proof (cases r)
      case (Inl err)
      then show ?thesis using Cons.prems(1) same_files [of w1 w] that by (simp add: wp_simps)
    next
      case (Inr q)
      then show ?thesis using step that by simp
    qed
    show ?thesis
      by (simp only: write_entries_Cons True not_True_eq_False if_False wp_attempt)
        (rule wp_mono [OF blob_Get_spec [OF Cons.prems(1)] all])
  qed
qed

text \<open>Without a fault the loop comes to its end.\<close>

definition complete :: "Store \<Rightarrow> ManifestEntry list \<Rightarrow> 'w cat_world_scheme \<Rightarrow> bool" where
  "complete s es w = list_all (\<lambda>e. \<not> has_nul (me_Path e) \<and> blob_view (Blobs s) w (me_Hash e) \<noteq> None) (filter restorable es)"

lemma EnsureSubpath_ok:
  assumes "outside dest root" "restorable e" "\<not> has_nul (me_Path e)"
  shows "EnsureSubpath dest (me_Path e) = Inr (out_path dest e)"
proof -
  have "path_segs dest \<noteq> []" using assms(1) by (auto simp: outside_def)
  then show ?thesis
    using assms by (auto simp: outside_def restorable_def stringsContainsDotDot_def out_path_def intro!: EnsureSubpath_accepts)
qed

lemma write_entries_ok:
  assumes "cas_ok (Blobs s) w" "outside dest (bs_root (Blobs s))" "complete s es w" "faults w = []"
  shows "\<exists>w'. write_entries s dest es w = (Inr (), w')"
  using assms
proof (induction es arbitrary: w)
  case Nil
  then show ?case by (simp add: io_simps)
next
  case (Cons e es)
  show ?case
  proof (cases "restorable e")
    case False
    then show ?thesis using Cons unfolding write_entries_Cons complete_def by simp
  next
    case True
    then obtain q where q: "blob_view (Blobs s) w (me_Hash e) = Some q" "\<not> has_nul (me_Path e)"
      using Cons.prems(3) by (auto simp: complete_def)
    let ?w = "put_file (out_path dest e) q w"
    note frame = blob_other_file [OF outside_not_blob [OF Cons.prems(2) cas_ok_root [OF Cons.prems(1)] _ True q(2)]]
    have "\<exists>w'. write_entries s dest es ?w = (Inr (), w')"
      by (rule Cons.IH) (use Cons.prems True in \<open>auto simp: frame complete_def\<close>, simp add: put_file_def)
    moreover have "write_entries s dest (e # es) w = write_entries s dest es ?w"
      using True Cons.prems(4) blob_Get_ok [OF Cons.prems(1,4) q(1)] EnsureSubpath_ok [OF Cons.prems(2) True q(2)]
      unfolding write_entries_Cons by (simp add: io_simps os_MkdirAll_def os_WriteFile_def access_def)
    ultimately show ?thesis by simp
  qed
qed

section \<open>The round trip\<close>

lemma wp_triv: "(\<And>r w'. Q r w') \<Longrightarrow> wp m Q w"
  by (simp add: wp_def split: prod.split)

lemma CommitSnapshot_fresh:
  "wp (CommitSnapshot c s service jobID) (\<lambda>r w'. \<forall>sn. r = Inr (Some sn) \<longrightarrow> \<not> sn_Skipped sn
      \<longrightarrow> (\<forall>x \<in> set (catalog_snapshots w). sn_ID x \<noteq> sn_ID sn) \<and> (\<exists>n. sn_ID sn = uuid_src w n)) w"
  by (auto simp: CommitSnapshot_def take_pending_def nextGeneration_def liveStats_def latestSnapshot_def
      insert_snapshot_def wp_bindE wp_ret wp_throw wp_simps Let_def intro!: wp_intros split: sum.split)
    ((rule wp_triv, auto simp: wp_simps intro!: wp_triv split: sum.split); blast)+

lemma Materialize_generation:
  assumes "faults w = []" "filter (\<lambda>x. sn_TenantID x = TenantID s \<and> sn_ID x = version) (catalog_snapshots w) = [sn]"
    and "version \<notin> {[], ''live''}" "manifest_view c s (sn_Service sn) (sn_Generation sn) w = Inr m" "GuardPath dest = Inr dest"
  shows "Materialize c s service version dest w = write_entries s dest (m_Items m) w"
proof -
  have "ReadManifest c s (sn_Service sn) (sn_Generation sn) w = (Inr m, w)"
    using assms(1,4) ReadManifest_world [of c s "sn_Service sn" "sn_Generation sn" w] by (metis manifest_view_def prod.collapse io_env.surjective io_env.update_convs(1))
  moreover have "GetSnapshot s version w = (Inr sn, w)"
    using assms(1,2) by (simp add: GetSnapshot_def query_row_def io_simps)
  moreover have "access w = (Inr (), w)" using assms(1) by (simp add: access_def)
  ultimately show ?thesis
    using assms(3) unfolding Materialize_def assms(5) from_result_def os_MkdirAll_def by (simp add: bindE_def ret_def)
qed

lemma committed:
  assumes "cat_inv s w" "codec_ok c" "CommitSnapshot c s service jobID w = (Inr (Some sn), w1)" "\<not> sn_Skipped sn"
    and "list_all (\<lambda>e. restorable e \<and> \<not> has_nul (me_Path e) \<and> me_Hash e \<noteq> []) (live_entries s service w)"
  shows "cas_ok (Blobs s) (w1\<lparr>faults := []\<rparr>)" "complete s (live_entries s service w) (w1\<lparr>faults := []\<rparr>)"
    and "filter (\<lambda>x. sn_TenantID x = TenantID s \<and> sn_ID x = sn_ID sn) (catalog_snapshots (w1\<lparr>faults := []\<rparr>)) = [sn]"
    and "sn_Service sn = service" "manifest_view c s service (sn_Generation sn) (w1\<lparr>faults := []\<rparr>)
      = Inr (manifest_of s service (sn_Generation sn) (sn_CreatedAt sn) w)"
proof -
  let ?es = "live_entries s service w" and ?w1 = "w1\<lparr>faults := []\<rparr>"
  have spec: "cat_inv s w1" "catalog_items w1 = catalog_items w" "commit_ok c s service w sn w1"
    using wpD [OF CommitSnapshot_spec [OF assms(1,2)] assms(3)] assms(4) by auto
  show "cas_ok (Blobs s) ?w1" using spec(1) by (simp add: cat_inv_def)
  have live: "live_ok s w1" using spec(1) by (simp add: cat_inv_def)
  show "sn_Service sn = service" "manifest_view c s service (sn_Generation sn) ?w1 = Inr (manifest_of s service (sn_Generation sn) (sn_CreatedAt sn) w)"
    using spec(3) by (simp_all add: commit_ok_def manifest_view_def)
  have "\<forall>x \<in> set (catalog_snapshots w). sn_ID x \<noteq> sn_ID sn" using wpD [OF CommitSnapshot_fresh assms(3)] assms(4) by blast
  then have "filter (\<lambda>x. sn_TenantID x = TenantID s \<and> sn_ID x = sn_ID sn) (catalog_snapshots w) = []"
    by (simp add: filter_empty_conv)
  then show "filter (\<lambda>x. sn_TenantID x = TenantID s \<and> sn_ID x = sn_ID sn) (catalog_snapshots ?w1) = [sn]"
    using spec(3) by (simp add: commit_ok_def)
  have "\<not> has_nul (me_Path e) \<and> blob_view (Blobs s) ?w1 (me_Hash e) \<noteq> None" if e: "e \<in> set ?es" for e
  proof -
    obtain r where "r \<in> set (catalog_items w1)" "ir_tenant r = TenantID s" "me_Hash e = it_BlobHash (ir_item r)"
      using e spec(2) by (auto simp: live_entries_def live_row_def manifest_entry_def)
    then show ?thesis using live e assms(5) by (auto simp: live_ok_def list_all_iff)
  qed
  then show "complete s ?es ?w1" by (auto simp: complete_def list_all_iff)
qed


lemma restore_loop_eq:
  assumes "list_all (\<lambda>e. restorable e \<and> \<not> has_nul (me_Path e) \<and> me_Hash e \<noteq> []) es"
  shows "restore_loop (Blobs s) dest es n w =
    (case write_entries s dest es w of (Inl e, w') \<Rightarrow> (Inl e, w') | (Inr _, w') \<Rightarrow> (Inr (n + length es), w'))"
  using assms
proof (induction es arbitrary: n w)
  case (Cons e es)
  then show ?case
    by (auto simp: restorable_def attempt_def bindE_def throw_def split: prod.split sum.split)
qed (simp add: ret_def)


lemma keeps_uuid_src:
  assumes "SkipRematch s"
  shows "keeps (\<lambda>w. uuid_src w = f) (Put s it d)"
proof -
  let ?P = "\<lambda>w. uuid_src w = f"
  have "keeps ?P (blob_Put (Blobs s) d)" by (rule keeps_blob_ops) (simp add: disk_free_def)
  moreover have "fault_free ?P" by (rule fault_freeI) simp
  ultimately show ?thesis
    using assms unfolding Put_def rematchID_def Let_def upsertItem_def notePending_def
    by (auto intro!: keeps_rules keeps_exec keeps_modify keeps_uuid)
qed

lemma demo_uuid: "uuid_src demo_world = show_nat"
  using keepsD [OF keeps_uuid_src [of demo_cat show_nat demo_item "''hello''"] _ prod.collapse [symmetric], of empty_cat]
  by (simp add: demo_world_def empty_cat_def demo_cat_def)

lemma demo_generation:
  obtains sn w1 where "CommitSnapshot demo_codec demo_cat ''onedrive'' ''job'' demo_world = (Inr (Some sn), w1)" "\<not> sn_Skipped sn"
    "sn_ID sn \<notin> {[], ''live''}" "sn_Generation sn = 1"
proof -
  obtain sn w1 where run: "CommitSnapshot demo_codec demo_cat ''onedrive'' ''job'' demo_world = (Inr (Some sn), w1)"
    "\<not> sn_Skipped sn" "sn_Generation sn = 1"
    using demo_commit(1) by (metis prod.collapse)
  obtain n where "sn_ID sn = uuid_src demo_world n" using wpD [OF CommitSnapshot_fresh run(1)] run(2) by blast
  moreover have "show_nat n \<noteq> ''live''" using show_nat_chars [of "CHR ''l''" n] by auto
  ultimately have "sn_ID sn \<notin> {[], ''live''}" by (simp add: demo_uuid)
  then show thesis using that run by blast
qed

lemma demo_entries:
  "live_entries demo_cat ''onedrive'' demo_world = [\<lparr>me_Path = ''ada/a.txt'', me_Hash = Hash ''hello'', me_Size = 5\<rparr>]"
  "list_all (\<lambda>e. restorable e \<and> \<not> has_nul (me_Path e) \<and> me_Hash e \<noteq> []) (live_entries demo_cat ''onedrive'' demo_world)"
  "outside ''/restore'' (Root demo_cat)" "out_path ''/restore'' \<lparr>me_Path = ''ada/a.txt'', me_Hash = h, me_Size = 5\<rparr> = ''/restore/ada/a.txt''"
proof -
  have join: "path_Join [''ada'', ''a.txt''] = ''ada/a.txt''" by code_simp
  show es: "live_entries demo_cat ''onedrive'' demo_world = [\<lparr>me_Path = ''ada/a.txt'', me_Hash = Hash ''hello'', me_Size = 5\<rparr>]"
    by (simp add: live_entries_def demo_rows upsert_rows_def demo_item_def live_row_def demo_cat_def manifest_entry_def RelPath_def zero_item_def join)
  have "restorable \<lparr>me_Path = ''ada/a.txt'', me_Hash = k, me_Size = 5\<rparr>" "\<not> has_nul ''ada/a.txt''" for k by code_simp+
  moreover have "Hash ''hello'' \<noteq> []" using validHash_Hash [of "''hello''"] by (auto simp: validHash_def)
  ultimately show "list_all (\<lambda>e. restorable e \<and> \<not> has_nul (me_Path e) \<and> me_Hash e \<noteq> []) (live_entries demo_cat ''onedrive'' demo_world)"
    by (simp add: es)
  show "outside ''/restore'' (Root demo_cat)" "out_path ''/restore'' \<lparr>me_Path = ''ada/a.txt'', me_Hash = h, me_Size = 5\<rparr> = ''/restore/ada/a.txt''"
    by code_simp+
qed



end
