(* ===== verification/Api_Base.thy ===== *)
theory Api_Base
  imports Usage_Scan Retention_Json Restore
begin

text \<open>
  What the HTTP handlers of \<open>internal/api/router.go\<close> share: forms and numbers, redaction (\<open>redact.go\<close>), the views of
  jobs and logs (\<open>jobs_overview.go\<close>, \<open>job_logs.go\<close>), the target of the language switch (\<open>render.go\<close>), and the catalog
  of a tenant.
\<close>

section \<open>Forms\<close>

text \<open>\<open>strconv.Atoi\<close>: the number and whether there was an error; a number out of range is cut to the range.\<close>

definition strconv_Atoi :: "string \<Rightarrow> int \<times> bool" where
  "strconv_Atoi s =
     (let neg = front_is (CHR ''-'') s; ds = (if neg \<or> front_is (CHR ''+'') s then tl s else s);
          v = (if neg then - int (digits_val ds) else int (digits_val ds))
      in if ds = [] \<or> \<not> list_all is_digit ds then (0, True)
         else if v < - (2 ^ 63) then (- (2 ^ 63), True)
         else if v > max_int64 then (max_int64, True)
         else (v, False))"

definition atoiDefault :: "string \<Rightarrow> int \<Rightarrow> int" where
  "atoiDefault s0 def =
     (let s = strings_TrimSpace s0
      in if s = [] then def else (case strconv_Atoi s of (n, err) \<Rightarrow> if err then def else n))"

definition splitCSV :: "string \<Rightarrow> string list" where
  "splitCSV s = filter (\<lambda>p. p \<noteq> []) (map strings_TrimSpace (strings_Split (CHR '','') s))"

definition sanitizeFilePart :: "string \<Rightarrow> string" where
  "sanitizeFilePart s0 =
     (let s = strings_TrimSpace s0;
          out = concat (map (\<lambda>r. if length r = 1 \<and> (is_letter (hd r) \<or> is_digit (hd r) \<or> hd r \<in> set ''-_'') then r
                                 else if r = '' '' then ''-'' else []) (utf8_runes s))
      in if s = [] \<or> out = [] then ''tenant'' else take 40 out)"

text \<open>\<open>time.Parse("2006-01-02", v)\<close> with the error dropped: the zero time for a text that is not a date.\<close>

definition parse_date :: "string \<Rightarrow> gotime" where
  "parse_date v =
     (if length v = 10 \<and> list_all is_digit (take 4 v @ take 2 (drop 5 v) @ drop 8 v) \<and> v ! 4 = CHR ''-'' \<and> v ! 7 = CHR ''-'' then
        (let y = int (digits_val (take 4 v)); m = int (digits_val (take 2 (drop 5 v))); d = int (digits_val (drop 8 v));
             starts = month_starts (is_leap y) @ [if is_leap y then 366 else 365]
         in if 1 \<le> m \<and> m \<le> 12 \<and> 1 \<le> d \<and> d \<le> starts ! nat m - starts ! nat (m - 1)
            then (first_day y + starts ! nat (m - 1) + d - 1) * ns_per_day else zero_time)
      else zero_time)"

definition langRedirectTarget :: "string \<Rightarrow> string" where
  "langRedirectTarget next0 =
     (let n = takeWhile (\<lambda>c. c \<notin> set ''?#'') (strings_TrimSpace next0)
      in if n \<in> {''/settings'', ''/jobs'', ''/login'', ''/openapi'', ''/openapi.yaml''} then n else ''/tenants'')"

definition requestBaseURL :: "string \<Rightarrow> request \<Rightarrow> string" where
  "requestBaseURL publicBaseURL r =
     (let base = strings_TrimRight (strings_TrimSpace publicBaseURL) slash
      in if base \<noteq> [] then base
         else (if r_TLS r \<or> strings_EqualFold (get_value (r_Headers r) ''X-Forwarded-Proto'') ''https'' then ''https'' else ''http'')
              @ ''://'' @ r_Host r)"

section \<open>Jobs and logs\<close>

record JobCounts =
  jc_Running :: nat
  jc_Success :: nat
  jc_Warning :: nat
  jc_Error :: nat
  jc_Cancelled :: nat
  jc_Queued :: nat

definition countJobs :: "Job list \<Rightarrow> JobCounts" where
  "countJobs js =
     (let n = (\<lambda>st. length (filter (\<lambda>j. j_Status j = st) js))
      in \<lparr>jc_Running = n ''running'', jc_Success = n ''success'', jc_Warning = n ''warning'', jc_Error = n ''error'',
          jc_Cancelled = n ''cancelled'', jc_Queued = n ''queued''\<rparr>)"

definition jobRunning :: "string \<Rightarrow> bool" where
  "jobRunning status = (status = ''running'' \<or> status = ''queued'')"

definition jobLogCursor :: "JobLog list \<Rightarrow> string \<times> gotime" where
  "jobLogCursor logs = (if logs = [] then ([], zero_time) else (l_ID (last logs), l_CreatedAt (last logs)))"

text \<open>
  The times are handed on in milliseconds. \<open>parse_rfc3339\<close> stands for \<open>time.Parse(time.RFC3339Nano, raw)\<close>, the second
  way to read a cursor.
\<close>

definition ms_per_sec :: int where
  "ms_per_sec = 1000"

definition unix_epoch :: gotime where
  "unix_epoch = first_day 1970 * ns_per_day"

definition UnixMilli :: "gotime \<Rightarrow> int" where
  "UnixMilli t = (t - unix_epoch) div (ns_per_sec div ms_per_sec)"

definition time_UnixMilli :: "int \<Rightarrow> gotime" where
  "time_UnixMilli ms = unix_epoch + ms * (ns_per_sec div ms_per_sec)"

definition parseJobLogCursor :: "(string \<Rightarrow> gotime option) \<Rightarrow> request \<Rightarrow> string \<times> gotime" where
  "parseJobLogCursor parse_rfc3339 r =
     (let afterID = get_value (r_Query r) ''after''; raw = get_value (r_Query r) ''after_at''
      in if raw = [] then (afterID, zero_time)
         else (case strconv_Atoi raw of
                 (ms, False) \<Rightarrow> (afterID, time_UnixMilli ms)
               | (_, True) \<Rightarrow> (afterID, case parse_rfc3339 raw of Some t \<Rightarrow> t | None \<Rightarrow> zero_time)))"

record log_view =
  lv_Logs :: "JobLog list"
  lv_Total :: nat
  lv_TailShown :: nat
  lv_LastID :: string
  lv_LastAtMS :: int

definition jobLogViewData :: "JobLog list \<Rightarrow> nat \<Rightarrow> log_view" where
  "jobLogViewData logs n =
     (case jobLogCursor logs of (lastID, lastAt) \<Rightarrow>
        \<lparr>lv_Logs = logs, lv_Total = n, lv_TailShown = length logs, lv_LastID = lastID, lv_LastAtMS = UnixMilli lastAt\<rparr>)"

record jobOverviewRow =
  jo_Job :: Job
  jo_TenantName :: string

definition tenantNames :: "('w db_world_scheme, (string \<times> string) list) io" where
  "tenantNames = bindE ListTenants (\<lambda>ts. ret (map (\<lambda>t. (t_ID t, t_Name t)) (rev ts)))"

definition attachTenantNames :: "Job list \<Rightarrow> (string \<times> string) list \<Rightarrow> jobOverviewRow list" where
  "attachTenantNames js names =
     map (\<lambda>j. let name = get_value names (j_TenantID j)
              in \<lparr>jo_Job = j, jo_TenantName = (if name = [] then j_TenantID j else name)\<rparr>) js"

record jobs_overview =
  ov_Active :: "jobOverviewRow list"
  ov_Recent :: "jobOverviewRow list"
  ov_Counts :: JobCounts

definition jobOverviewData :: "('w db_world_scheme, jobs_overview) io" where
  "jobOverviewData =
     bindE tenantNames (\<lambda>names.
     bindE ListActiveJobs (\<lambda>act.
     bindE (ListRecentJobs 20) (\<lambda>recent_jobs.
       ret \<lparr>ov_Active = attachTenantNames act names, ov_Recent = attachTenantNames recent_jobs names, ov_Counts = countJobs act\<rparr>)))"

section \<open>Redaction\<close>

definition publicTenant :: "Tenant \<Rightarrow> Tenant" where
  "publicTenant t = t\<lparr>t_ClientSecret := [], t_StorePassword := []\<rparr>"

definition isSensitiveHeader :: "string \<Rightarrow> bool" where
  "isSensitiveHeader k =
     (strings_EqualFold k ''authorization'' \<or> strings_EqualFold k ''x-api-key'' \<or> strings_EqualFold k ''x-auth-token'')"

text \<open>
  A text read into \<open>map[string]any\<close> and written again: of two members of one name the last counts, members are sorted by
  name, and numbers go through \<open>float64\<close>. \<open>num_text\<close> is the text of a number after that, or none when it is out of range.
\<close>

definition go_map :: "(string \<times> 'a) list \<Rightarrow> (string \<times> 'a) list" where
  "go_map kvs = sort_key fst (fold (\<lambda>(k, v). AList.update k v) kvs [])"

fun nums_ok :: "(string \<Rightarrow> string option) \<Rightarrow> json \<Rightarrow> bool" where
  "nums_ok num_text (JNum t) = (num_text t \<noteq> None)"
| "nums_ok num_text (JArr vs) = list_all (nums_ok num_text) vs"
| "nums_ok num_text (JObj ms) = list_all (\<lambda>(k, v). nums_ok num_text v) ms"
| "nums_ok num_text _ = True"

fun any_value :: "(string \<Rightarrow> string option) \<Rightarrow> json \<Rightarrow> json" where
  "any_value num_text (JNum t) = JNum (case num_text t of Some u \<Rightarrow> u | None \<Rightarrow> [])"
| "any_value num_text (JArr vs) = JArr (map (any_value num_text) vs)"
| "any_value num_text (JObj ms) = JObj (go_map (map (\<lambda>(k, v). (k, any_value num_text v)) ms))"
| "any_value num_text v = v"

definition secret_keys :: "string list" where
  "secret_keys = [''password'', ''app_token'', ''user_key'', ''token'', ''secret'']"

definition redact_member :: "string \<times> json \<Rightarrow> string \<times> json" where
  "redact_member kv =
     (case kv of (k, v) \<Rightarrow>
        if k \<in> set secret_keys then (k, JStr [])
        else if k = ''headers'' then
          (case v of JObj hdrs \<Rightarrow> (k, JObj (map (\<lambda>(h, x). (h, if isSensitiveHeader h then JStr [] else x)) hdrs)) | _ \<Rightarrow> (k, v))
        else (k, v))"

definition redactNotificationConfig :: "(string \<Rightarrow> string option) \<Rightarrow> string \<Rightarrow> string" where
  "redactNotificationConfig num_text configJSON =
     (if configJSON = [] then configJSON
      else (case json_parse configJSON of
              Some JNull \<Rightarrow> ''null''
            | Some (JObj ms) \<Rightarrow>
                (if \<not> nums_ok num_text (JObj ms) then ''{}''
                 else (case any_value num_text (JObj ms) of
                         JObj m \<Rightarrow> json_Marshal (JObj (map redact_member m))
                       | v \<Rightarrow> json_Marshal v))
            | _ \<Rightarrow> ''{}''))"

definition publicNotificationSetting :: "(string \<Rightarrow> string option) \<Rightarrow> NotificationSetting \<Rightarrow> NotificationSetting" where
  "publicNotificationSetting num_text st = st\<lparr>ns_Config := redactNotificationConfig num_text (ns_Config st)\<rparr>"

end
