(* ===== verification/Api.thy ===== *)
theory Api
  imports Api_Base
begin

text \<open>
  The HTTP handlers of \<open>internal/api/router.go\<close> and \<open>jobs_overview.go\<close>. A handler gets the request and the principal that
  the guard of theory \<open>Auth\<close> found, and gives a response: a page is the name of its template with the data the handler
  puts into it (type \<open>view\<close>); what a template makes of its data is not modelled. An error of a page is the key of its
  text.

  The records of the server that the handlers use are one record \<open>Server\<close>. The language of a page is in theory \<open>Translations\<close>,
  the upload of restored files to Graph in \<open>Graph_Restore\<close>. The document of the API is not modelled.
\<close>

section \<open>State and views\<close>

record 'r Server =
  srv_Tenants :: Manager
  srv_Runner :: 'r
  srv_MasterKey :: string
  srv_PublicBaseURL :: string
  srv_StagingRoot :: string
  srv_Notifier :: NotifyService
  srv_bcrypt :: bcrypt
  srv_cron_ok :: "string \<Rightarrow> bool"
  srv_codec :: codec
  srv_usage_codec :: usage_codec
  srv_num_text :: "string \<Rightarrow> string option"
  srv_rfc3339 :: "string \<Rightarrow> gotime option"
  srv_archive :: "(string \<times> string) list \<Rightarrow> string"

record browser_view =
  bv_Tenant :: Tenant
  bv_Service :: string
  bv_Versions :: "SnapshotInfo list"
  bv_Version :: string
  bv_HasLive :: bool
  bv_Path :: string
  bv_Parent :: string
  bv_Entries :: "BrowseEntry list"
  bv_Query :: string
  bv_Usage :: "UsageReport option"
  bv_Page :: nat
  bv_Total :: nat
  bv_TotalPages :: nat

datatype view =
    TenantsView "(Tenant \<times> (UsageReport \<times> gotime) option) list" bool string
  | TenantNewView string
  | TenantView Tenant "Job list" JobCounts "Schedule list" "(UsageReport \<times> gotime) option" string string string RetentionPolicy
  | RecoveryView Tenant bool string "string option" string
  | JobsView "Job list" string JobCounts
  | SnapshotsView Tenant string "SnapshotInfo list"
  | FoldersView "string list"
  | JobView Tenant Job log_view
  | ProgressView Tenant Job
  | LogsView Tenant Job bool "JobLog list" nat string int
  | OverviewView jobs_overview
  | BrowserView browser_view
  | RestoreView Tenant "SnapshotInfo list"
  | SettingsView "NotificationSetting list" "APIToken list" string string
  | BaseURLView string
  | LoginView
  | ExportsView Tenant string "PSTExportRun list" "string list"
  | TenantDoc Tenant
  | TenantsDoc "(Tenant \<times> UsageReport option) list"
  | UsageDoc "(UsageReport \<times> gotime) option" string
  | UsageReportDoc "UsageReport option"
  | StartedDoc bool bool
  | JobsDoc "Job list"
  | SettingsDoc "NotificationSetting list"
  | SettingDoc NotificationSetting

type_synonym 'w handler = "Principal option \<Rightarrow> request \<Rightarrow> ('w usage_world_scheme, view response) io"

text \<open>A step whose error ends the handler with a status, and the tenant of a route.\<close>

definition or_http :: "('w, 'a) io \<Rightarrow> (goerr \<Rightarrow> view response) \<Rightarrow> ('a \<Rightarrow> ('w, view response) io) \<Rightarrow> ('w, view response) io" where
  "or_http m err k = attempt m (\<lambda>x. case x of Inl e \<Rightarrow> ret (err e) | Inr y \<Rightarrow> k y)"

abbreviation param :: "request \<Rightarrow> string \<Rightarrow> string" where
  "param r k \<equiv> get_value (r_Params r) k"

definition not_found :: "goerr \<Rightarrow> view response" where
  "not_found e = HttpError ''not found'' 404"

definition err_status :: "int \<Rightarrow> goerr \<Rightarrow> view response" where
  "err_status st e = HttpError (err_text e) st"

section \<open>The catalog of a tenant\<close>

definition catalogFor :: "'r Server \<Rightarrow> Tenant \<Rightarrow> ('w usage_world_scheme, Store) io" where
  "catalogFor sv t0 =
     bindE (BindStorePath (srv_Tenants sv) t0) (\<lambda>(old, t).
     bindE (from_result (DecryptSecrets (srv_Tenants sv) t)) (\<lambda>(secret, pass).
       catalog_Open (t_ID t) (t_StorePath t) pass))"

definition listTenantSnapshots :: "'r Server \<Rightarrow> Tenant \<Rightarrow> ('w usage_world_scheme, SnapshotInfo list) io" where
  "listTenantSnapshots sv t = or_else (bindE (catalogFor sv t) (\<lambda>cat. SnapshotInfos cat [])) []"

definition with_human :: "SnapshotInfo \<Rightarrow> SnapshotInfo result" where
  "with_human sn =
     (if si_BytesHuman sn \<noteq> [] then Inr sn
      else (case FormatBytes (si_Bytes sn) of Inl e \<Rightarrow> Inl e | Inr h \<Rightarrow> Inr (sn\<lparr>si_BytesHuman := h\<rparr>)))"

definition annotateSnapshots :: "string \<Rightarrow> SnapshotInfo list \<Rightarrow> ('w usage_world_scheme, SnapshotInfo list) io" where
  "annotateSnapshots tenantID snaps =
     bindE (or_else (ListJobs tenantID 200) []) (\<lambda>js.
       (let m = fold (\<lambda>j m. if j_SnapshotID j \<noteq> [] \<and> j_Service j \<noteq> [] then AList.update (j_SnapshotID j) (j_Service j) m else m) js []
        in from_result (all_results with_human (AnnotateServices snaps m))))"

definition tenant_snapshots :: "'r Server \<Rightarrow> Tenant \<Rightarrow> string \<Rightarrow> ('w usage_world_scheme, SnapshotInfo list) io" where
  "tenant_snapshots sv t tid = bindE (listTenantSnapshots sv t) (annotateSnapshots tid)"

section \<open>Tenants\<close>

definition handleHome :: "'w handler" where
  "handleHome p r = ret (Redirect ''/tenants'')"

definition handleTenants :: "'r Server \<Rightarrow> 'w handler" where
  "handleTenants sv p r =
     or_http ListTenants (err_status 500) (\<lambda>ts.
     bindE (or_else (ListTenantUsage (srv_usage_codec sv)) []) (\<lambda>cached.
     bindE (gets usage_running) (\<lambda>busy.
       ret (Page ''tenants.html'' (TenantsView
         (map (\<lambda>t. (t, map_option (\<lambda>u. (tu_Report u, tu_MeasuredAt u)) (map_of cached (t_ID t)))) ts) busy
         (get_value (r_Query r) ''usage''))))))"

definition handleUsageRefreshAll :: "'w handler" where
  "handleUsageRefreshAll p r =
     bindE RefreshAll (\<lambda>started. ret (Redirect (if started then ''/tenants?usage=started'' else ''/tenants?usage=busy'')))"

definition handleUsageRefreshOne :: "'r Server \<Rightarrow> 'w handler" where
  "handleUsageRefreshOne sv p r =
     or_http (RefreshTenant (srv_Tenants sv) (srv_usage_codec sv) (param r ''id'')) (err_status 500) (\<lambda>_.
       ret (Redirect (''/tenants/'' @ param r ''id'' @ ''?usage=ok'')))"

definition handleTenantNewForm :: "'r Server \<Rightarrow> 'w handler" where
  "handleTenantNewForm sv p r =
     ret (Page ''tenant_new.html'' (TenantNewView (srv_PublicBaseURL sv @ ''/api/consent/callback'')))"

definition handleTenantCreate :: "'r Server \<Rightarrow> 'w handler" where
  "handleTenantCreate sv p r =
     (let f = get_value (r_Form r); v = f ''secret_expires''
      in or_http (tenant_Create (srv_Tenants sv)
             \<lparr>ci_Name = f ''name'', ci_AzureTenantID = f ''azure_tenant_id'', ci_ClientID = f ''client_id'',
              ci_ClientSecret = f ''client_secret'', ci_SecretExpires = (if v \<noteq> [] then parse_date v else zero_time)\<rparr>)
           (err_status 400) (\<lambda>t.
         bindE (ignore (Reload (srv_cron_ok sv))) (\<lambda>_.
           ret (Redirect (''/tenants/'' @ t_ID t @ ''/recovery?new=1'')))))"

definition handleTenantDetail :: "'r Server \<Rightarrow> 'w handler" where
  "handleTenantDetail sv p r =
     (let i = param r ''id''
      in or_http (GetTenant i) not_found (\<lambda>t.
         attempt (EnsureDefaultSchedules i) (\<lambda>x.
         bindE (case x of Inr n \<Rightarrow> (if n > 0 then ignore (Reload (srv_cron_ok sv)) else ret ()) | Inl _ \<Rightarrow> ret ()) (\<lambda>_.
         bindE (or_else (ListJobs i 30) []) (\<lambda>js.
         bindE (or_else (ListSchedules i) []) (\<lambda>schs.
         bindE (cachedUsage (srv_usage_codec sv) i) (\<lambda>usage.
           ret (Page ''tenant_detail.html'' (TenantView t js (countJobs js) schs usage (get_value (r_Query r) ''usage'')
             (get_value (r_Query r) ''job'') (get_value (r_Query r) ''consent'') (ParseRetentionJSON (t_RetentionJSON t)))))))))))"

section \<open>Recovery of the store password\<close>

definition handleRecoveryForm :: "'w handler" where
  "handleRecoveryForm p r =
     or_http (GetTenant (param r ''id'')) not_found (\<lambda>t.
       ret (Page ''tenant_recovery.html'' (RecoveryView t (get_value (r_Query r) ''new'' = ''1'') (t_StorePath t) None [])))"

definition formatRecoverySheet :: "Tenant \<Rightarrow> string \<Rightarrow> string \<Rightarrow> string" where
  "formatRecoverySheet t repoPath storePass =
     (let nl = [CHR 0x0A]; q = [CHR 0x27]
      in ''M365 Backup '' @ em_dash @ '' offline catalog + blob recovery'' @ nl
         @ ''============================================='' @ nl @ nl
         @ ''KEEP THIS FILE OFFLINE. Anyone with store path + this password can decrypt blobs and manifests.'' @ nl @ nl
         @ ''Tenant name:     '' @ t_Name t @ nl
         @ ''Tenant ID:       '' @ t_ID t @ nl
         @ ''Azure tenant:    '' @ t_AzureTenantID t @ nl
         @ ''Store path:      '' @ repoPath @ nl
         @ ''Store password:  '' @ storePass @ nl @ nl
         @ ''Restore with the bundled CLI (no app/DB required):'' @ nl @ nl
         @ ''  m365-restore --root '' @ q @ repoPath @ q @ '' --password '' @ q @ ellipsis @ ''password above'' @ ellipsis @ q @ '' '' @ [CHR 0x5C] @ nl
         @ ''    --service exchange --generation 1 --out /restore/target'' @ nl @ nl
         @ ''Layout: blobs/{hh}/{sha256} (AES-256-GCM) and manifests/{service}/{generation}.json.zst'' @ nl
         @ ''This is NOT the MASTER_KEY. MASTER_KEY only encrypts secrets in the app database.'' @ nl)"

definition handleRecoveryExport :: "'r Server \<Rightarrow> 'w handler" where
  "handleRecoveryExport sv p r =
     or_http (GetTenant (param r ''id'')) not_found (\<lambda>t.
       (let ip = clientIP r
        in bindE (allowLogin ip) (\<lambda>ok.
           if \<not> ok then ret (HttpError ''too many attempts'' 429)
           else bindE (case p of None \<Rightarrow> ret False
                       | Some q \<Rightarrow> VerifyUserPassword (srv_bcrypt sv) (p_UserID q) (get_value (r_Form r) ''admin_password'')) (\<lambda>good.
             if \<not> good then
               bindE (recordLoginAttempt ip) (\<lambda>_.
                 ret (Page ''tenant_recovery.html'' (RecoveryView t False (t_StorePath t) None ''recovery.bad_password'')))
             else (case DecryptSecrets (srv_Tenants sv) t of
                 Inl e \<Rightarrow> ret (HttpError ''decrypt failed'' 500)
               | Inr (secret, storePass) \<Rightarrow>
                   (if get_value (r_Form r) ''action'' = ''download'' then
                      ret (Download (''m365backup-recovery-'' @ sanitizeFilePart (t_Name t) @ ''.txt'')
                             (formatRecoverySheet t (t_StorePath t) storePass))
                    else ret (Page ''tenant_recovery.html'' (RecoveryView t False (t_StorePath t) (Some storePass) []))))))))"

section \<open>Jobs\<close>

definition handleJobsPartial :: "'w handler" where
  "handleJobsPartial p r =
     or_http (ListJobs (param r ''id'') 30) (err_status 500) (\<lambda>js.
       ret (Page ''jobs_partial.html'' (JobsView js (param r ''id'') (countJobs js))))"

definition handleJobsOverview :: "'w handler" where
  "handleJobsOverview p r =
     or_http jobOverviewData (err_status 500) (\<lambda>d. ret (Page ''jobs.html'' (OverviewView d)))"

definition handleJobsOverviewPartial :: "'w handler" where
  "handleJobsOverviewPartial p r =
     or_http jobOverviewData (err_status 500) (\<lambda>d. ret (Page ''jobs_overview_partial.html'' (OverviewView d)))"

definition apiListActiveJobs :: "'w handler" where
  "apiListActiveJobs p r = or_http ListActiveJobs (err_status 500) (\<lambda>js. ret (JsonDoc (JobsDoc js)))"

definition apiListJobs :: "'w handler" where
  "apiListJobs p r = or_http (ListJobs (param r ''id'') 50) (err_status 500) (\<lambda>js. ret (JsonDoc (JobsDoc js)))"

definition no_job :: "view response" where
  "no_job = HttpError ''job not found'' 404"

text \<open>The tenant and the job of a route; a job of another tenant counts as missing.\<close>

definition tenant_job :: "request \<Rightarrow> (Tenant \<Rightarrow> Job \<Rightarrow> ('w usage_world_scheme, view response) io) \<Rightarrow> ('w usage_world_scheme, view response) io" where
  "tenant_job r k =
     or_http (GetTenant (param r ''id'')) not_found (\<lambda>t.
     or_http (GetJob (param r ''jobID'')) (\<lambda>_. no_job) (\<lambda>job.
       if j_TenantID job \<noteq> param r ''id'' then ret no_job else k t job))"

definition handleJobDetail :: "'w handler" where
  "handleJobDetail p r =
     tenant_job r (\<lambda>t job.
       bindE (or_else (ListJobLogsTail (param r ''jobID'') DefaultJobLogTail) ([], 0)) (\<lambda>(logs, n).
         ret (Page ''job_detail.html'' (JobView t job (jobLogViewData logs n)))))"

definition handleJobLive :: "'r Server \<Rightarrow> 'w handler" where
  "handleJobLive sv p r =
     tenant_job r (\<lambda>t job.
       (let jid = param r ''jobID''; part = get_value (r_Query r) ''part''
        in if part = ''progress'' then ret (Page ''job_progress_partial.html'' (ProgressView t job))
           else if part = ''logs'' then
             (let (afterID, afterAt) = parseJobLogCursor (srv_rfc3339 sv) r
              in bindE (if afterID = [] \<and> afterAt = zero_time then or_else (ListJobLogsTail jid DefaultJobLogTail) ([], 0)
                        else bindE (or_else (ListJobLogsAfter jid afterAt afterID DefaultJobLogTail) []) (\<lambda>logs.
                             bindE (or_else (CountJobLogs jid) 0) (\<lambda>n. ret (logs, n)))) (\<lambda>(logs, n).
                   (let (lastID, lastAt) = (if logs \<noteq> [] then jobLogCursor logs else (afterID, afterAt))
                    in ret (Page ''job_log_append_partial.html''
                         (LogsView t job (jobRunning (j_Status job)) logs n lastID (UnixMilli lastAt))))))
           else
             bindE (or_else (ListJobLogsTail jid DefaultJobLogTail) ([], 0)) (\<lambda>(logs, n).
               ret (Page ''job_live_partial.html'' (JobView t job (jobLogViewData logs n))))))"

definition handleCancelJob :: "_ Server \<Rightarrow> 'w handler" where
  "handleCancelJob sv p r =
     (let tid = param r ''id''; jid = param r ''jobID''; overview = (get_value (r_Query r) ''view'' = ''overview'')
      in or_http (GetJob jid) (\<lambda>_. no_job) (\<lambda>job.
         if j_TenantID job \<noteq> tid then ret no_job
         else or_http (Cancel (srv_Runner sv) jid) (err_status 400) (\<lambda>_.
           if get_value (r_Headers r) ''HX-Request'' = ''true'' then
             (if overview then handleJobsOverviewPartial p r
              else bindE (or_else (ListJobs tid 30) []) (\<lambda>js.
                ret (Page ''jobs_partial.html'' (JobsView js tid (countJobs js)))))
           else ret (Redirect (if overview then ''/jobs'' else ''/tenants/'' @ tid @ ''/jobs/'' @ jid)))))"

definition backupStartServices :: "string list" where
  "backupStartServices = [''exchange'', ''onedrive'', ''teams'', ''sharepoint'']"

text \<open>The services of the form, each once and in the order of the form; how many were queued and how many were busy.\<close>

definition requested_services :: "request \<Rightarrow> string list" where
  "requested_services r =
     rev (fold (\<lambda>raw acc. let svc = strings_ToLower (strings_TrimSpace raw)
        in if svc \<notin> set backupStartServices \<or> svc \<in> set acc then acc else svc # acc) (get_values (r_Form r) ''service'') [])"

fun trigger_loop :: "_ \<Rightarrow> string \<Rightarrow> string \<Rightarrow> string list \<Rightarrow> nat \<Rightarrow> nat \<Rightarrow> ('w usage_world_scheme, nat \<times> nat) io" where
  "trigger_loop rn i mode [] queued busy = ret (queued, busy)"
| "trigger_loop rn i mode (svc # svcs) queued busy =
     attempt (Enqueue rn i svc [] mode) (\<lambda>x. case x of
       Inl e \<Rightarrow> (if errors_Is e ErrTenantBusy then trigger_loop rn i mode svcs queued (Suc busy) else throw e)
     | Inr _ \<Rightarrow> trigger_loop rn i mode svcs (Suc queued) busy)"

definition handleTriggerBackups :: "_ Server \<Rightarrow> 'w handler" where
  "handleTriggerBackups sv p r =
     (let i = param r ''id''; back = (\<lambda>flash. Redirect (''/tenants/'' @ i @ ''?job='' @ flash));
          mode = (if strings_TrimSpace (get_value (r_Form r) ''mode'') = ''full'' then ''full'' else ''delta'');
          svcs = requested_services r
      in or_http (GetTenant i) not_found (\<lambda>_.
         if svcs = [] then ret (back ''none'')
         else or_http (trigger_loop (srv_Runner sv) i mode svcs 0 0) (err_status 500) (\<lambda>(queued, busy).
           if queued = 0 \<and> busy > 0 then ret (back ''busy'')
           else ret (back (if mode = ''full'' then ''full'' else ''queued'')))))"

definition handleTriggerBackup :: "_ Server \<Rightarrow> 'w handler" where
  "handleTriggerBackup sv p r =
     (let i = param r ''id''; service = param r ''service''; f = get_value (r_Form r); pst = (service = ''pst'')
      in or_http (if pst then from_result (EncodePSTParams (f ''scope'') (f ''mailbox'') (f ''folder'')) else ret []) (err_status 400) (\<lambda>params.
         attempt (if params \<noteq> [] then EnqueueParams (srv_Runner sv) i service [] (if pst then ''export'' else ''delta'') params
                  else Enqueue (srv_Runner sv) i service [] (if pst then ''export'' else ''delta'')) (\<lambda>x. case x of
           Inl e \<Rightarrow> (if errors_Is e ErrTenantBusy then ret (Redirect (''/tenants/'' @ i @ ''?job=busy'')) else ret (err_status 500 e))
         | Inr _ \<Rightarrow> ret (Redirect (''/tenants/'' @ i @ ''?job=queued'' @ (if pst then ''#pst-exports'' else []))))))"

section \<open>Schedules and retention\<close>

definition errScheduleWrongTenant :: goerr where
  "errScheduleWrongTenant = Err ''not found''"

definition errCronRequired :: goerr where
  "errCronRequired = Err ''cron_expr required''"

definition applyScheduleForm :: "string \<Rightarrow> string \<Rightarrow> string \<Rightarrow> string \<Rightarrow> ('w usage_world_scheme, unit) io" where
  "applyScheduleForm tid sid cronExpr enabled =
     bindE (GetSchedule sid) (\<lambda>sch.
       if sc_TenantID sch \<noteq> tid then throw errScheduleWrongTenant
       else (let e = strings_TrimSpace cronExpr; (def, ok) = DefaultCronFor (sc_Service sch);
                 on = (enabled = ''on'' \<or> enabled = ''true'' \<or> enabled = ''1'')
             in if e = [] \<and> \<not> ok then throw errCronRequired
                else UpdateSchedule (sch\<lparr>sc_CronExpr := (if e = [] then def else e), sc_Enabled := on\<rparr>)))"

definition schedule_error :: "goerr \<Rightarrow> view response" where
  "schedule_error e = err_status (if errors_Is e errCronRequired then 400 else 404) e"

definition apply_forms :: "request \<Rightarrow> string \<Rightarrow> ('w usage_world_scheme, unit) io" where
  "apply_forms r tid =
     for_each (map strings_TrimSpace (get_values (r_Form r) ''schedule_id'')) (\<lambda>sid.
       if sid = [] then ret ()
       else applyScheduleForm tid sid (get_value (r_Form r) (''cron_expr.'' @ sid)) (get_value (r_Form r) (''enabled.'' @ sid)))"

definition handleUpdateSchedules :: "'r Server \<Rightarrow> 'w handler" where
  "handleUpdateSchedules sv p r =
     (let tid = param r ''id''
      in or_http (GetTenant tid) not_found (\<lambda>_.
         or_http (apply_forms r tid) schedule_error (\<lambda>_.
         bindE (ignore (Reload (srv_cron_ok sv))) (\<lambda>_.
           ret (Redirect (''/tenants/'' @ tid @ ''#einstellungen''))))))"

definition handleUpdateSchedule :: "'r Server \<Rightarrow> 'w handler" where
  "handleUpdateSchedule sv p r =
     (let tid = param r ''id''
      in or_http (applyScheduleForm tid (param r ''sid'') (get_value (r_Form r) ''cron_expr'') (get_value (r_Form r) ''enabled'')) schedule_error (\<lambda>_.
         bindE (ignore (Reload (srv_cron_ok sv))) (\<lambda>_.
           ret (Redirect (''/tenants/'' @ tid @ ''#einstellungen'')))))"

record schedule_body =
  sb_ID :: string
  sb_CronExpr :: string
  sb_Enabled :: bool

definition store_schedule :: "schedule_body \<Rightarrow> string \<times> json \<Rightarrow> schedule_body \<times> bool" where
  "store_schedule c kv =
     (let (k, v) = kv; key = strings_EqualFold k
      in if key ''id'' then (case store_string v (sb_ID c) of (x, b) \<Rightarrow> (c\<lparr>sb_ID := x\<rparr>, b))
         else if key ''cron_expr'' then (case store_string v (sb_CronExpr c) of (x, b) \<Rightarrow> (c\<lparr>sb_CronExpr := x\<rparr>, b))
         else if key ''enabled'' then (case store_bool v (sb_Enabled c) of (x, b) \<Rightarrow> (c\<lparr>sb_Enabled := x\<rparr>, b))
         else (c, False))"

text \<open>The body of the request as a slice of structs; nothing for a body that cannot be read.\<close>

definition schedule_bodies :: "string \<Rightarrow> schedule_body list option" where
  "schedule_bodies body =
     (case json_value (2 * length body + 2) 10000 body of
        Some (JNull, _) \<Rightarrow> Some []
      | Some (JArr vs, _) \<Rightarrow>
          (let one = (\<lambda>v. case v of
                 JNull \<Rightarrow> (\<lparr>sb_ID = [], sb_CronExpr = [], sb_Enabled = False\<rparr>, False)
               | JObj ms \<Rightarrow> foldl (\<lambda>(s, bad) kv. case store_schedule s kv of (s', b) \<Rightarrow> (s', bad \<or> b))
                             (\<lparr>sb_ID = [], sb_CronExpr = [], sb_Enabled = False\<rparr>, False) ms
               | _ \<Rightarrow> (\<lparr>sb_ID = [], sb_CronExpr = [], sb_Enabled = False\<rparr>, True))
           in if list_ex (snd \<circ> one) vs then None else Some (map (fst \<circ> one) vs))
      | _ \<Rightarrow> None)"

definition apply_body :: "string \<Rightarrow> schedule_body \<Rightarrow> ('w usage_world_scheme, unit) io" where
  "apply_body tid b =
     attempt (GetSchedule (sb_ID b)) (\<lambda>x. case x of
       Inl _ \<Rightarrow> ret ()
     | Inr sch \<Rightarrow>
         (if sc_TenantID sch \<noteq> tid then ret ()
          else (let e = strings_TrimSpace (sb_CronExpr b); (def, ok) = DefaultCronFor (sc_Service sch)
                in ignore (UpdateSchedule (sch\<lparr>sc_CronExpr := (if e = [] \<and> ok then def else e), sc_Enabled := sb_Enabled b\<rparr>)))))"

definition apiUpdateSchedules :: "'r Server \<Rightarrow> 'w handler" where
  "apiUpdateSchedules sv p r =
     (case schedule_bodies (r_Body r) of
        None \<Rightarrow> ret (HttpError ''json: cannot unmarshal'' 400)
      | Some bs \<Rightarrow>
          bindE (for_each bs (apply_body (param r ''id''))) (\<lambda>_.
          bindE (ignore (Reload (srv_cron_ok sv))) (\<lambda>_. ret NoContent)))"

definition retention_form :: "request \<Rightarrow> RetentionPolicy" where
  "retention_form r =
     (let f = get_value (r_Form r)
      in \<lparr>Enabled = (f ''enabled'' = ''on'' \<or> f ''enabled'' = ''true''), KeepHours = atoiDefault (f ''keep_hours'') 24,
          KeepDaily = atoiDefault (f ''keep_daily'') 7, KeepWeekly = atoiDefault (f ''keep_weekly'') 4,
          KeepMonthly = atoiDefault (f ''keep_monthly'') 6, KeepYearly = atoiDefault (f ''keep_yearly'') 2,
          KeepMin = atoiDefault (f ''keep_min'') 3, PSTKeepRuns = atoiDefault (f ''pst_keep_runs'') 5\<rparr>)"

definition handleUpdateRetention :: "'w handler" where
  "handleUpdateRetention p r =
     (let tid = param r ''id''
      in or_http (GetTenant tid) not_found (\<lambda>_.
         or_http (UpdateTenantRetention tid (ToJSON (retention_form r))) (err_status 500) (\<lambda>_.
           ret (Redirect (''/tenants/'' @ tid)))))"

section \<open>Snapshots and the browser\<close>

definition handleSnapshotsPartial :: "'r Server \<Rightarrow> 'w handler" where
  "handleSnapshotsPartial sv p r =
     or_http (GetTenant (param r ''id'')) not_found (\<lambda>t.
     bindE (tenant_snapshots sv t (param r ''id'')) (\<lambda>snaps.
       ret (Page ''snapshots_partial.html'' (SnapshotsView t (param r ''id'') snaps))))"

definition handlePSTFoldersPartial :: "'r Server \<Rightarrow> 'w handler" where
  "handlePSTFoldersPartial sv p r =
     (let mailbox = strings_TrimSpace (get_value (r_Query r) ''mailbox'')
      in or_http (GetTenant (param r ''id'')) not_found (\<lambda>t.
         bindE (if mailbox = [] then ret []
                else or_else (bindE (catalogFor sv t) (\<lambda>cat. ListFolders cat ''exchange'' mailbox)) []) (\<lambda>folders.
           ret (Page ''pst_folders_partial.html'' (FoldersView folders)))))"

definition service_of :: "SnapshotInfo list \<Rightarrow> string \<Rightarrow> string" where
  "service_of snaps sid = (case List.find (\<lambda>sn. si_ID sn = sid) snaps of None \<Rightarrow> [] | Some sn \<Rightarrow> si_Service sn)"

definition handleSnapshotBrowse :: "'r Server \<Rightarrow> 'w handler" where
  "handleSnapshotBrowse sv p r =
     (let tid = param r ''id''; sid = param r ''snapID''; rel = get_value (r_Query r) ''path''; q = get_value (r_Query r) ''q''
      in or_http (from_result (ValidateSnapshotID sid)) (err_status 400) (\<lambda>_.
         or_http (GetTenant tid) not_found (\<lambda>t.
         bindE (tenant_snapshots sv t tid) (\<lambda>snaps.
           (let svc = service_of snaps sid
            in ret (Redirect (''/tenants/'' @ tid @ ''/browser?version='' @ query_escape sid
                 @ (if svc \<noteq> [] then ''&service='' @ query_escape svc else [])
                 @ (if rel \<noteq> [] then ''&path='' @ query_escape rel else [])
                 @ (if q \<noteq> [] then ''&q='' @ query_escape q else []))))))))"

definition handleSnapshotFile :: "'r Server \<Rightarrow> 'w handler" where
  "handleSnapshotFile sv p r =
     (let tid = param r ''id''; sid = param r ''snapID''; rel = get_value (r_Query r) ''path''
      in or_http (from_result (ValidateSnapshotID sid)) (err_status 400) (\<lambda>_.
         or_http (GetTenant tid) not_found (\<lambda>t.
         bindE (tenant_snapshots sv t tid) (\<lambda>snaps.
           (let svc = service_of snaps sid
            in ret (Redirect (''/tenants/'' @ tid @ ''/browser/file?version='' @ query_escape sid @ ''&path='' @ query_escape rel
                 @ (if svc \<noteq> [] then ''&service='' @ query_escape svc else []))))))))"

text \<open>One page of a listing: its number cut to the last page, the number of pages and the entries.\<close>

definition pageSize :: nat where
  "pageSize = 50"

definition page_of :: "nat \<Rightarrow> 'a list \<Rightarrow> nat \<times> nat \<times> 'a list" where
  "page_of page0 entries =
     (let n = length entries; pages = (if n > 0 then (n + pageSize - 1) div pageSize else 1);
          page = min page0 pages; first = min ((page - 1) * pageSize) n; bound = min ((page - 1) * pageSize + pageSize) n
      in (page, pages, take (bound - first) (drop first entries)))"

definition requested_page :: "request \<Rightarrow> nat" where
  "requested_page r = (case strconv_Atoi (get_value (r_Query r) ''page'') of (n, err) \<Rightarrow> if \<not> err \<and> n > 0 then nat n else 1)"

definition browser_entries :: "'r Server \<Rightarrow> Store \<Rightarrow> string \<Rightarrow> string \<Rightarrow> string \<Rightarrow> string \<Rightarrow> ('w usage_world_scheme, BrowseEntry list) io" where
  "browser_entries sv cat service version rel q =
     (if version = ''live'' then (if q \<noteq> [] then SearchLive cat service q 500 else BrowseLive cat service rel)
      else bindE (GetSnapshot cat version) (\<lambda>sn.
           if q \<noteq> [] then SearchGeneration (srv_codec sv) cat (sn_Service sn) (sn_Generation sn) q 500
           else BrowseGeneration (srv_codec sv) cat (sn_Service sn) (sn_Generation sn) rel))"

definition browser_parent :: "string \<Rightarrow> string" where
  "browser_parent rel =
     (if rel = [] \<or> rel = ''.'' then [] else (let d = filepath_Dir (path_Clean rel) in if d = ''.'' then [] else d))"

definition handleBrowser :: "'r Server \<Rightarrow> 'w handler" where
  "handleBrowser sv p r =
     (let tid = param r ''id''; get = get_value (r_Query r); service = strings_ToLower (strings_TrimSpace (get ''service''));
          version = strings_TrimSpace (get ''version''); rel = get ''path''; q = strings_TrimSpace (get ''q'')
      in or_http (GetTenant tid) not_found (\<lambda>t.
         bindE (tenant_snapshots sv t tid) (\<lambda>snaps.
         bindE (if service = [] then ret False
                else or_else (bindE (catalogFor sv t) (\<lambda>cat. HasLiveItems cat service)) False) (\<lambda>hasLive.
         bindE (cachedUsage (srv_usage_codec sv) tid) (\<lambda>usage.
           (let view = \<lparr>bv_Tenant = t, bv_Service = service,
                        bv_Versions = (if service = [] then [] else FilterByService snaps service), bv_Version = version,
                        bv_HasLive = hasLive, bv_Path = rel, bv_Parent = [], bv_Entries = [], bv_Query = q,
                        bv_Usage = map_option fst usage, bv_Page = 1, bv_Total = 0, bv_TotalPages = 0\<rparr>
            in if service = [] \<or> version = [] then ret (Page ''browser.html'' (BrowserView view))
               else or_http (bindE (catalogFor sv t) (\<lambda>cat. browser_entries sv cat service version rel q)) (err_status 400) (\<lambda>entries.
                 (case page_of (requested_page r) entries of (page, pages, es) \<Rightarrow>
                    ret (Page ''browser.html'' (BrowserView (view\<lparr>bv_Parent := browser_parent rel, bv_Entries := es, bv_Page := page,
                      bv_Total := length entries, bv_TotalPages := pages\<rparr>)))))))))))"

definition handleBrowserFile :: "'r Server \<Rightarrow> 'w handler" where
  "handleBrowserFile sv p r =
     (let get = get_value (r_Query r); service = strings_ToLower (strings_TrimSpace (get ''service''));
          version = strings_TrimSpace (get ''version'')
      in or_http (GetTenant (param r ''id'')) not_found (\<lambda>t.
         or_http (catalogFor sv t) (err_status 400) (\<lambda>cat.
         or_http (if version \<noteq> ''live'' then from_result (ValidateSnapshotID version) else ret ()) (err_status 400) (\<lambda>_.
         or_http (ServeFile (srv_codec sv) cat service version (get ''path'')) (err_status 400) (\<lambda>(name, data).
           ret (Download name data))))))"

section \<open>Files and restores\<close>

text \<open>\<open>http.ServeFile\<close> of a path that passed the guard.\<close>

definition serveGuardedFile :: "string \<Rightarrow> string \<Rightarrow> view response" where
  "serveGuardedFile name path =
     (case GuardPath path of Inl _ \<Rightarrow> HttpError ''invalid path'' 400 | Inr q \<Rightarrow> FileAt name q)"

definition handlePSTExportDownload :: "'w handler" where
  "handlePSTExportDownload p r =
     (let name = param r ''file''; bad = HttpError ''invalid path'' 400
      in or_http (GetTenant (param r ''id'')) not_found (\<lambda>t.
         if slash \<in> set name \<or> CHR 0x5C \<in> set name then ret bad
         else (case EnsureSubpath (PSTExportRoot (t_StorePath t)) (path_Join [param r ''runID'', name]) of
             Inl _ \<Rightarrow> ret bad
           | Inr path \<Rightarrow>
               or_http (from_result (GuardPath path)) (\<lambda>_. bad) (\<lambda>path.
               or_http (os_Stat path) not_found (\<lambda>_. ret (serveGuardedFile name path))))))"

definition handleRestoreForm :: "'r Server \<Rightarrow> 'w handler" where
  "handleRestoreForm sv p r =
     or_http (GetTenant (param r ''id'')) not_found (\<lambda>t.
     bindE (listTenantSnapshots sv t) (\<lambda>snaps. ret (Page ''restore.html'' (RestoreView t snaps))))"

text \<open>
  The working directory is removed by a deferred call on every path. \<open>upload\<close> stands for \<open>graphUploadRestore\<close>.
\<close>

definition restore_graph ::
  "'r Server \<Rightarrow> (Tenant \<Rightarrow> string \<Rightarrow> string \<Rightarrow> ('w usage_world_scheme, unit) io) \<Rightarrow> Tenant \<Rightarrow> Store \<Rightarrow> string \<Rightarrow> string \<Rightarrow> string \<Rightarrow> string
   \<Rightarrow> ('w usage_world_scheme, view response) io" where
  "restore_graph sv upload t cat i sid service work =
     (let dest = path_Join [work, ''out'']
      in or_http (Materialize (srv_codec sv) cat service sid (path_Join [dest, service])) (err_status 500) (\<lambda>_.
         or_http (upload t service dest) (err_status 500) (\<lambda>_.
         bindE (ignore (Send (srv_Notifier sv) \<lparr>ev_Type = ''restore_done'', ev_TenantID = t_ID t,
                  ev_Subject = ''Graph restore done: '' @ t_Name t,
                  ev_Body = ''Service '' @ SafeService service @ '' restore completed.''\<rparr>)) (\<lambda>_.
           ret (Redirect (''/tenants/'' @ i @ ''?restored=1''))))))"

definition restore_zip :: "'r Server \<Rightarrow> Tenant \<Rightarrow> Store \<Rightarrow> string \<Rightarrow> string \<Rightarrow> ('w usage_world_scheme, view response) io" where
  "restore_zip sv t cat sid work =
     or_http (ExportZip (srv_archive sv) (srv_codec sv) cat sid work) (err_status 500) (\<lambda>zipPath.
     bindE (ignore (Send (srv_Notifier sv) \<lparr>ev_Type = ''restore_done'', ev_TenantID = t_ID t,
              ev_Subject = ''Restore export ready: '' @ t_Name t, ev_Body = ''Snapshot export is ready for download.''\<rparr>)) (\<lambda>_.
     bindE (gets (\<lambda>w. file_at w zipPath)) (\<lambda>content.
       ret (case (serveGuardedFile (sid @ ''.zip'') zipPath, content) of
              (FileAt name q, Some d) \<Rightarrow> Download name d | (x, _) \<Rightarrow> x))))"

definition handleRestore :: "'r Server \<Rightarrow> (Tenant \<Rightarrow> string \<Rightarrow> string \<Rightarrow> ('w usage_world_scheme, unit) io) \<Rightarrow> 'w handler" where
  "handleRestore sv upload p r =
     (let f = get_value (r_Form r); i = param r ''id''; sid = f ''snapshot_id''; service = f ''service''
      in or_http (from_result (ValidateSnapshotID sid)) (err_status 400) (\<lambda>_.
         or_http (GetTenant i) not_found (\<lambda>t.
         or_http (catalogFor sv t) (err_status 500) (\<lambda>cat.
         or_http (from_result (EnsureSubpath (srv_StagingRoot sv) (''restore-'' @ sid))) (err_status 400) (\<lambda>work0.
         or_http (from_result (GuardPath work0)) (err_status 400) (\<lambda>work.
         bindE (ignore (os_MkdirAll work)) (\<lambda>_.
         attempt (if f ''mode'' = ''graph'' \<and> (service = ''onedrive'' \<or> service = ''sharepoint'')
                  then restore_graph sv upload t cat i sid service work else restore_zip sv t cat sid work) (\<lambda>x.
         bindE (ignore (os_RemoveAll work)) (\<lambda>_. from_result x)))))))))"

section \<open>Settings\<close>

definition renderSettings :: "string \<Rightarrow> 'w handler" where
  "renderSettings newToken p r =
     bindE (or_else ListNotificationSettings []) (\<lambda>settings.
     bindE (case p of None \<Rightarrow> ret [] | Some q \<Rightarrow> or_else (ListAPITokens (p_UserID q)) []) (\<lambda>tokens.
       ret (Page ''settings.html'' (SettingsView settings tokens (case p of None \<Rightarrow> [] | Some q \<Rightarrow> p_Username q) newToken))))"

definition handleSettings :: "'w handler" where
  "handleSettings = renderSettings []"

definition may_write :: "Principal option \<Rightarrow> bool" where
  "may_write p = (case p of None \<Rightarrow> False | Some q \<Rightarrow> p_Scope q = ''write'')"

definition handleCreateToken :: "'w handler" where
  "handleCreateToken p r =
     (if \<not> may_write p then ret (HttpError ''forbidden'' 403)
      else
        (let f = get_value (r_Form r); name0 = strings_TrimSpace (f ''name''); name = (if name0 = [] then ''api'' else name0);
             scope = (if strings_TrimSpace (f ''scope'') = ''read'' then ''read'' else ''write'')
         in or_http newAPITokenPlain (err_status 500) (\<lambda>plain.
            or_http (InsertAPIToken \<lparr>tk_ID = [], tk_UserID = p_UserID (the p), tk_Name = name, tk_Kind = ''user'',
                       tk_TokenHash = hashAPIToken plain, tk_Prefix = tokenPrefix plain, tk_Scope = scope, tk_CreatedAt = zero_time,
                       tk_LastUsedAt = zero_time\<rparr>) (err_status 400) (\<lambda>_.
              renderSettings plain p r))))"

definition handleDeleteToken :: "'w handler" where
  "handleDeleteToken p r =
     (if \<not> may_write p then ret (HttpError ''forbidden'' 403)
      else bindE (ignore (DeleteAPIToken (p_UserID (the p)) (param r ''tid''))) (\<lambda>_. ret (Redirect ''/settings#tokens'')))"

text \<open>The configuration of a channel as \<open>json.Marshal\<close> writes a map: sorted by key.\<close>

definition channel_config :: "request \<Rightarrow> (string \<times> json) list result" where
  "channel_config r =
     (let f = get_value (r_Form r); str = (\<lambda>k. JStr (f k)); num = (\<lambda>k. JNum (show_int (fst (strconv_Atoi (f k))))); ch = f ''channel''
      in if ch = ''smtp'' then
           Inr [(''from'', str ''smtp_from''), (''host'', str ''smtp_host''), (''password'', str ''smtp_password''), (''port'', num ''smtp_port''),
                (''to'', case splitCSV (f ''smtp_to'') of [] \<Rightarrow> JNull | xs \<Rightarrow> JArr (map JStr xs)), (''username'', str ''smtp_username'')]
         else if ch = ''pushover'' then
           Inr [(''app_token'', str ''pushover_app_token''), (''device'', str ''pushover_device''), (''expire'', num ''pushover_expire''),
                (''priority'', num ''pushover_priority''), (''retry'', num ''pushover_retry''), (''sound'', str ''pushover_sound''),
                (''sound_ok'', str ''pushover_sound_ok''), (''title'', str ''pushover_title''), (''ttl'', num ''pushover_ttl''),
                (''user_key'', str ''pushover_user_key'')]
         else (case ValidateWebhookURL (f ''webhook_url'') of
                 Inl e \<Rightarrow> Inl e
               | Inr _ \<Rightarrow> Inr [(''format'', str ''format''), (''url'', str ''webhook_url'')]))"

definition handleSaveNotifications :: "'w handler" where
  "handleSaveNotifications p r =
     or_http (from_result (channel_config r)) (err_status 400) (\<lambda>cfg.
     or_http (UpsertNotificationSetting
         \<lparr>ns_ID = [], ns_TenantID = [], ns_Channel = get_value (r_Form r) ''channel'', ns_Enabled = True,
          ns_Config = json_Marshal (JObj cfg),
          ns_NotifyOn = json_Marshal (case splitCSV (get_value (r_Form r) ''notify_on'') of [] \<Rightarrow> JNull | xs \<Rightarrow> JArr (map JStr xs)),
          ns_CreatedAt = zero_time\<rparr>) (err_status 500) (\<lambda>_.
       ret (Redirect ''/settings'')))"

definition apiGetNotifications :: "'r Server \<Rightarrow> 'w handler" where
  "apiGetNotifications sv p r =
     or_http ListNotificationSettings (err_status 500) (\<lambda>l.
       ret (JsonDoc (SettingsDoc (map (publicNotificationSetting (srv_num_text sv)) l))))"

text \<open>
  The members of the body go to the fields of the setting by their Go names. \<open>CreatedAt\<close> is a time that is overwritten
  before it is used; a text in it that is not a time is an error (\<open>srv_rfc3339\<close>).
\<close>

definition store_setting :: "(string \<Rightarrow> gotime option) \<Rightarrow> NotificationSetting \<Rightarrow> string \<times> json \<Rightarrow> NotificationSetting \<times> bool" where
  "store_setting parse_rfc3339 c kv =
     (let (k, v) = kv; key = strings_EqualFold k
      in if key ''ID'' then (case store_string v (ns_ID c) of (x, b) \<Rightarrow> (c\<lparr>ns_ID := x\<rparr>, b))
         else if key ''TenantID'' then (case store_string v (ns_TenantID c) of (x, b) \<Rightarrow> (c\<lparr>ns_TenantID := x\<rparr>, b))
         else if key ''Channel'' then (case store_string v (ns_Channel c) of (x, b) \<Rightarrow> (c\<lparr>ns_Channel := x\<rparr>, b))
         else if key ''Enabled'' then (case store_bool v (ns_Enabled c) of (x, b) \<Rightarrow> (c\<lparr>ns_Enabled := x\<rparr>, b))
         else if key ''Config'' then (case store_string v (ns_Config c) of (x, b) \<Rightarrow> (c\<lparr>ns_Config := x\<rparr>, b))
         else if key ''NotifyOn'' then (case store_string v (ns_NotifyOn c) of (x, b) \<Rightarrow> (c\<lparr>ns_NotifyOn := x\<rparr>, b))
         else if key ''CreatedAt'' then
           (case v of JNull \<Rightarrow> (c, False)
            | JStr s \<Rightarrow> (case parse_rfc3339 s of Some t \<Rightarrow> (c\<lparr>ns_CreatedAt := t\<rparr>, False) | None \<Rightarrow> (c, True))
            | _ \<Rightarrow> (c, True))
         else (c, False))"

definition zero_setting :: NotificationSetting where
  "zero_setting =
     \<lparr>ns_ID = [], ns_TenantID = [], ns_Channel = [], ns_Enabled = False, ns_Config = [], ns_NotifyOn = [], ns_CreatedAt = zero_time\<rparr>"

definition store_url :: "string \<Rightarrow> string \<times> json \<Rightarrow> string \<times> bool" where
  "store_url c kv = (case kv of (k, v) \<Rightarrow> if strings_EqualFold k ''url'' then store_string v c else (c, False))"

definition setting_url :: "string \<Rightarrow> string" where
  "setting_url config =
     (case json_parse config of
        Some (JObj ms) \<Rightarrow> fst (foldl (\<lambda>(s, bad) kv. case store_url s kv of (s', b) \<Rightarrow> (s', bad \<or> b)) ([], False) ms)
      | _ \<Rightarrow> [])"

definition apiPutNotifications :: "'r Server \<Rightarrow> 'w handler" where
  "apiPutNotifications sv p r =
     (case decode_struct (store_setting (srv_rfc3339 sv)) zero_setting (r_Body r) of (st, bad) \<Rightarrow>
        if bad then ret (HttpError ''json: cannot unmarshal'' 400)
        else or_http (if ns_Channel st \<in> {''webhook'', ''slack'', ''teams''} then from_result (ValidateWebhookURL (setting_url (ns_Config st))) else ret ())
               (err_status 400) (\<lambda>_.
             or_http (UpsertNotificationSetting st) (err_status 500) (\<lambda>st'.
               ret (JsonDoc (SettingDoc (publicNotificationSetting (srv_num_text sv) st'))))))"

section \<open>Consent\<close>

definition path_escape :: "string \<Rightarrow> string" where
  "path_escape s =
     concat (map (\<lambda>c. if is_letter c \<or> is_digit c \<or> c \<in> set ''-_.~$&+:=@'' then [c]
                    else (let n = of_char c :: nat; d = (\<lambda>k. if k < 10 then char_of (48 + k) else char_of (55 + k :: nat))
                          in [CHR ''%'', d (n div 16), d (n mod 16)])) s)"

definition ConsentURL :: "Manager \<Rightarrow> Tenant \<Rightarrow> string \<Rightarrow> string" where
  "ConsentURL m t state =
     ''https://login.microsoftonline.com/'' @ path_escape (t_AzureTenantID t) @ ''/adminconsent?''
     @ form_Encode [(''client_id'', t_ClientID t), (''redirect_uri'', mg_BaseURL m @ ''/api/consent/callback''), (''state'', state)]"

definition handleConsentStart :: "'r Server \<Rightarrow> 'w handler" where
  "handleConsentStart sv p r =
     or_http (GetTenant (param r ''id'')) not_found (\<lambda>t.
     bindE time_Now (\<lambda>now.
       ret (Redirect (ConsentURL (srv_Tenants sv) t (SignConsentState (param r ''id'') (srv_MasterKey sv) ns_per_hour now)))))"

definition handleConsentCallback :: "_ Server \<Rightarrow> 'w handler" where
  "handleConsentCallback sv p r =
     bindE time_Now (\<lambda>now.
       case VerifyConsentState (get_value (r_Query r) ''state'') (srv_MasterKey sv) now of
         Inl _ \<Rightarrow> ret (HttpError ''invalid state'' 400)
       | Inr tenantID \<Rightarrow>
           (let c = get_value (r_Query r) ''admin_consent''
            in if c \<noteq> ''True'' \<and> c \<noteq> ''true'' then ret (HttpError ''consent not granted'' 400)
               else or_http (GetTenant tenantID) (err_status 500) (\<lambda>t.
                 if t_Status t = ''active'' then ret (Redirect (''/tenants/'' @ tenantID @ ''?consent=updated''))
                 else or_http (Activate tenantID) (err_status 500) (\<lambda>_.
                   bindE (ignore (Enqueue (srv_Runner sv) tenantID ''exchange'' [] ''full'')) (\<lambda>_.
                     ret (Redirect (''/tenants/'' @ tenantID @ ''?consent=ok'')))))))"

section \<open>The rest of the API\<close>

definition apiListTenants :: "'r Server \<Rightarrow> 'w handler" where
  "apiListTenants sv p r =
     or_http ListTenants (err_status 500) (\<lambda>ts.
       if get_value (r_Query r) ''usage'' \<noteq> ''1'' then ret (JsonDoc (TenantsDoc (map (\<lambda>t. (publicTenant t, None)) ts)))
       else bindE (or_else (ListTenantUsage (srv_usage_codec sv)) []) (\<lambda>cached.
         ret (JsonDoc (TenantsDoc (map (\<lambda>t. (publicTenant t, map_option tu_Report (map_of cached (t_ID t)))) ts)))))"

definition measureAndStoreUsage :: "'r Server \<Rightarrow> Tenant \<Rightarrow> ('w usage_world_scheme, UsageReport option) io" where
  "measureAndStoreUsage sv t =
     bindE (ignore (RefreshTenant (srv_Tenants sv) (srv_usage_codec sv) (t_ID t))) (\<lambda>_.
     bindE (cachedUsage (srv_usage_codec sv) (t_ID t)) (\<lambda>u. ret (map_option fst u)))"

definition apiTenantUsage :: "'r Server \<Rightarrow> 'w handler" where
  "apiTenantUsage sv p r =
     (let i = param r ''id''
      in or_http (GetTenant i) not_found (\<lambda>t.
         if get_value (r_Query r) ''fresh'' = ''1'' then
           bindE (measureAndStoreUsage sv t) (\<lambda>u.
             ret (case u of None \<Rightarrow> HttpError ''measure failed'' 500 | Some _ \<Rightarrow> JsonDoc (UsageReportDoc u)))
         else bindE (cachedUsage (srv_usage_codec sv) i) (\<lambda>u. ret (JsonDoc (UsageDoc u i)))))"

definition apiUsageRefreshAll :: "'w handler" where
  "apiUsageRefreshAll p r =
     bindE RefreshAll (\<lambda>started. bindE (gets usage_running) (\<lambda>busy. ret (JsonDoc (StartedDoc started busy))))"

definition apiUsageRefreshOne :: "'r Server \<Rightarrow> 'w handler" where
  "apiUsageRefreshOne sv p r =
     or_http (RefreshTenant (srv_Tenants sv) (srv_usage_codec sv) (param r ''id'')) (err_status 500) (\<lambda>_.
     bindE (cachedUsage (srv_usage_codec sv) (param r ''id'')) (\<lambda>u. ret (JsonDoc (UsageDoc u (param r ''id'')))))"

definition handleOpenAPIPage :: "'r Server \<Rightarrow> 'w handler" where
  "handleOpenAPIPage sv p r = ret (Page ''openapi.html'' (BaseURLView (requestBaseURL (srv_PublicBaseURL sv) r)))"

end
