(* ===== verification/Api_Isolation.thy ===== *)
theory Api_Isolation
  imports Api Runner_Jobs
begin

text \<open>
  The handlers under \<open>/tenants/{id}\<close> leave the other tenants alone. The proof is one frame rule per operation: what it
  keeps of the rows of the other tenants (\<open>elsewhere\<close>), composed along the handlers by the rules of theory \<open>Go_IO\<close>.
\<close>

section \<open>The rows of the other tenants\<close>

definition elsewhere ::
  "string \<Rightarrow> 'w db_world_scheme
   \<Rightarrow> (Tenant list \<times> Schedule list \<times> Job list) \<times> DeltaToken list \<times> item_row list \<times> Snapshot list \<times> change_row list" where
  "elsewhere tid w =
     ((filter (\<lambda>t. t_ID t \<noteq> tid) (tenants w), filter (\<lambda>s. sc_TenantID s \<noteq> tid) (schedules w),
       filter (\<lambda>j. j_TenantID j \<noteq> tid) (jobs w)),
      filter (\<lambda>d. dt_TenantID d \<noteq> tid) (delta_tokens w), filter (\<lambda>r. ir_tenant r \<noteq> tid) (catalog_items w),
      filter (\<lambda>s. sn_TenantID s \<noteq> tid) (catalog_snapshots w), filter (\<lambda>c. cr_tenant c \<noteq> tid) (catalog_changes w))"

text \<open>The primary keys of jobs and schedules.\<close>

definition keyed :: "'w db_world_scheme \<Rightarrow> bool" where
  "keyed w = (distinct (map j_ID (jobs w)) \<and> distinct (map sc_ID (schedules w)))"

text \<open>The rows of the other tenants are \<open>rows\<close>.\<close>

definition own where
  "own tid rows w = (elsewhere tid w = rows \<and> keyed w)"

lemmas own_defs = own_def elsewhere_def keyed_def

named_theorems own_rules \<open>operations on one tenant that keep the rows of the others\<close>

lemma filter_map_outside:
  "(\<And>x. x \<in> set xs \<Longrightarrow> f x = x \<or> (\<not> P x \<and> \<not> P (f x))) \<Longrightarrow> filter P (map f xs) = filter P xs"
  by (induction xs) (auto, metis+)

lemma distinct_map_same_key: "(\<And>x. key (f x) = key x) \<Longrightarrow> distinct (map key (map f xs)) = distinct (map key xs)"
  by (simp add: comp_def)

lemma own_free [own_rules]: "fault_free (own tid rows)"
  by (rule fault_freeI) (simp add: own_defs)

lemma own_query [own_rules]: "keeps (own tid rows) (query f)" "keeps (own tid rows) (query_row g)" "keeps (own tid rows) access"
  by (simp_all add: keeps_query keeps_query_row keeps_access own_free)

lemma own_reads [own_rules]:
  "keeps (own tid rows) (GetJob i)" "keeps (own tid rows) (GetTenant i)" "keeps (own tid rows) (GetSchedule i)"
  "keeps (own tid rows) ListTenants" "keeps (own tid rows) ListActiveJobs" "keeps (own tid rows) (ListRecentJobs n)"
  "keeps (own tid rows) (ListJobs t n)" "keeps (own tid rows) (ListSchedules t)" "keeps (own tid rows) ListAllSchedules"
  "keeps (own tid rows) (CountActiveJobs t s)" "keeps (own tid rows) (CountActiveFullJobs t)"
  by (simp_all add: GetJob_def GetTenant_def GetSchedule_def ListTenants_def ListActiveJobs_def ListRecentJobs_def ListJobs_def
      ListSchedules_def ListAllSchedules_def CountActiveJobs_def CountActiveFullJobs_def Let_def own_query)

lemma own_uuid [own_rules]: "keeps (own tid rows) uuid_NewString"
  by (rule keeps_uuid) (simp add: own_defs)

text \<open>One statement.\<close>

lemma wp_own_UpdateJob:
  assumes "own tid rows w" "\<And>r. r \<in> set (jobs w) \<Longrightarrow> j_ID r = j_ID j \<Longrightarrow> j_TenantID r = tid"
  shows "wp (UpdateJob j) (\<lambda>_. own tid rows) w"
proof -
  have "filter (\<lambda>r. j_TenantID r \<noteq> tid) (map (\<lambda>r. if j_ID r = j_ID j then job_update j r else r) (jobs w))
      = filter (\<lambda>r. j_TenantID r \<noteq> tid) (jobs w)"
    by (rule filter_map_outside) (use assms(2) in auto)
  moreover have "distinct (map j_ID (map (\<lambda>r. if j_ID r = j_ID j then job_update j r else r) (jobs w))) = distinct (map j_ID (jobs w))"
    by (rule distinct_map_same_key) simp
  ultimately show ?thesis using assms(1) unfolding UpdateJob_def by (intro wp_guarded) (simp_all add: own_defs)
qed

lemma wp_own_UpdateSchedule:
  assumes "own tid rows w" "\<And>r. r \<in> set (schedules w) \<Longrightarrow> sc_ID r = sc_ID s \<Longrightarrow> sc_TenantID r = tid"
  shows "wp (UpdateSchedule s) (\<lambda>_. own tid rows) w"
proof -
  let ?f = "\<lambda>r. if sc_ID r = sc_ID s then r\<lparr>sc_CronExpr := sc_CronExpr s, sc_Enabled := sc_Enabled s, sc_LastRun := sc_LastRun s,
              sc_NextRun := sc_NextRun s\<rparr> else r"
  have "filter (\<lambda>r. sc_TenantID r \<noteq> tid) (map ?f (schedules w)) = filter (\<lambda>r. sc_TenantID r \<noteq> tid) (schedules w)"
    by (rule filter_map_outside) (use assms(2) in auto)
  moreover have "distinct (map sc_ID (map ?f (schedules w))) = distinct (map sc_ID (schedules w))"
    by (rule distinct_map_same_key) simp
  ultimately show ?thesis using assms(1) unfolding UpdateSchedule_def by (intro wp_exec) (simp_all add: own_defs)
qed

lemma own_tenant_map:
  assumes "own tid rows w" "\<And>r. t_ID (f r) = t_ID r" "\<And>r. t_ID r \<noteq> tid \<Longrightarrow> f r = r"
  shows "own tid rows (w\<lparr>tenants := map f (tenants w)\<rparr>)"
proof -
  have "filter (\<lambda>r. t_ID r \<noteq> tid) (map f (tenants w)) = filter (\<lambda>r. t_ID r \<noteq> tid) (tenants w)"
    by (rule filter_map_outside) (use assms(2,3) in auto)
  then show ?thesis using assms(1) by (simp add: own_defs)
qed

lemma own_UpdateTenant: "t_ID t = tid \<Longrightarrow> keeps (own tid rows) (UpdateTenant t)"
  unfolding UpdateTenant_def by (auto intro!: keeps_rules keeps_guarded own_free own_tenant_map split: if_splits)

lemma own_UpdateTenantRetention [own_rules]: "keeps (own tid rows) (UpdateTenantRetention tid x)"
  unfolding UpdateTenantRetention_def by (auto intro!: keeps_rules keeps_exec own_free own_tenant_map split: if_splits)

lemma own_CreateJob: "j_TenantID j = tid \<Longrightarrow> keeps (own tid rows) (CreateJob j)"
  unfolding CreateJob_def by (auto intro!: keeps_rules keeps_guarded own_rules simp: own_defs)

lemma own_CreateSchedule: "sc_TenantID s = tid \<Longrightarrow> keeps (own tid rows) (CreateSchedule s)"
  unfolding CreateSchedule_def by (auto intro!: keeps_rules keeps_guarded own_rules simp: own_defs)

lemma own_DeleteDeltaTokens [own_rules]: "keeps (own tid rows) (DeleteDeltaTokens tid svc)"
  unfolding DeleteDeltaTokens_def
  by (auto intro!: keeps_rules keeps_exec own_rules simp: own_defs) (metis (mono_tags, lifting) filter_cong)+

lemma own_InsertJobLog [own_rules]: "keeps (own tid rows) (InsertJobLog l)"
  unfolding InsertJobLog_def by (auto intro!: keeps_rules keeps_guarded own_rules simp: own_defs)

lemma own_disk [own_rules]: "keeps (own tid rows) (os_MkdirAll d)" "keeps (own tid rows) (os_RemoveAll d)"
  by (auto intro!: keeps_disk simp: disk_free_def own_defs)

text \<open>A row that was read belongs to the tenant, so an update of it stays with the tenant.\<close>

lemma own_key:
  "own tid rows w \<Longrightarrow> j \<in> set (jobs w) \<Longrightarrow> r \<in> set (jobs w) \<Longrightarrow> j_ID r = j_ID j \<Longrightarrow> j_TenantID r = j_TenantID j"
  "own tid rows w \<Longrightarrow> s \<in> set (schedules w) \<Longrightarrow> q \<in> set (schedules w) \<Longrightarrow> sc_ID q = sc_ID s \<Longrightarrow> sc_TenantID q = sc_TenantID s"
  by (auto simp: own_def keyed_def distinct_map dest: inj_onD)

lemma first_in_table: "filter P xs = x # ys \<Longrightarrow> x \<in> set xs \<and> P x"
  by (metis filter_eq_ConsD in_set_conv_decomp)

lemma wp_own_GetTenant:
  assumes "own tid rows w"
  shows "wp (GetTenant tid) (\<lambda>r w'. own tid rows w' \<and> (\<forall>t. r = Inr t \<longrightarrow> t_ID t = tid)) w"
  unfolding GetTenant_def using assms own_free [of tid rows]
  by (auto simp: fault_free_def intro!: wp_query_row dest!: first_in_table)

lemma own_after_tenant: "(\<And>t. t_ID t = tid \<Longrightarrow> keeps (own tid rows) (k t)) \<Longrightarrow> keeps (own tid rows) (bindE (GetTenant tid) k)"
  by (rule keeps_wp) (auto simp: wp_bindE intro!: wp_keeps elim!: wp_mono [OF wp_own_GetTenant] split: sum.split)

lemma own_BindStorePath: "t_ID t = tid \<Longrightarrow> keeps (own tid rows) (BindStorePath m t)"
  unfolding BindStorePath_def Let_def by (auto intro!: keeps_rules own_rules own_UpdateTenant)

lemma own_Activate [own_rules]: "keeps (own tid rows) (Activate tid)"
  unfolding Activate_def by (rule own_after_tenant) (auto intro!: keeps_rules own_UpdateTenant)

lemma own_EnsureDefaultSchedules [own_rules]: "keeps (own tid rows) (EnsureDefaultSchedules tid)"
  unfolding EnsureDefaultSchedules_def create_schedules_def Let_def
  by (auto intro!: keeps_rules own_rules own_CreateSchedule simp: default_schedule_def)

section \<open>The runner\<close>

lemma own_enqueueLocked [own_rules]: "keeps (own tid rows) (enqueueLocked r tid sv sch ty params pe)"
proof -
  have empty: "keeps (own tid rows) (emptyStoreState r tid sv)"
    unfolding emptyStoreState_def EmptyLocalData_def countSnapshots_def countLiveItems_def bindTenantStore_def
    by (rule own_after_tenant) (auto intro!: keeps_rules own_rules own_BindStorePath)
  have "keeps (own tid rows) (promote_empty r tid sv ty pe)"
    unfolding promote_empty_def enabledGraphServices_def Let_def by (auto intro!: keeps_rules empty own_rules)
  moreover have "j_TenantID (queued_job tid b c d e) = tid" for b c d e by (simp add: queued_job_def)
  ultimately show ?thesis
    unfolding enqueueLocked_def
    by (auto intro!: keeps_rules keeps_modify own_CreateJob own_rules split: sum.split) (auto simp: own_defs)
qed

lemma own_Enqueue [own_rules]:
  "keeps (own tid rows) (EnqueueParams r tid sv sch ty params)" "keeps (own tid rows) (Enqueue r tid sv sch ty)"
proof -
  have "keeps (own tid rows) (enqueue_extras r tid svcs)" for svcs
    by (induction svcs) (auto intro!: keeps_rules own_rules)
  then show "keeps (own tid rows) (EnqueueParams r tid sv sch ty params)" for params
    unfolding EnqueueParams_def by (auto intro!: keeps_rules own_rules)
  then show "keeps (own tid rows) (Enqueue r tid sv sch ty)" by (simp add: Enqueue_def)
qed

lemma own_call_cancel [own_rules]: "keeps (own tid rows) (call_cancel i)"
  unfolding call_cancel_def by (rule keeps_modify) (simp add: own_defs)

lemma own_cleanStagingJob [own_rules]: "keeps (own tid rows) (cleanStagingJob r i)"
  unfolding cleanStagingJob_def by (auto intro!: keeps_rules own_rules split: sum.split)

lemma wp_own_Cancel:
  assumes "own tid rows w" "j \<in> set (jobs w)" "j_ID j = jid" "j_TenantID j = tid"
  shows "wp (Cancel r jid) (\<lambda>_. own tid rows) w"
proof -
  have tail: "keeps (own tid rows) (bindE (ignore (InsertJobLog l)) (\<lambda>_. cleanStagingJob r i))" for l i
    by (auto intro!: keeps_rules own_rules)
  have update: "wp (bindE (ignore (UpdateJob k)) (\<lambda>_. bindE (ignore (InsertJobLog l)) (\<lambda>_. cleanStagingJob r i))) (\<lambda>_. own tid rows) w1"
    if "own tid rows w1" "jobs w1 = jobs w" "j_ID k = jid" for k l i w1
    unfolding wp_bindE [of "ignore (UpdateJob k)"] wp_ignore [of "UpdateJob k"]
    by (rule wp_mono [OF wp_own_UpdateJob [OF that(1)]])
      (use that own_key(1) [OF that(1), of j] assms in \<open>auto intro!: wp_keeps tail\<close>)
  have free: "own tid rows (w\<lparr>faults := fs\<rparr>)" for fs using assms(1) by (simp add: own_defs)
  show ?thesis
    unfolding Cancel_def GetJob_def wp_bindE [of "query_row f" for f]
    apply (rule wp_query_row)
     apply (auto simp: wp_bindE [of "modify f" for f] wp_bindE [of time_Now] wp_time_Now wp_throw call_cancel_def wp_modify free
       dest!: first_in_table intro!: update)
    using assms(1) apply (auto simp: own_defs)
    done
qed

section \<open>The handlers\<close>

lemma own_or_http [keeps_rules]: "keeps P m \<Longrightarrow> (\<And>x. keeps P (k x)) \<Longrightarrow> keeps P (or_http m e k)"
  unfolding or_http_def by (auto intro!: keeps_rules)

lemma own_or_else [keeps_rules]: "keeps P m \<Longrightarrow> keeps P (or_else m d)"
  unfolding or_else_def by (auto intro!: keeps_rules split: goerr.split)

lemma own_Reload [own_rules]: "keeps (own tid rows) (Reload ok)"
proof -
  have "keeps (own tid rows) (add_schedules ok schs)" for schs
    by (induction schs)
      (auto simp: cron_AddFunc_def intro!: keeps_rules keeps_modify split: sum.split, auto simp: own_defs)
  then show ?thesis
    unfolding Reload_def cron_Remove_def by (auto intro!: keeps_rules keeps_modify own_rules) (auto simp: own_defs)
qed

lemma wp_own_GetSchedule:
  "own tid rows w \<Longrightarrow> wp (GetSchedule i) (\<lambda>r w'. own tid rows w' \<and> (\<forall>s. r = Inr s \<longrightarrow> s \<in> set (schedules w'))) w"
  unfolding GetSchedule_def by (rule wp_query_row) (auto simp: own_defs dest!: first_in_table)

lemma wp_own_update_read:
  assumes "own tid rows w" "s \<in> set (schedules w)" "sc_TenantID s = tid" "sc_ID s' = sc_ID s"
  shows "wp (UpdateSchedule s') (\<lambda>_. own tid rows) w"
proof (rule wp_own_UpdateSchedule [OF assms(1)])
  fix q
  assume "q \<in> set (schedules w)" "sc_ID q = sc_ID s'"
  then show "sc_TenantID q = tid" using own_key(2) [OF assms(1,2)] assms(3,4) by simp
qed

lemma own_applyScheduleForm [own_rules]: "keeps (own tid rows) (applyScheduleForm tid sid e on)"
  unfolding applyScheduleForm_def
  by (rule keeps_wp, unfold wp_bindE, erule wp_mono [OF wp_own_GetSchedule])
    (auto simp: Let_def wp_throw split: sum.split prod.split intro!: wp_own_update_read)

lemma own_apply_body [own_rules]: "keeps (own tid rows) (apply_body tid b)"
  unfolding apply_body_def
  by (rule keeps_wp, unfold wp_attempt, erule wp_mono [OF wp_own_GetSchedule])
    (auto simp: Let_def wp_ret wp_ignore split: sum.split prod.split intro!: wp_own_update_read)

lemma own_trigger_loop [own_rules]: "keeps (own tid rows) (trigger_loop rn tid mode svcs q b)"
  by (induction svcs arbitrary: q b) (auto intro!: keeps_rules own_rules)

lemma own_cachedUsage [own_rules]: "keeps (own tid rows) (cachedUsage c i)"
  unfolding cachedUsage_def GetTenantUsage_def by (auto intro!: keeps_rules own_rules split: list.split)

lemma own_overview [own_rules]: "keeps (own tid rows) jobOverviewData"
  unfolding jobOverviewData_def tenantNames_def by (auto intro!: keeps_rules own_rules)

lemma own_handlers:
  "keeps (own (param r ''id'') rows) (handleTriggerBackups sv p r)"
  "keeps (own (param r ''id'') rows) (handleTriggerBackup sv p r)"
  "keeps (own (param r ''id'') rows) (handleUpdateSchedules sv p r)"
  "keeps (own (param r ''id'') rows) (handleUpdateSchedule sv p r)"
  "keeps (own (param r ''id'') rows) (apiUpdateSchedules sv p r)"
  "keeps (own (param r ''id'') rows) (handleUpdateRetention p r)"
  "keeps (own (param r ''id'') rows) (handleTenantDetail sv p r)"
  unfolding handleTriggerBackups_def handleTriggerBackup_def handleUpdateSchedules_def handleUpdateSchedule_def apiUpdateSchedules_def
    handleUpdateRetention_def handleTenantDetail_def apply_forms_def Let_def
  by (auto intro!: keeps_rules own_rules split: sum.split)

lemma own_handleCancelJob: "keeps (own (param r ''id'') rows) (handleCancelJob sv p r)"
proof (rule keeps_wp)
  fix w :: "'a usage_world_scheme"
  let ?tid = "param r ''id''"
  assume w: "own ?tid rows w"
  define answer :: "'a usage_world_scheme \<Rightarrow> view response result \<times> 'a usage_world_scheme" where
    "answer = (if get_value (r_Headers r) ''HX-Request'' = ''true'' then
             (if get_value (r_Query r) ''view'' = ''overview'' then handleJobsOverviewPartial p r
              else bindE (or_else (ListJobs ?tid 30) []) (\<lambda>js.
                ret (Page ''jobs_partial.html'' (JobsView js ?tid (countJobs js)))))
           else ret (Redirect (if get_value (r_Query r) ''view'' = ''overview'' then ''/jobs'' else ''/tenants/'' @ ?tid @ ''/jobs/'' @ param r ''jobID'')))"
  have answer: "keeps (own ?tid rows) answer"
    unfolding answer_def handleJobsOverviewPartial_def by (auto intro!: keeps_rules own_rules)
  have cancel: "wp (or_http (Cancel (srv_Runner sv) (param r ''jobID'')) (err_status 400) (\<lambda>_. answer)) (\<lambda>_. own ?tid rows) w1"
    if "own ?tid rows w1" "j \<in> set (jobs w1)" "j_ID j = param r ''jobID''" "j_TenantID j = ?tid" for w1 j
    unfolding or_http_def wp_attempt
    by (rule wp_mono [OF wp_own_Cancel [OF that]]) (auto simp: wp_ret intro!: wp_keeps answer split: sum.split)
  have read: "wp (GetJob (param r ''jobID'')) (\<lambda>x w1. own ?tid rows w1 \<and> (\<forall>j. x = Inr j \<longrightarrow> j \<in> set (jobs w1) \<and> j_ID j = param r ''jobID'')) w"
    unfolding GetJob_def using w by (intro wp_query_row) (auto simp: own_defs dest!: first_in_table)
  show "wp (handleCancelJob sv p r) (\<lambda>_. own ?tid rows) w"
    unfolding handleCancelJob_def Let_def answer_def [symmetric] or_http_def [of "GetJob i" for i] wp_attempt [of "GetJob i" for i]
    by (rule wp_mono [OF read]) (auto simp: wp_ret intro!: cancel split: sum.split)
qed


lemma own_handleConsentCallback:
  assumes "VerifyConsentState (get_value (r_Query r) ''state'') (srv_MasterKey sv) (clock w) = Inr tid" "own tid rows w"
  shows "own tid rows (snd (handleConsentCallback sv p r w))"
proof -
  have "keeps (own tid rows) (or_http (Activate tid) e (\<lambda>_. bindE (ignore (Enqueue (srv_Runner sv) tid a b c)) (\<lambda>_. ret d)))" for e a b c d
    by (auto intro!: keeps_rules own_rules)
  then have "wp (handleConsentCallback sv p r) (\<lambda>_. own tid rows) w"
    unfolding handleConsentCallback_def wp_bindE [of time_Now] wp_time_Now using assms
    by (auto simp: Let_def intro!: wp_keeps keeps_rules own_rules)
  then show ?thesis by (simp add: wp_def)
qed

text \<open>
  C28: the callback of the consent page, which needs no login, does nothing without a valid state. A state that does not
  verify under the master key is answered with 400 and changes nothing; one that does verify lets the callback change the
  rows of the tenant it names and of no other.
\<close>

theorem consent_needs_state:
  assumes "keyed w"
  shows "case VerifyConsentState (get_value (r_Query r) ''state'') (srv_MasterKey sv) (clock w) of
      Inl _ \<Rightarrow> handleConsentCallback sv p r w = (Inr (HttpError ''invalid state'' 400), w)
    | Inr tid \<Rightarrow> elsewhere tid (snd (handleConsentCallback sv p r w)) = elsewhere tid w"
proof (cases "VerifyConsentState (get_value (r_Query r) ''state'') (srv_MasterKey sv) (clock w)")
  case (Inl e)
  then show ?thesis by (simp add: handleConsentCallback_def io_simps)
next
  case (Inr tid)
  have "own tid (elsewhere tid w) w" using assms by (simp add: own_def)
  from own_handleConsentCallback [OF Inr this, of p] show ?thesis using Inr by (simp add: own_def)
qed

end
