(* ===== verification/Auth_Props.thy ===== *)
theory Auth_Props
  imports Auth
begin

text \<open>
  Properties of the guard in front of the handlers, of sessions and of the limit on failed logins.
\<close>

section \<open>The limit on failed logins\<close>

lemma attempts_of_update: "attempts_of ip (w\<lparr>attempts := AList.update ip' ts (attempts w)\<rparr>) = (if ip = ip' then ts else attempts_of ip w)"
  by (simp add: attempts_of_def update_conv')

lemma attempts_of_cong: "attempts w' = attempts w \<Longrightarrow> attempts_of ip w' = attempts_of ip w"
  by (simp add: attempts_of_def)

lemma free_attempts: "fault_free (\<lambda>w. attempts w = A \<and> clock w = c)"
  by (rule fault_freeI) simp

lemma Login_keeps: "keeps (\<lambda>w. attempts w = A \<and> clock w = c) (Login bc user pass)"
  unfolding Login_def verifyUser_def GetUserByUsername_def query_row_def Let_def
  by (auto intro!: keeps_rules keeps_query free_attempts keeps_modify split: list.split)
    (auto simp: keeps_def uuid_NewString_def time_Now_def gets_def)

lemma Login_no_error: "\<exists>x w'. Login bc user pass w = (Inr x, w')"
  by (auto simp: Login_def Let_def io_simps split: prod.split sum.split)

text \<open>The recent failures of an address, and what one login request does to the lists.\<close>

definition recent :: "gotime \<Rightarrow> gotime list \<Rightarrow> gotime list" where
  "recent now ts = filter (\<lambda>t. now - loginWindow < t) ts"

abbreviation rejected :: "'v response" where
  "rejected \<equiv> HttpError ''invalid credentials'' 401"

lemma handleLogin_spec:
  obtains x w' where "handleLogin bc base r w = (Inr x, w')"
    and "x = rejected \<Longrightarrow> length (recent (clock w) (attempts_of (clientIP r) w)) < loginMaxAttempts
           \<and> attempts_of (clientIP r) w' = recent (clock w) (attempts_of (clientIP r) w) @ [clock w]"
    and "x \<noteq> rejected \<Longrightarrow> attempts_of (clientIP r) w' = recent (clock w) (attempts_of (clientIP r) w)"
    and "\<And>ip. ip \<noteq> clientIP r \<Longrightarrow> attempts_of ip w' = attempts_of ip w"
proof -
  let ?ip = "clientIP r"
  let ?ts = "recent (clock w) (attempts_of ?ip w)"
  let ?w1 = "w\<lparr>attempts := AList.update ?ip ?ts (attempts w)\<rparr>"
  obtain user pass where cred: "readLoginCredentials r = (user, pass)" by fastforce
  obtain x w2 where login: "Login bc user pass ?w1 = (Inr x, w2)" using Login_no_error by blast
  have w2: "attempts w2 = attempts ?w1" "clock w2 = clock w"
    using keepsD [OF Login_keeps [of "attempts ?w1" "clock w"] _ login] by auto
  have at: "attempts_of ip w2 = (if ip = ?ip then ?ts else attempts_of ip w)" for ip
    using attempts_of_update [of ip ?ip ?ts w] attempts_of_cong [OF w2(1), of ip] by simp
  show thesis
  proof (cases "length ?ts < loginMaxAttempts")
    case False
    then have "handleLogin bc base r w = (Inr (HttpError ''too many login attempts'' 429), ?w1)"
      by (simp add: handleLogin_def allowLogin_def recent_def io_simps Let_def)
    then show thesis by (rule that) (simp_all add: attempts_of_update)
  next
    case True
    note run = handleLogin_def allowLogin_def recordLoginAttempt_def io_simps Let_def cred
    show thesis
    proof (cases x)
      case None
      have "handleLogin bc base r w = (Inr rejected, w2\<lparr>attempts := AList.update ?ip (attempts_of ?ip w2 @ [clock w2]) (attempts w2)\<rparr>)"
        using True login None by (simp add: run recent_def [symmetric])
      then show thesis by (rule that) (use True w2 in \<open>auto simp: attempts_of_def update_conv'\<close>)
    next
      case (Some token)
      have "handleLogin bc base r w = (Inr (RedirectSet \<lparr>ck_Value = token, ck_MaxAge = 86400, ck_Secure = cookieSecure base r\<rparr> ''/tenants''), w2)"
        using True login Some by (simp add: run recent_def [symmetric])
      then show thesis by (rule that) (use at in auto)
    qed
  qed
qed

text \<open>A sequence of login requests, each at its time.\<close>

fun logins :: "bcrypt \<Rightarrow> string \<Rightarrow> (gotime \<times> request) list \<Rightarrow> 'w auth_world_scheme \<Rightarrow> (gotime \<times> string \<times> unit response) list" where
  "logins bc base [] w = []"
| "logins bc base ((t, r) # rs) w =
     (case handleLogin bc base r (w\<lparr>clock := t\<rparr>) of
        (Inr x, w') \<Rightarrow> (t, clientIP r, x) # logins bc base rs w'
      | (Inl _, w') \<Rightarrow> logins bc base rs w')"

definition failures :: "string \<Rightarrow> (gotime \<times> string \<times> unit response) list \<Rightarrow> gotime list" where
  "failures ip out = map fst (filter (\<lambda>(t, ip', x). ip' = ip \<and> x = rejected) out)"

definition in_window :: "gotime \<Rightarrow> gotime list \<Rightarrow> gotime list" where
  "in_window a ts = filter (\<lambda>t. a < t \<and> t \<le> a + loginWindow) ts"

definition limited :: "gotime list \<Rightarrow> bool" where
  "limited ts = (\<forall>a. length (in_window a ts) \<le> loginMaxAttempts)"

lemma recent_mono: "now \<le> t \<Longrightarrow> recent t (recent now ts) = recent t ts"
  by (auto simp: recent_def intro!: filter_cong)

lemma limited_snoc:
  assumes "limited ts" "\<forall>x \<in> set ts. x \<le> t" "length (recent t ts) < loginMaxAttempts"
  shows "limited (ts @ [t])"
  unfolding limited_def
proof
  fix a
  show "length (in_window a (ts @ [t])) \<le> loginMaxAttempts"
  proof (cases "a < t \<and> t \<le> a + loginWindow")
    case True
    then have "in_window a ts = filter (\<lambda>x. a < x) (recent t ts)"
      using assms(2) by (auto simp: in_window_def recent_def intro!: filter_cong)
    then have "length (in_window a ts) \<le> length (recent t ts)" by simp
    then show ?thesis using assms(3) by (simp add: in_window_def)
  next
    case False
    then show ?thesis using assms(1) by (auto simp: in_window_def limited_def)
  qed
qed

lemma logins_limited:
  assumes "sorted (now # map fst rs)" "limited hist" "\<forall>x \<in> set hist. x \<le> now"
    "recent now (attempts_of ip w) = recent now hist"
  shows "limited (hist @ failures ip (logins bc base rs w))"
  using assms
proof (induction rs arbitrary: now hist w)
  case Nil
  then show ?case by (simp add: failures_def)
next
  case (Cons tr rs)
  obtain t r where tr: "tr = (t, r)" by fastforce
  let ?w = "w\<lparr>clock := t\<rparr>"
  have t: "now \<le> t" "sorted (t # map fst rs)" using Cons.prems(1) tr by auto
  have old: "\<forall>x \<in> set hist. x \<le> t" using Cons.prems(3) t(1) by auto
  have rec: "recent t (attempts_of ip ?w) = recent t hist"
    using Cons.prems(4) recent_mono [OF t(1), of hist] recent_mono [OF t(1), of "attempts_of ip w"] by (simp add: attempts_of_def)
  obtain x :: "unit response" and w' where run: "handleLogin bc base r ?w = (Inr x, w')"
    and bad: "x = rejected \<Longrightarrow> length (recent t (attempts_of (clientIP r) ?w)) < loginMaxAttempts
           \<and> attempts_of (clientIP r) w' = recent t (attempts_of (clientIP r) ?w) @ [t]"
    and good: "x \<noteq> rejected \<Longrightarrow> attempts_of (clientIP r) w' = recent t (attempts_of (clientIP r) ?w)"
    and other: "\<And>ip. ip \<noteq> clientIP r \<Longrightarrow> attempts_of ip w' = attempts_of ip ?w"
    by (rule handleLogin_spec [of bc base r ?w]) auto
  have step: "failures ip (logins bc base (tr # rs) w)
      = (if clientIP r = ip \<and> x = rejected then t # failures ip (logins bc base rs w') else failures ip (logins bc base rs w'))"
    by (simp add: failures_def tr run)
  show ?case
  proof (cases "clientIP r = ip \<and> x = rejected")
    case True
    then have "limited (hist @ [t])" using limited_snoc [OF Cons.prems(2) old] bad rec by simp
    moreover have "recent t (attempts_of ip w') = recent t (hist @ [t])"
      using True bad rec recent_mono [of t t] by (simp add: recent_def)
    ultimately have "limited ((hist @ [t]) @ failures ip (logins bc base rs w'))"
      using old by (intro Cons.IH [OF t(2)]) auto
    then show ?thesis using True step by simp
  next
    case False
    then have "recent t (attempts_of ip w') = recent t hist"
      using good other [of ip] rec recent_mono [of t t "attempts_of ip ?w"] by (cases "clientIP r = ip") auto
    then have "limited (hist @ failures ip (logins bc base rs w'))"
      using Cons.prems(2) old by (intro Cons.IH [OF t(2)]) auto
    then show ?thesis using False step by auto
  qed
qed


section \<open>The guard\<close>

text \<open>Who a request comes from, according to the tables and the sessions.\<close>

definition authentic :: "request \<Rightarrow> Principal \<Rightarrow> 'w auth_world_scheme \<Rightarrow> bool" where
  "authentic r p w =
     ((\<exists>token i. map_of (r_Cookies r) ''session'' = Some token \<and> map_of (sessions w) token = Some i \<and> clock w \<le> ses_Expires i
         \<and> p = \<lparr>p_UserID = ses_UserID i, p_Username = ses_Username i, p_Scope = ''write'', p_Via = ''session''\<rparr>)
      \<or> (\<exists>raw t u. bearer r = Some raw \<and> raw \<noteq> [] \<and> t \<in> set (api_tokens w) \<and> tk_Kind t = ''user''
         \<and> tk_TokenHash t = hashAPIToken (strings_TrimSpace raw) \<and> u \<in> set (users w) \<and> usr_ID u = tk_UserID t
         \<and> p = \<lparr>p_UserID = usr_ID u, p_Username = usr_Username u, p_Scope = tk_Scope t, p_Via = ''token''\<rparr>))"

text \<open>What authentication may change: the fault script, the last use of a token and expired sessions.\<close>

definition same_users :: "'w auth_world_scheme \<Rightarrow> 'w auth_world_scheme \<Rightarrow> bool" where
  "same_users w w' = (users w' = users w \<and> map (\<lambda>t. t\<lparr>tk_LastUsedAt := 0\<rparr>) (api_tokens w') = map (\<lambda>t. t\<lparr>tk_LastUsedAt := 0\<rparr>) (api_tokens w)
     \<and> tenants w' = tenants w \<and> jobs w' = jobs w \<and> clock w' = clock w
     \<and> map_of (sessions w') \<subseteq>\<^sub>m map_of (sessions w))"

lemma same_users_refl: "same_users w (w\<lparr>faults := fs\<rparr>)" "same_users w w"
  by (simp_all add: same_users_def)

lemma same_users_trans: "same_users w w1 \<Longrightarrow> same_users w1 w2 \<Longrightarrow> same_users w w2"
  by (auto simp: same_users_def intro: map_le_trans)

lemma wp_Valid:
  "wp (Valid token) (\<lambda>r w'. same_users w w' \<and> (\<exists>x. r = Inr x \<and> (\<forall>p. x = Some p \<longrightarrow>
     (\<exists>i. map_of (sessions w) token = Some i \<and> clock w \<le> ses_Expires i
        \<and> p = \<lparr>p_UserID = ses_UserID i, p_Username = ses_Username i, p_Scope = ''write'', p_Via = ''session''\<rparr>)))) w"
  unfolding Valid_def
  by (auto simp: wp_simps same_users_def map_le_def delete_conv' split: option.split prod.split)

lemma wp_query_first:
  assumes "\<And>fs x xs. f (w\<lparr>faults := fs\<rparr>) = x # xs \<Longrightarrow> Q (Inr x) (w\<lparr>faults := fs\<rparr>)" "\<And>e fs. Q (Inl e) (w\<lparr>faults := fs\<rparr>)"
  shows "wp (query_row f) Q w"
  unfolding query_row_def using assms by (auto simp: wp_simps intro!: wp_intros split: list.split)

lemma wp_Bearer:
  "wp (AuthenticateBearer raw) (\<lambda>r w'. same_users w w' \<and> (\<exists>x. r = Inr x \<and> (\<forall>p. x = Some p \<longrightarrow>
     raw \<noteq> [] \<and> (\<exists>t u. t \<in> set (api_tokens w) \<and> tk_Kind t = ''user'' \<and> tk_TokenHash t = hashAPIToken (strings_TrimSpace raw)
         \<and> u \<in> set (users w) \<and> usr_ID u = tk_UserID t
         \<and> p = \<lparr>p_UserID = usr_ID u, p_Username = usr_Username u, p_Scope = tk_Scope t, p_Via = ''token''\<rparr>)))) w"
proof -
  have head: "t \<in> set ts \<and> P t" if "filter P ts = t # ts'" for P :: "'b \<Rightarrow> bool" and t ts ts'
    using that by (metis filter_eq_ConsD in_set_conv_decomp)
  have "strings_TrimSpace [] = []" by code_simp
  then have nonempty: "raw \<noteq> []" if "strings_TrimSpace raw \<noteq> []" using that by auto
  show ?thesis
    unfolding AuthenticateBearer_def GetAPITokenByHash_def GetUser_def TouchAPIToken_def Let_def
    by (auto simp: wp_simps same_users_def nonempty intro!: wp_query_first wp_intros dest!: head) metis+
qed

lemma wp_session:
  "wp (session_principal r) (\<lambda>x w'. same_users w w' \<and> (\<exists>y. x = Inr y \<and> (\<forall>p. y = Some p \<longrightarrow> authentic r p w))) w"
proof (cases "map_of (r_Cookies r) ''session''")
  case (Some token)
  show ?thesis
    unfolding session_principal_def Some option.case
    by (rule wp_mono [OF wp_Valid]) (auto simp: authentic_def Some)
qed (simp add: session_principal_def wp_simps same_users_refl)

lemma authentic_later:
  assumes "same_users w w'" "\<exists>token i. map_of (r_Cookies r) ''session'' = Some token \<and> map_of (sessions w') token = Some i \<and> clock w' \<le> ses_Expires i
         \<and> p = \<lparr>p_UserID = ses_UserID i, p_Username = ses_Username i, p_Scope = ''write'', p_Via = ''session''\<rparr>"
  shows "authentic r p w"
  using assms by (fastforce simp: authentic_def same_users_def map_le_def dom_def)

lemma wp_principal:
  "wp (principalFromRequest r) (\<lambda>x w'. same_users w w' \<and> (\<exists>y. x = Inr y \<and> (\<forall>p. y = Some p \<longrightarrow> authentic r p w))) w"
proof (cases "bearer r")
  case None
  then show ?thesis using wp_session by (simp add: principalFromRequest_def)
next
  case (Some raw)
  show ?thesis
    unfolding principalFromRequest_def Some option.case wp_bindE
  proof (rule wp_mono [OF wp_Bearer], elim conjE exE, goal_cases)
    case (1 x w1 y)
    show ?case
    proof (cases y)
      case None
      have "wp (session_principal r) (\<lambda>x w'. same_users w w' \<and> (\<exists>y. x = Inr y \<and> (\<forall>p. y = Some p \<longrightarrow> authentic r p w))) w1"
      proof (cases "map_of (r_Cookies r) ''session''")
        case (Some token)
        show ?thesis
          unfolding session_principal_def Some option.case
          by (rule wp_mono [OF wp_Valid]) (use 1 Some in \<open>blast intro: same_users_trans authentic_later\<close>)
      qed (use 1 in \<open>simp add: session_principal_def wp_simps\<close>)
      then show ?thesis using 1 None by simp
    next
      case p: (Some p)
      then have "authentic r p w" using 1 Some unfolding authentic_def by blast
      then show ?thesis using 1 p by (simp add: wp_simps)
    qed
  qed
qed

text \<open>
  No handler without permission. Whatever fails, a request that is not for one of the public paths either reaches its
  handler on behalf of a principal who is proved by an unexpired session or by the API token of an existing user, and
  whose scope allows the request, with the users, tokens, tenants and jobs as they were; or the handler is not called at
  all and the answer is one of \<open>403\<close>, \<open>401\<close> and the redirect to the login page.
\<close>

theorem Middleware_guards:
  assumes "\<not> public_path (r_Path r)" "Middleware inner r w = (x, w')"
  shows "(\<exists>p w1. authentic r p w \<and> allowScope r p \<and> same_users w w1 \<and> inner (Some p) w1 = (x, w'))
    \<or> (x \<in> {Inr (HttpError ''forbidden'' 403), Inr (HttpError ''unauthorized'' 401), Inr (Redirect ''/login'')} \<and> same_users w w')"
proof -
  let ?ok = "\<lambda>x w'. (\<exists>p w1. authentic r p w \<and> allowScope r p \<and> same_users w w1 \<and> inner (Some p) w1 = (x, w'))
    \<or> (x \<in> {Inr (HttpError ''forbidden'' 403), Inr (HttpError ''unauthorized'' 401), Inr (Redirect ''/login'')} \<and> same_users w w')"
  have "wp (Middleware inner r) ?ok w"
    unfolding Middleware_def using assms(1)
    apply (simp add: wp_bindE split del: if_split)
    apply (rule wp_mono [OF wp_principal])
    apply (auto simp: wp_simps split: option.split)
    apply (auto simp: wp_def)
    done
  from wpD [OF this assms(2)] show ?thesis .
qed

end
