(* ===== verification/Go_Mime.thy ===== *)
theory Go_Mime
  imports Go_Json Go_Crypto
begin

text \<open>
  The decoder of encoded words in mail headers (\<open>mime.WordDecoder.DecodeHeader\<close> of Go's library, without a reader
  for further character sets) and \<open>DecodeMIMEHeader\<close> of \<open>internal/storage/emlmeta.go\<close>, which uses it.
\<close>

definition from_hex :: "char \<Rightarrow> nat option" where
  "from_hex c =
     (let n = of_char c :: nat
      in if 48 \<le> n \<and> n \<le> 57 then Some (n - 48)
         else if 65 \<le> n \<and> n \<le> 70 then Some (n - 55)
         else if 97 \<le> n \<and> n \<le> 102 then Some (n - 87)
         else None)"

fun qDecode :: "string \<Rightarrow> string option" where
  "qDecode [] = Some []"
| "qDecode (c # cs) =
     (if c = CHR ''_'' then map_option (Cons (CHR '' '')) (qDecode cs)
      else if c = CHR ''='' then
        (case cs of
           a # b # rest \<Rightarrow>
             (case (from_hex a, from_hex b) of
                (Some x, Some y) \<Rightarrow> map_option (Cons (char_of (x * 16 + y))) (qDecode rest)
              | _ \<Rightarrow> None)
         | _ \<Rightarrow> None)
      else if ((32 :: nat) \<le> of_char c \<and> of_char c \<le> (126 :: nat)) \<or> c \<in> {CHR 0x0A, CHR 0x0D, CHR 0x09} then map_option (Cons c) (qDecode cs)
      else None)"

definition word_decode :: "char \<Rightarrow> string \<Rightarrow> string option" where
  "word_decode encoding text =
     (if encoding \<in> set ''Bb'' then base64_DecodeString text
      else if encoding \<in> set ''Qq'' then qDecode text
      else None)"

definition word_convert :: "string \<Rightarrow> string \<Rightarrow> string option" where
  "word_convert charset content =
     (if strings_EqualFold ''utf-8'' charset then Some content
      else if strings_EqualFold ''iso-8859-1'' charset then Some (concat (map (\<lambda>c. utf8_encode (of_char c)) content))
      else if strings_EqualFold ''us-ascii'' charset
        then Some (concat (map (\<lambda>c. if of_char c \<ge> (128 :: nat) then utf8_encode 0xFFFD else [c]) content))
      else None)"

text \<open>An encoded word \<open>=?charset?encoding?text?=\<close> at the front: its three parts and what follows.\<close>

definition encoded_word :: "string \<Rightarrow> (string \<times> char \<times> string \<times> string) option" where
  "encoded_word h =
     (case strings_Index (drop 2 h) ''?'' of
        None \<Rightarrow> None
      | Some i \<Rightarrow>
          (let rest = drop (2 + i + 1) h
           in if length rest < 4 \<or> rest ! 1 \<noteq> CHR ''?'' then None
              else (case strings_Index (drop 2 rest) ''?='' of
                      None \<Rightarrow> None
                    | Some j \<Rightarrow> Some (take i (drop 2 h), rest ! 0, take j (drop 2 rest), drop (2 + j + 2) rest))))"

definition mail_blank :: "char \<Rightarrow> bool" where
  "mail_blank c = (c \<in> {CHR '' '', CHR 0x09, CHR 0x0A, CHR 0x0D})"

lemma encoded_word_shorter: "encoded_word h = Some (a, b, c, rest) \<Longrightarrow> length rest < length h"
  by (auto simp: encoded_word_def Let_def split: option.splits if_splits)

lemma strings_Index_bound: "strings_Index s sub = Some i \<Longrightarrow> sub \<noteq> [] \<Longrightarrow> i < length s"
  by (induction s arbitrary: i) (auto split: if_splits)

text \<open>The loop over the words; \<open>between\<close> says that the last thing read was an encoded word.\<close>

function decode_words :: "bool \<Rightarrow> string \<Rightarrow> string option" where
  "decode_words between h =
     (case strings_Index h ''=?'' of
        None \<Rightarrow> Some h
      | Some s \<Rightarrow>
          (case encoded_word (drop s h) of
             None \<Rightarrow> Some h
           | Some (charset, encoding, text, rest) \<Rightarrow>
               (case word_decode encoding text of
                  None \<Rightarrow> map_option (append (take (s + 2) h)) (decode_words False (drop (s + 2) h))
                | Some content \<Rightarrow>
                    (case word_convert charset content of
                       None \<Rightarrow> None
                     | Some out \<Rightarrow>
                         map_option (append ((if between \<and> list_all mail_blank (take s h) then [] else take s h) @ out))
                           (decode_words True rest)))))"
  by pat_completeness auto
termination
  by (relation "measure (\<lambda>(b, h). length h)") (auto dest!: encoded_word_shorter strings_Index_bound)

declare decode_words.simps [simp del]

definition DecodeHeader :: "string \<Rightarrow> string option" where
  "DecodeHeader header =
     (case strings_Index header ''=?'' of
        None \<Rightarrow> Some header
      | Some i \<Rightarrow> map_option (append (take i header)) (decode_words False (drop i header)))"

definition DecodeMIMEHeader :: "string \<Rightarrow> string" where
  "DecodeMIMEHeader s =
     (if \<not> strings_Contains s ''=?'' then s
      else (case DecodeHeader s of None \<Rightarrow> s | Some d \<Rightarrow> (if d = [] then s else d)))"

end
