(* ===== verification/Exchange.thy ===== *)
theory Exchange
  imports Delta_Sync Go_Mime
begin

text \<open>
  The Exchange service (\<open>internal/backup/exchange.go\<close>): the file name of a message, the folders of a mailbox,
  what is done for a message of a delta page, the delta query of a folder, and the run over the mailboxes.

  The reconstruction of a message from its JSON form (\<open>fetchMessageMIMEFallback\<close> of \<open>eml_fallback.go\<close>) is an argument,
  \<open>fallback\<close>, of the definitions that use it; theory \<open>Eml_Build\<close> defines it.
\<close>

section \<open>File names\<close>

text \<open>\<open>string([]rune(s)[:n])\<close>: an invalid byte comes back as U+FFFD.\<close>

definition rune_bytes :: "string \<Rightarrow> string" where
  "rune_bytes r = (case r of [c] \<Rightarrow> (if of_char c \<ge> (128 :: nat) then utf8_encode 0xFFFD else [c]) | _ \<Rightarrow> r)"

definition take_runes :: "nat \<Rightarrow> string \<Rightarrow> string" where
  "take_runes n s = concat (map rune_bytes (take n (utf8_runes s)))"

definition msgShortID :: "string \<Rightarrow> string" where
  "msgShortID mid = take 10 (hex_EncodeToString (sha256_Sum256 mid))"

definition emlFileName :: "string \<Rightarrow> string \<Rightarrow> string" where
  "emlFileName subject mid =
     (let s1 = strings_ReplaceAll (sanitize (DecodeMIMEHeader subject)) ''  '' '' '';
          s2 = (if s1 = [] \<or> s1 = ''_'' then ''ohne-betreff'' else s1);
          s3 = (if length (utf8_runes s2) > 80 then take_runes 80 s2 else s2)
      in s3 @ ''__'' @ msgShortID mid @ ''.eml'')"

definition deltaKey :: "string \<Rightarrow> string \<Rightarrow> string" where
  "deltaKey userID folderID = userID @ ''|'' @ folderID"

section \<open>Errors\<close>

definition isMailboxUnavailable :: "goerr \<Rightarrow> bool" where
  "isMailboxUnavailable err =
     list_ex (strings_Contains (strings_ToLower (err_text err)))
       [''inactive'', ''soft-deleted'', ''hosted on-premise'', ''hosted on-premises'', ''mailboxnotenabledforrestapi'',
        ''mailboxnotenabled'', ''erroritemnotfound'', ''the requested user'', ''mailbox is either'', ''resourcenotfound'',
        ''mailboxnotfound'', ''user is invalid'', ''invaliduserid'']"

definition isMimeConversionFailed :: "goerr \<Rightarrow> bool" where
  "isMimeConversionFailed err =
     (let s = strings_ToLower (err_text err)
      in strings_Contains s ''errormimecontentconversionfailed'' \<or> strings_Contains s ''mime content conversion failed'')"

definition isGraphRemoved :: "message \<Rightarrow> bool" where
  "isGraphRemoved m = (''@removed'' \<in> set (ms_additional m))"

section \<open>Folders\<close>

fun map_io :: "('a \<Rightarrow> ('w, 'b list) io) \<Rightarrow> 'a list \<Rightarrow> ('w, 'b list) io" where
  "map_io f [] = ret []"
| "map_io f (x # xs) = bindE (f x) (\<lambda>ys. bindE (map_io f xs) (\<lambda>zs. ret (ys @ zs)))"

text \<open>A listing whose partial result is returned with the error, as a pair.\<close>

fun child_pages ::
  "nat \<Rightarrow> ('a \<Rightarrow> ('w, 'a list) io) \<Rightarrow> (string \<Rightarrow> ('w, 'a page) io) \<Rightarrow> 'a page \<Rightarrow> ('w, 'a list \<times> goerr option) io" where
  "child_pages 0 expand get p = throw page_bound"
| "child_pages (Suc n) expand get p =
     bindE (map_io expand (pg_value p)) (\<lambda>out.
       case has_next p of
         None \<Rightarrow> ret (out, None)
       | Some url \<Rightarrow>
           attempt (get url) (\<lambda>x. case x of
             Inl e \<Rightarrow> ret (out, Some e)
           | Inr q \<Rightarrow> bindE (child_pages n expand get q) (\<lambda>(rest, e). ret (out @ rest, e))))"

text \<open>\<open>levels\<close> counts down from 21: the depths 0 to 20 are listed.\<close>

primrec listChildFolders ::
  "nat \<Rightarrow> 'w graph_sdk \<Rightarrow> string \<Rightarrow> string \<Rightarrow> string \<Rightarrow> ('w run_world_scheme, mail_folder list \<times> goerr option) io" where
  "listChildFolders 0 gc jobID userID folderID = ret ([], None)"
| "listChildFolders (Suc levels) gc jobID userID folderID =
     (if folderID = [] then ret ([], None)
      else attempt (on_ctx jobID (g_childFolders gc userID folderID None)) (\<lambda>x. case x of
        Inl e \<Rightarrow> ret ([], Some e)
      | Inr p \<Rightarrow>
          child_pages (g_pages gc)
            (\<lambda>f. bindE (listChildFolders levels gc jobID userID (ptrStr (mf_id f))) (\<lambda>(nested, _). ret (f # nested)))
            (\<lambda>url. on_ctx jobID (g_childFolders gc userID folderID (Some url))) p))"

definition listAllMailFolders :: "'w graph_sdk \<Rightarrow> string \<Rightarrow> string \<Rightarrow> ('w run_world_scheme, mail_folder list) io" where
  "listAllMailFolders gc jobID userID =
     bindE (on_ctx jobID (g_mailFolders gc userID None)) (\<lambda>p.
     bindE (read_pages (g_pages gc) (\<lambda>url. on_ctx jobID (g_mailFolders gc userID (Some url))) (\<lambda>e. e) p) (\<lambda>roots.
       map_io (\<lambda>f. bindE (listChildFolders 21 gc jobID userID (ptrStr (mf_id f))) (\<lambda>(childs, e).
         ret (f # (if e = None then childs else [])))) roots))"

section \<open>One message\<close>

definition message_url :: "string \<Rightarrow> string \<Rightarrow> string" where
  "message_url userID mid = ''https://graph.microsoft.com/v1.0/users/'' @ userID @ ''/messages/'' @ mid @ ''/$value''"

definition mail_item :: "string \<Rightarrow> string \<Rightarrow> string \<Rightarrow> string \<Rightarrow> string \<Rightarrow> Item" where
  "mail_item mid mailbox folderName name subject =
     zero_item\<lparr>it_Service := ''exchange'', it_GraphItemID := mid, it_Mailbox := mailbox, it_ParentPath := folderName, it_Name := name,
               it_ContentType := ''message/rfc822'', it_Subject := subject\<rparr>"

text \<open>What is stored when neither the message nor its JSON form can be read.\<close>

definition placeholder :: "string \<Rightarrow> goerr \<Rightarrow> goerr \<Rightarrow> string" where
  "placeholder subj err fbErr =
     (let nl = [CHR 0x0D, CHR 0x0A]
      in ''Subject: '' @ subj @ nl @ nl @ ''[MIME fetch failed: '' @ err_text err @ '']'' @ nl
         @ ''[JSON fallback failed: '' @ err_text fbErr @ '']'' @ nl)"

definition message_body ::
  "'w graph_sdk \<Rightarrow> (string \<Rightarrow> string \<Rightarrow> ('w run_world_scheme, string) io) \<Rightarrow> string \<Rightarrow> string \<Rightarrow> string \<Rightarrow> string \<Rightarrow> string
   \<Rightarrow> ('w run_world_scheme, string \<times> string list) io" where
  "message_body gc fallback jobID userID upn mid subj =
     attempt (GetBytes gc jobID (message_url userID mid)) (\<lambda>x. case x of
       Inr body \<Rightarrow> ret (body, [])
     | Inl e \<Rightarrow>
         attempt (fallback userID mid) (\<lambda>y. ret (case y of
           Inr fb \<Rightarrow>
             (fb, [if isMimeConversionFailed e
                   then upn @ '' mime '' @ mid @ '': conversion failed '' @ em_dash @ '' stored JSON fallback''
                   else upn @ '' mime '' @ mid @ '': $value failed ('' @ err_text e @ '') '' @ em_dash @ '' stored JSON fallback''])
         | Inl fe \<Rightarrow>
             (placeholder subj e fe, [upn @ '' mime '' @ mid @ '': '' @ err_text e @ '' (fallback: '' @ err_text fe @ '')'']))))"

definition dl_warns :: "string list \<Rightarrow> delta_state \<Rightarrow> delta_state" where
  "dl_warns ws st = st\<lparr>dl_warnings := dl_warnings st @ ws\<rparr>"

definition message_sync ::
  "'w graph_sdk \<Rightarrow> (string \<Rightarrow> string \<Rightarrow> ('w run_world_scheme, string) io) \<Rightarrow> string \<Rightarrow> Store \<Rightarrow> string \<Rightarrow> string \<Rightarrow> string \<Rightarrow> string
   \<Rightarrow> 'w live \<Rightarrow> gotime \<Rightarrow> message \<Rightarrow> delta_state \<Rightarrow> ('w run_world_scheme, delta_state) io" where
  "message_sync gc fallback jobID cat userID upn mailbox folderName live began m st =
     (let mid = ptrStr (ms_id m); subj = ptrStr (ms_subject m)
      in if mid = [] then ret st
         else if isGraphRemoved m then bindE (ignore (on_ctx jobID (Delete cat ''exchange'' mid))) (\<lambda>_. ret (dl_count 0 st))
         else
           (let name = emlFileName subj mid; subject = DecodeMIMEHeader subj; label = upn @ '' / '' @ folderName
            in attempt (on_ctx jobID (LiveBlob cat ''exchange'' mid)) (\<lambda>x. case x of
                 Inl e \<Rightarrow> ret (dl_warn (upn @ '' catalog '' @ mid @ '': '' @ err_text e) st)
               | Inr existing \<Rightarrow>
                   (if skipContentDownload existing None then
                      attempt (on_ctx jobID (refreshCatalogMeta cat (the existing) mailbox folderName name subject)) (\<lambda>y. case y of
                        Inl e \<Rightarrow> ret (dl_warn (err_text e) st)
                      | Inr _ \<Rightarrow> maybeEmit live label began ((dl_count 0 st)\<lparr>dl_stored := dl_stored st + 1\<rparr>))
                    else
                      bindE (message_body gc fallback jobID userID upn mid subj) (\<lambda>(body, ws).
                      attempt (on_ctx jobID (Put cat (mail_item mid mailbox folderName name subject) body)) (\<lambda>z. case z of
                        Inl e \<Rightarrow> ret (dl_warn (err_text e) (dl_warns ws st))
                      | Inr _ \<Rightarrow> maybeEmit live label began (dl_count (int (length body)) (dl_warns ws st))))))))"

section \<open>One folder, one mailbox\<close>

definition backupFolderDelta ::
  "'w graph_sdk \<Rightarrow> (string \<Rightarrow> string \<Rightarrow> ('w run_world_scheme, string) io) \<Rightarrow> string \<Rightarrow> string \<Rightarrow> string \<Rightarrow> string \<Rightarrow> string \<Rightarrow> string
   \<Rightarrow> string \<Rightarrow> Store \<Rightarrow> 'w live \<Rightarrow> Job \<times> Result \<Rightarrow> ('w run_world_scheme, delta_state) io" where
  "backupFolderDelta gc fallback jobID tenantID userID upn folderID folderName mailbox cat live jr =
     bindE (saved_token jobID tenantID ''exchange'' (deltaKey userID folderID) ''full-'') (\<lambda>saved.
     bindE (delta_first (\<lambda>u. on_ctx jobID (g_mailDelta gc userID folderID u)) saved
              (upn @ '' / '' @ folderName @ '': delta token expired '' @ em_dash @ '' full resync of folder'') (snd jr)) (\<lambda>(first, res).
     bindE time_Now (\<lambda>now.
       (let st = \<lparr>dl_job = fst jr, dl_res = res, dl_n = 0, dl_stored = 0, dl_warnings = [],
                  dl_hb = newProgressHeartbeat heartbeatInterval heartbeatEveryN now\<rparr>
        in case first of
             Inl e \<Rightarrow> ret (if isMailboxUnavailable e then st
                           else dl_warn (upn @ '' folder '' @ folderName @ '' delta: '' @ err_text e) st)
           | Inr p \<Rightarrow>
               delta_pages (g_pages gc) jobID (\<lambda>u. on_ctx jobID (g_mailDelta gc userID folderID u))
                 (checkpoint jobID tenantID ''exchange'' (deltaKey userID folderID)) (\<lambda>e. upn @ '' folder page: '' @ err_text e)
                 (message_sync gc fallback jobID cat userID upn mailbox folderName live now) p st))))"

record ex_state =
  xs_job :: Job
  xs_res :: Result
  xs_ok :: int
  xs_shared :: int
  xs_done :: int

text \<open>Whether one of the folders has a real token; the result only goes into a message.\<close>

fun any_delta :: "string \<Rightarrow> string \<Rightarrow> string \<Rightarrow> mail_folder list \<Rightarrow> ('w run_world_scheme, bool) io" where
  "any_delta jobID tenantID uid [] = ret False"
| "any_delta jobID tenantID uid (f # fs) =
     bindE (saved_token jobID tenantID ''exchange'' (deltaKey uid (ptrStr (mf_id f))) ''full-'') (\<lambda>tok.
       if tok \<noteq> [] then ret True else any_delta jobID tenantID uid fs)"

text \<open>The folders of a mailbox: \<open>None\<close> when the context was cancelled in between.\<close>

fun mail_folders ::
  "'w graph_sdk \<Rightarrow> (string \<Rightarrow> string \<Rightarrow> ('w run_world_scheme, string) io) \<Rightarrow> Tenant \<Rightarrow> Store \<Rightarrow> Progress option \<Rightarrow> int \<Rightarrow> string \<Rightarrow> string
   \<Rightarrow> mail_folder list \<Rightarrow> int \<times> ex_state \<Rightarrow> ('w run_world_scheme, (int \<times> ex_state) option \<times> ex_state) io" where
  "mail_folders gc fallback t cat prog pct uid upn [] ns = ret (Some ns, snd ns)"
| "mail_folders gc fallback t cat prog pct uid upn (f # fs) ns =
     (let n = fst ns; s = snd ns; jobID = j_ID (xs_job s); fid = ptrStr (mf_id f); nm = sanitize (ptrStr (mf_name f));
          fname = (if nm = [] then sanitize fid else nm)
      in bindE (gets (ctx_done jobID)) (\<lambda>d.
           if d then ret (None, s)
           else if fid = [] then mail_folders gc fallback t cat prog pct uid upn fs (n, s)
           else
             bindE (SyncJob prog (xs_job s) (xs_res s) pct (upn @ '' / '' @ fname @ ellipsis)) (\<lambda>job.
             bindE (backupFolderDelta gc fallback jobID (t_ID t) uid upn fid fname (sanitize upn) cat (live_report prog pct) (job, xs_res s)) (\<lambda>st.
             bindE (warn_all (dl_warnings st) (dl_res st)) (\<lambda>res.
               mail_folders gc fallback t cat prog pct uid upn fs (n + dl_n st, s\<lparr>xs_job := dl_job st, xs_res := res\<rparr>))))))"

definition box_of :: "nat \<Rightarrow> int \<Rightarrow> string" where
  "box_of idx tot = ''['' @ show_nat (Suc idx) @ ''/'' @ show_int tot @ ''] ''"

text \<open>What is reported once the folders of a mailbox are through.\<close>

definition mailbox_done ::
  "Progress option \<Rightarrow> int \<Rightarrow> nat \<Rightarrow> string \<Rightarrow> string \<Rightarrow> int \<times> ex_state \<Rightarrow> ('w run_world_scheme, ex_state) io" where
  "mailbox_done prog tot idx upn kind ns =
     (let n = fst ns; s = snd ns;
          s1 = s\<lparr>xs_done := xs_done s + 1, xs_ok := xs_ok s + 1, xs_shared := (if kind = ''shared'' then xs_shared s + 1 else xs_shared s)\<rparr>
      in if n = 0 then
           bindE (SyncJob prog (xs_job s1) (xs_res s1) (pctFor tot (xs_done s1)) (box_of idx tot @ upn @ '' '' @ em_dash @ '' no message changes'')) (\<lambda>job.
             ret (s1\<lparr>xs_job := job\<rparr>))
         else
           (let msg = box_of idx tot @ upn @ '' ['' @ kind @ '']: '' @ show_int n @ '' message change(s) this run'' @ middot @ ''job total ''
                  @ show_int (rs_ItemsNew (xs_res s1)) @ '' msgs / '' @ show_int (rs_BytesTransferred (xs_res s1)) @ '' bytes (mailboxes done ''
                  @ show_int (xs_done s1) @ ''/'' @ show_int tot @ '')''
            in bindE (res_Info msg (xs_res s1)) (\<lambda>res.
               bindE (SyncJob prog (xs_job s1) res (pctFor tot (xs_done s1)) msg) (\<lambda>job.
                 ret (s1\<lparr>xs_job := job, xs_res := res\<rparr>)))))"

definition backupOneMailbox ::
  "'w graph_sdk \<Rightarrow> (string \<Rightarrow> string \<Rightarrow> ('w run_world_scheme, string) io) \<Rightarrow> Tenant \<Rightarrow> Store \<Rightarrow> Progress option \<Rightarrow> int \<Rightarrow> nat \<times> user
   \<Rightarrow> ex_state \<Rightarrow> ('w run_world_scheme, ex_state) io" where
  "backupOneMailbox gc fallback t cat prog tot iu s =
     (let idx = fst iu; u = snd iu; jobID = j_ID (xs_job s); uid = ptrStr (us_id u); upn = ptrStr (us_upn u)
      in if uid = [] then ret s
         else if ptrStr (us_mail u) = [] \<and> \<not> strings_Contains upn ''@'' then ret (s\<lparr>xs_res := res_Skip (xs_res s)\<rparr>)
         else
           (let res0 = addTotal 1 (xs_res s); kind = (if us_enabled u = Some False then ''shared'' else ''user''); pct = pctFor tot (xs_done s)
            in bindE (SyncJob prog (xs_job s) res0 pct (box_of idx tot @ ''probing mailbox '' @ upn @ ellipsis)) (\<lambda>job0.
               attempt (listAllMailFolders gc jobID uid) (\<lambda>x. case x of
                 Inl e \<Rightarrow>
                   (if isMailboxUnavailable e then ret (s\<lparr>xs_job := job0, xs_res := res_Skip res0, xs_done := xs_done s + 1\<rparr>)
                    else bindE (res_Warn (upn @ '': list folders: '' @ err_text e) res0) (\<lambda>res.
                         ret (s\<lparr>xs_job := job0, xs_res := res, xs_done := xs_done s + 1\<rparr>)))
               | Inr folders \<Rightarrow>
                   bindE (any_delta jobID (t_ID t) uid folders) (\<lambda>any.
                     (let msg = box_of idx tot @ upn @ '' ['' @ kind @ '']: '' @ show_nat (length folders) @ '' folder(s) '' @ em_dash
                            @ '' Graph token: '' @ (if any then ''incremental (saved deltaLink)'' else ''folder resync (no deltaLink)'') @ ellipsis
                      in bindE (res_Info msg res0) (\<lambda>res1.
                         bindE (SyncJob prog job0 res1 pct msg) (\<lambda>job1.
                         bindE (mail_folders gc fallback t cat prog pct uid upn folders (0, s\<lparr>xs_job := job1, xs_res := res1\<rparr>)) (\<lambda>(r, s2). case r of
                           None \<Rightarrow> ret s2
                         | Some ns \<Rightarrow> mailbox_done prog tot idx upn kind ns)))))))))"

section \<open>The run\<close>

definition ex_workers :: "int \<Rightarrow> int" where
  "ex_workers n = (if n < 1 then 3 else n)"

definition exchange_body ::
  "int \<Rightarrow> (string \<Rightarrow> string \<Rightarrow> ('w run_world_scheme, string) io) \<Rightarrow> 'w graph_sdk \<Rightarrow> Tenant \<Rightarrow> Job \<Rightarrow> Store \<Rightarrow> Progress option
   \<Rightarrow> ('w run_world_scheme, Job \<times> Result result) io" where
  "exchange_body workers fallback gc t job cat prog =
     bindE (res_Info (''listing users & shared mailboxes from Graph'' @ ellipsis) (NewResult prog)) (\<lambda>res1.
     bindE (SyncJob prog job res1 3 (''Listing users & shared mailboxes'' @ ellipsis)) (\<lambda>job1.
     attempt (ListUsers gc (j_ID job)) (\<lambda>x. case x of
       Inl e \<Rightarrow> ret (job1, Inl (Wrap ''list users'' e))
     | Inr users \<Rightarrow>
         (let tot = int (length users)
          in bindE (res_Info (''listed '' @ show_int tot @ '' directory objects; syncing with '' @ show_int (ex_workers workers)
                     @ '' parallel mailbox workers (Graph delta = incremental after first run)'') res1) (\<lambda>res2.
             bindE (SyncJob prog job1 res2 5 (''Listed '' @ show_int tot @ '' objects '' @ em_dash @ '' '' @ show_int (ex_workers workers)
                      @ '' workers'' @ ellipsis)) (\<lambda>job2.
             bindE (for_users (j_ID job) (backupOneMailbox gc fallback t cat prog tot) (enumerate 0 users)
                      \<lparr>xs_job = job2, xs_res = res2, xs_ok = 0, xs_shared = 0, xs_done = 0\<rparr>) (\<lambda>s.
             bindE (gets (ctx_done (j_ID job))) (\<lambda>d.
               if d then ret (xs_job s, Inl ErrCanceled)
               else
                 (case res_snapshot (xs_res s) of (itemsNew, itemsTotal, skipped, bytes) \<Rightarrow>
                    (let summary = ''done: '' @ show_int itemsNew @ '' messages touched, '' @ show_int (xs_ok s) @ '' mailboxes ok (''
                           @ show_int (xs_shared s) @ '' shared), '' @ show_int skipped @ '' skipped, '' @ show_int itemsTotal
                           @ '' considered, '' @ show_int bytes @ '' bytes (persistent sync + delta)''
                     in bindE (res_Info summary (xs_res s)) (\<lambda>res5.
                        bindE (SyncJob prog (xs_job s) res5 92 summary) (\<lambda>job5.
                          ret (job5, Inr res5)))))))))))))"

definition ExchangeBackup ::
  "int \<Rightarrow> ('w graph_sdk \<Rightarrow> string \<Rightarrow> string \<Rightarrow> string \<Rightarrow> ('w run_world_scheme, string) io) \<Rightarrow> ('w, 'w graph_sdk) ServiceBackup" where
  "ExchangeBackup workers fallback =
     run_sync (\<lambda>gc t job. exchange_body workers (fallback gc (j_ID job)) gc t job)"

end
