(* ===== verification/OneDrive.thy ===== *)
theory OneDrive
  imports Delta_Sync
begin

text \<open>
  The OneDrive service (\<open>internal/backup/onedrive.go\<close>): the path of a drive item in the catalog, what is done
  for an item of a delta page, the delta query of one drive and the run over the users of the tenant.
\<close>

section \<open>Paths of drive items\<close>

definition root_marker :: string where
  "root_marker = ''/root:''"

text \<open>The elements of the parent's path below the root of the drive.\<close>

definition parent_segs :: "string option \<Rightarrow> string list" where
  "parent_segs parent =
     (case parent of
        None \<Rightarrow> []
      | Some path \<Rightarrow>
          (let p = (case strings_Index path root_marker of Some i \<Rightarrow> drop (i + length root_marker) path | None \<Rightarrow> path)
           in map sanitize (filter (\<lambda>seg. seg \<noteq> []) (strings_Split slash (strings_Trim p slash)))))"

definition driveItemRelPath :: "drive_item \<Rightarrow> string" where
  "driveItemRelPath item =
     (let nm = sanitize (ptrStr (di_name item));
          name = (if nm = [] \<or> strings_EqualFold nm ''root'' then [] else nm);
          parts = parent_segs (di_parent item) @ (if name \<noteq> [] then [name] else [])
      in if parts = [] then [] else path_Join parts)"

definition isDriveItemRemoved :: "drive_item \<Rightarrow> bool" where
  "isDriveItemRemoved item = (di_deleted item \<or> ''@removed'' \<in> set (di_additional item))"

definition isDriveUnavailable :: "goerr \<Rightarrow> bool" where
  "isDriveUnavailable err =
     list_ex (strings_Contains (strings_ToLower (err_text err)))
       [''nospecialcharacters'', ''mailboxnotenabled'', ''resourcenotfound'', ''itemnotfound'', ''accessdenied'', ''notallowed'',
        ''quota'', ''license'', ''user has no drive'', ''does not have a drive'', ''mysite'', ''spo_error'', ''invalidrequest'',
        ''badrequest'', ''forbidden'']"

section \<open>One item\<close>

definition drive_file :: "string \<Rightarrow> string \<Rightarrow> string \<Rightarrow> string \<Rightarrow> Item" where
  "drive_file itemID mailbox parent name =
     zero_item\<lparr>it_Service := ''onedrive'', it_GraphItemID := itemID, it_Mailbox := mailbox, it_ParentPath := parent, it_Name := name\<rparr>"

text \<open>
  \<open>%q\<close> of a path, in the warning for a path with two dots; \<open>driveItemRelPath_safe\<close> shows that no such path occurs.
\<close>

definition drive_item_sync ::
  "'w graph_sdk \<Rightarrow> string \<Rightarrow> Store \<Rightarrow> string \<Rightarrow> string \<Rightarrow> string \<Rightarrow> 'w live \<Rightarrow> gotime \<Rightarrow> drive_item \<Rightarrow> delta_state
   \<Rightarrow> ('w run_world_scheme, delta_state) io" where
  "drive_item_sync gc jobID cat upn driveID mailbox live began item st =
     (let rel = driveItemRelPath item; itemID = ptrStr (di_id item)
      in if rel = [] \<or> rel = ''.'' then ret st
         else if strings_Contains rel ''..'' then ret (dl_warn (upn @ '': rejected path '' @ [CHR 0x22] @ rel @ [CHR 0x22]) st)
         else if isDriveItemRemoved item then
           bindE (ignore (on_ctx jobID (DeletePrefix cat ''onedrive'' mailbox rel))) (\<lambda>_.
           bindE (if di_isFile item \<and> itemID \<noteq> [] then ignore (on_ctx jobID (Delete cat ''onedrive'' itemID)) else ret ()) (\<lambda>_.
             ret (dl_count 0 st)))
         else if \<not> di_isFile item \<or> itemID = [] then ret st
         else
           (let dir = filepath_Dir rel; parent = (if dir = ''.'' then [] else dir); name = path_Base rel
            in attempt (on_ctx jobID (LiveBlob cat ''onedrive'' itemID)) (\<lambda>x. case x of
                 Inl e \<Rightarrow> ret (dl_warn (upn @ '' catalog '' @ rel @ '': '' @ err_text e) st)
               | Inr existing \<Rightarrow>
                   (if di_size item \<noteq> None \<and> skipContentDownload existing (di_size item) then
                      attempt (on_ctx jobID (refreshCatalogMeta cat (the existing) mailbox parent name [])) (\<lambda>y. case y of
                        Inl e \<Rightarrow> ret (dl_warn (err_text e) st)
                      | Inr _ \<Rightarrow> maybeEmit live upn began ((dl_count 0 st)\<lparr>dl_stored := dl_stored st + 1\<rparr>))
                    else
                      attempt (GetBytes gc jobID (''https://graph.microsoft.com/v1.0/drives/'' @ driveID @ ''/items/'' @ itemID @ ''/content'')) (\<lambda>y.
                        case y of
                          Inl e \<Rightarrow> ret (dl_warn (upn @ '' '' @ rel @ '': '' @ err_text e) st)
                        | Inr data \<Rightarrow>
                            attempt (on_ctx jobID (Put cat (drive_file itemID mailbox parent name) data)) (\<lambda>z. case z of
                              Inl e \<Rightarrow> ret (dl_warn (err_text e) st)
                            | Inr _ \<Rightarrow> maybeEmit live upn began (dl_count (int (length data)) st)))))))"

section \<open>One drive\<close>

text \<open>The number of changes and the warnings, with the job and the result the callback has updated.\<close>

definition syncDriveDelta ::
  "'w graph_sdk \<Rightarrow> string \<Rightarrow> string \<Rightarrow> string \<Rightarrow> string \<Rightarrow> string \<Rightarrow> string \<Rightarrow> string \<Rightarrow> Store \<Rightarrow> 'w live \<Rightarrow> Job \<times> Result
   \<Rightarrow> ('w run_world_scheme, delta_state) io" where
  "syncDriveDelta gc jobID tenantID userID upn driveID mailbox saved cat live jr =
     bindE (delta_first (\<lambda>u. on_ctx jobID (g_driveDelta gc driveID u)) saved
              (upn @ '': OneDrive delta expired '' @ em_dash @ '' full resync'') (snd jr)) (\<lambda>(first, res).
     bindE time_Now (\<lambda>now.
       (let st = \<lparr>dl_job = fst jr, dl_res = res, dl_n = 0, dl_stored = 0, dl_warnings = [],
                  dl_hb = newProgressHeartbeat heartbeatInterval heartbeatEveryN now\<rparr>
        in case first of
             Inl e \<Rightarrow> ret (if isDriveUnavailable e then st else dl_warn (upn @ '' delta: '' @ err_text e) st)
           | Inr p \<Rightarrow>
               delta_pages (g_pages gc) jobID (\<lambda>u. on_ctx jobID (g_driveDelta gc driveID u))
                 (checkpoint jobID tenantID ''onedrive'' userID) (\<lambda>e. upn @ '' page: '' @ err_text e)
                 (drive_item_sync gc jobID cat upn driveID mailbox live now) p st)))"

record od_state =
  os_job :: Job
  os_res :: Result
  os_ok :: int
  os_done :: int

definition od_skip :: "od_state \<Rightarrow> od_state" where
  "od_skip s = s\<lparr>os_res := res_Skip (os_res s), os_done := os_done s + 1\<rparr>"

definition nth_of :: "nat \<Rightarrow> int \<Rightarrow> string" where
  "nth_of idx tot = ''['' @ show_nat (Suc idx) @ ''/'' @ show_int tot @ ''] ''"

definition backupOneDrive ::
  "'w graph_sdk \<Rightarrow> Tenant \<Rightarrow> Store \<Rightarrow> Progress option \<Rightarrow> int \<Rightarrow> nat \<times> user \<Rightarrow> od_state \<Rightarrow> ('w run_world_scheme, od_state) io" where
  "backupOneDrive gc t cat prog tot iu s =
     (let idx = fst iu; u = snd iu; jobID = j_ID (os_job s); uid = ptrStr (us_id u); upn = ptrStr (us_upn u)
      in if uid = [] then ret s
         else if \<not> strings_Contains upn ''@'' \<and> ptrStr (us_mail u) = [] then ret (s\<lparr>os_res := res_Skip (os_res s)\<rparr>)
         else
           (let s1 = s\<lparr>os_res := addTotal 1 (os_res s)\<rparr>
            in attempt (on_ctx jobID (g_userDrive gc uid)) (\<lambda>x. case x of
                 Inl e \<Rightarrow>
                   (if isDriveUnavailable e then ret (od_skip s1)
                    else bindE (res_Warn (upn @ '' drive: '' @ err_text e) (os_res s1)) (\<lambda>res.
                         ret (s1\<lparr>os_res := res, os_done := os_done s1 + 1\<rparr>)))
               | Inr drive \<Rightarrow>
                   (if ptrStr drive = [] then ret (od_skip s1)
                    else
                      bindE (saved_token jobID (t_ID t) ''onedrive'' uid ''sync-'') (\<lambda>saved.
                      bindE (SyncJob prog (os_job s1) (os_res s1) (pctFor tot (os_done s1))
                               (nth_of idx tot @ ''OneDrive '' @ upn @ '' ('' @ (if saved = [] then ''FULL initial sync'' else ''incremental delta'')
                                @ '')'' @ ellipsis)) (\<lambda>job.
                      bindE (syncDriveDelta gc jobID (t_ID t) uid upn (ptrStr drive) (sanitize upn) saved cat
                               (live_report prog (pctFor tot (os_done s1))) (job, os_res s1)) (\<lambda>st.
                      bindE (warn_all (dl_warnings st) (dl_res st)) (\<lambda>res.
                        (let s2 = s1\<lparr>os_job := dl_job st, os_res := res\<rparr>
                         in if dl_n st = 0 then ret (od_skip s2)
                            else
                              (let s3 = s2\<lparr>os_ok := os_ok s2 + 1, os_done := os_done s2 + 1\<rparr>
                               in bindE (res_Info (nth_of idx tot @ upn @ '': '' @ show_int (dl_n st) @ '' file change(s)'' @ middot @ ''job total ''
                                      @ show_int (rs_ItemsNew res) @ '' files / '' @ show_int (rs_BytesTransferred res)
                                      @ '' bytes (drives done '' @ show_int (os_done s3) @ ''/'' @ show_int tot @ '')'') (os_res s3)) (\<lambda>res4.
                                  bindE (SyncJob prog (os_job s3) res4 (pctFor tot (os_done s3)) (nth_of idx tot @ upn @ '' done'')) (\<lambda>job4.
                                    ret (s3\<lparr>os_job := job4, os_res := res4\<rparr>)))))))))))))"

definition od_workers :: "int \<Rightarrow> int" where
  "od_workers n = (if n < 1 then 3 else n)"

definition onedrive_body ::
  "int \<Rightarrow> 'w graph_sdk \<Rightarrow> Tenant \<Rightarrow> Job \<Rightarrow> Store \<Rightarrow> Progress option \<Rightarrow> ('w run_world_scheme, Job \<times> Result result) io" where
  "onedrive_body workers gc t job cat prog =
     bindE (res_Info (''listing users for OneDrive'' @ ellipsis) (NewResult prog)) (\<lambda>res1.
     bindE (SyncJob prog job res1 3 (''Listing users for OneDrive'' @ ellipsis)) (\<lambda>job1.
     attempt (ListUsers gc (j_ID job)) (\<lambda>x. case x of
       Inl e \<Rightarrow> ret (job1, Inl (Wrap ''list users'' e))
     | Inr users \<Rightarrow>
         (let tot = int (length users)
          in bindE (res_Info (''listed '' @ show_int tot @ '' directory objects; OneDrive sync with '' @ show_int (od_workers workers)
                     @ '' workers (delta after first run; empty drives skipped)'') res1) (\<lambda>res2.
             bindE (SyncJob prog job1 res2 5 (''Listed '' @ show_int tot @ '' users '' @ em_dash @ '' '' @ show_int (od_workers workers)
                      @ '' workers'' @ ellipsis)) (\<lambda>job2.
             bindE (for_users (j_ID job) (backupOneDrive gc t cat prog tot) (enumerate 0 users)
                      \<lparr>os_job = job2, os_res = res2, os_ok = 0, os_done = 0\<rparr>) (\<lambda>s.
             bindE (gets (ctx_done (j_ID job))) (\<lambda>d.
               if d then ret (os_job s, Inl ErrCanceled)
               else
                 (case res_snapshot (os_res s) of (itemsNew, itemsTotal, skipped, bytes) \<Rightarrow>
                    (let summary = ''done: '' @ show_int itemsNew @ '' file change(s), '' @ show_int (os_ok s) @ '' drives with data, ''
                           @ show_int skipped @ '' skipped/empty, '' @ show_int itemsTotal @ '' considered, '' @ show_int bytes @ '' bytes''
                     in bindE (res_Info summary (os_res s)) (\<lambda>res5.
                        bindE (SyncJob prog (os_job s) res5 92 summary) (\<lambda>job5.
                          ret (job5, Inr res5)))))))))))))"

definition OneDriveBackup :: "int \<Rightarrow> ('w, 'w graph_sdk) ServiceBackup" where
  "OneDriveBackup workers = run_sync (onedrive_body workers)"

section \<open>The job table\<close>

lemma inv_refresh: "keeps run_inv (refreshCatalogMeta cat it a b c d)"
  unfolding refreshCatalogMeta_def by (auto intro!: keeps_rules jobs_only_items run_inv_jobs_only)

lemma inv_DeletePrefix: "keeps run_inv (DeletePrefix cat sv mb rel)"
  unfolding DeletePrefix_def Let_def
  by (auto intro!: keeps_rules keeps_query inv_free jobs_only_items run_inv_jobs_only)

lemma inv_drive_item:
  assumes "sdk_ok gc" "\<And>msg jr. keeps run_inv (live msg jr)"
  shows "keeps run_inv (drive_item_sync gc i cat upn d mb live b item st)"
  using assms unfolding drive_item_sync_def Let_def
  by (auto intro!: keeps_rules inv_sync inv_refresh inv_DeletePrefix split: sum.split)

lemma inv_syncDriveDelta:
  assumes "sdk_ok gc" "\<And>msg jr. keeps run_inv (live msg jr)"
  shows "keeps run_inv (syncDriveDelta gc i a b upn d mb saved cat live jr)"
  using assms unfolding syncDriveDelta_def Let_def
  by (auto intro!: keeps_rules inv_sync inv_now inv_drive_item simp: sdk_keeps_def split: sum.split)

lemma inv_backupOneDrive:
  assumes "sdk_ok gc"
  shows "keeps run_inv (backupOneDrive gc t cat prog tot iu s)"
  using assms unfolding backupOneDrive_def Let_def
  by (auto intro!: keeps_rules inv_sync inv_syncDriveDelta simp: sdk_keeps_def split: sum.split)

lemma inv_onedrive_body:
  assumes "sdk_ok gc"
  shows "keeps run_inv (onedrive_body k gc t job cat prog)"
  using assms unfolding onedrive_body_def Let_def
  by (auto intro!: keeps_rules inv_sync inv_backupOneDrive split: sum.split prod.split)

end
