(* ===== verification/Sync_Items.thy ===== *)
theory Sync_Items
  imports Delta_Sync Catalog_Snapshots
begin

text \<open>
  What a delta query leaves in the catalog: an item is backed up when it is live and its content is stored.
  The lemmas here carry this through the operations of the services, under every fault script.
\<close>

definition backed_up :: "Store \<Rightarrow> string \<Rightarrow> string \<Rightarrow> 'w cat_world_scheme \<Rightarrow> bool" where
  "backed_up s sv gid w =
     (cat_inv s w \<and> (\<exists>it. item_at (TenantID s) (catalog_items w) (sv, gid) = Some it \<and> \<not> it_Deleted it
        \<and> it_BlobHash it \<noteq> [] \<and> blob_view (Blobs s) w (it_BlobHash it) \<noteq> None))"

lemma backed_up_env [simp]: "backed_up s sv gid (w\<lparr>faults := fs\<rparr>) = backed_up s sv gid w"
  by (simp add: backed_up_def)

lemma Hash_not_Nil: "Hash d \<noteq> []"
  using validHash_Hash [of d] by (auto simp: validHash_def)

lemma Put_backed:
  assumes "cat_inv s w"
  shows "wp (Put s it d) (\<lambda>r w'. cat_inv s w' \<and> (r = Inr () \<longrightarrow> backed_up s (it_Service it) (it_GraphItemID it) w')) w"
  by (rule wp_mono [OF Put_spec [OF assms]]) (auto simp: backed_up_def Hash_not_Nil)

lemma LiveBlob_backed:
  assumes "cat_inv s w"
  shows "wp (LiveBlob s sv gid) (\<lambda>r w'. cat_inv s w' \<and> (\<forall>x. r = Inr (Some x) \<longrightarrow> backed_up s sv gid w'
      \<and> it_Service x = sv \<and> it_GraphItemID x = gid \<and> it_BlobHash x \<noteq> [] \<and> stored_inv s (it_BlobHash x) w')) w"
proof -
  have row: "backed_up s sv gid w \<and> it_Service (ir_item r) = sv \<and> it_GraphItemID (ir_item r) = gid
      \<and> stored_inv s (it_BlobHash (ir_item r)) w"
    if r: "filter (row_is s sv gid) (catalog_items w) = r # rs" "\<not> it_Deleted (ir_item r)" "it_BlobHash (ir_item r) \<noteq> []" for r rs
  proof -
    have "r \<in> set (catalog_items w)" "row_is s sv gid r" using r(1) by (metis filter_eq_Cons_iff in_set_conv_decomp)+
    moreover have "item_at (TenantID s) (catalog_items w) (sv, gid) = Some (ir_item r)"
      by (rule filter_row_hd [OF r(1)])
    ultimately show ?thesis
      using assms r by (auto simp: backed_up_def cat_inv_def live_ok_def stored_inv_def row_is_def)
  qed
  show ?thesis
    unfolding LiveBlob_def getItem_def
    by (auto simp: wp_simps assms query_row_def intro!: wp_intros dest: row split: list.split)
qed

lemma refresh_backed:
  assumes "backed_up s sv gid w" "it_Service x = sv" "it_GraphItemID x = gid" "it_BlobHash x \<noteq> []" "stored_inv s (it_BlobHash x) w"
  shows "wp (refreshCatalogMeta s x mailbox parent name subject) (\<lambda>r w'. cat_inv s w' \<and> (r = Inr () \<longrightarrow> backed_up s sv gid w')) w"
proof (cases "catalogMetaChanged (Some x) mailbox parent name subject")
  case False
  then show ?thesis using assms(1) by (simp add: refreshCatalogMeta_def wp_simps backed_up_def)
next
  case True
  let ?x = "x\<lparr>it_Mailbox := mailbox, it_ParentPath := parent, it_Name := name, it_Subject := subject, it_Deleted := False\<rparr>"
  have st: "stored_inv s (it_BlobHash x) (w\<lparr>uuid_next := n, faults := fs, catalog_items := upsert_rows s ?x (catalog_items w)\<rparr>)" for n fs
    using stored_upsert [of s ?x "w\<lparr>uuid_next := n, faults := fs\<rparr>"] assms(5) by simp
  have inv: "cat_inv s w" using assms(1) by (simp add: backed_up_def)
  have "backed_up s sv gid (w\<lparr>uuid_next := n, faults := fs, catalog_items := upsert_rows s ?x (catalog_items w), pending := p, seen := q\<rparr>)" for n fs p q
    using st [of fs n] assms(2-4) by (simp add: backed_up_def stored_inv_def upsert_rows_item_at)
  then show ?thesis
    using True st inv unfolding refreshCatalogMeta_def Keep_def upsertItem_def wp_simps
    by (auto simp: wp_simps stored_inv_def assms Let_def intro!: wp_exec wp_notePending)
qed

section \<open>Reports\<close>

text \<open>Predicates that look neither at the log nor at the jobs.\<close>

definition report_free :: "('w run_world_scheme \<Rightarrow> bool) \<Rightarrow> bool" where
  "report_free P = (log_free P \<and> (\<forall>w js. P (w\<lparr>jobs := js\<rparr>) = P w))"

lemma keeps_live_report:
  assumes "report_free P"
  shows "keeps P (live_report prog pct msg jr)"
proof -
  have "log_free P" "fault_free P" and j: "\<And>w js. P (w\<lparr>jobs := js\<rparr>) = P w"
    using assms by (auto simp: report_free_def log_free_fault)
  then show ?thesis
    unfolding live_report_def SyncJob_def UpdateJobProgress_def Let_def
    by (auto intro!: keeps_rules keeps_reports keeps_exec)
qed

lemma keeps_maybeEmit:
  assumes "report_free P"
  shows "keeps P (maybeEmit (live_report prog pct) label began st)"
  unfolding maybeEmit_def time_Now_def
  by (auto intro!: keeps_rules keeps_live_report assms split: prod.split)

lemma file_at_reports [simp]:
  "file_at (w\<lparr>job_logs := a\<rparr>) = file_at w" "file_at (w\<lparr>jobs := b\<rparr>) = file_at w"
  by (simp_all add: fun_eq_iff file_at_def)

lemma backed_reports [simp]:
  "blob_view b (w\<lparr>job_logs := x\<rparr>) = blob_view b w" "blob_view b (w\<lparr>jobs := y\<rparr>) = blob_view b w"
  "cas_ok b (w\<lparr>job_logs := x\<rparr>) = cas_ok b w" "cas_ok b (w\<lparr>jobs := y\<rparr>) = cas_ok b w"
  by (rule blob_view_cong cas_ok_cong, simp)+

lemma report_free_backed: "report_free (backed_up s sv gid)" "report_free (cat_inv s)"
  by (simp_all add: report_free_def log_free_def backed_up_def cat_inv_def live_ok_def)

lemma emit_backed:
  "backed_up s sv gid w \<Longrightarrow> wp (maybeEmit (live_report prog pct) label b st) (\<lambda>_. backed_up s sv gid) w"
  by (rule wp_keeps [OF keeps_maybeEmit [OF report_free_backed(1)]])

lemma maybeEmit_warnings:
  "wp (maybeEmit live label began st) (\<lambda>r _. \<forall>st'. r = Inr st' \<longrightarrow> dl_warnings st' = dl_warnings st) w"
  by (auto simp: wp_def maybeEmit_def io_simps split: prod.splits sum.splits if_splits)

lemma wp_GetBytes_inv:
  "sdk_keeps (cat_inv s) gc \<Longrightarrow> cat_inv s w \<Longrightarrow> wp (GetBytes gc i url) (\<lambda>_. cat_inv s) w"
  by (rule wp_keeps [OF keeps_GetBytes])

lemma wp_on_ctx [wp_intros]:
  assumes "ctx_done i w \<Longrightarrow> Q (Inl ErrCanceled) w" "\<not> ctx_done i w \<Longrightarrow> wp m Q w"
  shows "wp (on_ctx i m) Q w"
  using assms by (simp add: on_ctx_def wp_simps)

end
