(* ===== verification/Catalog_Reconcile.thy ===== *)
theory Catalog_Reconcile
  imports Catalog_Snapshots
begin

text \<open>
  Reconciliation: a service that lists everything marks what it saw and ends with \<open>FinishReconcile\<close>,
  which deletes the live items that were not seen. Here it is shown what the catalog holds afterwards,
  and what happens when the store does not track changes, as in a full job.
\<close>

section \<open>Deleting the unseen\<close>

definition mark_rows :: "Store \<Rightarrow> string \<Rightarrow> string set \<Rightarrow> item_row list \<Rightarrow> item_row list" where
  "mark_rows s service ids =
     map (\<lambda>r. if ir_tenant r = TenantID s \<and> it_Service (ir_item r) = service \<and> it_GraphItemID (ir_item r) \<in> ids
       then r\<lparr>ir_item := (ir_item r)\<lparr>it_Deleted := True\<rparr>\<rparr> else r)"

lemma mark_rows_join: "mark_rows s service b (mark_rows s service a rows) = mark_rows s service (a \<union> b) rows"
  by (auto simp: mark_rows_def)

lemma row_key_mark: "row_key ` set (mark_rows s service ids rows) = row_key ` set rows"
proof -
  have "map row_key (mark_rows s service ids rows) = map row_key rows" by (simp add: mark_rows_def row_key_def)
  then show ?thesis by (metis set_map)
qed

lemma item_at_mark:
  "item_at t (mark_rows s service ids rows) k =
     (if t = TenantID s \<and> fst k = service \<and> snd k \<in> ids then map_option (\<lambda>it. it\<lparr>it_Deleted := True\<rparr>) (item_at t rows k)
      else item_at t rows k)"
proof -
  let ?g = "\<lambda>(key :: string \<times> string \<times> string) it.
    if fst key = TenantID s \<and> fst (snd key) = service \<and> snd (snd key) \<in> ids then it\<lparr>it_Deleted := True\<rparr> else it"
  have "item_at t (mark_rows s service ids rows) k = map_option (?g (t, k)) (item_at t rows k)"
    unfolding mark_rows_def by (rule item_at_map) (auto simp: row_key_def)
  then show ?thesis by (cases "item_at t rows k") auto
qed

lemma Delete_quiet:
  assumes "faults w = []" "service \<noteq> []" "i \<noteq> []" "(TenantID s, service, i) \<in> row_key ` set (catalog_items w)"
  shows "wp (Delete s service i) (\<lambda>r w'. r = Inr () \<and> faults w' = []
      \<and> catalog_items w' = mark_rows s service {i} (catalog_items w)) w"
proof -
  obtain row rows where row: "filter (row_is s service i) (catalog_items w) = row # rows"
    using assms(4) by (cases "filter (row_is s service i) (catalog_items w)") (auto simp: filter_empty_conv row_is_key)
  have get: "getItem s service i w = (Inr (ir_item row), w)"
    using assms(1) row by (simp add: getItem_def query_row_def io_simps)
  have "it_GraphItemID (ir_item row) = i"
    using row by (metis filter_eq_Cons_iff row_is_def)
  moreover have "mark_rows s service {i} l = map (\<lambda>r. if row_is s service i r
      then r\<lparr>ir_item := (ir_item r)\<lparr>it_Deleted := True\<rparr>\<rparr> else r) l" for l
    by (simp add: mark_rows_def row_is_def)
  moreover have "rematchID s (zero_item\<lparr>it_Service := service, it_GraphItemID := i, it_Deleted := True\<rparr>) w =
      (Inr (zero_item\<lparr>it_Service := service, it_GraphItemID := i, it_Deleted := True\<rparr>), w)"
    using get by (simp add: rematchID_def io_simps)
  ultimately show ?thesis
    using assms get
    by (simp add: wp_def Delete_def bindE_def attempt_def markDeleted_def exec_def modify_def notePending_def ret_def Let_def)
qed

lemma delete_all_quiet:
  assumes "faults w = []" "service \<noteq> []" "\<forall>i \<in> set gone. i \<noteq> [] \<and> (TenantID s, service, i) \<in> row_key ` set (catalog_items w)"
  shows "wp (for_each gone (Delete s service)) (\<lambda>r w'. r = Inr () \<and> faults w' = []
      \<and> catalog_items w' = mark_rows s service (set gone) (catalog_items w)) w"
  using assms
proof (induction gone arbitrary: w)
  case Nil
  then show ?case by (simp add: wp_simps mark_rows_def)
next
  case (Cons i gone)
  show ?case
    unfolding for_each.simps wp_bindE
  proof (rule wp_mono [OF Delete_quiet], goal_cases)
    case (5 r w1)
    then have "catalog_items w1 = mark_rows s service {i} (catalog_items w)" by simp
    moreover from this have "wp (for_each gone (Delete s service)) (\<lambda>r w'. r = Inr () \<and> faults w' = []
        \<and> catalog_items w' = mark_rows s service (set gone) (catalog_items w1)) w1"
      using 5 Cons.prems by (intro Cons.IH) (auto simp: row_key_mark)
    ultimately show ?case using 5 by (simp add: mark_rows_join)
  qed (use Cons.prems in auto)
qed

lemma FinishReconcile_quiet:
  assumes "faults w = []" "rows_ok (catalog_items w)" "service \<noteq> []" "map_of (seen w) service = Some ids"
    "\<forall>i. item_at (TenantID s) (catalog_items w) (service, i) \<noteq> None \<longrightarrow> i \<noteq> []"
  shows "wp (FinishReconcile s service) (\<lambda>r w'. (\<exists>n. r = Inr n) \<and> (\<forall>t k. item_at t (catalog_items w') k =
      (if t = TenantID s \<and> fst k = service \<and> snd k \<notin> set ids
       then map_option (\<lambda>it. it\<lparr>it_Deleted := True\<rparr>) (item_at t (catalog_items w) k) else item_at t (catalog_items w) k))) w"
proof -
  let ?gone = "filter (\<lambda>i. i \<notin> set ids) (map (\<lambda>r. it_GraphItemID (ir_item r)) (filter (live_row s service) (catalog_items w)))"
  have key: "(TenantID s, service, i) \<in> row_key ` set (catalog_items w)" if "i \<in> set ?gone" for i
    using that by (auto simp: live_row_def row_key_def image_iff intro: bexI [rotated])
  then have gone: "i \<noteq> [] \<and> (TenantID s, service, i) \<in> row_key ` set (catalog_items w)" if "i \<in> set ?gone" for i
    using assms(5) that by (simp add: item_at_None)
  have "FinishReconcile s service w = bindE (for_each ?gone (Delete s service)) (\<lambda>_. ret (length ?gone)) w"
    using assms(1,4) by (simp add: FinishReconcile_def io_simps Let_def)
  moreover have "wp (bindE (for_each ?gone (Delete s service)) (\<lambda>_. ret (length ?gone))) (\<lambda>r w'. (\<exists>n. r = Inr n)
      \<and> catalog_items w' = mark_rows s service (set ?gone) (catalog_items w)) w"
    unfolding wp_simps by (rule wp_mono [OF delete_all_quiet [OF assms(1,3)]]) (use gone in auto)
  moreover have "item_at t (mark_rows s service (set ?gone) (catalog_items w)) k =
      (if t = TenantID s \<and> fst k = service \<and> snd k \<notin> set ids
       then map_option (\<lambda>it. it\<lparr>it_Deleted := True\<rparr>) (item_at t (catalog_items w) k) else item_at t (catalog_items w) k)" for t k
  proof (cases "t = TenantID s \<and> fst k = service \<and> snd k \<notin> set ids \<and> snd k \<notin> set ?gone")
    case True
    have "it\<lparr>it_Deleted := True\<rparr> = it" if "item_at (TenantID s) (catalog_items w) k = Some it" for it
    proof -
      have "it_Deleted it"
      proof (rule ccontr)
        assume "\<not> it_Deleted it"
        with that True have "\<exists>r \<in> set (filter (live_row s service) (catalog_items w)). it_GraphItemID (ir_item r) = snd k"
          by (auto simp: item_at_def live_row_def row_key_def dest!: map_of_SomeD)
        then have "snd k \<in> set (map (\<lambda>r. it_GraphItemID (ir_item r)) (filter (live_row s service) (catalog_items w)))"
          by (force simp: image_iff)
        with True show False by simp
      qed
      then show ?thesis by simp
    qed
    then have "map_option (\<lambda>it. it\<lparr>it_Deleted := True\<rparr>) (item_at t (catalog_items w) k) = item_at t (catalog_items w) k"
      using True by (cases "item_at t (catalog_items w) k") auto
    with True show ?thesis by (simp only: item_at_mark) simp
  qed (auto simp: item_at_mark)
  ultimately show ?thesis by (simp add: wp_def)
qed

section \<open>Properties\<close>

text \<open>
  C19: reconciliation deletes exactly the unseen. An undisturbed \<open>FinishReconcile\<close> succeeds and marks
  as deleted exactly the tenant's items of the service whose id was not seen since \<open>StartReconcile\<close>;
  every other item of every tenant and service is unchanged.
\<close>

theorem FinishReconcile_exact:
  assumes "faults w = []" "rows_ok (catalog_items w)" "service \<noteq> []" "map_of (seen w) service = Some ids"
    "\<forall>i. item_at (TenantID s) (catalog_items w) (service, i) \<noteq> None \<longrightarrow> i \<noteq> []"
    "FinishReconcile s service w = (r, w')"
  shows "(\<exists>n. r = Inr n) \<and> (\<forall>t k. item_at t (catalog_items w') k =
      (if t = TenantID s \<and> fst k = service \<and> snd k \<notin> set ids
       then map_option (\<lambda>it. it\<lparr>it_Deleted := True\<rparr>) (item_at t (catalog_items w) k) else item_at t (catalog_items w) k))"
  by (rule wpD [OF FinishReconcile_quiet [OF assms(1-5)] assms(6)])

theorem FinishReconcile_exact_witness:
  "\<exists>it. item_at ''t1'' (catalog_items (snd (FinishReconcile demo_cat ''onedrive'' (demo_world\<lparr>seen := [(''onedrive'', [''g2''])]\<rparr>))))
     (''onedrive'', ''g1'') = Some it \<and> it_Deleted it"
proof -
  let ?w = "demo_world\<lparr>seen := [(''onedrive'', [''g2''])]\<rparr>"
  have rows: "rows_ok (catalog_items ?w)" using demo_world_facts(1) by (simp add: cat_inv_def)
  have ids: "\<forall>i. item_at (TenantID demo_cat) (catalog_items ?w) (''onedrive'', i) \<noteq> None \<longrightarrow> i \<noteq> []"
    by (auto simp: demo_rows upsert_rows_item_at item_at_None demo_item_def split: if_splits) (simp add: item_at_def)
  show ?thesis
    using FinishReconcile_exact [OF _ rows _ _ ids prod.collapse [symmetric], of "[''g2'']"] demo_world_facts(2,5)
    by (auto simp: demo_cat_def)
qed

lemma untracked_seen:
  assumes "\<not> TrackChanges s"
  shows "keeps (\<lambda>w. seen w = x) (Put s it d)"
proof -
  let ?P = "\<lambda>w :: 'a cat_world_scheme. seen w = x"
  have ff: "fault_free ?P" by (simp add: fault_free_def)
  have "keeps ?P (blob_Put (Blobs s) d)" by (rule keeps_blob_ops) (simp add: disk_free_def)
  moreover have "keeps ?P time_Now" by (simp add: time_Now_def keeps_rules)
  moreover have "keeps ?P (rename_row s service alt i)" for service alt i
    unfolding rename_row_def by (auto intro!: keeps_guarded ff)
  then have "keeps ?P (rematch_loop s i alts)" for i alts
    by (induction alts) (auto intro!: keeps_rules keeps_getItem keeps_exec ff simp: Let_def split: sum.split)
  then have "keeps ?P (rematchID s i)" for i
    unfolding rematchID_def by (auto intro!: keeps_rules keeps_getItem ff split: sum.split)
  moreover have "keeps ?P (upsertItem s i)" for i
    unfolding upsertItem_def by (auto intro!: keeps_rules keeps_uuid keeps_exec ff)
  moreover have "keeps ?P (notePending s op i)" for op i
    using assms by (simp add: notePending_def keeps_rules)
  ultimately show ?thesis unfolding Put_def by (auto intro!: keeps_rules)
qed

text \<open>
  C35: in a full job reconciliation deletes what the job just stored. A full job sets
  \<open>TrackChanges = false\<close>, and then \<open>Put\<close> no longer records the item as seen; so after
  \<open>StartReconcile\<close>, any successful sequence of \<open>Put\<close>s and an undisturbed \<open>FinishReconcile\<close>, every
  item of the service is marked as deleted.
\<close>

theorem untracked_reconcile_deletes_all:
  assumes "\<not> TrackChanges s" "cat_inv s w" "service \<noteq> []"
    "bindE (StartReconcile service) (\<lambda>_. for_each items (\<lambda>(it, d). Put s it d)) w = (Inr (), w1)" "faults w1 = []"
    "\<forall>i. item_at (TenantID s) (catalog_items w1) (service, i) \<noteq> None \<longrightarrow> i \<noteq> []"
    "FinishReconcile s service w1 = (r, w2)"
  shows "(\<exists>n. r = Inr n) \<and> dom (item_at (TenantID s) (catalog_items w2)) = dom (item_at (TenantID s) (catalog_items w1))
    \<and> (\<forall>i it. item_at (TenantID s) (catalog_items w2) (service, i) = Some it \<longrightarrow> it_Deleted it)"
proof -
  let ?P = "\<lambda>v :: 'a cat_world_scheme. cat_inv s v \<and> seen v = AList.update service [] (seen w)"
  have "keeps ?P (Put s it d)" for it d
    by (rule keeps_conj [OF keeps_Put untracked_seen [OF assms(1)]])
  then have loop: "keeps ?P (for_each items (\<lambda>(it, d). Put s it d))" by (auto intro!: keeps_rules)
  have "?P w1"
    by (rule keepsD [OF loop, of "w\<lparr>seen := AList.update service [] (seen w)\<rparr>" "Inr ()"])
      (use assms(2,4) in \<open>simp_all add: StartReconcile_def io_simps\<close>)
  then have rows: "rows_ok (catalog_items w1)" and s: "map_of (seen w1) service = Some []"
    by (auto simp: cat_inv_def update_conv')
  note spec = wpD [OF FinishReconcile_quiet [OF assms(5) rows assms(3) s assms(6)] assms(7)]
  then have at: "item_at (TenantID s) (catalog_items w2) k = (if fst k = service
      then map_option (\<lambda>it. it\<lparr>it_Deleted := True\<rparr>) (item_at (TenantID s) (catalog_items w1) k)
      else item_at (TenantID s) (catalog_items w1) k)" for k by (cases k) simp
  have "dom (item_at (TenantID s) (catalog_items w2)) = dom (item_at (TenantID s) (catalog_items w1))"
    by (auto simp: dom_def at)
  with spec at show ?thesis by auto
qed

text \<open>The demo item again, stored after \<open>StartReconcile\<close> by a store that does not track changes.\<close>

theorem untracked_reconcile_deletes_all_witness:
  "\<exists>w1 it. bindE (StartReconcile ''onedrive'') (\<lambda>_. for_each [(demo_item, ''hello'')] (\<lambda>(it, d). Put demo_cat it d)) empty_cat = (Inr (), w1)
     \<and> item_at ''t1'' (catalog_items (snd (FinishReconcile demo_cat ''onedrive'' w1))) (''onedrive'', ''g1'') = Some it \<and> it_Deleted it"
proof -
  let ?w0 = "empty_cat\<lparr>seen := AList.update ''onedrive'' [] (seen empty_cat)\<rparr>"
  let ?w1 = "snd (Put demo_cat demo_item ''hello'' ?w0)"
  have inv: "cat_inv demo_cat ?w0" by (simp add: demo_cat_inv)
  note ok = Put_ok [OF inv, of demo_item "''hello''"]
  have pre: "faults ?w0 = []" "SkipRematch demo_cat" "it_Service demo_item \<noteq> []" "it_GraphItemID demo_item \<noteq> []" "\<not> TrackChanges demo_cat"
    by (simp_all add: empty_cat_def demo_cat_def demo_item_def)
  have run: "bindE (StartReconcile ''onedrive'') (\<lambda>_. for_each [(demo_item, ''hello'')] (\<lambda>(it, d). Put demo_cat it d)) empty_cat = (Inr (), ?w1)"
    using ok(1) [OF pre(1-4)] by (auto simp: StartReconcile_def bindE_def modify_def ret_def split: prod.splits)
  have rows: "catalog_items ?w1 = upsert_rows demo_cat (demo_item\<lparr>it_BlobHash := Hash ''hello'', it_Size := 5,
      it_Deleted := False, it_MTime := 1\<rparr>) []"
    using ok(6) [OF pre(1-4)] by (simp add: empty_cat_def demo_item_def zero_item_def)
  have ids: "\<forall>i. item_at (TenantID demo_cat) (catalog_items ?w1) (''onedrive'', i) \<noteq> None \<longrightarrow> i \<noteq> []"
    unfolding rows by (auto simp: upsert_rows_item_at item_at_None demo_item_def split: if_splits) (simp add: item_at_def)
  have t1: "TenantID demo_cat = ''t1''" by (simp add: demo_cat_def)
  note gone = untracked_reconcile_deletes_all [OF pre(5) demo_cat_inv _ run ok(2) [OF pre(1-4)] ids prod.collapse [symmetric], unfolded t1]
  have "(''onedrive'', ''g1'') \<in> dom (item_at ''t1'' (catalog_items ?w1))"
    unfolding rows dom_def upsert_rows_item_at by (simp add: t1 demo_item_def)
  then obtain it where "item_at ''t1'' (catalog_items (snd (FinishReconcile demo_cat ''onedrive'' ?w1))) (''onedrive'', ''g1'') = Some it"
    using gone by blast
  with gone run show ?thesis by blast
qed

end
