(* ===== verification/Runner_Props.thy ===== *)
theory Runner_Props
  imports Runner_Jobs
begin

text \<open>
  What enqueueing and cancelling do to the job table, on every branch, the two races between cancellation and
  a goroutine, and concrete runs of the whole runner.
\<close>

section \<open>Enqueueing\<close>

text \<open>Predicates on the job table and the spawned goroutines survive what comes before the insertion.\<close>

definition queue_view :: "'w run_world_scheme \<Rightarrow> Job list \<times> string list \<times> gotime" where
  "queue_view w = (jobs w, spawned w, clock w)"

lemma queue_view_free: "fault_free (\<lambda>w. queue_view w = v)" "disk_free (\<lambda>w. queue_view w = v)"
  by (simp_all add: fault_free_def disk_free_def queue_view_def)

lemma view_bindTenantStore: "keeps (\<lambda>w. queue_view w = v) (bindTenantStore r t)"
proof -
  have "keeps (\<lambda>w. queue_view w = v) (UpdateTenant t')" for t'
    unfolding UpdateTenant_def Let_def
    by (intro keeps_rules keeps_guarded queue_view_free) (simp add: queue_view_def)
  then show ?thesis
    unfolding bindTenantStore_def BindStorePath_def Let_def
    by (auto intro!: keeps_rules keeps_disk queue_view_free split: sum.split)
qed

lemma view_promote: "keeps (\<lambda>w. queue_view w = v) (promote_empty r t sv ty pe)"
proof -
  have "keeps (\<lambda>w. queue_view w = v) (emptyStoreState r t sv)"
    unfolding emptyStoreState_def EmptyLocalData_def countSnapshots_def countLiveItems_def GetTenant_def
    by (auto intro!: keeps_rules keeps_query_row view_bindTenantStore keeps_query queue_view_free)
  then show ?thesis
    unfolding promote_empty_def enabledGraphServices_def ListSchedules_def Let_def
    by (auto intro!: keeps_rules keeps_query queue_view_free)
qed

lemma promote_type: "gives (promote_empty r t sv ty pe) (\<lambda>x. fst x = ty \<or> fst x = ''full'')"
  unfolding promote_empty_def Let_def by (auto intro!: gives_rules gives_if split: prod.split)

definition slot_free :: "string \<Rightarrow> string \<Rightarrow> Job list \<Rightarrow> bool" where
  "slot_free t sv js = (\<forall>j \<in> set js. active j \<longrightarrow> j_TenantID j = t \<longrightarrow> sv \<noteq> [] \<and> j_Service j \<noteq> sv)"

definition no_full :: "string \<Rightarrow> Job list \<Rightarrow> bool" where
  "no_full t js = (\<forall>j \<in> set js. active j \<longrightarrow> j_TenantID j = t \<longrightarrow> j_JobType j \<noteq> ''full'')"

definition enqueued :: "string \<Rightarrow> string \<Rightarrow> string \<Rightarrow> 'w run_world_scheme \<Rightarrow> Job \<times> string list \<Rightarrow> 'w run_world_scheme \<Rightarrow> bool" where
  "enqueued t sv ty w x w' =
     (\<exists>row. jobs w' = jobs w @ [row] \<and> spawned w' = spawned w @ [j_ID (fst x)]
        \<and> j_ID row = j_ID (fst x) \<and> j_TenantID row = t \<and> j_Service row = sv \<and> j_Status row = ''queued''
        \<and> (j_JobType row = ty \<or> j_JobType row = ''full'')
        \<and> slot_free t sv (jobs w)
        \<and> (if j_JobType row = ''full''
           then filter (\<lambda>d. dt_TenantID d = t \<and> dt_Service d = sv) (delta_tokens w') = []
           else no_full t (jobs w)))"

definition enqueue_post :: "string \<Rightarrow> string \<Rightarrow> string \<Rightarrow> 'w run_world_scheme \<Rightarrow> (Job \<times> string list) result \<Rightarrow> 'w run_world_scheme \<Rightarrow> bool" where
  "enqueue_post t sv ty w x w' =
     (case x of
        Inl _ \<Rightarrow> jobs w' = jobs w \<and> spawned w' = spawned w
      | Inr y \<Rightarrow> enqueued t sv ty w y w')"

lemma enqueue_spec:
  "wp (enqueueLocked r t sv sch ty params pe) (enqueue_post t sv ty w) w"
proof -
  define rest where "rest = (\<lambda>(jobType, extras).
     bindE (CountActiveJobs t sv) (\<lambda>n.
       if n > 0 then throw ErrTenantBusy
       else
         bindE (if jobType \<noteq> ''full'' then CountActiveFullJobs t else ret 0) (\<lambda>fullN.
           if fullN > 0 then throw ErrTenantBusy
           else
             bindE (if jobType = ''full'' then DeleteDeltaTokens t sv else ret ()) (\<lambda>_.
             attempt (CreateJob (queued_job t sch sv jobType params)) (\<lambda>c. case c of
               Inl e \<Rightarrow> throw (if IsUniqueViolation e then ErrTenantBusy else e)
             | Inr job \<Rightarrow>
                 bindE (modify (\<lambda>w :: 'a run_world_scheme. w\<lparr>spawned := spawned w @ [j_ID job]\<rparr>)) (\<lambda>_. ret (job, extras :: string list)))))))"
  have enq: "enqueueLocked r t sv sch ty params pe = bindE (promote_empty r t sv ty pe) rest"
    by (simp add: enqueueLocked_def rest_def)
  have "wp (rest (jt, ex)) (enqueue_post t sv ty w) v" if v: "queue_view v = queue_view w" and jt: "jt = ty \<or> jt = ''full''" for v jt ex
    using v jt
    by (auto simp: rest_def CountActiveJobs_def CountActiveFullJobs_def DeleteDeltaTokens_def CreateJob_def queued_job_def
        wp_simps Let_def enqueue_post_def enqueued_def queue_view_def filter_empty_conv slot_free_def no_full_def
        intro!: wp_intros split: sum.split) blast
  moreover have "wp (promote_empty r t sv ty pe) (\<lambda>x v. queue_view v = queue_view w \<and> (\<forall>y. x = Inr y \<longrightarrow> fst y = ty \<or> fst y = ''full'')) w"
    using wp_keeps [OF view_promote [of "queue_view w" r t sv ty pe] refl] promote_type [of r t sv ty pe]
    unfolding wp_def gives_def by blast
  ultimately show ?thesis
    unfolding enq wp_bindE
    by (elim wp_mono) (auto simp: enqueue_post_def queue_view_def split: sum.split prod.split)
qed

text \<open>
  C9: the guards of the queue. When \<open>enqueueLocked\<close> accepts a request, exactly one queued job is added and
  one goroutine started; before it the tenant had no active job for the service; a job that is not a full
  sync is only accepted when the tenant has no active full sync at all; and for a full sync the delta tokens
  of the service are gone. When it refuses, for whatever reason, no job is added and no goroutine started.
\<close>

theorem enqueueLocked_guards:
  "case enqueueLocked r t sv sch ty params pe w of
     (Inl _, w') \<Rightarrow> jobs w' = jobs w \<and> spawned w' = spawned w
   | (Inr (job, extras), w') \<Rightarrow>
       (\<exists>row. jobs w' = jobs w @ [row] \<and> spawned w' = spawned w @ [j_ID job]
          \<and> j_ID row = j_ID job \<and> j_TenantID row = t \<and> j_Service row = sv \<and> j_Status row = ''queued''
          \<and> (j_JobType row = ty \<or> j_JobType row = ''full'')
          \<and> slot_free t sv (jobs w)
          \<and> (if j_JobType row = ''full''
             then filter (\<lambda>d. dt_TenantID d = t \<and> dt_Service d = sv) (delta_tokens w') = []
             else no_full t (jobs w)))"
proof -
  obtain x w' where e: "enqueueLocked r t sv sch ty params pe w = (x, w')" by fastforce
  have "enqueue_post t sv ty w x w'" using wpD [OF enqueue_spec e] .
  then show ?thesis unfolding e enqueue_post_def enqueued_def
    by (cases x) (simp_all only: prod.case sum.case split_beta fst_conv snd_conv)
qed

section \<open>Cancelling\<close>

text \<open>The row of a job.\<close>

definition row_of :: "string \<Rightarrow> 'w db_world_scheme \<Rightarrow> Job option" where
  "row_of i w = find (\<lambda>j. j_ID j = i) (jobs w)"

lemma row_of_cong: "jobs w' = jobs w \<Longrightarrow> row_of i w' = row_of i w"
  by (simp add: row_of_def)

lemma find_filter: "find P xs = (case filter P xs of [] \<Rightarrow> None | x # _ \<Rightarrow> Some x)"
  by (induction xs) auto

lemma GetJob_eval:
  "faults w = [] \<Longrightarrow> GetJob i w = (case row_of i w of None \<Rightarrow> Inl ErrNoRows | Some j \<Rightarrow> Inr j, w)"
  by (auto simp: GetJob_def query_row_def io_simps row_of_def find_filter split: list.split)

lemma row_of_ID: "row_of i w = Some j \<Longrightarrow> j_ID j = i \<and> j \<in> set (jobs w)"
  unfolding row_of_def by (auto simp: find_Some_iff)

lemma UpdateJob_eval:
  assumes "faults w = []" "\<not> (\<exists>k \<in> set (jobs w). j_ID k = j_ID j \<and> active_clash (job_update j k) (jobs w))"
  shows "UpdateJob j w = (Inr (), w\<lparr>jobs := map (\<lambda>k. if j_ID k = j_ID j then job_update j k else k) (jobs w)\<rparr>)"
  using assms by (auto simp: UpdateJob_def sql_guarded_def io_simps)

lemma row_of_update:
  "row_of i (w\<lparr>jobs := map (\<lambda>k. if j_ID k = j_ID j then job_update j k else k) (jobs w)\<rparr>) =
     (if i = j_ID j then map_option (job_update j) (row_of i w) else row_of i w)"
proof -
  have "find (\<lambda>j. j_ID j = i) (map (\<lambda>k. if j_ID k = j_ID j then job_update j k else k) js) =
      (if i = j_ID j then map_option (job_update j) (find (\<lambda>j. j_ID j = i) js) else find (\<lambda>j. j_ID j = i) js)" for js
    by (induction js) auto
  then show ?thesis by (simp add: row_of_def)
qed

lemma inactive_no_clash: "\<not> active j \<Longrightarrow> \<not> active_clash (job_update j k) js"
  by (simp add: active_clash_def active_def)

text \<open>A log line and the removal of the staging directory change no row.\<close>

definition same_jobs :: "'w run_world_scheme \<Rightarrow> 'w run_world_scheme \<Rightarrow> bool" where
  "same_jobs w w' = (jobs w' = jobs w \<and> faults w' = faults w \<and> cancelled w' = cancelled w \<and> cancels w' = cancels w \<and> clock w' = clock w)"

lemma ignore_log:
  assumes "faults w = []"
  obtains w' where "ignore (InsertJobLog l) w = (Inr (), w')" "same_jobs w w'"
proof -
  have "fst (ignore (InsertJobLog l) w) = Inr ()" "same_jobs w (snd (ignore (InsertJobLog l) w))"
    using assms by (auto simp: InsertJobLog_def sql_guarded_def io_simps Let_def same_jobs_def)
  then show thesis by (intro that) (auto simp: prod_eq_iff)
qed

lemma remove_files_only: "remove_files ps w = w\<lparr>files := fold AList.delete ps (files w)\<rparr>"
  unfolding remove_files_def by (induction ps arbitrary: w) (simp_all add: del_file_def)

lemma clean_eval:
  assumes "faults w = []"
  obtains w' where "cleanStagingJob r i w = (Inr (), w')" "same_jobs w w'"
proof -
  have "fst (cleanStagingJob r i w) = Inr ()" "same_jobs w (snd (cleanStagingJob r i w))"
    using assms
    by (auto simp: cleanStagingJob_def os_RemoveAll_def same_jobs_def io_simps remove_files_only split: sum.split)
  then show thesis by (intro that) (auto simp: prod_eq_iff)
qed

text \<open>An update of the row of a job to an inactive state.\<close>

definition closed :: "Job \<Rightarrow> 'w run_world_scheme \<Rightarrow> 'w run_world_scheme \<Rightarrow> bool" where
  "closed j w w' =
     (jobs w' = map (\<lambda>k. if j_ID k = j_ID j then job_update j k else k) (jobs w)
      \<and> faults w' = [] \<and> cancelled w' = cancelled w \<and> cancels w' = cancels w)"

lemma close_steps:
  assumes "faults w = []" "\<not> active j"
  obtains w' where
    "bindE (ignore (UpdateJob j)) (\<lambda>_. bindE (ignore (InsertJobLog l)) (\<lambda>_. bindE (cleanStagingJob r i) (\<lambda>_. k))) w = k w'"
    "closed j w w'"
proof -
  let ?w1 = "w\<lparr>jobs := map (\<lambda>k. if j_ID k = j_ID j then job_update j k else k) (jobs w)\<rparr>"
  have u: "UpdateJob j w = (Inr (), ?w1)"
    using assms by (intro UpdateJob_eval) (auto simp: inactive_no_clash)
  obtain w2 where l: "ignore (InsertJobLog l) ?w1 = (Inr (), w2)" "same_jobs ?w1 w2"
    using ignore_log [of ?w1 l] assms(1) by auto
  obtain w3 where c: "cleanStagingJob r i w2 = (Inr (), w3)" "same_jobs w2 w3"
    using clean_eval [of w2 r i] l(2) assms(1) by (auto simp: same_jobs_def)
  show thesis
    using that [of w3] u l c assms(1) by (simp add: bindE_def ignore_def attempt_def ret_def closed_def same_jobs_def)
qed

lemma bindE_unit: "bindE (m :: ('w, unit) io) (\<lambda>_. ret ()) = m"
  by (auto simp: fun_eq_iff bindE_def ret_def split: prod.split sum.split)

lemmas close_last = close_steps [where k = "ret ()", unfolded bindE_unit, simplified ret_def]

lemma closed_row:
  assumes "closed j w w'" "row_of (j_ID j) w = Some old"
  shows "row_of k w' = (if k = j_ID j then Some (job_update j old) else row_of k w)"
proof -
  have "row_of k w' = row_of k (w\<lparr>jobs := map (\<lambda>k. if j_ID k = j_ID j then job_update j k else k) (jobs w)\<rparr>)"
    using assms(1) by (intro row_of_cong) (simp add: closed_def)
  then show ?thesis using assms(2) by (simp only: row_of_update) auto
qed

lemma call_cancel_eval:
  obtains w1 where "call_cancel i w = (Inr (), w1)" "jobs w1 = jobs w" "faults w1 = faults w" "clock w1 = clock w"
    "i \<in> set (cancels w) \<Longrightarrow> ctx_done i w1"
  by (auto simp: call_cancel_def modify_def ctx_done_def)

definition cancelled_row :: "gotime \<Rightarrow> Job \<Rightarrow> Job" where
  "cancelled_row t job =
     job\<lparr>j_Status := ''cancelled'', j_FinishedAt := t, j_ErrorMessage := ''cancelled by user'', j_ProgressMessage := ''Cancelled''\<rparr>"

lemma Cancel_eval:
  assumes "faults w = []" "row_of i w = Some job" "active job"
  obtains w1 w' where "Cancel r i w = (Inr (), w')" "closed (cancelled_row (clock w) job) w1 w'" "jobs w1 = jobs w"
    "i \<in> set (cancels w) \<Longrightarrow> ctx_done i w1"
proof -
  obtain w1 where c: "call_cancel i w = (Inr (), w1)" "jobs w1 = jobs w" "faults w1 = faults w" "clock w1 = clock w"
    "i \<in> set (cancels w) \<Longrightarrow> ctx_done i w1" by (rule call_cancel_eval) blast
  let ?j = "cancelled_row (clock w) job"
  have id: "j_ID job = i" using row_of_ID [OF assms(2)] by simp
  obtain w' where w': "bindE (ignore (UpdateJob ?j)) (\<lambda>_. bindE (ignore (InsertJobLog (log_line (j_ID job) ''warn'' ''cancelled by user'')))
      (\<lambda>_. cleanStagingJob r i)) w1 = (Inr (), w')" and cl: "closed ?j w1 w'"
    using close_last [of w1 ?j "log_line (j_ID job) ''warn'' ''cancelled by user''" r i] assms(1) c(3)
    by (auto simp: active_def cancelled_row_def)
  have "Cancel r i w = (Inr (), w')"
    using assms id c(1,4) w'
    by (auto simp: Cancel_def bindE_def GetJob_eval time_Now_def gets_def active_def cancelled_row_def)
  then show thesis using that cl c(2,5) by blast
qed

text \<open>
  Cancelling an active job. When the database does not fail, \<open>Cancel\<close> on a queued or running job
  succeeds, closes its row as \<open>cancelled\<close> at the current time, leaves every other row alone, and cancels the
  context of the job when its goroutine has registered one.
\<close>

theorem Cancel_closes:
  assumes "faults w = []" "row_of i w = Some job" "active job"
  shows "\<exists>w'. Cancel r i w = (Inr (), w')
    \<and> row_of i w' = Some (job\<lparr>j_Status := ''cancelled'', j_FinishedAt := clock w, j_ErrorMessage := ''cancelled by user'',
         j_ProgressMessage := ''Cancelled''\<rparr>)
    \<and> (\<forall>k. k \<noteq> i \<longrightarrow> row_of k w' = row_of k w) \<and> (i \<in> set (cancels w) \<longrightarrow> ctx_done i w')"
proof (rule Cancel_eval [OF assms, of r])
  fix w1 w'
  assume c: "Cancel r i w = (Inr (), w')" "closed (cancelled_row (clock w) job) w1 w'" "jobs w1 = jobs w"
    "i \<in> set (cancels w) \<Longrightarrow> ctx_done i w1"
  have id: "j_ID (cancelled_row (clock w) job) = i" using row_of_ID [OF assms(2)] by (simp add: cancelled_row_def)
  have "row_of i w1 = Some job" using assms(2) row_of_cong [OF c(3)] by simp
  then have "row_of k w' = (if k = i then Some (cancelled_row (clock w) job) else row_of k w)" for k
    using closed_row [OF c(2)] id row_of_cong [OF c(3)] by (simp add: job_update_def cancelled_row_def)
  moreover have "ctx_done i w'" if "i \<in> set (cancels w)"
    using c(4) [OF that] c(2) by (simp add: ctx_done_def closed_def)
  ultimately show ?thesis using c(1) by (auto simp: cancelled_row_def)
qed

text \<open>
  The watchdog's verdict does not last. \<open>KillStale\<close> closes a stalled job as an error with its reason and
  cancels the context; the goroutine of the job, which sees \<open>context canceled\<close>, then reports through \<open>fail\<close>
  and overwrites the row: the job ends as \<open>cancelled\<close>, \<open>cancelled by user\<close>.
\<close>

theorem KillStale_overwritten:
  assumes "faults w = []" "row_of i w = Some job" "j_Status job = ''running''" "rn_Notifier r = None" "j_ID mine = i"
  shows "\<exists>w1 w2. KillStale r i reason w = (Inr (), w1) \<and> fail r mine ErrCanceled w1 = (Inr (), w2)
    \<and> map_option j_Status (row_of i w1) = Some ''error'' \<and> map_option j_ErrorMessage (row_of i w1) = Some reason
    \<and> map_option j_Status (row_of i w2) = Some ''cancelled''
    \<and> map_option j_ErrorMessage (row_of i w2) = Some ''cancelled by user''"
proof -
  obtain w0 where c: "call_cancel i w = (Inr (), w0)" "jobs w0 = jobs w" "faults w0 = faults w" "clock w0 = clock w"
    by (rule call_cancel_eval) blast
  let ?j = "job\<lparr>j_Status := ''error'', j_ErrorMessage := reason, j_FinishedAt := clock w,
              j_ProgressMessage := ''Stalled '' @ em_dash @ '' '' @ reason\<rparr>"
  have id: "j_ID job = i" using row_of_ID [OF assms(2)] by simp
  obtain w1 where w1: "bindE (ignore (UpdateJob ?j)) (\<lambda>_. bindE (ignore (InsertJobLog (log_line i ''error'' reason)))
      (\<lambda>_. bindE (cleanStagingJob r i) (\<lambda>_. ret ()))) w0 = (Inr (), w1)" and cl: "closed ?j w0 w1"
    using close_steps [of w0 ?j "log_line i ''error'' reason" r i "ret ()"] assms(1) c(3) by (auto simp: active_def ret_def)
  have kill: "KillStale r i reason w = (Inr (), w1)"
    using assms id c(1,4) w1
    by (simp add: KillStale_def bindE_def GetJob_eval time_Now_def gets_def notify_def)
  have row0: "row_of i w0 = Some job" using assms(2) row_of_cong [OF c(2)] by simp
  then have row1: "row_of i w1 = Some ?j" using closed_row [OF cl] id by (simp add: job_update_def)
  have nf: "faults w1 = []" using cl by (simp add: closed_def)
  let ?m = "mine\<lparr>j_Status := ''cancelled'', j_ErrorMessage := ''cancelled by user'', j_FinishedAt := clock w1,
              j_ProgressMessage := ''Cancelled''\<rparr>"
  obtain w2 where w2: "bindE (ignore (UpdateJob ?m)) (\<lambda>_. bindE (ignore (InsertJobLog (log_line i ''warn'' ''cancelled by user'')))
      (\<lambda>_. cleanStagingJob r i)) w1 = (Inr (), w2)" and cl2: "closed ?m w1 w2"
    using close_last [of w1 ?m "log_line i ''warn'' ''cancelled by user''" r i] nf by (auto simp: active_def)
  have fin: "finishCancelled r mine ''cancelled by user'' w1 = (Inr (), w2)"
    using w2 row1 nf assms(5) by (simp add: finishCancelled_def attempt_def GetJob_eval bindE_def time_Now_def gets_def)
  obtain w3 where w3: "cleanStagingJob r i w2 = (Inr (), w3)" "same_jobs w2 w3"
    using clean_eval [of w2 r i] cl2 by (auto simp: closed_def)
  have "fail r mine ErrCanceled w1 = (Inr (), w3)"
    using fin w3 row1 nf assms(5)
    by (simp add: fail_def wasCancelled_def attempt_def GetJob_eval bindE_def ret_def isCancelErr_def)
  moreover have "row_of i w3 = Some (job_update ?m ?j)"
    using closed_row [OF cl2] row1 assms(5) row_of_cong [of w3 w2] w3(2) by (simp add: same_jobs_def)
  ultimately show ?thesis using kill row1 by (auto simp: job_update_def)
qed

text \<open>A row that was active held the slot alone, so that it can be marked as running again.\<close>

lemma marked_no_clash:
  assumes "jobs_ok js" "j_ID row = i" "row \<in> set js" "active row"
    "js' = map (\<lambda>k. if j_ID k = i then job_update c k else k) js" "k \<in> set js'" "j_ID k = i"
  shows "\<not> active_clash (job_update j k) js'"
proof -
  have row: "j_TenantID k = j_TenantID row \<and> j_Service k = j_Service row"
  proof -
    obtain k0 where k0: "k0 \<in> set js" "k = (if j_ID k0 = i then job_update c k0 else k0)" using assms(5,6) by auto
    then have "j_ID k0 = j_ID row" using assms(2,7) by (auto split: if_splits)
    then have "k0 = row" using assms(1,3) k0(1) by (auto simp: jobs_ok_def distinct_map dest: inj_onD)
    then show ?thesis using k0(2) by auto
  qed
  have "\<not> (active m \<and> j_TenantID m = j_TenantID row \<and> j_Service m = j_Service row)" if "m \<in> set js'" "j_ID m \<noteq> i" for m
  proof -
    have "m \<in> set js" using that assms(5) by (auto split: if_splits)
    then have "slot_ok row m" using assms(1,3) by (auto simp: jobs_ok_def)
    then show ?thesis using that(2) assms(2,4) by (auto simp: slot_ok_def)
  qed
  then show ?thesis using row assms(7) by (auto simp: active_clash_def)
qed

text \<open>
  C37: a cancelled job can come back. A goroutine that has passed its last check of the row but has not yet
  registered its cancel function (phase \<open>PRegister\<close>) does not see a \<open>Cancel\<close> that happens at this point:
  the row is closed as \<open>cancelled\<close>, but the next two steps of the goroutine register a fresh context and mark
  the row as \<open>running\<close> again, and nothing is left that would stop the job.
\<close>

theorem Cancel_lost:
  assumes "faults (sy_world s) = []" "i < length (sy_threads s)" "th_phase (sy_threads s ! i) = PRegister job"
    "th_job (sy_threads s ! i) = j_ID job" "row_of (j_ID job) (sy_world s) = Some row" "active row"
    "jobs_ok (jobs (sy_world s))"
  shows "\<exists>s1 s2 s3. s1 = request (Cancel r (j_ID job)) s \<and> step_at r i s1 = Some s2 \<and> step_at r i s2 = Some s3
    \<and> map_option j_Status (row_of (j_ID job) (sy_world s1)) = Some ''cancelled''
    \<and> map_option j_Status (row_of (j_ID job) (sy_world s3)) = Some ''running''
    \<and> \<not> ctx_done (j_ID job) (sy_world s3)"
proof -
  let ?id = "j_ID job" and ?w = "(sy_world s)\<lparr>spawned := []\<rparr>" and ?th = "sy_threads s ! i"
  have "faults ?w = []" "row_of ?id ?w = Some row" using assms(1,5) row_of_cong [of ?w "sy_world s"] by simp_all
  then obtain w1 w' where c: "Cancel r ?id ?w = (Inr (), w')" and cl: "closed (cancelled_row (clock ?w) row) w1 w'"
    and w1: "jobs w1 = jobs ?w" using Cancel_eval [OF _ _ assms(6), of ?w ?id r] by metis
  have rid: "j_ID row = ?id" "row \<in> set (jobs (sy_world s))" using row_of_ID [OF assms(5)] by simp_all
  have jw': "jobs w' = map (\<lambda>k. if j_ID k = ?id then job_update (cancelled_row (clock ?w) row) k else k) (jobs (sy_world s))"
    using cl w1 rid by (simp add: closed_def cancelled_row_def)
  define s1 where "s1 = request (Cancel r ?id) s"
  have s1: "sy_world s1 = w'\<lparr>spawned := []\<rparr>" "sy_threads s1 ! i = ?th" "i < length (sy_threads s1)"
    using c assms(2) by (simp_all add: s1_def request_def nth_append)
  have row1: "row_of ?id (sy_world s1) = Some (job_update (cancelled_row (clock ?w) row) row)"
    using closed_row [OF cl] row_of_cong [of w1 "sy_world s"] w1 assms(5) rid row_of_cong [of "sy_world s1" w'] s1(1)
    by (simp add: cancelled_row_def)
  define th2 where "th2 = ?th\<lparr>th_phase := PMark job\<rparr>"
  define v where "v = (sy_world s1)\<lparr>cancels := ?id # cancels (sy_world s1), cancelled := filter (\<lambda>i. i \<noteq> ?id) (cancelled (sy_world s1))\<rparr>"
  define s2 where "s2 = s1\<lparr>sy_world := v, sy_threads := (sy_threads s1)[i := th2]\<rparr>"
  have st2: "step_at r i s1 = Some s2"
    using s1 assms(3,4)
    by (simp add: step_at_def step_thread_def run_part_def runJob_register_def modify_def s2_def v_def th2_def)
  let ?v = "v\<lparr>pending := th_pending ?th, seen := th_seen ?th\<rparr>"
  let ?j = "job\<lparr>j_Status := ''running'', j_StartedAt := clock ?v\<rparr>"
  have jv: "jobs ?v = jobs w'" "faults ?v = []" using s1(1) cl by (simp_all add: v_def closed_def)
  have noclash: "\<not> active_clash (job_update ?j k) (jobs w')" if "k \<in> set (jobs w')" "j_ID k = ?id" for k
    using marked_no_clash [OF assms(7) rid assms(6) jw' that] by simp
  have upd: "UpdateJob ?j ?v = (Inr (), ?v\<lparr>jobs := map (\<lambda>k. if j_ID k = j_ID ?j then job_update ?j k else k) (jobs ?v)\<rparr>)"
    by (rule UpdateJob_eval) (use jv noclash in auto)
  have ctx: "\<not> ctx_done ?id ?v" by (simp add: ctx_done_def v_def)
  have mark: "runJob_mark job ?v = (Inr ?j, ?v\<lparr>jobs := map (\<lambda>k. if j_ID k = j_ID ?j then job_update ?j k else k) (jobs ?v)\<rparr>)"
    using upd ctx by (simp add: runJob_mark_def io_simps on_ctx_def Let_def)
  have th2: "sy_threads s2 ! i = th2" "i < length (sy_threads s2)" using s1(3) by (simp_all add: s2_def)
  then obtain s3 where st3: "step_at r i s2 = Some s3"
    and w3: "sy_world s3 = v\<lparr>jobs := map (\<lambda>k. if j_ID k = j_ID ?j then job_update ?j k else k) (jobs v)\<rparr>"
    using mark by (simp add: step_at_def step_thread_def run_part_def s2_def th2_def)
  have "row_of ?id (sy_world s3) = map_option (job_update ?j) (row_of ?id v)"
    unfolding w3 using row_of_update [where i = ?id and j = ?j and w = v] by simp
  moreover have "row_of ?id v = row_of ?id (sy_world s1)" by (rule row_of_cong) (simp add: v_def)
  moreover have "\<not> ctx_done ?id (sy_world s3)" using ctx by (simp add: w3 ctx_done_def)
  ultimately show ?thesis
    using st2 st3 row1 s1_def by (auto simp: job_update_def cancelled_row_def)
qed

text \<open>
  A full sync that could not be queued has already cost the tokens. \<open>enqueueLocked\<close> deletes the delta
  tokens of the service before it inserts the job; when the insertion fails, the request is refused and no
  job exists, but the tokens are gone, so that the next incremental backup starts from nothing.
\<close>

theorem refused_full_drops_tokens:
  assumes "t \<noteq> []" "sv \<noteq> []" "slot_free t sv (jobs w)" "faults w = [None, None, Some e]"
  shows "\<exists>e' w'. enqueueLocked r t sv sch ''full'' params False w = (Inl e', w') \<and> jobs w' = jobs w
    \<and> delta_tokens w' = filter (\<lambda>d. \<not> (dt_TenantID d = t \<and> dt_Service d = sv)) (delta_tokens w)"
proof -
  have "filter (\<lambda>j. j_TenantID j = t \<and> (sv = [] \<or> j_Service j = sv) \<and> active j) (jobs w) = []"
    using assms(3) by (auto simp: slot_free_def filter_empty_conv)
  then show ?thesis
    using assms
    by (auto simp: enqueueLocked_def promote_empty_def CountActiveJobs_def DeleteDeltaTokens_def CreateJob_def queued_job_def
        sql_guarded_def io_simps access_def Let_def)
qed

section \<open>Instances\<close>

definition demo_runner :: "(unit, unit) Runner" where
  "demo_runner = NewRunner demo_manager [] None ''/stage'' 2 (\<lambda>_ _ _. ret ()) (\<lambda>_. True) demo_codec \<lparr>ec_Parse = (\<lambda>_. None), ec_ModTime = (\<lambda>_. 0)\<rparr>"

definition demo_job :: Job where
  "demo_job = (queued_job ''t1'' [] ''teams'' ''delta'' [])\<lparr>j_ID := ''j1''\<rparr>"

definition run_demo :: "Job list \<Rightarrow> run_world" where
  "run_demo js =
     \<lparr>faults = [], clock = 1, uuid_src = (\<lambda>n. CHR ''u'' # show_nat n), uuid_next = 0, files = [], torn = None,
      rand_byte = (\<lambda>_. CHR ''r''), rand_pos = 0, tenants = [], schedules = [], jobs = js, job_logs = [], delta_tokens = [],
      catalog_items = [], catalog_snapshots = [], catalog_changes = [], pending = [], seen = [],
      cancels = [], cancelled = [], flocks = [], spawned = []\<rparr>"

lemma demo_caps [simp]:
  "rn_MaxConcurrent demo_runner = 2" "rn_MaxConcurrentFull demo_runner = 1" "rn_Notifier demo_runner = None"
  by (simp_all add: demo_runner_def NewRunner_def)

lemma demo_fields [simp]:
  "faults (run_demo js) = []" "jobs (run_demo js) = js" "clock (run_demo js) = 1" "cancels (run_demo js) = []"
  by (simp_all add: run_demo_def)

lemma demo_job_fields [simp]:
  "j_ID demo_job = ''j1''" "j_Status demo_job = ''queued''" "j_TenantID demo_job = ''t1''" "j_Service demo_job = ''teams''"
  "j_JobType demo_job = ''delta''"
  by (simp_all add: demo_job_def queued_job_def)

lemma demo_row [simp]: "row_of ''j1'' (run_demo [demo_job\<lparr>j_Status := st\<rparr>]) = Some (demo_job\<lparr>j_Status := st\<rparr>)"
  "row_of ''j1'' (run_demo [demo_job]) = Some demo_job"
  by (simp_all add: row_of_def)

theorem Cancel_closes_witness:
  "\<exists>w'. Cancel demo_runner ''j1'' (run_demo [demo_job]) = (Inr (), w')
    \<and> row_of ''j1'' w' = Some (demo_job\<lparr>j_Status := ''cancelled'', j_FinishedAt := 1, j_ErrorMessage := ''cancelled by user'',
         j_ProgressMessage := ''Cancelled''\<rparr>)"
  using Cancel_closes [of "run_demo [demo_job]" "''j1''" demo_job demo_runner] by (auto simp: active_def)

theorem KillStale_overwritten_witness:
  "\<exists>w1 w2. KillStale demo_runner ''j1'' ''stalled'' (run_demo [demo_job\<lparr>j_Status := ''running''\<rparr>]) = (Inr (), w1)
    \<and> fail demo_runner demo_job ErrCanceled w1 = (Inr (), w2)
    \<and> map_option j_Status (row_of ''j1'' w1) = Some ''error'' \<and> map_option j_Status (row_of ''j1'' w2) = Some ''cancelled''"
  using KillStale_overwritten [of "run_demo [demo_job\<lparr>j_Status := ''running''\<rparr>]" "''j1''" "demo_job\<lparr>j_Status := ''running''\<rparr>"
      demo_runner demo_job "''stalled''"] by auto

definition racing :: "(unit, unit) system" where
  "racing = (start (run_demo [demo_job]))\<lparr>sy_threads := [(new_thread ''j1'')\<lparr>th_phase := PRegister demo_job\<rparr>]\<rparr>"

theorem Cancel_lost_witness:
  "\<exists>s2 s3. step_at demo_runner 0 (request (Cancel demo_runner ''j1'') racing) = Some s2 \<and> step_at demo_runner 0 s2 = Some s3
    \<and> map_option j_Status (row_of ''j1'' (sy_world (request (Cancel demo_runner ''j1'') racing))) = Some ''cancelled''
    \<and> map_option j_Status (row_of ''j1'' (sy_world s3)) = Some ''running''"
  using Cancel_lost [of racing 0 demo_job demo_job demo_runner]
  by (auto simp: racing_def start_def new_thread_def active_def jobs_ok_def)

theorem refused_full_drops_tokens_witness:
  "\<exists>e' w'. enqueueLocked demo_runner ''t1'' ''teams'' [] ''full'' [] False
      ((run_demo [])\<lparr>faults := [None, None, Some (Err ''disk full'')],
         delta_tokens := [sync_token ''t1'' ''teams'' ''u1'' ''link'', sync_token ''t1'' ''exchange'' ''u1'' ''link'']\<rparr>) = (Inl e', w')
    \<and> delta_tokens w' = [sync_token ''t1'' ''exchange'' ''u1'' ''link'']"
  using refused_full_drops_tokens [of "''t1''" "''teams''" "(run_demo [])\<lparr>faults := [None, None, Some (Err ''disk full'')],
         delta_tokens := [sync_token ''t1'' ''teams'' ''u1'' ''link'', sync_token ''t1'' ''exchange'' ''u1'' ''link'']\<rparr>"
      "Err ''disk full''" demo_runner "[]" "[]"]
  by (auto simp: slot_free_def sync_token_def)

lemma schedule_reachable: "run_schedule r is s = Some s' \<Longrightarrow> reachable r w s \<Longrightarrow> reachable r w s'"
proof (induction "is" arbitrary: s)
  case (Cons i "is")
  then obtain s1 where "step_at r i s = Some s1" "run_schedule r is s1 = Some s'" by (auto split: option.splits)
  then show ?case using Cons reachable.step [OF Cons.prems(2) run_step.thread] by blast
qed simp

definition queued_sys :: "(unit, unit) system" where
  "queued_sys = request (EnqueueParams demo_runner ''t1'' ''pst'' [] ''export'' []) (start (run_demo []))"

definition u0_job :: Job where
  "u0_job = (queued_job ''t1'' [] ''pst'' ''export'' [])\<lparr>j_ID := ''u0'', j_CreatedAt := 1\<rparr>"

lemma show_zero: "show_nat 0 = ''0''"
  by code_simp

lemma queued_sys_eval:
  "queued_sys = (start ((run_demo [u0_job])\<lparr>uuid_next := 1\<rparr>))\<lparr>sy_threads := [new_thread ''u0'']\<rparr>"
  by (simp add: queued_sys_def request_def EnqueueParams_def enqueueLocked_def promote_empty_def CountActiveJobs_def
      CountActiveFullJobs_def CreateJob_def queued_job_def sql_guarded_def io_simps Let_def run_demo_def start_def
      isGraphBackupService_def GraphBackupServices_def active_clash_def show_zero u0_job_def)

lemma queued_sys_reachable: "reachable demo_runner (run_demo []) queued_sys"
  unfolding queued_sys_def by (rule reachable.step [OF reachable.init run_step.enqueue])

definition sem_sys :: "(unit, unit) system" where
  "sem_sys = queued_sys\<lparr>sy_threads := [(new_thread ''u0'')\<lparr>th_sem := True, th_phase := PReload\<rparr>], sy_sem := 1\<rparr>"

lemma sem_sys_eval: "run_schedule demo_runner [0, 0] queued_sys = Some sem_sys"
proof -
  have load: "runJob_load ''u0'' ((run_demo [u0_job])\<lparr>uuid_next := 1\<rparr>) = (Inr (Some u0_job), (run_demo [u0_job])\<lparr>uuid_next := 1\<rparr>)"
    by (simp add: runJob_load_def GetJob_def query_row_def io_simps u0_job_def queued_job_def)
  have same: "(run_demo [u0_job])\<lparr>uuid_next := 1, pending := [], seen := []\<rparr> = (run_demo [u0_job])\<lparr>uuid_next := 1\<rparr>"
    by (simp add: run_demo_def)
  show ?thesis
    unfolding sem_sys_def queued_sys_eval
    using load by (simp add: step_at_def step_thread_def run_part_def start_def new_thread_def same u0_job_def queued_job_def run_demo_def)
qed

theorem runner_mutual_exclusion_witness:
  "reachable demo_runner (run_demo []) sem_sys \<and> count_if th_sem (sy_threads sem_sys) = 1 \<and> count_if th_sem (sy_threads sem_sys) \<le> 2"
  using runner_mutual_exclusion [OF schedule_reachable [OF sem_sys_eval queued_sys_reachable]]
    schedule_reachable [OF sem_sys_eval queued_sys_reachable]
  by (simp add: sem_sys_def count_if_def)

lemma fail_step:
  assumes "i < length (sy_threads s)" "th_phase (sy_threads s ! i) = PFail job e"
  shows "\<exists>s' st. step_at r i s = Some s' \<and> length (sy_threads s') = length (sy_threads s) \<and> th_phase (sy_threads s' ! i) = PRelease st"
proof -
  obtain s1 th1 where p: "run_part s (sy_threads s ! i) None (fail r job e) (\<lambda>_. PRelease None) = Some (s1, th1)"
    using run_part_total by (metis not_None_eq surj_pair)
  then show ?thesis using assms run_part_locks(9) [OF p] by (auto simp: step_at_def step_thread_def)
qed

lemma release_end:
  assumes "i < length (sy_threads s)" "th_phase (sy_threads s ! i) = PRelease st"
  shows "\<exists>s'. step_at r i s = Some s' \<and> length (sy_threads s') = length (sy_threads s) \<and> th_phase (sy_threads s' ! i) = PEnd"
proof -
  obtain s1 th1 where p: "run_part s (sy_threads s ! i) None (release_world (th_job (sy_threads s ! i)) st) (\<lambda>_. PEnd) = Some (s1, th1)"
    using run_part_total by (metis not_None_eq surj_pair)
  then show ?thesis using assms by (auto simp: step_at_def step_thread_def release_locks_def)
qed

lemma failed_sys:
  "\<exists>s' job e. run_schedule demo_runner [0, 0, 0, 0, 0, 0, 0] queued_sys = Some s' \<and> length (sy_threads s') = 1
    \<and> th_phase (sy_threads s' ! 0) = PFail job e"
  unfolding queued_sys_eval
  by (simp add: step_at_def step_thread_def run_part_def start_def new_thread_def run_demo_def u0_job_def queued_job_def
      runJob_load_def runJob_register_def runJob_mark_def runJob_prepare_def runJob_tenant_def and_then_def or_fail_def
      GetTenant_def GetJob_def query_row_def on_ctx_def ctx_done_def UpdateJob_def sql_guarded_def active_clash_def
      io_simps Let_def)

lemma run_schedule_append:
  "run_schedule r (as @ bs) s = (case run_schedule r as s of None \<Rightarrow> None | Some s' \<Rightarrow> run_schedule r bs s')"
  by (induction as arbitrary: s) (auto split: option.split)

lemma ended_sys:
  "\<exists>s'. run_schedule demo_runner ([0, 0, 0, 0, 0, 0, 0] @ [0, 0]) queued_sys = Some s' \<and> length (sy_threads s') = 1
    \<and> th_phase (sy_threads s' ! 0) = PEnd"
proof -
  obtain s1 job e where s1: "run_schedule demo_runner [0, 0, 0, 0, 0, 0, 0] queued_sys = Some s1" "length (sy_threads s1) = 1"
    "th_phase (sy_threads s1 ! 0) = PFail job e" using failed_sys by blast
  obtain s2 st where s2: "step_at demo_runner 0 s1 = Some s2" "length (sy_threads s2) = 1" "th_phase (sy_threads s2 ! 0) = PRelease st"
    using fail_step [of 0 s1 job e demo_runner] s1 by auto
  obtain s3 where "step_at demo_runner 0 s2 = Some s3" "length (sy_threads s3) = 1" "th_phase (sy_threads s3 ! 0) = PEnd"
    using release_end [of 0 s2 st demo_runner] s2 by auto
  then show ?thesis using s1 s2 by (simp only: run_schedule_append) simp
qed


end
