(* ===== verification/OneDrive_Props.thy ===== *)
theory OneDrive_Props
  imports OneDrive Sync_Items Catalog_Reconcile Runner_Props
begin

text \<open>Properties of the OneDrive service.\<close>

section \<open>Paths\<close>

definition drive_parts :: "drive_item \<Rightarrow> string list" where
  "drive_parts item =
     parent_segs (di_parent item)
     @ (let nm = sanitize (ptrStr (di_name item)) in if strings_EqualFold nm ''root'' then [] else [nm])"

lemma sanitize_segment: "clean_list [sanitize s]"
  using sanitize_props [of s] by (auto simp: sanitize_bytes_def)

lemma clean_drive_parts: "clean_list (drive_parts item)"
proof -
  have "clean_list (map sanitize xs)" for xs
    by (induction xs) (use sanitize_segment in auto)
  then have "clean_list (parent_segs p)" for p by (auto simp: parent_segs_def Let_def split: option.split)
  then show ?thesis using sanitize_segment by (auto simp: drive_parts_def Let_def)
qed

lemma driveItemRelPath_parts: "driveItemRelPath item = strings_Join (drive_parts item) ''/''"
proof -
  have "sanitize (ptrStr (di_name item)) \<noteq> []" using sanitize_props(1) by simp
  then have "driveItemRelPath item = (if drive_parts item = [] then [] else path_Join (drive_parts item))"
    by (auto simp: driveItemRelPath_def drive_parts_def Let_def)
  then show ?thesis using path_Join_clean [OF clean_drive_parts] by simp
qed

text \<open>
  The path of a drive item. Whatever names Graph sends, the path of an item in the catalog is the chain of
  the sanitised names of its folders and its own, it is relative, its elements are exactly these names and it
  never holds two dots in a row; the branch of \<open>syncDriveDelta\<close> that rejects a path is never taken.
\<close>

theorem driveItemRelPath_safe:
  "driveItemRelPath item = strings_Join (drive_parts item) ''/'' \<and> path_segs (driveItemRelPath item) = drive_parts item
   \<and> \<not> is_rooted (driveItemRelPath item) \<and> \<not> strings_Contains (driveItemRelPath item) ''..''"
proof (cases "drive_parts item = []")
  case True
  then show ?thesis by (simp add: driveItemRelPath_parts path_segs_def is_rooted_def)
next
  case False
  then have "driveItemRelPath item = render_path False (drive_parts item)"
    by (simp add: driveItemRelPath_parts render_path_def)
  then show ?thesis
    using clean_drive_parts [of item] by (simp add: driveItemRelPath_parts path_segs_render no_dotdot_render rooted_render)
qed

section \<open>Removed items\<close>

lemma for_each_map: "for_each xs (\<lambda>x. f (g x)) = for_each (map g xs) f"
  by (induction xs) simp_all

lemma jobs_only_ctx: "jobs_only (\<lambda>w. \<not> ctx_done i w)"
  by (simp add: jobs_only_def ctx_done_def)

definition prefix_ids :: "Store \<Rightarrow> string \<Rightarrow> string \<Rightarrow> string \<Rightarrow> item_row list \<Rightarrow> string list" where
  "prefix_ids s service mailbox rel rows =
     map it_GraphItemID (filter (under_prefix mailbox rel)
       (map ir_item (filter (\<lambda>r. live_row s service r \<and> it_Mailbox (ir_item r) = mailbox) rows)))"

lemma prefix_ids_key:
  "i \<in> set (prefix_ids s service mailbox rel rows) \<Longrightarrow> (TenantID s, service, i) \<in> row_key ` set rows"
  by (auto simp: prefix_ids_def live_row_def row_key_def image_iff intro: bexI [rotated])

lemma DeletePrefix_quiet:
  assumes "faults w = []" "service \<noteq> []" "\<forall>i. (TenantID s, service, i) \<in> row_key ` set (catalog_items w) \<longrightarrow> i \<noteq> []"
  shows "wp (DeletePrefix s service mailbox rel) (\<lambda>r w'. r = Inr () \<and> faults w' = []
      \<and> catalog_items w' = mark_rows s service (set (prefix_ids s service mailbox (strings_Trim rel slash) (catalog_items w))) (catalog_items w)) w"
proof -
  let ?ids = "prefix_ids s service mailbox (strings_Trim rel slash) (catalog_items w)"
  have "DeletePrefix s service mailbox rel w = for_each ?ids (Delete s service) w"
    using assms(1) by (simp add: DeletePrefix_def prefix_ids_def Let_def io_simps for_each_map)
  moreover have "wp (for_each ?ids (Delete s service)) (\<lambda>r w'. r = Inr () \<and> faults w' = []
      \<and> catalog_items w' = mark_rows s service (set ?ids) (catalog_items w)) w"
  proof (rule delete_all_quiet [OF assms(1,2)], rule ballI)
    fix i
    assume "i \<in> set ?ids"
    from prefix_ids_key [OF this] show "i \<noteq> [] \<and> (TenantID s, service, i) \<in> row_key ` set (catalog_items w)"
      using assms(3) by blast
  qed
  ultimately show ?thesis by (simp add: wp_def)
qed

lemma wp_quiet_ctx:
  assumes "wp m (\<lambda>r w'. r = Inr x \<and> Q w') w" "keeps (\<lambda>w. \<not> ctx_done i w) m" "\<not> ctx_done i w"
  shows "wp (ignore (on_ctx i m)) (\<lambda>r w'. r = Inr () \<and> Q w' \<and> \<not> ctx_done i w') w"
proof -
  obtain w' where run: "m w = (Inr x, w')" "Q w'" using assms(1) by (cases "m w") (auto simp: wp_def)
  then have "\<not> ctx_done i w'" using keepsD [OF assms(2,3) run(1)] by simp
  with run show ?thesis by (simp add: wp_def on_ctx_live [OF assms(3)] ignore_def attempt_def ret_def)
qed

text \<open>
  A removed item named \<open>root\<close> takes its folder with it. The name \<open>root\<close>, in any case, stands for the root
  folder of the drive, so a file of this name in a folder gets the path of the folder itself. When Graph reports
  that such a file was deleted, \<open>syncDriveDelta\<close> deletes every item of the catalog below the folder, although
  the folder is still there.
\<close>

theorem root_file_removal_deletes_folder:
  assumes "faults w = []" "\<not> ctx_done i w" "\<forall>k. (TenantID cat, ''onedrive'', k) \<in> row_key ` set (catalog_items w) \<longrightarrow> k \<noteq> []"
    "strings_EqualFold (sanitize (ptrStr (di_name item))) ''root''" "parent_segs (di_parent item) \<noteq> []" "isDriveItemRemoved item"
    "(TenantID cat, ''onedrive'', ptrStr (di_id item)) \<in> row_key ` set (catalog_items w)"
    "drive_item_sync gc i cat upn driveID mailbox live b item st w = (r, w')"
    "item_at (TenantID cat) (catalog_items w) (''onedrive'', k) = Some it" "\<not> it_Deleted it" "it_Mailbox it = mailbox"
    "strings_HasPrefix (RelPath it) (mailbox @ ''/'' @ strings_Join (parent_segs (di_parent item)) ''/'' @ ''/'')"
  shows "r = Inr (dl_count 0 st) \<and> item_at (TenantID cat) (catalog_items w') (''onedrive'', k) = Some (it\<lparr>it_Deleted := True\<rparr>)"
proof -
  let ?rel = "driveItemRelPath item" and ?gid = "ptrStr (di_id item)"
  let ?ids = "set (prefix_ids cat ''onedrive'' mailbox ?rel (catalog_items w))"
  have parts: "drive_parts item = parent_segs (di_parent item)" using assms(4) by (simp add: drive_parts_def)
  then have rel: "?rel = strings_Join (parent_segs (di_parent item)) ''/''" by (simp add: driveItemRelPath_parts)
  have trim: "strings_Trim ?rel slash = ?rel" using Trim_clean [OF clean_drive_parts] by (simp add: driveItemRelPath_parts)
  have segs: "path_segs ?rel = parent_segs (di_parent item)" "\<not> strings_Contains ?rel ''..''"
    using clean_drive_parts [of item] path_segs_render [of "drive_parts item" False] parts assms(5)
    by (simp_all add: rel no_dotdot_Join render_path_def)
  then have "?rel \<noteq> []" "?rel \<noteq> ''.''" using assms(5) by (auto simp: path_segs_def)
  moreover have gid: "?gid \<noteq> []" using assms(3,7) by blast
  ultimately have run: "drive_item_sync gc i cat upn driveID mailbox live b item st =
      bindE (ignore (on_ctx i (DeletePrefix cat ''onedrive'' mailbox ?rel))) (\<lambda>_.
      bindE (if di_isFile item then ignore (on_ctx i (Delete cat ''onedrive'' ?gid)) else ret ()) (\<lambda>_. ret (dl_count 0 st)))"
    using segs(2) assms(6) by (simp add: drive_item_sync_def)
  have ctx: "keeps (\<lambda>w. \<not> ctx_done i w) (DeletePrefix cat ''onedrive'' mailbox ?rel)"
    "keeps (\<lambda>w. \<not> ctx_done i w) (Delete cat ''onedrive'' ?gid)"
    unfolding DeletePrefix_def Let_def by (auto intro!: keeps_rules jobs_only_items jobs_only_basics jobs_only_ctx)
  have key: "(TenantID cat, ''onedrive'', ?gid) \<in> row_key ` set (mark_rows cat ''onedrive'' ids (catalog_items w))" for ids
    using assms(7) by (simp only: row_key_mark)
  have "wp (drive_item_sync gc i cat upn driveID mailbox live b item st) (\<lambda>r w'. r = Inr (dl_count 0 st)
      \<and> (\<exists>ids. ?ids \<subseteq> ids \<and> catalog_items w' = mark_rows cat ''onedrive'' ids (catalog_items w))) w"
    unfolding run wp_bindE
  proof (rule wp_mono [OF wp_quiet_ctx [OF DeletePrefix_quiet [OF assms(1) _ assms(3)] ctx(1) assms(2)]], goal_cases)
    case (2 r1 w1)
    show ?case
    proof (cases "di_isFile item")
      case True
      have "wp (ignore (on_ctx i (Delete cat ''onedrive'' ?gid))) (\<lambda>r w'. r = Inr () \<and> (faults w' = []
          \<and> catalog_items w' = mark_rows cat ''onedrive'' {?gid} (catalog_items w1)) \<and> \<not> ctx_done i w') w1"
      proof (rule wp_quiet_ctx [OF _ ctx(2)])
        show "wp (Delete cat ''onedrive'' ?gid) (\<lambda>r w'. r = Inr () \<and> faults w' = []
            \<and> catalog_items w' = mark_rows cat ''onedrive'' {?gid} (catalog_items w1)) w1"
          using 2 gid key by (intro Delete_quiet) simp_all
      qed (use 2 in simp)
      then show ?thesis
        using 2 True unfolding trim wp_bindE
        by (auto simp: wp_simps mark_rows_join elim!: wp_mono intro!: exI [of _ "?ids \<union> {?gid}"])
    qed (use 2 trim in \<open>auto simp: wp_simps\<close>)
  qed simp
  from wpD [OF this assms(8)] obtain ids where res: "r = Inr (dl_count 0 st)"
    "?ids \<subseteq> ids" "catalog_items w' = mark_rows cat ''onedrive'' ids (catalog_items w)" by auto
  obtain row where row: "row \<in> set (catalog_items w)" "row_key row = (TenantID cat, ''onedrive'', k)" "ir_item row = it"
    using assms(9) by (auto simp: item_at_def dest!: map_of_SomeD)
  then have "it_GraphItemID it = k" "live_row cat ''onedrive'' row" using assms(10) by (auto simp: row_key_def live_row_def)
  then have "k \<in> ?ids"
    using row assms(11,12) by (force simp: prefix_ids_def under_prefix_def Let_def rel)
  then show ?thesis using res assms(9) by (auto simp: item_at_mark)
qed

section \<open>No silent loss\<close>

lemma drive_item_spec:
  assumes "cat_inv cat w" "sdk_keeps (cat_inv cat) gc" "di_isFile item" "\<not> isDriveItemRemoved item" "ptrStr (di_id item) \<noteq> []"
    "driveItemRelPath item \<noteq> []"
  shows "wp (drive_item_sync gc i cat upn driveID mailbox (live_report prog pct) b item st)
    (\<lambda>r w'. \<forall>st'. r = Inr st' \<longrightarrow> dl_warnings st' = dl_warnings st \<longrightarrow> backed_up cat ''onedrive'' (ptrStr (di_id item)) w') w"
proof -
  let ?gid = "ptrStr (di_id item)" and ?rel = "driveItemRelPath item"
  have rel: "?rel \<noteq> ''.''" "no_dotdot ?rel"
    using assms(6) clean_drive_parts [of item] path_segs_render [of "drive_parts item" False]
    by (auto simp: driveItemRelPath_parts render_path_def path_segs_def no_dotdot_Join split: if_splits)
  have emit: "wp (maybeEmit (live_report prog pct) upn b st1)
      (\<lambda>r w'. \<forall>st'. r = Inr st' \<longrightarrow> dl_warnings st' = dl_warnings st \<longrightarrow> backed_up cat ''onedrive'' ?gid w') w1"
    if "backed_up cat ''onedrive'' ?gid w1" for st1 w1
    by (rule wp_mono [OF emit_backed [OF that]]) simp
  have warn: "dl_warnings (dl_warn msg st1) \<noteq> dl_warnings st1" for msg st1 by (simp add: dl_warn_def)
  have put: "wp (on_ctx i (Put cat (drive_file ?gid mailbox pa nm) data))
      (\<lambda>r w'. cat_inv cat w' \<and> (r = Inr () \<longrightarrow> backed_up cat ''onedrive'' ?gid w')) w1" if "cat_inv cat w1" for pa nm data w1
    using Put_backed [OF that, of "drive_file ?gid mailbox pa nm"] that by (auto intro!: wp_on_ctx simp: drive_file_def)
  have live: "wp (on_ctx i (LiveBlob cat ''onedrive'' ?gid)) (\<lambda>r w'. cat_inv cat w' \<and> (\<forall>x. r = Inr (Some x) \<longrightarrow> backed_up cat ''onedrive'' ?gid w'
      \<and> it_Service x = ''onedrive'' \<and> it_GraphItemID x = ?gid \<and> it_BlobHash x \<noteq> [] \<and> stored_inv cat (it_BlobHash x) w')) w"
    using LiveBlob_backed [OF assms(1)] assms(1) by (auto intro!: wp_on_ctx)
  have refresh: "wp (on_ctx i (refreshCatalogMeta cat x mailbox pa nm []))
      (\<lambda>r w'. cat_inv cat w' \<and> (r = Inr () \<longrightarrow> backed_up cat ''onedrive'' ?gid w')) w1"
    if "backed_up cat ''onedrive'' ?gid w1" "it_Service x = ''onedrive''" "it_GraphItemID x = ?gid" "it_BlobHash x \<noteq> []"
      "stored_inv cat (it_BlobHash x) w1" for x pa nm w1
    using refresh_backed [OF that] that(1) by (auto intro!: wp_on_ctx simp: backed_up_def)
  show ?thesis
    using assms(3-6) rel unfolding drive_item_sync_def Let_def wp_simps
    apply (simp add: wp_simps split del: if_split)
    apply (rule wp_mono [OF live])
    apply (auto simp: wp_simps warn skipContentDownload_def split: sum.split option.split
        intro!: wp_mono [OF refresh] wp_mono [OF put] wp_mono [OF wp_GetBytes_inv [OF assms(2)]] emit)
    done
qed


section \<open>A failed download\<close>

lemma token_upsert:
  assumes "faults w = []" "url \<noteq> []"
  obtains w' where "persistDeltaURL t sv u url w = (Inr (), w')" "faults w' = []" "catalog_items w' = catalog_items w"
    "GetDeltaToken t sv u w' = (Inr url, w')"
proof -
  let ?same = "\<lambda>r. dt_TenantID r = t \<and> dt_Service r = sv \<and> dt_UserID r = u"
  let ?upd = "\<lambda>r. if ?same r then r\<lparr>dt_Token := url, dt_UpdatedAt := clock w\<rparr> else r"
  let ?new = "(sync_token t sv u url)\<lparr>dt_ID := uuid_src w (uuid_next w), dt_UpdatedAt := clock w\<rparr>"
  let ?rows = "if list_ex ?same (delta_tokens w) then map ?upd (delta_tokens w) else delta_tokens w @ [?new]"
  let ?w = "w\<lparr>uuid_next := Suc (uuid_next w), delta_tokens := ?rows\<rparr>"
  have "\<exists>x xs. filter ?same (map ?upd rs) = x # xs \<and> dt_Token x = url" if "list_ex ?same rs" for rs
    using that
  proof (induction rs)
    case (Cons r rs)
    then show ?case by (cases "?same r") auto
  qed simp
  moreover have "filter ?same rs = []" if "\<not> list_ex ?same rs" for rs
    using that by (auto simp: filter_empty_conv list_ex_iff)
  ultimately obtain x xs where "filter ?same ?rows = x # xs" "dt_Token x = url"
    by (cases "list_ex ?same (delta_tokens w)") (force simp: sync_token_def)+
  then have "GetDeltaToken t sv u ?w = (Inr url, ?w)"
    using assms(1) by (simp add: GetDeltaToken_def query_row_def io_simps)
  moreover have "persistDeltaURL t sv u url w = (Inr (), ?w)"
    using assms by (simp add: persistDeltaURL_def UpsertDeltaToken_def sync_token_def io_simps Let_def)
  ultimately show thesis using assms(1) by (intro that) simp_all
qed

text \<open>
  C40: a file that could not be downloaded is not tried again. When the download of the only new file of the
  last page fails with an error that is not retried, the page still ends with its delta link as the token of
  the drive, and the catalog has not changed: the next run asks Graph only for what changed after that page.
\<close>

theorem failed_download_is_checkpointed:
  assumes "scripted body gc (''https://graph.microsoft.com/v1.0/drives/'' @ driveID @ ''/items/'' @ ptrStr (di_id item) @ ''/content'')"
    "\<not> isRetryableGetBytesErr (g_isTimeout gc) e" "faults w = [None, Some e]" "\<not> ctx_done i w"
    "di_isFile item" "\<not> isDriveItemRemoved item" "ptrStr (di_id item) \<noteq> []" "driveItemRelPath item \<noteq> []"
    "item_at (TenantID cat) (catalog_items w) (''onedrive'', ptrStr (di_id item)) = None"
    "pg_value p = [item]" "pg_next p = None" "pg_delta p = Some link" "link \<noteq> []"
  shows "\<exists>w'. delta_pages (Suc n) i get (checkpoint i tenantID ''onedrive'' uid) failed
      (drive_item_sync gc i cat upn driveID mailbox live b) p st w
        = (Inr (dl_warn (upn @ '' '' @ driveItemRelPath item @ '': '' @ err_text e) st), w')
    \<and> catalog_items w' = catalog_items w \<and> GetDeltaToken tenantID ''onedrive'' uid w' = (Inr link, w')"
proof -
  let ?w1 = "w\<lparr>faults := [Some e]\<rparr>" and ?w2 = "w\<lparr>faults := []\<rparr>"
  let ?st = "dl_warn (upn @ '' '' @ driveItemRelPath item @ '': '' @ err_text e) st"
  have rel: "driveItemRelPath item \<noteq> ''.''" "no_dotdot (driveItemRelPath item)"
    using assms(8) clean_drive_parts [of item] path_segs_render [of "drive_parts item" False]
    by (auto simp: driveItemRelPath_parts render_path_def path_segs_def no_dotdot_Join split: if_splits)
  have "filter (row_is cat ''onedrive'' (ptrStr (di_id item))) (catalog_items w) = []" using assms(9) by (simp add: filter_row)
  then have live: "LiveBlob cat ''onedrive'' (ptrStr (di_id item)) w = (Inr None, ?w1)"
    using assms(3)
    by (simp add: LiveBlob_def getItem_def query_row_def query_def access_def bindE_def gets_def attempt_def throw_def ret_def)
  have "GetBytes gc i (''https://graph.microsoft.com/v1.0/drives/'' @ driveID @ ''/items/'' @ ptrStr (di_id item) @ ''/content'') ?w1
      = (Inl e, ?w2)"
    using attempts_last [OF assms(1,4), of 1 e "ErrCanceled" "[]"] assms(2) by (simp add: GetBytes_def mimeMaxAttempts_def)
  then have item: "drive_item_sync gc i cat upn driveID mailbox live b item st w = (Inr ?st, ?w2)"
    using assms(4-8) rel live
    by (simp add: drive_item_sync_def Let_def attempt_def on_ctx_live ret_def skipContentDownload_def)
  obtain w' where w': "persistDeltaURL tenantID ''onedrive'' uid link ?w2 = (Inr (), w')" "faults w' = []"
    "catalog_items w' = catalog_items ?w2" "GetDeltaToken tenantID ''onedrive'' uid w' = (Inr link, w')"
    using token_upsert [of ?w2 link tenantID "''onedrive''" uid] assms(13) by auto
  have "odataResumeURL None (Some link) = link" using assms(13) by (cases link) (simp_all add: odataResumeURL_def)
  then have "delta_pages (Suc n) i get (checkpoint i tenantID ''onedrive'' uid) failed
      (drive_item_sync gc i cat upn driveID mailbox live b) p st w = (Inr ?st, w')"
    using item w'(1) assms(4,10-12)
    by (simp add: bindE_def gets_def ret_def checkpoint_def ignore_def attempt_def on_ctx_live has_next_def)
  then show ?thesis using w'(3,4) by simp
qed

section \<open>Witnesses\<close>

definition demo_sdk :: "unit graph_sdk" where
  "demo_sdk =
     \<lparr>g_pages = 10, g_users = (\<lambda>_ _. ret \<lparr>pg_value = [], pg_next = None, pg_delta = None\<rparr>), g_userDrive = (\<lambda>_. ret (Some ''d1'')),
      g_driveDelta = (\<lambda>_ _. ret \<lparr>pg_value = [], pg_next = None, pg_delta = None\<rparr>),
      g_mailFolders = (\<lambda>_ _. ret \<lparr>pg_value = [], pg_next = None, pg_delta = None\<rparr>),
      g_childFolders = (\<lambda>_ _ _. ret \<lparr>pg_value = [], pg_next = None, pg_delta = None\<rparr>),
      g_mailDelta = (\<lambda>_ _ _. ret \<lparr>pg_value = [], pg_next = None, pg_delta = None\<rparr>),
      g_teams = ret [], g_channels = (\<lambda>_. ret []), g_messages = (\<lambda>_ _. ret []), g_sites = ret [], g_drive = (\<lambda>_. ret None),
      g_children = (\<lambda>_. ret []), g_token = ret ''tok'',
      g_http = (\<lambda>_ _. bindE access (\<lambda>_. gets (\<lambda>w. (200, ''hello'')))), g_isTimeout = (\<lambda>_. False)\<rparr>"

definition demo_file :: drive_item where
  "demo_file =
     \<lparr>di_id = Some ''f1'', di_name = Some ''a.txt'', di_isFile = True, di_isFolder = False, di_parent = Some ''/drive/root:/Docs'',
      di_size = Some 5, di_deleted = False, di_additional = []\<rparr>"

definition demo_state :: delta_state where
  "demo_state =
     \<lparr>dl_job = demo_job, dl_res = NewResult None, dl_n = 0, dl_stored = 0, dl_warnings = [],
      dl_hb = newProgressHeartbeat heartbeatInterval heartbeatEveryN 1\<rparr>"

definition demo_url :: string where
  "demo_url = ''https://graph.microsoft.com/v1.0/drives/'' @ ''d1'' @ ''/items/'' @ ''f1'' @ ''/content''"

lemma demo_url_parses: "url_Parse demo_url \<noteq> None"
  by code_simp

lemma demo_scripted: "url_Parse url \<noteq> None \<Longrightarrow> scripted (\<lambda>_. ''hello'') demo_sdk url"
  by (auto simp: scripted_def demo_sdk_def)

lemma demo_file_fields:
  "ptrStr (di_id demo_file) = ''f1''" "di_isFile demo_file" "\<not> isDriveItemRemoved demo_file" "driveItemRelPath demo_file = ''Docs/a.txt''"
  by code_simp+

theorem GetBytes_retries_witness:
  "GetBytes demo_sdk ''j1'' demo_url ((run_demo [])\<lparr>faults := [Some (Err ''status 503''), None]\<rparr>) = (Inr ''hello'', (run_demo [])\<lparr>faults := []\<rparr>)
   \<and> GetBytes demo_sdk ''j1'' demo_url ((run_demo [])\<lparr>faults := [Some (Err ''status 503''), Some (Err ''status 404'')]\<rparr>)
       = (Inl (Err ''status 404''), (run_demo [])\<lparr>faults := []\<rparr>)"
proof -
  have r: "isRetryableGetBytesErr (g_isTimeout demo_sdk) (Err ''status 503'')" "\<not> isRetryableGetBytesErr (g_isTimeout demo_sdk) (Err ''status 404'')"
    by code_simp+
  have c: "\<not> ctx_done ''j1'' (run_demo [])" by (simp add: ctx_done_def run_demo_def)
  show ?thesis
    using GetBytes_retries [OF demo_scripted [OF demo_url_parses] c, of "[Err ''status 503'']" "[]" "Err ''status 404''"] r by simp
qed

theorem failed_download_is_checkpointed_witness:
  "\<exists>w'. delta_pages 1 ''j1'' (\<lambda>_. throw ErrCanceled) (checkpoint ''j1'' ''t1'' ''onedrive'' ''u1'') err_text
      (drive_item_sync demo_sdk ''j1'' demo_cat ''ada@x'' ''d1'' ''ada'' (\<lambda>msg. ret) 1)
      \<lparr>pg_value = [demo_file], pg_next = None, pg_delta = Some ''link''\<rparr> demo_state
      ((run_demo [])\<lparr>faults := [None, Some (Err ''status 404'')]\<rparr>)
        = (Inr (dl_warn (''ada@x'' @ '' '' @ driveItemRelPath demo_file @ '': '' @ ''status 404'') demo_state), w')
    \<and> catalog_items w' = [] \<and> GetDeltaToken ''t1'' ''onedrive'' ''u1'' w' = (Inr ''link'', w')"
proof -
  have r: "\<not> isRetryableGetBytesErr (g_isTimeout demo_sdk) (Err ''status 404'')" by code_simp
  have c: "\<not> ctx_done ''j1'' ((run_demo [])\<lparr>faults := [None, Some (Err ''status 404'')]\<rparr>)" by (simp add: ctx_done_def run_demo_def)
  show ?thesis
    using failed_download_is_checkpointed [OF demo_scripted [OF demo_url_parses, unfolded demo_url_def, folded demo_file_fields(1)] r _ c,
      where p = "\<lparr>pg_value = [demo_file], pg_next = None, pg_delta = Some ''link''\<rparr>" and link = "''link''" and tenantID = "''t1''" and n = 0
        and uid = "''u1''" and cat = demo_cat and upn = "''ada@x''" and mailbox = "''ada''" and st = demo_state and b = 1
        and get = "\<lambda>_. throw ErrCanceled" and failed = err_text and live = "\<lambda>msg. ret"] demo_file_fields
    by (simp add: item_at_def run_demo_def)
qed

definition docs_row :: "string \<Rightarrow> string \<Rightarrow> item_row" where
  "docs_row gid name =
     \<lparr>ir_tenant = ''t1'', ir_item = drive_file gid ''ada'' ''Docs'' name\<rparr>"

definition docs_world :: run_world where
  "docs_world = (run_demo [])\<lparr>catalog_items := [docs_row ''f1'' ''a.txt'', docs_row ''f2'' ''root'']\<rparr>"

definition root_file :: drive_item where
  "root_file = demo_file\<lparr>di_id := Some ''f2'', di_name := Some ''root'', di_deleted := True\<rparr>"

theorem root_file_removal_deletes_folder_witness:
  "\<exists>w'. drive_item_sync demo_sdk ''j1'' demo_cat ''ada@x'' ''d1'' ''ada'' (\<lambda>msg. ret) 1 root_file demo_state docs_world
      = (Inr (dl_count 0 demo_state), w')
    \<and> item_at ''t1'' (catalog_items w') (''onedrive'', ''f1'') = Some ((drive_file ''f1'' ''ada'' ''Docs'' ''a.txt'')\<lparr>it_Deleted := True\<rparr>)"
proof -
  obtain r w' where run: "drive_item_sync demo_sdk ''j1'' demo_cat ''ada@x'' ''d1'' ''ada'' (\<lambda>msg. ret) 1 root_file demo_state docs_world
      = (r, w')" by fastforce
  have rows: "row_key ` set (catalog_items docs_world) = {(''t1'', ''onedrive'', ''f1''), (''t1'', ''onedrive'', ''f2'')}"
    by (simp add: docs_world_def docs_row_def row_key_def drive_file_def zero_item_def)
  have t: "TenantID demo_cat = ''t1''" by (simp add: demo_cat_def)
  have f: "strings_EqualFold (sanitize (ptrStr (di_name root_file))) ''root''" "parent_segs (di_parent root_file) = [''Docs'']"
    "isDriveItemRemoved root_file" "ptrStr (di_id root_file) = ''f2''"
    by code_simp+
  have it: "item_at ''t1'' (catalog_items docs_world) (''onedrive'', ''f1'') = Some (drive_file ''f1'' ''ada'' ''Docs'' ''a.txt'')"
    by (simp add: item_at_def docs_world_def docs_row_def row_key_def drive_file_def zero_item_def)
  have p: "strings_HasPrefix (RelPath (drive_file ''f1'' ''ada'' ''Docs'' ''a.txt'')) (''ada'' @ ''/'' @ strings_Join [''Docs''] ''/'' @ ''/'')"
    by code_simp
  have w: "faults docs_world = []" "\<not> ctx_done ''j1'' docs_world" by (simp_all add: docs_world_def run_demo_def ctx_done_def)
  note root_file_removal_deletes_folder [OF w(1,2), of demo_cat root_file demo_sdk "''ada@x''" "''d1''" "''ada''" "\<lambda>msg. ret" 1 demo_state r w'
      "''f1''" "drive_file ''f1'' ''ada'' ''Docs'' ''a.txt''"]
  then show ?thesis using run rows t f it p by (auto simp: drive_file_def zero_item_def)
qed

lemma maybeEmit_silent:
  assumes "rs_progress (dl_res st) = None"
  shows "\<exists>st'. maybeEmit (live_report None pct) label b st w = (Inr st', w) \<and> dl_warnings st' = dl_warnings st"
  using assms
  by (auto simp: maybeEmit_def live_report_def res_Info_def Emit_def SyncJob_def io_simps split: prod.split)

lemma run_demo_inv: "cat_inv demo_cat (run_demo [])"
  by (simp add: cat_inv_def live_ok_def rows_ok_def cas_ok_def run_demo_def demo_cat_def Blobs_def file_at_def
      good_root_def has_nul_def path_segs_def is_rooted_def)

lemma demo_sdk_keeps: "fault_free P \<Longrightarrow> sdk_keeps P demo_sdk"
  by (auto simp: sdk_keeps_def demo_sdk_def intro!: keeps_rules keeps_access)

lemma demo_GetBytes:
  assumes "url_Parse url \<noteq> None" "faults w = []" "\<not> ctx_done i w"
  shows "GetBytes demo_sdk i url w = (Inr ''hello'', w)"
  using assms
  by (simp add: GetBytes_def, subst get_attempts.simps)
    (simp add: mimeMaxAttempts_def on_ctx_live scripted_once [OF demo_scripted [OF assms(1)]] attempt_def bindE_def gets_def ret_def)


end
