(* ===== verification/Exchange_Props.thy ===== *)
theory Exchange_Props
  imports Exchange OneDrive_Props
begin

text \<open>Properties of the Exchange service, and its operations on the job table.\<close>

section \<open>The job table\<close>

text \<open>What the service relies on: the reconstruction of a message touches no table of the program.\<close>

definition fallback_keeps :: "('w run_world_scheme \<Rightarrow> bool) \<Rightarrow> (string \<Rightarrow> string \<Rightarrow> ('w run_world_scheme, string) io) \<Rightarrow> bool" where
  "fallback_keeps P fallback = (\<forall>u m. keeps P (fallback u m))"

lemma keeps_map_io: "(\<And>x. keeps P (f x)) \<Longrightarrow> keeps P (map_io f xs)"
  by (induction xs) (auto intro!: keeps_rules)

lemma keeps_child_pages:
  assumes "\<And>x. keeps P (expand x)" "\<And>u. keeps P (get u)"
  shows "keeps P (child_pages n expand get p)"
  using assms by (induction n arbitrary: p) (auto intro!: keeps_rules keeps_map_io split: option.split sum.split)

lemma keeps_listChildFolders: "sdk_keeps P gc \<Longrightarrow> keeps P (listChildFolders n gc i u f)"
  by (induction n arbitrary: f) (auto intro!: keeps_rules keeps_child_pages simp: sdk_keeps_def split: sum.split)

lemma keeps_listAllMailFolders: "sdk_keeps P gc \<Longrightarrow> keeps P (listAllMailFolders gc i u)"
  unfolding listAllMailFolders_def
  by (auto intro!: keeps_rules keeps_read_pages keeps_map_io keeps_listChildFolders simp: sdk_keeps_def)

lemma keeps_message_body:
  "sdk_keeps P gc \<Longrightarrow> fallback_keeps P fallback \<Longrightarrow> keeps P (message_body gc fallback i u upn mid subj)"
  unfolding message_body_def by (auto intro!: keeps_rules keeps_GetBytes simp: fallback_keeps_def split: sum.split)

lemma inv_message_sync:
  assumes "sdk_ok gc" "fallback_keeps run_inv fallback" "\<And>msg jr. keeps run_inv (live msg jr)"
  shows "keeps run_inv (message_sync gc fallback i cat u upn mb fo live b m st)"
  using assms unfolding message_sync_def Let_def
  by (auto intro!: keeps_rules inv_sync inv_refresh keeps_message_body split: sum.split)

lemma inv_backupFolderDelta:
  assumes "sdk_ok gc" "fallback_keeps run_inv fallback" "\<And>msg jr. keeps run_inv (live msg jr)"
  shows "keeps run_inv (backupFolderDelta gc fallback i a b upn d e mb cat live jr)"
  using assms unfolding backupFolderDelta_def Let_def
  by (auto intro!: keeps_rules inv_sync inv_now inv_message_sync simp: sdk_keeps_def split: sum.split)

lemma inv_any_delta: "keeps run_inv (any_delta i a u fs)"
  by (induction fs) (auto intro!: keeps_rules inv_saved_token)

lemma inv_mail_folders:
  assumes "sdk_ok gc" "fallback_keeps run_inv fallback"
  shows "keeps run_inv (mail_folders gc fallback t cat prog pct uid upn fs ns)"
  using assms by (induction fs arbitrary: ns) (auto intro!: keeps_rules inv_sync inv_backupFolderDelta simp: Let_def)

lemma inv_backupOneMailbox:
  assumes "sdk_ok gc" "fallback_keeps run_inv fallback"
  shows "keeps run_inv (backupOneMailbox gc fallback t cat prog tot iu s)"
  using assms unfolding backupOneMailbox_def mailbox_done_def Let_def
  by (auto intro!: keeps_rules inv_sync inv_any_delta inv_mail_folders keeps_listAllMailFolders
      split: sum.split prod.split option.split)

lemma inv_exchange_body:
  assumes "sdk_ok gc" "fallback_keeps run_inv fallback"
  shows "keeps run_inv (exchange_body k fallback gc t job cat prog)"
  using assms unfolding exchange_body_def Let_def
  by (auto intro!: keeps_rules inv_sync inv_backupOneMailbox split: sum.split prod.split)

section \<open>No silent loss\<close>

lemma message_spec:
  assumes "cat_inv cat w" "sdk_keeps (cat_inv cat) gc" "fallback_keeps (cat_inv cat) fallback" "ptrStr (ms_id m) \<noteq> []" "\<not> isGraphRemoved m"
  shows "wp (message_sync gc fallback i cat uid upn mailbox folder (live_report prog pct) b m st)
    (\<lambda>r w'. \<forall>st'. r = Inr st' \<longrightarrow> dl_warnings st' = dl_warnings st \<longrightarrow> backed_up cat ''exchange'' (ptrStr (ms_id m)) w') w"
proof -
  let ?mid = "ptrStr (ms_id m)"
  have emit: "wp (maybeEmit (live_report prog pct) label b st1)
      (\<lambda>r w'. \<forall>st'. r = Inr st' \<longrightarrow> dl_warnings st' = dl_warnings st \<longrightarrow> backed_up cat ''exchange'' ?mid w') w1"
    if "backed_up cat ''exchange'' ?mid w1" for label st1 w1
    by (rule wp_mono [OF emit_backed [OF that]]) simp
  have warn: "dl_warnings (dl_warn msg st1) \<noteq> dl_warnings st1" "dl_warnings (dl_warn msg (dl_warns ws st1)) \<noteq> dl_warnings st1" for msg ws st1
    by (simp_all add: dl_warn_def dl_warns_def)
  have put: "wp (on_ctx i (Put cat (mail_item ?mid mailbox folder nm sj) data))
      (\<lambda>r w'. cat_inv cat w' \<and> (r = Inr () \<longrightarrow> backed_up cat ''exchange'' ?mid w')) w1" if "cat_inv cat w1" for nm sj data w1
    using Put_backed [OF that, of "mail_item ?mid mailbox folder nm sj"] that by (auto intro!: wp_on_ctx simp: mail_item_def)
  have body: "wp (message_body gc fallback i uid upn ?mid sj) (\<lambda>_. cat_inv cat) w1" if "cat_inv cat w1" for sj w1
    by (rule wp_keeps [OF keeps_message_body [OF assms(2,3)] that])
  have live: "wp (on_ctx i (LiveBlob cat ''exchange'' ?mid)) (\<lambda>r w'. cat_inv cat w' \<and> (\<forall>x. r = Inr (Some x) \<longrightarrow> backed_up cat ''exchange'' ?mid w'
      \<and> it_Service x = ''exchange'' \<and> it_GraphItemID x = ?mid \<and> it_BlobHash x \<noteq> [] \<and> stored_inv cat (it_BlobHash x) w')) w"
    using LiveBlob_backed [OF assms(1)] assms(1) by (auto intro!: wp_on_ctx)
  have refresh: "wp (on_ctx i (refreshCatalogMeta cat x mailbox folder nm sj))
      (\<lambda>r w'. cat_inv cat w' \<and> (r = Inr () \<longrightarrow> backed_up cat ''exchange'' ?mid w')) w1"
    if "backed_up cat ''exchange'' ?mid w1" "it_Service x = ''exchange''" "it_GraphItemID x = ?mid" "it_BlobHash x \<noteq> []"
      "stored_inv cat (it_BlobHash x) w1" for x nm sj w1
    using refresh_backed [OF that] that(1) by (auto intro!: wp_on_ctx simp: backed_up_def)
  show ?thesis
    using assms(4,5) unfolding message_sync_def Let_def wp_simps
    apply (simp add: wp_simps split del: if_split)
    apply (rule wp_mono [OF live])
    apply (auto simp: wp_simps warn skipContentDownload_def split: sum.split option.split
        intro!: wp_mono [OF refresh] wp_mono [OF body] wp_mono [OF put] emit)
    done
qed


section \<open>Placeholders\<close>

definition holds_hash :: "Store \<Rightarrow> string \<Rightarrow> string \<Rightarrow> string \<Rightarrow> 'w cat_world_scheme \<Rightarrow> bool" where
  "holds_hash s sv gid h w =
     (\<exists>it. item_at (TenantID s) (catalog_items w) (sv, gid) = Some it \<and> \<not> it_Deleted it \<and> it_BlobHash it = h
        \<and> it_Service it = sv \<and> it_GraphItemID it = gid)"

lemma report_free_holds: "report_free (holds_hash s sv gid h)"
  by (simp add: report_free_def log_free_def holds_hash_def)

lemma emit_holds:
  "holds_hash s sv gid h w \<Longrightarrow> wp (maybeEmit (live_report prog pct) label b st) (\<lambda>_. holds_hash s sv gid h) w"
  by (rule wp_keeps [OF keeps_maybeEmit [OF report_free_holds]])

lemma LiveBlob_holds:
  assumes "holds_hash s sv gid h w" "h \<noteq> []" "Some ErrNoRows \<notin> set (faults w)"
  shows "wp (LiveBlob s sv gid) (\<lambda>r w'. holds_hash s sv gid h w' \<and> (\<forall>x. r = Inr x \<longrightarrow>
      (\<exists>it. x = Some it \<and> it_BlobHash it = h \<and> it_Service it = sv \<and> it_GraphItemID it = gid))) w"
proof -
  obtain it where it: "item_at (TenantID s) (catalog_items w) (sv, gid) = Some it" "\<not> it_Deleted it" "it_BlobHash it = h"
    "it_Service it = sv" "it_GraphItemID it = gid" using assms(1) by (auto simp: holds_hash_def)
  then obtain r rs where r: "filter (row_is s sv gid) (catalog_items w) = r # rs"
    by (cases "filter (row_is s sv gid) (catalog_items w)") (auto simp: filter_row)
  then have "ir_item r = it" using filter_row_hd [OF r] it(1) by simp
  then show ?thesis
    using it r assms(2,3) unfolding LiveBlob_def getItem_def query_row_def query_def
    by (auto simp: wp_simps holds_hash_def wp_def [of access] access_def split: list.split option.split)
qed

lemma refresh_holds:
  assumes "holds_hash s sv gid h w" "it_BlobHash it = h" "it_Service it = sv" "it_GraphItemID it = gid"
  shows "wp (refreshCatalogMeta s it mailbox parent name subject) (\<lambda>_. holds_hash s sv gid h) w"
  using assms unfolding refreshCatalogMeta_def Keep_def upsertItem_def Let_def
  by (auto simp: wp_simps holds_hash_def upsert_rows_item_at intro!: wp_exec wp_notePending)

lemma stored_message_kept:
  assumes "holds_hash cat ''exchange'' (ptrStr (ms_id m)) h w" "h \<noteq> []" "Some ErrNoRows \<notin> set (faults w)" "ptrStr (ms_id m) \<noteq> []"
    "\<not> isGraphRemoved m"
  shows "wp (message_sync gc fallback i cat uid upn mailbox folder (live_report prog pct) b m st)
    (\<lambda>_. holds_hash cat ''exchange'' (ptrStr (ms_id m)) h) w"
proof -
  have live: "wp (on_ctx i (LiveBlob cat ''exchange'' (ptrStr (ms_id m)))) (\<lambda>r w'. holds_hash cat ''exchange'' (ptrStr (ms_id m)) h w'
      \<and> (\<forall>x. r = Inr x \<longrightarrow> (\<exists>it. x = Some it \<and> it_BlobHash it = h \<and> it_Service it = ''exchange'' \<and> it_GraphItemID it = ptrStr (ms_id m)))) w"
    using LiveBlob_holds [OF assms(1-3)] assms(1) by (auto intro!: wp_on_ctx)
  show ?thesis
    using assms(2,4,5) unfolding message_sync_def Let_def wp_simps
    apply (simp add: wp_simps split del: if_split)
    apply (rule wp_mono [OF live])
    apply (auto simp: wp_simps skipContentDownload_def split: sum.split intro!: wp_on_ctx wp_mono [OF refresh_holds] emit_holds)
    done
qed

lemma message_placeholder:
  assumes "faults w = []" "cat_inv cat w" "SkipRematch cat" "\<not> ctx_done i w" "ptrStr (ms_id m) \<noteq> []" "\<not> isGraphRemoved m"
    "item_at (TenantID cat) (catalog_items w) (''exchange'', ptrStr (ms_id m)) = None"
    "GetBytes gc i (message_url uid (ptrStr (ms_id m))) w = (Inl e, w)" "fallback uid (ptrStr (ms_id m)) w = (Inl fe, w)"
  shows "wp (message_sync gc fallback i cat uid upn mailbox folder (live_report prog pct) b m st)
    (\<lambda>_. holds_hash cat ''exchange'' (ptrStr (ms_id m)) (Hash (placeholder (ptrStr (ms_subject m)) e fe))) w"
proof -
  let ?mid = "ptrStr (ms_id m)" and ?subj = "ptrStr (ms_subject m)"
  let ?it = "mail_item ?mid mailbox folder (emlFileName ?subj ?mid) (DecodeMIMEHeader ?subj)" and ?d = "placeholder ?subj e fe"
  let ?ws = "[upn @ '' mime '' @ ?mid @ '': '' @ err_text e @ '' (fallback: '' @ err_text fe @ '')'']"
  have "filter (row_is cat ''exchange'' ?mid) (catalog_items w) = []" using assms(7) by (simp add: filter_row)
  then have live: "LiveBlob cat ''exchange'' ?mid w = (Inr None, w)"
    using assms(1) by (simp add: LiveBlob_def getItem_def query_row_def io_simps)
  obtain w2 where put: "Put cat ?it ?d w = (Inr (), w2)"
    using Put_ok(1) [OF assms(2,1,3), of ?it ?d] assms(5) by (cases "Put cat ?it ?d w") (simp add: mail_item_def)
  have rows: "catalog_items w2 = upsert_rows cat (?it\<lparr>it_BlobHash := Hash ?d, it_Size := int (length ?d), it_Deleted := False,
       it_MTime := (if it_MTime ?it = zero_time then clock w else it_MTime ?it)\<rparr>) (catalog_items w)"
    using Put_ok(6) [OF assms(2,1,3), of ?it ?d] assms(5) put by (simp add: mail_item_def)
  have "holds_hash cat ''exchange'' ?mid (Hash ?d) w2"
    unfolding holds_hash_def rows by (simp add: upsert_rows_item_at mail_item_def)
  moreover have "message_sync gc fallback i cat uid upn mailbox folder (live_report prog pct) b m st w =
      maybeEmit (live_report prog pct) (upn @ '' / '' @ folder) b (dl_count (int (length ?d)) (dl_warns ?ws st)) w2"
    using assms(4-6,8,9) live put
    by (simp add: message_sync_def message_body_def Let_def attempt_def bindE_def on_ctx_live ret_def skipContentDownload_def)
  ultimately show ?thesis using emit_holds by (simp add: wp_def)
qed

text \<open>
  The placeholder of a message stays. When both the download of a message and its reconstruction from JSON
  fail once, an undisturbed run stores the text with the two errors as the content of the message; and every
  later run, with any client that works again and whatever else fails, keeps this content, because
  \<open>backupFolderDelta\<close> never downloads a message that has content in the catalog.
\<close>

theorem placeholder_never_replaced:
  assumes "faults w = []" "cat_inv cat w" "SkipRematch cat" "\<not> ctx_done i w" "ptrStr (ms_id m) \<noteq> []" "\<not> isGraphRemoved m"
    "item_at (TenantID cat) (catalog_items w) (''exchange'', ptrStr (ms_id m)) = None"
    "GetBytes gc i (message_url uid (ptrStr (ms_id m))) w = (Inl e, w)" "fallback uid (ptrStr (ms_id m)) w = (Inl fe, w)"
    "message_sync gc fallback i cat uid upn mailbox folder (live_report prog pct) b m st w = (r1, w1)"
    "catalog_items w2 = catalog_items w1" "Some ErrNoRows \<notin> set (faults w2)"
    "message_sync gc' fallback' i' cat uid upn mailbox folder (live_report prog' pct') b' m st' w2 = (r3, w3)"
  shows "\<exists>it. item_at (TenantID cat) (catalog_items w3) (''exchange'', ptrStr (ms_id m)) = Some it \<and> \<not> it_Deleted it
    \<and> it_BlobHash it = Hash (placeholder (ptrStr (ms_subject m)) e fe)"
proof -
  have "holds_hash cat ''exchange'' (ptrStr (ms_id m)) (Hash (placeholder (ptrStr (ms_subject m)) e fe)) w2"
    using wpD [OF message_placeholder [where fallback = fallback, OF assms(1-9)] assms(10)] assms(11) by (simp add: holds_hash_def)
  from wpD [OF stored_message_kept [OF this Hash_not_Nil assms(12,5,6)] assms(13)] show ?thesis by (auto simp: holds_hash_def)
qed

section \<open>Witnesses\<close>

definition demo_message :: message where
  "demo_message = \<lparr>ms_id = Some ''m1'', ms_subject = Some ''Hi'', ms_additional = []\<rparr>"

lemma demo_message_facts:
  "ptrStr (ms_id demo_message) = ''m1''" "ptrStr (ms_subject demo_message) = ''Hi''" "\<not> isGraphRemoved demo_message"
  "url_Parse (message_url ''u1'' ''m1'') \<noteq> None"
  by code_simp+

lemma demo_run_facts: "faults (run_demo []) = []" "\<not> ctx_done ''j1'' (run_demo [])" "SkipRematch demo_cat"
  "LiveBlob demo_cat ''exchange'' ''m1'' (run_demo []) = (Inr None, run_demo [])"
  by (simp_all add: run_demo_def ctx_done_def demo_cat_def LiveBlob_def getItem_def query_row_def io_simps)


definition dead_sdk :: "unit graph_sdk" where
  "dead_sdk = demo_sdk\<lparr>g_token := throw (Err ''status 404'')\<rparr>"

lemma dead_GetBytes:
  assumes "url_Parse url \<noteq> None" "\<not> ctx_done i w"
  shows "GetBytes dead_sdk i url w = (Inl (Err ''status 404''), w)"
proof -
  have "\<not> isRetryableGetBytesErr (g_isTimeout dead_sdk) (Err ''status 404'')" by code_simp
  then show ?thesis
    using assms
    by (simp add: GetBytes_def, subst get_attempts.simps)
      (simp add: mimeMaxAttempts_def on_ctx_live getBytesOnce_def attempt_def bindE_def throw_def, auto simp: dead_sdk_def throw_def)
qed

theorem placeholder_never_replaced_witness:
  "\<exists>it. item_at ''t1'' (catalog_items (snd (message_sync demo_sdk (\<lambda>_ _. throw ErrCanceled) ''j1'' demo_cat ''u1'' ''ada@x'' ''ada'' ''Inbox''
      (live_report None 50) 1 demo_message demo_state ((snd (message_sync dead_sdk (\<lambda>_ _. throw (Err ''no'')) ''j1'' demo_cat ''u1'' ''ada@x'' ''ada'' ''Inbox''
        (live_report None 50) 1 demo_message demo_state (run_demo [])))\<lparr>faults := []\<rparr>)))) (''exchange'', ''m1'') = Some it
    \<and> it_BlobHash it = Hash (placeholder ''Hi'' (Err ''status 404'') (Err ''no''))"
proof -
  note w = demo_run_facts
  have new: "item_at (TenantID demo_cat) (catalog_items (run_demo [])) (''exchange'', ptrStr (ms_id demo_message)) = None"
    by (simp add: item_at_def run_demo_def)
  have t: "TenantID demo_cat = ''t1''" by (simp add: demo_cat_def)
  have mid: "ptrStr (ms_id demo_message) \<noteq> []" using demo_message_facts(1) by simp
  have get: "GetBytes dead_sdk ''j1'' (message_url ''u1'' (ptrStr (ms_id demo_message))) (run_demo []) = (Inl (Err ''status 404''), run_demo [])"
    using dead_GetBytes [OF demo_message_facts(4) w(2)] demo_message_facts(1) by simp
  let ?run = "message_sync dead_sdk (\<lambda>_ _. throw (Err ''no'')) ''j1'' demo_cat ''u1'' ''ada@x'' ''ada'' ''Inbox'' (live_report None 50) 1 demo_message demo_state"
  obtain r1 w1 where one: "?run (run_demo []) = (r1, w1)" by fastforce
  obtain r3 w3 where two: "message_sync demo_sdk (\<lambda>_ _. throw ErrCanceled) ''j1'' demo_cat ''u1'' ''ada@x'' ''ada'' ''Inbox''
      (live_report None 50) 1 demo_message demo_state (w1\<lparr>faults := []\<rparr>) = (r3, w3)" by fastforce
  have "\<exists>it. item_at (TenantID demo_cat) (catalog_items w3) (''exchange'', ptrStr (ms_id demo_message)) = Some it \<and> \<not> it_Deleted it
      \<and> it_BlobHash it = Hash (placeholder (ptrStr (ms_subject demo_message)) (Err ''status 404'') (Err ''no''))"
    by (rule placeholder_never_replaced [where fallback = "\<lambda>_ _. throw (Err ''no'')", OF w(1) run_demo_inv w(3,2) mid demo_message_facts(3) new get _
        one _ _ two]) (simp_all add: throw_def)
  then show ?thesis using one two demo_message_facts(1,2) t by auto
qed

end
