(* ===== verification/Eml_Build.thy ===== *)
theory Eml_Build
  imports Exchange_Props
begin

text \<open>
  The reconstruction of a message from its JSON form (\<open>internal/backup/emlbuild.go\<close>, \<open>eml_fallback.go\<close>), which Exchange
  stores when Graph cannot give the message itself: the headers, the body and the attachments as a MIME message.

  Of the library: encoded words (\<open>mime.QEncoding\<close>, \<open>mime.BEncoding\<close>), \<open>mime.FormatMediaType\<close>, \<open>mail.Address.String\<close> and
  \<open>multipart.Writer\<close>. Parameters are \<open>mime.ParseMediaType\<close>, the verb \<open>%q\<close> and the calls of the SDK.
\<close>

section \<open>Encoded words\<close>

definition tab :: char where "tab = CHR 0x09"

definition upper_hex :: "nat \<Rightarrow> char" where
  "upper_hex n = char_of (if n < 10 then 48 + n else 55 + n)"

definition needsEncoding :: "string \<Rightarrow> bool" where
  "needsEncoding s = list_ex (\<lambda>c. (of_char c < (32 :: nat) \<or> of_char c > (126 :: nat)) \<and> c \<noteq> tab) s"

definition q_plain :: "char \<Rightarrow> bool" where
  "q_plain c = ((32 :: nat) \<le> of_char c \<and> of_char c \<le> (126 :: nat) \<and> c \<notin> set ''=?_'')"

definition writeQString :: "string \<Rightarrow> string" where
  "writeQString s =
     concat (map (\<lambda>c. if c = CHR '' '' then ''_'' else if q_plain c then [c]
                      else [CHR ''='', upper_hex (of_char c div 16), upper_hex (of_char c mod 16)]) s)"

definition openWord :: "char \<Rightarrow> string" where
  "openWord e = ''=?utf-8?'' @ [e, CHR ''?'']"

definition splitWord :: "char \<Rightarrow> string" where
  "splitWord e = ''?= '' @ openWord e"

fun qEncode :: "nat \<Rightarrow> string list \<Rightarrow> string" where
  "qEncode cur [] = []"
| "qEncode cur (r # rs) =
     (let n = (case r of [c] \<Rightarrow> if q_plain c then 1 else 3 | _ \<Rightarrow> 3 * length r)
      in if cur + n > 63 then splitWord (CHR ''q'') @ writeQString r @ qEncode n rs
         else writeQString r @ qEncode (cur + n) rs)"

fun b_words :: "nat \<Rightarrow> string \<Rightarrow> string list \<Rightarrow> string" where
  "b_words cur acc [] = base64_EncodeToString acc"
| "b_words cur acc (r # rs) =
     (if cur + length r \<le> 45 then b_words (cur + length r) (acc @ r) rs
      else base64_EncodeToString acc @ splitWord (CHR ''b'') @ b_words (length r) r rs)"

definition bEncode :: "string \<Rightarrow> string" where
  "bEncode s = (if (length s + 2) div 3 * 4 \<le> 63 then base64_EncodeToString s else b_words 0 [] (utf8_runes s))"

definition QEncoding_Encode :: "string \<Rightarrow> string" where
  "QEncoding_Encode s = (if needsEncoding s then openWord (CHR ''q'') @ qEncode 0 (utf8_runes s) @ ''?='' else s)"

definition BEncoding_Encode :: "string \<Rightarrow> string" where
  "BEncoding_Encode s = (if needsEncoding s then openWord (CHR ''b'') @ bEncode s @ ''?='' else s)"

section \<open>Addresses\<close>

text \<open>The classes of \<open>net/mail\<close>, on the bytes of a rune; a byte that is no rune reads as U+FFFD.\<close>

definition isMultibyte :: "string \<Rightarrow> bool" where
  "isMultibyte r = (case r of [c] \<Rightarrow> of_char c \<ge> (128 :: nat) | _ \<Rightarrow> True)"

definition isVchar :: "string \<Rightarrow> bool" where
  "isVchar r = (isMultibyte r \<or> (case r of [c] \<Rightarrow> (33 :: nat) \<le> of_char c \<and> of_char c \<le> (126 :: nat) | _ \<Rightarrow> False))"

definition isWSP :: "string \<Rightarrow> bool" where
  "isWSP r = (r = '' '' \<or> r = [tab])"

definition isAtext :: "string \<Rightarrow> bool" where
  "isAtext r = (r \<notin> set (map (\<lambda>c. [c]) (''.()<>[]:;@,'' @ [CHR 0x5C, CHR 0x22])) \<and> isVchar r)"

definition quoteString :: "string \<Rightarrow> string" where
  "quoteString s =
     [CHR 0x22]
     @ concat (map (\<lambda>r. if r \<noteq> [CHR 0x5C] \<and> r \<noteq> [CHR 0x22] \<and> isVchar r \<or> isWSP r then rune_bytes r
                        else if isVchar r then CHR 0x5C # rune_bytes r else []) (utf8_runes s))
     @ [CHR 0x22]"

fun quoteLocal :: "char option \<Rightarrow> string list \<Rightarrow> bool" where
  "quoteLocal before [] = False"
| "quoteLocal before (r # rs) =
     (if isAtext r \<or> r = ''.'' \<and> before \<noteq> None \<and> before \<noteq> Some (CHR ''.'') \<and> rs \<noteq> [] then quoteLocal (Some (last r)) rs else True)"

definition mail_Address_String :: "string \<Rightarrow> string \<Rightarrow> string" where
  "mail_Address_String name address =
     (let (user, domain) = (case strings_LastIndex address ''@'' of None \<Rightarrow> (address, []) | Some i \<Rightarrow> (take i address, drop (Suc i) address));
          s = ''<'' @ (if quoteLocal None (utf8_runes user) then quoteString user else user) @ ''@'' @ domain @ ''>''
      in if name = [] then s
         else if list_all (\<lambda>r. (isVchar r \<or> isWSP r) \<and> \<not> isMultibyte r) (utf8_runes name) then quoteString name @ '' '' @ s
         else if strings_ContainsAny name ([CHR 0x22] @ ''#$%&'' @ [CHR 0x27] @ ''(),.:;<>@[]^'' @ [CHR 0x60] @ ''{|}~'')
           then BEncoding_Encode name @ '' '' @ s
         else QEncoding_Encode name @ '' '' @ s)"

definition formatMailbox :: "string \<Rightarrow> string \<Rightarrow> string" where
  "formatMailbox name address =
     (if strings_TrimSpace address = [] then [] else mail_Address_String (strings_TrimSpace name) (strings_TrimSpace address))"

section \<open>Media types\<close>

definition isTSpecial :: "char \<Rightarrow> bool" where
  "isTSpecial c = (c \<in> set (''()<>@,;:/[]?='' @ [CHR 0x5C, CHR 0x22]))"

definition isToken :: "string \<Rightarrow> bool" where
  "isToken s = (s \<noteq> [] \<and> list_all (\<lambda>c. (33 :: nat) \<le> of_char c \<and> of_char c \<le> (126 :: nat) \<and> \<not> isTSpecial c) s)"

definition attr_char :: "char \<Rightarrow> string" where
  "attr_char c =
     (if of_char c \<le> (32 :: nat) \<or> of_char c \<ge> (127 :: nat) \<or> c \<in> set ''*%'' \<or> c = CHR 0x27 \<or> isTSpecial c
      then [CHR ''%'', upper_hex (of_char c div 16), upper_hex (of_char c mod 16)] else [c])"

definition quoted_value :: "string \<Rightarrow> string" where
  "quoted_value v = [CHR 0x22] @ concat (map (\<lambda>c. if c = CHR 0x22 \<or> c = CHR 0x5C then [CHR 0x5C, c] else [c]) v) @ [CHR 0x22]"

definition format_attr :: "string \<times> string \<Rightarrow> string" where
  "format_attr kv =
     (case kv of (k, v) \<Rightarrow>
        ''; '' @ strings_ToLower k
        @ (if needsEncoding v then ''*=utf-8'' @ [CHR 0x27, CHR 0x27] @ concat (map attr_char v)
           else if isToken v then ''='' @ v else ''='' @ quoted_value v))"

definition mime_FormatMediaType :: "string \<Rightarrow> (string \<times> string) list \<Rightarrow> string" where
  "mime_FormatMediaType t params =
     (let mt = (case strings_Index t ''/'' of
                    None \<Rightarrow> if isToken t then Some (strings_ToLower t) else None
                  | Some i \<Rightarrow> if isToken (take i t) \<and> isToken (drop (Suc i) t) then Some (strings_ToLower t) else None)
      in case mt of
           None \<Rightarrow> []
         | Some b \<Rightarrow> (if list_all (isToken \<circ> fst) params then b @ concat (map format_attr (sort_key fst params)) else []))"

section \<open>The message\<close>

record emlPart =
  ep_ContentType :: string
  ep_Disposition :: string
  ep_FileName :: string
  ep_ContentID :: string
  ep_Data :: "string option"

record emlMessage =
  em_From :: string
  em_To :: "string list"
  em_Cc :: "string list"
  em_Bcc :: "string list"
  em_Subject :: string
  em_Date :: gotime
  em_MessageID :: string
  em_BodyType :: string
  em_Body :: string
  em_Attachments :: "emlPart list"

definition line_end :: string where "line_end = [CHR 0x0D, CHR 0x0A]"

definition strip_breaks :: "string \<Rightarrow> string" where
  "strip_breaks v = strings_ReplaceAll (strings_ReplaceAll v [CHR 0x0D] []) [CHR 0x0A] []"

definition writeEMLHeader :: "string \<Rightarrow> string \<Rightarrow> string" where
  "writeEMLHeader name value = name @ '': '' @ strip_breaks value @ line_end"

definition isASCIIPrintable :: "string \<Rightarrow> bool" where
  "isASCIIPrintable s = list_all (\<lambda>c. \<not> (of_char c < (32 :: nat) \<or> of_char c > (126 :: nat))) s"

definition encodeHeaderWord :: "string \<Rightarrow> string" where
  "encodeHeaderWord s = (if s = [] \<or> isASCIIPrintable s then s else QEncoding_Encode s)"

function base64_lines :: "string \<Rightarrow> string" where
  "base64_lines enc =
     (if length enc > 76 then take 76 enc @ line_end @ base64_lines (drop 76 enc)
      else if enc \<noteq> [] then enc @ line_end else [])"
  by pat_completeness auto
termination by (relation "measure length") auto

declare base64_lines.simps [simp del]

definition writeBase64Lines :: "string \<Rightarrow> string" where
  "writeBase64Lines data = base64_lines (base64_EncodeToString data)"

text \<open>\<open>t.UTC().Format(time.RFC1123Z)\<close>; day 0 of the calendar is a Monday.\<close>

definition rfc1123z :: "gotime \<Rightarrow> string" where
  "rfc1123z t =
     (let s = (t mod ns_per_day) div ns_per_sec
      in [''Mon'', ''Tue'', ''Wed'', ''Thu'', ''Fri'', ''Sat'', ''Sun''] ! nat (day_of t mod 7) @ '', '' @ pad 2 (time_Day t) @ '' ''
         @ [''Jan'', ''Feb'', ''Mar'', ''Apr'', ''May'', ''Jun'', ''Jul'', ''Aug'', ''Sep'', ''Oct'', ''Nov'', ''Dec''] ! nat (time_Month t - 1)
         @ '' '' @ pad 4 (time_Year t) @ '' '' @ pad 2 (s div 3600) @ '':'' @ pad 2 (s div 60 mod 60) @ '':'' @ pad 2 (s mod 60) @ '' +0000'')"

text \<open>The headers of the message before its content type, in their order.\<close>

definition message_fields :: "emlMessage \<Rightarrow> (string \<times> string) list" where
  "message_fields m =
     [(''MIME-Version'', ''1.0''), (''X-M365Backup-Source'', ''graph-json-fallback'')]
     @ (if em_From m \<noteq> [] then [(''From'', em_From m)] else [])
     @ (if em_To m \<noteq> [] then [(''To'', strings_Join (em_To m) '', '')] else [])
     @ (if em_Cc m \<noteq> [] then [(''Cc'', strings_Join (em_Cc m) '', '')] else [])
     @ (if em_Bcc m \<noteq> [] then [(''Bcc'', strings_Join (em_Bcc m) '', '')] else [])
     @ (if em_Subject m \<noteq> [] then [(''Subject'', encodeHeaderWord (em_Subject m))] else [])
     @ (if em_Date m \<noteq> zero_time then [(''Date'', rfc1123z (em_Date m))] else [])
     @ (if em_MessageID m \<noteq> [] then [(''Message-ID'', em_MessageID m)] else [])"

definition body_type :: "emlMessage \<Rightarrow> string" where
  "body_type m =
     ''text/'' @ (if strings_ToLower (strings_TrimSpace (em_BodyType m)) = ''html'' then ''html'' else ''text'') @ ''; charset=UTF-8''"

type_synonym media_parser = "string \<Rightarrow> (string \<times> (string \<times> string) list) option"

definition part_content_type :: "media_parser \<Rightarrow> emlPart \<Rightarrow> string" where
  "part_content_type parse a =
     (let ct = (if ep_ContentType a = [] then ''application/octet-stream'' else ep_ContentType a)
      in if ep_FileName a = [] then ct
         else (case parse ct of
                 None \<Rightarrow> ct
               | Some (major, params) \<Rightarrow>
                   (let formatted = mime_FormatMediaType major (AList.update ''name'' (ep_FileName a) params)
                    in if formatted \<noteq> [] then formatted else ct)))"

definition part_disposition :: "emlPart \<Rightarrow> string" where
  "part_disposition a =
     (let disp = (if ep_Disposition a = [] then ''attachment'' else ep_Disposition a);
          formatted = mime_FormatMediaType disp (if ep_FileName a \<noteq> [] then [(''filename'', ep_FileName a)] else [])
      in if formatted \<noteq> [] then formatted else disp)"

text \<open>The headers of a part in the order \<open>multipart.Writer\<close> writes them: sorted by their canonical names.\<close>

definition part_fields :: "media_parser \<Rightarrow> emlPart \<Rightarrow> (string \<times> string) list" where
  "part_fields parse a =
     [(''Content-Disposition'', part_disposition a)]
     @ (if ep_ContentID a \<noteq> []
        then [(''Content-Id'', if strings_HasPrefix (ep_ContentID a) ''<'' then ep_ContentID a else ''<'' @ ep_ContentID a @ ''>'')] else [])
     @ [(''Content-Transfer-Encoding'', ''base64''), (''Content-Type'', part_content_type parse a)]"

text \<open>A part as \<open>CreatePart\<close> writes it after the first, and its content.\<close>

definition write_part :: "string \<Rightarrow> (string \<times> string) list \<Rightarrow> string \<Rightarrow> string" where
  "write_part boundary hs data =
     ''--'' @ boundary @ line_end @ concat (map (\<lambda>(k, v). k @ '': '' @ v @ line_end) hs) @ line_end @ writeBase64Lines data"

definition write_parts :: "media_parser \<Rightarrow> string \<Rightarrow> emlMessage \<Rightarrow> string" where
  "write_parts parse boundary m =
     write_part boundary [(''Content-Transfer-Encoding'', ''base64''), (''Content-Type'', body_type m)] (em_Body m)
     @ concat (map (\<lambda>a. line_end @ write_part boundary (part_fields parse a) (ptrStr (ep_Data a))) (em_Attachments m))
     @ line_end @ ''--'' @ boundary @ ''--'' @ line_end"

definition write_fields :: "(string \<times> string) list \<Rightarrow> string" where
  "write_fields fs = concat (map (\<lambda>(k, v). writeEMLHeader k v) fs)"

text \<open>\<open>multipart.NewWriter\<close> draws its boundary from \<open>crypto/rand\<close>, which does not fail.\<close>

definition random_boundary :: "('w fs_world_scheme, string) io" where
  "random_boundary =
     bindE (gets (\<lambda>w. map (\<lambda>i. rand_byte w (rand_pos w + i)) [0..<30])) (\<lambda>b.
     bindE (modify (\<lambda>w. w\<lparr>rand_pos := rand_pos w + 30\<rparr>)) (\<lambda>_. ret (hex_EncodeToString b)))"

definition buildEML :: "media_parser \<Rightarrow> emlMessage \<Rightarrow> ('w fs_world_scheme, string) io" where
  "buildEML parse m =
     (if em_Attachments m = [] then
        ret (write_fields (message_fields m @ [(''Content-Type'', body_type m), (''Content-Transfer-Encoding'', ''base64'')])
             @ line_end @ writeBase64Lines (em_Body m))
      else bindE random_boundary (\<lambda>boundary.
        ret (write_fields (message_fields m @ [(''Content-Type'', ''multipart/mixed; boundary='' @ boundary)])
             @ line_end @ write_parts parse boundary m)))"

section \<open>The message from Graph\<close>

type_synonym mail_recipient = "(string option \<times> string option) option"

record mail_message =
  mm_subject :: "string option"
  mm_internetMessageId :: "string option"
  mm_from :: "mail_recipient option"
  mm_sender :: "mail_recipient option"
  mm_to :: "mail_recipient option list"
  mm_cc :: "mail_recipient option list"
  mm_bcc :: "mail_recipient option list"
  mm_received :: "gotime option"
  mm_sent :: "gotime option"
  mm_body :: "(string option \<times> bool option) option"

record attachment =
  at_id :: "string option"
  at_name :: "string option"
  at_contentType :: "string option"
  at_isInline :: "bool option"
  at_isFile :: bool
  at_contentBytes :: "string option"
  at_contentId :: "string option"
  at_odataType :: "string option"

text \<open>The calls of the SDK for one message; the content type of a body is whether it is HTML.\<close>

record 'w mail_sdk =
  ml_message :: "string \<Rightarrow> string \<Rightarrow> ('w run_world_scheme, mail_message) io"
  ml_attachments :: "string \<Rightarrow> string \<Rightarrow> string option \<Rightarrow> ('w run_world_scheme, attachment page) io"
  ml_ParseMediaType :: media_parser
  ml_Quote :: "string \<Rightarrow> string"

definition recipientString :: "mail_recipient option \<Rightarrow> string" where
  "recipientString r =
     (case r of
        None \<Rightarrow> []
      | Some None \<Rightarrow> []
      | Some (Some (name, address)) \<Rightarrow> formatMailbox (ptrStr name) (ptrStr address))"

definition recipientsStrings :: "mail_recipient option list \<Rightarrow> string list" where
  "recipientsStrings rs = filter (\<lambda>s. s \<noteq> []) (map recipientString rs)"

definition attachmentODataType :: "attachment \<Rightarrow> string" where
  "attachmentODataType a =
     (case at_odataType a of
        Some (c # cs) \<Rightarrow> strings_TrimPrefix (c # cs) ''#microsoft.graph.''
      | _ \<Rightarrow> ''non-file'')"

definition listMessageAttachments ::
  "'w graph_sdk \<Rightarrow> 'w mail_sdk \<Rightarrow> string \<Rightarrow> string \<Rightarrow> string \<Rightarrow> ('w run_world_scheme, attachment list) io" where
  "listMessageAttachments gc ml jobID userID mid =
     bindE (on_ctx jobID (ml_attachments ml userID mid None)) (\<lambda>p.
       read_pages (g_pages gc) (\<lambda>url. on_ctx jobID (ml_attachments ml userID mid (Some url))) (\<lambda>e. e) p)"

definition attachment_url :: "string \<Rightarrow> string \<Rightarrow> string \<Rightarrow> string" where
  "attachment_url userID mid aid =
     ''https://graph.microsoft.com/v1.0/users/'' @ userID @ ''/messages/'' @ mid @ ''/attachments/'' @ aid @ ''/$value''"

definition attachmentToPart ::
  "'w graph_sdk \<Rightarrow> 'w mail_sdk \<Rightarrow> string \<Rightarrow> string \<Rightarrow> string \<Rightarrow> attachment \<Rightarrow> ('w run_world_scheme, emlPart) io" where
  "attachmentToPart gc ml jobID userID mid a =
     (let name = ptrStr (at_name a)
      in if \<not> at_isFile a then
           ret \<lparr>ep_ContentType = ''text/plain; charset=UTF-8'', ep_Disposition = ''attachment'', ep_FileName = name @ ''.skipped.txt'', ep_ContentID = [],
                ep_Data = Some (''['' @ attachmentODataType a @ '' attachment '' @ ml_Quote ml name @ '' not included in JSON fallback]'' @ line_end)\<rparr>
         else
           bindE (if ptrStr (at_contentBytes a) \<noteq> [] then ret (ptrStr (at_contentBytes a))
                  else if ptrStr (at_id a) = [] then throw (Err ''empty content and no attachment id'')
                  else GetBytes gc jobID (attachment_url userID mid (ptrStr (at_id a)))) (\<lambda>data.
             ret \<lparr>ep_ContentType = ptrStr (at_contentType a), ep_Disposition = (if at_isInline a = Some True then ''inline'' else ''attachment''),
                  ep_FileName = name, ep_ContentID = ptrStr (at_contentId a), ep_Data = Some data\<rparr>))"

definition unavailable_part :: "attachment \<Rightarrow> goerr \<Rightarrow> emlPart" where
  "unavailable_part a e =
     \<lparr>ep_ContentType = ''text/plain; charset=UTF-8'', ep_Disposition = ''attachment'',
      ep_FileName = (if ptrStr (at_name a) = [] then ''attachment'' else ptrStr (at_name a)) @ ''.unavailable.txt'', ep_ContentID = [],
      ep_Data = Some (''attachment unavailable: '' @ err_text e @ line_end)\<rparr>"

text \<open>One round of the loop over the attachments: the parts it appends.\<close>

definition attachment_parts ::
  "'w graph_sdk \<Rightarrow> 'w mail_sdk \<Rightarrow> string \<Rightarrow> string \<Rightarrow> string \<Rightarrow> attachment \<Rightarrow> ('w run_world_scheme, emlPart list) io" where
  "attachment_parts gc ml jobID userID mid a =
     attempt (attachmentToPart gc ml jobID userID mid a) (\<lambda>x.
       (let part = (case x of Inr p \<Rightarrow> p | Inl e \<Rightarrow> unavailable_part a e)
        in ret (if ep_Data part = None \<and> ep_FileName part = [] then [] else [part])))"

definition message_date :: "mail_message \<Rightarrow> gotime \<Rightarrow> gotime" where
  "message_date msg now =
     (let d = (case mm_received msg of Some t \<Rightarrow> t | None \<Rightarrow> (case mm_sent msg of Some t \<Rightarrow> t | None \<Rightarrow> zero_time))
      in if d = zero_time then now else d)"

definition message_eml :: "mail_message \<Rightarrow> gotime \<Rightarrow> emlPart list \<Rightarrow> emlMessage" where
  "message_eml msg now atts =
     (let from = recipientString (mm_from msg)
      in \<lparr>em_From = (if from = [] then recipientString (mm_sender msg) else from), em_To = recipientsStrings (mm_to msg),
          em_Cc = recipientsStrings (mm_cc msg), em_Bcc = recipientsStrings (mm_bcc msg), em_Subject = ptrStr (mm_subject msg),
          em_Date = message_date msg now, em_MessageID = ptrStr (mm_internetMessageId msg),
          em_BodyType = (case mm_body msg of Some (_, Some True) \<Rightarrow> ''html'' | _ \<Rightarrow> ''text''),
          em_Body = (case mm_body msg of None \<Rightarrow> [] | Some (content, _) \<Rightarrow> ptrStr content), em_Attachments = atts\<rparr>)"

definition fetchMessageMIMEFallback ::
  "'w graph_sdk \<Rightarrow> 'w mail_sdk \<Rightarrow> string \<Rightarrow> string \<Rightarrow> string \<Rightarrow> ('w run_world_scheme, string) io" where
  "fetchMessageMIMEFallback gc ml jobID userID mid =
     attempt (on_ctx jobID (ml_message ml userID mid)) (\<lambda>x. case x of
       Inl e \<Rightarrow> throw (Wrap ''graph message'' e)
     | Inr msg \<Rightarrow>
         bindE time_Now (\<lambda>now.
         attempt (listMessageAttachments gc ml jobID userID mid) (\<lambda>y. case y of
           Inl e \<Rightarrow> throw (Wrap ''graph attachments'' e)
         | Inr atts \<Rightarrow>
             bindE (map_io (attachment_parts gc ml jobID userID mid) atts) (\<lambda>parts.
               buildEML (ml_ParseMediaType ml) (message_eml msg now parts)))))"

section \<open>What the rest of the program relies on\<close>

definition mail_keeps :: "('w run_world_scheme \<Rightarrow> bool) \<Rightarrow> 'w mail_sdk \<Rightarrow> bool" where
  "mail_keeps P ml = ((\<forall>u m. keeps P (ml_message ml u m)) \<and> (\<forall>u m l. keeps P (ml_attachments ml u m l)))"

lemma keeps_buildEML:
  assumes "\<And>w n. P w \<Longrightarrow> P (w\<lparr>rand_pos := n\<rparr>)"
  shows "keeps P (buildEML parse m)"
  unfolding buildEML_def random_boundary_def by (auto intro!: keeps_rules keeps_modify assms)

lemma fetch_keeps:
  assumes "\<And>w n. P w \<Longrightarrow> P (w\<lparr>rand_pos := n\<rparr>)" "sdk_keeps P gc" "mail_keeps P ml"
  shows "fallback_keeps P (fetchMessageMIMEFallback gc ml jobID)"
  using assms
  unfolding fallback_keeps_def fetchMessageMIMEFallback_def listMessageAttachments_def attachment_parts_def attachmentToPart_def Let_def
  by (auto intro!: keeps_rules keeps_map_io keeps_read_pages keeps_GetBytes keeps_buildEML simp: mail_keeps_def split: sum.split)

end
