(* ===== verification/PST_Props.thy ===== *)
theory PST_Props
  imports PST_Export OneDrive_Props
begin

text \<open>Properties of the export, and its operations on the job table.\<close>

section \<open>The job table\<close>

lemma jobs_only_zip_loop: "jobs_only P \<Longrightarrow> keeps P (zip_loop s mb its es)"
  by (induction its arbitrary: es)
    (auto intro!: keeps_rules jobs_only_basics keeps_blob_ops jobs_only_free split: sum.split)

lemma jobs_only_ZipItems: "jobs_only P \<Longrightarrow> keeps P (ZipItems a s sv mb fo d)"
  unfolding ZipItems_def ListLiveItems_def
  by (auto intro!: keeps_rules jobs_only_basics jobs_only_zip_loop split: option.split)

lemma inv_pst_target: "keeps run_inv (pst_target a cat prog dir n it s)"
  unfolding pst_target_def Let_def
  by (auto intro!: keeps_rules inv_reports inv_SyncJob jobs_only_ZipItems jobs_only_basics run_inv_jobs_only split: sum.split prod.split)

lemma inv_pst_targets: "keeps run_inv (pst_targets a cat prog dir n ts s)"
  by (induction ts arbitrary: s) (auto intro!: keeps_rules inv_pst_target)

lemma inv_pst_finish: "keeps run_inv (pst_finish params i dir s)"
  unfolding pst_finish_def WritePSTManifest_def
  by (auto intro!: keeps_rules inv_now inv_reports jobs_only_basics run_inv_jobs_only split: sum.split)

lemma inv_pst_body: "keeps run_inv (pst_body a t job cat prog)"
  unfolding pst_body_def Let_def HasLiveItems_def countLiveItems_def resolvePSTTargets_def ListMailboxes_def ListFolders_def
    EnsurePSTExportDir_def
  by (auto intro!: keeps_rules inv_now inv_reports inv_pst_targets inv_pst_finish jobs_only_basics run_inv_jobs_only
      split: sum.split prod.split)

lemma inv_PSTExport: "run_inv w \<Longrightarrow> run_inv (snd (PSTExport a gc t job d cat prog w))"
proof -
  assume "run_inv w"
  with inv_pst_body [of a t job cat prog] have "run_inv (snd (pst_body a t job cat prog w))" unfolding keeps_def by blast
  then show ?thesis by (auto simp: PSTExport_def split: prod.split sum.split)
qed

section \<open>Archives\<close>

definition entries_of :: "string \<Rightarrow> Item list \<Rightarrow> (string \<times> string) list" where
  "entries_of mailbox items = map (\<lambda>it. (entry_name mailbox it, it_BlobHash it)) (filter (\<lambda>it. it_BlobHash it \<noteq> []) items)"

lemma zip_loop_quiet:
  assumes "cat_inv s w" "faults w = []"
    "\<forall>it \<in> set items. it_BlobHash it \<noteq> [] \<longrightarrow> blob_view (Blobs s) w (it_BlobHash it) \<noteq> None"
  shows "\<exists>new. zip_loop s mailbox items es w = (Inr (es @ new, None), w) \<and> map (\<lambda>(n, d). (n, Hash d)) new = entries_of mailbox items"
  using assms(3)
proof (induction items arbitrary: es)
  case Nil
  then show ?case by (simp add: ret_def entries_of_def)
next
  case (Cons it items)
  show ?case
  proof (cases "it_BlobHash it = []")
    case False
    then obtain q where q: "blob_view (Blobs s) w (it_BlobHash it) = Some q" using Cons.prems by auto
    have cas: "cas_ok (Blobs s) w" using assms(1) by (simp add: cat_inv_def)
    obtain new where new: "zip_loop s mailbox items (es @ [(entry_name mailbox it, q)]) w = (Inr ((es @ [(entry_name mailbox it, q)]) @ new, None), w)"
      "map (\<lambda>(n, d). (n, Hash d)) new = entries_of mailbox items"
      using Cons.IH [of "es @ [(entry_name mailbox it, q)]"] Cons.prems by auto
    have "zip_loop s mailbox (it # items) es w = (Inr (es @ (entry_name mailbox it, q) # new, None), w)"
      using False new(1) blob_Get_ok [OF cas assms(2) q] assms(2) by (simp add: attempt_def)
    then show ?thesis
      using new(2) False cas_ok_view [OF cas q] by (intro exI [of _ "(entry_name mailbox it, q) # new"]) (simp add: entries_of_def)
  qed (use Cons in \<open>auto simp: entries_of_def\<close>)
qed

lemma zip_not_blob:
  assumes "cat_inv s w" "validHash h"
  shows "bpath (Blobs s) h \<noteq> stem @ ''.zip''"
proof
  assume "bpath (Blobs s) h = stem @ ''.zip''"
  then have "last (bpath (Blobs s) h) = CHR ''p''" by simp
  moreover have "good_root (bs_root (Blobs s))" using assms(1) by (simp add: cat_inv_def cas_ok_def)
  ultimately show False using last_bpath [of "Blobs s", OF _ assms(2)] by (simp add: is_lower_hex_def)
qed

lemma env_put_file [simp]: "faults (put_file p d w) = faults w" "torn (put_file p d w) = torn w"
  by (simp_all add: put_file_def)

text \<open>
  An export holds every mail. An undisturbed \<open>ZipItems\<close> of a mailbox or folder succeeds, and the archive it
  leaves has exactly one entry for every live item with content that the catalog lists there, in the order of
  the listing, under the path of the item below the mailbox and with the content whose hash the catalog has;
  the number of files and bytes it reports are those of the entries.
\<close>

theorem ZipItems_complete:
  assumes "cat_inv s w" "faults w = []" "GuardPath (stem @ ''.zip'') = Inr (stem @ ''.zip'')"
    "ListLiveItems s service mailbox folder w = (Inr items, w)"
  shows "\<exists>es w'. ZipItems archive s service mailbox folder (stem @ ''.zip'') w = (Inr (length es, int (sum_list (map (length \<circ> snd) es))), w')
    \<and> file_at w' (stem @ ''.zip'') = Some (archive es) \<and> map (\<lambda>(n, d). (n, Hash d)) es = entries_of mailbox items"
proof -
  let ?p = "stem @ ''.zip''"
  let ?w1 = "put_file ?p [] w"
  have other: "bpath (Blobs s) h \<noteq> ?p" if "validHash h" for h using zip_not_blob [OF assms(1) that] .
  have inv: "cat_inv s ?w1" using assms(1) by (simp only: cat_inv_other_file [OF other])
  have "blob_view (Blobs s) ?w1 (it_BlobHash it) \<noteq> None" if "it \<in> set items" "it_BlobHash it \<noteq> []" for it
  proof -
    have "\<exists>r \<in> set (catalog_items w). ir_item r = it \<and> ir_tenant r = TenantID s"
      using assms(2,4) that(1) by (auto simp: ListLiveItems_def io_simps live_row_def)
    then show ?thesis
      using assms(1) that(2) by (auto simp: blob_other_file(1) [OF other] cat_inv_def live_ok_def)
  qed
  then obtain es where es: "zip_loop s mailbox items [] ?w1 = (Inr (es, None), ?w1)" "map (\<lambda>(n, d). (n, Hash d)) es = entries_of mailbox items"
    using zip_loop_quiet [OF inv, of items mailbox "[]"] assms(2) by auto
  have "ZipItems archive s service mailbox folder ?p w = (Inr (length es, int (sum_list (map (length \<circ> snd) es))), put_file ?p (archive es) ?w1)"
    using assms(2-4) es(1)
    by (simp add: ZipItems_def GuardPath_def bindE_def from_result_def os_MkdirAll_def os_WriteFile_def attempt_def modify_def ignore_def ret_def)
  then show ?thesis using es(2) by auto
qed

lemma blob_Get_access:
  assumes "cas_ok s w" "faults w = None # fs" "blob_view s w h = Some q"
  shows "blob_Get s h w = (Inr q, w\<lparr>faults := fs\<rparr>)"
proof -
  obtain d where d: "validHash h" "file_at w (bpath s h) = Some d" "open_blob s d = Some q"
    using assms(3) by (auto simp: blob_view_def bind_eq_Some_conv split: if_splits)
  then have "\<not> length d < gcm_NonceSize" by (auto simp: open_blob_def)
  with d assms show ?thesis
    by (simp add: blob_Get_def io_simps access_def os_ReadFile_def blobPath_ok [OF cas_ok_root] open_blob_def)
qed

text \<open>
  An archive that could not be finished counts as exported. When closing the archive fails (its directory is
  written then), \<open>ZipItems\<close> drops the error and reports the files and bytes as if they were there, while the
  file on disk is still the empty one that was created, or holds only the first bytes of the archive.
\<close>

theorem zip_close_error_ignored:
  assumes "cat_inv s w" "faults w = []" "GuardPath (stem @ ''.zip'') = Inr (stem @ ''.zip'')"
    "ListLiveItems s service mailbox folder w = (Inr [it], w)" "blob_view (Blobs s) w (it_BlobHash it) = Some q" "it_BlobHash it \<noteq> []"
  shows "\<exists>w'. ZipItems archive s service mailbox folder (stem @ ''.zip'') (w\<lparr>faults := [None, None, None, None, None, Some e]\<rparr>)
      = (Inr (1, int (length q)), w')
    \<and> file_at w' (stem @ ''.zip'') = Some (case torn w of None \<Rightarrow> [] | Some k \<Rightarrow> take k (archive [(entry_name mailbox it, q)]))"
proof -
  let ?p = "stem @ ''.zip''"
  let ?w1 = "put_file ?p [] w"
  have list: "ListLiveItems s service mailbox folder (w\<lparr>faults := None # fs\<rparr>) = (Inr [it], w\<lparr>faults := fs\<rparr>)" for fs
    using assms(2,4) by (simp add: ListLiveItems_def query_def bindE_def access_def gets_def)
  have put: "put_file ?p [] (w\<lparr>faults := x\<rparr>) = ?w1\<lparr>faults := x\<rparr>" for x by (simp add: put_file_def)
  have other: "bpath (Blobs s) h \<noteq> ?p" if "validHash h" for h using zip_not_blob [OF assms(1) that] .
  have "cas_ok (Blobs s) (?w1\<lparr>faults := x\<rparr>)" "blob_view (Blobs s) (?w1\<lparr>faults := x\<rparr>) (it_BlobHash it) = Some q" for x
    using assms(1,5) by (simp_all add: blob_other_file [OF other] cat_inv_def)
  then have get: "blob_Get (Blobs s) (it_BlobHash it) (?w1\<lparr>faults := None # fs\<rparr>) = (Inr q, ?w1\<lparr>faults := fs\<rparr>)" for fs
    using blob_Get_access [of "Blobs s" "?w1\<lparr>faults := None # fs\<rparr>" fs] by simp
  show ?thesis
    using list get put assms(3,6)
    by (cases "torn w") (simp_all add: ZipItems_def GuardPath_def bindE_def from_result_def os_MkdirAll_def os_WriteFile_def attempt_def modify_def ignore_def
        ret_def access_def gets_def throw_def)
qed

section \<open>Witnesses\<close>

text \<open>A stand-in for the format of the archive.\<close>

definition concat_entries :: "(string \<times> string) list \<Rightarrow> string" where
  "concat_entries es = concat (map (\<lambda>(n, d). n @ [CHR 0x0A] @ d) es)"

lemma demo_listing:
  "ListLiveItems demo_cat ''onedrive'' ''ada'' [] demo_world =
     (Inr [demo_item\<lparr>it_BlobHash := Hash ''hello'', it_Size := 5, it_Deleted := False, it_MTime := 1\<rparr>], demo_world)"
  using demo_world_facts by (simp add: ListLiveItems_def io_simps demo_rows upsert_rows_def live_row_def demo_item_def zero_item_def demo_cat_def)

lemma demo_path: "GuardPath (''/srv/out/ada'' @ ''.zip'') = Inr (''/srv/out/ada'' @ ''.zip'')"
  by code_simp

lemma demo_content: "\<exists>q. blob_view (Blobs demo_cat) demo_world (Hash ''hello'') = Some q"
  using demo_world_facts(1)
  by (auto simp: cat_inv_def live_ok_def demo_rows upsert_rows_def demo_item_def demo_cat_def Hash_not_Nil)

theorem ZipItems_complete_witness:
  "\<exists>es w'. ZipItems concat_entries demo_cat ''onedrive'' ''ada'' [] ''/srv/out/ada.zip'' demo_world
      = (Inr (length es, int (sum_list (map (length \<circ> snd) es))), w')
    \<and> file_at w' ''/srv/out/ada.zip'' = Some (concat_entries es) \<and> map (\<lambda>(n, d). (n, Hash d)) es = [(''a.txt'', Hash ''hello'')]"
proof -
  have "entries_of ''ada'' [demo_item\<lparr>it_BlobHash := Hash ''hello'', it_Size := 5, it_Deleted := False, it_MTime := 1\<rparr>] = [(''a.txt'', Hash ''hello'')]"
    by (simp add: entries_of_def Hash_not_Nil entry_name_def RelPath_def demo_item_def zero_item_def) code_simp
  then show ?thesis
    using ZipItems_complete [OF demo_world_facts(1,2) demo_path demo_listing, of concat_entries] by simp
qed

theorem zip_close_error_ignored_witness:
  "\<exists>n w'. ZipItems concat_entries demo_cat ''onedrive'' ''ada'' [] ''/srv/out/ada.zip'' (demo_world\<lparr>faults := [None, None, None, None, None, Some (Err ''disk full'')]\<rparr>)
      = (Inr (1, n), w') \<and> (\<exists>d. file_at w' ''/srv/out/ada.zip'' = Some d \<and> length d \<le> 3)"
proof -
  obtain q where q: "blob_view (Blobs demo_cat) demo_world (Hash ''hello'') = Some q" using demo_content by blast
  have "jobs_only (\<lambda>w :: cat_world. torn w = Some 3)" by (simp add: jobs_only_def)
  from jobs_only_items(2) [OF this, of demo_cat demo_item "''hello''"] have "torn demo_world = Some 3"
    by (simp add: keeps_def demo_world_def empty_cat_def)
  then show ?thesis
    using zip_close_error_ignored [OF demo_world_facts(1,2) demo_path demo_listing, of q concat_entries "Err ''disk full''"] q
    by (auto simp: Hash_not_Nil)
qed

end
