(* ===== verification/Server.thy ===== *)
theory Server
  imports Eml_Build PST_Props Notification
begin

text \<open>
  The server of \<open>cmd/server/main.go\<close>: a runner with the five services in its registry and the notifier. Its job
  table under every interleaving of jobs, requests and failures, by interpreting the interface \<open>runner_env\<close>.

  What the Graph SDK does inside is not known; it has no access to the state of the program, so a call of it leaves the
  world as it is but for the fault script (\<open>external\<close>).
\<close>

section \<open>Code outside of the program\<close>

definition external :: "('w run_world_scheme, 'a) io \<Rightarrow> ('w run_world_scheme, 'a) io" where
  "external m w = (case m w of (x, w') \<Rightarrow> (x, w\<lparr>faults := faults w'\<rparr>))"

definition external_sdk :: "'w graph_sdk \<Rightarrow> 'w graph_sdk" where
  "external_sdk gc =
     gc\<lparr>g_users := (\<lambda>a b. external (g_users gc a b)), g_userDrive := (\<lambda>a. external (g_userDrive gc a)),
        g_driveDelta := (\<lambda>a b. external (g_driveDelta gc a b)), g_mailFolders := (\<lambda>a b. external (g_mailFolders gc a b)),
        g_childFolders := (\<lambda>a b c. external (g_childFolders gc a b c)), g_mailDelta := (\<lambda>a b c. external (g_mailDelta gc a b c)),
        g_teams := external (g_teams gc), g_channels := (\<lambda>a. external (g_channels gc a)),
        g_messages := (\<lambda>a b. external (g_messages gc a b)), g_sites := external (g_sites gc), g_drive := (\<lambda>a. external (g_drive gc a)),
        g_children := (\<lambda>a. external (g_children gc a)), g_token := external (g_token gc), g_http := (\<lambda>a b. external (g_http gc a b))\<rparr>"

definition external_mail :: "'w mail_sdk \<Rightarrow> 'w mail_sdk" where
  "external_mail ml =
     ml\<lparr>ml_message := (\<lambda>a b. external (ml_message ml a b)), ml_attachments := (\<lambda>a b c. external (ml_attachments ml a b c))\<rparr>"

definition offline_mail :: "'w mail_sdk" where
  "offline_mail =
     \<lparr>ml_message = (\<lambda>_ _. throw (Err ''offline'')), ml_attachments = (\<lambda>_ _ _. throw (Err ''offline'')), ml_ParseMediaType = (\<lambda>_. None),
      ml_Quote = (\<lambda>s. s)\<rparr>"

lemma keeps_external: "fault_free P \<Longrightarrow> keeps P (external m)"
  by (auto simp: keeps_def external_def fault_free_def split: prod.split)

lemma external_sdk_keeps: "fault_free P \<Longrightarrow> sdk_keeps P (external_sdk gc)"
  by (simp add: sdk_keeps_def external_sdk_def keeps_external)

lemma external_mail_keeps: "fault_free P \<Longrightarrow> mail_keeps P (external_mail ml)"
  by (simp add: mail_keeps_def external_mail_def keeps_external)

section \<open>The notifier\<close>

lemma inv_notes: "keeps run_inv (InsertNotificationLog l)" "keeps run_inv (ListNotificationSettings)"
  unfolding InsertNotificationLog_def ListNotificationSettings_def
  by (auto intro!: keeps_rules inv_uuid inv_now keeps_guarded keeps_query inv_free simp: run_inv_def)

lemma inv_http_Do: "keeps run_inv (http_Do rq)"
  unfolding http_Do_def by (auto intro!: keeps_rules keeps_exec inv_free simp: run_inv_def)

lemma inv_senders: "keeps run_inv (sendSMTP c ev)" "keeps run_inv (sendWebhook ch c ev)" "keeps run_inv (sendPushover c ev)"
  unfolding sendSMTP_def sendWebhook_def sendPushover_def smtp_SendMail_def Let_def
  by (auto intro!: keeps_rules inv_http_Do keeps_exec inv_free simp: run_inv_def split: sum.split)

lemma inv_send_loop: "keeps run_inv (send_loop ev sts m)"
  by (induction sts arbitrary: m) (auto intro!: keeps_rules inv_notes inv_senders simp: send_channel_def)

lemma inv_Send: "keeps run_inv (Send s ev)"
  unfolding Send_def by (auto intro!: keeps_rules inv_notes inv_send_loop inv_senders)

section \<open>The runner of the server\<close>

record ('w) server_env =
  se_graph :: "string \<Rightarrow> string \<Rightarrow> string \<Rightarrow> ('w note_world_scheme, 'w note_world_ext graph_sdk) io"
  se_mail :: "'w note_world_ext mail_sdk"
  se_archive :: "(string \<times> string) list \<Rightarrow> string"
  se_isUUID :: "string \<Rightarrow> bool"
  se_codec :: codec
  se_exportTime :: export_clock

definition server_registry ::
  "int \<Rightarrow> ('w) server_env \<Rightarrow> (string \<times> ('w note_world_ext, 'w note_world_ext graph_sdk) ServiceBackup) list" where
  "server_registry workers env =
     NewRegistry
       [(''exchange'', ExchangeBackup workers (\<lambda>gc. fetchMessageMIMEFallback gc (external_mail (se_mail env)))),
        (''onedrive'', OneDriveBackup workers), (''teams'', TeamsBackup), (''sharepoint'', SharePointBackup),
        (''pst'', PSTExport (se_archive env))]"

definition server_runner ::
  "Manager \<Rightarrow> NotifyService \<Rightarrow> string \<Rightarrow> int \<Rightarrow> int \<Rightarrow> int \<Rightarrow> ('w) server_env \<Rightarrow> ('w note_world_ext, 'w note_world_ext graph_sdk) Runner" where
  "server_runner mgr notifier stagingRoot maxConc maxFull workers env =
     SetMaxConcurrentFull maxFull
       (NewRunner mgr (server_registry workers env) (Some (Send notifier)) stagingRoot maxConc
          (\<lambda>a b c. bindE (external (se_graph env a b c)) (\<lambda>gc. ret (external_sdk gc)))
          (se_isUUID env) (se_codec env) (se_exportTime env))"

lemma server_services:
  "rn_Registry (server_runner mgr notifier st mc mf workers env) =
     [(''exchange'', ExchangeBackup workers (\<lambda>gc. fetchMessageMIMEFallback gc (external_mail (se_mail env)))),
      (''onedrive'', OneDriveBackup workers), (''teams'', TeamsBackup), (''sharepoint'', SharePointBackup),
      (''pst'', PSTExport (se_archive env))]"
  by (simp add: server_runner_def SetMaxConcurrentFull_def NewRunner_def server_registry_def NewRegistry_def)

lemma keeps_snd: "keeps P m \<Longrightarrow> P w \<Longrightarrow> P (snd (m w))"
  by (simp add: keeps_def)

lemma server_service_keeps:
  assumes "(name, f) \<in> set (rn_Registry (server_runner mgr notifier st mc mf workers env))" "\<And>c. gc = Some c \<Longrightarrow> sdk_ok c" "run_inv w"
  shows "run_inv (snd (f gc t job d cat p w))"
proof (cases gc)
  case None
  then show ?thesis
    using assms(1,3)
    by (auto simp: server_services ExchangeBackup_def OneDriveBackup_def TeamsBackup_def SharePointBackup_def run_sync_def run_service_def
        inv_PSTExport)
next
  case (Some c)
  have ok: "sdk_ok c" using assms(2) Some by simp
  have fb: "fallback_keeps run_inv (fetchMessageMIMEFallback c (external_mail (se_mail env)) i)" for i
    by (intro fetch_keeps ok external_mail_keeps inv_free) (simp add: run_inv_def)
  have "run_inv (snd (exchange_body workers (fetchMessageMIMEFallback c (external_mail (se_mail env)) (j_ID job)) c t job cat p w))"
    "run_inv (snd (onedrive_body workers c t job cat p w))" "run_inv (snd (teams_body c t job cat p w))"
    "run_inv (snd (sharepoint_body c t job cat p w))"
    by (rule keeps_snd [OF inv_exchange_body [OF ok fb] assms(3)] keeps_snd [OF inv_onedrive_body [OF ok] assms(3)]
        keeps_snd [OF inv_teams_body [OF ok] assms(3)] keeps_snd [OF inv_sharepoint_body [OF ok] assms(3)])+
  then show ?thesis
    using assms(1,3) Some
    by (auto simp: server_services ExchangeBackup_def OneDriveBackup_def TeamsBackup_def SharePointBackup_def run_sync_def run_service_def
        inv_PSTExport split: prod.split sum.split)
qed

lemma server_fields:
  "rn_Notifier (server_runner mgr notifier st mc mf workers env) = Some (Send notifier)"
  "rn_graph (server_runner mgr notifier st mc mf workers env) a b c = bindE (external (se_graph env a b c)) (\<lambda>gc. ret (external_sdk gc))"
  by (simp_all add: server_runner_def SetMaxConcurrentFull_def NewRunner_def)

interpretation server: runner_env "server_runner mgr notifier st mc mf workers env" sdk_ok
proof
  show "keeps run_inv (send ev)" if "rn_Notifier (server_runner mgr notifier st mc mf workers env) = Some send" for send ev
    using that by (auto simp: server_fields inv_Send)
  show "keeps run_inv (rn_graph (server_runner mgr notifier st mc mf workers env) a b c)" for a b c
    by (auto simp: server_fields intro!: keeps_rules keeps_external inv_free)
  show "gives (rn_graph (server_runner mgr notifier st mc mf workers env) a b c) sdk_ok" for a b c
    by (auto simp: server_fields gives_def io_simps external_sdk_keeps inv_free split: prod.splits sum.splits)
qed (rule server_service_keeps)

section \<open>Properties\<close>

text \<open>
  C6: the job table of the server. From a consistent table, after any interleaving of the steps of all jobs, of
  requests to start, cancel and kill jobs and of the passing of time, with any answers and failures of Graph, the
  mail server, the database and the disk: job ids are unique, a tenant and service has at most one job that is
  queued or running, every job is in one of the known states, and a job that has ended has the time of its end.
\<close>

theorem server_job_table:
  assumes "reachable (server_runner mgr notifier st mc mf workers env) w s" "run_inv w"
  shows "distinct (map j_ID (jobs (sy_world s)))
    \<and> distinct (map (\<lambda>j. (j_TenantID j, j_Service j)) (filter active (jobs (sy_world s))))
    \<and> list_all (\<lambda>j. j_Status j \<in> set job_states \<and> (active j \<or> j_FinishedAt j \<noteq> zero_time)) (jobs (sy_world s))"
proof -
  have inv: "run_inv (sy_world s)" by (rule server.reachable_jobs [OF assms])
  then have ids: "distinct (map j_ID (jobs (sy_world s)))" by (simp add: run_inv_def jobs_ok_def)
  have "inj_on (\<lambda>j. (j_TenantID j, j_Service j)) (set (filter active (jobs (sy_world s))))"
  proof (rule inj_onI)
    fix j k
    assume jk: "j \<in> set (filter active (jobs (sy_world s)))" "k \<in> set (filter active (jobs (sy_world s)))"
      "(j_TenantID j, j_Service j) = (j_TenantID k, j_Service k)"
    then have "j_ID j = j_ID k" using inv by (auto simp: run_inv_def jobs_ok_def slot_ok_def)
    then show "j = k" using jk ids by (auto dest: inj_onD [OF iffD1 [OF distinct_map, THEN conjunct2]])
  qed
  moreover have "distinct (jobs (sy_world s))" using ids by (simp add: distinct_map)
  ultimately show ?thesis using inv ids by (auto simp: distinct_map run_inv_def job_wf_def list_all_iff)
qed

section \<open>Witness\<close>

definition demo_env :: "unit server_env" where
  "demo_env =
     \<lparr>se_graph = (\<lambda>_ _ _. throw (Err ''offline'')), se_mail = offline_mail, se_archive = concat_entries,
      se_isUUID = (\<lambda>_. True), se_codec = demo_codec, se_exportTime = \<lparr>ec_Parse = (\<lambda>_. None), ec_ModTime = (\<lambda>_. 0)\<rparr>\<rparr>"

definition demo_server :: "(unit note_world_ext, unit note_world_ext graph_sdk) Runner" where
  "demo_server =
     server_runner demo_manager
       \<lparr>sv_SMTPHost = [], sv_SMTPPort = 0, sv_SMTPUser = [], sv_SMTPPassword = [], sv_SMTPFrom = [], sv_SMTPTo = []\<rparr> ''/stage'' 2 1 3 demo_env"

definition demo_note :: note_world where
  "demo_note =
     \<lparr>faults = [], clock = 1, uuid_src = (\<lambda>n. CHR ''u'' # show_nat n), uuid_next = 0, files = [], torn = None,
      rand_byte = (\<lambda>_. CHR ''r''), rand_pos = 0, tenants = [], schedules = [], jobs = [], job_logs = [], delta_tokens = [],
      catalog_items = [], catalog_snapshots = [], catalog_changes = [], pending = [], seen = [],
      cancels = [], cancelled = [], flocks = [], spawned = [],
      notification_settings = [], notification_log = [], mails = [], requests = [], http_status = (\<lambda>_. 200), http_body = (\<lambda>_. [])\<rparr>"

definition demo_sys :: "(unit note_world_ext, unit note_world_ext graph_sdk) system" where
  "demo_sys = request (EnqueueParams demo_server ''t1'' ''pst'' [] ''export'' []) (start demo_note)"

theorem server_job_table_witness:
  "map j_Status (jobs (sy_world demo_sys)) = [''queued''] \<and> distinct (map j_ID (jobs (sy_world demo_sys)))
    \<and> list_all (\<lambda>j. j_Status j \<in> set job_states \<and> (active j \<or> j_FinishedAt j \<noteq> zero_time)) (jobs (sy_world demo_sys))"
proof -
  have reach: "reachable demo_server demo_note demo_sys"
    unfolding demo_sys_def by (rule reachable.step [OF reachable.init run_step.enqueue])
  have inv: "run_inv demo_note" by (simp add: run_inv_def demo_note_def jobs_ok_def)
  have "map j_Status (jobs (sy_world demo_sys)) = [''queued'']"
    by (simp add: demo_sys_def request_def EnqueueParams_def enqueueLocked_def promote_empty_def CountActiveJobs_def CountActiveFullJobs_def
        CreateJob_def queued_job_def sql_guarded_def io_simps Let_def demo_note_def start_def isGraphBackupService_def GraphBackupServices_def
        active_clash_def)
  then show ?thesis
    using server_job_table [OF reach [unfolded demo_server_def] inv] by simp
qed

end
