(* ===== verification/Server_Ops.thy ===== *)
theory Server_Ops
  imports Server Auth_Props Scheduler
begin

text \<open>
  The properties of the login limit, the guard, the watchdog and the scheduler at a concrete server.
\<close>

section \<open>A server with one user and one schedule\<close>

definition demo_user :: User where
  "demo_user = \<lparr>usr_ID = ''u1'', usr_Username = ''admin'', usr_PasswordHash = ''secret'', usr_CreatedAt = 0, usr_UpdatedAt = 0\<rparr>"

definition demo_schedule :: Schedule where
  "demo_schedule =
     \<lparr>sc_ID = ''s1'', sc_TenantID = ''t1'', sc_Service = ''onedrive'', sc_CronExpr = ''0 2 * * *'', sc_Enabled = True,
      sc_LastRun = 0, sc_NextRun = 0, sc_CreatedAt = 0\<rparr>"

definition demo_ops :: sched_world where
  "demo_ops =
     \<lparr>faults = [], clock = 1, uuid_src = (\<lambda>n. CHR ''u'' # show_nat n), uuid_next = 0, files = [], torn = None,
      rand_byte = (\<lambda>_. CHR ''r''), rand_pos = 0, tenants = [], schedules = [demo_schedule], jobs = [], job_logs = [], delta_tokens = [],
      catalog_items = [], catalog_snapshots = [], catalog_changes = [], pending = [], seen = [],
      cancels = [], cancelled = [], flocks = [], spawned = [],
      notification_settings = [], notification_log = [], mails = [], requests = [], http_status = (\<lambda>_. 200), http_body = (\<lambda>_. []),
      users = [demo_user], api_tokens = [], sessions = [(''cookie'', \<lparr>ses_UserID = ''u1'', ses_Username = ''admin'', ses_Expires = 5\<rparr>)],
      attempts = [], track = [], cron_entries = [(0, ''0 8 * * *'', CheckExpiry)], cron_next = 1, entryIDs = []\<rparr>"

definition demo_bcrypt :: bcrypt where
  "demo_bcrypt = \<lparr>bc_compare = (\<lambda>hash password. hash = password), bc_generate = Inr\<rparr>"

definition demo_request :: "string \<Rightarrow> (string \<times> string) list \<Rightarrow> (string \<times> string) list \<Rightarrow> Auth.request" where
  "demo_request path form cookies =
     \<lparr>r_Method = ''GET'', r_Path = path, r_Params = [], r_Query = [], r_Form = form, r_Body = [], r_Headers = [],
      r_Cookies = cookies, r_RemoteAddr = ''10.0.0.1:80'', r_Host = ''backup'', r_TLS = False\<rparr>"

section \<open>Witnesses\<close>

abbreviation bad_login :: Auth.request where
  "bad_login \<equiv> demo_request ''/login'' [(''username'', ''admin''), (''password'', ''guess'')] []"

lemma demo_login_rejected:
  "failures ''10.0.0.1'' (logins demo_bcrypt [] [(2, bad_login)] demo_ops) = [2]"
proof -
  have ip: "clientIP bad_login = ''10.0.0.1''" "readLoginCredentials bad_login = (''admin'', ''guess'')" by code_simp+
  have trim: "strings_TrimSpace ''admin'' = ''admin''" by code_simp
  show ?thesis
    by (simp add: failures_def handleLogin_def allowLogin_def recordLoginAttempt_def Login_def verifyUser_def GetUserByUsername_def
        query_row_def io_simps Let_def ip trim demo_ops_def attempts_of_def loginMaxAttempts_def CheckPasswordHash_def
        demo_bcrypt_def demo_user_def)
qed


abbreviation demo_page :: "Principal option \<Rightarrow> (sched_world, unit response) io" where
  "demo_page p \<equiv> (case p of Some q \<Rightarrow> ret (Page (p_Username q) ()) | None \<Rightarrow> ret NoContent)"

theorem Middleware_guards_witness:
  "\<exists>w'. Middleware demo_page (demo_request ''/tenants'' [] [(''session'', ''cookie'')]) demo_ops = (Inr (Page ''admin'' ()), w')
     \<and> (\<exists>p w1. authentic (demo_request ''/tenants'' [] [(''session'', ''cookie'')]) p demo_ops
        \<and> allowScope (demo_request ''/tenants'' [] [(''session'', ''cookie'')]) p \<and> same_users demo_ops w1
        \<and> demo_page (Some p) w1 = (Inr (Page ''admin'' ()), w'))"
proof -
  let ?r = "demo_request ''/tenants'' [] [(''session'', ''cookie'')]"
  have guarded: "\<not> public_path (r_Path ?r)" and nobearer: "bearer ?r = None" by code_simp+
  have ck: "map_of (r_Cookies ?r) ''session'' = Some ''cookie''" by (simp add: demo_request_def)
  have valid: "Valid ''cookie'' demo_ops = (Inr (Some \<lparr>p_UserID = ''u1'', p_Username = ''admin'', p_Scope = ''write'', p_Via = ''session''\<rparr>), demo_ops)"
    by (simp add: Valid_def io_simps demo_ops_def)
  have scope: "allowScope ?r \<lparr>p_UserID = u, p_Username = n, p_Scope = ''write'', p_Via = v\<rparr>" for u n v by (simp add: allowScope_def)
  have run: "\<exists>w'. Middleware demo_page ?r demo_ops = (Inr (Page ''admin'' ()), w')"
    using guarded nobearer
    by (simp add: Middleware_def principalFromRequest_def session_principal_def ck valid bindE_def ret_def scope)
  then obtain w' where w': "Middleware demo_page ?r demo_ops = (Inr (Page ''admin'' ()), w')" by blast
  show ?thesis using Middleware_guards [OF guarded w'] w' by auto
qed

abbreviation demo_running :: Job where
  "demo_running \<equiv> (queued_job ''t1'' [] ''teams'' ''delta'' [])\<lparr>j_ID := ''j1'', j_Status := ''running'', j_StartedAt := 1\<rparr>"

theorem watchdog_spares_moving_jobs_witness:
  "watch (NewWatchdog 0 10) [(2, demo_running), (11, demo_running\<lparr>j_StartedAt := 0\<rparr>)] demo_ops
      = [(2, demo_running, False)] @ (11, demo_running\<lparr>j_StartedAt := 0\<rparr>, True) # []
     \<and> visible demo_running = visible (demo_running\<lparr>j_StartedAt := 0\<rparr>)"
proof -
  have w: "watch (NewWatchdog 0 10) [(2, demo_running), (11, demo_running\<lparr>j_StartedAt := 0\<rparr>)] demo_ops
      = [(2, demo_running, False)] @ (11, demo_running\<lparr>j_StartedAt := 0\<rparr>, True) # []"
    by (simp add: evaluate_def initialActivity_def LastJobLogTime_def io_simps Let_def NewWatchdog_def demo_ops_def observed_def
        moved_since_def queued_job_def time_Sub_def max_int64_def)
  have "visible demo_running = visible (demo_running\<lparr>j_StartedAt := 0\<rparr>)"
    by (rule watchdog_spares_moving_jobs [OF _ _ _ _ w, of "''j1''" 2 demo_running False]) (simp_all add: NewWatchdog_def)
  with w show ?thesis by blast
qed

theorem Reload_exact_witness:
  "\<exists>w'. Reload (\<lambda>spec. spec \<noteq> []) demo_ops = (Inr (), w') \<and> sched_inv w' \<and> others w' = others demo_ops \<and> scheduled w' = [demo_schedule]"
proof -
  have "sched_inv demo_ops" by (auto simp: sched_inv_def demo_ops_def)
  moreover obtain w' where run: "Reload (\<lambda>spec. spec \<noteq> []) demo_ops = (Inr (), w')"
    by (simp add: Reload_def ListAllSchedules_def cron_AddFunc_def io_simps demo_ops_def demo_schedule_def)
  ultimately show ?thesis using Reload_exact [OF _ run]
    by (simp add: run) (simp add: demo_ops_def demo_schedule_def)
qed

end
