(* ===== verification/Api_Props.thy ===== *)
theory Api_Props
  imports Api_Isolation Auth_Props Server_Ops
begin

text \<open>
  Properties of the HTTP handlers: the pages of a listing, a page that follows a log, the recovery of the store password,
  the download of exports; and the handlers at a concrete server.
\<close>

section \<open>Pages of a listing\<close>

lemma concat_pages: "concat (map (\<lambda>k. take n (drop (k * n) xs)) [0..<m]) = take (m * n) xs"
proof (induction m)
  case (Suc m)
  have "take (Suc m * n) xs = take (m * n) xs @ take n (drop (m * n) xs)"
    using take_add [of "m * n" n xs] by (simp add: add.commute)
  then show ?case using Suc by simp
qed simp

definition page_count :: "'a list \<Rightarrow> nat" where
  "page_count es = (if es = [] then 1 else (length es + pageSize - 1) div pageSize)"

lemma page_count_pos: "0 < page_count es"
  by (cases es) (auto simp: page_count_def pageSize_def div_greater_zero_iff)

lemma page_count_enough: "length es \<le> page_count es * pageSize" and page_count_tight: "(page_count es - 1) * pageSize \<le> length es"
  by (cases "es = []"; simp add: page_count_def pageSize_def; presburger)+

lemma page_of_eq:
  "page_of n es = (min n (page_count es), page_count es, take pageSize (drop ((min n (page_count es) - 1) * pageSize) es))"
proof -
  have cut: "take (min (a + b) (length es) - min a (length es)) (drop (min a (length es)) es) = take b (drop a es)" for a b
    by (cases "a \<le> length es"; cases "a + b \<le> length es") (simp_all add: min_def)
  show ?thesis unfolding page_of_def Let_def cut by (auto simp: page_count_def)
qed

text \<open>
  Paging loses nothing. The pages of a listing, from the first to the last one, put together are the listing, each
  entry on one page; a number beyond the last page gives the last page, and no page is larger than the page size.
\<close>

theorem pages_cover:
  "concat (map (\<lambda>k. snd (snd (page_of (Suc k) es))) [0..<fst (snd (page_of 1 es))]) = es
    \<and> page_of (fst (snd (page_of 1 es)) + k) es = page_of (fst (snd (page_of 1 es))) es
    \<and> length (snd (snd (page_of k es))) \<le> pageSize"
proof (intro conjI)
  have "map (\<lambda>k. snd (snd (page_of (Suc k) es))) [0..<page_count es] = map (\<lambda>k. take pageSize (drop (k * pageSize) es)) [0..<page_count es]"
    by (auto simp: page_of_eq)
  then have "concat (map (\<lambda>k. snd (snd (page_of (Suc k) es))) [0..<page_count es]) = take (page_count es * pageSize) es"
    by (simp only: concat_pages)
  then show "concat (map (\<lambda>k. snd (snd (page_of (Suc k) es))) [0..<fst (snd (page_of 1 es))]) = es"
    using page_count_enough [of es] by (simp add: page_of_eq)
qed (simp_all add: page_of_eq)

section \<open>Following a log\<close>

lemma milli_below: "time_UnixMilli (UnixMilli t) \<le> t"
  and milli_same: "time_UnixMilli (UnixMilli t) = t \<longleftrightarrow> (t - unix_epoch) mod (ns_per_sec div ms_per_sec) = 0"
proof -
  let ?m = "ns_per_sec div ms_per_sec"
  have "0 < ?m" by (simp add: ns_per_sec_def ms_per_sec_def)
  moreover have "t - unix_epoch = (t - unix_epoch) div ?m * ?m + (t - unix_epoch) mod ?m" by (simp only: div_mult_mod_eq)
  moreover have "time_UnixMilli (UnixMilli t) = unix_epoch + (t - unix_epoch) div ?m * ?m" by (simp add: time_UnixMilli_def UnixMilli_def)
  ultimately show "time_UnixMilli (UnixMilli t) \<le> t" "time_UnixMilli (UnixMilli t) = t \<longleftrightarrow> (t - unix_epoch) mod ?m = 0"
    using pos_mod_sign [of ?m "t - unix_epoch"] by linarith+
qed


section \<open>Recovery of the store password\<close>

text \<open>The password of the form is that of the logged-in user, and the address has tries left.\<close>

definition password_checked :: "'r Server \<Rightarrow> Principal option \<Rightarrow> request \<Rightarrow> 'w usage_world_scheme \<Rightarrow> bool" where
  "password_checked sv p r w =
     (length (recent (clock w) (attempts_of (clientIP r) w)) < loginMaxAttempts
      \<and> (\<exists>q u. p = Some q \<and> u \<in> set (users w) \<and> usr_ID u = p_UserID q
           \<and> CheckPasswordHash (srv_bcrypt sv) (usr_PasswordHash u) (get_value (r_Form r) ''admin_password'')))"

lemma wp_VerifyUserPassword:
  "wp (VerifyUserPassword bc i pass) (\<lambda>x w'. (\<exists>fs. w' = w\<lparr>faults := fs\<rparr>) \<and> (\<exists>b. x = Inr b
     \<and> (b \<longrightarrow> (\<exists>u \<in> set (users w). usr_ID u = i \<and> CheckPasswordHash bc (usr_PasswordHash u) pass)))) w"
proof (cases "i = []")
  case True
  then show ?thesis by (auto simp: VerifyUserPassword_def wp_ret intro!: exI [of _ "faults w"])
next
  case False
  have "wp (GetUser i) (\<lambda>x w'. (\<exists>fs. w' = w\<lparr>faults := fs\<rparr>) \<and> (\<forall>u. x = Inr u \<longrightarrow> u \<in> set (users w) \<and> usr_ID u = i)) w"
    unfolding GetUser_def by (rule wp_query_row) (auto dest!: first_in_table)
  then show ?thesis
    unfolding VerifyUserPassword_def if_not_P [OF False] wp_attempt
    by (rule wp_mono) (auto simp: wp_ret split: sum.split)
qed

lemma wp_allowLogin:
  "wp (allowLogin ip) (\<lambda>x w'. x = Inr (length (recent (clock w) (attempts_of ip w)) < loginMaxAttempts)
     \<and> (\<exists>a. w' = w\<lparr>attempts := a\<rparr>)) w"
  by (auto simp: allowLogin_def wp_simps Let_def recent_def)

lemma wp_GetTenant:
  "wp (GetTenant i) (\<lambda>x w'. (\<exists>fs. w' = w\<lparr>faults := fs\<rparr>) \<and> (\<forall>t. x = Inr t \<longrightarrow> t \<in> set (tenants w) \<and> t_ID t = i)) w"
  unfolding GetTenant_def by (rule wp_query_row) (auto dest!: first_in_table)

text \<open>
  The answers of the recovery page that show nothing secret: errors, and the form again, with the path of the store.
\<close>

definition refusals :: "'w usage_world_scheme \<Rightarrow> view response result set" where
  "refusals w = range (\<lambda>(m, st). Inr (HttpError m st))
     \<union> (\<lambda>t. Inr (Page ''tenant_recovery.html'' (RecoveryView t False (t_StorePath t) None ''recovery.bad_password''))) ` set (tenants w)"

definition sheets :: "'r Server \<Rightarrow> request \<Rightarrow> 'w usage_world_scheme \<Rightarrow> view response result set" where
  "sheets sv r w =
     {x. \<exists>t secret pass. t \<in> set (tenants w) \<and> t_ID t = param r ''id'' \<and> DecryptSecrets (srv_Tenants sv) t = Inr (secret, pass)
        \<and> x \<in> {Inr (Download (''m365backup-recovery-'' @ sanitizeFilePart (t_Name t) @ ''.txt'') (formatRecoverySheet t (t_StorePath t) pass)),
                Inr (Page ''tenant_recovery.html'' (RecoveryView t False (t_StorePath t) (Some pass) []))}}"

text \<open>
  C14: the store password is shown to nobody who cannot give a password. Whatever the request holds and whatever fails, the
  recovery page gives the password of a store only when the form holds the password of the user on whose behalf the
  request comes and the address of the client has tries left; then it is the password of the tenant of the route. In all
  other cases the answer is an error or the form.
\<close>

theorem recovery_needs_password:
  fixes w :: "'w usage_world_scheme"
  shows "fst (handleRecoveryExport sv p r w) \<in> refusals w \<union> {x \<in> sheets sv r w. password_checked sv p r w}"
proof -
  let ?Q = "\<lambda>x w'. x \<in> refusals w \<union> {x \<in> sheets sv r w. password_checked sv p r w}"
  have refuse: "Inr (HttpError m st) \<in> refusals w" for m st by (auto simp: refusals_def)
  define answer where "answer t = (\<lambda>good. if \<not> good then
               bindE (recordLoginAttempt (clientIP r)) (\<lambda>_.
                 ret (Page ''tenant_recovery.html'' (RecoveryView t False (t_StorePath t) None ''recovery.bad_password'')))
             else (case DecryptSecrets (srv_Tenants sv) t of
                 Inl e \<Rightarrow> ret (HttpError ''decrypt failed'' 500)
               | Inr (secret, storePass) \<Rightarrow>
                   (if get_value (r_Form r) ''action'' = ''download'' then
                      ret (Download (''m365backup-recovery-'' @ sanitizeFilePart (t_Name t) @ ''.txt'')
                             (formatRecoverySheet t (t_StorePath t) storePass))
                    else ret (Page ''tenant_recovery.html'' (RecoveryView t False (t_StorePath t) (Some storePass) []))))
             :: ('w usage_world_scheme, view response) io)" for t
  have answer: "wp (answer t good) ?Q w3" if "t \<in> set (tenants w)" "t_ID t = param r ''id''" "good \<longrightarrow> password_checked sv p r w" for t good w3
    using that refuse unfolding answer_def
    by (auto simp: wp_simps recordLoginAttempt_def refusals_def sheets_def split: sum.split prod.split)
  have verify: "wp (bindE (case p of None \<Rightarrow> ret False
       | Some q \<Rightarrow> VerifyUserPassword (srv_bcrypt sv) (p_UserID q) (get_value (r_Form r) ''admin_password'')) (answer t)) ?Q w2"
    if "t \<in> set (tenants w)" "t_ID t = param r ''id''" "users w2 = users w"
      "length (recent (clock w) (attempts_of (clientIP r) w)) < loginMaxAttempts" for t w2
  proof (cases p)
    case None
    then show ?thesis using answer [OF that(1,2)] by (simp add: wp_bindE wp_ret)
  next
    case (Some q)
    have "password_checked sv p r w"
      if "u \<in> set (users w2)" "usr_ID u = p_UserID q"
        "CheckPasswordHash (srv_bcrypt sv) (usr_PasswordHash u) (get_value (r_Form r) ''admin_password'')" for u
      using that \<open>users w2 = users w\<close> Some \<open>length _ < loginMaxAttempts\<close> by (auto simp: password_checked_def)
    then show ?thesis
      unfolding wp_bindE Some option.case using answer [OF that(1,2)]
      by (intro wp_mono [OF wp_VerifyUserPassword]) (auto simp del: Un_iff mem_Collect_eq simp: Some)
  qed
  have limit: "wp (bindE (allowLogin (clientIP r)) (\<lambda>ok. if \<not> ok then ret (HttpError ''too many attempts'' 429)
      else bindE (case p of None \<Rightarrow> ret False
       | Some q \<Rightarrow> VerifyUserPassword (srv_bcrypt sv) (p_UserID q) (get_value (r_Form r) ''admin_password'')) (answer t))) ?Q (w\<lparr>faults := fs\<rparr>)"
    if "t \<in> set (tenants w)" "t_ID t = param r ''id''" for t fs
    unfolding wp_bindE [of "allowLogin i" for i]
    by (rule wp_mono [OF wp_allowLogin]) (use that refuse verify [OF that] in \<open>auto simp: wp_ret attempts_of_def simp del: Un_iff mem_Collect_eq intro!: UnI1\<close>)
  have "wp (handleRecoveryExport sv p r) ?Q w"
    unfolding handleRecoveryExport_def or_http_def wp_attempt answer_def [symmetric] Let_def
    by (rule wp_mono [OF wp_GetTenant]) (use refuse limit in \<open>auto split: sum.split simp: wp_ret not_found_def\<close>)
  then show ?thesis by (simp add: wp_def)
qed

section \<open>Downloads of exports\<close>

text \<open>
  The download of an export serves nothing but files below the directory of the exports of the tenant of the route,
  whatever the names of run and file in the request are.
\<close>

theorem export_download_stays_below:
  "fst (handlePSTExportDownload p r w) \<in> range (\<lambda>(m, st). Inr (HttpError m st))
     \<union> {x. \<exists>t segs. t \<in> set (tenants w) \<and> t_ID t = param r ''id''
          \<and> x = Inr (FileAt (param r ''file'') (render_path (is_rooted (PSTExportRoot (t_StorePath t))) (path_segs (PSTExportRoot (t_StorePath t)) @ segs)))}"
proof -
  let ?Q = "\<lambda>x w'. x \<in> range (\<lambda>(m, st). Inr (HttpError m st))
     \<union> {x. \<exists>t segs. t \<in> set (tenants w) \<and> t_ID t = param r ''id''
          \<and> x = Inr (FileAt (param r ''file'') (render_path (is_rooted (PSTExportRoot (t_StorePath t))) (path_segs (PSTExportRoot (t_StorePath t)) @ segs)))}"
  have err: "?Q (Inr (HttpError m st)) w'" for m st w' by auto
  have serve: "wp (or_http (from_result (GuardPath path)) (\<lambda>_. HttpError m st) (\<lambda>path.
      or_http (os_Stat path) not_found (\<lambda>_. ret (serveGuardedFile (param r ''file'') path)))) ?Q w1"
    if "t \<in> set (tenants w)" "t_ID t = param r ''id''"
      "EnsureSubpath (PSTExportRoot (t_StorePath t)) sub = Inr path" for t sub path m st w1
  proof -
    have "path = render_path (is_rooted (PSTExportRoot (t_StorePath t))) (path_segs (PSTExportRoot (t_StorePath t)) @ path_segs sub)"
      using that(3) by (auto simp: EnsureSubpath_cases split: if_splits)
    then have found: "?Q (Inr (FileAt (param r ''file'') path)) w'" for w' using that(1,2) by blast
    have "wp (os_Stat q) (\<lambda>x. wp (case x of Inl e \<Rightarrow> ret (not_found e) | Inr y \<Rightarrow> ret (serveGuardedFile (param r ''file'') path)) ?Q) w1" for q
      by (rule wpI) (use err found in \<open>auto simp: wp_ret not_found_def serveGuardedFile_def split: sum.split\<close>)
    then show ?thesis
      using err by (auto simp: or_http_def wp_attempt wp_from_result wp_ret split: sum.split)
  qed
  have "wp (handlePSTExportDownload p r) ?Q w"
    unfolding handlePSTExportDownload_def or_http_def [of "GetTenant i" for i] wp_attempt [of "GetTenant i" for i] Let_def
    by (rule wp_mono [OF wp_GetTenant])
      (use err serve in \<open>auto split: sum.split simp: wp_ret not_found_def simp del: Un_iff mem_Collect_eq\<close>)
  then show ?thesis by (simp add: wp_def)
qed

section \<open>A server with two tenants\<close>

definition demo_tenant_of :: "string \<Rightarrow> Tenant" where
  "demo_tenant_of i =
     \<lparr>t_ID = i, t_Name = i, t_AzureTenantID = i, t_ClientID = ''c'', t_ClientSecret = [], t_SecretExpires = 0, t_StorePassword = [],
      t_StorePath = ''/data/'' @ i, t_Status = ''setup'', t_RetentionJSON = [], t_CreatedAt = 0, t_UpdatedAt = 0\<rparr>"

definition demo_job_of :: "string \<Rightarrow> string \<Rightarrow> Job" where
  "demo_job_of i t = (queued_job t [] ''exchange'' ''delta'' [])\<lparr>j_ID := i\<rparr>"

definition demo_line :: JobLog where
  "demo_line = \<lparr>l_ID = ''l1'', l_JobID = ''j1'', l_Level = ''info'', l_Message = ''ready'', l_CreatedAt = unix_epoch + 1500\<rparr>"

definition demo_api :: usage_world where
  "demo_api =
     \<lparr>faults = [], clock = 1, uuid_src = (\<lambda>n. CHR ''u'' # show_nat n), uuid_next = 0, files = [], torn = None,
      rand_byte = (\<lambda>_. CHR ''r''), rand_pos = 0, tenants = map demo_tenant_of [''t1'', ''t2''], schedules = [demo_schedule],
      jobs = [demo_job_of ''j1'' ''t1'', demo_job_of ''j2'' ''t2''], job_logs = [demo_line], delta_tokens = [],
      catalog_items = [], catalog_snapshots = [], catalog_changes = [], pending = [], seen = [],
      cancels = [], cancelled = [], flocks = [], spawned = [],
      notification_settings = [], notification_log = [], mails = [], requests = [], http_status = (\<lambda>_. 200), http_body = (\<lambda>_. []),
      users = [demo_user], api_tokens = [], sessions = [], attempts = [], track = [], cron_entries = [], cron_next = 1, entryIDs = [],
      tenant_usage = [], usage_running = False\<rparr>"

definition api_env where
  "api_env =
     \<lparr>se_graph = (\<lambda>_ _ _. throw (Err ''offline'')), se_mail = offline_mail, se_archive = concat_entries,
      se_isUUID = (\<lambda>_. True), se_codec = demo_codec, se_exportTime = \<lparr>ec_Parse = (\<lambda>_. None), ec_ModTime = (\<lambda>_. 0)\<rparr>\<rparr>"

definition demo_srv where
  "demo_srv =
     (let mail = \<lparr>sv_SMTPHost = [], sv_SMTPPort = 0, sv_SMTPUser = [], sv_SMTPPassword = [], sv_SMTPFrom = [], sv_SMTPTo = []\<rparr>
      in \<lparr>srv_Tenants = demo_manager, srv_Runner = server_runner demo_manager mail ''/stage'' 2 1 3 api_env, srv_MasterKey = ''key'',
          srv_PublicBaseURL = [], srv_StagingRoot = ''/stage'', srv_Notifier = mail, srv_bcrypt = demo_bcrypt, srv_cron_ok = (\<lambda>_. True),
          srv_codec = demo_codec, srv_usage_codec = \<lparr>uj_Marshal = (\<lambda>_. []), uj_Unmarshal = (\<lambda>_. Inl ErrNoRows)\<rparr>,
          srv_num_text = Some, srv_rfc3339 = (\<lambda>_. None), srv_archive = concat_entries\<rparr>)"

lemma demo_keyed: "keyed demo_api"
  by (simp add: keyed_def demo_api_def demo_job_of_def queued_job_def)


text \<open>A state signed under another key.\<close>

theorem consent_needs_state_witness:
  "handleConsentCallback demo_srv None ((demo_request ''/api/consent/callback'' [] [])\<lparr>r_Query := [(''state'', ''forged'')]\<rparr>) demo_api
    = (Inr (HttpError ''invalid state'' 400), demo_api)"
proof -
  let ?r = "(demo_request ''/api/consent/callback'' [] [])\<lparr>r_Query := [(''state'', ''forged'')]\<rparr>"
  have "\<exists>e. VerifyConsentState ''forged'' ''key'' 1 = Inl e" by (simp add: VerifyConsentState_def)
  then show ?thesis
    using consent_needs_state [OF demo_keyed, where r = ?r and sv = demo_srv and p = None] by (auto simp: demo_srv_def demo_api_def get_value_def Let_def)
qed


end
