(* ===== verification/Catalog_Refinement.thy ===== *)
theory Catalog_Refinement
  imports Catalog_Retention
begin

text \<open>
  The catalog as an abstract data type. The abstract state is a map from tenant, service and Graph id to the item;
  every operation on rows is an update of this map. The operations of \<open>internal/catalog/store.go\<close> refine it: an
  undisturbed run of any sequence of them ends in rows that stand for the map the abstract operations give.
\<close>

section \<open>The abstract catalog\<close>

type_synonym items = "string \<Rightarrow> string \<times> string \<Rightarrow> Item option"

definition items_of :: "'w db_world_scheme \<Rightarrow> items" where
  "items_of w t k = item_at t (catalog_items w) k"

text \<open>Replacing the entry of one item of the tenant.\<close>

definition set_item :: "Store \<Rightarrow> string \<times> string \<Rightarrow> Item option \<Rightarrow> items \<Rightarrow> items" where
  "set_item s k x m = m(TenantID s := (m (TenantID s))(k := x))"

text \<open>
  The first name under which an item that has no entry yet was imported; an item found there keeps the place it had
  where the new one has none.
\<close>

definition imported :: "Store \<Rightarrow> Item \<Rightarrow> items \<Rightarrow> string option" where
  "imported s it m =
     (if SkipRematch s \<or> m (TenantID s) (it_Service it, it_GraphItemID it) \<noteq> None then None
      else List.find (\<lambda>alt. m (TenantID s) (it_Service it, alt) \<noteq> None)
             (importAliases (it_Service it) (it_GraphItemID it) (it_Mailbox it) (it_ParentPath it) (it_Name it)))"

definition keep_place :: "Item \<Rightarrow> Item \<Rightarrow> Item" where
  "keep_place it old =
     it\<lparr>it_Mailbox := (if it_Mailbox it = [] then it_Mailbox old else it_Mailbox it),
        it_ParentPath := (if it_ParentPath it = [] then it_ParentPath old else it_ParentPath it),
        it_Name := (if it_Name it = [] then it_Name old else it_Name it)\<rparr>"

definition abs_match :: "Store \<Rightarrow> Item \<Rightarrow> items \<Rightarrow> Item \<times> items" where
  "abs_match s it m =
     (case imported s it m of
        None \<Rightarrow> (it, m)
      | Some alt \<Rightarrow>
          (let old = the (m (TenantID s) (it_Service it, alt))
           in (keep_place it old,
               set_item s (it_Service it, alt) None
                 (set_item s (it_Service it, it_GraphItemID it) (Some (old\<lparr>it_GraphItemID := it_GraphItemID it\<rparr>)) m))))"

definition stored_item :: "gotime \<Rightarrow> Item \<Rightarrow> string \<Rightarrow> Item" where
  "stored_item now it data =
     it\<lparr>it_BlobHash := Hash data, it_Size := int (length data), it_Deleted := False,
        it_MTime := (if it_MTime it = zero_time then now else it_MTime it)\<rparr>"

definition abs_put :: "Store \<Rightarrow> gotime \<Rightarrow> Item \<Rightarrow> string \<Rightarrow> items \<Rightarrow> items" where
  "abs_put s now it data m =
     (case abs_match s (stored_item now it data) m of
        (it2, m') \<Rightarrow> set_item s (it_Service it, it_GraphItemID it) (Some it2) m')"

definition abs_keep :: "Store \<Rightarrow> Item \<Rightarrow> items \<Rightarrow> items" where
  "abs_keep s it m = set_item s (it_Service it, it_GraphItemID it) (Some (it\<lparr>it_Deleted := False\<rparr>)) m"

definition abs_delete :: "Store \<Rightarrow> string \<Rightarrow> string \<Rightarrow> items \<Rightarrow> items" where
  "abs_delete s service i m =
     (let m' = snd (abs_match s (zero_item\<lparr>it_Service := service, it_GraphItemID := i, it_Deleted := True\<rparr>) m)
      in set_item s (service, i) (map_option (\<lambda>it. it\<lparr>it_Deleted := True\<rparr>) (m' (TenantID s) (service, i))) m')"

section \<open>Rows and the map\<close>

lemma items_of_env [simp]:
  "items_of (w\<lparr>faults := a\<rparr>) = items_of w" "items_of (w\<lparr>uuid_next := b\<rparr>) = items_of w"
  by (simp_all add: items_of_def fun_eq_iff)

lemma items_of_cat [simp]: "items_of (w\<lparr>pending := a\<rparr>) = items_of w" "items_of (w\<lparr>seen := b\<rparr>) = items_of w"
  by (simp_all add: items_of_def fun_eq_iff)

lemma items_upsert:
  "items_of (w\<lparr>catalog_items := upsert_rows s it (catalog_items w)\<rparr>)
     = set_item s (it_Service it, it_GraphItemID it) (Some (it\<lparr>it_Deleted := False\<rparr>)) (items_of w)"
  by (auto simp: items_of_def set_item_def fun_eq_iff upsert_rows_item_at)

lemma item_at_marked:
  "item_at t (map (\<lambda>r. if row_is s service i r then r\<lparr>ir_item := (ir_item r)\<lparr>it_Deleted := True\<rparr>\<rparr> else r) rows) k
     = (if t = TenantID s \<and> k = (service, i) then map_option (\<lambda>it. it\<lparr>it_Deleted := True\<rparr>) (item_at t rows k) else item_at t rows k)"
proof -
  have "item_at t (map (\<lambda>r. if row_is s service i r then r\<lparr>ir_item := (ir_item r)\<lparr>it_Deleted := True\<rparr>\<rparr> else r) rows) k
      = map_option (\<lambda>it. if (t, k) = (TenantID s, service, i) then it\<lparr>it_Deleted := True\<rparr> else it) (item_at t rows k)"
    by (rule item_at_map [where g = "\<lambda>key it. if key = (TenantID s, service, i) then it\<lparr>it_Deleted := True\<rparr> else it"])
      (auto simp: row_is_key row_key_def)
  then show ?thesis by (auto simp: option.map_id0 id_def [symmetric])
qed

lemma items_mark:
  "items_of (w\<lparr>catalog_items := map (\<lambda>r. if row_is s service i r then r\<lparr>ir_item := (ir_item r)\<lparr>it_Deleted := True\<rparr>\<rparr> else r) (catalog_items w)\<rparr>)
     = set_item s (service, i) (map_option (\<lambda>it. it\<lparr>it_Deleted := True\<rparr>) (items_of w (TenantID s) (service, i))) (items_of w)"
  by (auto simp: items_of_def set_item_def fun_eq_iff item_at_marked)

lemma item_at_rename:
  assumes "item_at (TenantID s) rows (service, i) = None" "alt \<noteq> i"
  shows "item_at t (map (\<lambda>r. if row_is s service alt r then r\<lparr>ir_item := (ir_item r)\<lparr>it_GraphItemID := i\<rparr>\<rparr> else r) rows) k
     = (if t = TenantID s \<and> k = (service, i) then map_option (\<lambda>it. it\<lparr>it_GraphItemID := i\<rparr>) (item_at (TenantID s) rows (service, alt))
        else if t = TenantID s \<and> k = (service, alt) then None else item_at t rows k)"
  using assms by (induction rows) (auto simp: item_at_def row_is_key row_key_def split: if_splits)

lemma getItem_run:
  assumes "faults w = []"
  shows "getItem s service i w = (case items_of w (TenantID s) (service, i) of None \<Rightarrow> Inl ErrNoRows | Some it \<Rightarrow> Inr it, w)"
proof (cases "filter (row_is s service i) (catalog_items w)")
  case Nil
  then have "items_of w (TenantID s) (service, i) = None" by (simp add: items_of_def flip: filter_row)
  then show ?thesis using assms Nil by (simp add: getItem_def query_row_def io_simps)
next
  case (Cons r rs)
  then show ?thesis
    using assms filter_row_hd [OF Cons] by (simp add: getItem_def query_row_def io_simps items_of_def)
qed

lemma rematch_loop_run:
  assumes "faults w = []" "items_of w (TenantID s) (it_Service it, it_GraphItemID it) = None"
  shows "\<exists>w'. rematch_loop s it alts w =
      (Inr (case List.find (\<lambda>alt. items_of w (TenantID s) (it_Service it, alt) \<noteq> None) alts of
              None \<Rightarrow> it | Some alt \<Rightarrow> keep_place it (the (items_of w (TenantID s) (it_Service it, alt)))), w')
    \<and> faults w' = [] \<and> items_of w' =
      (case List.find (\<lambda>alt. items_of w (TenantID s) (it_Service it, alt) \<noteq> None) alts of
         None \<Rightarrow> items_of w
       | Some alt \<Rightarrow>
           set_item s (it_Service it, alt) None (set_item s (it_Service it, it_GraphItemID it)
             (Some ((the (items_of w (TenantID s) (it_Service it, alt)))\<lparr>it_GraphItemID := it_GraphItemID it\<rparr>)) (items_of w)))"
proof (induction alts)
  case Nil
  show ?case using assms by (simp add: io_simps)
next
  case (Cons alt alts)
  show ?case
  proof (cases "items_of w (TenantID s) (it_Service it, alt)")
    case None
    then show ?thesis using Cons by (simp add: io_simps getItem_run [OF assms(1)])
  next
    case (Some old)
    then have ne: "alt \<noteq> it_GraphItemID it" using assms(2) by auto
    have free: "\<not> list_ex (row_is s (it_Service it) (it_GraphItemID it)) (catalog_items w)"
      using assms(2) list_ex_row [of s] by (simp add: items_of_def)
    let ?w = "w\<lparr>catalog_items := map (\<lambda>r. if row_is s (it_Service it) alt r
        then r\<lparr>ir_item := (ir_item r)\<lparr>it_GraphItemID := it_GraphItemID it\<rparr>\<rparr> else r) (catalog_items w)\<rparr>"
    have "rename_row s (it_Service it) alt (it_GraphItemID it) w = (Inr (), ?w)"
      using assms(1) free by (simp add: rename_row_def sql_guarded_def io_simps)
    moreover have "items_of ?w = set_item s (it_Service it, alt) None (set_item s (it_Service it, it_GraphItemID it)
             (Some (old\<lparr>it_GraphItemID := it_GraphItemID it\<rparr>)) (items_of w))"
      using Some ne item_at_rename [of s "catalog_items w" "it_Service it" "it_GraphItemID it" alt] assms(2)
      by (auto simp: items_of_def set_item_def fun_eq_iff)
    ultimately show ?thesis
      using Some assms(1) by (simp add: io_simps getItem_run [OF assms(1)] Let_def keep_place_def)
  qed
qed

lemma rematchID_run:
  assumes "faults w = []"
  shows "\<exists>w'. rematchID s it w = (Inr (fst (abs_match s it (items_of w))), w') \<and> faults w' = [] \<and> items_of w' = snd (abs_match s it (items_of w))"
proof (cases "SkipRematch s \<or> items_of w (TenantID s) (it_Service it, it_GraphItemID it) \<noteq> None")
  case True
  then show ?thesis using assms by (auto simp: rematchID_def abs_match_def imported_def io_simps getItem_run)
next
  case False
  then have free: "items_of w (TenantID s) (it_Service it, it_GraphItemID it) = None" by simp
  let ?alts = "importAliases (it_Service it) (it_GraphItemID it) (it_Mailbox it) (it_ParentPath it) (it_Name it)"
  have "rematchID s it w = rematch_loop s it ?alts w"
    using False assms by (simp add: rematchID_def io_simps getItem_run)
  then show ?thesis
    using rematch_loop_run [OF assms free, of ?alts] False
    by (auto simp: abs_match_def imported_def Let_def split: option.split)
qed

section \<open>Each operation\<close>

lemma notePending_run: "\<exists>w'. notePending s op it w = (Inr (), w') \<and> faults w' = faults w \<and> items_of w' = items_of w"
  by (simp add: notePending_def io_simps)

lemma upsert_note_run:
  assumes "faults w = []"
  shows "\<exists>w'. bindE (upsertItem s it) (\<lambda>_. notePending s op it) w = (Inr (), w') \<and> faults w' = []
    \<and> items_of w' = set_item s (it_Service it, it_GraphItemID it) (Some (it\<lparr>it_Deleted := False\<rparr>)) (items_of w)"
proof -
  let ?w = "w\<lparr>uuid_next := Suc (uuid_next w), catalog_items := upsert_rows s it (catalog_items w)\<rparr>"
  have "upsertItem s it w = (Inr (), ?w)" using assms by (simp add: upsertItem_def io_simps)
  moreover have "items_of ?w = set_item s (it_Service it, it_GraphItemID it) (Some (it\<lparr>it_Deleted := False\<rparr>)) (items_of w)"
    using items_upsert [of s it "w\<lparr>uuid_next := Suc (uuid_next w)\<rparr>"] by simp
  ultimately show ?thesis using notePending_run [of s op it ?w] assms by (auto simp: bindE_def)
qed

lemma abs_match_fields:
  "it_Service (fst (abs_match s it m)) = it_Service it" "it_GraphItemID (fst (abs_match s it m)) = it_GraphItemID it"
  "it_Deleted (fst (abs_match s it m)) = it_Deleted it"
  by (auto simp: abs_match_def keep_place_def Let_def split: option.split)

lemma Put_refines:
  assumes cas: "cas_ok (Blobs s) w" and "faults w = []" "it_Service it \<noteq> []" "it_GraphItemID it \<noteq> []"
  shows "\<exists>w'. Put s it d w = (Inr (), w') \<and> faults w' = [] \<and> items_of w' = abs_put s (clock w) it d (items_of w)"
proof -
  obtain w1 where w1: "blob_Put (Blobs s) d w = (Inr (Hash d), w1)" "faults w1 = []"
    using blob_Put_ok(1,2) [OF cas assms(2), of d] by (metis prod.collapse)
  have same: "catalog_items w1 = catalog_items w" "clock w1 = clock w"
    using keepsD [OF keeps_blob_ops(1) [of "\<lambda>v. catalog_items v = catalog_items w"] _ w1(1)]
      keepsD [OF keeps_blob_ops(1) [of "\<lambda>v. clock v = clock w"] _ w1(1)] by (simp_all add: disk_free_def)
  then have items: "items_of w1 = items_of w" by (simp add: items_of_def fun_eq_iff)
  let ?it = "stored_item (clock w) it d"
  let ?p = "abs_match s ?it (items_of w)"
  obtain w2 where w2: "rematchID s ?it w1 = (Inr (fst ?p), w2)" "faults w2 = []" "items_of w2 = snd ?p"
    using rematchID_run [OF w1(2), of s ?it] items by auto
  obtain w3 where w3: "bindE (upsertItem s (fst ?p)) (\<lambda>_. notePending s OpUpsert (fst ?p)) w2 = (Inr (), w3)" "faults w3 = []"
    "items_of w3 = set_item s (it_Service it, it_GraphItemID it) (Some ((fst ?p)\<lparr>it_Deleted := False\<rparr>)) (snd ?p)"
    using upsert_note_run [OF w2(2), of s "fst ?p" OpUpsert] w2(3) by (auto simp: abs_match_fields stored_item_def)
  have live: "(fst ?p)\<lparr>it_Deleted := False\<rparr> = fst ?p" using abs_match_fields(3) [of s ?it "items_of w"] by (simp add: stored_item_def)
  have "Put s it d w = bindE (upsertItem s (fst ?p)) (\<lambda>_. notePending s OpUpsert (fst ?p)) w2"
    using assms(3,4) w1 w2(1) same
    by (simp add: Put_def bindE_def [of "blob_Put _ _"] bindE_def [of "gets clock"] bindE_def [of "rematchID _ _"] time_Now_def gets_def Let_def
        flip: stored_item_def split del: if_split)
  then show ?thesis using w3 live by (auto simp: abs_put_def split: prod.split)
qed

lemma Keep_refines:
  assumes "faults w = []" "it_Service it \<noteq> []" "it_GraphItemID it \<noteq> []" "it_BlobHash it \<noteq> []"
  shows "\<exists>w'. Keep s it w = (Inr (), w') \<and> faults w' = [] \<and> items_of w' = abs_keep s it (items_of w)"
  using upsert_note_run [OF assms(1), of s "it\<lparr>it_Deleted := False\<rparr>" OpUpsert] assms(2-4)
  by (auto simp: Keep_def abs_keep_def Let_def)

lemma Delete_refines:
  assumes "faults w = []" "service \<noteq> []" "i \<noteq> []"
  shows "\<exists>w'. Delete s service i w = (Inr (), w') \<and> faults w' = [] \<and> items_of w' = abs_delete s service i (items_of w)"
proof -
  let ?it = "zero_item\<lparr>it_Service := service, it_GraphItemID := i, it_Deleted := True\<rparr>"
  let ?p = "abs_match s ?it (items_of w)"
  obtain w1 where w1: "rematchID s ?it w = (Inr (fst ?p), w1)" "faults w1 = []" "items_of w1 = snd ?p"
    using rematchID_run [OF assms(1), of s ?it] by auto
  have id: "it_GraphItemID (fst ?p) = i" by (simp add: abs_match_fields)
  let ?w = "w1\<lparr>catalog_items := map (\<lambda>r. if row_is s service i r then r\<lparr>ir_item := (ir_item r)\<lparr>it_Deleted := True\<rparr>\<rparr> else r) (catalog_items w1)\<rparr>"
  have mark: "markDeleted s service i w1 = (Inr (), ?w)" using w1(2) by (simp add: markDeleted_def io_simps)
  obtain it1 where run: "Delete s service i w = bindE (markDeleted s service (it_GraphItemID it1)) (\<lambda>_. notePending s OpDelete it1) w1"
    and it1: "it_GraphItemID it1 = i"
  proof (cases "items_of w1 (TenantID s) (service, i)")
    case None
    then show thesis
      using that [of "fst ?p"] assms(2,3) w1 id by (simp add: Delete_def bindE_def attempt_def getItem_run [OF w1(2)] Let_def)
  next
    case (Some old)
    have "it_GraphItemID old = i"
      using Some map_of_SomeD by (fastforce simp: items_of_def item_at_def row_key_def)
    then show thesis
      using that [of "old\<lparr>it_Deleted := True\<rparr>"] assms(2,3) w1 id Some
      by (simp add: Delete_def bindE_def attempt_def getItem_run [OF w1(2)] Let_def)
  qed
  obtain w2 where "notePending s OpDelete it1 ?w = (Inr (), w2)" "faults w2 = faults ?w" "items_of w2 = items_of ?w"
    using notePending_run by blast
  then show ?thesis
    using run mark it1 w1 items_mark [of s service i w1] by (auto simp: bindE_def abs_delete_def Let_def)
qed

section \<open>Sequences\<close>

datatype row_op = RPut Item string | RKeep Item | RDelete string string

fun run_op :: "Store \<Rightarrow> row_op \<Rightarrow> ('w cat_world_scheme, unit) io" where
  "run_op s (RPut it d) = Put s it d"
| "run_op s (RKeep it) = Keep s it"
| "run_op s (RDelete service i) = Delete s service i"

fun abs_op :: "Store \<Rightarrow> gotime \<Rightarrow> row_op \<Rightarrow> items \<Rightarrow> items" where
  "abs_op s now (RPut it d) = abs_put s now it d"
| "abs_op s now (RKeep it) = abs_keep s it"
| "abs_op s now (RDelete service i) = abs_delete s service i"

text \<open>The arguments the operations do not refuse.\<close>

fun op_ok :: "row_op \<Rightarrow> bool" where
  "op_ok (RPut it d) = (it_Service it \<noteq> [] \<and> it_GraphItemID it \<noteq> [])"
| "op_ok (RKeep it) = (it_Service it \<noteq> [] \<and> it_GraphItemID it \<noteq> [] \<and> it_BlobHash it \<noteq> [])"
| "op_ok (RDelete service i) = (service \<noteq> [] \<and> i \<noteq> [])"

fun run_ops :: "Store \<Rightarrow> row_op list \<Rightarrow> ('w cat_world_scheme, unit) io" where
  "run_ops s [] = ret ()"
| "run_ops s (op # ops) = bindE (run_op s op) (\<lambda>_. run_ops s ops)"

fun abs_ops :: "Store \<Rightarrow> gotime \<Rightarrow> row_op list \<Rightarrow> items \<Rightarrow> items" where
  "abs_ops s now [] m = m"
| "abs_ops s now (op # ops) m = abs_ops s now ops (abs_op s now op m)"

text \<open>The operations on rows touch neither the files nor the clock.\<close>

abbreviation at_clock :: "gotime \<Rightarrow> 'w io_env_scheme \<Rightarrow> bool" where
  "at_clock c w \<equiv> clock w = c"

lemma free_clock: "fault_free (at_clock c)" by (simp add: fault_free_def)

lemma clock_rename [keeps_rules]: "keeps (at_clock c) (rename_row s service alt i)"
  unfolding rename_row_def by (auto intro!: keeps_guarded free_clock)

lemma clock_rematch_loop [keeps_rules]: "keeps (at_clock c) (rematch_loop s it alts)"
  by (induction alts) (auto intro!: keeps_rules keeps_getItem keeps_exec free_clock simp: Let_def split: sum.split)

lemma clock_rematchID [keeps_rules]: "keeps (at_clock c) (rematchID s it)"
  unfolding rematchID_def by (auto intro!: keeps_rules keeps_getItem free_clock split: sum.split)

lemma clock_notePending [keeps_rules]: "keeps (at_clock c) (notePending s op it)"
  unfolding notePending_def by (auto intro!: keeps_rules keeps_modify)

lemma clock_upsertItem [keeps_rules]: "keeps (at_clock c) (upsertItem s it)"
  unfolding upsertItem_def by (auto intro!: keeps_rules keeps_uuid keeps_exec free_clock)

lemma clock_ops: "keeps (at_clock c) (run_op s op)"
  by (cases op)
    (auto simp: Put_def Keep_def Delete_def markDeleted_def time_Now_def Let_def disk_free_def
      intro!: keeps_rules keeps_blob_ops keeps_exec keeps_getItem free_clock split: sum.split)

lemma files_Delete: "keeps (on_files R) (Delete s service i)"
  unfolding Delete_def markDeleted_def Let_def
  by (auto intro!: keeps_rules keeps_exec keeps_getItem fault_free_files split: sum.split)

lemma keeps_cas:
  fixes m :: "('w fs_world_scheme, 'a) io"
  assumes "\<And>R. keeps (on_files R) m"
  shows "keeps (cas_ok b) m"
proof (rule keepsI)
  fix w :: "'w fs_world_scheme"
  assume "cas_ok b w"
  moreover have "file_at (snd (m w)) = file_at w"
    using assms [of "\<lambda>f. f = file_at w"] by (simp add: keeps_def)
  ultimately show "cas_ok b (snd (m w))" using cas_ok_cong [of "snd (m w)" w b] by simp
qed

lemma cas_Put: "keeps (cas_ok (Blobs s)) (Put s it d)"
proof -
  have "keeps (cas_ok (Blobs s)) (blob_Put (Blobs s) d)"
    by (rule keeps_wp, rule wp_mono [OF blobs.put_keeps]) auto
  then show ?thesis
    unfolding Put_def Let_def time_Now_def
    by (auto intro!: keeps_rules keeps_cas [of "rematchID _ _"] keeps_cas [of "upsertItem _ _"] keeps_cas [of "notePending _ _ _"])
qed

lemma cas_ops: "keeps (cas_ok (Blobs s)) (run_op s op)"
proof (cases op)
  case (RPut it d)
  then show ?thesis by (simp add: cas_Put)
next
  case (RKeep it)
  then show ?thesis
    by (auto simp: Keep_def Let_def intro!: keeps_rules keeps_cas [of "upsertItem _ _"] keeps_cas [of "notePending _ _ _"])
next
  case (RDelete service i)
  then show ?thesis by (auto intro: keeps_cas files_Delete)
qed

lemma op_refines:
  assumes "cas_ok (Blobs s) w" "faults w = []" "op_ok op"
  shows "\<exists>w'. run_op s op w = (Inr (), w') \<and> faults w' = [] \<and> items_of w' = abs_op s (clock w) op (items_of w)
    \<and> clock w' = clock w \<and> cas_ok (Blobs s) w'"
proof -
  have "\<exists>w'. run_op s op w = (Inr (), w') \<and> faults w' = [] \<and> items_of w' = abs_op s (clock w) op (items_of w)"
    using assms by (cases op) (auto intro: Put_refines Keep_refines Delete_refines)
  then show ?thesis using keepsD [OF clock_ops [of "clock w"]] keepsD [OF cas_ops assms(1)] by fastforce
qed

text \<open>
  C16: the catalog refines the map. From a consistent store of contents, an undisturbed run of any sequence of \<open>Put\<close>,
  \<open>Keep\<close> and \<open>Delete\<close> whose arguments the operations do not refuse succeeds, and the rows it leaves stand for exactly
  the map that the abstract operations give on the map the rows stood for before; in particular no item of another
  tenant changes, and an imported item is replaced by the one that has its Graph id.
\<close>

theorem catalog_refines_map:
  assumes "cas_ok (Blobs s) w" "faults w = []" "list_all op_ok ops"
  shows "\<exists>w'. run_ops s ops w = (Inr (), w') \<and> items_of w' = abs_ops s (clock w) ops (items_of w)"
proof -
  have "\<exists>w'. run_ops s ops w = (Inr (), w') \<and> items_of w' = abs_ops s now ops (items_of w)" if "clock w = now" for now
    using assms that
  proof (induction ops arbitrary: w)
    case Nil
    then show ?case by (simp add: ret_def)
  next
    case (Cons op ops)
    obtain w1 where w1: "run_op s op w = (Inr (), w1)" "faults w1 = []" "items_of w1 = abs_op s now op (items_of w)"
      "clock w1 = now" "cas_ok (Blobs s) w1"
      using op_refines [OF Cons.prems(1,2), of op] Cons.prems(3,4) by auto
    from Cons.IH [OF w1(5,2) _ w1(4)] Cons.prems(3) show ?case using w1 by (auto simp: bindE_def)
  qed
  then show ?thesis by blast
qed

text \<open>An item that is stored and then deleted stays in the map, marked as deleted.\<close>

theorem catalog_refines_map_witness:
  "\<exists>w'. run_ops demo_cat [RPut demo_item ''hello'', RDelete ''onedrive'' ''g1''] empty_cat = (Inr (), w')
     \<and> map_option it_Deleted (items_of w' ''t1'' (''onedrive'', ''g1'')) = Some True"
proof -
  have "cas_ok (Blobs demo_cat) empty_cat" "faults empty_cat = []" using demo_cat_inv by (simp_all add: cat_inv_def empty_cat_def)
  from catalog_refines_map [OF this, of "[RPut demo_item ''hello'', RDelete ''onedrive'' ''g1'']"]
  show ?thesis
    by (simp add: demo_item_def abs_put_def abs_delete_def abs_match_def imported_def set_item_def demo_cat_def stored_item_def zero_item_def Let_def)
      (auto simp: demo_cat_def)
qed

end
