(* ===== verification/Eml_Props.thy ===== *)
theory Eml_Props
  imports Eml_Build
begin

text \<open>
  Properties of the reconstructed messages. A reader of mail, written here as the reference, splits a text into lines, the
  lines into a head and a body, and a multipart body into its parts; what it reads back is compared with what was built.
\<close>

section \<open>A reader of messages\<close>

definition drop_cr :: "string \<Rightarrow> string" where
  "drop_cr l = (if l \<noteq> [] \<and> last l = CHR 0x0D then butlast l else l)"

definition mime_lines :: "string \<Rightarrow> string list" where
  "mime_lines s = map drop_cr (butlast (strings_Split (CHR 0x0A) s))"

definition read_field :: "string \<Rightarrow> string \<times> string" where
  "read_field l = (takeWhile (\<lambda>c. c \<noteq> CHR '':'') l, drop 2 (dropWhile (\<lambda>c. c \<noteq> CHR '':'') l))"

definition read_head :: "string list \<Rightarrow> (string \<times> string) list \<times> string list" where
  "read_head ls = (map read_field (takeWhile (\<lambda>l. l \<noteq> []) ls), tl (dropWhile (\<lambda>l. l \<noteq> []) ls))"

text \<open>The parts between the boundary lines, the preamble first; what follows the closing line is not read.\<close>

fun mime_parts :: "string \<Rightarrow> string list \<Rightarrow> string list \<Rightarrow> string list list" where
  "mime_parts b part [] = []"
| "mime_parts b part (l # ls) =
     (if l = ''--'' @ b @ ''--'' then [part]
      else if l = ''--'' @ b then part # mime_parts b [] ls
      else mime_parts b (part @ [l]) ls)"

definition read_part :: "string list \<Rightarrow> (string \<times> string) list \<times> string option" where
  "read_part ls = (case read_head ls of (hs, rest) \<Rightarrow> (hs, base64_DecodeString (concat rest)))"

definition multipart :: string where "multipart = ''multipart/mixed; boundary=''"

definition read_eml :: "string \<Rightarrow> (string \<times> string) list \<times> ((string \<times> string) list \<times> string option) list" where
  "read_eml s =
     (case read_head (mime_lines s) of (hs, rest) \<Rightarrow>
        (hs, case map_of hs ''Content-Type'' of
               Some v \<Rightarrow> (if strings_HasPrefix v multipart then map read_part (tl (mime_parts (drop (length multipart) v) [] rest))
                          else [([], base64_DecodeString (concat rest))])
             | None \<Rightarrow> []))"

section \<open>Lines\<close>

definition unlines :: "string list \<Rightarrow> string" where
  "unlines ls = concat (map (\<lambda>l. l @ line_end) ls)"

lemma unlines_append: "unlines (xs @ ys) = unlines xs @ unlines ys"
  by (simp add: unlines_def)

definition no_lf :: "string \<Rightarrow> bool" where
  "no_lf s = (CHR 0x0A \<notin> set s)"

lemma no_lf_append [simp]: "no_lf (a @ b) = (no_lf a \<and> no_lf b)"
  by (auto simp: no_lf_def)

lemma no_lf_Cons [simp]: "no_lf []" "no_lf (c # s) = (c \<noteq> CHR 0x0A \<and> no_lf s)"
  by (auto simp: no_lf_def)

lemma mime_lines_unlines: "list_all no_lf ls \<Longrightarrow> mime_lines (unlines ls) = ls"
proof (induction ls)
  case Nil
  then show ?case by (simp add: mime_lines_def unlines_def)
next
  case (Cons l ls)
  have "unlines (l # ls) = (l @ [CHR 0x0D]) @ CHR 0x0A # unlines ls" by (simp add: unlines_def line_end_def)
  then have "strings_Split (CHR 0x0A) (unlines (l # ls)) = (l @ [CHR 0x0D]) # strings_Split (CHR 0x0A) (unlines ls)"
    using Cons.prems by (simp only: Split_append_sep) (simp add: Split_no_sep no_lf_def)
  with Cons show ?case by (simp add: mime_lines_def drop_cr_def)
qed

lemma ReplaceAll_drop: "strings_ReplaceAll s [c] [] = filter (\<lambda>x. x \<noteq> c) s"
  by (induction s) (auto simp: strings_ReplaceAll.simps)

lemma strip_breaks_eq: "strip_breaks v = filter (\<lambda>c. c \<noteq> CHR 0x0D \<and> c \<noteq> CHR 0x0A) v"
  by (simp add: strip_breaks_def ReplaceAll_drop conj_commute)

lemma no_lf_strip [simp]: "no_lf (strip_breaks v)"
  by (simp add: no_lf_def strip_breaks_eq)

definition field_line :: "string \<times> string \<Rightarrow> string" where
  "field_line kv = fst kv @ '': '' @ snd kv"

lemma read_field_line: "CHR '':'' \<notin> set k \<Longrightarrow> read_field (field_line (k, v)) = (k, v)"
  by (auto simp: read_field_def field_line_def takeWhile_append dropWhile_append)

definition names_ok :: "(string \<times> string) list \<Rightarrow> bool" where
  "names_ok fs = list_all (\<lambda>k. k \<noteq> [] \<and> hd k \<noteq> CHR ''-'' \<and> CHR '':'' \<notin> set k \<and> no_lf k) (map fst fs)"

lemma read_head_fields:
  assumes "names_ok fs"
  shows "read_head (map field_line fs @ [] # rest) = (fs, rest)"
proof -
  have ne: "l \<noteq> []" if "l \<in> set (map field_line fs)" for l
    using that by (auto simp: field_line_def)
  have "map read_field (map field_line fs) = fs"
    using assms by (induction fs) (auto simp: names_ok_def read_field_line)
  moreover have "takeWhile (\<lambda>l. l \<noteq> []) (map field_line fs @ [] # rest) = map field_line fs"
    "dropWhile (\<lambda>l. l \<noteq> []) (map field_line fs @ [] # rest) = [] # rest"
    using ne by (subst takeWhile_append2 dropWhile_append2; auto)+
  ultimately show ?thesis by (simp add: read_head_def)
qed

lemma write_fields_lines: "write_fields fs = unlines (map field_line (map (apsnd strip_breaks) fs))"
  by (induction fs) (auto simp: write_fields_def unlines_def field_line_def writeEMLHeader_def)

section \<open>Base64\<close>

function line_chunks :: "string \<Rightarrow> string list" where
  "line_chunks enc =
     (if length enc > 76 then take 76 enc # line_chunks (drop 76 enc) else if enc \<noteq> [] then [enc] else [])"
  by pat_completeness auto
termination by (relation "measure length") auto

declare line_chunks.simps [simp del]

lemma base64_lines_unlines: "base64_lines enc = unlines (line_chunks enc)"
  by (induction enc rule: line_chunks.induct, subst base64_lines.simps, subst line_chunks.simps) (auto simp: unlines_def)

lemma concat_chunks: "concat (line_chunks enc) = enc"
  by (induction enc rule: line_chunks.induct, subst line_chunks.simps) auto

lemma chunk_chars: "l \<in> set (line_chunks enc) \<Longrightarrow> set l \<subseteq> set enc"
  using arg_cong [OF concat_chunks [of enc], of set] by auto

lemma chunk_length: "l \<in> set (line_chunks enc) \<Longrightarrow> l \<noteq> [] \<and> length l \<le> 76"
  by (induction enc rule: line_chunks.induct) (erule rev_mp, subst line_chunks.simps, auto)

lemma base64_alphabet: "set (base64_EncodeToString s) \<subseteq> insert (CHR ''='') (set b64_alphabet)"
  by (induction s rule: base64_EncodeToString.induct) (auto simp: b64_chr_mem)

lemma base64_chars: "CHR ''-'' \<notin> set (base64_EncodeToString s)" "CHR 0x0A \<notin> set (base64_EncodeToString s)"
  using base64_alphabet [of s] by (auto simp: b64_alphabet_def)

section \<open>Parts\<close>

definition content_lines :: "(string \<times> string) list \<Rightarrow> string \<Rightarrow> string list" where
  "content_lines hs data = map field_line hs @ [] # line_chunks (base64_EncodeToString data)"

definition part_lines :: "string \<Rightarrow> (string \<times> string) list \<times> string \<Rightarrow> string list" where
  "part_lines b p = (''--'' @ b) # content_lines (fst p) (snd p)"

definition inner :: "string \<Rightarrow> bool" where
  "inner l = (\<not> strings_HasPrefix l ''--'')"

lemma boundary_not_inner [simp]: "\<not> inner (CHR ''-'' # CHR ''-'' # b)"
  by (simp add: inner_def strings_HasPrefix_def)

lemma write_part_lines: "write_part b hs data = unlines (part_lines b (hs, data))"
proof -
  have "concat (map (\<lambda>(k, v). k @ '': '' @ v @ line_end) hs) = unlines (map field_line hs)"
    by (induction hs) (auto simp: unlines_def field_line_def)
  then show ?thesis
    by (simp add: write_part_def part_lines_def content_lines_def writeBase64Lines_def base64_lines_unlines unlines_append) (simp add: unlines_def)
qed

lemma field_inner: "names_ok hs \<Longrightarrow> kv \<in> set hs \<Longrightarrow> inner (field_line kv)"
  by (cases "fst kv") (auto simp: names_ok_def inner_def field_line_def strings_HasPrefix_def list_all_iff)

lemma content_inner: "names_ok hs \<Longrightarrow> \<forall>l \<in> set (content_lines hs data). inner l"
  using base64_chars(1) [of data] field_inner
  by (auto simp: content_lines_def inner_def strings_HasPrefix_def take_Cons' dest!: chunk_chars) (metis in_set_takeD list.set_intros(1) subsetD)

lemma field_no_lf: "names_ok hs \<Longrightarrow> list_all (no_lf \<circ> snd) hs \<Longrightarrow> list_all (no_lf \<circ> field_line) hs"
  by (auto simp: names_ok_def field_line_def list_all_iff)

lemma content_no_lf:
  assumes "names_ok hs" "list_all (no_lf \<circ> snd) hs"
  shows "list_all no_lf (content_lines hs data)"
  using field_no_lf [OF assms] base64_chars(2) [of data]
  by (auto simp: content_lines_def list_all_iff no_lf_def dest!: chunk_chars)

lemma mime_parts_inner: "\<forall>l \<in> set ls. inner l \<Longrightarrow> mime_parts b cur (ls @ rest) = mime_parts b (cur @ ls) rest"
  by (induction ls arbitrary: cur) auto

lemma mime_parts_list:
  assumes "\<And>hs d. (hs, d) \<in> set ps \<Longrightarrow> names_ok hs"
  shows "mime_parts b cur (concat (map (\<lambda>p. [] # part_lines b p) ps) @ [[], ''--'' @ b @ ''--'']) =
     (cur @ [[]]) # map (\<lambda>(hs, d). content_lines hs d @ [[]]) ps"
  using assms
proof (induction ps arbitrary: cur)
  case Nil
  then show ?case by simp
next
  case (Cons p ps)
  obtain hs d where p: "p = (hs, d)" by fastforce
  have "names_ok hs" using Cons.prems p by auto
  then have "mime_parts b [] (content_lines hs d @ rest) = mime_parts b (content_lines hs d) rest" for rest
    using mime_parts_inner [OF content_inner, of hs b "[]"] by simp
  moreover have "mime_parts b cur (concat (map (\<lambda>p. [] # part_lines b p) ps) @ [[], ''--'' @ b @ ''--'']) =
     (cur @ [[]]) # map (\<lambda>(hs, d). content_lines hs d @ [[]]) ps" for cur
    using Cons.IH Cons.prems by auto
  ultimately show ?case by (simp add: p part_lines_def)
qed

lemma read_part_content: "names_ok hs \<Longrightarrow> read_part (content_lines hs d @ [[]]) = (hs, Some d)"
  by (simp add: read_part_def content_lines_def read_head_fields concat_chunks)

section \<open>Media types have no line breaks\<close>

lemma no_lf_codes: "no_lf s = (\<forall>c \<in> set s. (of_char c :: nat) \<noteq> 10)"
proof -
  have "c = CHR 0x0A" if "(of_char c :: nat) = 10" for c :: char
  proof (rule of_char_eq_iff [where 'a = nat, THEN iffD1])
    show "(of_char c :: nat) = of_char (CHR 0x0A)" using that by simp
  qed
  then show ?thesis by (auto simp: no_lf_def)
qed

lemma upper_hex_code: "n < 16 \<Longrightarrow> (of_char (upper_hex n) :: nat) = (if n < 10 then 48 + n else 55 + n)"
  by (simp add: upper_hex_def)

lemma no_lf_ToLower: "no_lf s \<Longrightarrow> no_lf (strings_ToLower s)"
  by (auto simp: no_lf_codes strings_ToLower_def ascii_lower_def)

lemma no_lf_token: "isToken s \<Longrightarrow> no_lf s"
  by (auto simp: isToken_def no_lf_codes list_all_iff)

lemma no_lf_plain: "\<not> needsEncoding s \<Longrightarrow> no_lf s"
  by (auto simp: needsEncoding_def no_lf_codes list_ex_iff tab_def)

lemma no_lf_attr: "no_lf (concat (map attr_char s))"
proof -
  have "(of_char (upper_hex (of_char c div 16)) :: nat) \<noteq> 10" "(of_char (upper_hex (of_char c mod 16)) :: nat) \<noteq> 10" for c :: char
    using b64_pieces(2,5) [of c] by (simp_all add: upper_hex_code)
  then have "no_lf (attr_char c)" for c by (simp add: no_lf_codes attr_char_def)
  then show ?thesis by (induction s) auto
qed

lemma no_lf_quoted: "no_lf v \<Longrightarrow> no_lf (quoted_value v)"
  by (auto simp: no_lf_codes quoted_value_def)

lemma no_lf_format_attr: "isToken (fst kv) \<Longrightarrow> no_lf (format_attr kv)"
  by (cases kv) (auto simp: format_attr_def no_lf_attr no_lf_token no_lf_ToLower no_lf_plain no_lf_quoted)

lemma Index_slash: "strings_Index t [c] = Some i \<Longrightarrow> t = take i t @ [c] @ drop (Suc i) t"
  by (induction t arbitrary: i) (auto split: if_splits simp: strings_HasPrefix_def)

lemma no_lf_media: "no_lf (mime_FormatMediaType t params)"
proof -
  have attrs: "no_lf (concat (map format_attr kvs))" if "list_all (isToken \<circ> fst) kvs" for kvs
    using that no_lf_format_attr by (induction kvs) (auto simp: no_lf_def)
  have token: "no_lf t" if "strings_Index t ''/'' = Some i" "isToken (take i t)" "isToken (drop (Suc i) t)" for i
  proof -
    have "t = take i t @ ''/'' @ drop (Suc i) t" using that(1) by (rule Index_slash)
    then have "no_lf t = (no_lf (take i t) \<and> no_lf ''/'' \<and> no_lf (drop (Suc i) t))" by (metis no_lf_append)
    then show ?thesis using that(2,3) no_lf_token by (auto simp: no_lf_def)
  qed
  show ?thesis
    using token attrs [of "sort_key fst params"]
    by (auto simp: mime_FormatMediaType_def no_lf_ToLower no_lf_token list_all_iff no_lf_def [of "[]"] split: option.split)
qed

section \<open>What is built can be read\<close>

definition clean_part :: "emlPart \<Rightarrow> bool" where
  "clean_part a = (no_lf (ep_ContentType a) \<and> no_lf (ep_Disposition a) \<and> no_lf (ep_ContentID a))"

definition body_fields :: "emlMessage \<Rightarrow> (string \<times> string) list" where
  "body_fields m = [(''Content-Transfer-Encoding'', ''base64''), (''Content-Type'', body_type m)]"

lemma names_ok_fields: "names_ok (message_fields m)" "names_ok (part_fields parse a)" "names_ok (body_fields m)"
  by (simp_all add: names_ok_def message_fields_def part_fields_def body_fields_def)

lemma names_ok_list: "names_ok (xs @ ys) = (names_ok xs \<and> names_ok ys)" "names_ok (map (apsnd f) xs) = names_ok xs"
  by (auto simp: names_ok_def list_all_iff)

lemma no_lf_body_type: "no_lf (body_type m)"
  by (simp add: body_type_def)

lemma no_lf_part: "clean_part a \<Longrightarrow> list_all (no_lf \<circ> snd) (part_fields parse a)"
  by (auto simp: clean_part_def part_fields_def part_disposition_def part_content_type_def Let_def no_lf_media split: option.split)

definition eml_parts :: "media_parser \<Rightarrow> emlMessage \<Rightarrow> ((string \<times> string) list \<times> string) list" where
  "eml_parts parse m = (body_fields m, em_Body m) # map (\<lambda>a. (part_fields parse a, ptrStr (ep_Data a))) (em_Attachments m)"

lemma write_parts_lines:
  "write_parts parse b m =
     unlines (part_lines b (hd (eml_parts parse m)) @ concat (map (\<lambda>p. [] # part_lines b p) (tl (eml_parts parse m))) @ [[], ''--'' @ b @ ''--''])"
proof -
  have "concat (map (\<lambda>a. line_end @ write_part b (part_fields parse a) (ptrStr (ep_Data a))) as) =
      unlines (concat (map (\<lambda>p. [] # part_lines b p) (map (\<lambda>a. (part_fields parse a, ptrStr (ep_Data a))) as)))" for as
    by (induction as) (simp_all add: write_part_lines unlines_append, simp_all add: unlines_def)
  then show ?thesis
    by (simp add: write_parts_def write_part_lines eml_parts_def body_fields_def unlines_append) (simp add: unlines_def)
qed

lemma read_head_written:
  assumes "names_ok fs" "list_all no_lf rest"
  shows "read_head (mime_lines (write_fields fs @ line_end @ unlines rest)) = (map (apsnd strip_breaks) fs, rest)"
proof -
  let ?fs = "map (apsnd strip_breaks) fs"
  have ok: "names_ok ?fs" using assms(1) by (simp add: names_ok_list)
  have "list_all (no_lf \<circ> snd) ?fs" by (induction fs) auto
  then have "list_all no_lf (map field_line ?fs)" using field_no_lf [OF ok] by (simp add: list_all_iff)
  then have "mime_lines (unlines (map field_line ?fs @ [] # rest)) = map field_line ?fs @ [] # rest"
    using assms(2) by (intro mime_lines_unlines) simp
  moreover have "write_fields fs @ line_end @ unlines rest = unlines (map field_line ?fs @ [] # rest)"
    by (simp add: write_fields_lines unlines_append) (simp add: unlines_def)
  ultimately show ?thesis using read_head_fields [OF ok] by simp
qed

lemma content_type_field:
  "map_of (map (apsnd strip_breaks) (message_fields m @ (''Content-Type'', v) # fs)) ''Content-Type'' = Some (strip_breaks v)"
proof -
  have "''Content-Type'' \<notin> fst ` set (map (apsnd strip_breaks) (message_fields m))"
    by (auto simp: message_fields_def split: if_splits)
  then show ?thesis by (simp add: map_add_def map_of_eq_None_iff [THEN iffD2])
qed

lemma strip_id: "no_lf s \<Longrightarrow> CHR 0x0D \<notin> set s \<Longrightarrow> strip_breaks s = s"
  by (simp add: strip_breaks_eq no_lf_def filter_id_conv) metis

lemma hex_plain: "no_lf (hex_EncodeToString s)" "CHR 0x0D \<notin> set (hex_EncodeToString s)"
  using hex_lower [of "CHR 0x0A" s] hex_lower [of "CHR 0x0D" s] by (auto simp: no_lf_def is_lower_hex_def)

lemma read_single:
  assumes "em_Attachments m = []"
  shows "\<exists>eml. buildEML parse m w = (Inr eml, w) \<and>
     read_eml eml = (map (apsnd strip_breaks) (message_fields m @ [(''Content-Type'', body_type m), (''Content-Transfer-Encoding'', ''base64'')]),
       [([], Some (em_Body m))])"
proof -
  let ?fs = "message_fields m @ [(''Content-Type'', body_type m), (''Content-Transfer-Encoding'', ''base64'')]"
  let ?rest = "line_chunks (base64_EncodeToString (em_Body m))"
  have "names_ok ?fs" using names_ok_fields(1) by (simp add: names_ok_list) (simp add: names_ok_def)
  moreover have "list_all no_lf ?rest" using base64_chars(2) by (auto simp: list_all_iff no_lf_def dest!: chunk_chars)
  ultimately have "read_head (mime_lines (write_fields ?fs @ line_end @ unlines ?rest)) = (map (apsnd strip_breaks) ?fs, ?rest)"
    by (rule read_head_written)
  moreover have "\<not> strings_HasPrefix (strip_breaks (body_type m)) multipart"
    by (simp add: body_type_def strip_id multipart_def strings_HasPrefix_def)
  ultimately show ?thesis
    using assms content_type_field
    by (simp add: buildEML_def ret_def writeBase64Lines_def base64_lines_unlines read_eml_def concat_chunks del: map_append)
qed

lemma read_multi:
  assumes "em_Attachments m \<noteq> []" "list_all clean_part (em_Attachments m)" "no_lf b" "CHR 0x0D \<notin> set b"
  shows "read_eml (write_fields (message_fields m @ [(''Content-Type'', multipart @ b)]) @ line_end @ write_parts parse b m) =
     (map (apsnd strip_breaks) (message_fields m @ [(''Content-Type'', multipart @ b)]), map (apsnd Some) (eml_parts parse m))"
proof -
  let ?fs = "message_fields m @ [(''Content-Type'', multipart @ b)]"
  let ?ps = "tl (eml_parts parse m)" and ?p = "hd (eml_parts parse m)"
  let ?rest = "part_lines b ?p @ concat (map (\<lambda>p. [] # part_lines b p) ?ps) @ [[], ''--'' @ b @ ''--'']"
  have ok: "names_ok hs" if "(hs, d) \<in> set (eml_parts parse m)" for hs d
    using that names_ok_fields by (auto simp: eml_parts_def)
  have part: "list_all no_lf (part_lines b p)" if "p \<in> set (eml_parts parse m)" for p
    using that assms(2,3) content_no_lf [OF names_ok_fields(2) no_lf_part] content_no_lf [OF names_ok_fields(3)] no_lf_body_type
    by (auto simp: eml_parts_def part_lines_def body_fields_def list_all_iff)
  have "names_ok ?fs" using names_ok_fields(1) by (simp add: names_ok_list) (simp add: names_ok_def)
  moreover have "list_all no_lf ?rest"
    using part assms(3) by (auto simp: list_all_iff eml_parts_def)
  ultimately have hd: "read_head (mime_lines (write_fields ?fs @ line_end @ unlines ?rest)) = (map (apsnd strip_breaks) ?fs, ?rest)"
    by (rule read_head_written)
  have ct: "strip_breaks (multipart @ b) = multipart @ b" using assms(3,4) by (intro strip_id) (auto simp: multipart_def)
  have "mime_parts b [] ?rest = [] # map (\<lambda>(hs, d). content_lines hs d @ [[]]) (?p # ?ps)"
  proof -
    have "mime_parts b [] ?rest = [] # mime_parts b (content_lines (fst ?p) (snd ?p)) (concat (map (\<lambda>p. [] # part_lines b p) ?ps) @ [[], ''--'' @ b @ ''--''])"
      using mime_parts_inner [OF content_inner, of "fst ?p" b "[]"] names_ok_fields(3) by (simp add: part_lines_def eml_parts_def)
    moreover have "mime_parts b cur (concat (map (\<lambda>p. [] # part_lines b p) ?ps) @ [[], ''--'' @ b @ ''--'']) =
        (cur @ [[]]) # map (\<lambda>(hs, d). content_lines hs d @ [[]]) ?ps" for cur
      by (rule mime_parts_list) (use ok in \<open>auto simp: eml_parts_def\<close>)
    ultimately show ?thesis by (simp add: case_prod_beta)
  qed
  moreover have "?p # ?ps = eml_parts parse m" by (simp add: eml_parts_def)
  moreover have "map read_part (map (\<lambda>(hs, d). content_lines hs d @ [[]]) (eml_parts parse m)) = map (apsnd Some) (eml_parts parse m)"
    using ok by (auto simp: read_part_content)
  ultimately show ?thesis
    using hd content_type_field [of m "multipart @ b" "[]"] ct
    by (simp add: read_eml_def write_parts_lines strings_HasPrefix_def del: map_append)
qed

lemma buildEML_reads:
  assumes "list_all clean_part (em_Attachments m)"
  shows "\<exists>eml w' ct. buildEML parse m w = (Inr eml, w') \<and>
     fst (read_eml eml) = map (apsnd strip_breaks) (message_fields m) @ ct \<and>
     map fst ct = (if em_Attachments m = [] then [''Content-Type'', ''Content-Transfer-Encoding''] else [''Content-Type'']) \<and>
     tl (map fst (snd (read_eml eml))) = map (part_fields parse) (em_Attachments m) \<and>
     map snd (snd (read_eml eml)) = Some (em_Body m) # map (\<lambda>a. Some (ptrStr (ep_Data a))) (em_Attachments m)"
proof (cases "em_Attachments m = []")
  case True
  show ?thesis using read_single [OF True, of parse w] True by fastforce
next
  case False
  define b where "b = hex_EncodeToString (map (\<lambda>i. rand_byte w (rand_pos w + i)) [0..<30])"
  let ?eml = "write_fields (message_fields m @ [(''Content-Type'', multipart @ b)]) @ line_end @ write_parts parse b m"
  have "buildEML parse m w = (Inr ?eml, w\<lparr>rand_pos := rand_pos w + 30\<rparr>)"
    using False by (simp add: buildEML_def random_boundary_def bindE_def gets_def modify_def ret_def multipart_def b_def)
  moreover have "read_eml ?eml = (map (apsnd strip_breaks) (message_fields m @ [(''Content-Type'', multipart @ b)]), map (apsnd Some) (eml_parts parse m))"
    using read_multi [OF False assms] hex_plain by (simp add: b_def)
  ultimately show ?thesis
    using False by (intro exI [of _ ?eml] exI [of _ "w\<lparr>rand_pos := rand_pos w + 30\<rparr>"] exI) (auto simp: eml_parts_def comp_def)
qed


section \<open>Subjects\<close>

lemma qDecode_append: "qDecode a = Some x \<Longrightarrow> qDecode (a @ b) = map_option (append x) (qDecode b)"
proof (induction a arbitrary: x rule: qDecode.induct)
  case 1
  then show ?case by (cases "qDecode b") auto
next
  case (2 c cs)
  have "(@) (a # z) = (\<lambda>x. a # z @ x)" for a :: char and z by (simp add: fun_eq_iff)
  with 2 show ?case by (auto split: if_splits list.splits option.splits simp: option.map_comp comp_def)
qed

lemma from_hex_upper: "n < 16 \<Longrightarrow> from_hex (upper_hex n) = Some n"
  by (simp add: from_hex_def upper_hex_def Let_def)

lemma qDecode_char: "qDecode (writeQString [c]) = Some [c]"
proof -
  have "of_char c div 16 * 16 + of_char c mod 16 = (of_char c :: nat)" by (rule div_mult_mod_eq)
  then show ?thesis
    using b64_pieces(2,5) [of c] by (auto simp: writeQString_def q_plain_def from_hex_upper)
qed

lemma writeQString_Cons: "writeQString (c # s) = writeQString [c] @ writeQString s"
  by (simp add: writeQString_def)

lemma qDecode_write: "qDecode (writeQString s) = Some s"
proof (induction s)
  case (Cons c s)
  then show ?case using qDecode_append [OF qDecode_char, of c "writeQString s"] by (simp add: writeQString_Cons [of c s])
qed (simp add: writeQString_def)

lemma write_no_question: "CHR ''?'' \<notin> set (writeQString s)"
proof (induction s)
  case (Cons c s)
  have hex: "CHR ''?'' \<noteq> upper_hex n" if "n < 16" for n
  proof
    assume "CHR ''?'' = upper_hex n"
    then have "(of_char (upper_hex n) :: nat) = of_char (CHR ''?'')" by simp
    then show False using upper_hex_code [OF that] that by (simp split: if_splits)
  qed
  have "CHR ''?'' \<notin> set (writeQString [c])"
    using hex [OF b64_pieces(2) [of c]] hex [OF b64_pieces(5) [of c]] by (auto simp: writeQString_def q_plain_def)
  with Cons show ?case by (simp add: writeQString_Cons [of c s])
qed (simp add: writeQString_def)

lemma Index_end: "CHR ''?'' \<notin> set t \<Longrightarrow> strings_Index (t @ ''?='' @ rest) ''?='' = Some (length t)"
  by (induction t) (auto simp: strings_HasPrefix_def)

lemma decode_word:
  assumes "CHR ''?'' \<notin> set t" "qDecode t = Some x" "(bt, sp) = (False, []) \<or> (bt, sp) = (True, '' '')"
  shows "decode_words bt (sp @ openWord (CHR ''q'') @ t @ ''?='' @ rest) = map_option (append x) (decode_words True rest)"
proof -
  let ?h = "openWord (CHR ''q'') @ t @ ''?='' @ rest"
  have word: "encoded_word ?h = Some (''utf-8'', CHR ''q'', t, rest)"
    using Index_end [OF assms(1), of rest] by (simp add: encoded_word_def openWord_def strings_HasPrefix_def)
  have "strings_Index (sp @ ?h) ''=?'' = Some (length sp)"
    using assms(3) by (auto simp: openWord_def strings_HasPrefix_def)
  moreover have "bt \<and> list_all mail_blank (take (length sp) (sp @ ?h)) \<or> sp = []" using assms(3) by (auto simp: mail_blank_def)
  moreover have "word_decode (CHR ''q'') t = Some x" "word_convert ''utf-8'' x = Some x"
    using assms(2) by (simp_all add: word_decode_def word_convert_def strings_EqualFold_def)
  ultimately show ?thesis
    using word by (subst decode_words.simps) (cases "decode_words True rest"; auto)
qed

lemma qEncode_step:
  "\<exists>n. qEncode cur (r # rs) = splitWord (CHR ''q'') @ writeQString r @ qEncode n rs \<or> qEncode cur (r # rs) = writeQString r @ qEncode n rs"
  by (simp only: qEncode.simps Let_def split: if_split) blast

lemma decode_chunks:
  assumes "CHR ''?'' \<notin> set t" "qDecode t = Some x" "(bt, sp) = (False, []) \<or> (bt, sp) = (True, '' '')"
  shows "decode_words bt (sp @ openWord (CHR ''q'') @ t @ qEncode cur rs @ ''?='') = Some (x @ concat rs)"
  using assms
proof (induction rs arbitrary: t x bt sp cur)
  case Nil
  have "decode_words True [] = Some []" by (subst decode_words.simps) simp
  then show ?case using decode_word [OF Nil, of "[]"] by simp
next
  case (Cons r rs)
  obtain n where n: "qEncode cur (r # rs) = splitWord (CHR ''q'') @ writeQString r @ qEncode n rs
      \<or> qEncode cur (r # rs) = writeQString r @ qEncode n rs"
    using qEncode_step by blast
  then show ?case
  proof
    assume split: "qEncode cur (r # rs) = splitWord (CHR ''q'') @ writeQString r @ qEncode n rs"
    have "decode_words True ('' '' @ openWord (CHR ''q'') @ writeQString r @ qEncode n rs @ ''?='') = Some (r @ concat rs)"
      by (rule Cons.IH) (simp_all add: write_no_question qDecode_write)
    then show ?thesis
      using decode_word [OF Cons.prems, of "'' '' @ openWord (CHR ''q'') @ writeQString r @ qEncode n rs @ ''?=''"]
      by (simp add: split splitWord_def del: qEncode.simps(2))
  next
    assume same: "qEncode cur (r # rs) = writeQString r @ qEncode n rs"
    have "decode_words bt (sp @ openWord (CHR ''q'') @ (t @ writeQString r) @ qEncode n rs @ ''?='') = Some ((x @ r) @ concat rs)"
      by (rule Cons.IH) (use Cons.prems in \<open>auto simp: write_no_question qDecode_append qDecode_write\<close>)
    then show ?thesis by (simp add: same del: qEncode.simps(2))
  qed
qed

lemma concat_runes: "concat (utf8_runes s) = s"
  by (induction s rule: utf8_runes.induct, subst utf8_runes.simps) auto

text \<open>
  An encoded subject can be read back. A subject with a byte that is neither printable ASCII nor a tab is written as
  encoded words, split at 63 characters between two runes, and the decoder of the program gets the same bytes from them,
  also when they are not valid UTF-8.
\<close>

theorem encodeHeaderWord_decodes:
  assumes "needsEncoding s"
  shows "DecodeHeader (encodeHeaderWord s) = Some s"
proof -
  have "\<not> isASCIIPrintable s" "s \<noteq> []"
    using assms by (auto simp: needsEncoding_def isASCIIPrintable_def list_ex_iff list_all_iff)
  then have enc: "encodeHeaderWord s = openWord (CHR ''q'') @ qEncode 0 (utf8_runes s) @ ''?=''"
    using assms by (simp add: encodeHeaderWord_def QEncoding_Encode_def)
  have "decode_words False (encodeHeaderWord s) = Some s"
    using decode_chunks [of "[]" "[]" False "[]" 0 "utf8_runes s"] by (simp add: enc concat_runes)
  moreover have "strings_Index (encodeHeaderWord s) ''=?'' = Some 0" by (simp add: enc openWord_def strings_HasPrefix_def)
  ultimately show ?thesis by (simp add: DecodeHeader_def comp_def)
qed

section \<open>No attachment is dropped\<close>

definition attachment_clean :: "attachment \<Rightarrow> bool" where
  "attachment_clean a = (no_lf (ptrStr (at_contentType a)) \<and> no_lf (ptrStr (at_contentId a)))"

text \<open>The content of a part for an attachment: its own bytes when the listing has them, and some text or bytes otherwise.\<close>

definition attachment_shown :: "attachment \<Rightarrow> string option \<Rightarrow> bool" where
  "attachment_shown a d = (\<exists>t. d = Some t \<and> (at_isFile a \<and> ptrStr (at_contentBytes a) \<noteq> [] \<longrightarrow> t = ptrStr (at_contentBytes a)))"

definition part_for :: "attachment \<Rightarrow> emlPart \<Rightarrow> bool" where
  "part_for a p = (attachment_shown a (Some (ptrStr (ep_Data p))) \<and> (attachment_clean a \<longrightarrow> clean_part p))"

lemma attachment_parts_one:
  fixes w :: "'w run_world_scheme"
  shows "\<exists>p w'. attachment_parts gc ml j u m a w = (Inr [p], w') \<and> part_for a p"
proof (cases "attachmentToPart gc ml j u m a w")
  case (Pair x w1)
  show ?thesis
  proof (cases x)
    case (Inl e)
    have "\<not> (at_isFile a \<and> ptrStr (at_contentBytes a) \<noteq> [])"
      using Pair Inl by (auto simp: attachmentToPart_def Let_def bindE_def ret_def split: if_splits)
    then show ?thesis
      using Pair Inl
      by (auto simp: attachment_parts_def attempt_def ret_def unavailable_part_def part_for_def attachment_shown_def clean_part_def)
  next
    case (Inr p)
    have "ep_Data p \<noteq> None" "part_for a p"
      using Pair Inr
      by (auto simp: attachmentToPart_def Let_def bindE_def ret_def part_for_def attachment_shown_def clean_part_def attachment_clean_def ptrStr_def
          split: if_splits prod.splits sum.splits)
    then show ?thesis using Pair Inr by (auto simp: attachment_parts_def attempt_def ret_def)
  qed
qed

lemma all_parts:
  fixes w :: "'w run_world_scheme"
  shows "\<exists>ps w'. map_io (attachment_parts gc ml j u m) atts w = (Inr ps, w') \<and> list_all2 part_for atts ps"
proof (induction atts arbitrary: w)
  case (Cons a atts)
  obtain p w1 where p: "attachment_parts gc ml j u m a w = (Inr [p], w1)" "part_for a p" using attachment_parts_one by blast
  obtain ps w2 where "map_io (attachment_parts gc ml j u m) atts w1 = (Inr ps, w2)" "list_all2 part_for atts ps" using Cons.IH by blast
  with p show ?case by (simp add: bindE_def ret_def)
qed (simp add: ret_def)

lemma parts_clean: "list_all2 part_for atts ps \<Longrightarrow> list_all attachment_clean atts \<Longrightarrow> list_all clean_part ps"
  by (induction rule: list_all2_induct) (auto simp: part_for_def)

lemma parts_shown: "list_all2 part_for atts ps \<Longrightarrow> list_all2 attachment_shown atts (map (\<lambda>p. Some (ptrStr (ep_Data p))) ps)"
  by (induction rule: list_all2_induct) (auto simp: part_for_def)

lemma build_contents:
  assumes "list_all clean_part (em_Attachments m)"
  shows "\<exists>eml w'. buildEML parse m w = (Inr eml, w') \<and>
     map snd (snd (read_eml eml)) = Some (em_Body m) # map (\<lambda>a. Some (ptrStr (ep_Data a))) (em_Attachments m)"
  using buildEML_reads [OF assms, of parse w] by (elim exE conjE, intro exI conjI)


section \<open>A concrete message\<close>

definition demo_eml :: emlMessage where
  "demo_eml =
     \<lparr>em_From = ''<ada@x>'', em_To = [''<bob@x>''], em_Cc = [], em_Bcc = [], em_Subject = [CHR 0xC3, CHR 0xA4], em_Date = 0,
      em_MessageID = ''<1@x>'' @ line_end @ ''Bcc: eve@x'', em_BodyType = ''html'', em_Body = ''hello'',
      em_Attachments = [\<lparr>ep_ContentType = [], ep_Disposition = ''inline'', ep_FileName = ''a'' @ line_end @ ''b'', ep_ContentID = ''c1'', ep_Data = Some ''abc''\<rparr>,
        \<lparr>ep_ContentType = ''text/plain'', ep_Disposition = [], ep_FileName = [], ep_ContentID = [], ep_Data = Some []\<rparr>]\<rparr>"


theorem encodeHeaderWord_decodes_witness:
  "encodeHeaderWord [CHR 0xC3, CHR 0xA4] = ''=?utf-8?q?=C3=A4?='' \<and> DecodeHeader ''=?utf-8?q?=C3=A4?='' = Some [CHR 0xC3, CHR 0xA4]"
proof -
  have "needsEncoding [CHR 0xC3, CHR 0xA4]" "encodeHeaderWord [CHR 0xC3, CHR 0xA4] = ''=?utf-8?q?=C3=A4?=''" by code_simp+
  then show ?thesis using encodeHeaderWord_decodes [of "[CHR 0xC3, CHR 0xA4]"] by simp
qed

definition demo_message :: mail_message where
  "demo_message =
     \<lparr>mm_subject = Some ''hi'', mm_internetMessageId = None, mm_from = Some (Some (None, Some ''ada@x'')), mm_sender = None, mm_to = [], mm_cc = [],
      mm_bcc = [], mm_received = None, mm_sent = None, mm_body = Some (Some ''hello'', Some True)\<rparr>"

definition demo_attachments :: "attachment list" where
  "demo_attachments =
     [\<lparr>at_id = None, at_name = Some ''a.txt'', at_contentType = Some ''text/plain'', at_isInline = None, at_isFile = True,
       at_contentBytes = Some ''abc'', at_contentId = None, at_odataType = None\<rparr>,
      \<lparr>at_id = None, at_name = None, at_contentType = None, at_isInline = None, at_isFile = True,
       at_contentBytes = None, at_contentId = None, at_odataType = None\<rparr>]"

definition demo_mail :: "unit mail_sdk" where
  "demo_mail =
     \<lparr>ml_message = (\<lambda>_ _. ret demo_message),
      ml_attachments = (\<lambda>_ _ _. ret \<lparr>pg_value = demo_attachments, pg_next = None, pg_delta = None\<rparr>),
      ml_ParseMediaType = (\<lambda>_. None), ml_Quote = (\<lambda>s. s)\<rparr>"

lemma one_page: "0 < n \<Longrightarrow> read_pages n get wrap \<lparr>pg_value = xs, pg_next = None, pg_delta = None\<rparr> w = (Inr xs, w)"
  by (cases n) (simp_all add: has_next_def ret_def)


end
