(* ===== verification/Graph_Restore.thy ===== *)
theory Graph_Restore
  imports Api Eml_Props
begin

text \<open>
  The upload of a restored generation to Microsoft Graph (\<open>graphUploadRestore\<close> of \<open>internal/api/router.go\<close>,
  \<open>CollectFilesUnder\<close> of \<open>internal/storage/restore.go\<close>), with the handlers of the JSON API that restore and create tenants.

  Parameters are the construction of a Graph client, and \<open>put\<close>, a PUT request of the HTTP client with its headers and body,
  which answers with a status or fails.
\<close>

definition CollectFilesUnder :: "string \<Rightarrow> string \<Rightarrow> ('w fs_world_scheme, string list) io" where
  "CollectFilesUnder root0 pre =
     bindE (from_result (GuardPath root0)) (\<lambda>root.
     bindE (query (files_below root)) (\<lambda>fs.
       ret (filter (\<lambda>p. (pre = [] \<or> strings_HasPrefix (strings_TrimPrefix p (path_Clean root @ ''/'')) (strings_Trim pre slash))
                        \<and> (case GuardPath p of Inr _ \<Rightarrow> True | Inl _ \<Rightarrow> False)) (map fst fs))))"

definition upload_url :: "string \<Rightarrow> string \<Rightarrow> string" where
  "upload_url driveID rel =
     ''https://graph.microsoft.com/v1.0/drives/'' @ driveID @ ''/root:/M365Backup-Restore/'' @ strings_ReplaceAll rel '' '' ''_'' @ '':/content''"

definition upload_file ::
  "(string \<Rightarrow> (string \<times> string) list \<Rightarrow> string \<Rightarrow> ('w run_world_scheme, int) io) \<Rightarrow> string \<Rightarrow> string \<Rightarrow> string \<Rightarrow> string \<Rightarrow> string
   \<Rightarrow> ('w run_world_scheme, unit) io" where
  "upload_file put ctx tok driveID root fpath0 =
     (case GuardPath fpath0 of
        Inl _ \<Rightarrow> ret ()
      | Inr fpath \<Rightarrow>
          attempt (os_ReadFile fpath) (\<lambda>x. case x of
            Inl _ \<Rightarrow> ret ()
          | Inr data \<Rightarrow>
              (let url = upload_url driveID (strings_TrimPrefix fpath (path_Clean root @ ''/''))
               in if url_Parse url = None then ret ()
                  else ignore (on_ctx ctx (put url [(''Authorization'', ''Bearer '' @ tok), (''Content-Type'', ''application/octet-stream'')] data)))))"

definition graphUploadRestore ::
  "Manager \<Rightarrow> (string \<Rightarrow> string \<Rightarrow> string \<Rightarrow> ('w run_world_scheme, 'w graph_sdk) io)
   \<Rightarrow> (string \<Rightarrow> (string \<times> string) list \<Rightarrow> string \<Rightarrow> ('w run_world_scheme, int) io) \<Rightarrow> string \<Rightarrow> Tenant \<Rightarrow> string \<Rightarrow> string
   \<Rightarrow> ('w run_world_scheme, unit) io" where
  "graphUploadRestore mgr graph_New put ctx t service dest =
     bindE (from_result (DecryptSecrets mgr t)) (\<lambda>(clientSecret, _).
     bindE (graph_New (t_AzureTenantID t) (t_ClientID t) clientSecret) (\<lambda>gc.
       (let root = path_Join [dest, service]
        in bindE (CollectFilesUnder root []) (\<lambda>fs.
           attempt (ListUsers gc ctx) (\<lambda>x. case x of
             Inl e \<Rightarrow> throw (Err (''no users for graph restore: '' @ err_text e))
           | Inr [] \<Rightarrow> throw (Err ''no users for graph restore: <nil>'')
           | Inr (u # us) \<Rightarrow>
               bindE (on_ctx ctx (g_userDrive gc (ptrStr (us_id u)))) (\<lambda>drive.
               bindE (on_ctx ctx (g_token gc)) (\<lambda>tok.
                 for_each fs (upload_file put ctx tok (ptrStr drive) root))))))))"

definition apiRestore :: "'r Server \<Rightarrow> (Tenant \<Rightarrow> string \<Rightarrow> string \<Rightarrow> ('w usage_world_scheme, unit) io) \<Rightarrow> 'w handler" where
  "apiRestore sv upload p r = handleRestore sv upload p r"

section \<open>Creating a tenant, the login page\<close>

definition store_input :: "(string \<Rightarrow> gotime option) \<Rightarrow> CreateInput \<Rightarrow> string \<times> json \<Rightarrow> CreateInput \<times> bool" where
  "store_input parse_rfc3339 c kv =
     (let (k, v) = kv; key = strings_EqualFold k
      in if key ''Name'' then (case store_string v (ci_Name c) of (x, b) \<Rightarrow> (c\<lparr>ci_Name := x\<rparr>, b))
         else if key ''AzureTenantID'' then (case store_string v (ci_AzureTenantID c) of (x, b) \<Rightarrow> (c\<lparr>ci_AzureTenantID := x\<rparr>, b))
         else if key ''ClientID'' then (case store_string v (ci_ClientID c) of (x, b) \<Rightarrow> (c\<lparr>ci_ClientID := x\<rparr>, b))
         else if key ''ClientSecret'' then (case store_string v (ci_ClientSecret c) of (x, b) \<Rightarrow> (c\<lparr>ci_ClientSecret := x\<rparr>, b))
         else if key ''SecretExpires'' then
           (case v of JNull \<Rightarrow> (c, False)
            | JStr s \<Rightarrow> (case parse_rfc3339 s of Some t \<Rightarrow> (c\<lparr>ci_SecretExpires := t\<rparr>, False) | None \<Rightarrow> (c, True))
            | _ \<Rightarrow> (c, True))
         else (c, False))"

definition apiCreateTenant :: "'r Server \<Rightarrow> 'w handler" where
  "apiCreateTenant sv p r =
     (case decode_struct (store_input (srv_rfc3339 sv))
             \<lparr>ci_Name = [], ci_AzureTenantID = [], ci_ClientID = [], ci_ClientSecret = [], ci_SecretExpires = zero_time\<rparr> (r_Body r) of (inp, bad) \<Rightarrow>
        if bad then ret (HttpError ''json: cannot unmarshal'' 400)
        else or_http (tenant_Create (srv_Tenants sv) inp) (err_status 400) (\<lambda>t.
             bindE (ignore (Reload (srv_cron_ok sv))) (\<lambda>_.
               ret (JsonDoc (TenantDoc (publicTenant t))))))"

definition handleLoginForm :: "'w handler" where
  "handleLoginForm p r = ret (Page ''login.html'' LoginView)"

text \<open>The list of export runs; errors leave it, and the list of mailboxes, empty.\<close>

definition handlePSTExportsPartial :: "'r Server \<Rightarrow> export_clock \<Rightarrow> 'w handler" where
  "handlePSTExportsPartial sv clk p r =
     (let i = param r ''id''
      in or_http (GetTenant i) not_found (\<lambda>t.
         bindE (or_else (ListPSTExports clk (t_StorePath t)) []) (\<lambda>exports.
         bindE (or_else (bindE (catalogFor sv t) (\<lambda>cat. ListMailboxes cat ''exchange'')) []) (\<lambda>mailboxes.
           ret (Page ''pst_exports_partial.html'' (ExportsView t i exports mailboxes))))))"

section \<open>Properties\<close>

lemma upload_file_succeeds: "\<exists>w'. upload_file put ctx tok d root f w = (Inr (), w')"
  by (auto simp: upload_file_def attempt_def ignore_def ret_def Let_def split: sum.split prod.split)

lemma uploads_succeed: "\<exists>w'. for_each fs (upload_file put ctx tok d root) w = (Inr (), w')"
proof (induction fs arbitrary: w)
  case (Cons f fs)
  obtain w1 where "upload_file put ctx tok d root f w = (Inr (), w1)" using upload_file_succeeds by blast
  moreover obtain w2 where "for_each fs (upload_file put ctx tok d root) w1 = (Inr (), w2)" using Cons by blast
  ultimately show ?case by (simp add: bindE_def)
qed (simp add: ret_def)


text \<open>A restored file that no request can store.\<close>

definition sealed_secret :: string where
  "sealed_secret = base64_EncodeToString (replicate 12 (CHR ''n'') @ gcm_Seal (mg_Cipher demo_manager) (replicate 12 (CHR ''n'')) ''secret'')"

definition restore_sdk :: "unit graph_sdk" where
  "restore_sdk =
     demo_sdk\<lparr>g_users := (\<lambda>_ _. ret \<lparr>pg_value = [\<lparr>us_id = Some ''u1'', us_upn = None, us_mail = None, us_enabled = None\<rparr>], pg_next = None, pg_delta = None\<rparr>)\<rparr>"

definition restore_tenant :: Tenant where
  "restore_tenant =
     \<lparr>t_ID = ''t1'', t_Name = ''contoso'', t_AzureTenantID = [], t_ClientID = [], t_ClientSecret = sealed_secret, t_SecretExpires = 0,
      t_StorePassword = sealed_secret, t_StorePath = [], t_Status = ''active'', t_RetentionJSON = [], t_CreatedAt = 0, t_UpdatedAt = 0\<rparr>"

definition restore_world :: run_world where
  "restore_world = (run_demo [])\<lparr>files := [(''/w/out/onedrive/a.txt'', ''A'')]\<rparr>"


end
