(* ===== verification/Notification_Props.thy ===== *)
theory Notification_Props
  imports Notification
begin

text \<open>Properties of the notifications.\<close>

section \<open>Text\<close>

lemma ReplaceAll_char: "strings_ReplaceAll s [c] new = concat (map (\<lambda>x. if x = c then new else [x]) s)"
  by (induction s) (auto simp: strings_ReplaceAll.simps)

lemma sanitizeHeader_eq:
  "sanitizeHeader s = map (\<lambda>x. if x = CHR 0x0D \<or> x = CHR 0x0A then CHR '' '' else x) (filter (\<lambda>x. x \<noteq> CHR 0x00) s)"
  unfolding sanitizeHeader_def ReplaceAll_char by (induction s) auto

text \<open>Every carriage return is followed by a line feed, and there is no other line feed.\<close>

fun lines_ok :: "string \<Rightarrow> bool" where
  "lines_ok [] = True"
| "lines_ok (c # cs) =
     (if c = CHR 0x0D then (case cs of d # ds \<Rightarrow> d = CHR 0x0A \<and> lines_ok ds | [] \<Rightarrow> False)
      else c \<noteq> CHR 0x0A \<and> lines_ok cs)"

lemma sanitizeBody_lines: "lines_ok (sanitizeBody s)" "CHR 0x00 \<notin> set (sanitizeBody s)"
proof -
  define t where "t = strings_ReplaceAll (strings_ReplaceAll (strings_ReplaceAll s [CHR 0x00] []) crlf [CHR 0x0A]) [CHR 0x0D] [CHR 0x0A]"
  have body: "sanitizeBody s = concat (map (\<lambda>x. if x = CHR 0x0A then crlf else [x]) t)"
    by (simp add: sanitizeBody_def t_def ReplaceAll_char)
  have cr: "CHR 0x0D \<notin> set t" by (auto simp: t_def ReplaceAll_char split: if_splits)
  have "set (strings_ReplaceAll s [CHR 0x00] []) \<subseteq> set s - {CHR 0x00}" by (auto simp: ReplaceAll_char split: if_splits)
  then have nul: "CHR 0x00 \<notin> set t"
    using ReplaceAll_chars [of "strings_ReplaceAll s [CHR 0x00] []" crlf "[CHR 0x0A]"]
    by (auto simp: t_def ReplaceAll_char [where c = "CHR 0x0D"] split: if_splits)
  have "lines_ok (concat (map (\<lambda>x. if x = CHR 0x0A then crlf else [x]) u))" if "CHR 0x0D \<notin> set u" for u
    using that by (induction u) (auto simp: crlf_def)
  with cr show "lines_ok (sanitizeBody s)" by (simp add: body)
  show "CHR 0x00 \<notin> set (sanitizeBody s)" using nul by (auto simp: body crlf_def split: if_splits)
qed

section \<open>Mails\<close>

abbreviation no_breaks :: "string \<Rightarrow> bool" where
  "no_breaks s \<equiv> set s \<inter> {CHR 0x0D, CHR 0x0A, CHR 0x00} = {}"

lemma rejectSMTPMeta_Inr: "rejectSMTPMeta s = Inr () \<longleftrightarrow> no_breaks s"
  by (simp add: rejectSMTPMeta_def ContainsAny_iff)

lemma check_tos_Inr: "check_tos tos = Inr () \<Longrightarrow> list_all no_breaks tos"
proof -
  let ?step = "\<lambda>r (i, x). case r of Inl e \<Rightarrow> Inl e
       | Inr _ \<Rightarrow> (case rejectSMTPMeta x of Inl e \<Rightarrow> Inl (Wrap (''smtp to['' @ show_nat i @ '']'') e) | Inr _ \<Rightarrow> Inr ())"
  have stay: "foldl ?step (Inl e) ps = Inl e" for e ps by (induction ps) auto
  have "foldl ?step (Inr ()) ps = Inr () \<Longrightarrow> list_all no_breaks (map snd ps)" for ps
  proof (induction ps)
    case (Cons p ps)
    obtain i x where p: "p = (i, x)" by fastforce
    show ?case
    proof (cases "rejectSMTPMeta x")
      case (Inr u)
      then have "no_breaks x" using rejectSMTPMeta_Inr [of x] by simp
      then show ?thesis using Cons p Inr by simp
    qed (use Cons.prems p stay in simp)
  qed simp
  from this [of "enumerate 0 tos"] show "check_tos tos = Inr () \<Longrightarrow> list_all no_breaks tos" by (simp add: check_tos_def)
qed

lemma sanitizeHeader_clean: "no_breaks (sanitizeHeader s)"
  by (auto simp: sanitizeHeader_eq split: if_splits)

text \<open>What a mail of the program looks like.\<close>

definition clean_mail :: "smtpConfig \<Rightarrow> Event \<Rightarrow> mail \<Rightarrow> bool" where
  "clean_mail cfg ev m =
     (ml_msg m = strings_Join (smtp_headers cfg ev) crlf @ crlf @ crlf @ sanitizeBody (ev_Body ev) @ crlf
      \<and> list_all no_breaks (smtp_headers cfg ev) \<and> no_breaks (ml_from m) \<and> list_all no_breaks (ml_to m))"

lemma headers_clean: "list_all no_breaks (smtp_headers cfg ev)"
  using sanitizeHeader_clean [of "sm_From cfg"] sanitizeHeader_clean [of "strings_Join (sm_To cfg) '',''"] sanitizeHeader_clean [of "ev_Subject ev"]
  by (simp add: smtp_headers_def)

text \<open>
  C31: no injection into mails. Whatever the subject and the text of an event and whatever the stored configuration,
  \<open>sendSMTP\<close> hands over at most one mail, and that mail has exactly the five header lines of the program, none
  with a line break or a NUL inside, then an empty line and a body in which every line ends with CR LF and which
  has no NUL; the addresses of its envelope hold no control characters that could start another SMTP command.
\<close>

theorem sendSMTP_no_injection:
  "mails (snd (sendSMTP config ev w)) = mails w
   \<or> (\<exists>cfg m. mails (snd (sendSMTP config ev w)) = mails w @ [m] \<and> unmarshal store_smtp zero_smtp config = Inr cfg
      \<and> clean_mail cfg ev m \<and> length (smtp_headers cfg ev) = 5
      \<and> lines_ok (sanitizeBody (ev_Body ev)) \<and> CHR 0x00 \<notin> set (sanitizeBody (ev_Body ev)))"
proof -
  have mail: "clean_mail cfg ev \<lparr>ml_addr = a, ml_auth = u, ml_from = sanitizeHeader (sm_From cfg), ml_to = sm_To cfg,
      ml_msg = smtp_message cfg ev\<rparr>" if "check_tos (sm_To cfg) = Inr ()" for cfg a u
    using check_tos_Inr [OF that] headers_clean [of cfg ev] sanitizeHeader_clean [of "sm_From cfg"]
    by (simp only: clean_mail_def mail.simps smtp_message_def simp_thms)
  have "wp (sendSMTP config ev) (\<lambda>r w'. mails w' = mails w \<or> (\<exists>cfg m. mails w' = mails w @ [m]
      \<and> unmarshal store_smtp zero_smtp config = Inr cfg \<and> clean_mail cfg ev m)) w"
    unfolding sendSMTP_def smtp_SendMail_def Let_def
    by (auto simp: wp_simps mail intro!: wp_intros split: sum.split)
  from wpD [OF this surjective_pairing] show ?thesis using sanitizeBody_lines by (auto simp: smtp_headers_def)
qed

section \<open>Dialling\<close>

text \<open>
  A webhook never reaches a blocked address. Whatever the resolver answers, the transport of the webhooks
  calls the dialer only for addresses that \<open>isBlockedWebhookIP\<close> lets pass: replacing the dialer by any other that
  behaves alike on those changes nothing. With only blocked addresses the request fails before any connection.
\<close>

theorem safe_dial_only_allowed:
  assumes "\<forall>ip. isBlockedWebhookIP (Some ip) \<or> dial ip = dial' ip"
  shows "safe_dial lookup dial = safe_dial lookup dial'
    \<and> (lookup w = (Inr ips, w') \<and> list_all (\<lambda>ip. isBlockedWebhookIP (Some ip)) ips
         \<longrightarrow> safe_dial lookup dial w = (Inl (Err ''webhook destination not allowed''), w'))"
proof -
  have "dial_loop dial ips e = dial_loop dial' ips e" for ips e
    using assms by (induction ips arbitrary: e) (auto simp: fun_eq_iff attempt_def split: prod.split sum.split)
  moreover have "dial_loop dial ips e w' = (Inl (Err ''webhook destination not allowed''), w')"
    if "list_all (\<lambda>ip. isBlockedWebhookIP (Some ip)) ips" "e = None \<or> e = Some (Err ''webhook destination not allowed'')" for ips e w'
    using that by (induction ips arbitrary: e) (auto simp: throw_def)
  ultimately show ?thesis by (auto simp: safe_dial_def bindE_def)
qed

section \<open>Expiry\<close>

lemma div_le_iff: "0 < n \<Longrightarrow> (a div n \<le> k) = (a < (k + 1) * n)" for a n k :: int
proof -
  assume n: "0 < n"
  have a: "a = n * (a div n) + a mod n" "0 \<le> a mod n" "a mod n < n" using n by simp_all
  show ?thesis
  proof (cases "a div n \<le> k")
    case True
    then have "n * (a div n) \<le> n * k" using n by simp
    moreover have "(k + 1) * n = n * k + n" by (simp add: algebra_simps)
    ultimately show ?thesis using a True by linarith
  next
    case False
    then have "n * (k + 1) \<le> n * (a div n)" using n by simp
    moreover have "(k + 1) * n = n * (k + 1)" by simp
    ultimately show ?thesis using a False by linarith
  qed
qed

text \<open>
  When a secret is reported as expired. For a date within the range of a duration, \<open>CheckSecretExpiry\<close> reports
  \<open>key_expired\<close> only once the secret has been expired for a whole day, \<open>key_expiry_7d\<close> from there up to eight days
  before the date, and \<open>key_expiry_30d\<close> up to thirty-one days before it: the number of days is rounded towards zero,
  so in the first day after its end a secret is still announced as one that will end.
\<close>

theorem expiry_event_exact:
  assumes "t_SecretExpires t \<noteq> zero_time" "\<bar>t_SecretExpires t - now\<bar> < 2 ^ 63"
  shows "map_option ev_Type (expiry_event now t) =
    (let d = t_SecretExpires t - now
     in if d \<le> - ns_per_day then Some ''key_expired''
        else if d < 8 * ns_per_day then Some ''key_expiry_7d''
        else if d < 31 * ns_per_day then Some ''key_expiry_30d''
        else None)"
proof -
  let ?d = "t_SecretExpires t - now"
  have sub: "time_Sub (t_SecretExpires t) now = ?d" using assms(2) by (auto simp: time_Sub_def max_int64_def)
  have ns: "ns_per_day > 0" by (simp add: ns_per_day_def ns_per_hour_def ns_per_sec_def)
  have pos: "days_left now (t_SecretExpires t) = ?d div ns_per_day" if "?d \<ge> 0"
    using that ns by (simp add: days_left_def sub go_div_def sgn_if)
  have neg: "days_left now (t_SecretExpires t) = - ((- ?d) div ns_per_day)" if "?d < 0"
    using that ns by (simp add: days_left_def sub go_div_def sgn_if)
  have le: "(a div ns_per_day \<le> k) = (a < (k + 1) * ns_per_day)" for a k
    by (rule div_le_iff [OF ns])
  have gt: "(0 < a div ns_per_day) = (ns_per_day \<le> a)" for a
    using le [of a 0] by auto
  show ?thesis
  proof (cases "?d < 0")
    case True
    then show ?thesis using assms(1) neg gt [of "- ?d"] ns by (auto simp: expiry_event_def Let_def)
  next
    case False
    then show ?thesis using assms(1) pos le [of ?d 7] le [of ?d 30] ns
      by (auto simp: expiry_event_def Let_def not_less pos_imp_zdiv_nonneg_iff)
  qed
qed

section \<open>Examples\<close>

text \<open>The metadata service of a cloud: one blocked address, no connection.\<close>

theorem safe_dial_only_allowed_witness:
  "safe_dial (ret [[169, 254, 169, 254]]) (\<lambda>ip. ret ''open'') () = (Inl (Err ''webhook destination not allowed''), ())"
proof -
  let ?d = "\<lambda>ip :: nat list. ret ''open''" and ?d' = "\<lambda>ip. if isBlockedWebhookIP (Some ip) then throw ErrCanceled else ret ''open''"
  have b: "isBlockedWebhookIP (Some [169, 254, 169, 254])" by code_simp
  have "\<forall>ip. isBlockedWebhookIP (Some ip) \<or> ?d ip = ?d' ip" by simp
  from safe_dial_only_allowed [OF this, THEN conjunct2, of "ret [[169, 254, 169, 254]]" "()" "[[169, 254, 169, 254]]" "()"] b
  show ?thesis by (simp add: ret_def)
qed

text \<open>A secret that ended an hour ago is announced as one that ends within seven days.\<close>

definition late_tenant :: Tenant where
  "late_tenant =
     \<lparr>t_ID = ''t1'', t_Name = ''contoso'', t_AzureTenantID = [], t_ClientID = [], t_ClientSecret = [],
      t_SecretExpires = 10 * ns_per_day, t_StorePassword = [], t_StorePath = [], t_Status = ''active'', t_RetentionJSON = [],
      t_CreatedAt = zero_time, t_UpdatedAt = zero_time\<rparr>"

theorem expiry_event_exact_witness:
  "map_option ev_Type (expiry_event (10 * ns_per_day + ns_per_hour) late_tenant) = Some ''key_expiry_7d''"
  using expiry_event_exact [of late_tenant "10 * ns_per_day + ns_per_hour"]
  by (simp add: late_tenant_def ns_per_day_def ns_per_hour_def ns_per_sec_def)

end
