(* ===== verification/Routing.thy ===== *)
theory Routing
  imports Server_Ops
begin

text \<open>
  The routes of the server (\<open>Router\<close> of \<open>internal/api/router.go\<close>) behind the guard of theory \<open>Auth\<close>. A route is a method, a
  pattern and the name of its handler; a route without a method serves all of them.

  The router itself is the package chi, a parameter. It takes the escaped form of the path when the request has one, while
  the guard looks at the decoded path. What is used of it is documented: a route is only chosen for a request of its method
  whose path begins with the part of the pattern before its first placeholder, and equals a pattern that has none.
\<close>

section \<open>The routes\<close>

type_synonym route = "string option \<times> string \<times> string"

definition program_routes :: "route list" where
  "program_routes =
       [(Some ''GET'', ''/healthz'', ''healthz''),
        (Some ''GET'', ''/login'', ''handleLoginForm''),
        (Some ''POST'', ''/login'', ''handleLogin''),
        (Some ''POST'', ''/logout'', ''handleLogout''),
        (Some ''GET'', ''/lang/{lang}'', ''handleSetLang''),
        (Some ''GET'', ''/'', ''handleHome''),
        (Some ''GET'', ''/jobs'', ''handleJobsOverview''),
        (Some ''GET'', ''/jobs/live'', ''handleJobsOverviewPartial''),
        (Some ''GET'', ''/api/jobs'', ''apiListActiveJobs''),
        (Some ''GET'', ''/tenants'', ''handleTenants''),
        (Some ''POST'', ''/tenants/usage/refresh'', ''handleUsageRefreshAll''),
        (Some ''GET'', ''/tenants/new'', ''handleTenantNewForm''),
        (Some ''POST'', ''/tenants'', ''handleTenantCreate''),
        (Some ''GET'', ''/tenants/{id}'', ''handleTenantDetail''),
        (Some ''POST'', ''/tenants/{id}/usage/refresh'', ''handleUsageRefreshOne''),
        (Some ''POST'', ''/tenants/{id}/backup'', ''handleTriggerBackups''),
        (Some ''POST'', ''/tenants/{id}/backup/{service}'', ''handleTriggerBackup''),
        (Some ''POST'', ''/tenants/{id}/schedules'', ''handleUpdateSchedules''),
        (Some ''POST'', ''/tenants/{id}/schedules/{sid}'', ''handleUpdateSchedule''),
        (Some ''POST'', ''/tenants/{id}/retention'', ''handleUpdateRetention''),
        (Some ''GET'', ''/tenants/{id}/recovery'', ''handleRecoveryForm''),
        (Some ''POST'', ''/tenants/{id}/recovery'', ''handleRecoveryExport''),
        (Some ''GET'', ''/tenants/{id}/exports/pst/{runID}/{file}'', ''handlePSTExportDownload''),
        (Some ''GET'', ''/tenants/{id}/restore'', ''handleRestoreForm''),
        (Some ''POST'', ''/tenants/{id}/restore'', ''handleRestore''),
        (Some ''GET'', ''/tenants/{id}/browser'', ''handleBrowser''),
        (Some ''GET'', ''/tenants/{id}/browser/file'', ''handleBrowserFile''),
        (Some ''GET'', ''/tenants/{id}/jobs'', ''handleJobsPartial''),
        (Some ''GET'', ''/tenants/{id}/jobs/{jobID}'', ''handleJobDetail''),
        (Some ''GET'', ''/tenants/{id}/jobs/{jobID}/live'', ''handleJobLive''),
        (Some ''POST'', ''/tenants/{id}/jobs/{jobID}/cancel'', ''handleCancelJob''),
        (Some ''GET'', ''/tenants/{id}/snapshots'', ''handleSnapshotsPartial''),
        (Some ''GET'', ''/tenants/{id}/pst-exports'', ''handlePSTExportsPartial''),
        (Some ''GET'', ''/tenants/{id}/pst-folders'', ''handlePSTFoldersPartial''),
        (Some ''GET'', ''/tenants/{id}/snapshots/{snapID}'', ''handleSnapshotBrowse''),
        (Some ''GET'', ''/tenants/{id}/snapshots/{snapID}/file'', ''handleSnapshotFile''),
        (Some ''GET'', ''/settings'', ''handleSettings''),
        (Some ''POST'', ''/settings/notifications'', ''handleSaveNotifications''),
        (Some ''POST'', ''/settings/tokens'', ''handleCreateToken''),
        (Some ''POST'', ''/settings/tokens/{tid}/delete'', ''handleDeleteToken''),
        (Some ''GET'', ''/openapi'', ''handleOpenAPIPage''),
        (Some ''GET'', ''/openapi.yaml'', ''handleOpenAPISpec''),
        (Some ''GET'', ''/api/tenants'', ''apiListTenants''),
        (Some ''POST'', ''/api/tenants'', ''apiCreateTenant''),
        (Some ''GET'', ''/api/tenants/{id}/usage'', ''apiTenantUsage''),
        (Some ''POST'', ''/api/tenants/usage/refresh'', ''apiUsageRefreshAll''),
        (Some ''POST'', ''/api/tenants/{id}/usage/refresh'', ''apiUsageRefreshOne''),
        (Some ''GET'', ''/api/tenants/{id}/jobs'', ''apiListJobs''),
        (Some ''PUT'', ''/api/tenants/{id}/schedule'', ''apiUpdateSchedules''),
        (Some ''POST'', ''/api/tenants/{id}/restore'', ''apiRestore''),
        (Some ''GET'', ''/api/settings/notifications'', ''apiGetNotifications''),
        (Some ''PUT'', ''/api/settings/notifications'', ''apiPutNotifications''),
        (Some ''GET'', ''/api/consent/start/{id}'', ''handleConsentStart''),
        (Some ''GET'', ''/api/consent/callback'', ''handleConsentCallback'')]"

definition route_table :: "bool \<Rightarrow> route list" where
  "route_table static = program_routes @ (if static then [(None, ''/static/*'', ''static'')] else [])"

type_synonym chi = "route list \<Rightarrow> string \<Rightarrow> string \<Rightarrow> string option"

definition fixed_part :: "string \<Rightarrow> string" where
  "fixed_part pat = takeWhile (\<lambda>c. c \<noteq> CHR ''{'' \<and> c \<noteq> CHR ''*'') pat"

definition route_fits :: "string \<Rightarrow> string \<Rightarrow> route \<Rightarrow> bool" where
  "route_fits m path rt =
     (case rt of (rm, pat, h) \<Rightarrow>
        (rm = None \<or> rm = Some m) \<and> strings_HasPrefix path (fixed_part pat) \<and> (fixed_part pat = pat \<longrightarrow> path = pat))"

definition chi_ok :: "chi \<Rightarrow> bool" where
  "chi_ok chi = (\<forall>routes m path h. chi routes m path = Some h \<longrightarrow> (\<exists>rt \<in> set routes. snd (snd rt) = h \<and> route_fits m path rt))"

text \<open>\<open>raw\<close> is the path chi routes by; the handlers get the principal the guard found.\<close>

definition Router ::
  "chi \<Rightarrow> bool \<Rightarrow> (string \<Rightarrow> Principal option \<Rightarrow> ('w auth_world_scheme, 'v response) io) \<Rightarrow> string \<Rightarrow> request
   \<Rightarrow> ('w auth_world_scheme, 'v response) io" where
  "Router chi static handlers raw r =
     Middleware (\<lambda>p. case chi (route_table static) (r_Method r) raw of
         None \<Rightarrow> ret (HttpError ''404 page not found'' 404)
       | Some h \<Rightarrow> handlers h p) r"

section \<open>Which routes are public\<close>

definition public_handlers :: "string list" where
  "public_handlers = [''healthz'', ''handleLoginForm'', ''handleLogin'', ''handleSetLang'', ''handleConsentCallback'', ''static'']"

text \<open>What a token for reading reaches: the routes of GET except the start of a consent.\<close>

definition read_handlers :: "string list" where
  "read_handlers =
     map (snd \<circ> snd) (filter (\<lambda>(m, pat, h). m = Some ''GET'' \<and> h \<notin> set public_handlers \<and> h \<noteq> ''handleConsentStart'') program_routes)"

definition path_of :: "string \<Rightarrow> string \<Rightarrow> bool" where
  "path_of raw path = (raw = path \<or> url_unescape MPath raw = Some path)"

lemma unescape_fixed: "CHR ''%'' \<notin> set l \<Longrightarrow> url_unescape MPath (l @ s) = map_option (append l) (url_unescape MPath s)"
  by (induction l) (cases "url_unescape MPath s"; auto)+

lemma path_of_prefix: "path_of (l @ s) path \<Longrightarrow> CHR ''%'' \<notin> set l \<Longrightarrow> strings_HasPrefix path l"
  by (auto simp: path_of_def unescape_fixed HasPrefix_iff)

lemma path_of_fixed: "path_of l path \<Longrightarrow> CHR ''%'' \<notin> set l \<Longrightarrow> path = l"
  using unescape_fixed [of l "[]"] by (auto simp: path_of_def)

definition apart :: "string \<Rightarrow> string \<Rightarrow> bool" where
  "apart a b = (\<not> strings_HasPrefix a b \<and> \<not> strings_HasPrefix b a)"

lemma apartD: "apart a b \<Longrightarrow> strings_HasPrefix s a \<Longrightarrow> \<not> strings_HasPrefix s b"
  by (auto simp: apart_def HasPrefix_iff append_eq_append_conv2)

definition guarded_pattern :: "string \<Rightarrow> bool" where
  "guarded_pattern pat =
     (if fixed_part pat = pat then \<not> public_path pat
      else list_all (apart (fixed_part pat)) [''/login'', ''/lang/'', ''/static/'', ''/api/consent/callback'', ''/healthz''])"

lemma guarded_route:
  assumes "guarded_pattern pat" "route_fits m raw (rm, pat, h)" "path_of raw path" "CHR ''%'' \<notin> set pat"
  shows "\<not> public_path path"
proof (cases "fixed_part pat = pat")
  case True
  then have "path = pat" using assms(2-4) by (auto simp: route_fits_def dest: path_of_fixed)
  then show ?thesis using True assms(1) by (simp add: guarded_pattern_def)
next
  case False
  have "CHR ''%'' \<notin> set (fixed_part pat)" using assms(4) by (auto simp: fixed_part_def dest: set_takeWhileD)
  then have "strings_HasPrefix path (fixed_part pat)"
    using assms(2,3) path_of_prefix by (auto simp: route_fits_def HasPrefix_iff)
  then have no: "\<not> strings_HasPrefix path b" if "apart (fixed_part pat) b" for b using that apartD by blast
  have all: "apart (fixed_part pat) ''/login''" "apart (fixed_part pat) ''/lang/''" "apart (fixed_part pat) ''/static/''"
    "apart (fixed_part pat) ''/api/consent/callback''" "apart (fixed_part pat) ''/healthz''"
    using False assms(1) by (simp_all add: guarded_pattern_def)
  have "path \<noteq> ''/healthz''" using no [OF all(5)] HasPrefix_refl by metis
  then show ?thesis using all(1-4) [THEN no] by (simp add: public_path_def)
qed

lemma table_guarded:
  "list_all (\<lambda>(m, pat, h). CHR ''%'' \<notin> set pat \<and> (h \<in> set public_handlers \<or> guarded_pattern pat)) (route_table static)"
proof -
  have "list_all (\<lambda>(m, pat, h). CHR ''%'' \<notin> set pat \<and> (h \<in> set public_handlers \<or> guarded_pattern pat)) (route_table True)" by code_simp
  then show ?thesis by (simp only: route_table_def list_all_append) simp
qed

text \<open>For tokens that may only read: the methods of the table, and the only pattern for the start of a consent.\<close>

lemma table_methods:
  "list_all (\<lambda>(m, pat, h). m \<in> set [Some ''GET'', Some ''POST'', Some ''PUT''] \<and> (h = ''handleConsentStart'' \<longrightarrow> pat = ''/api/consent/start/{id}''))
     program_routes"
  by code_simp

lemma route_table_static: "rt \<in> set (route_table static) \<Longrightarrow> rt \<in> set program_routes \<or> snd (snd rt) = ''static''"
  by (auto simp: route_table_def split: if_splits)

lemma route_guarded:
  assumes "chi_ok chi" "path_of raw path" "chi (route_table static) m raw = Some h" "h \<notin> set public_handlers"
  shows "\<not> public_path path"
proof -
  obtain rm pat where rt: "(rm, pat, h) \<in> set (route_table static)" "route_fits m raw (rm, pat, h)"
    using assms(1,3) by (fastforce simp: chi_ok_def)
  then have "CHR ''%'' \<notin> set pat" "guarded_pattern pat"
    using table_guarded [of static] assms(4) by (auto simp: list_all_iff)
  then show ?thesis using guarded_route rt(2) assms(2) by blast
qed

lemma route_read:
  assumes "chi_ok chi" "path_of (r_Path r) (r_Path r)" "path_of raw (r_Path r)" "chi (route_table static) (r_Method r) raw = Some h"
    and "h \<notin> set public_handlers" "allowScope r p" "p_Scope p = ''read''"
  shows "h \<in> set read_handlers"
proof -
  obtain rm pat where rt: "(rm, pat, h) \<in> set (route_table static)" "route_fits (r_Method r) raw (rm, pat, h)"
    using assms(1,4) by (fastforce simp: chi_ok_def)
  have "pat \<noteq> ''/api/consent/start/{id}''"
  proof
    assume pat: "pat = ''/api/consent/start/{id}''"
    have "fixed_part pat = ''/api/consent/start/''" unfolding pat by code_simp
    then have "strings_HasPrefix (r_Path r) ''/api/consent/start/''"
      using rt(2) assms(3) path_of_prefix [of "''/api/consent/start/''"] by (auto simp: route_fits_def HasPrefix_iff)
    then have "strings_HasPrefix (r_Path r) ''/api/consent/start''" by (auto simp: HasPrefix_iff)
    then show False using assms(6,7) by (auto simp: allowScope_def split: if_splits)
  qed
  moreover have "rm \<noteq> Some ''POST''" "rm \<noteq> Some ''PUT''"
    using rt(2) assms(6,7) by (auto simp: route_fits_def allowScope_def split: if_splits)
  moreover have "(rm, pat, h) \<in> set program_routes"
    using route_table_static [OF rt(1)] assms(5) by (auto simp: public_handlers_def)
  moreover from this have "rm \<in> set [Some ''GET'', Some ''POST'', Some ''PUT'']" "h = ''handleConsentStart'' \<longrightarrow> pat = ''/api/consent/start/{id}''"
    using table_methods by (auto simp: list_all_iff)
  ultimately show ?thesis using assms(5) by (auto simp: read_handlers_def intro!: image_eqI [of _ _ "(rm, pat, h)"])
qed

text \<open>
  C15: every route is guarded. Whatever the request and however its path is escaped, when the router chooses the handler of a
  route other than those of the login page, the language, the health check, the consent callback and the static files, that
  handler is only called for a principal who is proved by an unexpired session or by the API token of an existing user and
  whose scope allows the request; with the scope for reading these are only routes of GET, without the start of a consent.
  Otherwise the answer is \<open>403\<close>, \<open>401\<close> or the redirect to the login page, and users, tokens, tenants and jobs are as they were.
\<close>

theorem Router_guards:
  assumes "chi_ok chi" "path_of raw (r_Path r)" "chi (route_table static) (r_Method r) raw = Some h" "h \<notin> set public_handlers"
    and "Router chi static handlers raw r w = (x, w')"
  shows "(\<exists>p w1. authentic r p w \<and> allowScope r p \<and> (p_Scope p = ''read'' \<longrightarrow> h \<in> set read_handlers) \<and> same_users w w1
        \<and> handlers h (Some p) w1 = (x, w'))
    \<or> (x \<in> {Inr (HttpError ''forbidden'' 403), Inr (HttpError ''unauthorized'' 401), Inr (Redirect ''/login'')} \<and> same_users w w')"
proof -
  have "\<not> public_path (r_Path r)" using route_guarded [OF assms(1-4)] .
  moreover have "Middleware (handlers h) r w = (x, w')" using assms(3,5) by (simp add: Router_def)
  ultimately show ?thesis
    using Middleware_guards [of r "handlers h" w x w'] route_read [OF assms(1) _ assms(2-4)] by (auto simp: path_of_def)
qed

section \<open>A concrete router\<close>

text \<open>The first route that fits segment by segment.\<close>

fun segs_fit :: "string list \<Rightarrow> string list \<Rightarrow> bool" where
  "segs_fit [] [] = True"
| "segs_fit (p # ps) (s # ss) =
     (p = ''*'' \<or> (if take 1 p = ''{'' then s \<noteq> [] else p = s) \<and> segs_fit ps ss)"
| "segs_fit _ _ = False"

definition first_route :: chi where
  "first_route routes m path =
     (case filter (\<lambda>rt. route_fits m path rt \<and> segs_fit (strings_Split slash (fst (snd rt))) (strings_Split slash path)) routes of
        [] \<Rightarrow> None
      | rt # _ \<Rightarrow> Some (snd (snd rt)))"

lemma first_route_ok: "chi_ok first_route"
  by (auto simp: chi_ok_def first_route_def filter_eq_Cons_iff split: list.splits)

theorem Router_guards_witness:
  "first_route (route_table True) ''GET'' ''/tenants/t%31'' = Some ''handleTenantDetail''
   \<and> (\<exists>w' p w1. Router first_route True (\<lambda>h p. ret (Page h ())) ''/tenants/t%31'' (demo_request ''/tenants/t1'' [] [(''session'', ''cookie'')]) demo_ops
        = (Inr (Page ''handleTenantDetail'' ()), w')
      \<and> authentic (demo_request ''/tenants/t1'' [] [(''session'', ''cookie'')]) p demo_ops \<and> same_users demo_ops w1)"
proof -
  let ?r = "demo_request ''/tenants/t1'' [] [(''session'', ''cookie'')]"
  have route: "first_route (route_table True) ''GET'' ''/tenants/t%31'' = Some ''handleTenantDetail''" by code_simp
  have raw: "path_of ''/tenants/t%31'' (r_Path ?r)" by code_simp
  have "r_Method ?r = ''GET''" by (simp add: demo_request_def)
  then have route': "first_route (route_table True) (r_Method ?r) ''/tenants/t%31'' = Some ''handleTenantDetail''" using route by simp
  have inner: "''handleTenantDetail'' \<notin> set public_handlers" by code_simp
  have guarded: "\<not> public_path (r_Path ?r)" and nobearer: "bearer ?r = None" by code_simp+
  have ck: "map_of (r_Cookies ?r) ''session'' = Some ''cookie''" by (simp add: demo_request_def)
  have valid: "Valid ''cookie'' demo_ops = (Inr (Some \<lparr>p_UserID = ''u1'', p_Username = ''admin'', p_Scope = ''write'', p_Via = ''session''\<rparr>), demo_ops)"
    by (simp add: Valid_def io_simps demo_ops_def)
  have "\<exists>w'. Router first_route True (\<lambda>h p. ret (Page h ())) ''/tenants/t%31'' ?r demo_ops = (Inr (Page ''handleTenantDetail'' ()), w')"
    using guarded nobearer route'
    by (simp add: Router_def Middleware_def principalFromRequest_def session_principal_def ck valid bindE_def ret_def allowScope_def)
  then obtain w' where w': "Router first_route True (\<lambda>h p. ret (Page h ())) ''/tenants/t%31'' ?r demo_ops = (Inr (Page ''handleTenantDetail'' ()), w')" by blast
  show ?thesis using Router_guards [OF first_route_ok raw route' inner w'] route w' by auto
qed

end
