(* ===== verification/Startup.thy ===== *)
theory Startup
  imports Api Server
begin

text \<open>
  The start of the server: the configuration (\<open>internal/config/config.go\<close>), the opening of the database with its
  migrations (\<open>internal/db/db.go\<close>) and the steps of \<open>main\<close> (\<open>cmd/server/main.go\<close>) up to the HTTP server.

  The environment variables are a function \<open>env\<close>. Parameters are the time zones of the host, \<open>time.ParseDuration\<close>, the
  text of a data source name of the MySQL driver and which such texts it accepts, the verb \<open>%q\<close>, and the embedded migration files.
\<close>

section \<open>Configuration\<close>

record Config =
  cfg_HTTPAddr :: string
  cfg_PublicBaseURL :: string
  cfg_DBDriver :: string
  cfg_DatabasePath :: string
  cfg_MySQLDSN :: string
  cfg_StoreRoot :: string
  cfg_StagingRoot :: string
  cfg_MasterKey :: string
  cfg_AdminUser :: string
  cfg_AdminPassword :: string
  cfg_MaxConcurrentJobs :: int
  cfg_MaxConcurrentFull :: int
  cfg_JobStallTimeout :: int
  cfg_ExchangeWorkers :: int
  cfg_DisplayTZ :: string
  cfg_SMTPHost :: string
  cfg_SMTPPort :: int
  cfg_SMTPUsername :: string
  cfg_SMTPPassword :: string
  cfg_SMTPFrom :: string
  cfg_SMTPTo :: "string list"

record mysql_config =
  mc_User :: string
  mc_Passwd :: string
  mc_Net :: string
  mc_Addr :: string
  mc_DBName :: string
  mc_ParseTime :: bool
  mc_Params :: "(string \<times> string) list"

record host =
  h_Getenv :: "string \<Rightarrow> string"
  h_LoadLocation :: "string \<Rightarrow> goerr option"
  h_ParseDuration :: "string \<Rightarrow> int option"
  h_FormatDSN :: "mysql_config \<Rightarrow> string"
  h_sql_Open :: "string \<Rightarrow> goerr option"
  h_Quote :: "string \<Rightarrow> string"

definition getenv :: "host \<Rightarrow> string \<Rightarrow> string \<Rightarrow> string" where
  "getenv h k def = (let v = h_Getenv h k in if v \<noteq> [] then v else def)"

fun getenvFirst :: "host \<Rightarrow> string list \<Rightarrow> string \<Rightarrow> string" where
  "getenvFirst h [] def = def"
| "getenvFirst h (k # ks) def = (let v = h_Getenv h k in if v \<noteq> [] then v else getenvFirst h ks def)"

definition displayTZName :: "host \<Rightarrow> string" where
  "displayTZName h =
     (if h_Getenv h ''DISPLAY_TZ'' \<noteq> [] then h_Getenv h ''DISPLAY_TZ''
      else if h_Getenv h ''TZ'' \<noteq> [] then h_Getenv h ''TZ'' else ''Europe/Berlin'')"

definition getenvInt :: "host \<Rightarrow> string \<Rightarrow> int \<Rightarrow> int" where
  "getenvInt h k def =
     (let v = h_Getenv h k in if v = [] then def else (case strconv_Atoi v of (n, err) \<Rightarrow> if err then def else n))"

definition getenvDuration :: "host \<Rightarrow> string \<Rightarrow> int \<Rightarrow> int" where
  "getenvDuration h k def =
     (let v = strings_TrimSpace (strings_ToLower (h_Getenv h k)); minute = 60 * ns_per_sec
      in if v = [] then def
         else if v \<in> {''0'', ''off'', ''false'', ''disable'', ''disabled''} then 0
         else (case h_ParseDuration h v of None \<Rightarrow> def | Some d \<Rightarrow> if d > 0 \<and> d < minute then minute else d))"

definition splitComma :: "string \<Rightarrow> string list" where
  "splitComma s = filter (\<lambda>p. p \<noteq> []) (map strings_TrimSpace (strings_Split (CHR '','') s))"

definition normalizeAdminUser :: "string \<Rightarrow> string" where
  "normalizeAdminUser s0 =
     (let s = strings_ToLower (strings_TrimSpace s0)
      in if length s < 3 \<or> length s > 64 then []
         else if list_all (\<lambda>c. (CHR ''a'' \<le> c \<and> c \<le> CHR ''z'') \<or> is_digit c \<or> c = CHR ''_'' \<or> c = CHR ''-'') s then s else [])"

definition buildMySQLDSN :: "host \<Rightarrow> string" where
  "buildMySQLDSN h =
     (let user = h_Getenv h ''MYSQL_USER''; name = h_Getenv h ''MYSQL_DATABASE''
      in if user = [] \<or> name = [] then []
         else h_FormatDSN h \<lparr>mc_User = user, mc_Passwd = h_Getenv h ''MYSQL_PASSWORD'', mc_Net = ''tcp'',
                mc_Addr = getenv h ''MYSQL_HOST'' ''127.0.0.1'' @ '':'' @ getenv h ''MYSQL_PORT'' ''3306'', mc_DBName = name,
                mc_ParseTime = True, mc_Params = [(''charset'', ''utf8mb4'')]\<rparr>)"

definition read_config :: "host \<Rightarrow> Config" where
  "read_config h =
     \<lparr>cfg_HTTPAddr = getenv h ''HTTP_ADDR'' '':8080'',
      cfg_PublicBaseURL = strings_TrimRight (getenv h ''PUBLIC_BASE_URL'' ''http://localhost:8080'') slash,
      cfg_DBDriver = strings_ToLower (getenv h ''DB_DRIVER'' ''sqlite''),
      cfg_DatabasePath = getenv h ''DATABASE_PATH'' ''./data/m365backup.db'', cfg_MySQLDSN = h_Getenv h ''MYSQL_DSN'',
      cfg_StoreRoot = getenvFirst h [''STORE_ROOT'', ''KOPIA_ROOT''] ''./data/store'',
      cfg_StagingRoot = getenv h ''STAGING_ROOT'' ''./data/staging'', cfg_MasterKey = h_Getenv h ''MASTER_KEY'',
      cfg_AdminUser = getenv h ''ADMIN_USER'' ''m365adminuser'', cfg_AdminPassword = h_Getenv h ''ADMIN_PASSWORD'',
      cfg_MaxConcurrentJobs = getenvInt h ''MAX_CONCURRENT_JOBS'' 2, cfg_MaxConcurrentFull = getenvInt h ''MAX_CONCURRENT_FULL_JOBS'' 1,
      cfg_JobStallTimeout = getenvDuration h ''JOB_STALL_TIMEOUT'' (2 * ns_per_hour),
      cfg_ExchangeWorkers = getenvInt h ''EXCHANGE_WORKERS'' 3, cfg_DisplayTZ = displayTZName h,
      cfg_SMTPHost = h_Getenv h ''SMTP_HOST'', cfg_SMTPPort = getenvInt h ''SMTP_PORT'' 587,
      cfg_SMTPUsername = h_Getenv h ''SMTP_USERNAME'', cfg_SMTPPassword = h_Getenv h ''SMTP_PASSWORD'', cfg_SMTPFrom = h_Getenv h ''SMTP_FROM'',
      cfg_SMTPTo = (if h_Getenv h ''SMTP_TO'' \<noteq> [] then splitComma (h_Getenv h ''SMTP_TO'') else [])\<rparr>"

definition limit_config :: "Config \<Rightarrow> Config" where
  "limit_config c =
     c\<lparr>cfg_MaxConcurrentJobs := (if cfg_MaxConcurrentJobs c < 1 then 1 else cfg_MaxConcurrentJobs c),
       cfg_ExchangeWorkers := (if cfg_ExchangeWorkers c < 1 then 3 else if cfg_ExchangeWorkers c > 32 then 32 else cfg_ExchangeWorkers c),
       cfg_MaxConcurrentFull := (if cfg_MaxConcurrentFull c < 1 then 1 else cfg_MaxConcurrentFull c)\<rparr>"

definition database_config :: "host \<Rightarrow> Config \<Rightarrow> Config result" where
  "database_config h c =
     (if cfg_DBDriver c = ''mysql'' \<or> cfg_DBDriver c = ''mariadb'' then
        (let dsn = (if cfg_MySQLDSN c = [] then buildMySQLDSN h else cfg_MySQLDSN c)
         in if dsn = [] then Inl (Err ''for DB_DRIVER=mysql set MYSQL_DSN or MYSQL_USER/MYSQL_PASSWORD/MYSQL_HOST/MYSQL_DATABASE'')
            else Inr (c\<lparr>cfg_DBDriver := ''mysql'', cfg_MySQLDSN := dsn\<rparr>))
      else Inr c)"

definition Load :: "host \<Rightarrow> Config result" where
  "Load h =
     (let cfg = read_config h; user = normalizeAdminUser (cfg_AdminUser cfg)
      in case h_LoadLocation h (cfg_DisplayTZ cfg) of
           Some e \<Rightarrow> Inl (Wrap (''DISPLAY_TZ '' @ h_Quote h (cfg_DisplayTZ cfg)) e)
         | None \<Rightarrow>
             (if cfg_MasterKey cfg = [] then Inl (Err ''MASTER_KEY is required (openssl rand -base64 32)'')
              else if user = [] then Inl (Err (''ADMIN_USER is invalid (use letters, digits, _ or -, 3'' @ [CHR 0xE2, CHR 0x80, CHR 0x93] @ ''64 chars)''))
              else if length (cfg_AdminPassword cfg) < 8 then Inl (Err ''ADMIN_PASSWORD is required (min 8 characters)'')
              else database_config h (limit_config (cfg\<lparr>cfg_AdminUser := user\<rparr>))))"

section \<open>The database\<close>

text \<open>
  \<open>schema_migrations\<close> is the table of that name; \<open>schema_log\<close> are the statements of migrations that took effect, in order.
\<close>

record boot_world = usage_world +
  schema_migrations :: "int list"
  schema_log :: "string list"

definition migration_versions :: "bool \<Rightarrow> (int \<times> string) list" where
  "migration_versions mysql =
     map (\<lambda>(n, f). (n, (if mysql then ''migrations/mysql'' else ''migrations/sqlite'') @ f))
       [(1, ''/001_init.sql''), (2, ''/002_job_logs.sql''), (3, ''/003_job_progress.sql''), (4, ''/004_retention.sql''),
        (5, ''/005_usage_cache.sql''), (6, ''/006_job_params.sql''), (7, ''/007_users.sql''), (8, ''/008_job_active_lock.sql''),
        (9, ''/009_catalog.sql''), (10, ''/010_store_rename.sql'')]"

fun apply_stmts :: "int \<Rightarrow> string list \<Rightarrow> ('w boot_world_scheme, unit) io" where
  "apply_stmts n [] = ret ()"
| "apply_stmts n (stmt # stmts) =
     attempt (exec (\<lambda>w. w\<lparr>schema_log := schema_log w @ [stmt]\<rparr>)) (\<lambda>x. case x of
       Inl e \<Rightarrow>
         (if isDuplicateColumnErr e \<or> isDuplicateIndexErr e then apply_stmts n stmts
          else throw (Err (''apply migration '' @ show_int n @ '': '' @ err_text e @ [CHR 0x0A] @ ''stmt: '' @ Database.truncate stmt 120)))
     | Inr _ \<Rightarrow> apply_stmts n stmts)"

text \<open>
  The end of a transaction that does not commit. SQLite takes the whole transaction back; MySQL commits every statement
  that changes the schema at once, and what follows it.
\<close>

definition rollback :: "bool \<Rightarrow> 'w boot_world_scheme \<Rightarrow> 'w boot_world_scheme \<Rightarrow> 'w boot_world_scheme" where
  "rollback mysql w0 w =
     (if mysql then w else w\<lparr>schema_log := schema_log w0, schema_migrations := schema_migrations w0\<rparr>)"

definition migrate_one :: "bool \<Rightarrow> (string \<Rightarrow> string result) \<Rightarrow> int \<times> string \<Rightarrow> ('w boot_world_scheme, unit) io" where
  "migrate_one mysql mf v =
     (case v of (n, path) \<Rightarrow>
        bindE (query (\<lambda>w. n \<in> set (schema_migrations w))) (\<lambda>have.
          if have then ret ()
          else (case mf path of
              Inl e \<Rightarrow> throw (Wrap (''read migration '' @ show_int n) e)
            | Inr body \<Rightarrow>
                bindE access (\<lambda>_.
                bindE (gets id) (\<lambda>w0.
                attempt (apply_stmts n (splitSQL body)) (\<lambda>x. case x of
                  Inl e \<Rightarrow> bindE (modify (rollback mysql w0)) (\<lambda>_. throw e)
                | Inr _ \<Rightarrow>
                    attempt (exec (\<lambda>w. w\<lparr>schema_migrations := schema_migrations w @ [n]\<rparr>)) (\<lambda>y. case y of
                      Inl e \<Rightarrow> bindE (modify (rollback mysql w0)) (\<lambda>_. throw e)
                    | Inr _ \<Rightarrow>
                        attempt access (\<lambda>z. case z of
                          Inl e \<Rightarrow> bindE (modify (rollback mysql w0)) (\<lambda>_. throw e)
                        | Inr _ \<Rightarrow> ret ()))))))))"

definition migrate :: "bool \<Rightarrow> (string \<Rightarrow> string result) \<Rightarrow> ('w boot_world_scheme, unit) io" where
  "migrate mysql mf = bindE access (\<lambda>_. for_each (migration_versions mysql) (migrate_one mysql mf))"

text \<open>At most \<open>n\<close> further tries, a second apart.\<close>

fun ping_loop :: "nat \<Rightarrow> ('w boot_world_scheme, unit) io" where
  "ping_loop 0 = ret ()"
| "ping_loop (Suc n) =
     attempt access (\<lambda>x. case x of
       Inr _ \<Rightarrow> ret ()
     | Inl e \<Rightarrow>
         (if n = 0 then throw (Wrap ''mysql ping'' e)
          else bindE (modify (\<lambda>w. w\<lparr>clock := clock w + ns_per_sec\<rparr>)) (\<lambda>_. ping_loop n)))"

definition mysql_dsn :: "string \<Rightarrow> string" where
  "mysql_dsn dsn =
     (if strings_Contains dsn ''parseTime'' then dsn
      else dsn @ (if strings_Contains dsn ''?'' then ''&'' else ''?'') @ ''parseTime=true&loc=UTC'')"

definition openSQLite :: "(string \<Rightarrow> string result) \<Rightarrow> string \<Rightarrow> ('w boot_world_scheme, unit) io" where
  "openSQLite mf path =
     (if path = [] then throw (Err ''DATABASE_PATH is required for sqlite'')
      else bindE (os_MkdirAll (filepath_Dir path)) (\<lambda>_. bindE access (\<lambda>_. migrate False mf)))"

definition openMySQL :: "host \<Rightarrow> (string \<Rightarrow> string result) \<Rightarrow> string \<Rightarrow> ('w boot_world_scheme, unit) io" where
  "openMySQL h mf dsn =
     (if dsn = [] then throw (Err ''MYSQL_DSN or MYSQL_* settings are required for mysql'')
      else (case h_sql_Open h (mysql_dsn dsn) of
          Some e \<Rightarrow> throw e
        | None \<Rightarrow> bindE (ping_loop 30) (\<lambda>_. migrate True mf)))"

definition db_Open :: "host \<Rightarrow> (string \<Rightarrow> string result) \<Rightarrow> Config \<Rightarrow> ('w boot_world_scheme, unit) io" where
  "db_Open h mf c =
     (if cfg_DBDriver c = ''mysql'' \<or> cfg_DBDriver c = ''mariadb'' then openMySQL h mf (cfg_MySQLDSN c)
      else if cfg_DBDriver c = ''sqlite'' \<or> cfg_DBDriver c = [] then openSQLite mf (cfg_DatabasePath c)
      else throw (Err (''unsupported DB_DRIVER '' @ h_Quote h (cfg_DBDriver c) @ '' (use sqlite or mysql)'')))"

section \<open>The start\<close>

definition TryRunnerLock :: "string \<Rightarrow> ('w run_world_scheme, unit) io" where
  "TryRunnerLock path =
     bindE access (\<lambda>_.
     bindE (gets (\<lambda>w. path \<in> fst ` set (flocks w))) (\<lambda>held.
       if held then throw (Err (''another m365-backup instance already holds '' @ path))
       else modify (\<lambda>w. w\<lparr>flocks := (path, None) # flocks w\<rparr>)))"

definition server_notifier :: "Config \<Rightarrow> NotifyService" where
  "server_notifier c =
     \<lparr>sv_SMTPHost = cfg_SMTPHost c, sv_SMTPPort = cfg_SMTPPort c, sv_SMTPUser = cfg_SMTPUsername c, sv_SMTPPassword = cfg_SMTPPassword c,
      sv_SMTPFrom = cfg_SMTPFrom c, sv_SMTPTo = cfg_SMTPTo c\<rparr>"

definition config_runner where
  "config_runner c mgr env =
     server_runner mgr (server_notifier c) (cfg_StagingRoot c) (cfg_MaxConcurrentJobs c) (cfg_MaxConcurrentFull c) (cfg_ExchangeWorkers c) env"

text \<open>The parts that are not the program: the host, the embedded files, and what the handlers need (see theory \<open>Api\<close>).\<close>

record 'w boot_env =
  be_host :: host
  be_files :: "string \<Rightarrow> string result"
  be_server :: "'w server_env"
  be_bcrypt :: bcrypt
  be_cron_ok :: "string \<Rightarrow> bool"
  be_usage_codec :: usage_codec
  be_num_text :: "string \<Rightarrow> string option"
  be_rfc3339 :: "string \<Rightarrow> gotime option"

definition boot_server where
  "boot_server be c mgr =
     \<lparr>srv_Tenants = mgr, srv_Runner = config_runner c mgr (be_server be), srv_MasterKey = cfg_MasterKey c,
      srv_PublicBaseURL = cfg_PublicBaseURL c, srv_StagingRoot = cfg_StagingRoot c, srv_Notifier = server_notifier c,
      srv_bcrypt = be_bcrypt be, srv_cron_ok = be_cron_ok be, srv_codec = se_codec (be_server be), srv_usage_codec = be_usage_codec be,
      srv_num_text = be_num_text be, srv_rfc3339 = be_rfc3339 be, srv_archive = se_archive (be_server be)\<rparr>"

text \<open>The memory of a new process: sessions, failed logins, tracked jobs, entries of the scheduler, jobs of the runner.\<close>

definition new_process :: "'w usage_world_scheme \<Rightarrow> 'w usage_world_scheme" where
  "new_process w =
     w\<lparr>pending := [], seen := [], cancels := [], cancelled := [], spawned := [], sessions := [], attempts := [], track := [],
       cron_entries := [], cron_next := 1, entryIDs := [], usage_running := False\<rparr>"

text \<open>Every error ends the process with exit code 1. The templates and the static files are embedded.\<close>

definition server_main where
  "server_main be =
     bindE (modify new_process) (\<lambda>_.
     bindE (from_result (Load (be_host be))) (\<lambda>c.
     bindE (from_result (cipher_New (cfg_MasterKey c))) (\<lambda>key.
     bindE (db_Open (be_host be) (be_files be) c) (\<lambda>_.
     bindE (for_each [cfg_StoreRoot c, cfg_StagingRoot c] os_MkdirAll) (\<lambda>_.
     bindE (TryRunnerLock (path_Join [cfg_StoreRoot c, ''.runner.lock''])) (\<lambda>_.
       (let mgr = \<lparr>mg_Cipher = key, mg_StoreRoot = cfg_StoreRoot c, mg_BaseURL = cfg_PublicBaseURL c\<rparr>
        in bindE (RebaseAllStorePaths mgr) (\<lambda>_.
           bindE (RecoverOrphans (config_runner c mgr (be_server be))) (\<lambda>_.
           bindE (Scheduler_Start (be_cron_ok be)) (\<lambda>_.
           bindE (EnsureBootstrapAuth (be_bcrypt be) (cfg_AdminUser c) (cfg_AdminPassword c)) (\<lambda>_.
             ret (boot_server be c mgr, NewWatchdog (5 * 60 * ns_per_sec) (cfg_JobStallTimeout c)))))))))))))"

end
