(* ===== verification/Startup_Props.thy ===== *)
theory Startup_Props
  imports Startup Api_Isolation
begin

text \<open>
  Properties of the start: the limits of a configuration, migrations that are interrupted and resumed, a second instance,
  and the state in which the server begins to serve.
\<close>

section \<open>Migrations\<close>

text \<open>No failure that the driver reports as a duplicate column or index.\<close>

definition no_dup :: "goerr option list \<Rightarrow> bool" where
  "no_dup fs = list_all (\<lambda>f. case f of None \<Rightarrow> True | Some e \<Rightarrow> \<not> isDuplicateColumnErr e \<and> \<not> isDuplicateIndexErr e) fs"

lemma wp_access_nd:
  assumes "no_dup (faults w)" "\<And>fs. no_dup fs \<Longrightarrow> Q (Inr ()) (w\<lparr>faults := fs\<rparr>)" "\<And>e fs. no_dup fs \<Longrightarrow> Q (Inl e) (w\<lparr>faults := fs\<rparr>)"
  shows "wp access Q w"
proof (cases "faults w")
  case Nil
  then show ?thesis using assms(2) [of "[]", unfolded same_faults [OF Nil]] by (simp add: wp_def no_dup_def)
next
  case (Cons f fs)
  then show ?thesis using assms by (cases f) (simp_all add: wp_def access_def no_dup_def)
qed

lemma wp_exec_nd:
  assumes "no_dup (faults w)" "\<And>fs. no_dup fs \<Longrightarrow> Q (Inr ()) (f (w\<lparr>faults := fs\<rparr>))" "\<And>e fs. no_dup fs \<Longrightarrow> Q (Inl e) (w\<lparr>faults := fs\<rparr>)"
  shows "wp (exec f) Q w"
  using assms by (auto simp: exec_def wp_simps intro!: wp_access_nd)

lemma wp_query_nd:
  assumes "no_dup (faults w)" "\<And>fs. no_dup fs \<Longrightarrow> Q (Inr (f (w\<lparr>faults := fs\<rparr>))) (w\<lparr>faults := fs\<rparr>)" "\<And>e fs. no_dup fs \<Longrightarrow> Q (Inl e) (w\<lparr>faults := fs\<rparr>)"
  shows "wp (query f) Q w"
  using assms by (auto simp: query_def wp_simps intro!: wp_access_nd)

definition migration_stmts :: "(string \<Rightarrow> string result) \<Rightarrow> int \<times> string \<Rightarrow> string list" where
  "migration_stmts mf v = (case mf (snd v) of Inr body \<Rightarrow> splitSQL body | Inl _ \<Rightarrow> [])"

lemma wp_exec_stmt:
  assumes "no_dup (faults w)" "\<And>fs. no_dup fs \<Longrightarrow> Q (Inr ()) (f (w\<lparr>faults := fs\<rparr>))"
    "\<And>e fs. no_dup fs \<Longrightarrow> \<not> isDuplicateColumnErr e \<Longrightarrow> \<not> isDuplicateIndexErr e \<Longrightarrow> Q (Inl e) (w\<lparr>faults := fs\<rparr>)"
  shows "wp (exec f) Q w"
proof (cases "faults w")
  case Nil
  then show ?thesis using assms(2) [of "[]", unfolded same_faults [OF Nil]] by (simp add: exec_def wp_def io_simps no_dup_def)
next
  case (Cons f fs)
  then show ?thesis using assms by (cases f) (simp_all add: wp_def exec_def io_simps access_def no_dup_def)
qed

lemma wp_apply_stmts:
  assumes "no_dup (faults w)"
    and "\<And>fs. no_dup fs \<Longrightarrow> Q (Inr ()) (w\<lparr>faults := fs, schema_log := schema_log w @ ss\<rparr>)"
    and "\<And>e fs l. no_dup fs \<Longrightarrow> Q (Inl e) (w\<lparr>faults := fs, schema_log := schema_log w @ l\<rparr>)"
  shows "wp (apply_stmts n ss) Q w"
  using assms
proof (induction ss arbitrary: w)
  case Nil
  then show ?case using Nil.prems(2) [of "faults w"] by (simp add: wp_ret)
next
  case (Cons s ss)
  show ?case
    unfolding apply_stmts.simps wp_attempt
  proof (rule wp_exec_stmt [OF Cons.prems(1)], goal_cases)
    case (1 fs)
    show ?case using 1 Cons.prems(2) Cons.prems(3) [of _ _ "s # l" for l] by (auto intro!: Cons.IH)
  next
    case (2 e fs)
    then show ?case using Cons.prems(3) [of fs _ "[]"] by (simp add: wp_throw)
  qed
qed

text \<open>The first \<open>k\<close> of the migrations \<open>vs\<close> have been applied, each of their statements once and in order, and nothing else.\<close>

definition schema_at :: "(string \<Rightarrow> string result) \<Rightarrow> (int \<times> string) list \<Rightarrow> nat \<Rightarrow> 'w boot_world_scheme \<Rightarrow> bool" where
  "schema_at mf vs k w =
     (k \<le> length vs \<and> schema_migrations w = map fst (take k vs) \<and> schema_log w = concat (map (migration_stmts mf) (take k vs)))"

lemma wp_migrate_one:
  assumes "no_dup (faults w)"
  shows "wp (migrate_one False mf (n, p)) (\<lambda>r w'. \<exists>fs. no_dup fs \<and>
      (if r = Inr () \<and> n \<notin> set (schema_migrations w)
       then w' = w\<lparr>faults := fs, schema_log := schema_log w @ migration_stmts mf (n, p), schema_migrations := schema_migrations w @ [n]\<rparr>
       else w' = w\<lparr>faults := fs\<rparr>)) w"
  unfolding migrate_one_def prod.case wp_bindE [of "query f" for f]
  using assms
  by (rule wp_query_nd)
    (auto simp: wp_simps rollback_def migration_stmts_def split: sum.split intro!: wp_access_nd wp_exec_nd wp_apply_stmts,
      (intro exI conjI, assumption, simp)+)

lemma migrate_one_undisturbed:
  assumes "faults w = []" "mf p = Inr b"
  shows "\<exists>w'. migrate_one False mf (n, p) w = (Inr (), w') \<and> faults w' = []"
proof -
  have stmts: "\<exists>w'. apply_stmts n ss w1 = (Inr (), w') \<and> faults w' = []" if "faults w1 = []" for ss and w1 :: "'a boot_world_scheme"
    using that by (induction ss arbitrary: w1) (simp_all add: io_simps)
  obtain w1 where "apply_stmts n (splitSQL b) w = (Inr (), w1)" "faults w1 = []" using stmts [OF assms(1)] by blast
  then show ?thesis using assms by (simp add: migrate_one_def io_simps)
qed

lemma wp_migrate_list:
  assumes "distinct (map fst vs)" "vs = before @ rest" "length before \<le> k" "schema_at mf vs k w" "no_dup (faults w)"
  shows "wp (for_each rest (migrate_one False mf)) (\<lambda>r w'. \<exists>k'. schema_at mf vs k' w' \<and> (r = Inr () \<longrightarrow> k' = length vs)) w"
  using assms(2-5)
proof (induction rest arbitrary: before k w)
  case Nil
  then show ?case by (auto simp: wp_ret schema_at_def intro!: exI [of _ k])
next
  case (Cons v rest)
  obtain n p where v: "v = (n, p)" by fastforce
  obtain m where k: "k = length before + m" using Cons.prems(2) le_iff_add by blast
  have new: "n \<in> set (schema_migrations w) \<longleftrightarrow> m \<noteq> 0"
    using Cons.prems(1,3) v assms(1) k by (cases m) (auto simp: schema_at_def)
  have next_before: "vs = (before @ [v]) @ rest" using Cons.prems(1) by simp
  show ?case
    unfolding for_each.simps wp_bindE v
  proof (rule wp_mono [OF wp_migrate_one [OF Cons.prems(4)]], elim exE conjE, goal_cases)
    case (1 r w' fs)
    show ?case
    proof (cases "r = Inr ()")
      case False
      then have "schema_at mf vs k w'" using 1 Cons.prems(3) by (simp add: schema_at_def)
      then show ?thesis using False by (cases r) auto
    next
      case ok: True
      show ?thesis
      proof (cases "m = 0")
        case True
        have "schema_at mf vs (Suc k) w'"
          using 1 Cons.prems(1,3) new True k v ok by (auto simp: schema_at_def)
        then have "wp (for_each rest (migrate_one False mf)) (\<lambda>r w'. \<exists>k'. schema_at mf vs k' w' \<and> (r = Inr () \<longrightarrow> k' = length vs)) w'"
          by (rule Cons.IH [OF next_before, rotated]) (use 1 new True k ok in auto)
        then show ?thesis using ok by simp
      next
        case False
        have "schema_at mf vs k w'" using 1 Cons.prems(3) new False by (auto simp: schema_at_def)
        then have "wp (for_each rest (migrate_one False mf)) (\<lambda>r w'. \<exists>k'. schema_at mf vs k' w' \<and> (r = Inr () \<longrightarrow> k' = length vs)) w'"
          by (rule Cons.IH [OF next_before, rotated]) (use 1 new False k in auto)
        then show ?thesis using ok by simp
      qed
    qed
  qed
qed

lemma versions_distinct: "distinct (map fst (migration_versions mysql))"
  by (simp add: migration_versions_def)

lemma migrate_list_undisturbed:
  assumes "faults w = []" "list_all (\<lambda>v. \<exists>b. mf (snd v) = Inr b) vs"
  shows "\<exists>w'. for_each vs (migrate_one False mf) w = (Inr (), w')"
  using assms
proof (induction vs arbitrary: w)
  case (Cons v vs)
  obtain n p b where v: "v = (n, p)" "mf p = Inr b" using Cons.prems(2) by (cases v) auto
  obtain w1 where "migrate_one False mf v w = (Inr (), w1)" "faults w1 = []"
    using migrate_one_undisturbed [OF Cons.prems(1), of mf p b n] v by auto
  then show ?case using Cons.IH [of w1] Cons.prems(2) by (simp add: bindE_def)
qed (simp add: ret_def)

text \<open>Starts of the server one after the other, each with its failures.\<close>

fun restarts :: "(string \<Rightarrow> string result) \<Rightarrow> goerr option list list \<Rightarrow> 'w boot_world_scheme \<Rightarrow> 'w boot_world_scheme" where
  "restarts mf [] w = w"
| "restarts mf (fs # fss) w = restarts mf fss (snd (migrate False mf (w\<lparr>faults := fs\<rparr>)))"

lemma migrate_schema:
  assumes "schema_at mf (migration_versions False) k w" "no_dup (faults w)"
  shows "wp (migrate False mf) (\<lambda>r w'. \<exists>k'. schema_at mf (migration_versions False) k' w' \<and> (r = Inr () \<longrightarrow> k' = length (migration_versions False))) w"
proof -
  have free: "schema_at mf (migration_versions False) k (w\<lparr>faults := fs\<rparr>)" for fs using assms(1) by (simp add: schema_at_def)
  show ?thesis
    unfolding migrate_def wp_bindE
    by (rule wp_access_nd [OF assms(2)])
      (use free in \<open>auto intro!: wp_migrate_list [OF versions_distinct, of _ "[]", simplified]\<close>)
qed

lemma restarts_schema:
  assumes "schema_at mf (migration_versions False) k w" "list_all no_dup fss"
  shows "\<exists>k'. schema_at mf (migration_versions False) k' (restarts mf fss w)"
  using assms
proof (induction fss arbitrary: k w)
  case (Cons fs fss)
  have "schema_at mf (migration_versions False) k (w\<lparr>faults := fs\<rparr>)" using Cons.prems(1) by (simp add: schema_at_def)
  from migrate_schema [OF this] obtain k' where "schema_at mf (migration_versions False) k' (snd (migrate False mf (w\<lparr>faults := fs\<rparr>)))"
    using Cons.prems(2) by (auto simp: wp_def)
  then show ?case using Cons by simp
qed auto

text \<open>
  C21: an interrupted migration is resumed. On SQLite, after any number of starts that failed at any step, from an empty
  database, a start without a failure succeeds, and then each statement of each of the ten migrations has been executed
  exactly once, in order. Errors about duplicate columns and indexes, which the code takes for statements that were
  executed before, do not occur on the way.
\<close>

theorem migrate_resumes:
  assumes "schema_migrations w = []" "schema_log w = []" "list_all no_dup fss"
    and "list_all (\<lambda>v. \<exists>b. mf (snd v) = Inr b) (migration_versions False)"
  shows "\<exists>w'. migrate False mf ((restarts mf fss w)\<lparr>faults := []\<rparr>) = (Inr (), w') \<and> schema_migrations w' = [1..10]
    \<and> schema_log w' = concat (map (migration_stmts mf) (migration_versions False))"
proof -
  let ?vs = "migration_versions False" and ?w = "(restarts mf fss w)\<lparr>faults := []\<rparr>"
  have "schema_at mf ?vs 0 w" using assms(1,2) by (simp add: schema_at_def)
  then obtain k where "schema_at mf ?vs k (restarts mf fss w)" using restarts_schema assms(3) by blast
  then have "schema_at mf ?vs k ?w" by (simp add: schema_at_def)
  moreover obtain w' where run: "migrate False mf ?w = (Inr (), w')"
    using migrate_list_undisturbed [of ?w mf ?vs] assms(4) by (auto simp: migrate_def bindE_def)
  ultimately have "schema_at mf ?vs (length ?vs) w'"
    using wpD [OF migrate_schema run] by (auto simp: no_dup_def)
  moreover have "map fst ?vs = [1..10]" by code_simp
  ultimately show ?thesis using run by (simp add: schema_at_def)
qed

section \<open>What survives the start\<close>

text \<open>
  A predicate on the world that a start does not destroy. \<open>open_frame\<close> is what the opening of the database and the directories
  need of it; \<open>start_frame\<close> adds what the steps after the lock of the instance do: tenants, schedules, the cron table.
\<close>

locale open_frame =
  fixes P :: "'w boot_world_scheme \<Rightarrow> bool"
  assumes next_fault: "P w \<Longrightarrow> P (w\<lparr>faults := tl (faults w)\<rparr>)"
    and any_time: "P w \<Longrightarrow> P (w\<lparr>clock := t\<rparr>)"
    and any_schema: "P w \<Longrightarrow> P (w\<lparr>schema_log := l, schema_migrations := m\<rparr>)"
begin

lemma survives_access: "keeps P access"
proof (rule keepsI)
  fix w
  assume "P w"
  moreover have "snd (access w) = w\<lparr>faults := tl (faults w)\<rparr>"
    by (cases "faults w") (auto simp: access_def split: option.split)
  ultimately show "P (snd (access w))" using next_fault by simp
qed

lemma survives_exec: "(\<And>w. P w \<Longrightarrow> P (f w)) \<Longrightarrow> keeps P (exec f)" "keeps P (query g)"
  "(\<And>w. P w \<Longrightarrow> P (f w)) \<Longrightarrow> keeps P (sql_guarded clash what f)"
  unfolding exec_def query_def sql_guarded_def by (auto intro!: keeps_rules survives_access keeps_modify)

lemma survives_MkdirAll: "keeps P (os_MkdirAll d)"
  by (simp add: os_MkdirAll_def survives_access)

lemma survives_log: "P w \<Longrightarrow> P (w\<lparr>schema_log := l\<rparr>)" "P w \<Longrightarrow> P (w\<lparr>schema_migrations := m\<rparr>)"
  using any_schema [of w, where m = "schema_migrations w"] any_schema [of w, where l = "schema_log w"] by simp_all

lemma survives_rollback: "P w \<Longrightarrow> P (rollback mysql w0 w)"
  using any_schema by (simp add: rollback_def)

lemma survives_apply_stmts: "keeps P (apply_stmts n ss)"
  by (induction ss) (auto intro!: keeps_rules survives_exec survives_log)

lemma survives_migrate: "keeps P (migrate mysql mf)"
  unfolding migrate_def migrate_one_def
  by (auto intro!: keeps_rules survives_access survives_exec survives_log survives_apply_stmts keeps_modify survives_rollback split: sum.split)

lemma survives_ping: "keeps P (ping_loop n)"
  by (induction n) (auto intro!: keeps_rules survives_access keeps_modify any_time)

lemma survives_Open: "keeps P (db_Open h mf c)"
  unfolding db_Open_def openSQLite_def openMySQL_def
  by (auto intro!: keeps_rules survives_MkdirAll survives_access survives_migrate survives_ping)

end

locale start_frame = open_frame +
  assumes any_files: "P w \<Longrightarrow> P (w\<lparr>files := d\<rparr>)"
    and any_uuid: "P w \<Longrightarrow> P (w\<lparr>uuid_next := n\<rparr>)"
    and any_lock: "P w \<Longrightarrow> P (w\<lparr>flocks := fl\<rparr>)"
    and any_tenants: "P w \<Longrightarrow> P (w\<lparr>tenants := ts, schedules := ss\<rparr>)"
    and any_cron: "P w \<Longrightarrow> P (w\<lparr>cron_entries := es, cron_next := k, entryIDs := ids\<rparr>)"
begin

lemma survives_rows: "P w \<Longrightarrow> P (w\<lparr>tenants := ts\<rparr>)" "P w \<Longrightarrow> P (w\<lparr>schedules := ss\<rparr>)"
  using any_tenants [of w, where ss = "schedules w"] any_tenants [of w, where ts = "tenants w"] by simp_all

lemma survives_entries:
  "P w \<Longrightarrow> P (w\<lparr>cron_entries := es\<rparr>)" "P w \<Longrightarrow> P (w\<lparr>entryIDs := ids\<rparr>)" "P w \<Longrightarrow> P (w\<lparr>cron_entries := es, cron_next := k\<rparr>)"
  using any_cron [of w, where k = "cron_next w" and ids = "entryIDs w"] any_cron [of w, where es = "cron_entries w" and k = "cron_next w"]
    any_cron [of w, where ids = "entryIDs w"]
  by simp_all

lemma survives_RemoveAll: "keeps P (os_RemoveAll d)"
proof -
  have "P w \<Longrightarrow> P (remove_files ps w)" for ps w
    unfolding remove_files_def by (induction ps arbitrary: w) (auto simp: del_file_def any_files)
  then show ?thesis unfolding os_RemoveAll_def by (auto intro!: keeps_rules survives_access keeps_modify split: sum.split)
qed

lemma survives_lock: "keeps P (TryRunnerLock p)"
  unfolding TryRunnerLock_def by (auto intro!: keeps_rules survives_access keeps_modify any_lock)

lemma survives_Rebase: "keeps P (RebaseAllStorePaths m)"
proof -
  have "keeps P (UpdateTenant t)" for t
    unfolding UpdateTenant_def by (auto intro!: keeps_rules survives_exec survives_rows)
  then have "keeps P (BindStorePath m t)" for t
    unfolding BindStorePath_def Let_def by (auto intro!: keeps_rules survives_MkdirAll)
  then have "keeps P (rebase_loop m ts n)" for ts n
    by (induction ts arbitrary: n) (auto intro!: keeps_rules)
  then show ?thesis
    unfolding RebaseAllStorePaths_def ListTenants_def by (auto intro!: keeps_rules survives_exec)
qed

lemma survives_Purge: "keeps P (PurgeStaging r)"
proof -
  have "keeps P (purge_loop r es)" for es
    by (induction es) (auto intro!: keeps_rules survives_RemoveAll split: sum.split)
  then show ?thesis unfolding PurgeStaging_def by (auto intro!: keeps_rules survives_exec split: sum.split)
qed

lemma survives_Scheduler: "keeps P (Scheduler_Start ok)"
proof -
  have add: "keeps P (cron_AddFunc ok spec f)" for spec f
    unfolding cron_AddFunc_def by (auto intro!: keeps_rules keeps_modify survives_entries)
  have "keeps P (add_schedules ok schs)" for schs
    by (induction schs) (auto intro!: keeps_rules keeps_modify survives_entries add)
  then have reload: "keeps P (Reload ok)"
    unfolding Reload_def cron_Remove_def ListAllSchedules_def by (auto intro!: keeps_rules keeps_modify survives_entries survives_exec)
  have "keeps P uuid_NewString" by (rule keepsI) (simp add: uuid_NewString_def any_uuid)
  then have "keeps P (CreateSchedule s)" for s
    unfolding CreateSchedule_def by (auto intro!: keeps_rules survives_exec survives_rows)
  then have "keeps P ensure_all"
    unfolding ensure_all_def EnsureDefaultSchedules_def create_schedules_def ListTenants_def ListSchedules_def Let_def
    by (auto intro!: keeps_rules survives_exec split: sum.split)
  then show ?thesis unfolding Scheduler_Start_def by (auto intro!: keeps_rules reload add)
qed

end

lemma wp_keeps_bind:
  assumes "keeps P m" "P w" "\<And>x w'. P w' \<Longrightarrow> wp (k x) Q w'" "\<And>e w'. P w' \<Longrightarrow> Q (Inl e) w'"
  shows "wp (bindE m k) Q w"
  unfolding wp_bindE by (rule wp_mono [OF wp_keeps [OF assms(1,2)]]) (use assms(3,4) in \<open>auto split: sum.split\<close>)

section \<open>A second instance\<close>

text \<open>All tables, and the locks on files.\<close>

definition stored where
  "stored w = ((tenants w, schedules w, jobs w, job_logs w), (delta_tokens w, catalog_items w, catalog_snapshots w, catalog_changes w),
     (users w, api_tokens w, notification_settings w, notification_log w), tenant_usage w, flocks w)"

interpretation tables: open_frame "\<lambda>w. stored w = X" for X
  by unfold_locales (simp_all add: stored_def)


section \<open>The state after the start\<close>

text \<open>No failure ahead and nobody logged in; and, after the recovery, no active job.\<close>

definition quiet :: "'w boot_world_scheme \<Rightarrow> bool" where
  "quiet w = (faults w = [] \<and> sessions w = [])"

definition idle :: "'w boot_world_scheme \<Rightarrow> bool" where
  "idle w = (quiet w \<and> list_all (\<lambda>j. \<not> active j) (jobs w))"

interpretation calm: start_frame quiet
  by unfold_locales (simp_all add: quiet_def)

interpretation rest: start_frame idle
  by unfold_locales (simp_all add: idle_def quiet_def)

lemma RecoverOrphans_idle:
  assumes "quiet w" "RecoverOrphans r w = (x, w')"
  shows "idle w'"
proof -
  define w1 where "w1 = w\<lparr>jobs := map (\<lambda>r. if active r then r\<lparr>j_Status := ''error'', j_ErrorMessage := ''interrupted by process restart'',
      j_ProgressMessage := ''interrupted by process restart'', j_FinishedAt := clock w\<rparr> else r) (jobs w)\<rparr>"
  have run: "PurgeStaging r w1 = (x, w')"
    using assms by (simp add: w1_def quiet_def RecoverOrphans_def FailOrphanedJobs_def io_simps)
  have "idle w1" using assms(1) by (auto simp: w1_def idle_def quiet_def list_all_iff active_def)
  then show ?thesis by (rule keepsD [OF rest.survives_Purge _ run])
qed

lemma EnsureBootstrapAuth_user:
  assumes "EnsureBootstrapAuth bc name pass w = (Inr x, w')"
  shows "jobs w' = jobs w \<and> sessions w' = sessions w \<and> (\<exists>u \<in> set (users w'). usr_Username u = name \<and> HashPassword bc pass = Inr (usr_PasswordHash u))"
proof -
  have "wp (EnsureBootstrapAuth bc name pass) (\<lambda>r w'. r = Inr x \<longrightarrow> jobs w' = jobs w \<and> sessions w' = sessions w
      \<and> (\<exists>u \<in> set (users w'). usr_Username u = name \<and> HashPassword bc pass = Inr (usr_PasswordHash u))) w"
    unfolding EnsureBootstrapAuth_def UpsertUser_def GetUserByUsername_def DeleteAPITokensByKind_def
    by (auto simp: wp_simps Let_def intro!: wp_intros dest!: first_in_table split: sum.split)
      (rule bexI [where x = "r\<lparr>usr_PasswordHash := h, usr_UpdatedAt := t\<rparr>" for r h t], auto)
  from wpD [OF this assms] show ?thesis by simp
qed

text \<open>
  C23: the state in which the server begins to serve. After a start without a failure no job is active, whatever the last
  process left behind, nobody is logged in, and the administrator of the configuration exists with the hash of the
  configured password. Configuration and runner are those of the environment.
\<close>

theorem server_ready:
  assumes "server_main be w = (Inr (sv, wd), w')" "faults w = []"
  shows "\<exists>c mgr. Load (be_host be) = Inr c \<and> sv = boot_server be c mgr \<and> list_all (\<lambda>j. \<not> active j) (jobs w') \<and> sessions w' = []
    \<and> (\<exists>u \<in> set (users w'). usr_Username u = cfg_AdminUser c \<and> HashPassword (be_bcrypt be) (cfg_AdminPassword c) = Inr (usr_PasswordHash u))"
proof -
  obtain c key w1 w2 w3 mgr w4 w5 w6 where c: "Load (be_host be) = Inr c" and sv: "sv = boot_server be c mgr"
    and steps: "db_Open (be_host be) (be_files be) c (new_process w) = (Inr (), w1)"
      "for_each [cfg_StoreRoot c, cfg_StagingRoot c] os_MkdirAll w1 = (Inr (), w2)"
      "TryRunnerLock (path_Join [cfg_StoreRoot c, ''.runner.lock'']) w2 = (Inr (), w3)"
      "\<exists>n. RebaseAllStorePaths mgr w3 = (Inr n, w4)" "\<exists>y. RecoverOrphans (config_runner c mgr (be_server be)) w4 = (Inr y, w5)"
      "Scheduler_Start (be_cron_ok be) w5 = (Inr (), w6)" "EnsureBootstrapAuth (be_bcrypt be) (cfg_AdminUser c) (cfg_AdminPassword c) w6 = (Inr (), w')"
    using assms(1) by (auto simp: server_main_def bindE_Inr Let_def modify_def from_result_def ret_def simp del: for_each.simps)
  have "quiet (new_process w)" using assms(2) by (simp add: quiet_def new_process_def)
  then have w1: "quiet w1" by (rule keepsD [OF calm.survives_Open _ steps(1)])
  have dirs: "keeps quiet (for_each [cfg_StoreRoot c, cfg_StagingRoot c] os_MkdirAll)"
    by (intro keeps_for_each calm.survives_MkdirAll)
  have "quiet w2" by (rule keepsD [OF dirs w1 steps(2)])
  then have "quiet w3" by (rule keepsD [OF calm.survives_lock _ steps(3)])
  then have "quiet w4" using steps(4) keepsD [OF calm.survives_Rebase] by blast
  then have "idle w5" using steps(5) RecoverOrphans_idle by blast
  then have "idle w6" by (rule keepsD [OF rest.survives_Scheduler _ steps(6)])
  then show ?thesis using c sv EnsureBootstrapAuth_user [OF steps(7)] by (auto simp: idle_def quiet_def)
qed

section \<open>The configuration\<close>

lemma database_config_same:
  assumes "database_config h c = Inr d"
  obtains drv dsn where "d = c\<lparr>cfg_DBDriver := drv, cfg_MySQLDSN := dsn\<rparr>" "drv = ''mysql'' \<longrightarrow> dsn \<noteq> []"
proof -
  have "d = c\<lparr>cfg_DBDriver := cfg_DBDriver d, cfg_MySQLDSN := cfg_MySQLDSN d\<rparr> \<and> (cfg_DBDriver d = ''mysql'' \<longrightarrow> cfg_MySQLDSN d \<noteq> [])"
    using assms by (auto simp: database_config_def Let_def split: if_splits)
  then show thesis by (elim conjE) (rule that)
qed

lemma Load_Inr:
  assumes "Load h = Inr c"
  obtains d drv dsn where "d = limit_config (read_config h\<lparr>cfg_AdminUser := normalizeAdminUser (cfg_AdminUser (read_config h))\<rparr>)"
    and "c = d\<lparr>cfg_DBDriver := drv, cfg_MySQLDSN := dsn\<rparr>" "drv = ''mysql'' \<longrightarrow> dsn \<noteq> []"
    and "cfg_MasterKey d \<noteq> []" "cfg_AdminUser d \<noteq> []" "8 \<le> length (cfg_AdminPassword d)"
proof -
  let ?d = "limit_config (read_config h\<lparr>cfg_AdminUser := normalizeAdminUser (cfg_AdminUser (read_config h))\<rparr>)"
  have ok: "database_config h ?d = Inr c" "cfg_MasterKey (read_config h) \<noteq> []" "normalizeAdminUser (cfg_AdminUser (read_config h)) \<noteq> []"
    "\<not> length (cfg_AdminPassword (read_config h)) < 8"
    using assms by (auto simp: Load_def Let_def split: option.splits if_splits)
  from ok(1) obtain drv dsn where "c = ?d\<lparr>cfg_DBDriver := drv, cfg_MySQLDSN := dsn\<rparr>" "drv = ''mysql'' \<longrightarrow> dsn \<noteq> []"
    by (rule database_config_same)
  then show thesis by (rule that [rotated]) (use ok in \<open>simp_all add: limit_config_def\<close>)
qed

lemma limit_config_ok:
  "1 \<le> cfg_MaxConcurrentJobs (limit_config c)" "1 \<le> cfg_MaxConcurrentFull (limit_config c)" "cfg_ExchangeWorkers (limit_config c) \<in> {1..32}"
  by (auto simp: limit_config_def)

lemma normalizeAdminUser_ok:
  "normalizeAdminUser s \<noteq> [] \<Longrightarrow> length (normalizeAdminUser s) \<in> {3..64}
     \<and> list_all (\<lambda>c. (CHR ''a'' \<le> c \<and> c \<le> CHR ''z'') \<or> is_digit c \<or> c = CHR ''_'' \<or> c = CHR ''-'') (normalizeAdminUser s)"
  by (auto simp: normalizeAdminUser_def Let_def split: if_splits)


text \<open>
  C38: the watchdog cannot be switched off. \<open>JOB_STALL_TIMEOUT=0\<close>, like \<open>off\<close> and \<open>false\<close>, gives a stall time of zero, which the
  documentation calls off; the watchdog that \<open>main\<close> makes of it stops jobs after two hours as if nothing had been set.
\<close>

theorem watchdog_stays_on:
  assumes "Load h = Inr c" "strings_TrimSpace (strings_ToLower (h_Getenv h ''JOB_STALL_TIMEOUT'')) \<in> {''0'', ''off'', ''false'', ''disable'', ''disabled''}"
  shows "cfg_JobStallTimeout c = 0 \<and> wd_Stall (NewWatchdog (5 * 60 * ns_per_sec) (cfg_JobStallTimeout c)) = 2 * ns_per_hour"
proof -
  from assms(1) obtain d drv dsn where d: "d = limit_config (read_config h\<lparr>cfg_AdminUser := normalizeAdminUser (cfg_AdminUser (read_config h))\<rparr>)"
    "c = d\<lparr>cfg_DBDriver := drv, cfg_MySQLDSN := dsn\<rparr>" by (rule Load_Inr)
  have "cfg_JobStallTimeout d = 0" using assms(2) by (auto simp: d(1) limit_config_def read_config_def getenvDuration_def Let_def)
  then have "cfg_JobStallTimeout c = 0" by (simp add: d(2))
  then show ?thesis by (simp add: NewWatchdog_def)
qed

section \<open>The first start\<close>

text \<open>\<open>runs P m\<close>: from every world with \<open>P\<close> the operation \<open>m\<close> returns a value, in a world with \<open>P\<close>.\<close>

named_theorems runs_rules \<open>operations that return a value\<close>

definition runs :: "('w \<Rightarrow> bool) \<Rightarrow> ('w, 'a) io \<Rightarrow> bool" where
  "runs P m = (\<forall>w. P w \<longrightarrow> (\<exists>x w'. m w = (Inr x, w') \<and> P w'))"

lemma runs_basic [runs_rules]: "runs P (ret x)" "runs P (gets f)"
  by (auto simp: runs_def io_simps)

lemma runs_time [runs_rules]: "runs P time_Now"
  by (simp add: time_Now_def runs_basic)

lemma runs_bindE [runs_rules]: "runs P m \<Longrightarrow> (\<And>x. runs P (k x)) \<Longrightarrow> runs P (bindE m k)"
  unfolding runs_def bindE_def by fastforce

lemma runs_ignore [runs_rules]: "keeps P m \<Longrightarrow> runs P (ignore m)"
  by (auto simp: runs_def keeps_def io_simps split: prod.split)

lemma runs_attempt: "runs P m \<Longrightarrow> (\<And>x. runs P (k (Inr x))) \<Longrightarrow> runs P (attempt m k)"
  unfolding runs_def attempt_def by fastforce

lemma runs_modify: "(\<And>w. P w \<Longrightarrow> P (f w)) \<Longrightarrow> runs P (modify f)"
  by (auto simp: runs_def io_simps)

lemma runs_for_each [runs_rules]: "(\<And>x. x \<in> set xs \<Longrightarrow> runs P (f x)) \<Longrightarrow> runs P (for_each xs f)"
  by (induction xs) (auto intro!: runs_rules)

lemma runs_if [runs_rules]: "(b \<Longrightarrow> runs P m) \<Longrightarrow> (\<not> b \<Longrightarrow> runs P n) \<Longrightarrow> runs P (if b then m else n)"
  by simp

lemma runsD: "runs P m \<Longrightarrow> P w \<Longrightarrow> \<exists>x w'. m w = (Inr x, w') \<and> P w'"
  by (simp add: runs_def)

text \<open>The database and the store of a new installation.\<close>

definition pristine :: "'w boot_world_scheme \<Rightarrow> bool" where
  "pristine w = (faults w = [] \<and> tenants w = [] \<and> schedules w = [] \<and> users w = [] \<and> (\<forall>n. uuid_src w n \<noteq> []))"

interpretation new: open_frame pristine
  by unfold_locales (simp_all add: pristine_def)

lemma pristine_access: "runs pristine access" "runs pristine (query f)"
  by (auto simp: runs_def pristine_def query_def io_simps)

lemma pristine_exec: "(\<And>w. pristine w \<Longrightarrow> pristine (f w)) \<Longrightarrow> runs pristine (exec f)"
  by (auto simp: runs_def pristine_def exec_def io_simps)

lemma pristine_Open:
  assumes "cfg_DBDriver c = ''sqlite''" "cfg_DatabasePath c \<noteq> []" "list_all (\<lambda>v. \<exists>b. mf (snd v) = Inr b) (migration_versions False)"
  shows "runs pristine (db_Open h mf c)"
proof -
  have "runs pristine (for_each (migration_versions False) (migrate_one False mf))" (is "runs _ ?all")
  proof (unfold runs_def, intro allI impI, goal_cases)
    case w: (1 w)
    then obtain w' where run: "for_each (migration_versions False) (migrate_one False mf) w = (Inr (), w')"
      using migrate_list_undisturbed [OF _ assms(3)] by (auto simp: pristine_def)
    have "keeps pristine (for_each (migration_versions False) (migrate_one False mf))"
      unfolding migrate_one_def
      by (auto intro!: keeps_rules new.survives_access new.survives_exec new.survives_log new.survives_apply_stmts keeps_modify
          new.survives_rollback split: sum.split)
    from keepsD [OF this w run] run show ?case by blast
  qed
  then show ?thesis
    using assms(1,2) by (simp add: db_Open_def openSQLite_def migrate_def os_MkdirAll_def) (intro runs_bindE pristine_access)
qed

lemma pristine_lock: "path \<notin> fst ` set (flocks w) \<Longrightarrow> pristine w \<Longrightarrow> \<exists>w'. TryRunnerLock path w = (Inr (), w') \<and> pristine w'"
  by (simp add: TryRunnerLock_def pristine_def io_simps)

lemma pristine_Rebase: "runs pristine (RebaseAllStorePaths m)"
  by (auto simp: runs_def pristine_def RebaseAllStorePaths_def ListTenants_def query_def io_simps)

lemma pristine_remove: "pristine w \<Longrightarrow> pristine (remove_files ps w)"
  unfolding remove_files_def by (induction ps arbitrary: w) (auto simp: del_file_def pristine_def)

lemma pristine_Recover: "runs pristine (RecoverOrphans r)"
proof -
  have "keeps pristine (os_RemoveAll d)" for d
    unfolding os_RemoveAll_def by (auto intro!: keeps_rules new.survives_access keeps_modify pristine_remove split: sum.split)
  then have "runs pristine (purge_loop r es)" for es
    by (induction es) (auto intro!: runs_rules split: sum.split)
  then have "runs pristine (PurgeStaging r)"
    unfolding PurgeStaging_def by (auto intro!: runs_rules runs_attempt pristine_access)
  moreover have "keeps pristine (FailOrphanedJobs x)" for x
    unfolding FailOrphanedJobs_def by (auto intro!: keeps_rules new.survives_access keeps_modify simp: pristine_def)
  ultimately show ?thesis unfolding RecoverOrphans_def by (auto intro!: runs_rules)
qed

lemma pristine_Scheduler: "runs pristine (Scheduler_Start ok)"
proof -
  have add: "keeps pristine (cron_AddFunc ok spec f)" for spec f
    unfolding cron_AddFunc_def by (auto intro!: keeps_rules keeps_modify simp: pristine_def)
  have entries: "runs pristine (add_schedules ok schs)" for schs
    by (induction schs) (auto simp: cron_AddFunc_def runs_def pristine_def io_simps)
  have "runs pristine ensure_all"
    by (auto simp: runs_def pristine_def ensure_all_def ListTenants_def query_def io_simps)
  moreover have "runs pristine (Reload ok)"
    unfolding Reload_def cron_Remove_def ListAllSchedules_def
    by (auto intro!: runs_rules runs_modify pristine_access entries) (auto simp: pristine_def)
  ultimately show ?thesis unfolding Scheduler_Start_def by (auto intro!: runs_rules add)
qed

lemma pristine_Bootstrap:
  assumes "bc_generate bc pass = Inr hash" "hash \<noteq> []" "name \<noteq> []" "pristine w"
  shows "\<exists>w'. EnsureBootstrapAuth bc name pass w = (Inr (), w')"
  using assms
  by (simp add: EnsureBootstrapAuth_def HashPassword_def UpsertUser_def GetUserByUsername_def query_row_def query_def sql_guarded_def
      DeleteAPITokensByKind_def pristine_def exec_def io_simps Let_def)

lemma start_succeeds:
  assumes c: "Load (be_host be) = Inr c" "cipher_New (cfg_MasterKey c) = Inr key" "cfg_DBDriver c = ''sqlite''" "cfg_DatabasePath c \<noteq> []"
    and files: "list_all (\<lambda>v. \<exists>b. be_files be (snd v) = Inr b) (migration_versions False)"
    and hash: "bc_generate (be_bcrypt be) (cfg_AdminPassword c) = Inr hash" "hash \<noteq> []"
    and w: "pristine w" "path_Join [cfg_StoreRoot c, ''.runner.lock''] \<notin> fst ` set (flocks w)"
  shows "\<exists>sv wd w'. server_main be w = (Inr (sv, wd), w')"
proof -
  define mgr where "mgr = \<lparr>mg_Cipher = key, mg_StoreRoot = cfg_StoreRoot c, mg_BaseURL = cfg_PublicBaseURL c\<rparr>"
  have name: "cfg_AdminUser c \<noteq> []" by (rule Load_Inr [OF c(1)]) simp
  have "pristine (new_process w)" using w(1) by (simp add: pristine_def new_process_def)
  then obtain w1 where w1: "db_Open (be_host be) (be_files be) c (new_process w) = (Inr (), w1)" "pristine w1"
    using runsD [OF pristine_Open [OF c(3,4) files]] by fastforce
  have "stored w1 = stored (new_process w)" by (rule keepsD [OF tables.survives_Open _ w1(1)]) simp
  then have free: "path_Join [cfg_StoreRoot c, ''.runner.lock''] \<notin> fst ` set (flocks w1)" using w(2) by (simp add: stored_def new_process_def)
  have dirs: "for_each [cfg_StoreRoot c, cfg_StagingRoot c] os_MkdirAll w1 = (Inr (), w1)"
    using w1(2) by (simp add: os_MkdirAll_def pristine_def io_simps)
  obtain w3 where w3: "TryRunnerLock (path_Join [cfg_StoreRoot c, ''.runner.lock'']) w1 = (Inr (), w3)" "pristine w3"
    using pristine_lock [OF free w1(2)] by blast
  obtain n w4 where w4: "RebaseAllStorePaths mgr w3 = (Inr n, w4)" "pristine w4" using runsD [OF pristine_Rebase w3(2)] by blast
  obtain u w5 where w5: "RecoverOrphans (config_runner c mgr (be_server be)) w4 = (Inr u, w5)" "pristine w5"
    using runsD [OF pristine_Recover w4(2)] by blast
  obtain w6 where w6: "Scheduler_Start (be_cron_ok be) w5 = (Inr (), w6)" "pristine w6" using runsD [OF pristine_Scheduler w5(2)] by fastforce
  obtain w7 where w7: "EnsureBootstrapAuth (be_bcrypt be) (cfg_AdminUser c) (cfg_AdminPassword c) w6 = (Inr (), w7)"
    using pristine_Bootstrap [OF hash name w6(2)] by blast
  have "server_main be w = (Inr (boot_server be c mgr, NewWatchdog (5 * 60 * ns_per_sec) (cfg_JobStallTimeout c)), w7)"
    unfolding server_main_def Let_def
    by (simp add: mgr_def [symmetric] bindE_def modify_def from_result_def ret_def c(1,2) w1(1) dirs w3(1) w4(1) w5(1) w6(1) w7 del: for_each.simps)
  then show ?thesis by blast
qed


section \<open>A start at a concrete host\<close>

definition demo_host :: host where
  "demo_host =
     \<lparr>h_Getenv = (\<lambda>k. if k = ''MASTER_KEY'' then concat (replicate 10 ''AAAA'') @ ''AAA=''
                       else if k = ''ADMIN_PASSWORD'' then ''a long password'' else if k = ''JOB_STALL_TIMEOUT'' then ''0'' else []),
      h_LoadLocation = (\<lambda>_. None), h_ParseDuration = (\<lambda>_. None), h_FormatDSN = (\<lambda>_. []), h_sql_Open = (\<lambda>_. None), h_Quote = (\<lambda>s. s)\<rparr>"

definition demo_boot_env :: "(unit boot_world_ext usage_world_ext sched_world_ext watch_world_ext auth_world_ext) boot_env" where
  "demo_boot_env =
     \<lparr>be_host = demo_host, be_files = (\<lambda>p. Inr (p @ '';'')),
      be_server = \<lparr>se_graph = (\<lambda>_ _ _. throw (Err ''offline'')), se_mail = offline_mail, se_archive = concat_entries,
        se_isUUID = (\<lambda>_. True), se_codec = demo_codec, se_exportTime = \<lparr>ec_Parse = (\<lambda>_. None), ec_ModTime = (\<lambda>_. 0)\<rparr>\<rparr>,
      be_bcrypt = \<lparr>bc_compare = (\<lambda>hash password. hash = password), bc_generate = Inr\<rparr>, be_cron_ok = (\<lambda>_. True),
      be_usage_codec = \<lparr>uj_Marshal = (\<lambda>_. []), uj_Unmarshal = (\<lambda>_. Inl ErrNoRows)\<rparr>, be_num_text = Some, be_rfc3339 = (\<lambda>_. None)\<rparr>"

text \<open>The last process left a running job behind.\<close>

definition demo_boot :: boot_world where
  "demo_boot =
     \<lparr>faults = [], clock = 1, uuid_src = (\<lambda>n. CHR ''u'' # show_nat n), uuid_next = 0, files = [], torn = None,
      rand_byte = (\<lambda>_. CHR ''r''), rand_pos = 0, tenants = [], schedules = [],
      jobs = [(queued_job ''t1'' [] ''exchange'' ''delta'' [])\<lparr>j_ID := ''j1'', j_Status := ''running''\<rparr>], job_logs = [], delta_tokens = [],
      catalog_items = [], catalog_snapshots = [], catalog_changes = [], pending = [], seen = [],
      cancels = [], cancelled = [], flocks = [], spawned = [],
      notification_settings = [], notification_log = [], mails = [], requests = [], http_status = (\<lambda>_. 200), http_body = (\<lambda>_. []),
      users = [], api_tokens = [], sessions = [], attempts = [], track = [], cron_entries = [], cron_next = 1, entryIDs = [],
      tenant_usage = [], usage_running = False, schema_migrations = [], schema_log = []\<rparr>"

lemma demo_Load:
  "\<exists>c. Load demo_host = Inr c \<and> cfg_StoreRoot c = ''./data/store'' \<and> cfg_DBDriver c = ''sqlite'' \<and> cfg_DatabasePath c \<noteq> []
     \<and> cfg_MasterKey c = h_Getenv demo_host ''MASTER_KEY'' \<and> cfg_AdminPassword c = ''a long password''"
proof -
  have "case Load demo_host of Inr c \<Rightarrow> cfg_StoreRoot c = ''./data/store'' \<and> cfg_DBDriver c = ''sqlite'' \<and> cfg_DatabasePath c \<noteq> []
     \<and> cfg_MasterKey c = h_Getenv demo_host ''MASTER_KEY'' \<and> cfg_AdminPassword c = ''a long password'' | Inl _ \<Rightarrow> False" by code_simp
  then show ?thesis by (cases "Load demo_host") auto
qed

lemma demo_key: "\<exists>key. cipher_New (h_Getenv demo_host ''MASTER_KEY'') = Inr key"
proof -
  have "case cipher_New (h_Getenv demo_host ''MASTER_KEY'') of Inr _ \<Rightarrow> True | Inl _ \<Rightarrow> False" by code_simp
  then show ?thesis by (auto split: sum.splits)
qed


theorem migrate_resumes_witness:
  "\<exists>w'. migrate False (\<lambda>p. Inr (p @ '';'')) ((restarts (\<lambda>p. Inr (p @ '';'')) [[None, None, None, Some (Err ''disk full'')]] demo_boot)\<lparr>faults := []\<rparr>) = (Inr (), w')
    \<and> schema_migrations w' = [1..10]"
proof -
  have "no_dup [None, None, None, Some (Err ''disk full'')]" by code_simp
  then show ?thesis
    using migrate_resumes [of demo_boot "[[None, None, None, Some (Err ''disk full'')]]" "\<lambda>p. Inr (p @ '';'')"]
    by (auto simp: demo_boot_def list_all_iff)
qed



theorem watchdog_stays_on_witness:
  "\<exists>c. Load demo_host = Inr c \<and> cfg_JobStallTimeout c = 0 \<and> wd_Stall (NewWatchdog (5 * 60 * ns_per_sec) (cfg_JobStallTimeout c)) = 2 * ns_per_hour"
proof -
  have "strings_TrimSpace (strings_ToLower (h_Getenv demo_host ''JOB_STALL_TIMEOUT'')) = ''0''" by code_simp
  then show ?thesis using demo_Load watchdog_stays_on [of demo_host] by auto
qed


theorem server_ready_witness:
  "\<exists>sv wd w'. server_main demo_boot_env demo_boot = (Inr (sv, wd), w') \<and> list_all (\<lambda>j. \<not> active j) (jobs w')"
proof -
  obtain c where c: "Load demo_host = Inr c" "cfg_DBDriver c = ''sqlite''" "cfg_DatabasePath c \<noteq> []"
    "cfg_MasterKey c = h_Getenv demo_host ''MASTER_KEY''" "cfg_AdminPassword c = ''a long password''" using demo_Load by blast
  obtain key where key: "cipher_New (cfg_MasterKey c) = Inr key" using demo_key c(4) by auto
  obtain sv wd w' where run: "server_main demo_boot_env demo_boot = (Inr (sv, wd), w')"
    using start_succeeds [where be = demo_boot_env and w = demo_boot and c = c and key = key and hash = "''a long password''"] c key
    by (auto simp: demo_boot_env_def demo_boot_def pristine_def list_all_iff)
  show ?thesis using server_ready [OF run] run by (auto simp: demo_boot_def)
qed

end
