(* ===== verification/Translations.thy ===== *)
theory Translations
  imports Api_Base
begin

text \<open>
  The languages of the user interface (\<open>internal/i18n\<close>): the two tables of texts, the choice of the language of a request,
  and the handler that stores the choice (\<open>internal/api/render.go\<close>). The weights of an \<open>Accept-Language\<close> header are
  rationals; the code reads them as \<open>float64\<close>, which is exact for the three decimals HTTP allows.
\<close>

section \<open>The texts\<close>

definition de_texts_1 :: "(string \<times> string) list" where
  "de_texts_1 =
     [(''nav.tenants'', ''Tenants''),
      (''nav.jobs'', ''Jobs''),
      (''nav.settings'', ''Einstellungen''),
      (''nav.api'', ''API''),
      (''nav.logout'', ''Abmelden''),
      (''nav.back'', ''Zur'' @ [CHR 0xC3, CHR 0xBC] @ ''ck''),
      (''nav.browser'', ''Dateibrowser''),
      (''nav.restore'', ''Restore''),
      (''lang.label'', ''Sprache''),
      (''action.open'', [CHR 0xC3, CHR 0x96] @ ''ffnen''),
      (''action.save'', ''Speichern''),
      (''action.delete'', ''L'' @ [CHR 0xC3, CHR 0xB6] @ ''schen''),
      (''action.cancel'', ''Abbrechen''),
      (''action.start'', ''Starten''),
      (''action.search'', ''Suchen''),
      (''action.reset'', ''Zur'' @ [CHR 0xC3, CHR 0xBC] @ ''cksetzen''),
      (''action.copy'', ''Kopieren''),
      (''action.copied'', ''Kopiert''),
      (''action.error'', ''Fehler''),
      (''action.download'', ''Download''),
      (''common.yes'', ''Ja''),
      (''common.optional'', ''Optional''),
      (''common.recommended'', ''Empfohlen''),
      (''login.title'', ''Login '' @ [CHR 0xC2, CHR 0xB7] @ '' M365 Backup''),
      (''login.subtitle'', ''Admin-Anmeldung''),
      (''login.username'', ''Benutzername''),
      (''login.password'', ''Passwort''),
      (''login.submit'', ''Anmelden''),
      (''tenants.title'', ''Tenants''),
      (''tenants.add'', ''Tenant hinzuf'' @ [CHR 0xC3, CHR 0xBC] @ ''gen''),
      (''tenants.refresh_usage'', ''Speicher aktualisieren''),
      (''tenants.usage_running'', ''Speicher wird gemessen'' @ [CHR 0xE2, CHR 0x80, CHR 0xA6]),
      (''tenants.flash_started'', ''Speicher-Messung l'' @ [CHR 0xC3, CHR 0xA4] @ ''uft im Hintergrund (wie du -hs). Seite neu laden, wenn fertig.''),
      (''tenants.flash_busy'', ''Messung l'' @ [CHR 0xC3, CHR 0xA4] @ ''uft bereits.''),
      (''tenants.usage_hint'', ''Speicherwerte kommen aus dem Cache (st'' @ [CHR 0xC3, CHR 0xBC] @ ''ndlich + manuell). Die Liste blockiert nicht mehr auf Disk-Walks.''),
      (''tenants.col.name'', ''Name''),
      (''tenants.col.azure'', ''Azure Tenant''),
      (''tenants.col.status'', ''Status''),
      (''tenants.col.storage'', ''Speicher''),
      (''tenants.usage_stand'', ''Stand''),
      (''tenants.not_measured'', ''noch nicht gemessen''),
      (''tenants.empty'', ''Noch keine Tenants. Anlegen und Admin Consent abschlie'' @ [CHR 0xC3, CHR 0x9F] @ ''en.''),
      (''tenant.storage'', ''Speicher''),
      (''tenant.flash_usage_ok'', ''Speicher gemessen und im Cache gespeichert.''),
      (''tenant.flash_job_busy'', ''Ein Full-Sync oder derselbe Dienst l'' @ [CHR 0xC3, CHR 0xA4] @ ''uft bereits '' @ [CHR 0xE2, CHR 0x80, CHR 0x94] @ '' neuer Job wurde nicht gestartet.''),
      (''tenant.flash_job_queued'', ''Backup-Job eingereiht.''),
      (''tenant.flash_job_full'', ''Delta-Tokens gel'' @ [CHR 0xC3, CHR 0xB6] @ ''scht. Full-Sync eingereiht.''),
      (''tenant.flash_job_none'', ''Bitte mindestens einen Dienst w'' @ [CHR 0xC3, CHR 0xA4] @ ''hlen.''),
      (''tenant.flash_consent_ok'', ''Admin Consent erteilt. Tenant ist aktiv; erstes Exchange-Backup wurde eingereiht.''),
      (''tenant.flash_consent_updated'', ''Admin Consent aktualisiert. Bestehende Zeitpl'' @ [CHR 0xC3, CHR 0xA4] @ ''ne und Jobs blieben unver'' @ [CHR 0xC3, CHR 0xA4] @ ''ndert.''),
      (''tenant.start_backup'', ''Backup starten''),
      (''tenant.start_backup_hint'', ''Sofort-Job f'' @ [CHR 0xC3, CHR 0xBC] @ ''r einen Dienst:''),
      (''tenant.backup_mode'', ''Modus''),
      (''tenant.backup_full'', ''Voll''),
      (''tenant.backup_delta'', ''Inkrementell''),
      (''tenant.backup_services'', ''Dienste''),
      (''tenant.backup_hint_delta'', ''Nur '' @ [CHR 0xC3, CHR 0x84] @ ''nderungen seit dem letzten Lauf (Graph-Delta). Tokens bleiben erhalten.''),
      (''tenant.backup_hint_full'', ''Delta-Tokens der gew'' @ [CHR 0xC3, CHR 0xA4] @ ''hlten Dienste werden gel'' @ [CHR 0xC3, CHR 0xB6] @ ''scht. Der n'' @ [CHR 0xC3, CHR 0xA4] @ ''chste Lauf zieht alles neu (Exchange/OneDrive). Teams und SharePoint holen sowieso den aktuellen Stand.''),
      (''tenant.svc.exchange'', ''Exchange''),
      (''tenant.svc.onedrive'', ''OneDrive''),
      (''tenant.svc.teams'', ''Teams''),
      (''tenant.svc.sharepoint'', ''SharePoint''),
      (''tenant.pst_export'', ''PST-Export''),
      (''tenant.measure_storage'', ''Speicher messen''),
      (''tenant.admin_consent'', ''Admin Consent''),
      (''tenant.tabs_aria'', ''Tenant-Bereiche''),
      (''tenant.tab.jobs'', ''Jobs''),
      (''tenant.tab.settings'', ''Einstellungen''),
      (''tenant.tab.stats'', ''Statistiken''),
      (''tenant.tab.snapshots'', ''Snapshots''),
      (''tenant.tab.pst'', ''PST-Exporte''),
      (''tenant.schedules'', ''Zeitpl'' @ [CHR 0xC3, CHR 0xA4] @ ''ne''),
      (''tenant.schedules_hint'', ''Fehlende Dienste werden automatisch mit Default-Cron angelegt. Leeres Cron-Feld beim Speichern setzt den Default. Pro Dienst l'' @ [CHR 0xC3, CHR 0xA4] @ ''uft h'' @ [CHR 0xC3, CHR 0xB6] @ ''chstens ein Job; unterschiedliche Dienste d'' @ [CHR 0xC3, CHR 0xBC] @ ''rfen parallel laufen.''),
      (''tenant.col.service'', ''Dienst''),
      (''tenant.col.cron'', ''Cron''),
      (''tenant.col.enabled'', ''Aktiv''),
      (''tenant.cron_placeholder'', ''Default wenn leer''),
      (''tenant.enabled'', ''aktiv''),
      (''tenant.retention_title'', ''Smart Recycle (Retention)''),
      (''tenant.retention_hint'', ''Wie Synology: alle Versionen in den letzten Stunden behalten, danach nur noch die neueste pro Tag / Woche / Monat / Jahr '' @ [CHR 0xE2, CHR 0x80, CHR 0x94] @ '' jeweils pro Dienst.''),
      (''tenant.retention_active'', ''Smart Recycle aktiv''),
      (''tenant.keep_hours'', ''Alle Versionen (Stunden)''),
      (''tenant.keep_daily'', ''T'' @ [CHR 0xC3, CHR 0xA4] @ ''glich behalten (Tage)''),
      (''tenant.keep_weekly'', ''W'' @ [CHR 0xC3, CHR 0xB6] @ ''chentlich (Wochen)''),
      (''tenant.keep_monthly'', ''Monatlich (Monate)''),
      (''tenant.keep_yearly'', ''J'' @ [CHR 0xC3, CHR 0xA4] @ ''hrlich (Jahre)''),
      (''tenant.keep_min'', ''Mindestens behalten''),
      (''tenant.pst_keep'', ''PST-Exports behalten''),
      (''tenant.retention_save'', ''Retention speichern''),
      (''tenant.recovery_title'', ''Offline-Recovery (Katalog + Blobs)''),
      (''tenant.recovery_hint'', ''Store-Passwort offline speichern. Ohne diese Kopie reicht der MASTER_KEY nicht, um Blobs und Manifeste zu entschl'' @ [CHR 0xC3, CHR 0xBC] @ ''sseln, wenn die App/DB weg ist.''),
      (''tenant.recovery_export'', ''Recovery-Passwort exportieren'' @ [CHR 0xE2, CHR 0x80, CHR 0xA6]),
      (''tenant.usage_title'', ''Speicherplatz''),
      (''tenant.usage_cache'', ''Cache (st'' @ [CHR 0xC3, CHR 0xBC] @ ''ndlich / manuell) '' @ [CHR 0xC2, CHR 0xB7] @ '' Gesamt''),
      (''tenant.usage_explain'', ''Gesamt = echte Belegung auf der Platte: verschl'' @ [CHR 0xC3, CHR 0xBC] @ ''sselte Blobs + Manifeste + PST-Exports. Der Katalog (aktueller Stand) liegt in der Datenbank; Restore-Punkte sind Generationen, kein zweiter Klartext-Baum.''),
      (''tenant.usage_total_disk'', ''Gesamt (Platte)''),
      (''tenant.usage_live_sync'', ''Aktuell (logisch)''),
      (''tenant.usage_snapshots'', ''Blobs + Manifeste''),
      (''tenant.usage_pst'', ''PST-Exports''),
      (''tenant.usage_largest_svc'', ''Meiste Daten (Dienst)''),
      (''tenant.usage_largest_user'', ''Meiste Daten (User)''),
      (''tenant.chart.composition'', ''Plattenbelegung''),
      (''tenant.chart.by_service'', ''Nach Dienst''),
      (''tenant.chart.top_users'', ''Top User''),
      (''tenant.chart.sync'', ''Aktuell''),
      (''tenant.chart.snapshots'', ''Snapshots''),
      (''tenant.chart.exports'', ''PST-Exports''),
      (''tenant.chart.other'', ''Sonstiges''),
      (''tenant.chart.snaps_logical'', ''Snaps (logisch)''),
      (''tenant.by_service'', ''Nach Dienst''),
      (''tenant.by_service_hint'', ''Spalte '' @ [CHR 0xE2, CHR 0x80, CHR 0x9E] @ ''Aktuell'' @ [CHR 0xE2, CHR 0x80, CHR 0x9C] @ '' ist die logische Gr'' @ [CHR 0xC3, CHR 0xB6, CHR 0xC3, CHR 0x9F] @ ''e live im Katalog. '' @ [CHR 0xE2, CHR 0x80, CHR 0x9E] @ ''Snaps (logisch)'' @ [CHR 0xE2, CHR 0x80, CHR 0x9C] @ '' summiert Generationen '' @ [CHR 0xE2, CHR 0x80, CHR 0x94] @ '' die echte Plattenbelegung steht oben unter '' @ [CHR 0xE2, CHR 0x80, CHR 0x9E] @ ''Blobs + Manifeste'' @ [CHR 0xE2, CHR 0x80, CHR 0x9C] @ '' (Dedup).''),
      (''tenant.col.sync'', ''Aktuell''),
      (''tenant.col.snaps_logical'', ''Snaps (logisch)''),
      (''tenant.col.sum_logical'', [CHR 0xCE, CHR 0xA3] @ '' logisch''),
      (''tenant.top_users'', ''Top User (aktuell)''),
      (''tenant.col.user'', ''User''),
      (''tenant.col.size'', ''Gr'' @ [CHR 0xC3, CHR 0xB6, CHR 0xC3, CHR 0x9F] @ ''e''),
      (''tenant.col.gb'', ''GB''),
      (''tenant.no_user_sync'', ''Noch keine Katalog-Daten pro User.''),
      (''tenant.usage_empty'', ''Noch kein Cache. Mit '' @ [CHR 0xE2, CHR 0x80, CHR 0x9E] @ ''Speicher messen'' @ [CHR 0xE2, CHR 0x80, CHR 0x9C] @ '' ansto'' @ [CHR 0xC3, CHR 0x9F] @ ''en oder den st'' @ [CHR 0xC3, CHR 0xBC] @ ''ndlichen Cron abwarten.''),
      (''tenant.snapshots_hint'', ''Punkt-in-Zeit-Generationen (Katalog + verschl'' @ [CHR 0xC3, CHR 0xBC] @ ''sselte Blobs). Im Dateibrowser '' @ [CHR 0xE2, CHR 0x80, CHR 0x9E] @ ''Aktuell'' @ [CHR 0xE2, CHR 0x80, CHR 0x9C] @ '' f'' @ [CHR 0xC3, CHR 0xBC] @ ''r den Live-Stand w'' @ [CHR 0xC3, CHR 0xA4] @ ''hlen.''),
      (''tenant.snapshots_loading'', ''Lade Snapshots'' @ [CHR 0xE2, CHR 0x80, CHR 0xA6]),
      (''tenant.pst_hint'', ''Postf'' @ [CHR 0xC3, CHR 0xA4] @ ''cher aus dem Exchange-Katalog als ZIP (EML-Ordnerstruktur). Alles, ein Postfach oder ein Ordner. L'' @ [CHR 0xC3, CHR 0xA4] @ ''uft als Job mit Status im Panel. (Bin'' @ [CHR 0xC3, CHR 0xA4] @ ''res Outlook-.pst folgt sp'' @ [CHR 0xC3, CHR 0xA4] @ ''ter '' @ [CHR 0xE2, CHR 0x80, CHR 0x94] @ '' Open-Source-Writer fehlt.)''),
      (''tenant.pst_start'', ''Export jetzt starten''),
      (''tenant.pst_loading'', ''Lade Exporte'' @ [CHR 0xE2, CHR 0x80, CHR 0xA6]),
      (''tenant.total'', ''Gesamt''),
      (''tenant.live_sync'', ''Aktuell''),
      (''tenant.snapshots'', ''Snapshots''),
      (''jobs.running'', ''laufend''),
      (''jobs.queued'', ''wartend''),
      (''jobs.ok'', ''ok''),
      (''jobs.warn'', ''warn''),
      (''jobs.error'', ''fehler''),
      (''jobs.cancelled'', ''abgebrochen''),
      (''jobs.items'', ''Eintr'' @ [CHR 0xC3, CHR 0xA4] @ ''ge''),
      (''jobs.browse'', ''Browse''),
      (''jobs.export'', ''Export''),
      (''jobs.log'', ''Log''),
      (''jobs.stop'', ''Stop''),
      (''jobs.confirm_stop'', ''Backup wirklich stoppen?''),
      (''jobs.empty'', ''Noch keine Jobs.''),
      (''jobs.title'', ''Job-Log'')]"

definition de_texts_2 :: "(string \<times> string) list" where
  "de_texts_2 =
     [(''jobs.stop_backup'', ''Backup stoppen''),
      (''jobs.queue_start'', ''Warteschlange / Start'' @ [CHR 0xE2, CHR 0x80, CHR 0xA6]),
      (''jobs.live_items'', ''Live '' @ [CHR 0xC2, CHR 0xB7] @ '' Items''),
      (''jobs.summary'', ''Zusammenfassung''),
      (''jobs.detail_log'', ''Detail-Log''),
      (''jobs.detail_hint'', ''Nur Info/Warn/Error '' @ [CHR 0xE2, CHR 0x80, CHR 0x94] @ '' neueste Eintr'' @ [CHR 0xC3, CHR 0xA4] @ ''ge unten.''),
      (''jobs.log_tail_note'', ''Es werden die letzten %d von %d Log-Zeilen angezeigt.''),
      (''jobs.no_detail_log'', ''Kein Detail-Log (Job vor Einf'' @ [CHR 0xC3, CHR 0xBC] @ ''hrung der job_logs-Tabelle, oder noch leer).''),
      (''jobs.bytes'', ''Bytes''),
      (''jobs.snapshot'', ''Snapshot''),
      (''jobs.overview_title'', ''Laufende Jobs''),
      (''jobs.overview_hint'', ''Alle Tenants. Die Liste aktualisiert sich automatisch.''),
      (''jobs.overview_empty'', ''Gerade l'' @ [CHR 0xC3, CHR 0xA4] @ ''uft kein Backup.''),
      (''jobs.overview_recent'', ''Zuletzt''),
      (''jobs.type_full'', ''Voll''),
      (''jobs.type_delta'', ''Inkrementell''),
      (''snapshots.files'', ''Dateien''),
      (''snapshots.empty'', ''Noch keine Snapshots.''),
      (''pst.col.run'', ''Lauf''),
      (''pst.col.scope'', ''Umfang''),
      (''pst.col.user'', ''User''),
      (''pst.col.mails'', ''Mails''),
      (''pst.col.size'', ''Gr'' @ [CHR 0xC3, CHR 0xB6, CHR 0xC3, CHR 0x9F] @ ''e''),
      (''pst.col.files'', ''Dateien''),
      (''pst.empty'', ''Noch keine Exporte.''),
      (''pst.scope_legend'', ''Was exportieren?''),
      (''pst.scope_all'', ''Alle Postf'' @ [CHR 0xC3, CHR 0xA4] @ ''cher''),
      (''pst.scope_mailbox'', ''Ein Postfach''),
      (''pst.scope_folder'', ''Ein Ordner eines Postfachs''),
      (''pst.mailbox'', ''Postfach''),
      (''pst.mailbox_pick'', ''Postfach w'' @ [CHR 0xC3, CHR 0xA4] @ ''hlen'' @ [CHR 0xE2, CHR 0x80, CHR 0xA6]),
      (''pst.folder'', ''Ordner''),
      (''pst.folder_pick'', ''Ordner w'' @ [CHR 0xC3, CHR 0xA4] @ ''hlen'' @ [CHR 0xE2, CHR 0x80, CHR 0xA6]),
      (''pst.no_mailboxes'', ''Kein Exchange-Katalog '' @ [CHR 0xE2, CHR 0x80, CHR 0x94] @ '' zuerst Exchange-Backup ausf'' @ [CHR 0xC3, CHR 0xBC] @ ''hren.''),
      (''browser.title'', ''Dateibrowser''),
      (''browser.hint'', ''Dienst w'' @ [CHR 0xC3, CHR 0xA4] @ ''hlen '' @ [CHR 0xE2, CHR 0x86, CHR 0x92] @ '' Dateien durchsuchen '' @ [CHR 0xE2, CHR 0x86, CHR 0x92] @ '' unten Version (Timeline) wechseln.''),
      (''browser.storage_total'', ''Speicher gesamt''),
      (''browser.service'', ''Dienst''),
      (''browser.versions'', ''Versionen''),
      (''browser.live_title'', ''Aktuell''),
      (''browser.live_hint'', ''Live-Stand im Katalog nach dem letzten Backup''),
      (''browser.files_count'', ''Dateien''),
      (''browser.no_snapshots'', ''Noch keine Snapshots f'' @ [CHR 0xC3, CHR 0xBC] @ ''r''),
      (''browser.files'', ''Dateien''),
      (''browser.search_ph'', ''Suche: Betreff, Von, An, UPN '' @ [CHR 0xE2, CHR 0x80, CHR 0xA6]),
      (''browser.search_results'', ''Suchergebnisse f'' @ [CHR 0xC3, CHR 0xBC] @ ''r''),
      (''browser.max_500'', ''(max. 500)''),
      (''browser.parent'', [CHR 0xE2, CHR 0x86, CHR 0x91] @ '' '' @ [CHR 0xC3, CHR 0x9C] @ ''bergeordnet''),
      (''browser.col.subject'', ''Betreff / Name''),
      (''browser.col.from'', ''Von''),
      (''browser.col.to'', ''An''),
      (''browser.col.received'', ''Empfangsdatum''),
      (''browser.col.size'', ''Gr'' @ [CHR 0xC3, CHR 0xB6, CHR 0xC3, CHR 0x9F] @ ''e''),
      (''browser.page_of'', ''Seite''),
      (''browser.prev'', ''Zur'' @ [CHR 0xC3, CHR 0xBC] @ ''ck''),
      (''browser.next'', ''Weiter''),
      (''browser.no_hits'', ''Keine Treffer.''),
      (''browser.no_files'', ''Keine Dateien in dieser Version.''),
      (''browser.pick_version'', ''Unten eine Version in der Timeline w'' @ [CHR 0xC3, CHR 0xA4] @ ''hlen, um Dateien zu sehen.''),
      (''browser.pick_service'', ''Oben einen Dienst w'' @ [CHR 0xC3, CHR 0xA4] @ ''hlen.''),
      (''snapbrowse.title'', ''Snapshot durchsuchen''),
      (''snapbrowse.search_ph'', ''Suche: Name, UPN, Pfad, .eml '' @ [CHR 0xE2, CHR 0x80, CHR 0xA6]),
      (''snapbrowse.results'', ''Suchergebnisse f'' @ [CHR 0xC3, CHR 0xBC] @ ''r''),
      (''snapbrowse.max'', ''(max. 500 Treffer)''),
      (''snapbrowse.col.name'', ''Name / Pfad''),
      (''snapbrowse.empty'', ''Leer '' @ [CHR 0xE2, CHR 0x80, CHR 0x94] @ '' in diesem Snapshot liegen keine Dateien (z.B. nur Skips ohne Mailbox). Nach einem neuen Exchange-Backup mit voller User-Pagination erneut pr'' @ [CHR 0xC3, CHR 0xBC] @ ''fen.''),
      (''restore.title'', ''Restore''),
      (''restore.snapshot'', ''Snapshot''),
      (''restore.mode'', ''Modus''),
      (''restore.mode_zip'', ''ZIP herunterladen (Exchange EML / Teams-Archiv / Dateien)''),
      (''restore.mode_graph'', ''Zu Graph hochladen (OneDrive / SharePoint)''),
      (''restore.service'', ''Dienst (f'' @ [CHR 0xC3, CHR 0xBC] @ ''r Graph-Upload)''),
      (''restore.submit'', ''Wiederherstellen''),
      (''restore.hint'', ''Teams-Restores sind nur als Archiv (ZIP). Graph-Upload braucht Files.ReadWrite.All (oder gleichwertig) an der App-Registrierung.''),
      (''recovery.title'', ''Offline-Recovery (Katalog + Blobs)''),
      (''recovery.repo'', ''Store''),
      (''recovery.new_callout'', ''Jetzt speichern. Das Store-Passwort wird nur verschl'' @ [CHR 0xC3, CHR 0xBC] @ ''sselt in der DB gehalten. Ohne Offline-Kopie kannst du bei Verlust von App/DB Blobs und Manifeste nicht entschl'' @ [CHR 0xC3, CHR 0xBC] @ ''sseln '' @ [CHR 0xE2, CHR 0x80, CHR 0x94] @ '' der MASTER_KEY allein '' @ [CHR 0xC3, CHR 0xB6] @ ''ffnet den Store nicht.''),
      (''recovery.old_callout'', ''F'' @ [CHR 0xC3, CHR 0xBC] @ ''r Disaster Recovery brauchst du Store-Pfad + dieses Passwort (nicht den MASTER_KEY). Speichere die Datei offline (Passwort-Safe / Papier / Offline-Vault).''),
      (''recovery.password'', ''Store-Passwort''),
      (''recovery.after_reveal'', ''Danach Seite schlie'' @ [CHR 0xC3, CHR 0x9F] @ ''en '' @ [CHR 0xE2, CHR 0x80, CHR 0x94] @ '' das Passwort bleibt nicht dauerhaft im Browser-History der URL.''),
      (''recovery.export_title'', ''Export (Admin-Passwort erforderlich)''),
      (''recovery.admin_password'', ''Admin-Passwort''),
      (''recovery.reveal'', ''Anzeigen''),
      (''recovery.download'', ''Recovery-Datei herunterladen (.txt)''),
      (''recovery.back'', [CHR 0xE2, CHR 0x86, CHR 0x90] @ '' Zur'' @ [CHR 0xC3, CHR 0xBC] @ ''ck zum Tenant''),
      (''recovery.bad_password'', ''Admin-Passwort falsch.''),
      (''recovery.save_now'', ''Jetzt speichern.''),
      (''recovery.need_both'', ''Store-Pfad + dieses Passwort''),
      (''settings.title'', ''Einstellungen''),
      (''settings.notify_title'', ''Benachrichtigungen''),
      (''settings.signed_in'', ''Angemeldet als''),
      (''settings.tokens_title'', ''API-Tokens''),
      (''settings.tokens_hint'', ''Bearer-Token f'' @ [CHR 0xC3, CHR 0xBC] @ ''r /api. Lesen = nur GET. Lesen+Schreiben = alle Methoden. Die UI bleibt beim Login mit Benutzername und Passwort.''),
      (''settings.token_once'', ''Token nur jetzt sichtbar '' @ [CHR 0xE2, CHR 0x80, CHR 0x94] @ '' kopieren und sicher ablegen:''),
      (''settings.token_name'', ''Name''),
      (''settings.token_scope'', ''Rechte''),
      (''settings.token_prefix'', ''Pr'' @ [CHR 0xC3, CHR 0xA4] @ ''fix''),
      (''settings.token_read'', ''Lesen''),
      (''settings.token_write'', ''Lesen und schreiben''),
      (''settings.token_create'', ''Token anlegen''),
      (''settings.token_delete_confirm'', ''Token wirklich l'' @ [CHR 0xC3, CHR 0xB6] @ ''schen?''),
      (''settings.channel'', ''Kanal''),
      (''settings.notify_on'', ''Benachrichtigen bei (kommagetrennt)''),
      (''settings.smtp'', ''SMTP''),
      (''settings.host'', ''Host''),
      (''settings.port'', ''Port''),
      (''settings.username'', ''Benutzername''),
      (''settings.password'', ''Passwort''),
      (''settings.from'', ''Von''),
      (''settings.to'', ''An (kommagetrennt)''),
      (''settings.webhook'', ''Webhook''),
      (''settings.url'', ''URL''),
      (''settings.format'', ''Format''),
      (''settings.pushover'', ''Pushover''),
      (''settings.pushover_hint'', ''Keys von pushover.net. Priorit'' @ [CHR 0xC3, CHR 0xA4] @ ''t 2 (Emergency) wiederholt bis zur Best'' @ [CHR 0xC3, CHR 0xA4] @ ''tigung.''),
      (''settings.user_key'', ''User Key''),
      (''settings.app_token'', ''Application Token''),
      (''settings.device'', ''Ger'' @ [CHR 0xC3, CHR 0xA4] @ ''t (optional)''),
      (''settings.msg_title'', ''Nachrichtentitel''),
      (''settings.priority'', ''Priorit'' @ [CHR 0xC3, CHR 0xA4] @ ''t''),
      (''settings.sound_alert'', ''Sound '' @ [CHR 0xE2, CHR 0x80, CHR 0x94] @ '' Alert (Fehler / Warnungen / Key-Ablauf)''),
      (''settings.sound_ok'', ''Sound '' @ [CHR 0xE2, CHR 0x80, CHR 0x94] @ '' OK (Erfolg / Restore)''),
      (''settings.ttl'', ''Message TTL (Sekunden, optional)''),
      (''settings.retry'', ''Emergency Retry (Sekunden, min. 30)''),
      (''settings.expire'', ''Emergency Expire (Sekunden, max. 86400)''),
      (''settings.save_channel'', ''Kanal speichern''),
      (''settings.enabled'', ''aktiv''),
      (''settings.on'', ''bei''),
      (''openapi.title'', ''OpenAPI''),
      (''openapi.live'', ''Live-Spec f'' @ [CHR 0xC3, CHR 0xBC] @ ''r diese Instanz''),
      (''openapi.download'', ''openapi.yaml herunterladen''),
      (''openapi.base'', ''Base''),
      (''tenant_new.title'', ''Tenant anlegen''),
      (''tenant_new.intro'', ''Zuerst die App-Registrierung im Microsoft-Tenant vorbereiten, dann die Werte hier eintragen und Admin Consent erteilen.''),
      (''tenant_new.name'', ''Anzeigename (Firma)''),
      (''tenant_new.azure_id'', ''Azure Tenant ID (Directory ID)''),
      (''tenant_new.client_id'', ''Application (client) ID''),
      (''tenant_new.client_secret'', ''Client secret (Value)''),
      (''tenant_new.secret_expires'', ''Secret expires (Ablaufdatum aus dem Portal)''),
      (''tenant_new.submit'', ''Tenant anlegen''),
      (''tenant_new.copy'', ''Kopieren'')]"

definition de_texts :: "(string \<times> string) list" where
  "de_texts = de_texts_1 @ de_texts_2"

definition en_texts_1 :: "(string \<times> string) list" where
  "en_texts_1 =
     [(''nav.tenants'', ''Tenants''),
      (''nav.jobs'', ''Jobs''),
      (''nav.settings'', ''Settings''),
      (''nav.api'', ''API''),
      (''nav.logout'', ''Logout''),
      (''nav.back'', ''Back''),
      (''nav.browser'', ''File browser''),
      (''nav.restore'', ''Restore''),
      (''lang.label'', ''Language''),
      (''action.open'', ''Open''),
      (''action.save'', ''Save''),
      (''action.delete'', ''Delete''),
      (''action.cancel'', ''Cancel''),
      (''action.start'', ''Start''),
      (''action.search'', ''Search''),
      (''action.reset'', ''Reset''),
      (''action.copy'', ''Copy''),
      (''action.copied'', ''Copied''),
      (''action.error'', ''Error''),
      (''action.download'', ''Download''),
      (''common.yes'', ''Yes''),
      (''common.optional'', ''Optional''),
      (''common.recommended'', ''Recommended''),
      (''login.title'', ''Login '' @ [CHR 0xC2, CHR 0xB7] @ '' M365 Backup''),
      (''login.subtitle'', ''Admin sign-in''),
      (''login.username'', ''Username''),
      (''login.password'', ''Password''),
      (''login.submit'', ''Sign in''),
      (''tenants.title'', ''Tenants''),
      (''tenants.add'', ''Add tenant''),
      (''tenants.refresh_usage'', ''Refresh storage''),
      (''tenants.usage_running'', ''Measuring storage'' @ [CHR 0xE2, CHR 0x80, CHR 0xA6]),
      (''tenants.flash_started'', ''Storage measurement is running in the background (like du -hs). Reload when done.''),
      (''tenants.flash_busy'', ''Measurement already running.''),
      (''tenants.usage_hint'', ''Storage values come from the cache (hourly + manual). The list no longer blocks on disk walks.''),
      (''tenants.col.name'', ''Name''),
      (''tenants.col.azure'', ''Azure tenant''),
      (''tenants.col.status'', ''Status''),
      (''tenants.col.storage'', ''Storage''),
      (''tenants.usage_stand'', ''As of''),
      (''tenants.not_measured'', ''not measured yet''),
      (''tenants.empty'', ''No tenants yet. Create one and complete admin consent.''),
      (''tenant.storage'', ''Storage''),
      (''tenant.flash_usage_ok'', ''Storage measured and saved to cache.''),
      (''tenant.flash_job_busy'', ''A full sync or this service is already running '' @ [CHR 0xE2, CHR 0x80, CHR 0x94] @ '' the new job was skipped.''),
      (''tenant.flash_job_queued'', ''Backup job queued.''),
      (''tenant.flash_job_full'', ''Delta tokens deleted. Full sync queued.''),
      (''tenant.flash_job_none'', ''Please choose at least one service.''),
      (''tenant.flash_consent_ok'', ''Admin consent granted. Tenant is active; first Exchange backup was queued.''),
      (''tenant.flash_consent_updated'', ''Admin consent updated. Existing schedules and jobs were left unchanged.''),
      (''tenant.start_backup'', ''Start backup''),
      (''tenant.start_backup_hint'', ''Immediate job for one service:''),
      (''tenant.backup_mode'', ''Mode''),
      (''tenant.backup_full'', ''Full''),
      (''tenant.backup_delta'', ''Incremental''),
      (''tenant.backup_services'', ''Services''),
      (''tenant.backup_hint_delta'', ''Only changes since the last run (Graph delta). Tokens stay in place.''),
      (''tenant.backup_hint_full'', ''Delta tokens for the selected services are deleted. The next run pulls everything again (Exchange/OneDrive). Teams and SharePoint already fetch the current state.''),
      (''tenant.svc.exchange'', ''Exchange''),
      (''tenant.svc.onedrive'', ''OneDrive''),
      (''tenant.svc.teams'', ''Teams''),
      (''tenant.svc.sharepoint'', ''SharePoint''),
      (''tenant.pst_export'', ''PST export''),
      (''tenant.measure_storage'', ''Measure storage''),
      (''tenant.admin_consent'', ''Admin consent''),
      (''tenant.tabs_aria'', ''Tenant sections''),
      (''tenant.tab.jobs'', ''Jobs''),
      (''tenant.tab.settings'', ''Settings''),
      (''tenant.tab.stats'', ''Statistics''),
      (''tenant.tab.snapshots'', ''Snapshots''),
      (''tenant.tab.pst'', ''PST exports''),
      (''tenant.schedules'', ''Schedules''),
      (''tenant.schedules_hint'', ''Missing services are created with a default cron. An empty cron field restores the default. At most one job runs per service; different services may run in parallel.''),
      (''tenant.col.service'', ''Service''),
      (''tenant.col.cron'', ''Cron''),
      (''tenant.col.enabled'', ''Enabled''),
      (''tenant.cron_placeholder'', ''Default if empty''),
      (''tenant.enabled'', ''enabled''),
      (''tenant.retention_title'', ''Smart Recycle (retention)''),
      (''tenant.retention_hint'', ''Like Synology: keep all versions for the last hours, then only the newest per day / week / month / year '' @ [CHR 0xE2, CHR 0x80, CHR 0x94] @ '' per service.''),
      (''tenant.retention_active'', ''Smart Recycle enabled''),
      (''tenant.keep_hours'', ''All versions (hours)''),
      (''tenant.keep_daily'', ''Keep daily (days)''),
      (''tenant.keep_weekly'', ''Weekly (weeks)''),
      (''tenant.keep_monthly'', ''Monthly (months)''),
      (''tenant.keep_yearly'', ''Yearly (years)''),
      (''tenant.keep_min'', ''Keep at least''),
      (''tenant.pst_keep'', ''Keep PST exports''),
      (''tenant.retention_save'', ''Save retention''),
      (''tenant.recovery_title'', ''Offline recovery (catalog + blobs)''),
      (''tenant.recovery_hint'', ''Store the store password offline. Without that copy, MASTER_KEY alone is not enough to decrypt blobs and manifests if the app/DB is gone.''),
      (''tenant.recovery_export'', ''Export recovery password'' @ [CHR 0xE2, CHR 0x80, CHR 0xA6]),
      (''tenant.usage_title'', ''Storage''),
      (''tenant.usage_cache'', ''Cache (hourly / manual) '' @ [CHR 0xC2, CHR 0xB7] @ '' Total''),
      (''tenant.usage_explain'', ''Total = real disk usage: encrypted blobs + manifests + PST exports. The catalog (current state) lives in the database; restore points are generations, not a second plaintext tree.''),
      (''tenant.usage_total_disk'', ''Total (disk)''),
      (''tenant.usage_live_sync'', ''Current (logical)''),
      (''tenant.usage_snapshots'', ''Blobs + manifests''),
      (''tenant.usage_pst'', ''PST exports''),
      (''tenant.usage_largest_svc'', ''Largest data (service)''),
      (''tenant.usage_largest_user'', ''Largest data (user)''),
      (''tenant.chart.composition'', ''Disk usage''),
      (''tenant.chart.by_service'', ''By service''),
      (''tenant.chart.top_users'', ''Top users''),
      (''tenant.chart.sync'', ''Current''),
      (''tenant.chart.snapshots'', ''Snapshots''),
      (''tenant.chart.exports'', ''PST exports''),
      (''tenant.chart.other'', ''Other''),
      (''tenant.chart.snaps_logical'', ''Snaps (logical)''),
      (''tenant.by_service'', ''By service''),
      (''tenant.by_service_hint'', ''Column '' @ [CHR 0xE2, CHR 0x80, CHR 0x9C] @ ''Current'' @ [CHR 0xE2, CHR 0x80, CHR 0x9D] @ '' is live catalog size. '' @ [CHR 0xE2, CHR 0x80, CHR 0x9C] @ ''Snaps (logical)'' @ [CHR 0xE2, CHR 0x80, CHR 0x9D] @ '' sums generations '' @ [CHR 0xE2, CHR 0x80, CHR 0x94] @ '' real disk use is under '' @ [CHR 0xE2, CHR 0x80, CHR 0x9C] @ ''Blobs + manifests'' @ [CHR 0xE2, CHR 0x80, CHR 0x9D] @ '' above (dedup).''),
      (''tenant.col.sync'', ''Current''),
      (''tenant.col.snaps_logical'', ''Snaps (logical)''),
      (''tenant.col.sum_logical'', [CHR 0xCE, CHR 0xA3] @ '' logical''),
      (''tenant.top_users'', ''Top users (current)''),
      (''tenant.col.user'', ''User''),
      (''tenant.col.size'', ''Size''),
      (''tenant.col.gb'', ''GB''),
      (''tenant.no_user_sync'', ''No per-user catalog data yet.''),
      (''tenant.usage_empty'', ''No cache yet. Use '' @ [CHR 0xE2, CHR 0x80, CHR 0x9C] @ ''Measure storage'' @ [CHR 0xE2, CHR 0x80, CHR 0x9D] @ '' or wait for the hourly cron.''),
      (''tenant.snapshots_hint'', ''Point-in-time generations (catalog + encrypted blobs). Pick '' @ [CHR 0xE2, CHR 0x80, CHR 0x9C] @ ''Current'' @ [CHR 0xE2, CHR 0x80, CHR 0x9D] @ '' in the file browser for the live state.''),
      (''tenant.snapshots_loading'', ''Loading snapshots'' @ [CHR 0xE2, CHR 0x80, CHR 0xA6]),
      (''tenant.pst_hint'', ''Mailboxes from the Exchange catalog as ZIP (EML folder layout). All, one mailbox, or one folder. Runs as a job with status in the panel. (Binary Outlook .pst later '' @ [CHR 0xE2, CHR 0x80, CHR 0x94] @ '' no open-source writer yet.)''),
      (''tenant.pst_start'', ''Start export now''),
      (''tenant.pst_loading'', ''Loading exports'' @ [CHR 0xE2, CHR 0x80, CHR 0xA6]),
      (''tenant.total'', ''Total''),
      (''tenant.live_sync'', ''Current''),
      (''tenant.snapshots'', ''Snapshots''),
      (''jobs.running'', ''running''),
      (''jobs.queued'', ''queued''),
      (''jobs.ok'', ''ok''),
      (''jobs.warn'', ''warn''),
      (''jobs.error'', ''error''),
      (''jobs.cancelled'', ''cancelled''),
      (''jobs.items'', ''items''),
      (''jobs.browse'', ''Browse''),
      (''jobs.export'', ''Export''),
      (''jobs.log'', ''Log''),
      (''jobs.stop'', ''Stop''),
      (''jobs.confirm_stop'', ''Really stop this backup?''),
      (''jobs.empty'', ''No jobs yet.''),
      (''jobs.title'', ''Job log'')]"

definition en_texts_2 :: "(string \<times> string) list" where
  "en_texts_2 =
     [(''jobs.stop_backup'', ''Stop backup''),
      (''jobs.queue_start'', ''Queued / starting'' @ [CHR 0xE2, CHR 0x80, CHR 0xA6]),
      (''jobs.live_items'', ''Live '' @ [CHR 0xC2, CHR 0xB7] @ '' items''),
      (''jobs.summary'', ''Summary''),
      (''jobs.detail_log'', ''Detail log''),
      (''jobs.detail_hint'', ''Info/Warn/Error only '' @ [CHR 0xE2, CHR 0x80, CHR 0x94] @ '' newest entries at the bottom.''),
      (''jobs.log_tail_note'', ''Showing the last %d of %d log lines.''),
      (''jobs.no_detail_log'', ''No detail log (job from before job_logs, or still empty).''),
      (''jobs.bytes'', ''bytes''),
      (''jobs.snapshot'', ''Snapshot''),
      (''jobs.overview_title'', ''Running jobs''),
      (''jobs.overview_hint'', ''All tenants. The list refreshes automatically.''),
      (''jobs.overview_empty'', ''No backup is running right now.''),
      (''jobs.overview_recent'', ''Recent''),
      (''jobs.type_full'', ''Full''),
      (''jobs.type_delta'', ''Incremental''),
      (''snapshots.files'', ''files''),
      (''snapshots.empty'', ''No snapshots yet.''),
      (''pst.col.run'', ''Run''),
      (''pst.col.scope'', ''Scope''),
      (''pst.col.user'', ''User''),
      (''pst.col.mails'', ''Mails''),
      (''pst.col.size'', ''Size''),
      (''pst.col.files'', ''Files''),
      (''pst.empty'', ''No exports yet.''),
      (''pst.scope_legend'', ''What to export?''),
      (''pst.scope_all'', ''All mailboxes''),
      (''pst.scope_mailbox'', ''One mailbox''),
      (''pst.scope_folder'', ''One folder of a mailbox''),
      (''pst.mailbox'', ''Mailbox''),
      (''pst.mailbox_pick'', ''Choose mailbox'' @ [CHR 0xE2, CHR 0x80, CHR 0xA6]),
      (''pst.folder'', ''Folder''),
      (''pst.folder_pick'', ''Choose folder'' @ [CHR 0xE2, CHR 0x80, CHR 0xA6]),
      (''pst.no_mailboxes'', ''No Exchange catalog yet '' @ [CHR 0xE2, CHR 0x80, CHR 0x94] @ '' run an Exchange backup first.''),
      (''browser.title'', ''File browser''),
      (''browser.hint'', ''Pick a service '' @ [CHR 0xE2, CHR 0x86, CHR 0x92] @ '' browse files '' @ [CHR 0xE2, CHR 0x86, CHR 0x92] @ '' switch version in the timeline below.''),
      (''browser.storage_total'', ''Total storage''),
      (''browser.service'', ''Service''),
      (''browser.versions'', ''Versions''),
      (''browser.live_title'', ''Current''),
      (''browser.live_hint'', ''Live catalog state after the last backup''),
      (''browser.files_count'', ''files''),
      (''browser.no_snapshots'', ''No snapshots yet for''),
      (''browser.files'', ''Files''),
      (''browser.search_ph'', ''Search: subject, from, to, UPN '' @ [CHR 0xE2, CHR 0x80, CHR 0xA6]),
      (''browser.search_results'', ''Search results for''),
      (''browser.max_500'', ''(max. 500)''),
      (''browser.parent'', [CHR 0xE2, CHR 0x86, CHR 0x91] @ '' Parent''),
      (''browser.col.subject'', ''Subject / name''),
      (''browser.col.from'', ''From''),
      (''browser.col.to'', ''To''),
      (''browser.col.received'', ''Received''),
      (''browser.col.size'', ''Size''),
      (''browser.page_of'', ''Page''),
      (''browser.prev'', ''Previous''),
      (''browser.next'', ''Next''),
      (''browser.no_hits'', ''No matches.''),
      (''browser.no_files'', ''No files in this version.''),
      (''browser.pick_version'', ''Pick a version in the timeline below to see files.''),
      (''browser.pick_service'', ''Pick a service above.''),
      (''snapbrowse.title'', ''Browse snapshot''),
      (''snapbrowse.search_ph'', ''Search: name, UPN, path, .eml '' @ [CHR 0xE2, CHR 0x80, CHR 0xA6]),
      (''snapbrowse.results'', ''Search results for''),
      (''snapbrowse.max'', ''(max. 500 hits)''),
      (''snapbrowse.col.name'', ''Name / path''),
      (''snapbrowse.empty'', ''Empty '' @ [CHR 0xE2, CHR 0x80, CHR 0x94] @ '' no files in this snapshot (e.g. skips without mailbox). Retry after a full Exchange backup with user pagination.''),
      (''restore.title'', ''Restore''),
      (''restore.snapshot'', ''Snapshot''),
      (''restore.mode'', ''Mode''),
      (''restore.mode_zip'', ''Download ZIP (Exchange EML / Teams archive / files)''),
      (''restore.mode_graph'', ''Upload to Graph (OneDrive / SharePoint)''),
      (''restore.service'', ''Service (for Graph upload)''),
      (''restore.submit'', ''Restore''),
      (''restore.hint'', ''Teams restores are archive-only (ZIP). Graph upload requires Files.ReadWrite.All (or equivalent) on the app registration.''),
      (''recovery.title'', ''Offline recovery (catalog + blobs)''),
      (''recovery.repo'', ''Store''),
      (''recovery.new_callout'', ''Save this now. The store password is only stored encrypted in the DB. Without an offline copy you cannot decrypt blobs and manifests if the app/DB is lost '' @ [CHR 0xE2, CHR 0x80, CHR 0x94] @ '' MASTER_KEY alone does not open the store.''),
      (''recovery.old_callout'', ''For disaster recovery you need the store path + this password (not MASTER_KEY). Store the file offline (password manager / paper / offline vault).''),
      (''recovery.password'', ''Store password''),
      (''recovery.after_reveal'', ''Then close the page '' @ [CHR 0xE2, CHR 0x80, CHR 0x94] @ '' the password should not stay in browser URL history.''),
      (''recovery.export_title'', ''Export (admin password required)''),
      (''recovery.admin_password'', ''Admin password''),
      (''recovery.reveal'', ''Reveal''),
      (''recovery.download'', ''Download recovery file (.txt)''),
      (''recovery.back'', [CHR 0xE2, CHR 0x86, CHR 0x90] @ '' Back to tenant''),
      (''recovery.bad_password'', ''Wrong admin password.''),
      (''recovery.save_now'', ''Save this now.''),
      (''recovery.need_both'', ''store path + this password''),
      (''settings.title'', ''Settings''),
      (''settings.notify_title'', ''Notifications''),
      (''settings.signed_in'', ''Signed in as''),
      (''settings.tokens_title'', ''API tokens''),
      (''settings.tokens_hint'', ''Bearer tokens for /api. Read = GET only. Read+write = all methods. The UI still uses username and password at login.''),
      (''settings.token_once'', ''Shown only once '' @ [CHR 0xE2, CHR 0x80, CHR 0x94] @ '' copy and store it safely:''),
      (''settings.token_name'', ''Name''),
      (''settings.token_scope'', ''Access''),
      (''settings.token_prefix'', ''Prefix''),
      (''settings.token_read'', ''Read''),
      (''settings.token_write'', ''Read and write''),
      (''settings.token_create'', ''Create token''),
      (''settings.token_delete_confirm'', ''Really delete this token?''),
      (''settings.channel'', ''Channel''),
      (''settings.notify_on'', ''Notify on (comma-separated)''),
      (''settings.smtp'', ''SMTP''),
      (''settings.host'', ''Host''),
      (''settings.port'', ''Port''),
      (''settings.username'', ''Username''),
      (''settings.password'', ''Password''),
      (''settings.from'', ''From''),
      (''settings.to'', ''To (comma-separated)''),
      (''settings.webhook'', ''Webhook''),
      (''settings.url'', ''URL''),
      (''settings.format'', ''Format''),
      (''settings.pushover'', ''Pushover''),
      (''settings.pushover_hint'', ''Keys from pushover.net. Priority 2 (Emergency) retries until acknowledged.''),
      (''settings.user_key'', ''User Key''),
      (''settings.app_token'', ''Application Token''),
      (''settings.device'', ''Device (optional)''),
      (''settings.msg_title'', ''Message title''),
      (''settings.priority'', ''Priority''),
      (''settings.sound_alert'', ''Sound '' @ [CHR 0xE2, CHR 0x80, CHR 0x94] @ '' alert (errors / warnings / key expiry)''),
      (''settings.sound_ok'', ''Sound '' @ [CHR 0xE2, CHR 0x80, CHR 0x94] @ '' OK (success / restore)''),
      (''settings.ttl'', ''Message TTL (seconds, optional)''),
      (''settings.retry'', ''Emergency retry (seconds, min 30)''),
      (''settings.expire'', ''Emergency expire (seconds, max 86400)''),
      (''settings.save_channel'', ''Save channel''),
      (''settings.enabled'', ''enabled''),
      (''settings.on'', ''on''),
      (''openapi.title'', ''OpenAPI''),
      (''openapi.live'', ''Live spec for this instance''),
      (''openapi.download'', ''Download openapi.yaml''),
      (''openapi.base'', ''Base''),
      (''tenant_new.title'', ''Add tenant''),
      (''tenant_new.intro'', ''Prepare the app registration in the Microsoft tenant first, then enter the values here and grant admin consent.''),
      (''tenant_new.name'', ''Display name (company)''),
      (''tenant_new.azure_id'', ''Azure tenant ID (Directory ID)''),
      (''tenant_new.client_id'', ''Application (client) ID''),
      (''tenant_new.client_secret'', ''Client secret (Value)''),
      (''tenant_new.secret_expires'', ''Secret expires (from the portal)''),
      (''tenant_new.submit'', ''Create tenant''),
      (''tenant_new.copy'', ''Copy'')]"

definition en_texts :: "(string \<times> string) list" where
  "en_texts = en_texts_1 @ en_texts_2"

section \<open>Choosing a language\<close>

record i18n_Catalog = cat_Lang :: string

definition catalogs :: "string \<Rightarrow> (string \<times> string) list option" where
  "catalogs lang = (if lang = ''de'' then Some de_texts else if lang = ''en'' then Some en_texts else None)"

definition Normalize :: "string \<Rightarrow> string" where
  "Normalize lang0 =
     (let lang = strings_ToLower (strings_TrimSpace lang0)
      in if lang = ''en'' \<or> strings_HasPrefix lang ''en'' then ''en'' else ''de'')"

definition i18n_New :: "string \<Rightarrow> i18n_Catalog" where
  "i18n_New lang = \<lparr>cat_Lang = Normalize lang\<rparr>"

definition catalog_text :: "string \<Rightarrow> string \<Rightarrow> string option" where
  "catalog_text lang key = (case catalogs lang of None \<Rightarrow> None | Some m \<Rightarrow> map_of m key)"

definition Catalog_T :: "i18n_Catalog \<Rightarrow> string \<Rightarrow> string" where
  "Catalog_T c key =
     (case catalog_text (cat_Lang c) key of
        Some s \<Rightarrow> s
      | None \<Rightarrow>
          (case (if cat_Lang c \<noteq> ''de'' then catalog_text ''de'' key else None) of
             Some s \<Rightarrow> s
           | None \<Rightarrow> key))"

text \<open>The loop of \<open>parseQ\<close>: the whole part, the digits of the fraction and their scale, and whether the point was read.\<close>

fun q_loop :: "string \<Rightarrow> rat \<Rightarrow> rat \<Rightarrow> rat \<Rightarrow> bool \<Rightarrow> rat" where
  "q_loop [] v fr scale dot = (if dot \<and> scale > 0 then v + fr / scale else v)"
| "q_loop (c # cs) v fr scale dot =
     (let d = of_nat (of_char c - 48)
      in if is_digit c then (if dot then q_loop cs v (fr * 10 + d) (scale * 10) dot else q_loop cs (v * 10 + d) fr scale dot)
         else if c = CHR ''.'' \<and> \<not> dot then q_loop cs v fr 1 True
         else q_loop [] v fr scale dot)"

definition parseQ :: "string \<Rightarrow> rat" where
  "parseQ s = q_loop (strings_TrimSpace s) 0 0 0 False"

text \<open>The tag and the weight of one part of the header.\<close>

definition language_tag :: "string \<Rightarrow> string \<times> rat" where
  "language_tag part =
     (case strings_Index part '';'' of
        None \<Rightarrow> (part, 1)
      | Some i \<Rightarrow>
          (let rest = drop (Suc i) part
           in (strings_TrimSpace (take i part),
               case strings_Index (strings_ToLower rest) ''q='' of None \<Rightarrow> 0 | Some j \<Rightarrow> parseQ (drop (j + 2) rest))))"

fun best_language :: "string list \<Rightarrow> string \<times> rat \<Rightarrow> string" where
  "best_language [] (best, bestQ) = best"
| "best_language (p # ps) (best, bestQ) =
     (let part = strings_TrimSpace p; (tag0, q) = language_tag part; tag = strings_ToLower tag0;
          cand = (if tag = ''en'' \<or> strings_HasPrefix tag ''en-'' then Some ''en''
                  else if tag = ''de'' \<or> strings_HasPrefix tag ''de-'' then Some ''de'' else None)
      in if part = [] then best_language ps (best, bestQ)
         else case cand of
                None \<Rightarrow> best_language ps (best, bestQ)
              | Some l \<Rightarrow> best_language ps (if q > bestQ then (l, q) else (best, bestQ)))"

definition parseAcceptLanguage :: "string \<Rightarrow> string" where
  "parseAcceptLanguage h = (if h = [] then ''de'' else best_language (strings_Split (CHR '','') h) (''de'', -1))"

definition FromRequest :: "request \<Rightarrow> string" where
  "FromRequest r =
     (case map_of (r_Cookies r) ''lang'' of
        Some (c # cs) \<Rightarrow> Normalize (c # cs)
      | _ \<Rightarrow> Normalize (parseAcceptLanguage (get_value (r_Headers r) ''Accept-Language'')))"

definition SetCookie :: "string \<Rightarrow> cookie" where
  "SetCookie lang = \<lparr>ck_Value = Normalize lang, ck_MaxAge = 365 * 24 * 60 * 60, ck_Secure = True\<rparr>"

text \<open>The cookie of this response is the one named \<open>lang\<close>.\<close>

definition handleSetLang :: "request \<Rightarrow> 'v response" where
  "handleSetLang r = RedirectSet (SetCookie (get_value (r_Params r) ''lang'')) (langRedirectTarget (get_value (r_Query r) ''next''))"

section \<open>Properties\<close>

lemma same_keys: "map fst en_texts = map fst de_texts"
  by (simp add: en_texts_def de_texts_def en_texts_1_def de_texts_1_def en_texts_2_def de_texts_2_def)

lemma map_of_Some_key: "k \<in> fst ` set xs \<Longrightarrow> \<exists>v. map_of xs k = Some v"
  by (metis map_of_eq_None_iff not_Some_eq)

lemma Normalize_cases: "Normalize l = ''de'' \<or> Normalize l = ''en''"
  by (auto simp: Normalize_def Let_def)

lemma Normalize_known: "Normalize (Normalize l) = Normalize l"
proof -
  have "Normalize ''de'' = ''de''" "Normalize ''en'' = ''en''" by code_simp+
  then show ?thesis using Normalize_cases [of l] by auto
qed

lemma best_language_known: "b \<in> {''de'', ''en''} \<Longrightarrow> best_language ps (b, q) \<in> {''de'', ''en''}"
  by (induction ps arbitrary: b q) (auto simp: Let_def split: prod.splits)

text \<open>
  C34: every text is translated. For each key of the German table and whatever language was asked for, the catalog gives the
  text of that key in the table of the chosen language; neither the German text nor the key takes its place.
\<close>

theorem Catalog_T_complete:
  assumes "key \<in> fst ` set de_texts"
  shows "map_of (if Normalize lang = ''en'' then en_texts else de_texts) key = Some (Catalog_T (i18n_New lang) key)"
proof -
  have "key \<in> fst ` set en_texts" using assms same_keys by (metis list.set_map)
  then obtain d e where "map_of de_texts key = Some d" "map_of en_texts key = Some e"
    using assms map_of_Some_key by metis
  then show ?thesis
    using Normalize_cases [of lang] by (auto simp: Catalog_T_def i18n_New_def catalog_text_def catalogs_def)
qed

theorem Catalog_T_complete_witness:
  "map_of en_texts ''nav.tenants'' = Some (Catalog_T (i18n_New ''en-US'') ''nav.tenants'')"
proof -
  have "hd de_texts = (''nav.tenants'', ''Tenants'')" "de_texts \<noteq> []"
    by (simp_all only: de_texts_def de_texts_1_def append_Cons list.sel list.distinct not_False_eq_True)
  then have "''nav.tenants'' \<in> fst ` set de_texts" by (metis fst_conv hd_in_set image_eqI)
  moreover have "Normalize ''en-US'' = ''en''" by code_simp
  ultimately show ?thesis using Catalog_T_complete [of "''nav.tenants''" "''en-US''"] by simp
qed

text \<open>
  A chosen language stays. After the page for choosing a language, a request with the cookie it set is answered in that
  language, whatever its \<open>Accept-Language\<close> header says; the cookie is one of the two languages, and the redirect goes to one of
  the pages of the server.
\<close>

theorem handleSetLang_stays:
  "\<exists>ck target. handleSetLang r = RedirectSet ck target \<and> ck_Value ck \<in> {''de'', ''en''} \<and>
     target \<in> {''/settings'', ''/jobs'', ''/login'', ''/openapi'', ''/openapi.yaml'', ''/tenants''} \<and>
     FromRequest (r'\<lparr>r_Cookies := (''lang'', ck_Value ck) # cs\<rparr>) = Normalize (get_value (r_Params r) ''lang'')"
proof -
  let ?l = "Normalize (get_value (r_Params r) ''lang'')"
  have "FromRequest (r'\<lparr>r_Cookies := (''lang'', ?l) # cs\<rparr>) = ?l"
    using Normalize_cases [of "get_value (r_Params r) ''lang''"] Normalize_known [of "get_value (r_Params r) ''lang''"]
    by (auto simp: FromRequest_def)
  moreover have "langRedirectTarget s \<in> {''/settings'', ''/jobs'', ''/login'', ''/openapi'', ''/openapi.yaml'', ''/tenants''}" for s
    by (auto simp: langRedirectTarget_def Let_def)
  ultimately show ?thesis
    using Normalize_cases [of "get_value (r_Params r) ''lang''"] by (auto simp: handleSetLang_def SetCookie_def)
qed

end
