(* ===== verification/Spec2Isabelle.thy ===== *)
theory Spec2Isabelle
  imports Api_Props Catalog_Refinement Graph_Restore Notification_Props Routing Startup_Props Translations
begin

text \<open>
  Verification of M365-Backup, a server that copies mailboxes, drives, Teams channels and SharePoint libraries of
  Microsoft 365 tenants into an encrypted, deduplicated store and keeps generations of them.

  \<^bold>\<open>The program.\<close> An HTTP server (\<open>internal/api\<close>), a scheduler and the command line start \<^emph>\<open>jobs\<close>. The runner
  (\<open>internal/backup/job.go\<close>) queues them in the database (\<open>internal/db\<close>), runs each in a goroutine behind two
  semaphores and a gate per tenant and service, and calls the backup of the service (\<open>exchange.go\<close>, \<open>onedrive.go\<close>,
  \<open>teams.go\<close>, \<open>sharepoint.go\<close>, \<open>pst.go\<close>). A service reads changes from Microsoft Graph (\<open>internal/graph\<close>) and
  records them in the catalog of the tenant (\<open>internal/catalog\<close>): rows of items in the database and contents in the
  blob store (\<open>internal/blobstore\<close>). At the end of a job the catalog commits a generation with an encrypted manifest,
  the retention policy (\<open>internal/storage/retention.go\<close>) selects the generations to keep, and the contents that are no
  longer needed are deleted. Notifications (\<open>internal/notification\<close>) report failures and secrets about to expire.

  \<^bold>\<open>The model.\<close> Go functions are HOL functions of the same names. A function that touches the world is a value of
  type \<open>('w, 'a) io\<close> (theory \<open>Go_IO\<close>): from a state to a result or a Go error, and a state. The state is an extensible
  record that grows with the layers: clock, identifiers and the \<^emph>\<open>fault script\<close> (\<open>Go_IO\<close>), the disk (\<open>Disk\<close>), random
  bytes (\<open>Go_Crypto\<close>), the tables (\<open>Database\<close>), the memory of a catalog (\<open>Catalog\<close>), of the runner (\<open>Job_Runner\<close>) and
  of the notifier (\<open>Notification\<close>). Each call that can fail (a statement, a file operation, a request) takes one entry of
  the fault script, an error or none; a theorem about every script is a theorem about every combination of failures, and
  \<open>undisturbed\<close> in a text means that no entry is an error. A write that fails may leave any part of the data (\<open>torn\<close>).

  \<^bold>\<open>Theories and the code they model.\<close>

  \<^item> \<open>Go_Prelude\<close>, \<open>Go_IO\<close>, \<open>Civil_Time\<close>, \<open>Go_Json\<close>, \<open>Go_Struct\<close>, \<open>Go_Mime\<close>, \<open>Net_Addr\<close>, \<open>Go_Crypto\<close>, \<open>Disk\<close>: what the
    program uses of the language and its standard library (\<open>strings\<close>, \<open>strconv\<close>, \<open>path\<close>, \<open>time\<close>, \<open>encoding/json\<close>,
    \<open>mime\<close>, \<open>net\<close>, \<open>net/url\<close>, \<open>os\<close>). \<open>Go_Crypto\<close> defines SHA-256, AES-256-GCM, hexadecimal and base64.
  \<^item> \<open>Paths\<close>: \<open>storage/restore.go\<close>, \<open>paths.go\<close>, \<open>snapshotid.go\<close>, the guards of \<open>browse.go\<close>, \<open>sanitize\<close>.
  \<^item> \<open>Blob_Store\<close>: \<open>blobstore/store.go\<close>. \<open>Retention\<close>, \<open>Retention_Json\<close>: \<open>storage/retention.go\<close>. \<open>Usage\<close>:
    \<open>storage/usage.go\<close>, \<open>annotate.go\<close>.
  \<^item> \<open>Database\<close>: \<open>db/job.go\<close>, \<open>job_log.go\<close>, \<open>tenant.go\<close>, \<open>token.go\<close>, texts of \<open>db.go\<close>.
  \<^item> \<open>Catalog\<close>: \<open>catalog/store.go\<close>, \<open>types.go\<close>, \<open>crypto.go\<close>; \<open>Catalog_Props\<close>, \<open>Catalog_Snapshots\<close> and
    \<open>Catalog_Reconcile\<close> hold its lemmas; \<open>Catalog_Retention\<close>: \<open>catalog/retention.go\<close>; \<open>Catalog_Import\<close>:
    \<open>catalog/import.go\<close>.
  \<^item> \<open>Tenants\<close>: \<open>crypto/cipher.go\<close>, \<open>tenant/manager.go\<close>, \<open>tenant/consent.go\<close>.
  \<^item> \<open>Backup_Service\<close>: \<open>backup/service.go\<close>, \<open>progress.go\<close>, \<open>heartbeat.go\<close>, \<open>delta.go\<close>, \<open>reuse.go\<close>.
  \<^item> \<open>Job_Runner\<close>, \<open>Job_Run\<close>: \<open>backup/job.go\<close> as functions; \<open>Export_Runs\<close>: the export runs of \<open>storage/exports.go\<close>.
    \<open>Runner_Threads\<close>: the goroutines as a step relation, a step per critical section of \<open>runJob\<close>, interleaved with
    requests; \<open>Runner_Locks\<close>, \<open>Runner_Jobs\<close>, \<open>Runner_Props\<close>: its reachable states.
  \<^item> \<open>Graph_Services\<close>: \<open>graph/client.go\<close>, \<open>teams.go\<close>, \<open>sharepoint.go\<close>. \<open>Delta_Sync\<close>: what \<open>exchange.go\<close> and
    \<open>onedrive.go\<close> share. \<open>OneDrive\<close>, \<open>Exchange\<close>: the two services; \<open>Sync_Items\<close>, \<open>OneDrive_Props\<close>, \<open>Exchange_Props\<close>:
    their lemmas. \<open>PST_Export\<close>, \<open>PST_Props\<close>: \<open>pst.go\<close>, \<open>catalog/zip.go\<close>, \<open>storage/exports.go\<close>.
  \<^item> \<open>Notification\<close>, \<open>Notification_Props\<close>: \<open>notification/service.go\<close>, \<open>ssrf.go\<close>, \<open>tenant/keycheck.go\<close>.
  \<^item> \<open>Server\<close>: the registry and the runner of \<open>cmd/server/main.go\<close>.
  \<^item> \<open>Auth\<close>, \<open>Auth_Props\<close>: \<open>api/auth.go\<close>, \<open>db/user.go\<close> and the login handlers. \<open>Watchdog\<close>: \<open>backup/watchdog.go\<close>.
    \<open>Scheduler\<close>: \<open>backup/scheduler.go\<close>. \<open>Server_Ops\<close>: these parts at a concrete server.
  \<^item> \<open>Catalog_Browse\<close>: \<open>catalog/browse.go\<close>. \<open>Catalog_Refinement\<close>: the catalog as an implementation of a map from
    identifiers to contents.
  \<^item> \<open>Restore\<close>: \<open>cmd/restore\<close>, \<open>ExportZip\<close> of \<open>catalog/zip.go\<close>, \<open>ZipDirCounted\<close> of \<open>storage/restore.go\<close>. \<open>Usage_Scan\<close>:
    \<open>storage/usage.go\<close>, \<open>backup/usage.go\<close>, \<open>db/usage.go\<close>, the usage queries of \<open>catalog/zip.go\<close>.
  \<^item> \<open>Api_Base\<close>, \<open>Api\<close>: the handlers of \<open>api/router.go\<close> and \<open>jobs_overview.go\<close>, with \<open>job_logs.go\<close>, \<open>redact.go\<close> and
    \<open>langRedirectTarget\<close> of \<open>render.go\<close>. \<open>Api_Isolation\<close>: what a handler leaves of the other tenants. \<open>Api_Props\<close>: further
    properties of the handlers.
  \<^item> \<open>Startup\<close>: \<open>config/config.go\<close>, opening and migrating the database (\<open>db/db.go\<close>), \<open>TryRunnerLock\<close> and \<open>main\<close> of
    \<open>cmd/server\<close>. \<open>Startup_Props\<close>: starts that fail, starts of a second instance, the state after a start.
  \<^item> \<open>Eml_Build\<close>: \<open>backup/emlbuild.go\<close>, \<open>eml_fallback.go\<close>. \<open>Eml_Props\<close>: reading back what they build.
  \<^item> \<open>Routing\<close>: \<open>Router\<close> of \<open>api/router.go\<close>, the routes behind the guard of \<open>Auth\<close>.
  \<^item> \<open>Graph_Restore\<close>: \<open>graphUploadRestore\<close> and further handlers of \<open>api/router.go\<close>, \<open>CollectFilesUnder\<close> of \<open>storage/restore.go\<close>.
    \<open>Translations\<close>: \<open>internal/i18n\<close> and the handler for the language of \<open>api/render.go\<close>.

  \<^bold>\<open>What the lemmas show.\<close> The path guards accept exactly the paths below their root. The blob store and the catalog
  keep their invariants (\<open>cas_ok\<close>, \<open>cat_inv\<close>) under every fault script, so that a row of the catalog always has its
  content; a committed generation is complete and readable; reconciliation, retention and garbage collection remove
  exactly what they are meant to, and where they remove more this is proved as well. The retention policy keeps exactly
  the stated generations, at least one per covered slot and not more than a bound. The runner keeps the table of jobs
  consistent, never runs two jobs of one tenant and service at once, and every job ends. No service loses an item without
  a warning. Mails cannot be injected into, webhooks cannot reach blocked addresses. Secrets, consent states, policies and
  imported paths survive their encodings, and so do messages that are rebuilt from JSON. What was committed can be restored, by the server and by the offline command. No
  route but the public ones is served without permission, a handler changes nothing of another tenant, and the recovery page shows
  the password of a store only to a user who repeats theirs. A start that fails leaves the database so that the next one
  can go on, a second instance changes nothing, and the server starts with no active job and no session.

  \<^bold>\<open>Interfaces.\<close> The locales state what one part relies on in another: \<open>content_store\<close> of \<open>Blob_Store\<close> is what the catalog
  needs of the store of contents, \<open>runner_env\<close> of \<open>Runner_Jobs\<close> what the runner needs of the services it calls,
  \<open>open_frame\<close> and \<open>start_frame\<close> of \<open>Startup_Props\<close> what the steps of a start leave alone. Each is interpreted on the definitions of the model.

  \<^bold>\<open>Bounds and fuel.\<close> Every recursion of the code that could go on has either a measure or the bound of the source: a
  folder tree is read to depth 20 as in \<open>listChildFolders\<close>, a download is tried three times. The pages of a listing come
  from Graph, which may never end them; \<open>g_pages\<close> of the client bounds how many are read, and running into it is the
  error \<open>page_bound\<close>. The parser of JSON has fuel \<open>2 * length + 2\<close>, which every text needs less of. A goroutine takes at
  most twelve steps (\<open>Runner_Locks\<close>).

  \<^bold>\<open>Parameters.\<close> The Graph SDK (records \<open>graph_sdk\<close>, \<open>mail_sdk\<close>), the router chi, the zip format, the codec of manifests, the
  recognition of UUIDs, time zones and durations of the host (record \<open>host\<close>), media types, and times in JSON are arguments of
  the definitions; what is assumed of them are named hypotheses of the theorems that need them.

  \<^bold>\<open>Not modelled.\<close> Templates and static files (\<open>render\<close>, \<open>web\<close>), the document of the API, the browsing of extracted
  directories and the reading of headers from files (only tests use them), the HTTP server and the SDKs.
\<close>

end
